(* ===== verification/Prelude.thy ===== *)
theory Prelude
  imports Main
begin

text \<open>
  What every component of the development shares: the collections of hints, and the generic
  lemmas on lists of rows that the data-access layer is written with.

  A database table is the list of its rows in insertion order. \<open>find_where\<close> is a single-row
  SELECT, \<open>update_where\<close> an UPDATE, \<open>delete_where\<close> a DELETE and \<open>next_id\<close> the row id SQLite gives
  to a new row of a table whose key is an INTEGER PRIMARY KEY (one more than the largest).
\<close>

section \<open>Collections of hints\<close>

named_theorems returns_simps "what a successful run of an action says of its parts"
named_theorems hoare_intros "the rules of the Hoare calculus of actions"
named_theorems row_simps "lookups and key sets after a change of a table"
named_theorems role_simps "the rank and the permissions of a role"

section \<open>Tables as lists of rows\<close>

definition find_where :: "('r \<Rightarrow> bool) \<Rightarrow> 'r list \<Rightarrow> 'r option" where
  "find_where p rows = List.find p rows"

definition update_where :: "('r \<Rightarrow> bool) \<Rightarrow> ('r \<Rightarrow> 'r) \<Rightarrow> 'r list \<Rightarrow> 'r list" where
  "update_where p f rows = map (\<lambda>r. if p r then f r else r) rows"

definition delete_where :: "('r \<Rightarrow> bool) \<Rightarrow> 'r list \<Rightarrow> 'r list" where
  "delete_where p rows = filter (\<lambda>r. \<not> p r) rows"

definition count_where :: "('r \<Rightarrow> bool) \<Rightarrow> 'r list \<Rightarrow> int" where
  "count_where p rows = int (length (filter p rows))"

definition exists_where :: "('r \<Rightarrow> bool) \<Rightarrow> 'r list \<Rightarrow> bool" where
  "exists_where p rows = list_ex p rows"

definition next_id :: "int list \<Rightarrow> int" where
  "next_id ids = 1 + fold max ids 0"

definition unique_on :: "('r \<Rightarrow> 'k) \<Rightarrow> 'r list \<Rightarrow> bool" where
  "unique_on key rows = distinct (map key rows)"

lemma exists_where_iff [simp]: "exists_where p rows \<longleftrightarrow> (\<exists>r \<in> set rows. p r)"
  by (simp add: exists_where_def list_ex_iff)

lemma count_where_pos [simp]: "0 < count_where p rows \<longleftrightarrow> (\<exists>r \<in> set rows. p r)"
  by (auto simp: count_where_def filter_empty_conv)

lemma count_where_zero [simp]: "count_where p rows = 0 \<longleftrightarrow> (\<forall>r \<in> set rows. \<not> p r)"
  by (auto simp: count_where_def filter_empty_conv)

lemma count_where_nonneg [simp]: "0 \<le> count_where p rows"
  by (simp add: count_where_def)

lemma set_delete_where [simp]: "set (delete_where p rows) = {r \<in> set rows. \<not> p r}"
  by (auto simp: delete_where_def)

lemma set_update_where:
  "set (update_where p f rows) = {r \<in> set rows. \<not> p r} \<union> f ` {r \<in> set rows. p r}"
  by (auto simp: update_where_def)

lemma ball_update_where:
  "(\<forall>r \<in> set (update_where p f rows). P r) \<longleftrightarrow> (\<forall>r \<in> set rows. P (if p r then f r else r))"
  by (auto simp: update_where_def)

lemma bex_update_where:
  "(\<exists>r \<in> set (update_where p f rows). P r) \<longleftrightarrow> (\<exists>r \<in> set rows. P (if p r then f r else r))"
  by (auto simp: update_where_def)

lemma find_where_None: "find_where p rows = None \<longleftrightarrow> (\<forall>r \<in> set rows. \<not> p r)"
  by (auto simp: find_where_def find_None_iff)

lemma find_where_SomeD: "find_where p rows = Some r \<Longrightarrow> r \<in> set rows \<and> p r"
  by (auto simp: find_where_def find_Some_iff)

lemma find_where_Nil [simp]: "find_where p [] = None"
  by (simp add: find_where_def)

lemma find_where_Cons:
  "find_where p (r # rows) = (if p r then Some r else find_where p rows)"
  by (simp add: find_where_def)

lemma find_where_append:
  "find_where p (xs @ ys) = (case find_where p xs of None \<Rightarrow> find_where p ys | Some r \<Rightarrow> Some r)"
  by (induction xs) (auto simp: find_where_Cons)

lemma find_where_ex: "r \<in> set rows \<Longrightarrow> p r \<Longrightarrow> \<exists>r'. find_where p rows = Some r'"
  using find_where_None [of p rows] by auto

text \<open>Under a key, a lookup by that key finds exactly the row with it.\<close>

lemma unique_onD:
  "unique_on key rows \<Longrightarrow> r \<in> set rows \<Longrightarrow> s \<in> set rows \<Longrightarrow> key r = key s \<Longrightarrow> r = s"
  unfolding unique_on_def distinct_map by (auto dest: inj_onD)

lemma find_where_key:
  assumes "unique_on key rows" and "r \<in> set rows" and "key r = k"
  shows "find_where (\<lambda>s. key s = k) rows = Some r"
  using assms
  by (metis (mono_tags, lifting) find_where_SomeD find_where_ex unique_onD)

lemma unique_on_Nil [simp]: "unique_on key []"
  by (simp add: unique_on_def)

lemma unique_on_append1:
  "unique_on key (rows @ [r]) \<longleftrightarrow> unique_on key rows \<and> (\<forall>s \<in> set rows. key s \<noteq> key r)"
  unfolding unique_on_def by (auto simp: image_iff)

lemma unique_on_delete: "unique_on key rows \<Longrightarrow> unique_on key (delete_where p rows)"
  by (simp add: unique_on_def delete_where_def distinct_map_filter)

lemma unique_on_update:
  assumes "\<And>r. key (f r) = key r"
  shows "unique_on key (update_where p f rows) = unique_on key rows"
proof -
  have "map key (update_where p f rows) = map key rows"
    by (simp add: update_where_def assms)
  then show ?thesis by (simp add: unique_on_def)
qed

lemma find_where_update_key:
  assumes "\<And>r. key (f r) = key r"
  shows "find_where (\<lambda>s. key s = k) (update_where p f rows) =
         map_option (\<lambda>r. if p r then f r else r) (find_where (\<lambda>s. key s = k) rows)"
  using assms by (induction rows) (auto simp: find_where_Cons update_where_def)

section \<open>Fresh row ids\<close>

lemma fold_max_mono: "(a::int) \<le> b \<Longrightarrow> fold max ids a \<le> fold max ids b"
  by (induction ids arbitrary: a b) auto

lemma fold_max_init: "(a::int) \<le> fold max ids a"
proof (induction ids arbitrary: a)
  case (Cons x xs)
  have "a \<le> max x a" by simp
  also have "\<dots> \<le> fold max xs (max x a)" by (rule Cons.IH)
  finally show ?case by simp
qed simp

lemma fold_max_mem: "(x::int) \<in> set ids \<Longrightarrow> x \<le> fold max ids a"
proof (induction ids arbitrary: a)
  case (Cons y ys)
  show ?case
  proof (cases "x = y")
    case True
    have "x \<le> max y a" using True by simp
    also have "\<dots> \<le> fold max ys (max y a)" by (rule fold_max_init)
    finally show ?thesis by simp
  next
    case False
    with Cons show ?thesis by simp
  qed
qed simp

lemma next_id_fresh: "x \<in> set ids \<Longrightarrow> x < next_id ids"
  using fold_max_mem [of x ids 0] by (simp add: next_id_def)

lemma next_id_pos: "0 < next_id ids"
  using fold_max_init [of 0 ids] by (simp add: next_id_def)

lemma next_id_not_in: "next_id ids \<notin> set ids"
  using next_id_fresh by blast

lemma next_id_neq [simp]: "r \<in> set rows \<Longrightarrow> key r \<noteq> next_id (map key rows)"
  by (metis image_eqI list.set_map next_id_not_in)

end
