(* ===== verification/Go_Strings.thy ===== *)
theory Go_Strings
  imports Prelude "HOL-Library.Sublist" "HOL-Library.Char_ord" "HOL-Library.List_Lexorder"
begin

text \<open>
  The functions of Go's \<open>strings\<close> package the program calls, over byte strings (a Go string is a
  byte sequence; a HOL \<open>char\<close> is one byte).

  \<open>TrimSpace\<close> is exact: it cuts the UTF-8 encodings of all 25 Unicode white space characters.
  \<open>ToLower\<close> and \<open>EqualFold\<close> are exact on every letter with an ASCII counterpart: A to Z, and the
  non-ASCII letters whose lower case or case fold is an ASCII letter (U+0130 and U+212A to lower
  case, U+017F and U+212A under folding). Every other non-ASCII letter is left as it is, where Go
  would map it to another non-ASCII letter: no definition of the development tells the two apart
  but for the length of such a name, because the names that pass validation are ASCII.
\<close>

section \<open>Bytes\<close>

definition byte :: "char \<Rightarrow> nat" where
  "byte c = of_char c"

definition chr :: "nat \<Rightarrow> char" where
  "chr n = char_of n"

definition is_digit :: "char \<Rightarrow> bool" where
  "is_digit c \<longleftrightarrow> 48 \<le> byte c \<and> byte c \<le> 57"

definition is_lower :: "char \<Rightarrow> bool" where
  "is_lower c \<longleftrightarrow> 97 \<le> byte c \<and> byte c \<le> 122"

definition is_upper :: "char \<Rightarrow> bool" where
  "is_upper c \<longleftrightarrow> 65 \<le> byte c \<and> byte c \<le> 90"

definition lower_char :: "char \<Rightarrow> char" where
  "lower_char c = (if is_upper c then chr (byte c + 32) else c)"

lemma byte_less: "byte c < 256"
  by (simp add: byte_def)

lemma byte_chr: "n < 256 \<Longrightarrow> byte (chr n) = n"
  by (simp add: byte_def chr_def)

lemma byte_inject: "byte a = byte b \<longleftrightarrow> a = b"
  by (simp add: byte_def)

lemma is_upper_lower_char: "\<not> is_upper (lower_char c)"
  by (simp add: lower_char_def is_upper_def byte_chr)

lemma lower_char_lower [simp]: "is_lower c \<Longrightarrow> lower_char c = c"
  by (simp add: lower_char_def is_lower_def is_upper_def)

lemma lower_char_digit [simp]: "is_digit c \<Longrightarrow> lower_char c = c"
  by (simp add: lower_char_def is_digit_def is_upper_def)

section \<open>Prefixes, suffixes, substrings\<close>

definition HasPrefix :: "string \<Rightarrow> string \<Rightarrow> bool" where
  "HasPrefix s p = prefix p s"

definition HasSuffix :: "string \<Rightarrow> string \<Rightarrow> bool" where
  "HasSuffix s p = suffix p s"

definition TrimPrefix :: "string \<Rightarrow> string \<Rightarrow> string" where
  "TrimPrefix s p = (if HasPrefix s p then drop (length p) s else s)"

definition TrimSuffix :: "string \<Rightarrow> string \<Rightarrow> string" where
  "TrimSuffix s p = (if HasSuffix s p then take (length s - length p) s else s)"

fun Contains :: "string \<Rightarrow> string \<Rightarrow> bool" where
  "Contains [] t = (t = [])"
| "Contains (c # s) t = (prefix t (c # s) \<or> Contains s t)"

lemma Contains_iff: "Contains s t \<longleftrightarrow> (\<exists>u v. s = u @ t @ v)"
proof (induction s)
  case (Cons c s)
  show ?case
  proof
    assume "Contains (c # s) t"
    then consider "prefix t (c # s)" | "Contains s t" by auto
    then show "\<exists>u v. c # s = u @ t @ v"
    proof cases
      case 1
      then obtain v where "c # s = t @ v" by (auto simp: prefix_def)
      then have "c # s = [] @ t @ v" by simp
      then show ?thesis by blast
    next
      case 2
      with Cons.IH obtain u v where "s = u @ t @ v" by blast
      then have "c # s = (c # u) @ t @ v" by simp
      then show ?thesis by blast
    qed
  next
    assume "\<exists>u v. c # s = u @ t @ v"
    then obtain u v where uv: "c # s = u @ t @ v" by blast
    show "Contains (c # s) t"
    proof (cases u)
      case Nil
      with uv have "prefix t (c # s)" by (simp add: prefix_def)
      then show ?thesis by simp
    next
      case (Cons d us)
      with uv have "s = us @ t @ v" by simp
      with \<open>Contains s t \<longleftrightarrow> (\<exists>u v. s = u @ t @ v)\<close> show ?thesis by auto
    qed
  qed
qed simp

definition LastIndexByte :: "string \<Rightarrow> char \<Rightarrow> int" where
  "LastIndexByte s c =
     (let r = takeWhile (\<lambda>x. x \<noteq> c) (rev s)
      in if length r = length s then -1 else int (length s - length r - 1))"

text \<open>\<open>strings.Cut (s, sep)\<close> for one byte: what is before and after the first \<open>sep\<close>.\<close>

definition Cut :: "char \<Rightarrow> string \<Rightarrow> (string \<times> string) option" where
  "Cut sep s =
     (let a = takeWhile (\<lambda>c. c \<noteq> sep) s
      in if length a = length s then None else Some (a, drop (length a + 1) s))"

lemma Cut_append: "sep \<notin> set a \<Longrightarrow> Cut sep (a @ sep # r) = Some (a, r)"
proof -
  assume "sep \<notin> set a"
  then have "takeWhile (\<lambda>c. c \<noteq> sep) (a @ sep # r) = a"
    by (subst takeWhile_append2) auto
  then show ?thesis by (simp add: Cut_def)
qed

lemma Cut_SomeD: "Cut sep s = Some (a, r) \<Longrightarrow> s = a @ sep # r"
proof -
  assume s: "Cut sep s = Some (a, r)"
  let ?a = "takeWhile (\<lambda>c. c \<noteq> sep) s"
  let ?d = "dropWhile (\<lambda>c. c \<noteq> sep) s"
  have app: "?a @ ?d = s" by simp
  from s have "length ?a \<noteq> length s" by (auto simp: Cut_def Let_def split: if_splits)
  with app have "?d \<noteq> []" by (metis append_Nil2)
  then obtain c d where d: "?d = c # d" "c = sep"
    using hd_dropWhile [of "\<lambda>c. c \<noteq> sep" s] by (cases ?d) auto
  have "drop (length ?a + 1) s = d"
    using d app by (metis Suc_eq_plus1 append_eq_conv_conj drop_Suc list.sel(3) tl_drop)
  with s d app show ?thesis
    by (auto simp: Cut_def Let_def split: if_splits)
qed

fun split_on :: "char \<Rightarrow> string \<Rightarrow> string list" where
  "split_on sep [] = [[]]"
| "split_on sep (c # s) =
     (if c = sep then [] # split_on sep s
      else case split_on sep s of [] \<Rightarrow> [[c]] | w # ws \<Rightarrow> (c # w) # ws)"

fun join :: "string \<Rightarrow> string list \<Rightarrow> string" where
  "join sep [] = []"
| "join sep [w] = w"
| "join sep (w # v # ws) = w @ sep @ join sep (v # ws)"

lemma split_on_nonempty [simp]: "split_on sep s \<noteq> []"
  by (induction s) (auto split: list.splits)

lemma set_split_on: "w \<in> set (split_on sep s) \<Longrightarrow> set w \<subseteq> set s - {sep}"
  by (induction s arbitrary: w) (fastforce split: list.splits if_splits)+

lemma split_on_none: "sep \<notin> set s \<Longrightarrow> split_on sep s = [s]"
  by (induction s) auto

lemma split_on_append: "sep \<notin> set a \<Longrightarrow> split_on sep (a @ sep # r) = a # split_on sep r"
  by (induction a) auto

lemma join_split_on: "join [sep] (split_on sep s) = s"
proof (induction s)
  case (Cons c s)
  show ?case
  proof (cases "split_on sep s")
    case Nil
    then show ?thesis by simp
  next
    case (Cons w ws)
    with Cons.IH show ?thesis by (cases ws) auto
  qed
qed simp

lemma split_on_join:
  "ws \<noteq> [] \<Longrightarrow> \<forall>w \<in> set ws. sep \<notin> set w \<Longrightarrow> split_on sep (join [sep] ws) = ws"
proof (induction ws rule: induct_list012)
  case (2 w)
  then show ?case by (simp add: split_on_none)
next
  case (3 w v ws)
  then show ?case by (simp add: split_on_append)
qed simp

lemma join_nonempty: "ws \<noteq> [] \<Longrightarrow> [] \<notin> set ws \<Longrightarrow> join sep ws \<noteq> []"
  by (induction ws rule: induct_list012) auto

lemma Contains_append_iff:
  "Contains (a @ sep # r) t \<longleftrightarrow> Contains a t \<or> Contains r t" if "sep \<notin> set t"
proof -
  have split: "(\<exists>u v. a @ sep # r = u @ t @ v) \<longleftrightarrow> (\<exists>u v. a = u @ t @ v) \<or> (\<exists>u v. r = u @ t @ v)"
  proof
    assume "\<exists>u v. a @ sep # r = u @ t @ v"
    then obtain u v where eq: "(a @ [sep]) @ r = u @ t @ v" by auto
    then consider m where "a @ [sep] = u @ m" "m @ r = t @ v" | m where "(a @ [sep]) @ m = u" "r = m @ t @ v"
      unfolding append_eq_append_conv2 by blast
    then show "(\<exists>u v. a = u @ t @ v) \<or> (\<exists>u v. r = u @ t @ v)"
    proof cases
      case 1
      note whole = this
      from whole(2) consider w where "m = t @ w" "w @ r = v" | w where "m @ w = t" "r = w @ v"
        unfolding append_eq_append_conv2 by blast
      then show ?thesis
      proof cases
        case 1
        then show ?thesis
        proof (cases w rule: rev_cases)
          case Nil
          with 1 whole(1) that have "t = []" by (cases t rule: rev_cases) auto
          then show ?thesis by auto
        next
          case (snoc w' c)
          with 1 whole(1) have "a = u @ t @ w'" by simp
          then show ?thesis by blast
        qed
      next
        case 2
        then have "sep \<notin> set m" using that by auto
        then have "m = []" using whole(1) by (cases m rule: rev_cases) auto
        with whole(2) have "r = [] @ t @ v" by simp
        then show ?thesis by blast
      qed
    qed blast
  next
    assume "(\<exists>u v. a = u @ t @ v) \<or> (\<exists>u v. r = u @ t @ v)"
    then show "\<exists>u v. a @ sep # r = u @ t @ v" by (metis append.assoc append_Cons)
  qed
  show ?thesis by (simp add: Contains_iff split)
qed

lemma Contains_join:
  assumes "sep \<notin> set t" and "t \<noteq> []"
  shows "Contains (join [sep] ws) t \<longleftrightarrow> (\<exists>w \<in> set ws. Contains w t)"
proof (induction ws rule: induct_list012)
  case (3 w v ws)
  then show ?case using assms(1) by (simp add: Contains_append_iff)
qed (use assms in simp_all)

lemma Contains_split_on:
  assumes "sep \<notin> set t" and "t \<noteq> []"
  shows "Contains s t \<longleftrightarrow> (\<exists>w \<in> set (split_on sep s). Contains w t)"
  using Contains_join [OF assms, of "split_on sep s"] by (simp add: join_split_on)

section \<open>White space\<close>

definition go_spaces :: "string list" where
  "go_spaces = map (map chr)
     ([[9], [10], [11], [12], [13], [32], [194, 133], [194, 160], [225, 154, 128]]
      @ map (\<lambda>n. [226, 128, n]) ([128 ..< 139] @ [168, 169, 175])
      @ [[226, 129, 159], [227, 128, 128]])"

lemma go_spaces_nonempty [simp]: "[] \<notin> set go_spaces"
  by (auto simp: go_spaces_def)

function strip_left :: "string list \<Rightarrow> string \<Rightarrow> string" where
  "strip_left ps s =
     (case List.find (\<lambda>p. p \<noteq> [] \<and> prefix p s) ps of
        None \<Rightarrow> s
      | Some p \<Rightarrow> strip_left ps (drop (length p) s))"
  by pat_completeness auto
termination
  by (relation "measure (\<lambda>(ps, s). length s)")
     (auto simp: find_Some_iff prefix_def split: option.splits)

declare strip_left.simps [simp del]

definition TrimSpace :: "string \<Rightarrow> string" where
  "TrimSpace s = rev (strip_left (map rev go_spaces) (rev (strip_left go_spaces s)))"

lemma strip_left_suffix: "suffix (strip_left ps s) s"
proof (induction ps s rule: strip_left.induct)
  case (1 ps s)
  show ?case
  proof (cases "List.find (\<lambda>p. p \<noteq> [] \<and> prefix p s) ps")
    case None
    then show ?thesis by (simp add: strip_left.simps [of ps s])
  next
    case (Some p)
    with 1 have "suffix (strip_left ps (drop (length p) s)) (drop (length p) s)" by simp
    with Some show ?thesis
      by (simp add: strip_left.simps [of ps s])
         (metis suffix_drop suffix_order.trans)
  qed
qed

lemma strip_left_clean: "p \<in> set ps \<Longrightarrow> p \<noteq> [] \<Longrightarrow> \<not> prefix p (strip_left ps s)"
proof (induction ps s rule: strip_left.induct)
  case (1 ps s)
  show ?case
  proof (cases "List.find (\<lambda>p. p \<noteq> [] \<and> prefix p s) ps")
    case None
    then have "strip_left ps s = s" by (simp add: strip_left.simps [of ps s])
    with None 1(2,3) show ?thesis by (auto simp: find_None_iff)
  next
    case (Some q)
    with 1 show ?thesis by (simp add: strip_left.simps [of ps s])
  qed
qed

lemma strip_left_id:
  assumes "\<And>p. p \<in> set ps \<Longrightarrow> p \<noteq> [] \<Longrightarrow> \<not> prefix p s"
  shows "strip_left ps s = s"
proof -
  have "List.find (\<lambda>p. p \<noteq> [] \<and> prefix p s) ps = None"
    using assms by (auto simp: find_None_iff)
  then show ?thesis by (simp add: strip_left.simps [of ps s])
qed

lemma strip_left_Nil [simp]: "strip_left ps [] = []"
  by (rule strip_left_id) auto

lemma TrimSpace_Nil [simp]: "TrimSpace [] = []"
  by (simp add: TrimSpace_def)

lemma set_TrimSpace: "set (TrimSpace s) \<subseteq> set s"
  unfolding TrimSpace_def
  by (metis set_mono_suffix set_rev strip_left_suffix subset_trans)

lemma TrimSpace_idem: "TrimSpace (TrimSpace s) = TrimSpace s"
proof -
  let ?l = "strip_left go_spaces s"
  let ?t = "strip_left (map rev go_spaces) (rev ?l)"
  have "prefix (rev ?t) ?l"
    using strip_left_suffix [of "map rev go_spaces" "rev ?l"]
    by (simp add: suffix_to_prefix)
  moreover have "\<not> prefix p ?l" if "p \<in> set go_spaces" "p \<noteq> []" for p
    using that by (rule strip_left_clean)
  ultimately have left: "strip_left go_spaces (rev ?t) = rev ?t"
    by (meson prefix_order.trans strip_left_id)
  have right: "strip_left (map rev go_spaces) ?t = ?t"
    by (meson strip_left_clean strip_left_id)
  show ?thesis by (simp add: TrimSpace_def left right)
qed

text \<open>A string with no byte of a white space character is left as it is.\<close>

definition plain_byte :: "char \<Rightarrow> bool" where
  "plain_byte c \<longleftrightarrow> 33 \<le> byte c \<and> byte c < 128"

lemma go_spaces_not_plain:
  assumes "p \<in> set go_spaces" "c \<in> set p"
  shows "\<not> plain_byte c"
proof -
  have "\<forall>p \<in> set go_spaces. \<forall>c \<in> set p. \<not> plain_byte c"
    by (auto simp: go_spaces_def plain_byte_def byte_chr)
  with assms show ?thesis by blast
qed

lemma TrimSpace_plain: "list_all plain_byte s \<Longrightarrow> TrimSpace s = s"
proof -
  assume plain: "list_all plain_byte s"
  have no: "\<not> prefix p t" if "p \<in> set ps" "p \<noteq> []" "set t \<subseteq> set s"
    "ps = go_spaces \<or> ps = map rev go_spaces" for p ps t
  proof
    assume "prefix p t"
    then have "hd p \<in> set t" using \<open>p \<noteq> []\<close>
      by (meson hd_in_set set_mono_prefix subsetD)
    with that(3) plain have "plain_byte (hd p)" by (auto simp: list_all_iff)
    moreover have "\<exists>q \<in> set go_spaces. set p = set q"
      using that(1,4) by (metis (no_types, lifting) imageE list.set_map set_rev)
    then have "\<exists>q \<in> set go_spaces. hd p \<in> set q"
      using \<open>p \<noteq> []\<close> hd_in_set by blast
    ultimately show False using go_spaces_not_plain by blast
  qed
  have "strip_left go_spaces s = s"
    using no by (intro strip_left_id) auto
  moreover have "strip_left (map rev go_spaces) (rev s) = rev s"
    by (rule strip_left_id, rule no [of _ "map rev go_spaces"]) auto
  ultimately show ?thesis by (simp add: TrimSpace_def)
qed

lemma plain_no_space:
  assumes "s \<noteq> []" and "plain_byte (hd s)" and "p \<noteq> []" and "p \<in> set go_spaces \<or> rev p \<in> set go_spaces"
  shows "\<not> prefix p s"
proof
  assume "prefix p s"
  with assms(3) have "hd s \<in> set p" by (auto simp: prefix_def neq_Nil_conv)
  with assms(2,4) go_spaces_not_plain [of p "hd s"] go_spaces_not_plain [of "rev p" "hd s"] show False by auto
qed

lemma TrimSpace_ends:
  assumes "s \<noteq> []" and "plain_byte (hd s)" and "plain_byte (last s)"
  shows "TrimSpace s = s"
proof -
  have "strip_left go_spaces s = s"
    using plain_no_space [of s] assms by (intro strip_left_id) auto
  moreover have "strip_left (map rev go_spaces) (rev s) = rev s"
    using plain_no_space [of "rev s"] assms by (intro strip_left_id) (auto simp: hd_rev)
  ultimately show ?thesis by (simp add: TrimSpace_def)
qed

lemma go_spaces_split:
  "\<exists>rest. go_spaces = [chr 9] # [chr 10] # [chr 11] # [chr 12] # [chr 13] # [chr 32] # rest"
  by (simp add: go_spaces_def)

lemma control_chars:
  "chr 9 = CHR 0x09" "chr 10 = CHR 0x0A" "chr 11 = CHR 0x0B" "chr 12 = CHR 0x0C" "chr 13 = CHR 0x0D"
  "chr 32 = CHR '' ''"
  by code_simp+

lemma TrimSpace_trailing:
  assumes "w \<noteq> []" and "list_all plain_byte w"
  shows "TrimSpace (w @ '' '') = w"
proof -
  have ends: "plain_byte (hd w)" "plain_byte (hd (rev w))" using assms by (auto simp: list_all_iff hd_rev)
  have "strip_left go_spaces (w @ '' '') = w @ '' ''"
    using plain_no_space [of "w @ '' ''"] assms(1) ends by (intro strip_left_id) auto
  moreover have "strip_left (map rev go_spaces) (rev (w @ '' '')) = strip_left (map rev go_spaces) (rev w)"
  proof -
    obtain rest where r: "go_spaces = [CHR 0x09] # [CHR 0x0A] # [CHR 0x0B] # [CHR 0x0C] # [CHR 0x0D] # '' '' # rest"
      using go_spaces_split unfolding control_chars by blast
    have "List.find (\<lambda>p. p \<noteq> [] \<and> prefix p (CHR '' '' # rev w)) (map rev go_spaces) = Some '' ''"
      unfolding r by simp
    then show ?thesis by (simp add: strip_left.simps [of _ "CHR '' '' # rev w"])
  qed
  moreover have "strip_left (map rev go_spaces) (rev w) = rev w"
    using plain_no_space [of "rev w"] assms(1) ends by (intro strip_left_id) auto
  ultimately show ?thesis by (simp add: TrimSpace_def)
qed

section \<open>Case\<close>

text \<open>U+0130 is \<open>C4 B0\<close>, U+017F is \<open>C5 BF\<close> and U+212A is \<open>E2 84 AA\<close> in UTF-8.\<close>

fun lower_runes :: "(string \<times> string) list \<Rightarrow> string \<Rightarrow> string" where
  "lower_runes tbl [] = []"
| "lower_runes tbl [a] = [lower_char a]"
| "lower_runes tbl [a, b] =
     (case map_of tbl [a, b] of Some t \<Rightarrow> t | None \<Rightarrow> lower_char a # lower_runes tbl [b])"
| "lower_runes tbl (a # b # c # s) =
     (case map_of tbl [a, b, c] of
        Some t \<Rightarrow> t @ lower_runes tbl s
      | None \<Rightarrow>
          (case map_of tbl [a, b] of
             Some t \<Rightarrow> t @ lower_runes tbl (c # s)
           | None \<Rightarrow> lower_char a # lower_runes tbl (b # c # s)))"

definition lower_table :: "(string \<times> string) list" where
  "lower_table = [(map chr [196, 176], ''i''), (map chr [226, 132, 170], ''k'')]"

definition fold_table :: "(string \<times> string) list" where
  "fold_table = [(map chr [197, 191], ''s''), (map chr [226, 132, 170], ''k'')]"

definition ToLower :: "string \<Rightarrow> string" where
  "ToLower s = lower_runes lower_table s"

definition EqualFold :: "string \<Rightarrow> string \<Rightarrow> bool" where
  "EqualFold s t = (lower_runes fold_table s = lower_runes fold_table t)"

text \<open>U+0131 is \<open>C4 B1\<close> and U+017F is \<open>C5 BF\<close>: the non-ASCII letters whose upper case is ASCII.\<close>

definition upper_char :: "char \<Rightarrow> char" where
  "upper_char c = (if is_lower c then chr (byte c - 32) else c)"

fun ToUpper :: "string \<Rightarrow> string" where
  "ToUpper [] = []"
| "ToUpper [a] = [upper_char a]"
| "ToUpper (a # b # s) =
     (if byte a = 196 \<and> byte b = 177 then CHR ''I'' # ToUpper s
      else if byte a = 197 \<and> byte b = 191 then CHR ''S'' # ToUpper s
      else upper_char a # ToUpper (b # s))"

lemma upper_char_upper [simp]: "\<not> is_lower c \<Longrightarrow> upper_char c = c"
  by (simp add: upper_char_def)

lemma ToUpper_plain: "list_all plain_byte s \<Longrightarrow> ToUpper s = map upper_char s"
  by (induction s rule: ToUpper.induct) (auto simp: plain_byte_def)

text \<open>The letters of more than one byte start above ASCII.\<close>

definition ascii :: "char \<Rightarrow> bool" where
  "ascii c \<longleftrightarrow> byte c < 128"

lemma map_of_ascii_None:
  assumes "\<forall>k \<in> fst ` set tbl. k = [] \<or> \<not> ascii (hd k)" and "ascii a"
  shows "map_of tbl (a # s) = None"
proof -
  have "a # s \<notin> fst ` set tbl" using assms by force
  then show ?thesis by (simp add: map_of_eq_None_iff)
qed

lemma lower_table_keys: "\<forall>k \<in> fst ` set lower_table. k = [] \<or> \<not> ascii (hd k)"
  by (simp add: lower_table_def ascii_def byte_chr)

lemma lower_runes_ascii:
  assumes "\<forall>k \<in> fst ` set tbl. k = [] \<or> \<not> ascii (hd k)"
  shows "list_all ascii s \<Longrightarrow> lower_runes tbl s = map lower_char s"
  using assms
proof (induction tbl s rule: lower_runes.induct)
  case (3 tbl a b)
  then show ?case by (simp add: map_of_ascii_None)
next
  case (4 tbl a b c s)
  then show ?case by (simp add: map_of_ascii_None)
qed simp_all

lemma ToLower_ascii: "list_all ascii s \<Longrightarrow> ToLower s = map lower_char s"
  unfolding ToLower_def by (rule lower_runes_ascii [OF lower_table_keys])

lemma ToLower_plain: "list_all plain_byte s \<Longrightarrow> ToLower s = map lower_char s"
  by (rule ToLower_ascii) (auto simp: list_all_iff plain_byte_def ascii_def)

lemma ToLower_Nil [simp]: "ToLower [] = []"
  by (simp add: ToLower_def)

text \<open>No letter A to Z survives \<open>ToLower\<close>.\<close>

lemma lower_runes_no_upper:
  assumes "\<forall>t \<in> snd ` set tbl. \<forall>c \<in> set t. \<not> is_upper c"
  shows "c \<in> set (lower_runes tbl s) \<Longrightarrow> \<not> is_upper c"
proof -
  have tbl: "\<not> is_upper c" if "map_of tbl k = Some t" "c \<in> set t" for k t c
    using assms that by (force dest: map_of_SomeD)
  have "\<forall>c \<in> set (lower_runes tbl' s). \<not> is_upper c" if "tbl' = tbl" for tbl'
    using that
  proof (induction tbl' s rule: lower_runes.induct)
    case (3 tbl' a b)
    then show ?case by (auto simp: is_upper_lower_char dest: tbl split: option.split)
  next
    case (4 tbl' a b c s)
    then show ?case by (auto simp: is_upper_lower_char dest: tbl split: option.split)
  qed (auto simp: is_upper_lower_char)
  then show "c \<in> set (lower_runes tbl s) \<Longrightarrow> \<not> is_upper c" by blast
qed

lemma ToLower_no_upper: "c \<in> set (ToLower s) \<Longrightarrow> \<not> is_upper c"
  unfolding ToLower_def
  by (rule lower_runes_no_upper [of lower_table]) (auto simp: lower_table_def is_upper_def byte_def)

section \<open>Runes\<close>

text \<open>
  Go reads a string rune by rune by decoding UTF-8: the rune and its width in bytes, and
  U+FFFD with width 1 on a byte that starts no valid sequence.
\<close>

definition cont_byte :: "nat \<Rightarrow> bool" where
  "cont_byte b \<longleftrightarrow> 128 \<le> b \<and> b \<le> 191"

definition second_byte :: "nat \<Rightarrow> nat \<Rightarrow> bool" where
  "second_byte b0 b1 \<longleftrightarrow>
     (if b0 = 224 then 160 \<le> b1 \<and> b1 \<le> 191
      else if b0 = 237 then 128 \<le> b1 \<and> b1 \<le> 159
      else if b0 = 240 then 144 \<le> b1 \<and> b1 \<le> 191
      else if b0 = 244 then 128 \<le> b1 \<and> b1 \<le> 143
      else cont_byte b1)"

definition decode_rune :: "nat list \<Rightarrow> nat \<times> nat" where
  "decode_rune s =
     (case s of
        [] \<Rightarrow> (65533, 0)
      | b0 # t \<Rightarrow>
          if b0 < 128 then (b0, 1)
          else if 194 \<le> b0 \<and> b0 \<le> 223 \<and> 1 \<le> length t \<and> cont_byte (t ! 0)
          then ((b0 - 192) * 64 + (t ! 0 - 128), 2)
          else if 224 \<le> b0 \<and> b0 \<le> 239 \<and> 2 \<le> length t \<and> second_byte b0 (t ! 0) \<and> cont_byte (t ! 1)
          then ((b0 - 224) * 4096 + (t ! 0 - 128) * 64 + (t ! 1 - 128), 3)
          else if 240 \<le> b0 \<and> b0 \<le> 244 \<and> 3 \<le> length t \<and> second_byte b0 (t ! 0)
                  \<and> cont_byte (t ! 1) \<and> cont_byte (t ! 2)
          then ((b0 - 240) * 262144 + (t ! 0 - 128) * 4096 + (t ! 1 - 128) * 64 + (t ! 2 - 128), 4)
          else (65533, 1))"

function runes_of :: "nat list \<Rightarrow> nat list" where
  "runes_of s = (if s = [] then []
                 else fst (decode_rune s) # runes_of (drop (max 1 (snd (decode_rune s))) s))"
  by pat_completeness auto
termination
  by (relation "measure length") auto

declare runes_of.simps [simp del]

definition runes :: "string \<Rightarrow> nat list" where
  "runes s = runes_of (map byte s)"

lemma runes_of_Nil [simp]: "runes_of [] = []"
  by (simp add: runes_of.simps)

lemma runes_of_ascii: "list_all (\<lambda>b. b < 128) s \<Longrightarrow> runes_of s = s"
proof (induction s)
  case (Cons b s)
  then show ?case by (simp add: runes_of.simps [of "b # s"] decode_rune_def)
qed simp

lemma length_runes_of: "length (runes_of s) \<le> length s"
proof (induction s rule: runes_of.induct)
  case (1 s)
  show ?case
  proof (cases s)
    case (Cons b t)
    with 1 show ?thesis by (simp add: runes_of.simps [of "b # t"])
  qed simp
qed

end
