(* ===== verification/Errors.thy ===== *)
theory Errors
  imports Go_Strings
begin

text \<open>
  The error values of the modelled packages, as one datatype, and the text their \<open>Error\<close>
  method gives where the code carries that text on. A fallible Go function is a HOL function
  into \<open>err + 'a\<close>: \<open>Inl\<close> its error return, \<open>Inr\<close> its result.
\<close>

datatype err =
    \<comment> \<open>\<^verbatim>\<open>src/src/user\<close>\<close>
    ErrUnknownRole
  | ErrUnknownMode
  | ErrNameLength
  | ErrNameFormat
  | ErrNameReserved
  | ErrEmailFormat
  | ErrEmailLength
  | ErrPasswordLength
  | ErrPasswordComposition
  | ErrDomainFormat
    \<comment> \<open>\<^verbatim>\<open>src/src/security/token.go\<close>\<close>
  | ErrInvalidScope string
  | ErrInvalidTokenFormat
  | ErrUnknownTokenType string
  | ErrInvalidLength
  | ErrUnknownExpiration string
    \<comment> \<open>\<^verbatim>\<open>src/src/security/password.go\<close>, \<^verbatim>\<open>totp.go\<close> and \<^verbatim>\<open>encrypt.go\<close>; the text a wrapped
        sentinel carries on is dropped\<close>
  | ErrInvalidHash
  | ErrIncompatibleAlgorithm
  | ErrIncompatibleVersion
  | ErrInvalidParams
  | ErrInvalidTOTPSecret
  | ErrInvalidKey
  | ErrInvalidCiphertext
  | ErrKeyVersionMismatch
  | ErrDecryptFailed
  | ErrInvalidKeyVersion
    \<comment> \<open>\<^verbatim>\<open>src/src/server/store/store.go\<close>, and an error of the database driver or of another
        library with the text it carries\<close>
  | StoreNotFound
  | StoreConflict
  | LibError string
    \<comment> \<open>\<^verbatim>\<open>src/src/server/service/service.go\<close>: the sentinels and the field error\<close>
  | ErrInvalidCredentials
  | ErrAccountLocked
  | ErrNotFound
  | ErrForbidden
  | ErrConflict
  | ErrDisabled
  | ErrQuotaExceeded
  | FieldError string
    \<comment> \<open>\<^verbatim>\<open>src/src/server/service/domain.go\<close>: code, domain, detail\<close>
  | VerificationError string string string

fun user_error_text :: "err \<Rightarrow> string" where
  "user_error_text ErrNameLength = ''user: name must be 2 to 39 characters''"
| "user_error_text ErrNameFormat =
     ''user: name may contain only letters, numbers, and single hyphens between them''"
| "user_error_text ErrNameReserved = ''user: that name is reserved''"
| "user_error_text ErrEmailFormat = ''user: enter a valid email address''"
| "user_error_text ErrEmailLength = ''user: email address is too long''"
| "user_error_text ErrPasswordLength = ''user: password is too short''"
| "user_error_text ErrPasswordComposition =
     ''user: password must include the required character types''"
| "user_error_text ErrDomainFormat = ''user: enter a valid domain name''"
| "user_error_text _ = ''''"

end
