(* ===== verification/Go_Regex.thy ===== *)
theory Go_Regex
  imports Go_Strings
begin

text \<open>
  Regular expressions, as the program writes them for Go's \<open>regexp\<close> package: byte classes,
  sequence, alternation and repetition, matched against the whole string (every pattern of the
  program is anchored with \<open>^\<close> and \<open>$\<close>). \<open>rx_match\<close> is an executable matcher by derivatives;
  \<open>rx_match_iff\<close> shows that it decides the language \<open>rx_lang\<close>, which is the meaning of the
  pattern, so the validators built on a pattern are reasoned about through its language.
\<close>

datatype rx =
    RNone
  | REps
  | RCls "(nat \<times> nat) list"
  | RSeq rx rx
  | RAlt rx rx
  | RStar rx

definition in_cls :: "(nat \<times> nat) list \<Rightarrow> char \<Rightarrow> bool" where
  "in_cls rs c \<longleftrightarrow> (\<exists>(lo, hi) \<in> set rs. lo \<le> byte c \<and> byte c \<le> hi)"

definition RPlus :: "rx \<Rightarrow> rx" where
  "RPlus r = RSeq r (RStar r)"

definition ROpt :: "rx \<Rightarrow> rx" where
  "ROpt r = RAlt REps r"

fun RLit :: "string \<Rightarrow> rx" where
  "RLit [] = REps"
| "RLit (c # s) = RSeq (RCls [(byte c, byte c)]) (RLit s)"

fun RTimes :: "nat \<Rightarrow> rx \<Rightarrow> rx" where
  "RTimes 0 r = REps"
| "RTimes (Suc n) r = RSeq r (RTimes n r)"

section \<open>Language\<close>

inductive_set star_lang :: "string set \<Rightarrow> string set" for A where
  star_Nil: "[] \<in> star_lang A"
| star_Cons: "u \<in> A \<Longrightarrow> v \<in> star_lang A \<Longrightarrow> u @ v \<in> star_lang A"

primrec rx_lang :: "rx \<Rightarrow> string set" where
  "rx_lang RNone = {}"
| "rx_lang REps = {[]}"
| "rx_lang (RCls rs) = {[c] | c. in_cls rs c}"
| "rx_lang (RSeq r1 r2) = {u @ v | u v. u \<in> rx_lang r1 \<and> v \<in> rx_lang r2}"
| "rx_lang (RAlt r1 r2) = rx_lang r1 \<union> rx_lang r2"
| "rx_lang (RStar r) = star_lang (rx_lang r)"

section \<open>Matcher\<close>

primrec nullable :: "rx \<Rightarrow> bool" where
  "nullable RNone = False"
| "nullable REps = True"
| "nullable (RCls rs) = False"
| "nullable (RSeq r1 r2) = (nullable r1 \<and> nullable r2)"
| "nullable (RAlt r1 r2) = (nullable r1 \<or> nullable r2)"
| "nullable (RStar r) = True"

text \<open>The smart constructors keep the derivatives of a long string small.\<close>

definition mkSeq :: "rx \<Rightarrow> rx \<Rightarrow> rx" where
  "mkSeq a b = (if a = RNone \<or> b = RNone then RNone else if a = REps then b else RSeq a b)"

definition mkAlt :: "rx \<Rightarrow> rx \<Rightarrow> rx" where
  "mkAlt a b = (if a = RNone then b else if b = RNone \<or> a = b then a else RAlt a b)"

primrec deriv :: "char \<Rightarrow> rx \<Rightarrow> rx" where
  "deriv c RNone = RNone"
| "deriv c REps = RNone"
| "deriv c (RCls rs) = (if in_cls rs c then REps else RNone)"
| "deriv c (RSeq r1 r2) =
     (if nullable r1 then mkAlt (mkSeq (deriv c r1) r2) (deriv c r2) else mkSeq (deriv c r1) r2)"
| "deriv c (RAlt r1 r2) = mkAlt (deriv c r1) (deriv c r2)"
| "deriv c (RStar r) = mkSeq (deriv c r) (RStar r)"

fun rx_match :: "rx \<Rightarrow> string \<Rightarrow> bool" where
  "rx_match r [] = nullable r"
| "rx_match r (c # s) = rx_match (deriv c r) s"

lemma rx_lang_mkSeq: "rx_lang (mkSeq a b) = rx_lang (RSeq a b)"
  by (auto simp: mkSeq_def)

lemma rx_lang_mkAlt: "rx_lang (mkAlt a b) = rx_lang (RAlt a b)"
  by (auto simp: mkAlt_def)

lemma nullable_iff: "nullable r \<longleftrightarrow> [] \<in> rx_lang r"
  by (induction r) (auto intro: star_lang.intros)

lemma star_lang_Cons:
  "c # s \<in> star_lang A \<longleftrightarrow> (\<exists>u v. s = u @ v \<and> c # u \<in> A \<and> v \<in> star_lang A)"
proof
  assume "c # s \<in> star_lang A"
  then show "\<exists>u v. s = u @ v \<and> c # u \<in> A \<and> v \<in> star_lang A"
  proof (induction "c # s" arbitrary: s rule: star_lang.induct)
    case (star_Cons u v)
    then show ?case by (cases u) auto
  qed
next
  assume "\<exists>u v. s = u @ v \<and> c # u \<in> A \<and> v \<in> star_lang A"
  then obtain u v where "s = u @ v" "c # u \<in> A" "v \<in> star_lang A" by blast
  then show "c # s \<in> star_lang A"
    using star_lang.star_Cons [of "c # u" A v] by simp
qed

lemma rx_lang_deriv: "s \<in> rx_lang (deriv c r) \<longleftrightarrow> c # s \<in> rx_lang r"
proof (induction r arbitrary: s)
  case (RSeq r1 r2)
  have "c # s \<in> rx_lang (RSeq r1 r2) \<longleftrightarrow>
        (\<exists>u v. s = u @ v \<and> c # u \<in> rx_lang r1 \<and> v \<in> rx_lang r2)
        \<or> ([] \<in> rx_lang r1 \<and> c # s \<in> rx_lang r2)"
    by (auto simp: Cons_eq_append_conv)
  with RSeq show ?case
    by (auto simp: rx_lang_mkSeq rx_lang_mkAlt nullable_iff)
next
  case (RStar r)
  then show ?case by (auto simp: rx_lang_mkSeq star_lang_Cons)
qed (auto simp: rx_lang_mkAlt)

lemma rx_match_iff: "rx_match r s \<longleftrightarrow> s \<in> rx_lang r"
  by (induction s arbitrary: r) (simp_all add: nullable_iff rx_lang_deriv)

section \<open>Languages of the shapes the patterns use\<close>

lemma star_cls: "s \<in> star_lang {[c] | c. in_cls rs c} \<longleftrightarrow> list_all (in_cls rs) s"
  by (induction s) (auto simp: star_lang_Cons intro: star_lang.intros)

lemma rx_RStar_cls [simp]: "s \<in> rx_lang (RStar (RCls rs)) \<longleftrightarrow> list_all (in_cls rs) s"
  by (simp add: star_cls)

lemma rx_RSeq_cls_Nil [simp]: "[] \<notin> rx_lang (RSeq (RCls rs) r)"
  by simp

lemma rx_RSeq_cls_Cons [simp]:
  "c # t \<in> rx_lang (RSeq (RCls rs) r) \<longleftrightarrow> in_cls rs c \<and> t \<in> rx_lang r"
  unfolding rx_lang_deriv [symmetric] by (simp add: mkSeq_def)

lemma rx_RPlus_cls: "s \<in> rx_lang (RPlus (RCls rs)) \<longleftrightarrow> s \<noteq> [] \<and> list_all (in_cls rs) s"
  unfolding RPlus_def
  by (cases s) (simp_all add: star_cls del: rx_lang.simps(4))

lemma in_cls_single [simp]: "in_cls [(byte c, byte c)] a \<longleftrightarrow> a = c"
  by (metis (mono_tags, lifting) byte_inject dual_order.refl in_cls_def le_antisym
      list.set_intros(1) case_prodI empty_set list.set(2) prod.sel singletonD case_prodE)

lemma rx_RLit: "s \<in> rx_lang (RLit t) \<longleftrightarrow> s = t"
proof (induction t arbitrary: s)
  case (Cons c t)
  show ?case
  proof (cases s)
    case (Cons a u)
    have "a # u \<in> rx_lang (RLit (c # t)) \<longleftrightarrow> a = c \<and> u \<in> rx_lang (RLit t)"
      by (simp del: rx_lang.simps(4))
    with Cons.IH Cons show ?thesis by simp
  qed (simp del: rx_lang.simps(4))
qed simp

lemma rx_ROpt: "s \<in> rx_lang (ROpt r) \<longleftrightarrow> s = [] \<or> s \<in> rx_lang r"
  by (simp add: ROpt_def)

lemma rx_RTimes_cls:
  "s \<in> rx_lang (RTimes n (RCls rs)) \<longleftrightarrow> length s = n \<and> list_all (in_cls rs) s"
proof (induction n arbitrary: s)
  case (Suc n)
  then show ?case
    by (cases s) (auto simp del: rx_lang.simps(4))
qed auto

text \<open>Every byte of a matched string comes from a class of the pattern.\<close>

primrec rx_classes :: "rx \<Rightarrow> (nat \<times> nat) list" where
  "rx_classes RNone = []"
| "rx_classes REps = []"
| "rx_classes (RCls rs) = rs"
| "rx_classes (RSeq r1 r2) = rx_classes r1 @ rx_classes r2"
| "rx_classes (RAlt r1 r2) = rx_classes r1 @ rx_classes r2"
| "rx_classes (RStar r) = rx_classes r"

lemma in_cls_append [simp]: "in_cls (xs @ ys) c \<longleftrightarrow> in_cls xs c \<or> in_cls ys c"
  by (auto simp: in_cls_def)

lemma rx_lang_classes: "s \<in> rx_lang r \<Longrightarrow> list_all (in_cls (rx_classes r)) s"
proof (induction r arbitrary: s)
  case (RSeq r1 r2)
  then show ?case by (fastforce simp: list_all_iff)
next
  case (RAlt r1 r2)
  then show ?case by (fastforce simp: list_all_iff)
next
  case (RStar r)
  from RStar.prems have "s \<in> star_lang (rx_lang r)" by simp
  then show ?case
    using RStar.IH by (induction rule: star_lang.induct) (auto simp: list_all_iff)
qed (auto simp: list_all_iff)

end
