(* ===== verification/User_Names.thy ===== *)
theory User_Names
  imports Errors Go_Regex
begin

text \<open>
  \<^verbatim>\<open>src/src/user/validate.go\<close> and \<^verbatim>\<open>src/src/user/blocklist.go\<close>: the rules for names, email
  addresses, passwords and custom domains. The regular expressions are the source's patterns over
  byte classes. The tables of the \<open>unicode\<close> package beyond ASCII are the parameter \<open>uc\<close> of
  \<open>ValidatePassword\<close>.
\<close>

section \<open>Normal forms\<close>

definition NormalizeName :: "string \<Rightarrow> string" where
  "NormalizeName raw = ToLower (TrimSpace raw)"

definition NormalizeEmail :: "string \<Rightarrow> string" where
  "NormalizeEmail raw = ToLower (TrimSpace raw)"

section \<open>Reserved names\<close>

definition Blocklist :: "string list" where
  "Blocklist = [
    ''admin'', ''administrator'', ''root'', ''system'', ''sysadmin'', ''superuser'', ''master'',
    ''owner'', ''operator'', ''manager'', ''moderator'', ''mod'', ''staff'', ''support'',
    ''helpdesk'', ''help'', ''service'', ''daemon'', ''server'', ''host'', ''node'', ''cluster'',
    ''api'', ''www'', ''web'', ''mail'', ''email'', ''smtp'', ''ftp'', ''ssh'', ''dns'',
    ''proxy'', ''gateway'', ''router'', ''firewall'', ''localhost'', ''local'', ''internal'',
    ''external'', ''public'', ''private'', ''network'', ''database'', ''db'', ''cache'',
    ''redis'', ''mysql'', ''postgres'', ''mongodb'', ''elastic'', ''nginx'', ''apache'',
    ''docker'', ''healthz'', ''metrics'', ''swagger'', ''app'', ''application'', ''bot'',
    ''robot'', ''crawler'', ''spider'', ''scraper'', ''webhook'', ''callback'', ''cron'',
    ''scheduler'', ''worker'', ''queue'', ''job'', ''task'', ''process'', ''microservice'',
    ''lambda'', ''function'', ''auth'', ''authentication'', ''login'', ''logout'', ''signin'',
    ''signout'', ''signup'', ''register'', ''password'', ''passwd'', ''token'', ''oauth'',
    ''sso'', ''saml'', ''ldap'', ''kerberos'', ''security'', ''secure'', ''ssl'', ''tls'',
    ''certificate'', ''cert'', ''key'', ''secret'', ''credential'', ''session'', ''guest'',
    ''anonymous'', ''anon'', ''user'', ''users'', ''member'', ''members'', ''subscriber'',
    ''editor'', ''author'', ''contributor'', ''reviewer'', ''auditor'', ''analyst'',
    ''developer'', ''dev'', ''devops'', ''engineer'', ''architect'', ''designer'', ''tester'',
    ''qa'', ''billing'', ''finance'', ''legal'', ''hr'', ''sales'', ''marketing'', ''ceo'',
    ''cto'', ''cfo'', ''coo'', ''founder'', ''cofounder'', ''account'', ''accounts'',
    ''profile'', ''profiles'', ''settings'', ''config'', ''configuration'', ''dashboard'',
    ''panel'', ''console'', ''portal'', ''home'', ''index'', ''main'', ''default'', ''null'',
    ''nil'', ''undefined'', ''void'', ''true'', ''false'', ''test'', ''testing'', ''debug'',
    ''demo'', ''example'', ''sample'', ''temp'', ''temporary'', ''tmp'', ''backup'', ''archive'',
    ''log'', ''logs'', ''audit'', ''report'', ''reports'', ''analytics'', ''stats'', ''status'',
    ''about'', ''contact'', ''privacy'', ''terms'', ''docs'', ''rest'', ''graphql'', ''grpc'',
    ''websocket'', ''ws'', ''wss'', ''http'', ''https'', ''endpoint'', ''endpoints'', ''route'',
    ''routes'', ''path'', ''url'', ''uri'', ''hook'', ''hooks'', ''event'', ''events'',
    ''stream'', ''autodiscover'', ''blog'', ''news'', ''article'', ''articles'', ''post'',
    ''posts'', ''page'', ''pages'', ''feed'', ''rss'', ''atom'', ''sitemap'', ''robots'',
    ''favicon'', ''static'', ''assets'', ''images'', ''image'', ''img'', ''media'', ''upload'',
    ''uploads'', ''download'', ''downloads'', ''file'', ''files'', ''document'', ''documents'',
    ''message'', ''messages'', ''chat'', ''notification'', ''notifications'', ''alert'',
    ''alerts'', ''inbox'', ''outbox'', ''sent'', ''draft'', ''drafts'', ''spam'', ''abuse'',
    ''flag'', ''block'', ''mute'', ''ban'', ''shop'', ''store'', ''cart'', ''checkout'',
    ''order'', ''orders'', ''invoice'', ''invoices'', ''payment'', ''payments'',
    ''subscription'', ''subscriptions'', ''plan'', ''plans'', ''pricing'', ''refund'',
    ''coupon'', ''discount'', ''follow'', ''follower'', ''followers'', ''following'', ''friend'',
    ''friends'', ''like'', ''likes'', ''share'', ''shares'', ''comment'', ''comments'',
    ''reply'', ''mention'', ''mentions'', ''tag'', ''tags'', ''group'', ''groups'', ''team'',
    ''teams'', ''community'', ''communities'', ''forum'', ''forums'', ''channel'', ''channels'',
    ''official'', ''verified'', ''trusted'', ''partner'', ''affiliate'', ''sponsor'', ''brand'',
    ''trademark'', ''copyright'', ''policy'', ''policies'', ''tos'', ''eula'', ''gdpr'',
    ''dmca'', ''fuck'', ''shit'', ''ass'', ''bitch'', ''bastard'', ''damn'', ''cunt'', ''dick'',
    ''penis'', ''vagina'', ''sex'', ''porn'', ''xxx'', ''nude'', ''naked'', ''nsfw'', ''kill'',
    ''murder'', ''death'', ''die'', ''suicide'', ''hate'', ''nazi'', ''hitler'', ''racist'',
    ''racism'', ''terrorist'', ''terrorism'', ''isis'', ''alqaeda'', ''0'', ''1'', ''123'',
    ''1234'', ''12345'', ''000'', ''111'', ''666'', ''911'', ''420'', ''69'', ''info'',
    ''noreply'', ''no-reply'', ''donotreply'', ''mailer'', ''postmaster'', ''webmaster'',
    ''hostmaster'', ''junk'', ''trash'', ''redxt'', ''webappsgo'', ''ddns'', ''cve'', ''data'',
    ''rdap'', ''whoami'', ''ns1'', ''ns2'', ''wpad'', ''isatap'', ''administration'']"

definition substringBlocked :: "string list" where
  "substringBlocked = [''admin'', ''root'', ''system'', ''mod'', ''official'', ''verified'']"

definition IsBlocked :: "string \<Rightarrow> bool" where
  "IsBlocked name =
     (let lowered = ToLower (TrimSpace name)
      in if lowered = [] then True
         else if List.member Blocklist lowered then True
         else list_ex (\<lambda>term. Contains lowered term) substringBlocked)"

section \<open>Names\<close>

definition MinNameLength :: nat where "MinNameLength = 2"
definition MaxNameLength :: nat where "MaxNameLength = 39"
definition MaxEmailLength :: nat where "MaxEmailLength = 254"
definition MaxEmailLocalLength :: nat where "MaxEmailLocalLength = 64"
definition MaxEmailDomainLength :: nat where "MaxEmailDomainLength = 255"

definition rx_az :: rx where "rx_az = RCls [(97, 122)]"
definition rx_alnum :: rx where "rx_alnum = RCls [(97, 122), (48, 57)]"
definition rx_alnum_dash :: rx where "rx_alnum_dash = RCls [(97, 122), (48, 57), (45, 45)]"

definition namePattern :: rx where
  "namePattern = RSeq rx_alnum (ROpt (RSeq (RStar rx_alnum_dash) rx_alnum))"

definition ValidateName :: "string \<Rightarrow> err + string" where
  "ValidateName raw =
     (let name = NormalizeName raw
      in if length name < MinNameLength \<or> length name > MaxNameLength then Inl ErrNameLength
         else if \<not> rx_match namePattern name then Inl ErrNameFormat
         else if Contains name ''--'' then Inl ErrNameFormat
         else if IsBlocked name then Inl ErrNameReserved
         else Inr name)"

section \<open>Email addresses\<close>

definition emailLocalPattern :: rx where
  "emailLocalPattern =
     RPlus (RCls [(97, 122), (48, 57), (46, 46), (43, 43), (95, 95), (45, 45)])"

definition emailDomainPattern :: rx where
  "emailDomainPattern =
     RSeq rx_alnum (RSeq (RStar (RCls [(97, 122), (48, 57), (46, 46), (45, 45)]))
       (RSeq rx_alnum (RSeq (RLit ''.'') (RSeq rx_az (RPlus rx_az)))))"

definition ValidateEmail :: "string \<Rightarrow> err + string" where
  "ValidateEmail raw =
     (let email = NormalizeEmail raw
      in if email = [] \<or> length email > MaxEmailLength then Inl ErrEmailLength
         else
      let at = LastIndexByte email (CHR ''@'')
      in if at \<le> 0 \<or> at = int (length email) - 1 then Inl ErrEmailFormat
         else
      let local = take (nat at) email; domain = drop (nat at + 1) email
      in if length local > MaxEmailLocalLength \<or> length domain > MaxEmailDomainLength
         then Inl ErrEmailLength
         else if HasPrefix local ''.'' \<or> HasSuffix local ''.'' then Inl ErrEmailFormat
         else if Contains email ''..'' then Inl ErrEmailFormat
         else if \<not> rx_match emailLocalPattern local then Inl ErrEmailFormat
         else if \<not> rx_match emailDomainPattern domain then Inl ErrEmailFormat
         else Inr email)"

text \<open>The two loops return at the first entry that folds to the domain.\<close>

definition EmailDomainAllowed :: "string \<Rightarrow> string list \<Rightarrow> string list \<Rightarrow> bool" where
  "EmailDomainAllowed email allowed blocked =
     (let at = LastIndexByte email (CHR ''@'')
      in if at < 0 then False
         else
      let domain = drop (nat at + 1) email
      in if list_ex (\<lambda>entry. EqualFold (TrimSpace entry) domain) blocked then False
         else if allowed = [] then True
         else list_ex (\<lambda>entry. EqualFold (TrimSpace entry) domain) allowed)"

section \<open>Passwords\<close>

datatype rune_class = UpperRune | LowerRune | DigitRune | OtherRune

definition class_of_rune :: "(nat \<Rightarrow> rune_class) \<Rightarrow> nat \<Rightarrow> rune_class" where
  "class_of_rune uc r =
     (if r < 128 then
        (if 65 \<le> r \<and> r \<le> 90 then UpperRune
         else if 97 \<le> r \<and> r \<le> 122 then LowerRune
         else if 48 \<le> r \<and> r \<le> 57 then DigitRune
         else OtherRune)
      else uc r)"

record password_policy =
  MinLength :: int
  RequireUppercase :: bool
  RequireLowercase :: bool
  RequireNumber :: bool
  RequireSpecial :: bool

text \<open>The loop sets one of four flags per rune; a flag is set iff some rune has its class.\<close>

fun password_flags ::
  "(nat \<Rightarrow> rune_class) \<Rightarrow> nat list \<Rightarrow> bool \<times> bool \<times> bool \<times> bool \<Rightarrow> bool \<times> bool \<times> bool \<times> bool"
where
  "password_flags uc [] fl = fl"
| "password_flags uc (r # rs) (up, lo, nu, sp) =
     password_flags uc rs
       (case class_of_rune uc r of
          UpperRune \<Rightarrow> (True, lo, nu, sp)
        | LowerRune \<Rightarrow> (up, True, nu, sp)
        | DigitRune \<Rightarrow> (up, lo, True, sp)
        | OtherRune \<Rightarrow> (up, lo, nu, True))"

definition ValidatePassword ::
  "(nat \<Rightarrow> rune_class) \<Rightarrow> password_policy \<Rightarrow> string \<Rightarrow> err option"
where
  "ValidatePassword uc p password =
     (let minLength = (if MinLength p \<le> 0 then 8 else MinLength p)
      in if int (length (runes password)) < minLength then Some ErrPasswordLength
         else
      let (hasUpper, hasLower, hasNumber, hasSpecial) =
            password_flags uc (runes password) (False, False, False, False)
      in if RequireUppercase p \<and> \<not> hasUpper then Some ErrPasswordComposition
         else if RequireLowercase p \<and> \<not> hasLower then Some ErrPasswordComposition
         else if RequireNumber p \<and> \<not> hasNumber then Some ErrPasswordComposition
         else if RequireSpecial p \<and> \<not> hasSpecial then Some ErrPasswordComposition
         else None)"

section \<open>Login identifiers\<close>

datatype identifier_kind = IdentifierID | IdentifierEmail | IdentifierUsername

definition DetectIdentifier :: "string \<Rightarrow> identifier_kind" where
  "DetectIdentifier input =
     (let trimmed = TrimSpace input
      in if trimmed = [] then IdentifierUsername
         else if Contains trimmed ''@'' then IdentifierEmail
         else if list_ex (\<lambda>c. \<not> is_digit c) trimmed then IdentifierUsername
         else IdentifierID)"

section \<open>Custom domains\<close>

definition domainPattern :: rx where
  "domainPattern =
     RSeq (ROpt (RLit ''*.''))
       (RSeq (RPlus (RSeq rx_alnum
                (RSeq (ROpt (RSeq (RStar rx_alnum_dash) rx_alnum)) (RLit ''.''))))
         (RSeq rx_az (RPlus rx_az)))"

definition ValidateDomain :: "string \<Rightarrow> err + string" where
  "ValidateDomain raw =
     (let domain = TrimSuffix (NormalizeName raw) ''.''
      in if domain = [] \<or> length domain > MaxEmailDomainLength then Inl ErrDomainFormat
         else if \<not> rx_match domainPattern domain then Inl ErrDomainFormat
         else if list_ex (\<lambda>label. label = [] \<or> length label > 63)
                   (split_on (CHR ''.'') (TrimPrefix domain ''*.''))
         then Inl ErrDomainFormat
         else Inr domain)"

definition IsWildcardDomain :: "string \<Rightarrow> bool" where
  "IsWildcardDomain domain = HasPrefix domain ''*.''"

definition IsApexDomain :: "string \<Rightarrow> bool" where
  "IsApexDomain domain =
     (if IsWildcardDomain domain then False else count_list domain (CHR ''.'') = 1)"

section \<open>What the validators accept\<close>

definition alnum :: "char \<Rightarrow> bool" where
  "alnum c \<longleftrightarrow> is_lower c \<or> is_digit c"

definition name_char :: "char \<Rightarrow> bool" where
  "name_char c \<longleftrightarrow> alnum c \<or> c = CHR ''-''"

lemma in_cls_Cons: "in_cls ((lo, hi) # rs) c \<longleftrightarrow> lo \<le> byte c \<and> byte c \<le> hi \<or> in_cls rs c"
  by (auto simp: in_cls_def)

lemma in_cls_Nil [simp]: "\<not> in_cls [] c"
  by (simp add: in_cls_def)

lemma byte_eqI: "byte c = n \<Longrightarrow> byte d = n \<Longrightarrow> c = d"
  by (simp add: byte_inject [symmetric])

lemma in_cls_az [simp]: "in_cls [(97, 122)] = is_lower"
  by (rule ext) (simp add: in_cls_Cons is_lower_def)

lemma in_cls_alnum [simp]: "in_cls [(97, 122), (48, 57)] = alnum"
  by (rule ext) (auto simp: in_cls_Cons alnum_def is_lower_def is_digit_def)

lemma byte_dash: "45 \<le> byte c \<and> byte c \<le> 45 \<longleftrightarrow> c = CHR ''-''"
  by (auto intro!: byte_eqI [of c 45] simp: byte_def)

lemma in_cls_alnum_dash [simp]: "in_cls [(97, 122), (48, 57), (45, 45)] = name_char"
  by (rule ext) (auto simp: byte_dash in_cls_Cons alnum_def name_char_def is_lower_def is_digit_def)

lemma alnum_plain [intro]: "alnum c \<Longrightarrow> plain_byte c"
  by (auto simp: alnum_def plain_byte_def is_lower_def is_digit_def)

lemma name_char_plain [intro]: "name_char c \<Longrightarrow> plain_byte c"
  by (auto simp: name_char_def intro: alnum_plain) (simp_all add: plain_byte_def byte_def)

lemma plain_lower_fixed:
  assumes "list_all plain_byte s" and "list_all (\<lambda>c. \<not> is_upper c) s"
  shows "NormalizeName s = s" and "NormalizeEmail s = s"
proof -
  have "ToLower s = s"
    using assms by (simp add: ToLower_plain list_all_iff lower_char_def map_idI)
  then show "NormalizeName s = s" "NormalizeEmail s = s"
    using assms by (simp_all add: NormalizeName_def NormalizeEmail_def TrimSpace_plain)
qed

lemma namePattern_iff:
  "rx_match namePattern s \<longleftrightarrow>
   s \<noteq> [] \<and> list_all name_char s \<and> alnum (hd s) \<and> alnum (last s)"
proof (cases s)
  case (Cons c t)
  have tail: "t \<in> rx_lang (RSeq (RStar rx_alnum_dash) rx_alnum) \<longleftrightarrow>
              t \<noteq> [] \<and> list_all name_char t \<and> alnum (last t)"
  proof
    assume "t \<in> rx_lang (RSeq (RStar rx_alnum_dash) rx_alnum)"
    then obtain u c where "t = u @ [c]" "u \<in> rx_lang (RStar rx_alnum_dash)" "alnum c"
      by (auto simp: rx_alnum_def)
    then show "t \<noteq> [] \<and> list_all name_char t \<and> alnum (last t)"
      by (auto simp: rx_alnum_dash_def name_char_def list_all_iff simp del: rx_lang.simps)
  next
    assume t: "t \<noteq> [] \<and> list_all name_char t \<and> alnum (last t)"
    then have "t = butlast t @ [last t]" by simp
    moreover from t have "list_all name_char (butlast t)"
      by (auto simp: list_all_iff dest: in_set_butlastD)
    then have "butlast t \<in> rx_lang (RStar rx_alnum_dash)"
      by (simp add: rx_alnum_dash_def del: rx_lang.simps)
    moreover from t have "[last t] \<in> rx_lang rx_alnum" by (simp add: rx_alnum_def)
    ultimately show "t \<in> rx_lang (RSeq (RStar rx_alnum_dash) rx_alnum)"
      unfolding rx_lang.simps(4) by blast
  qed
  have head: "c # t \<in> rx_lang namePattern \<longleftrightarrow>
        alnum c \<and> (t = [] \<or> t \<in> rx_lang (RSeq (RStar rx_alnum_dash) rx_alnum))"
    unfolding namePattern_def rx_alnum_def
    by (simp del: rx_lang.simps(4) add: rx_ROpt)
  show ?thesis
    unfolding Cons rx_match_iff head tail
    by (cases "t = []") (auto simp: name_char_def)
qed (simp add: namePattern_def rx_alnum_def rx_match_iff del: rx_lang.simps(4))

lemma ValidateName_Inr_iff:
  "ValidateName raw = Inr n \<longleftrightarrow>
   n = NormalizeName raw \<and> 2 \<le> length n \<and> length n \<le> 39 \<and> list_all name_char n \<and>
   alnum (hd n) \<and> alnum (last n) \<and> \<not> Contains n ''--'' \<and> \<not> IsBlocked n"
  unfolding ValidateName_def Let_def MinNameLength_def MaxNameLength_def namePattern_iff
  by (cases "NormalizeName raw = []") auto

lemma name_char_not_upper: "name_char c \<Longrightarrow> \<not> is_upper c"
  by (auto simp: name_char_def alnum_def is_upper_def is_lower_def is_digit_def byte_def)

lemma NormalizeName_name_chars: "list_all name_char n \<Longrightarrow> NormalizeName n = n"
  by (rule plain_lower_fixed) (auto simp: list_all_iff name_char_not_upper)

lemma ValidateName_normal: "ValidateName raw = Inr n \<Longrightarrow> NormalizeName n = n"
  by (metis ValidateName_Inr_iff NormalizeName_name_chars)

subsection \<open>Email addresses\<close>

lemma LastIndexByte_append: "c \<notin> set d \<Longrightarrow> LastIndexByte (l @ c # d) c = int (length l)"
proof -
  assume "c \<notin> set d"
  then have "takeWhile (\<lambda>x. x \<noteq> c) (rev d @ c # rev l) = rev d"
    by (subst takeWhile_append2) auto
  then show ?thesis by (simp add: LastIndexByte_def)
qed

lemma LastIndexByte_split:
  "LastIndexByte s c = -1 \<and> c \<notin> set s
   \<or> (\<exists>l d. s = l @ c # d \<and> c \<notin> set d \<and> LastIndexByte s c = int (length l))"
proof (cases "c \<in> set s")
  case True
  then obtain l d where s: "s = l @ c # d" "c \<notin> set d" by (meson split_list_last)
  with LastIndexByte_append show ?thesis by metis
next
  case False
  have "takeWhile (\<lambda>x. x \<noteq> c) (rev s) = rev s"
    unfolding takeWhile_eq_all_conv using False by auto
  then have "LastIndexByte s c = -1"
    by (simp only: LastIndexByte_def Let_def length_rev if_True refl simp_thms)
  with False show ?thesis by blast
qed

lemma ValidateEmail_Inr_iff:
  "ValidateEmail raw = Inr e \<longleftrightarrow>
   e = NormalizeEmail raw \<and> length e \<le> 254 \<and> \<not> Contains e ''..'' \<and>
   (\<exists>l d. e = l @ CHR ''@'' # d \<and> CHR ''@'' \<notin> set d \<and> l \<noteq> [] \<and> length l \<le> 64 \<and> d \<noteq> []
      \<and> \<not> HasPrefix l ''.'' \<and> \<not> HasSuffix l ''.''
      \<and> rx_match emailLocalPattern l \<and> rx_match emailDomainPattern d)"
  (is "?L \<longleftrightarrow> ?R")
proof
  assume ?L
  then have e: "e = NormalizeEmail raw" and at: "0 < LastIndexByte e (CHR ''@'')"
    by (auto simp: ValidateEmail_def Let_def split: if_splits)
  from at obtain l d where ld: "e = l @ CHR ''@'' # d" "CHR ''@'' \<notin> set d"
    "LastIndexByte e (CHR ''@'') = int (length l)"
    using LastIndexByte_split [of e "CHR ''@''"] by fastforce
  from \<open>?L\<close> e [symmetric] ld
  have "length e \<le> 254 \<and> \<not> Contains e ''..'' \<and> l \<noteq> [] \<and> length l \<le> 64 \<and> d \<noteq> []
      \<and> \<not> HasPrefix l ''.'' \<and> \<not> HasSuffix l ''.''
      \<and> rx_match emailLocalPattern l \<and> rx_match emailDomainPattern d"
    by (simp add: ValidateEmail_def Let_def MaxEmailLength_def MaxEmailLocalLength_def
        split: if_splits)
  with e ld show ?R by blast
next
  assume R: ?R
  then obtain l d where ld: "e = l @ CHR ''@'' # d" "CHR ''@'' \<notin> set d" "l \<noteq> []" "d \<noteq> []"
    "length l \<le> 64" "\<not> HasPrefix l ''.''" "\<not> HasSuffix l ''.''"
    "rx_match emailLocalPattern l" "rx_match emailDomainPattern d" by blast
  then have at: "LastIndexByte e (CHR ''@'') = int (length l)"
    by (simp add: LastIndexByte_append)
  from R have R': "NormalizeEmail raw = e" "length e \<le> 254" "\<not> Contains e ''..''" by auto
  then have "\<not> (at \<le> 0 \<or> at = int (length e) - 1)" if "at = int (length l)" for at
    using ld that by auto
  with R'(2,3) at ld show ?L
    unfolding ValidateEmail_def Let_def R'(1)
    by (simp add: MaxEmailLength_def MaxEmailLocalLength_def MaxEmailDomainLength_def)
qed

lemma email_classes:
  assumes "rx_match emailLocalPattern l" and "rx_match emailDomainPattern d"
  shows "list_all (\<lambda>c. plain_byte c \<and> \<not> is_upper c) (l @ CHR ''@'' # d)"
    and "CHR ''@'' \<notin> set l"
proof -
  have low: "plain_byte c \<and> \<not> is_upper c \<and> c \<noteq> CHR ''@''"
    if "in_cls (rx_classes emailLocalPattern) c \<or> in_cls (rx_classes emailDomainPattern) c" for c
    using that
    by (auto simp: emailLocalPattern_def emailDomainPattern_def RPlus_def rx_az_def rx_alnum_def
        in_cls_Cons plain_byte_def is_upper_def alnum_def is_lower_def is_digit_def byte_def)
  from assms have "list_all (in_cls (rx_classes emailLocalPattern)) l"
    "list_all (in_cls (rx_classes emailDomainPattern)) d"
    unfolding rx_match_iff by (auto dest: rx_lang_classes)
  then show "list_all (\<lambda>c. plain_byte c \<and> \<not> is_upper c) (l @ CHR ''@'' # d)"
    and "CHR ''@'' \<notin> set l"
    using low by (auto simp: list_all_iff plain_byte_def is_upper_def byte_def)
qed

lemma ValidateEmail_normal: "ValidateEmail raw = Inr e \<Longrightarrow> NormalizeEmail e = e"
  using email_classes(1)
  by (intro plain_lower_fixed) (fastforce simp: ValidateEmail_Inr_iff list_all_iff)+

subsection \<open>Passwords\<close>

lemma password_flags_eq:
  "password_flags uc rs (up, lo, nu, sp) =
   (up \<or> (\<exists>r \<in> set rs. class_of_rune uc r = UpperRune),
    lo \<or> (\<exists>r \<in> set rs. class_of_rune uc r = LowerRune),
    nu \<or> (\<exists>r \<in> set rs. class_of_rune uc r = DigitRune),
    sp \<or> (\<exists>r \<in> set rs. class_of_rune uc r = OtherRune))"
proof (induction rs arbitrary: up lo nu sp)
  case (Cons r rs)
  show ?case by (cases "class_of_rune uc r") (auto simp: Cons.IH)
qed simp

subsection \<open>Custom domains\<close>

lemma domainPattern_last:
  assumes "rx_match domainPattern d"
  shows "d \<noteq> [] \<and> is_lower (last d)"
proof -
  from assms obtain u v w where "d = u @ v @ w" and "w \<in> rx_lang (RSeq rx_az (RPlus rx_az))"
    unfolding rx_match_iff domainPattern_def rx_lang.simps(4) [of "ROpt r" for r]
      rx_lang.simps(4) [of "RPlus r" for r] by blast
  moreover from this(2) have "w \<noteq> [] \<and> list_all is_lower w"
    by (cases w) (auto simp: rx_az_def rx_RPlus_cls simp del: rx_lang.simps(4))
  ultimately show ?thesis
    by (metis append_is_Nil_conv last_appendR last_in_set list_all_iff)
qed

lemma domainPattern_chars:
  "rx_match domainPattern d \<Longrightarrow> list_all (\<lambda>c. plain_byte c \<and> \<not> is_upper c) d"
  unfolding rx_match_iff
  by (drule rx_lang_classes, erule list.pred_mono_strong)
     (auto simp: domainPattern_def ROpt_def RPlus_def rx_az_def rx_alnum_def rx_alnum_dash_def
        in_cls_Cons plain_byte_def is_upper_def name_char_def alnum_def is_lower_def is_digit_def
        byte_def)

lemma ValidateDomain_Inr:
  assumes "ValidateDomain raw = Inr d"
  shows "NormalizeName d = d" and "ValidateDomain d = Inr d"
    and "length d \<le> 255" and "is_lower (last d)"
    and "\<forall>l \<in> set (split_on (CHR ''.'') (TrimPrefix d ''*.'')). 1 \<le> length l \<and> length l \<le> 63"
proof -
  from assms have m: "rx_match domainPattern d" "d \<noteq> []" "length d \<le> MaxEmailDomainLength"
    "\<not> list_ex (\<lambda>label. label = [] \<or> length label > 63)
        (split_on (CHR ''.'') (TrimPrefix d ''*.''))"
    by (auto simp: ValidateDomain_def Let_def split: if_splits)
  show norm: "NormalizeName d = d"
    using domainPattern_chars [OF m(1)] by (intro plain_lower_fixed) (auto simp: list_all_iff)
  show "is_lower (last d)" using domainPattern_last [OF m(1)] by simp
  then have "\<not> HasSuffix d ''.''"
    using m(2) by (auto simp: HasSuffix_def suffix_def is_lower_def byte_def)
  then have "TrimSuffix d ''.'' = d" by (simp add: TrimSuffix_def)
  with norm m show "ValidateDomain d = Inr d" by (simp add: ValidateDomain_def)
  show "length d \<le> 255" using m(3) by (simp add: MaxEmailDomainLength_def)
  show "\<forall>l \<in> set (split_on (CHR ''.'') (TrimPrefix d ''*.'')). 1 \<le> length l \<and> length l \<le> 63"
    using m(4) by (auto simp: list_ex_iff not_less Suc_le_eq)
qed

end
