(* ===== verification/Roles.thy ===== *)
theory Roles
  imports User_Names
begin

text \<open>
  \<^verbatim>\<open>src/src/user/role.go\<close> and \<^verbatim>\<open>src/src/user/mode.go\<close>: the organization roles, their permission
  table and rank, the rules on who may manage or grant which role, and the registration and
  creation modes. \<open>Role\<close>, \<open>Permission\<close> and the two mode types are string types in the source, so
  a value outside the named constants exists (a corrupted row holds one) and the functions say
  what it does.
\<close>

section \<open>Roles and permissions\<close>

type_synonym role = string
type_synonym permission = string

definition RoleOwner :: role where "RoleOwner = ''owner''"
definition RoleAdmin :: role where "RoleAdmin = ''admin''"
definition RoleEditor :: role where "RoleEditor = ''editor''"
definition RoleViewer :: role where "RoleViewer = ''viewer''"

definition PermRead :: permission where "PermRead = ''org:read''"
definition PermRecordsWrite :: permission where "PermRecordsWrite = ''records:write''"
definition PermZonesManage :: permission where "PermZonesManage = ''zones:manage''"
definition PermKeysManage :: permission where "PermKeysManage = ''keys:manage''"
definition PermKeysExport :: permission where "PermKeysExport = ''keys:export''"
definition PermTokensManage :: permission where "PermTokensManage = ''tokens:manage''"
definition PermMembersManage :: permission where "PermMembersManage = ''members:manage''"
definition PermOrgSettings :: permission where "PermOrgSettings = ''org:settings''"
definition PermOrgTransfer :: permission where "PermOrgTransfer = ''org:transfer''"
definition PermOrgDelete :: permission where "PermOrgDelete = ''org:delete''"

lemmas role_defs = RoleOwner_def RoleAdmin_def RoleEditor_def RoleViewer_def
lemmas perm_defs = PermRead_def PermRecordsWrite_def PermZonesManage_def PermKeysManage_def
  PermKeysExport_def PermTokensManage_def PermMembersManage_def PermOrgSettings_def
  PermOrgTransfer_def PermOrgDelete_def

definition rolePermissions :: "(role \<times> permission list) list" where
  "rolePermissions =
    [(RoleOwner, [PermRead, PermRecordsWrite, PermZonesManage, PermKeysManage, PermKeysExport,
        PermTokensManage, PermMembersManage, PermOrgSettings, PermOrgTransfer, PermOrgDelete]),
     (RoleAdmin, [PermRead, PermRecordsWrite, PermZonesManage, PermKeysManage, PermKeysExport,
        PermTokensManage, PermMembersManage, PermOrgSettings]),
     (RoleEditor, [PermRead, PermRecordsWrite]),
     (RoleViewer, [PermRead])]"

definition roleRank :: "(role \<times> nat) list" where
  "roleRank = [(RoleViewer, 1), (RoleEditor, 2), (RoleAdmin, 3), (RoleOwner, 4)]"

definition ParseRole :: "string \<Rightarrow> err + role" where
  "ParseRole raw =
     (let role = NormalizeName raw
      in if map_of rolePermissions role = None then Inl ErrUnknownRole else Inr role)"

definition Can :: "role \<Rightarrow> permission \<Rightarrow> bool" where
  "Can r p = (case map_of rolePermissions r of None \<Rightarrow> False | Some held \<Rightarrow> p \<in> set held)"

definition Rank :: "role \<Rightarrow> nat" where
  "Rank r = (case map_of roleRank r of None \<Rightarrow> 0 | Some n \<Rightarrow> n)"

definition OutranksOrEquals :: "role \<Rightarrow> role \<Rightarrow> bool" where
  "OutranksOrEquals r other = (Rank r \<ge> Rank other)"

definition CanManageMember :: "role \<Rightarrow> role \<Rightarrow> bool" where
  "CanManageMember r target =
     (if \<not> Can r PermMembersManage then False
      else if r = RoleOwner then True
      else Rank r > Rank target)"

definition CanGrantRole :: "role \<Rightarrow> role \<Rightarrow> bool" where
  "CanGrantRole r target =
     (if \<not> Can r PermMembersManage then False
      else if target = RoleOwner then r = RoleOwner
      else Rank r > Rank target \<or> r = RoleOwner)"

definition Permissions :: "role \<Rightarrow> permission list" where
  "Permissions r =
     filter (Can r)
       [PermRead, PermRecordsWrite, PermZonesManage, PermKeysManage, PermKeysExport,
        PermTokensManage, PermMembersManage, PermOrgSettings, PermOrgTransfer, PermOrgDelete]"

definition CapRole :: "role \<Rightarrow> role \<Rightarrow> role" where
  "CapRole issuer requested =
     (if Rank requested = 0 \<or> Rank requested > Rank issuer then issuer else requested)"

section \<open>Registration and creation modes\<close>

type_synonym mode = string

definition RegistrationOpen :: mode where "RegistrationOpen = ''open''"
definition RegistrationInvite :: mode where "RegistrationInvite = ''invite''"
definition RegistrationAdminOnly :: mode where "RegistrationAdminOnly = ''admin_only''"
definition RegistrationDisabled :: mode where "RegistrationDisabled = ''disabled''"

definition CreationOpen :: mode where "CreationOpen = ''open''"
definition CreationInvite :: mode where "CreationInvite = ''invite''"
definition CreationAdminOnly :: mode where "CreationAdminOnly = ''admin_only''"
definition CreationDisabled :: mode where "CreationDisabled = ''disabled''"

lemmas mode_defs = RegistrationOpen_def RegistrationInvite_def RegistrationAdminOnly_def
  RegistrationDisabled_def CreationOpen_def CreationInvite_def CreationAdminOnly_def
  CreationDisabled_def

definition ParseRegistrationMode :: "string \<Rightarrow> err + mode" where
  "ParseRegistrationMode raw =
     (let m = NormalizeName raw
      in if m = RegistrationOpen then Inr RegistrationOpen
         else if m = RegistrationInvite then Inr RegistrationInvite
         else if m = RegistrationAdminOnly then Inr RegistrationAdminOnly
         else if m = RegistrationDisabled then Inr RegistrationDisabled
         else Inl ErrUnknownMode)"

definition ParseCreationMode :: "string \<Rightarrow> err + mode" where
  "ParseCreationMode raw =
     (let m = NormalizeName raw
      in if m = CreationOpen then Inr CreationOpen
         else if m = CreationInvite then Inr CreationInvite
         else if m = CreationAdminOnly then Inr CreationAdminOnly
         else if m = CreationDisabled then Inr CreationDisabled
         else Inl ErrUnknownMode)"

text \<open>The methods of \<open>RegistrationMode\<close>, then those of \<open>CreationMode\<close>.\<close>

definition RegSelfServiceAllowed :: "mode \<Rightarrow> bool" where
  "RegSelfServiceAllowed m = (m = RegistrationOpen)"

definition RegInviteAllowed :: "mode \<Rightarrow> bool" where
  "RegInviteAllowed m = (m = RegistrationOpen \<or> m = RegistrationInvite)"

definition RegAdminCreateAllowed :: "mode \<Rightarrow> bool" where
  "RegAdminCreateAllowed m =
     (m = RegistrationOpen \<or> m = RegistrationInvite \<or> m = RegistrationAdminOnly)"

definition OrgSelfServiceAllowed :: "mode \<Rightarrow> bool" where
  "OrgSelfServiceAllowed m = (m = CreationOpen)"

definition OrgInviteAllowed :: "mode \<Rightarrow> bool" where
  "OrgInviteAllowed m = (m = CreationOpen \<or> m = CreationInvite)"

definition OrgAdminCreateAllowed :: "mode \<Rightarrow> bool" where
  "OrgAdminCreateAllowed m = (m = CreationOpen \<or> m = CreationInvite \<or> m = CreationAdminOnly)"

section \<open>The role algebra\<close>

definition known_role :: "role \<Rightarrow> bool" where
  "known_role r \<longleftrightarrow> r = RoleOwner \<or> r = RoleAdmin \<or> r = RoleEditor \<or> r = RoleViewer"

lemma role_distinct [simp]:
  "RoleOwner \<noteq> RoleAdmin" "RoleOwner \<noteq> RoleEditor" "RoleOwner \<noteq> RoleViewer"
  "RoleAdmin \<noteq> RoleOwner" "RoleAdmin \<noteq> RoleEditor" "RoleAdmin \<noteq> RoleViewer"
  "RoleEditor \<noteq> RoleOwner" "RoleEditor \<noteq> RoleAdmin" "RoleEditor \<noteq> RoleViewer"
  "RoleViewer \<noteq> RoleOwner" "RoleViewer \<noteq> RoleAdmin" "RoleViewer \<noteq> RoleEditor"
  by (simp_all add: role_defs)

lemma Rank_simps [simp, role_simps]:
  "Rank RoleOwner = 4" "Rank RoleAdmin = 3" "Rank RoleEditor = 2" "Rank RoleViewer = 1"
  by (simp_all add: Rank_def roleRank_def)

lemma Rank_zero_iff [simp]: "Rank r = 0 \<longleftrightarrow> \<not> known_role r"
  by (auto simp: Rank_def roleRank_def known_role_def)

lemma Rank_pos_iff [simp]: "0 < Rank r \<longleftrightarrow> known_role r"
  by (auto simp: Rank_def roleRank_def known_role_def)

lemma Rank_inj: "known_role r \<Longrightarrow> Rank r = Rank s \<Longrightarrow> r = s"
  by (auto simp: Rank_def roleRank_def known_role_def split: if_splits)

lemma Rank_le_4: "Rank r \<le> 4"
  by (auto simp: Rank_def roleRank_def)

lemma map_of_rolePermissions [simp]: "map_of rolePermissions r = None \<longleftrightarrow> \<not> known_role r"
  by (auto simp: rolePermissions_def known_role_def)

lemma Can_unknown: "\<not> known_role r \<Longrightarrow> \<not> Can r p"
  by (auto simp: Can_def known_role_def rolePermissions_def)

lemma Can_known_role: "Can r p \<Longrightarrow> known_role r"
  using Can_unknown by blast

lemma Can_owner [role_simps]:
  "Can RoleOwner p \<longleftrightarrow> p \<in> {PermRead, PermRecordsWrite, PermZonesManage, PermKeysManage,
     PermKeysExport, PermTokensManage, PermMembersManage, PermOrgSettings, PermOrgTransfer,
     PermOrgDelete}"
  by (simp add: Can_def rolePermissions_def)

lemma Can_admin [role_simps]:
  "Can RoleAdmin p \<longleftrightarrow> p \<in> {PermRead, PermRecordsWrite, PermZonesManage, PermKeysManage,
     PermKeysExport, PermTokensManage, PermMembersManage, PermOrgSettings}"
  by (simp add: Can_def rolePermissions_def)

lemma Can_editor [role_simps]: "Can RoleEditor p \<longleftrightarrow> p \<in> {PermRead, PermRecordsWrite}"
  by (simp add: Can_def rolePermissions_def)

lemma Can_viewer [role_simps]: "Can RoleViewer p \<longleftrightarrow> p \<in> {PermRead}"
  by (simp add: Can_def rolePermissions_def)

lemma Can_mono:
  assumes le: "Rank r \<le> Rank s" and can: "Can r p"
  shows "Can s p"
proof -
  from can have r: "known_role r" by (rule Can_known_role)
  then have "0 < Rank r" by simp
  with le have "0 < Rank s" by linarith
  then have "known_role s" by simp
  with r le can show ?thesis by (auto simp: known_role_def role_simps)
qed

lemma Can_members_iff: "Can r PermMembersManage \<longleftrightarrow> r = RoleOwner \<or> r = RoleAdmin"
proof (cases "known_role r")
  case True
  then show ?thesis by (auto simp: known_role_def role_simps perm_defs)
next
  case False
  then show ?thesis by (auto simp: Can_unknown known_role_def)
qed

lemma ParseRole_Inr: "ParseRole raw = Inr r \<longleftrightarrow> r = NormalizeName raw \<and> known_role r"
  by (auto simp: ParseRole_def Let_def)

lemma ParseRole_Inl: "ParseRole raw = Inl e \<longleftrightarrow> e = ErrUnknownRole \<and> \<not> known_role (NormalizeName raw)"
  by (auto simp: ParseRole_def Let_def)

lemma NormalizeName_known_role: "known_role r \<Longrightarrow> NormalizeName r = r"
  by (rule NormalizeName_name_chars)
    (auto simp: known_role_def role_defs name_char_def alnum_def is_lower_def byte_def)

lemma ParseRole_known: "known_role r \<Longrightarrow> ParseRole r = Inr r"
  by (simp add: ParseRole_Inr NormalizeName_known_role)

lemma CapRole_known: "known_role issuer \<Longrightarrow> known_role (CapRole issuer requested)"
  by (simp add: CapRole_def)

lemma CapRole_rank: "Rank (CapRole issuer requested) \<le> Rank issuer"
  by (simp add: CapRole_def)

lemma CapRole_Can: "Can (CapRole issuer requested) p \<Longrightarrow> Can issuer p"
  by (rule Can_mono [OF CapRole_rank])

lemma CapRole_idem: "CapRole issuer (CapRole issuer requested) = CapRole issuer requested"
  by (auto simp: CapRole_def)

lemma CapRole_shrink:
  "Rank issuer' \<le> Rank issuer \<Longrightarrow> Rank (CapRole issuer' (CapRole issuer r)) \<le> Rank (CapRole issuer r)"
  by (auto simp: CapRole_def)

lemma CanGrantRole_rank: "CanGrantRole r target \<Longrightarrow> Rank target \<le> Rank r"
  by (auto simp: CanGrantRole_def Rank_le_4 split: if_splits)

lemma CanGrantRole_Can: "CanGrantRole r target \<Longrightarrow> Can target p \<Longrightarrow> Can r p"
  by (rule Can_mono [OF CanGrantRole_rank])

lemma CanManageMember_owner: "CanManageMember r RoleOwner \<Longrightarrow> r = RoleOwner"
  using Rank_le_4 [of r] by (auto simp: CanManageMember_def split: if_splits)

end
