(* ===== verification/Go_Encoding.thy ===== *)
theory Go_Encoding
  imports Go_Strings
begin

text \<open>
  The parts of \<open>strconv\<close>, \<open>encoding/hex\<close>, \<open>encoding/base64\<close> and \<open>encoding/base32\<close> the program
  calls. An encoder writes the input's bits most significant first, pads them with zeros to
  whole digits and maps each group of bits through the alphabet; the decoders are those of Go,
  which skip line breaks, with or without padding and with or without the \<open>Strict\<close> check of the
  trailing bits. The section ends with the round trips.
\<close>

section \<open>Decimal numbers\<close>

definition digit_char :: "nat \<Rightarrow> char" where
  "digit_char d = chr (48 + d)"

fun itoa :: "nat \<Rightarrow> string" where
  "itoa n = (if n < 10 then [digit_char n] else itoa (n div 10) @ [digit_char (n mod 10)])"

declare itoa.simps [simp del]

definition digit_val :: "char \<Rightarrow> nat" where
  "digit_val c = byte c - 48"

definition atoi_digits :: "string \<Rightarrow> nat" where
  "atoi_digits s = foldl (\<lambda>n c. 10 * n + digit_val c) 0 s"

text \<open>\<open>strconv.ParseUint (s, 10, bits)\<close>; its two errors are one here.\<close>

definition ParseUint :: "nat \<Rightarrow> string \<Rightarrow> nat option" where
  "ParseUint bits s =
     (if s = [] \<or> \<not> list_all is_digit s then None
      else if atoi_digits s < 2 ^ bits then Some (atoi_digits s) else None)"

text \<open>\<open>strconv.ParseInt (s, 10, 64)\<close> and \<open>strconv.Atoi\<close>, which takes a sign.\<close>

definition ParseInt64 :: "string \<Rightarrow> int option" where
  "ParseInt64 s =
     (let neg = HasPrefix s ''-'';
          body = (if HasPrefix s ''-'' \<or> HasPrefix s ''+'' then drop 1 s else s)
      in if body = [] \<or> \<not> list_all is_digit body then None
         else
      let n = int (atoi_digits body)
      in if neg then (if n \<le> 2 ^ 63 then Some (- n) else None)
         else (if n < 2 ^ 63 then Some n else None))"

lemma is_digit_digit_char: "d < 10 \<Longrightarrow> is_digit (digit_char d)"
  by (simp add: digit_char_def is_digit_def byte_chr)

lemma digit_val_digit_char: "d < 10 \<Longrightarrow> digit_val (digit_char d) = d"
  by (simp add: digit_char_def digit_val_def byte_chr)

lemma itoa_digits: "list_all is_digit (itoa n)"
proof (induction n rule: itoa.induct)
  case (1 n)
  then show ?case by (subst itoa.simps) (simp add: is_digit_digit_char)
qed

lemma itoa_not_Nil [simp]: "itoa n \<noteq> []"
  by (subst itoa.simps) simp

lemma atoi_itoa: "atoi_digits (itoa n) = n"
proof (induction n rule: itoa.induct)
  case (1 n)
  show ?case
  proof (cases "n < 10")
    case True
    then show ?thesis by (simp add: itoa.simps [of n] atoi_digits_def digit_val_digit_char)
  next
    case False
    with 1 have "atoi_digits (itoa (n div 10)) = n div 10" by simp
    with False show ?thesis
      by (simp add: itoa.simps [of n] atoi_digits_def digit_val_digit_char)
  qed
qed

lemma ParseInt64_itoa: "n < 2 ^ 63 \<Longrightarrow> ParseInt64 (itoa n) = Some (int n)"
proof -
  assume n: "n < 2 ^ 63"
  obtain c s where cs: "itoa n = c # s" using itoa_not_Nil [of n] by (cases "itoa n") auto
  with itoa_digits [of n] have "is_digit c" by simp
  then have "c \<noteq> CHR ''-''" "c \<noteq> CHR ''+''" by (auto simp: is_digit_def byte_def)
  then have "\<not> HasPrefix (itoa n) ''-''" "\<not> HasPrefix (itoa n) ''+''"
    by (simp_all add: cs HasPrefix_def)
  then show ?thesis using n by (simp add: ParseInt64_def Let_def itoa_digits atoi_itoa)
qed

lemma ParseUint_itoa: "n < 2 ^ bits \<Longrightarrow> ParseUint bits (itoa n) = Some n"
  by (simp add: ParseUint_def itoa_digits atoi_itoa)

section \<open>Bits\<close>

fun bits_of :: "nat \<Rightarrow> nat \<Rightarrow> bool list" where
  "bits_of 0 n = []"
| "bits_of (Suc k) n = bits_of k (n div 2) @ [odd n]"

definition nat_of_bits :: "bool list \<Rightarrow> nat" where
  "nat_of_bits bs = foldl (\<lambda>n b. 2 * n + of_bool b) 0 bs"

lemma length_bits_of [simp]: "length (bits_of k n) = k"
  by (induction k arbitrary: n) auto

lemma nat_of_bits_of: "n < 2 ^ k \<Longrightarrow> nat_of_bits (bits_of k n) = n"
proof (induction k arbitrary: n)
  case (Suc k)
  then have "n div 2 < 2 ^ k" by simp
  with Suc.IH have "nat_of_bits (bits_of k (n div 2)) = n div 2" by blast
  then show ?case by (simp add: nat_of_bits_def)
qed (simp add: nat_of_bits_def)

lemma nat_of_bits_snoc: "nat_of_bits (bs @ [b]) = 2 * nat_of_bits bs + of_bool b"
  by (simp add: nat_of_bits_def)

lemma nat_of_bits_less: "nat_of_bits bs < 2 ^ length bs"
proof (induction bs rule: rev_induct)
  case (snoc b bs)
  then show ?case by (cases b) (simp_all add: nat_of_bits_snoc)
qed (simp add: nat_of_bits_def)

lemma bits_of_nat: "bits_of (length bs) (nat_of_bits bs) = bs"
proof (induction bs rule: rev_induct)
  case (snoc b bs)
  then show ?case by (cases b) (simp_all add: nat_of_bits_snoc)
qed simp

text \<open>Groups of \<open>k\<close> bits; the last one is what is left.\<close>

function chunk :: "nat \<Rightarrow> 'a list \<Rightarrow> 'a list list" where
  "chunk k xs = (if k = 0 \<or> xs = [] then [] else take k xs # chunk k (drop k xs))"
  by pat_completeness auto
termination by (relation "measure (\<lambda>(k, xs). length xs)") auto

declare chunk.simps [simp del]

lemma concat_chunk: "0 < k \<Longrightarrow> concat (chunk k xs) = xs"
proof (induction k xs rule: chunk.induct)
  case (1 k xs)
  then show ?case by (subst chunk.simps) simp
qed

lemma chunk_lengths: "k dvd length xs \<Longrightarrow> g \<in> set (chunk k xs) \<Longrightarrow> length g = k"
proof (induction k xs rule: chunk.induct)
  case (1 k xs)
  show ?case
  proof (cases "k = 0 \<or> xs = []")
    case True
    with 1 show ?thesis by (simp add: chunk.simps)
  next
    case False
    with "1.prems"(1) have le: "k \<le> length xs"
      by (meson dvd_imp_le length_greater_0_conv)
    with 1 False show ?thesis by (auto simp: chunk.simps [of k xs])
  qed
qed

lemma chunk_concat:
  "0 < k \<Longrightarrow> (\<And>g. g \<in> set gs \<Longrightarrow> length g = k) \<Longrightarrow> chunk k (concat gs) = gs"
proof (induction gs)
  case Nil
  then show ?case by (simp add: chunk.simps)
next
  case (Cons g gs)
  then have "g \<noteq> []" by fastforce
  with Cons show ?case by (subst chunk.simps) simp
qed

section \<open>Digits over an alphabet\<close>

definition to_bits :: "string \<Rightarrow> bool list" where
  "to_bits s = concat (map (\<lambda>c. bits_of 8 (byte c)) s)"

definition from_bits :: "bool list \<Rightarrow> string" where
  "from_bits bs = map (\<lambda>g. chr (nat_of_bits g)) (chunk 8 (take (8 * (length bs div 8)) bs))"

definition pad_bits :: "nat \<Rightarrow> bool list \<Rightarrow> bool list" where
  "pad_bits k bs = bs @ replicate ((k - length bs mod k) mod k) False"

definition encode_digits :: "nat \<Rightarrow> string \<Rightarrow> string \<Rightarrow> string" where
  "encode_digits k alphabet s =
     map (\<lambda>g. alphabet ! nat_of_bits g) (chunk k (pad_bits k (to_bits s)))"

fun index_of :: "string \<Rightarrow> char \<Rightarrow> nat option" where
  "index_of [] c = None"
| "index_of (a # as) c = (if a = c then Some 0 else map_option Suc (index_of as c))"

fun digits_bits :: "nat \<Rightarrow> string \<Rightarrow> string \<Rightarrow> bool list option" where
  "digits_bits k alphabet [] = Some []"
| "digits_bits k alphabet (c # s) =
     (case index_of alphabet c of
        None \<Rightarrow> None
      | Some i \<Rightarrow> map_option ((@) (bits_of k i)) (digits_bits k alphabet s))"

definition no_breaks :: "string \<Rightarrow> string" where
  "no_breaks s = filter (\<lambda>c. c \<noteq> CHR 0x0D \<and> c \<noteq> CHR 0x0A) s"

definition hex_alphabet :: string where
  "hex_alphabet = ''0123456789abcdef''"

definition base64_alphabet :: string where
  "base64_alphabet = ''ABCDEFGHIJKLMNOPQRSTUVWXYZabcdefghijklmnopqrstuvwxyz0123456789+/''"

definition base32_alphabet :: string where
  "base32_alphabet = ''ABCDEFGHIJKLMNOPQRSTUVWXYZ234567''"

definition hex_encode :: "string \<Rightarrow> string" where
  "hex_encode = encode_digits 4 hex_alphabet"

text \<open>\<open>base64.RawStdEncoding\<close>, and its \<open>Strict\<close> decoder.\<close>

definition base64_raw_encode :: "string \<Rightarrow> string" where
  "base64_raw_encode = encode_digits 6 base64_alphabet"

definition base64_raw_strict_decode :: "string \<Rightarrow> string option" where
  "base64_raw_strict_decode s =
     (let t = no_breaks s
      in if length t mod 4 = 1 then None
         else case digits_bits 6 base64_alphabet t of
                None \<Rightarrow> None
              | Some bs \<Rightarrow>
                  if list_all Not (drop (8 * (length bs div 8)) bs) then Some (from_bits bs)
                  else None)"

text \<open>\<open>base64.StdEncoding\<close>: padded, the trailing bits not checked.\<close>

definition base64_encode :: "string \<Rightarrow> string" where
  "base64_encode s =
     (let d = encode_digits 6 base64_alphabet s
      in d @ replicate ((4 - length d mod 4) mod 4) (CHR ''=''))"

definition base64_decode :: "string \<Rightarrow> string option" where
  "base64_decode s =
     (let t = no_breaks s; d = takeWhile (\<lambda>c. c \<noteq> CHR ''='') t; p = drop (length d) t
      in if length t mod 4 \<noteq> 0 \<or> p \<noteq> replicate (length p) (CHR ''='') \<or> length p > 2 then None
         else map_option from_bits (digits_bits 6 base64_alphabet d))"

text \<open>
  \<open>base32.StdEncoding.WithPadding (NoPadding)\<close>. A last group of one, three or six digits is not
  a whole number of bytes: Go's decoder drops it without an error.
\<close>

definition base32_raw_encode :: "string \<Rightarrow> string" where
  "base32_raw_encode = encode_digits 5 base32_alphabet"

definition base32_raw_decode :: "string \<Rightarrow> string option" where
  "base32_raw_decode s =
     (let t = no_breaks s; last = length t mod 8;
          kept = (if last \<in> {1, 3, 6} then length t - last else length t)
      in map_option (\<lambda>bs. from_bits (take (5 * kept) bs)) (digits_bits 5 base32_alphabet t))"

section \<open>Round trips\<close>

lemma length_to_bits [simp]: "length (to_bits s) = 8 * length s"
  by (induction s) (simp_all add: to_bits_def)

lemma padded_mod:
  assumes "0 < k"
  shows "(n + (k - n mod k) mod k) mod k = (0::nat)"
proof -
  have "(n + (k - n mod k) mod k) mod k = (n mod k + (k - n mod k)) mod k"
    by (simp add: mod_simps)
  with assms show ?thesis by (simp add: less_imp_le)
qed

lemma length_pad_bits: "0 < k \<Longrightarrow> k dvd length (pad_bits k bs)"
  using padded_mod [of k "length bs"] by (simp add: pad_bits_def mod_eq_0_iff_dvd)

lemma take_pad_bits: "take (8 * length s) (pad_bits k (to_bits s)) = to_bits s"
  by (simp add: pad_bits_def)

lemma pad_bits_bytes: "0 < k \<Longrightarrow> k \<le> 8 \<Longrightarrow> length (pad_bits k (to_bits s)) div 8 = length s"
proof -
  assume k: "0 < k" "k \<le> 8"
  then have "(k - 8 * length s mod k) mod k < 8"
    by (meson le_trans less_le_trans mod_less_divisor)
  then show ?thesis by (simp add: pad_bits_def)
qed

lemma from_to_bits: "from_bits (to_bits s) = s"
proof -
  have "chunk 8 (to_bits s) = map (\<lambda>c. bits_of 8 (byte c)) s"
    unfolding to_bits_def by (rule chunk_concat) auto
  moreover have "chr (nat_of_bits (bits_of 8 (byte c))) = c" for c
    using byte_less [of c] by (simp add: nat_of_bits_of) (simp add: chr_def byte_def)
  ultimately show ?thesis by (simp add: from_bits_def comp_def)
qed

lemma from_pad_bits: "0 < k \<Longrightarrow> k \<le> 8 \<Longrightarrow> from_bits (pad_bits k (to_bits s)) = s"
proof -
  assume k: "0 < k" "k \<le> 8"
  have "from_bits (pad_bits k (to_bits s)) = from_bits (to_bits s)"
    unfolding from_bits_def pad_bits_bytes [OF k] take_pad_bits by simp
  then show ?thesis by (simp add: from_to_bits)
qed

lemma index_of_nth: "distinct as \<Longrightarrow> i < length as \<Longrightarrow> index_of as (as ! i) = Some i"
proof (induction as arbitrary: i)
  case (Cons a as)
  then show ?case by (cases i) (auto simp: nth_mem)
qed simp

lemma digits_bits_groups:
  assumes "distinct alphabet" and "length alphabet = 2 ^ k" and "\<And>g. g \<in> set gs \<Longrightarrow> length g = k"
  shows "digits_bits k alphabet (map (\<lambda>g. alphabet ! nat_of_bits g) gs) = Some (concat gs)"
  using assms(3)
proof (induction gs)
  case (Cons g gs)
  then have g: "length g = k" by simp
  have "nat_of_bits g < length alphabet"
    using nat_of_bits_less [of g] g assms(2) by simp
  with assms(1) have "index_of alphabet (alphabet ! nat_of_bits g) = Some (nat_of_bits g)"
    by (rule index_of_nth)
  with Cons bits_of_nat [of g] g show ?case by simp
qed simp

lemma digits_bits_encode:
  assumes "0 < k" and "distinct alphabet" and "length alphabet = 2 ^ k"
  shows "digits_bits k alphabet (encode_digits k alphabet s) = Some (pad_bits k (to_bits s))"
  using digits_bits_groups [OF assms(2,3), of "chunk k (pad_bits k (to_bits s))"]
    chunk_lengths [OF length_pad_bits [OF assms(1)]] concat_chunk [OF assms(1)]
  by (simp add: encode_digits_def)

lemma set_encode_digits:
  assumes "0 < k" and "length alphabet = 2 ^ k"
  shows "set (encode_digits k alphabet s) \<subseteq> set alphabet"
proof
  fix c assume "c \<in> set (encode_digits k alphabet s)"
  then obtain g where g: "g \<in> set (chunk k (pad_bits k (to_bits s)))"
    and c: "c = alphabet ! nat_of_bits g"
    by (auto simp: encode_digits_def)
  have "length g = k" using chunk_lengths [OF length_pad_bits [OF assms(1)] g] .
  with nat_of_bits_less [of g] assms(2) have "nat_of_bits g < length alphabet" by simp
  with c show "c \<in> set alphabet" by simp
qed

lemma length_encode_digits:
  "0 < k \<Longrightarrow> k * length (encode_digits k alphabet s) = length (pad_bits k (to_bits s))"
proof -
  assume k: "0 < k"
  let ?gs = "chunk k (pad_bits k (to_bits s))"
  have "length (concat ?gs) = k * length ?gs"
    using chunk_lengths [OF length_pad_bits [OF k]]
    by (simp add: length_concat sum_list_triv cong: map_cong)
  then show ?thesis unfolding concat_chunk [OF k] by (simp add: encode_digits_def)
qed

lemma no_breaks_id: "CHR 0x0D \<notin> set s \<Longrightarrow> CHR 0x0A \<notin> set s \<Longrightarrow> no_breaks s = s"
  unfolding no_breaks_def by (rule filter_True) auto

lemma base64_alphabet_facts [simp]:
  "distinct base64_alphabet" "length base64_alphabet = 64"
  "CHR 0x0D \<notin> set base64_alphabet" "CHR 0x0A \<notin> set base64_alphabet"
  "CHR ''='' \<notin> set base64_alphabet" "CHR ''$'' \<notin> set base64_alphabet"
  by (simp_all add: base64_alphabet_def)

lemma base32_alphabet_facts [simp]:
  "distinct base32_alphabet" "length base32_alphabet = 32"
  "CHR 0x0D \<notin> set base32_alphabet" "CHR 0x0A \<notin> set base32_alphabet"
  by (simp_all add: base32_alphabet_def)

lemma set_base64_digits: "set (encode_digits 6 base64_alphabet s) \<subseteq> set base64_alphabet"
  by (rule set_encode_digits) simp_all

lemma set_base32_digits: "set (encode_digits 5 base32_alphabet s) \<subseteq> set base32_alphabet"
  by (rule set_encode_digits) simp_all

lemma pad_length: "length (pad_bits k bs) = length bs + (k - length bs mod k) mod k"
  by (simp add: pad_bits_def)

lemma mod4_pad: "n mod 4 \<noteq> 1 \<Longrightarrow> (4 - n mod 4) mod 4 \<le> (2::nat)"
proof -
  assume "n mod 4 \<noteq> 1"
  moreover have "n mod 4 < 4" by simp
  ultimately consider "n mod 4 = 0" | "n mod 4 = 2" | "n mod 4 = 3" by linarith
  then show ?thesis by cases simp_all
qed

lemma sextets_mod: "6 * l = 8 * n + p \<Longrightarrow> p < 6 \<Longrightarrow> l mod 4 \<noteq> (1::nat)"
proof
  assume l: "6 * l = 8 * n + p" "p < 6" and "l mod 4 = 1"
  then obtain q where "l = 4 * q + 1" by (metis mult_div_mod_eq)
  with l have "24 * q + 6 = 8 * n + p" by simp
  with l(2) show False by presburger
qed

lemma quintets_mod: "5 * l = 8 * n + p \<Longrightarrow> p < 5 \<Longrightarrow> l mod 8 \<notin> {1, 3, 6::nat}"
proof
  assume l: "5 * l = 8 * n + p" "p < 5" and "l mod 8 \<in> {1, 3, 6}"
  then consider q where "l = 8 * q + 1" | q where "l = 8 * q + 3" | q where "l = 8 * q + 6"
    by (metis empty_iff insert_iff mult_div_mod_eq)
  then show False
  proof cases
    case 1
    with l have "40 * q + 5 = 8 * n + p" by simp
    with l(2) show False by presburger
  next
    case 2
    with l have "40 * q + 15 = 8 * n + p" by simp
    with l(2) show False by presburger
  next
    case 3
    with l have "40 * q + 30 = 8 * n + p" by simp
    with l(2) show False by presburger
  qed
qed

lemma base64_digits_mod: "length (encode_digits 6 base64_alphabet s) mod 4 \<noteq> 1"
proof -
  have "6 * length (encode_digits 6 base64_alphabet s)
        = 8 * length s + (6 - 8 * length s mod 6) mod 6"
    using length_encode_digits [of 6 base64_alphabet s] by (simp add: pad_length)
  then show ?thesis by (rule sextets_mod) simp
qed

theorem base64_raw_roundtrip: "base64_raw_strict_decode (base64_raw_encode s) = Some s"
proof -
  let ?d = "encode_digits 6 base64_alphabet s"
  have "no_breaks ?d = ?d"
    using set_base64_digits [of s] base64_alphabet_facts by (intro no_breaks_id) blast+
  moreover have "list_all Not (drop (8 * length s) (pad_bits 6 (to_bits s)))"
    by (simp add: pad_bits_def list_all_iff)
  ultimately show ?thesis
    using base64_digits_mod [of s]
    by (simp add: base64_raw_strict_decode_def base64_raw_encode_def digits_bits_encode
        pad_bits_bytes from_pad_bits)
qed

theorem base64_roundtrip: "base64_decode (base64_encode s) = Some s"
proof -
  let ?d = "encode_digits 6 base64_alphabet s"
  let ?p = "replicate ((4 - length ?d mod 4) mod 4) (CHR ''='')"
  have sub: "set ?d \<subseteq> set base64_alphabet" by (rule set_base64_digits)
  then have ne: "\<And>c. c \<in> set ?d \<Longrightarrow> c \<noteq> CHR ''=''" by auto
  have "no_breaks (?d @ ?p) = ?d @ ?p"
    using sub by (intro no_breaks_id) auto
  moreover have "takeWhile (\<lambda>c. c \<noteq> CHR ''='') (?d @ ?p) = ?d"
    using ne by (subst takeWhile_append2) (auto simp: takeWhile_eq_Nil_iff)
  moreover have "(length ?d + (4 - length ?d mod 4) mod 4) mod 4 = 0"
    by (rule padded_mod) simp
  moreover have "(4 - length ?d mod 4) mod 4 \<le> 2"
    by (rule mod4_pad [OF base64_digits_mod])
  ultimately show ?thesis
    by (simp add: base64_decode_def base64_encode_def Let_def digits_bits_encode from_pad_bits)
qed

theorem base32_roundtrip: "base32_raw_decode (base32_raw_encode s) = Some s"
proof -
  let ?d = "encode_digits 5 base32_alphabet s"
  have "no_breaks ?d = ?d"
    using set_base32_digits [of s] base32_alphabet_facts by (intro no_breaks_id) blast+
  moreover have len: "5 * length ?d = 8 * length s + (5 - 8 * length s mod 5) mod 5"
    using length_encode_digits [of 5 base32_alphabet s] by (simp add: pad_length)
  moreover have "length ?d mod 8 \<notin> {1, 3, 6}" by (rule quintets_mod [OF len]) simp
  moreover have "take (5 * length ?d) (pad_bits 5 (to_bits s)) = pad_bits 5 (to_bits s)"
    by (simp add: len pad_length)
  ultimately show ?thesis
    by (simp add: base32_raw_decode_def base32_raw_encode_def Let_def digits_bits_encode
        from_pad_bits)
qed

lemma base64_raw_no_dollar: "CHR ''$'' \<notin> set (base64_raw_encode s)"
  using set_base64_digits [of s] by (auto simp: base64_raw_encode_def)

lemma base64_raw_nonempty: "s \<noteq> [] \<Longrightarrow> base64_raw_encode s \<noteq> []"
proof
  assume "s \<noteq> []" and "base64_raw_encode s = []"
  then have "Some s = base64_raw_strict_decode []" using base64_raw_roundtrip [of s] by simp
  then have "s = []" by (simp add: base64_raw_strict_decode_def no_breaks_def from_bits_def chunk.simps)
  with \<open>s \<noteq> []\<close> show False by simp
qed

end
