(* ===== verification/Effects.thy ===== *)
theory Effects
  imports Roles Go_Encoding
begin

text \<open>
  The effects of the code, as explicit state passing. An action maps the world to its outcome
  (\<open>Inl\<close> an error, \<open>Inr\<close> a result) and the world after it. The world holds the database and two
  counters, of the statements run and of the reads of \<open>crypto/rand\<close>, so that the environment can
  give each statement and each read its own outcome. The second half holds the two calculi
  the properties of the service layer are proved with: the inversion of a successful run
  (\<open>returns_simps\<close>) and Hoare triples over the database (\<open>hoare_intros\<close>).
\<close>

section \<open>Configuration\<close>

text \<open>
  \<^verbatim>\<open>src/src/config/config.go\<close>: the blocks \<open>Users\<close>, \<open>Orgs\<close> and \<open>CustomDomains\<close>, one field per
  setting the service layer reads. A duration is in nanoseconds.
\<close>

record Registration =
  reg_Mode :: string
  RequireEmailVerification :: bool
  AllowedDomains :: "string list"
  BlockedDomains :: "string list"
  InviteExpirationDays :: int

record UserAuth =
  SessionDuration :: int
  Allow2FA :: bool
  Require2FA :: bool
  PasswordMinLength :: int
  PasswordRequireUppercase :: bool
  PasswordRequireLowercase :: bool
  PasswordRequireNumber :: bool
  PasswordRequireSpecial :: bool
  MaxFailedLogins :: int
  LockoutDuration :: int

record UserTokens =
  tokens_Enabled :: bool
  MaxPerUser :: int
  ExpirationDays :: int

record UserProfile =
  user_DefaultVisibility :: string
  AllowBio :: bool
  AllowWebsite :: bool
  AllowLocation :: bool
  AllowAvatar :: bool

record Users_config =
  users_Enabled :: bool
  cfg_Registration :: Registration
  cfg_Auth :: UserAuth
  cfg_Tokens :: UserTokens
  cfg_Profile :: UserProfile

record Orgs_config =
  orgs_Enabled :: bool
  creation_Mode :: string
  creation_MaxPerUser :: int
  org_DefaultVisibility :: string
  DefaultRole :: string
  AllowInvites :: bool

record CustomDomains_config =
  domains_Enabled :: bool
  MaxDomainsPerOrg :: int
  RequireSSL :: bool
  AllowApex :: bool
  AllowSubdomain :: bool
  AllowWildcard :: bool
  SSLRenewalDays :: int
  Reserved :: "string list"
  BlockedPatterns :: "string list"

section \<open>The environment\<close>

text \<open>
  Everything outside the repository: the clocks, the failures of the database, \<open>crypto/rand\<close>, the
  primitives of the standard library and of \<open>golang.org/x/crypto\<close> that are not modelled, the DNS
  resolver and the ACME client. Times are nanoseconds since the epoch. \<open>fault e n = Some m\<close> makes
  the \<open>n\<close>-th statement fail with the driver's message \<open>m\<close>, without effect.
\<close>

datatype dns_error = DNSNotFound string | DNSFailed string

record certificate =
  NotBefore :: int
  NotAfter :: int

record Cipher =
  aead_key :: string
  aead_version :: int

datatype detail = DetailString string | DetailInt int | DetailTime int

record env =
  users_cfg :: Users_config
  orgs_cfg :: Orgs_config
  domains_cfg :: CustomDomains_config
  ApplicationName :: string
  clock :: "nat \<Rightarrow> int"
  store_clock :: "nat \<Rightarrow> int"
  fault :: "nat \<Rightarrow> string option"
  rand_read :: "nat \<Rightarrow> nat \<Rightarrow> string + string"
  rand_fuel :: nat
  sha256 :: "string \<Rightarrow> string"
  IDKey :: "string \<Rightarrow> string \<Rightarrow> nat \<Rightarrow> nat \<Rightarrow> nat \<Rightarrow> nat \<Rightarrow> string"
  hmac_sha1 :: "string \<Rightarrow> string \<Rightarrow> string"
  gcm_seal :: "string \<Rightarrow> string \<Rightarrow> string \<Rightarrow> string"
  gcm_open :: "string \<Rightarrow> string \<Rightarrow> string \<Rightarrow> string option"
  cipher :: "Cipher option"
  json_strings :: "string list \<Rightarrow> string"
  json_unstrings :: "string \<Rightarrow> string list option"
  json_object :: "(string \<times> detail) list \<Rightarrow> string"
  provisioning_uri :: "string \<Rightarrow> string \<Rightarrow> string \<Rightarrow> string"
  rune_classes :: "nat \<Rightarrow> rune_class"
  LookupTXT :: "nat \<Rightarrow> string \<Rightarrow> dns_error + string list"
  regexp_MatchString :: "string \<Rightarrow> (string \<Rightarrow> bool) option"
  certs_Challenge :: "string option"
  certs_IssueFor :: "nat \<Rightarrow> string \<Rightarrow> string + certificate"
  dummyHash :: string

section \<open>Actions\<close>

record 'd world =
  wdb :: 'd
  wtick :: nat
  wrand :: nat

type_synonym ('d, 'a) action = "'d world \<Rightarrow> (err + 'a) \<times> 'd world"

definition ok :: "'a \<Rightarrow> ('d, 'a) action" where
  "ok x w = (Inr x, w)"

definition fail :: "err \<Rightarrow> ('d, 'a) action" where
  "fail x w = (Inl x, w)"

text \<open>\<open>x, err := m; if err != nil { h err }; k x\<close>, and the frequent \<open>return f err\<close>.\<close>

definition try_call ::
  "('d, 'a) action \<Rightarrow> (err \<Rightarrow> ('d, 'b) action) \<Rightarrow> ('a \<Rightarrow> ('d, 'b) action) \<Rightarrow> ('d, 'b) action"
where
  "try_call m h k w = (case m w of (Inl x, w') \<Rightarrow> h x w' | (Inr a, w') \<Rightarrow> k a w')"

definition call ::
  "('d, 'a) action \<Rightarrow> (err \<Rightarrow> err) \<Rightarrow> ('a \<Rightarrow> ('d, 'b) action) \<Rightarrow> ('d, 'b) action"
where
  "call m f k = try_call m (\<lambda>x. fail (f x)) k"

text \<open>\<open>_ = m; k\<close>: the outcome of \<open>m\<close> is dropped.\<close>

definition ignoring :: "('d, 'a) action \<Rightarrow> ('d, 'b) action \<Rightarrow> ('d, 'b) action" where
  "ignoring m k = try_call m (\<lambda>_. k) (\<lambda>_. k)"

text \<open>\<open>x, err := p; if err != nil { return f err }; k x\<close> for a pure \<open>p\<close>.\<close>

definition check :: "err + 'a \<Rightarrow> (err \<Rightarrow> err) \<Rightarrow> ('a \<Rightarrow> ('d, 'b) action) \<Rightarrow> ('d, 'b) action" where
  "check p f k = (case p of Inl x \<Rightarrow> fail (f x) | Inr a \<Rightarrow> k a)"

section \<open>Time\<close>

definition second :: int where "second = 1000000000"
definition hour :: int where "hour = 3600 * second"

text \<open>\<open>Truncate (time.Second)\<close>, and what a TIMESTAMP column keeps of a time.\<close>

definition truncate_second :: "int \<Rightarrow> int" where
  "truncate_second t = t - t mod second"

text \<open>An \<open>int64\<close> product, as \<open>time.Duration (days) * 24 * time.Hour\<close> is computed.\<close>

definition int64 :: "int \<Rightarrow> int" where
  "int64 n = (n + 2 ^ 63) mod 2 ^ 64 - 2 ^ 63"

definition days_duration :: "int \<Rightarrow> int" where
  "days_duration days = int64 (int64 (days * 24) * hour)"

text \<open>\<open>Service.now\<close> and the store's \<open>now\<close>.\<close>

definition with_now :: "env \<Rightarrow> (int \<Rightarrow> ('d, 'a) action) \<Rightarrow> ('d, 'a) action" where
  "with_now e k w = k (truncate_second (clock e (wtick w))) w"

definition store_now :: "env \<Rightarrow> (int \<Rightarrow> ('d, 'a) action) \<Rightarrow> ('d, 'a) action" where
  "store_now e k w = k (truncate_second (store_clock e (wtick w))) w"

section \<open>Statements\<close>

text \<open>
  \<open>exec e f\<close> runs one statement that changes the database: \<open>f\<close> gives the message of the constraint
  it violates, or the affected row count (for an INSERT, the new row id) and the new database.
  \<open>query e f\<close> reads, \<open>query_row e f\<close> reads one row and reports \<open>sql.ErrNoRows\<close> when there is none.
  With the SQLite driver neither \<open>LastInsertId\<close> nor \<open>RowsAffected\<close> fails.
\<close>

definition next_tick :: "'d world \<Rightarrow> 'd world" where
  "next_tick w = w\<lparr>wtick := Suc (wtick w)\<rparr>"

definition exec :: "env \<Rightarrow> ('d \<Rightarrow> string + int \<times> 'd) \<Rightarrow> ('d, int) action" where
  "exec e f w =
     (case fault e (wtick w) of
        Some msg \<Rightarrow> (Inl (LibError msg), next_tick w)
      | None \<Rightarrow>
          (case f (wdb w) of
             Inl msg \<Rightarrow> (Inl (LibError msg), next_tick w)
           | Inr (n, d) \<Rightarrow> (Inr n, (next_tick w)\<lparr>wdb := d\<rparr>)))"

definition query :: "env \<Rightarrow> ('d \<Rightarrow> 'a) \<Rightarrow> ('d, 'a) action" where
  "query e f w =
     (case fault e (wtick w) of
        Some msg \<Rightarrow> (Inl (LibError msg), next_tick w)
      | None \<Rightarrow> (Inr (f (wdb w)), next_tick w))"

definition query_row :: "env \<Rightarrow> ('d \<Rightarrow> 'a option) \<Rightarrow> ('d, 'a) action" where
  "query_row e f =
     try_call (query e f) fail (\<lambda>r. case r of None \<Rightarrow> fail StoreNotFound | Some x \<Rightarrow> ok x)"

text \<open>
  \<open>database.WithTransaction\<close>: begin, the body, commit; a body or a commit that fails leaves the
  database as it was before.
\<close>

definition with_tx :: "env \<Rightarrow> ('d, 'a) action \<Rightarrow> ('d, 'a) action" where
  "with_tx e body w =
     (case fault e (wtick w) of
        Some msg \<Rightarrow> (Inl (LibError (''database: begin transaction: '' @ msg)), next_tick w)
      | None \<Rightarrow>
          (case body (next_tick w) of
             (Inl x, w') \<Rightarrow> (Inl x, w'\<lparr>wdb := wdb w\<rparr>)
           | (Inr a, w') \<Rightarrow>
               (case fault e (wtick w') of
                  Some msg \<Rightarrow>
                    (Inl (LibError (''database: commit transaction: '' @ msg)),
                     (next_tick w')\<lparr>wdb := wdb w\<rparr>)
                | None \<Rightarrow> (Inr a, next_tick w'))))"

text \<open>A read of \<open>crypto/rand\<close>.\<close>

definition read_random :: "env \<Rightarrow> nat \<Rightarrow> ('d, string) action" where
  "read_random e n w =
     (case rand_read e (wrand w) n of
        Inl msg \<Rightarrow> (Inl (LibError msg), w\<lparr>wrand := Suc (wrand w)\<rparr>)
      | Inr bs \<Rightarrow> (Inr bs, w\<lparr>wrand := Suc (wrand w)\<rparr>))"

section \<open>Inverting a successful run\<close>

lemma ok_returns [returns_simps]: "ok x w = (Inr y, w') \<longleftrightarrow> x = y \<and> w = w'"
  by (auto simp: ok_def)

lemma fail_returns [returns_simps]: "fail x w = (Inr y, w') \<longleftrightarrow> False"
  by (simp add: fail_def)

lemma try_call_returns:
  "try_call m h k w = (r, w') \<longleftrightarrow>
   (\<exists>x w1. m w = (Inl x, w1) \<and> h x w1 = (r, w')) \<or> (\<exists>a w1. m w = (Inr a, w1) \<and> k a w1 = (r, w'))"
  by (auto simp: try_call_def split: prod.splits sum.splits)

lemma call_returns [returns_simps]:
  "call m f k w = (Inr b, w') \<longleftrightarrow> (\<exists>a w1. m w = (Inr a, w1) \<and> k a w1 = (Inr b, w'))"
  by (auto simp: call_def try_call_returns fail_def)

lemma call_fails:
  "call m f k w = (Inl x, w') \<longleftrightarrow>
   (\<exists>y. m w = (Inl y, w') \<and> x = f y) \<or> (\<exists>a w1. m w = (Inr a, w1) \<and> k a w1 = (Inl x, w'))"
  by (auto simp: call_def try_call_returns fail_def)

lemma ignoring_eq [returns_simps]: "ignoring m k w = k (snd (m w))"
  by (auto simp: ignoring_def try_call_def split: prod.splits sum.splits)

lemma check_returns [returns_simps]:
  "check p f k w = (Inr b, w') \<longleftrightarrow> (\<exists>a. p = Inr a \<and> k a w = (Inr b, w'))"
  by (auto simp: check_def fail_def split: sum.splits)

lemma if_action [returns_simps]: "(if c then m else k) w = (if c then m w else k w)"
  by simp

lemma with_now_returns [returns_simps]:
  "with_now e k w = k (truncate_second (clock e (wtick w))) w"
  by (simp add: with_now_def)

lemma store_now_returns [returns_simps]:
  "store_now e k w = k (truncate_second (store_clock e (wtick w))) w"
  by (simp add: store_now_def)

lemma wdb_next_tick [simp]: "wdb (next_tick w) = wdb w"
  by (simp add: next_tick_def)

lemma wtick_next_tick [simp]: "wtick (next_tick w) = Suc (wtick w)"
  by (simp add: next_tick_def)

lemma exec_returns [returns_simps]:
  "exec e f w = (Inr n, w') \<longleftrightarrow>
   fault e (wtick w) = None \<and> (\<exists>d. f (wdb w) = Inr (n, d) \<and> w' = (next_tick w)\<lparr>wdb := d\<rparr>)"
  by (auto simp: exec_def split: option.splits sum.splits)

lemma exec_fails:
  "exec e f w = (Inl x, w') \<longleftrightarrow>
   w' = next_tick w \<and>
   (\<exists>msg. x = LibError msg \<and>
     (fault e (wtick w) = Some msg \<or> fault e (wtick w) = None \<and> f (wdb w) = Inl msg))"
  by (auto simp: exec_def split: option.splits sum.splits)

lemma query_returns [returns_simps]:
  "query e f w = (Inr a, w') \<longleftrightarrow> fault e (wtick w) = None \<and> a = f (wdb w) \<and> w' = next_tick w"
  by (auto simp: query_def split: option.splits)

lemma query_row_returns [returns_simps]:
  "query_row e f w = (Inr a, w') \<longleftrightarrow>
   fault e (wtick w) = None \<and> f (wdb w) = Some a \<and> w' = next_tick w"
  by (auto simp: query_row_def try_call_def query_def ok_def fail_def split: option.splits)

lemma query_row_fails:
  "query_row e f w = (Inl x, w') \<longleftrightarrow>
   w' = next_tick w \<and>
   ((\<exists>msg. fault e (wtick w) = Some msg \<and> x = LibError msg)
    \<or> fault e (wtick w) = None \<and> f (wdb w) = None \<and> x = StoreNotFound)"
  by (auto simp: query_row_def try_call_def query_def ok_def fail_def split: option.splits)

lemma with_tx_returns [returns_simps]:
  "with_tx e body w = (Inr a, w') \<longleftrightarrow>
   fault e (wtick w) = None \<and>
   (\<exists>w1. body (next_tick w) = (Inr a, w1) \<and> fault e (wtick w1) = None \<and> w' = next_tick w1)"
  by (auto simp: with_tx_def split: option.splits sum.splits prod.splits)

lemma read_random_returns [returns_simps]:
  "read_random e n w = (Inr bs, w') \<longleftrightarrow>
   rand_read e (wrand w) n = Inr bs \<and> w' = w\<lparr>wrand := Suc (wrand w)\<rparr>"
  by (auto simp: read_random_def split: sum.splits)

section \<open>Hoare triples over the database\<close>

text \<open>
  \<open>hoare P m Q E\<close>: from a database with \<open>P\<close>, whatever the environment does, a result of \<open>m\<close> leaves
  \<open>Q\<close> of it and an error leaves \<open>E\<close>. \<open>keeps I m\<close>: both leave \<open>I\<close>. \<open>reads m\<close>: \<open>m\<close> changes nothing.
\<close>

definition hoare ::
  "('d \<Rightarrow> bool) \<Rightarrow> ('d, 'a) action \<Rightarrow> ('a \<Rightarrow> 'd \<Rightarrow> bool) \<Rightarrow> ('d \<Rightarrow> bool) \<Rightarrow> bool"
where
  "hoare P m Q E \<longleftrightarrow>
     (\<forall>w. P (wdb w) \<longrightarrow>
        (case m w of (Inl _, w') \<Rightarrow> E (wdb w') | (Inr a, w') \<Rightarrow> Q a (wdb w')))"

definition keeps :: "('d \<Rightarrow> bool) \<Rightarrow> ('d, 'a) action \<Rightarrow> bool" where
  "keeps I m \<longleftrightarrow> hoare I m (\<lambda>_. I) I"

definition reads :: "('d, 'a) action \<Rightarrow> bool" where
  "reads m \<longleftrightarrow> (\<forall>w. wdb (snd (m w)) = wdb w)"

lemma hoare_weaken:
  fixes P P' :: "'d \<Rightarrow> bool"
  assumes "hoare P' m Q' E'" and "\<And>d. P d \<Longrightarrow> P' d" and "\<And>a d. Q' a d \<Longrightarrow> Q a d"
    and "\<And>d. E' d \<Longrightarrow> E d"
  shows "hoare P m Q E"
  unfolding hoare_def
proof (intro allI impI)
  fix w :: "'d world" assume "P (wdb w)"
  with assms(2) have "P' (wdb w)" by blast
  with assms(1) show "case m w of (Inl _, w') \<Rightarrow> E (wdb w') | (Inr a, w') \<Rightarrow> Q a (wdb w')"
    unfolding hoare_def using assms(3,4) by (fastforce split: prod.splits sum.splits)
qed

lemma hoare_ok: "(\<And>d. P d \<Longrightarrow> Q x d) \<Longrightarrow> hoare P (ok x) Q E"
  by (simp add: hoare_def ok_def)

lemma hoare_fail: "(\<And>d. P d \<Longrightarrow> E d) \<Longrightarrow> hoare P (fail x) Q E"
  by (simp add: hoare_def fail_def)

lemma hoare_try_call:
  fixes P :: "'d \<Rightarrow> bool"
  assumes "hoare P m R F" and "\<And>x. hoare F (h x) Q E" and "\<And>a. hoare (R a) (k a) Q E"
  shows "hoare P (try_call m h k) Q E"
  unfolding hoare_def
proof (intro allI impI)
  fix w :: "'d world" assume "P (wdb w)"
  with assms(1) have m: "case m w of (Inl _, w') \<Rightarrow> F (wdb w') | (Inr a, w') \<Rightarrow> R a (wdb w')"
    by (simp add: hoare_def)
  show "case try_call m h k w of (Inl _, w') \<Rightarrow> E (wdb w') | (Inr a, w') \<Rightarrow> Q a (wdb w')"
  proof (cases "m w")
    case (Pair r w')
    then show ?thesis
      using m assms(2,3) by (cases r) (auto simp: try_call_def hoare_def)
  qed
qed

lemma hoare_call:
  assumes "hoare P m R E" and "\<And>a. hoare (R a) (k a) Q E"
  shows "hoare P (call m f k) Q E"
  unfolding call_def by (rule hoare_try_call [OF assms(1) hoare_fail assms(2)])

lemma hoare_exec:
  assumes "\<And>d n d'. P d \<Longrightarrow> f d = Inr (n, d') \<Longrightarrow> Q n d'" and "\<And>d. P d \<Longrightarrow> E d"
  shows "hoare P (exec e f) Q E"
  using assms by (auto simp: hoare_def exec_def split: option.splits sum.splits)

lemma hoare_query:
  assumes "\<And>d. P d \<Longrightarrow> Q (f d) d" and "\<And>d. P d \<Longrightarrow> E d"
  shows "hoare P (query e f) Q E"
  using assms by (auto simp: hoare_def query_def split: option.splits)

lemma hoare_query_row:
  assumes "\<And>d a. P d \<Longrightarrow> f d = Some a \<Longrightarrow> Q a d" and "\<And>d. P d \<Longrightarrow> E d"
  shows "hoare P (query_row e f) Q E"
  unfolding query_row_def
proof (rule hoare_try_call [where R = "\<lambda>r d. P d \<and> f d = r" and F = P])
  show "hoare P (query e f) (\<lambda>r d. P d \<and> f d = r) P" by (rule hoare_query) auto
  show "hoare P (fail x) Q E" for x by (rule hoare_fail) (rule assms(2))
  show "hoare (\<lambda>d. P d \<and> f d = r) (case r of None \<Rightarrow> fail StoreNotFound | Some x \<Rightarrow> ok x) Q E" for r
    by (cases r) (auto intro!: hoare_ok hoare_fail intro: assms)
qed

subsection \<open>Keeping an invariant\<close>

lemma keeps_ok [hoare_intros]: "keeps I (ok x)"
  by (simp add: keeps_def hoare_ok)

lemma keeps_fail [hoare_intros]: "keeps I (fail x)"
  by (simp add: keeps_def hoare_fail)

lemma keeps_try_call [hoare_intros]:
  "keeps I m \<Longrightarrow> (\<And>x. keeps I (h x)) \<Longrightarrow> (\<And>a. keeps I (k a)) \<Longrightarrow> keeps I (try_call m h k)"
  unfolding keeps_def by (rule hoare_try_call)

lemma keeps_call [hoare_intros]:
  "keeps I m \<Longrightarrow> (\<And>a. keeps I (k a)) \<Longrightarrow> keeps I (call m f k)"
  unfolding keeps_def by (rule hoare_call)

lemma keeps_ignoring [hoare_intros]: "keeps I m \<Longrightarrow> keeps I k \<Longrightarrow> keeps I (ignoring m k)"
  unfolding ignoring_def by (rule keeps_try_call)

lemma keeps_check [hoare_intros]: "(\<And>a. p = Inr a \<Longrightarrow> keeps I (k a)) \<Longrightarrow> keeps I (check p f k)"
  by (auto simp: check_def keeps_fail split: sum.splits)

lemma keeps_if [hoare_intros]:
  "(c \<Longrightarrow> keeps I m) \<Longrightarrow> (\<not> c \<Longrightarrow> keeps I k) \<Longrightarrow> keeps I (if c then m else k)"
  by simp

lemma keeps_case_option [hoare_intros]:
  "(x = None \<Longrightarrow> keeps I m) \<Longrightarrow> (\<And>a. x = Some a \<Longrightarrow> keeps I (k a)) \<Longrightarrow>
   keeps I (case x of None \<Rightarrow> m | Some a \<Rightarrow> k a)"
  by (cases x) simp_all

lemma keeps_case_sum [hoare_intros]:
  "(\<And>a. x = Inl a \<Longrightarrow> keeps I (m a)) \<Longrightarrow> (\<And>a. x = Inr a \<Longrightarrow> keeps I (k a)) \<Longrightarrow>
   keeps I (case x of Inl a \<Rightarrow> m a | Inr a \<Rightarrow> k a)"
  by (cases x) simp_all

lemma keeps_Let [hoare_intros]: "(\<And>y. y = x \<Longrightarrow> keeps I (k y)) \<Longrightarrow> keeps I (Let x k)"
  by simp

lemma keeps_case_prod [hoare_intros]:
  "(\<And>a b. x = (a, b) \<Longrightarrow> keeps I (k a b)) \<Longrightarrow> keeps I (case x of (a, b) \<Rightarrow> k a b)"
  by (cases x) simp

lemma keeps_with_now [hoare_intros]: "(\<And>t. keeps I (k t)) \<Longrightarrow> keeps I (with_now e k)"
  by (simp add: keeps_def hoare_def with_now_def)

lemma keeps_store_now [hoare_intros]: "(\<And>t. keeps I (k t)) \<Longrightarrow> keeps I (store_now e k)"
  by (simp add: keeps_def hoare_def store_now_def)

lemma keeps_exec: "(\<And>d n d'. I d \<Longrightarrow> f d = Inr (n, d') \<Longrightarrow> I d') \<Longrightarrow> keeps I (exec e f)"
  unfolding keeps_def by (rule hoare_exec)

lemma keeps_query [hoare_intros]: "keeps I (query e f)"
  unfolding keeps_def by (rule hoare_query)

lemma keeps_query_row [hoare_intros]: "keeps I (query_row e f)"
  unfolding keeps_def by (rule hoare_query_row)

lemma keeps_read_random [hoare_intros]: "keeps I (read_random e n)"
  by (auto simp: keeps_def hoare_def read_random_def split: sum.splits)

lemma keepsD: "keeps I m \<Longrightarrow> I (wdb w) \<Longrightarrow> m w = (r, w') \<Longrightarrow> I (wdb w')"
  unfolding keeps_def hoare_def by (cases r) fastforce+

lemma keepsI: "(\<And>w r w'. I (wdb w) \<Longrightarrow> m w = (r, w') \<Longrightarrow> I (wdb w')) \<Longrightarrow> keeps I m"
  unfolding keeps_def hoare_def by (fastforce split: prod.splits sum.splits)

lemma keepsD_next: "keeps I m \<Longrightarrow> I (wdb w) \<Longrightarrow> m (next_tick w) = (r, w') \<Longrightarrow> I (wdb w')"
  using keepsD [of I m "next_tick w" r w'] by simp

lemma keeps_with_tx [hoare_intros]: "keeps I m \<Longrightarrow> keeps I (with_tx e m)"
  by (rule keepsI)
    (auto simp: with_tx_def split: option.splits prod.splits sum.splits dest: keepsD_next)

lemma readsD: "reads m \<Longrightarrow> m w = (r, w') \<Longrightarrow> wdb w' = wdb w"
  unfolding reads_def by (metis snd_conv)

lemma reads_keeps: "reads m \<Longrightarrow> keeps I m"
  by (rule keepsI) (simp add: readsD)

lemma readsI:
  assumes "\<And>I. keeps I m"
  shows "reads m"
  unfolding reads_def
proof
  fix w
  show "wdb (snd (m w)) = wdb w"
    using keepsD [OF assms [of "\<lambda>d. d = wdb w"], of w "fst (m w)" "snd (m w)"] by simp
qed

end
