(* ===== verification/Tokens.thy ===== *)
theory Tokens
  imports Effects
begin

text \<open>
  \<^verbatim>\<open>src/src/security/token.go\<close> and the email mask of \<^verbatim>\<open>src/src/security/redact.go\<close>: random
  strings by rejection sampling, the format of API tokens, scopes and expirations. The bytes of
  \<open>crypto/rand\<close> are \<open>rand_read\<close> of the environment and SHA-256 is its \<open>sha256\<close>. The sampling loop
  runs until it has its characters, however many bytes are rejected: it takes the fuel
  \<open>rand_fuel\<close>, one unit per read, and \<open>RandomString_total\<close> shows the fuel that is enough.
\<close>

section \<open>Owners, prefixes, scopes\<close>

definition OwnerAdmin :: string where "OwnerAdmin = ''admin''"
definition OwnerUser :: string where "OwnerUser = ''user''"
definition OwnerOrg :: string where "OwnerOrg = ''org''"

definition PrefixAdmin :: string where "PrefixAdmin = ''adm_''"
definition PrefixUser :: string where "PrefixUser = ''usr_''"
definition PrefixOrg :: string where "PrefixOrg = ''org_''"
definition PrefixAdminAgent :: string where "PrefixAdminAgent = ''adm_agt_''"
definition PrefixUserAgent :: string where "PrefixUserAgent = ''usr_agt_''"
definition PrefixOrgAgent :: string where "PrefixOrgAgent = ''org_agt_''"

definition ScopeGlobal :: string where "ScopeGlobal = ''global''"
definition ScopeReadWrite :: string where "ScopeReadWrite = ''read-write''"
definition ScopeRead :: string where "ScopeRead = ''read''"

lemmas token_consts = OwnerAdmin_def OwnerUser_def OwnerOrg_def PrefixAdmin_def PrefixUser_def
  PrefixOrg_def PrefixAdminAgent_def PrefixUserAgent_def PrefixOrgAgent_def ScopeGlobal_def
  ScopeReadWrite_def ScopeRead_def

definition ParseScope :: "string \<Rightarrow> err + string" where
  "ParseScope s =
     (if s = [] then Inr ScopeGlobal
      else if s = ScopeGlobal then Inr ScopeGlobal
      else if s = ScopeReadWrite then Inr ScopeReadWrite
      else if s = ScopeRead then Inr ScopeRead
      else Inl (ErrInvalidScope s))"

section \<open>Random strings\<close>

definition RandomLength :: nat where "RandomLength = 32"

definition alphabet :: string where
  "alphabet = ''abcdefghijklmnopqrstuvwxyzABCDEFGHIJKLMNOPQRSTUVWXYZ0123456789''"

text \<open>\<open>byte (256 - (256 % len (alphabet)))\<close>\<close>

definition sample_limit :: nat where
  "sample_limit = (256 - 256 mod length alphabet) mod 256"

text \<open>The inner loop over the bytes just read; it stops when \<open>n\<close> characters are there.\<close>

fun sample_bytes :: "nat \<Rightarrow> string \<Rightarrow> string \<Rightarrow> string" where
  "sample_bytes n out [] = out"
| "sample_bytes n out (b # buf) =
     (if byte b \<ge> sample_limit then sample_bytes n out buf
      else
      let out' = out @ [alphabet ! (byte b mod length alphabet)]
      in if length out' = n then out' else sample_bytes n out' buf)"

definition rand_error :: "err \<Rightarrow> err" where
  "rand_error x =
     (case x of LibError msg \<Rightarrow> LibError (''security: read random bytes: '' @ msg) | _ \<Rightarrow> x)"

fun sample_loop :: "env \<Rightarrow> nat \<Rightarrow> nat \<Rightarrow> string \<Rightarrow> ('d, string) action" where
  "sample_loop e 0 n out = fail (LibError ''sampling fuel spent'')"
| "sample_loop e (Suc fuel) n out =
     (if length out < n then
        call (read_random e n) rand_error (\<lambda>buf. sample_loop e fuel n (sample_bytes n out buf))
      else ok out)"

definition RandomString :: "env \<Rightarrow> int \<Rightarrow> ('d, string) action" where
  "RandomString e n =
     (if n \<le> 0 then fail ErrInvalidLength else sample_loop e (rand_fuel e) (nat n) [])"

section \<open>Tokens\<close>

definition GenerateToken :: "env \<Rightarrow> string \<Rightarrow> ('d, string) action" where
  "GenerateToken e pre =
     (if pre \<notin> set [PrefixAdmin, PrefixUser, PrefixOrg, PrefixAdminAgent, PrefixUserAgent,
                     PrefixOrgAgent]
      then fail (ErrUnknownTokenType pre)
      else call (RandomString e (int RandomLength)) id (\<lambda>random. ok (pre @ random)))"

definition HashToken :: "env \<Rightarrow> string \<Rightarrow> string" where
  "HashToken e token = hex_encode (sha256 e token)"

definition TokenPrefixDisplay :: "string \<Rightarrow> string" where
  "TokenPrefixDisplay token = (if length token \<le> 8 then token else take 8 token)"

definition VerifyTokenHash :: "env \<Rightarrow> string \<Rightarrow> string \<Rightarrow> bool" where
  "VerifyTokenHash e token storedHash = (HashToken e token = storedHash)"

record token_info =
  info_Prefix :: string
  info_OwnerType :: string
  info_IsAgent :: bool
  info_Random :: string

definition isAlphanumeric :: "string \<Rightarrow> bool" where
  "isAlphanumeric s = list_all (\<lambda>c. c \<in> set alphabet) s"

definition parseAgentToken :: "string \<Rightarrow> string \<Rightarrow> string \<Rightarrow> err + token_info" where
  "parseAgentToken token pre owner =
     (let random = TrimPrefix token pre
      in if length random \<noteq> RandomLength \<or> \<not> isAlphanumeric random
         then Inl ErrInvalidTokenFormat
         else Inr \<lparr>info_Prefix = pre, info_OwnerType = owner, info_IsAgent = True,
                   info_Random = random\<rparr>)"

text \<open>\<open>strings.SplitN (token, "_", 2)\<close> gives two parts iff the token has an underscore.\<close>

definition ParseToken :: "string \<Rightarrow> err + token_info" where
  "ParseToken token =
     (if HasPrefix token PrefixAdminAgent then parseAgentToken token PrefixAdminAgent OwnerAdmin
      else if HasPrefix token PrefixUserAgent then parseAgentToken token PrefixUserAgent OwnerUser
      else if HasPrefix token PrefixOrgAgent then parseAgentToken token PrefixOrgAgent OwnerOrg
      else
      case Cut (CHR ''_'') token of
        None \<Rightarrow> Inl ErrInvalidTokenFormat
      | Some (a, random) \<Rightarrow>
          if length random \<noteq> RandomLength then Inl ErrInvalidTokenFormat
          else
          let pre = a @ ''_''
          in case (if pre = PrefixAdmin then Some OwnerAdmin
                   else if pre = PrefixUser then Some OwnerUser
                   else if pre = PrefixOrg then Some OwnerOrg
                   else None) of
               None \<Rightarrow> Inl (ErrUnknownTokenType pre)
             | Some owner \<Rightarrow>
                 if \<not> isAlphanumeric random then Inl ErrInvalidTokenFormat
                 else Inr \<lparr>info_Prefix = pre, info_OwnerType = owner, info_IsAgent = False,
                           info_Random = random\<rparr>)"

section \<open>Expiration options, the setup token, the email mask\<close>

definition ExpirationOptions :: "(string \<times> int) list" where
  "ExpirationOptions =
     [(''never'', 0), (''7days'', 7 * 24 * hour), (''1month'', 30 * 24 * hour),
      (''6months'', 180 * 24 * hour), (''1year'', 365 * 24 * hour)]"

text \<open>The boolean result says whether the time is set: \<open>None\<close> for \<open>(time.Time{}, false)\<close>.\<close>

definition ExpiresAt :: "int \<Rightarrow> string \<Rightarrow> err + int option" where
  "ExpiresAt now option =
     (case map_of ExpirationOptions option of
        None \<Rightarrow> Inl (ErrUnknownExpiration option)
      | Some d \<Rightarrow> if d = 0 then Inr None else Inr (Some (now + d)))"

definition SetupTokenLength :: nat where "SetupTokenLength = 32"

definition GenerateSetupToken :: "env \<Rightarrow> ('d, string) action" where
  "GenerateSetupToken e =
     call (read_random e (SetupTokenLength div 2)) rand_error (\<lambda>buf. ok (hex_encode buf))"

definition maskedPlaceholder :: string where "maskedPlaceholder = ''***''"

definition MaskEmail :: "string \<Rightarrow> string" where
  "MaskEmail email =
     (let at = LastIndexByte email (CHR ''@'')
      in if at < 0 then maskedPlaceholder
         else
      let local = take (nat at) email; domain = drop (nat at + 1) email
      in if domain = [] then maskedPlaceholder
         else
      let masked = (if length local > 2
                    then take 1 local @ maskedPlaceholder @ drop (length local - 1) local
                    else maskedPlaceholder);
          labels = split_on (CHR ''.'') domain;
          shown = map (\<lambda>l. if l = [] then l else take 1 l @ maskedPlaceholder) (butlast labels)
                    @ [last labels]
      in masked @ ''@'' @ join ''.'' shown)"

section \<open>What sampling gives\<close>

lemma alphabet_facts [simp]: "length alphabet = 62" "distinct alphabet" "CHR ''_'' \<notin> set alphabet"
  by (simp_all add: alphabet_def)

lemma sample_limit_eq [simp]: "sample_limit = 248"
  by (simp add: sample_limit_def)

lemma isAlphanumeric_append [simp]:
  "isAlphanumeric (s @ t) \<longleftrightarrow> isAlphanumeric s \<and> isAlphanumeric t"
  by (simp add: isAlphanumeric_def)

lemma isAlphanumeric_nth [simp]: "i < 62 \<Longrightarrow> isAlphanumeric [alphabet ! i]"
  by (simp add: isAlphanumeric_def)

lemma sample_bytes_inv:
  "length out < n \<Longrightarrow> isAlphanumeric out \<Longrightarrow>
   length out \<le> length (sample_bytes n out buf) \<and> length (sample_bytes n out buf) \<le> n
   \<and> isAlphanumeric (sample_bytes n out buf)"
proof (induction n out buf rule: sample_bytes.induct)
  case (2 n out b buf)
  let ?out' = "out @ [alphabet ! (byte b mod 62)]"
  show ?case
  proof (cases "byte b \<ge> sample_limit")
    case False
    show ?thesis
    proof (cases "length ?out' = n")
      case len: False
      with 2 have "length ?out' < n" by simp
      then show ?thesis using 2(2) [OF False refl] len 2(3,4) False by (simp add: Let_def)
    qed (use 2 False in \<open>simp add: Let_def\<close>)
  qed (use 2 in simp)
qed simp

lemma sample_bytes_mono: "length out \<le> length (sample_bytes n out buf)"
  by (induction n out buf rule: sample_bytes.induct) (auto simp: Let_def)

lemma sample_bytes_progress:
  "length out < n \<Longrightarrow> \<exists>b \<in> set buf. byte b < sample_limit \<Longrightarrow>
   length out < length (sample_bytes n out buf)"
proof (induction n out buf rule: sample_bytes.induct)
  case (2 n out b buf)
  have "length out < length (sample_bytes n (out @ [alphabet ! (byte b mod 62)]) buf)"
    using sample_bytes_mono [of "out @ [alphabet ! (byte b mod 62)]" n buf] by simp
  with 2 show ?case by (auto simp: Let_def)
qed simp

lemma sample_loop_result:
  "sample_loop e fuel n out w = (Inr s, w') \<Longrightarrow> length out \<le> n \<Longrightarrow> isAlphanumeric out \<Longrightarrow>
   length s = n \<and> isAlphanumeric s \<and> wdb w' = wdb w \<and> wtick w' = wtick w"
proof (induction fuel arbitrary: out w)
  case (Suc fuel)
  show ?case
  proof (cases "length out < n")
    case True
    with Suc.prems obtain buf where
      "sample_loop e fuel n (sample_bytes n out buf) (w\<lparr>wrand := Suc (wrand w)\<rparr>) = (Inr s, w')"
      by (auto simp: returns_simps)
    with Suc.IH sample_bytes_inv [OF True Suc.prems(3)] show ?thesis by fastforce
  qed (use Suc.prems in \<open>auto simp: returns_simps\<close>)
qed (simp add: returns_simps)

lemma RandomString_result:
  "RandomString e n w = (Inr s, w') \<Longrightarrow>
   0 < n \<and> length s = nat n \<and> isAlphanumeric s \<and> wdb w' = wdb w \<and> wtick w' = wtick w"
  using sample_loop_result [of e "rand_fuel e" "nat n" "[]" w s w']
  by (auto simp: RandomString_def returns_simps isAlphanumeric_def split: if_splits)

text \<open>A source that never fails and never gives a read with nothing below the limit.\<close>

definition fair_random :: "env \<Rightarrow> nat \<Rightarrow> bool" where
  "fair_random e n \<longleftrightarrow>
     (\<forall>i. \<exists>bs. rand_read e i n = Inr bs \<and> (\<exists>b \<in> set bs. byte b < sample_limit))"

lemma sample_loop_total:
  "fair_random e n \<Longrightarrow> n - length out < fuel \<Longrightarrow> length out \<le> n \<Longrightarrow> isAlphanumeric out \<Longrightarrow>
   \<exists>s w'. sample_loop e fuel n out w = (Inr s, w')"
proof (induction fuel arbitrary: out w)
  case (Suc fuel)
  show ?case
  proof (cases "length out < n")
    case True
    from Suc.prems(1) obtain bs where
      bs: "rand_read e (wrand w) n = Inr bs" "\<exists>b \<in> set bs. byte b < sample_limit"
      unfolding fair_random_def by blast
    let ?out = "sample_bytes n out bs"
    have "length out < length ?out" "length ?out \<le> n" "isAlphanumeric ?out"
      using sample_bytes_progress [OF True bs(2)] sample_bytes_inv [OF True Suc.prems(4)] by auto
    with Suc.prems Suc.IH [of ?out "w\<lparr>wrand := Suc (wrand w)\<rparr>"] obtain s w' where
      "sample_loop e fuel n ?out (w\<lparr>wrand := Suc (wrand w)\<rparr>) = (Inr s, w')" by fastforce
    with True bs(1) show ?thesis
      by (simp add: call_def try_call_def read_random_def)
  qed (simp add: ok_def)
qed simp

lemma RandomString_total:
  "fair_random e (nat n) \<Longrightarrow> nat n < rand_fuel e \<Longrightarrow> 0 < n \<Longrightarrow>
   \<exists>s w'. RandomString e n w = (Inr s, w')"
  using sample_loop_total [of e "nat n" "[]" "rand_fuel e" w]
  by (simp add: RandomString_def isAlphanumeric_def)

lemma keeps_sample_loop [hoare_intros]: "keeps I (sample_loop e fuel n out)"
  by (induction fuel arbitrary: out) (auto intro!: hoare_intros)

lemma keeps_RandomString [hoare_intros]: "keeps I (RandomString e n)"
  by (auto simp: RandomString_def intro!: hoare_intros)

lemma keeps_GenerateToken [hoare_intros]: "keeps I (GenerateToken e p)"
  by (auto simp: GenerateToken_def intro!: hoare_intros)

section \<open>The token format\<close>

definition token_kinds :: "(string \<times> string \<times> bool) list" where
  "token_kinds =
     [(PrefixAdmin, OwnerAdmin, False), (PrefixUser, OwnerUser, False),
      (PrefixOrg, OwnerOrg, False), (PrefixAdminAgent, OwnerAdmin, True),
      (PrefixUserAgent, OwnerUser, True), (PrefixOrgAgent, OwnerOrg, True)]"

lemma isAlphanumeric_no_underscore: "isAlphanumeric s \<Longrightarrow> CHR ''_'' \<notin> set s"
  using alphabet_facts(3) by (auto simp: isAlphanumeric_def list_all_iff)

lemma ParseToken_agent:
  assumes "length r = RandomLength" and "isAlphanumeric r"
  shows "ParseToken (PrefixAdminAgent @ r) = Inr \<lparr>info_Prefix = PrefixAdminAgent,
           info_OwnerType = OwnerAdmin, info_IsAgent = True, info_Random = r\<rparr>"
    and "ParseToken (PrefixUserAgent @ r) = Inr \<lparr>info_Prefix = PrefixUserAgent,
           info_OwnerType = OwnerUser, info_IsAgent = True, info_Random = r\<rparr>"
    and "ParseToken (PrefixOrgAgent @ r) = Inr \<lparr>info_Prefix = PrefixOrgAgent,
           info_OwnerType = OwnerOrg, info_IsAgent = True, info_Random = r\<rparr>"
  using assms
  by (simp_all add: ParseToken_def parseAgentToken_def TrimPrefix_def HasPrefix_def token_consts)

lemma ParseToken_plain:
  assumes r: "length r = RandomLength" "isAlphanumeric r"
  shows "ParseToken (PrefixAdmin @ r) = Inr \<lparr>info_Prefix = PrefixAdmin,
           info_OwnerType = OwnerAdmin, info_IsAgent = False, info_Random = r\<rparr>"
    and "ParseToken (PrefixUser @ r) = Inr \<lparr>info_Prefix = PrefixUser,
           info_OwnerType = OwnerUser, info_IsAgent = False, info_Random = r\<rparr>"
    and "ParseToken (PrefixOrg @ r) = Inr \<lparr>info_Prefix = PrefixOrg,
           info_OwnerType = OwnerOrg, info_IsAgent = False, info_Random = r\<rparr>"
proof -
  have no: "CHR ''_'' \<notin> set r" using r(2) by (rule isAlphanumeric_no_underscore)
  then have "\<not> prefix ''agt_'' r" by (auto simp: prefix_def)
  then show
    "ParseToken (PrefixAdmin @ r) = Inr \<lparr>info_Prefix = PrefixAdmin,
       info_OwnerType = OwnerAdmin, info_IsAgent = False, info_Random = r\<rparr>"
    "ParseToken (PrefixUser @ r) = Inr \<lparr>info_Prefix = PrefixUser,
       info_OwnerType = OwnerUser, info_IsAgent = False, info_Random = r\<rparr>"
    "ParseToken (PrefixOrg @ r) = Inr \<lparr>info_Prefix = PrefixOrg,
       info_OwnerType = OwnerOrg, info_IsAgent = False, info_Random = r\<rparr>"
    using r Cut_append [of "CHR ''_''" "''adm''" r] Cut_append [of "CHR ''_''" "''usr''" r]
      Cut_append [of "CHR ''_''" "''org''" r]
    by (simp_all add: ParseToken_def HasPrefix_def token_consts)
qed

lemma parseAgentToken_Inr:
  "HasPrefix t p \<Longrightarrow> parseAgentToken t p own = Inr i \<Longrightarrow>
   info_Prefix i = p \<and> info_OwnerType i = own \<and> info_IsAgent i
   \<and> length (info_Random i) = RandomLength \<and> isAlphanumeric (info_Random i)
   \<and> t = p @ info_Random i"
  by (auto simp: parseAgentToken_def Let_def TrimPrefix_def HasPrefix_def prefix_def split: if_splits)

lemma ParseToken_Inr:
  assumes "ParseToken t = Inr i"
  shows "(info_Prefix i, info_OwnerType i, info_IsAgent i) \<in> set token_kinds
         \<and> length (info_Random i) = RandomLength \<and> isAlphanumeric (info_Random i)
         \<and> t = info_Prefix i @ info_Random i"
proof -
  consider (aa) "HasPrefix t PrefixAdminAgent" | (ua) "HasPrefix t PrefixUserAgent"
      "\<not> HasPrefix t PrefixAdminAgent"
    | (oa) "HasPrefix t PrefixOrgAgent" "\<not> HasPrefix t PrefixAdminAgent"
      "\<not> HasPrefix t PrefixUserAgent"
    | (no) "\<not> HasPrefix t PrefixAdminAgent" "\<not> HasPrefix t PrefixUserAgent"
      "\<not> HasPrefix t PrefixOrgAgent" by blast
  then show ?thesis
  proof cases
    case aa
    with assms have "parseAgentToken t PrefixAdminAgent OwnerAdmin = Inr i" by (simp add: ParseToken_def)
    from parseAgentToken_Inr [OF aa this] show ?thesis by (simp add: token_kinds_def)
  next
    case ua
    with assms have "parseAgentToken t PrefixUserAgent OwnerUser = Inr i" by (simp add: ParseToken_def)
    from parseAgentToken_Inr [OF ua(1) this] show ?thesis by (simp add: token_kinds_def)
  next
    case oa
    with assms have "parseAgentToken t PrefixOrgAgent OwnerOrg = Inr i" by (simp add: ParseToken_def)
    from parseAgentToken_Inr [OF oa(1) this] show ?thesis by (simp add: token_kinds_def)
  next
    case no
    with assms obtain a r where ar: "Cut (CHR ''_'') t = Some (a, r)"
      by (auto simp: ParseToken_def split: option.splits)
    define pre where "pre = a @ ''_''"
    define owner where "owner = (if pre = PrefixAdmin then Some OwnerAdmin
      else if pre = PrefixUser then Some OwnerUser
      else if pre = PrefixOrg then Some OwnerOrg else None)"
    have owner_kind: "(pre, own, False) \<in> set token_kinds" if "owner = Some own" for own
      using that by (auto simp: owner_def token_kinds_def split: if_splits)
    have "ParseToken t =
      (if length r \<noteq> RandomLength then Inl ErrInvalidTokenFormat
       else case owner of None \<Rightarrow> Inl (ErrUnknownTokenType pre)
         | Some own \<Rightarrow> if \<not> isAlphanumeric r then Inl ErrInvalidTokenFormat
             else Inr \<lparr>info_Prefix = pre, info_OwnerType = own, info_IsAgent = False,
                       info_Random = r\<rparr>)"
      unfolding ParseToken_def ar option.case prod.case Let_def owner_def pre_def
      by (simp only: no if_False)
    with assms owner_kind have "length r = RandomLength \<and> isAlphanumeric r \<and> info_Random i = r
        \<and> info_Prefix i = pre \<and> (info_Prefix i, info_OwnerType i, info_IsAgent i) \<in> set token_kinds"
      by (auto split: if_splits option.splits)
    then have "length r = RandomLength \<and> isAlphanumeric r \<and> info_Random i = r
        \<and> info_Prefix i = a @ ''_'' \<and> (info_Prefix i, info_OwnerType i, info_IsAgent i) \<in> set token_kinds"
      unfolding pre_def .
    with Cut_SomeD [OF ar] show ?thesis by auto
  qed
qed

end
