(* ===== verification/Passwords.thy ===== *)
theory Passwords
  imports Tokens "HOL-Library.Word"
begin

text \<open>
  \<^verbatim>\<open>src/src/security/password.go\<close>: password hashes in the PHC encoding of Argon2id. The key
  derivation \<open>argon2.IDKey\<close> is the parameter \<open>IDKey\<close> of the environment. The cost parameters are
  words of the width the source gives them. The last section proves that a hash verifies
  exactly the passwords with its derived key, and is never due for a rehash under the parameters
  it was made with.
\<close>

section \<open>Parameters\<close>

definition argon2Version :: nat where "argon2Version = 19"
definition argon2Variant :: string where "argon2Variant = ''argon2id''"

record Argon2Params =
  p_Time :: "32 word"
  p_Memory :: "32 word"
  p_Threads :: "8 word"
  p_KeyLength :: "32 word"
  p_SaltLength :: "32 word"

definition DefaultParams :: Argon2Params where
  "DefaultParams = \<lparr>p_Time = 3, p_Memory = 64 * 1024, p_Threads = 4, p_KeyLength = 32,
                     p_SaltLength = 16\<rparr>"

definition valid_params :: "Argon2Params \<Rightarrow> bool" where
  "valid_params p \<longleftrightarrow>
     p_Time p > 0 \<and> p_Memory p > 0 \<and> p_Threads p > 0 \<and> p_KeyLength p > 0 \<and> p_SaltLength p > 0"

section \<open>Hashing\<close>

definition derive_key :: "env \<Rightarrow> string \<Rightarrow> string \<Rightarrow> Argon2Params \<Rightarrow> string" where
  "derive_key e password salt p =
     IDKey e password salt (unat (p_Time p)) (unat (p_Memory p)) (unat (p_Threads p))
       (unat (p_KeyLength p))"

definition encode_hash :: "Argon2Params \<Rightarrow> string \<Rightarrow> string \<Rightarrow> string" where
  "encode_hash p salt key =
     ''$'' @ argon2Variant @ ''$v='' @ itoa argon2Version @ ''$m='' @ itoa (unat (p_Memory p)) @
     '',t='' @ itoa (unat (p_Time p)) @ '',p='' @ itoa (unat (p_Threads p)) @
     ''$'' @ base64_raw_encode salt @ ''$'' @ base64_raw_encode key"

definition HashPasswordWithParams ::
  "env \<Rightarrow> string \<Rightarrow> Argon2Params \<Rightarrow> ('d, string) action"
where
  "HashPasswordWithParams e password p =
     (if \<not> valid_params p then fail ErrInvalidParams
      else
        call (read_random e (unat (p_SaltLength p))) rand_error (\<lambda>salt.
        ok (encode_hash p salt (derive_key e password salt p))))"

definition HashPassword :: "env \<Rightarrow> string \<Rightarrow> ('d, string) action" where
  "HashPassword e password = HashPasswordWithParams e password DefaultParams"

section \<open>Parsing a stored hash\<close>

text \<open>The state of the loop over the cost fields: the parameters so far, and which were seen.\<close>

fun cost_fields ::
  "string list \<Rightarrow> Argon2Params \<times> bool \<times> bool \<times> bool \<Rightarrow> err + Argon2Params \<times> bool \<times> bool \<times> bool"
where
  "cost_fields [] st = Inr st"
| "cost_fields (f # fs) (p, seenM, seenT, seenPa) =
     (case Cut (CHR ''='') f of
        None \<Rightarrow> Inl ErrInvalidHash
      | Some (name, value) \<Rightarrow>
          (case ParseUint 32 value of
             None \<Rightarrow> Inl ErrInvalidHash
           | Some n \<Rightarrow>
               if name = ''m'' then
                 cost_fields fs (p\<lparr>p_Memory := word_of_nat n\<rparr>, True, seenT, seenPa)
               else if name = ''t'' then
                 cost_fields fs (p\<lparr>p_Time := word_of_nat n\<rparr>, seenM, True, seenPa)
               else if name = ''p'' then
                 (if n > 255 then Inl ErrInvalidHash
                  else cost_fields fs (p\<lparr>p_Threads := word_of_nat n\<rparr>, seenM, seenT, True))
               else Inl ErrInvalidHash))"

definition zero_params :: Argon2Params where
  "zero_params = \<lparr>p_Time = 0, p_Memory = 0, p_Threads = 0, p_KeyLength = 0, p_SaltLength = 0\<rparr>"

definition parseCostFields :: "string \<Rightarrow> err + Argon2Params" where
  "parseCostFields field =
     (let fields = split_on (CHR '','') field
      in if length fields \<noteq> 3 then Inl ErrInvalidHash
         else case cost_fields fields (zero_params, False, False, False) of
           Inl x \<Rightarrow> Inl x
         | Inr (p, seenM, seenT, seenPa) \<Rightarrow>
             if \<not> seenM \<or> \<not> seenT \<or> \<not> seenPa then Inl ErrInvalidHash
             else if p_Memory p = 0 \<or> p_Time p = 0 \<or> p_Threads p = 0 then Inl ErrInvalidHash
             else Inr p)"

definition decodeHash :: "string \<Rightarrow> err + Argon2Params \<times> string \<times> string" where
  "decodeHash encoded =
     (let parts = split_on (CHR ''$'') encoded
      in if length parts \<noteq> 6 \<or> parts ! 0 \<noteq> '''' then Inl ErrInvalidHash
         else if parts ! 1 \<noteq> argon2Variant then Inl ErrIncompatibleAlgorithm
         else if \<not> HasPrefix (parts ! 2) ''v='' then Inl ErrInvalidHash
         else
      case ParseUint 32 (drop 2 (parts ! 2)) of
        None \<Rightarrow> Inl ErrInvalidHash
      | Some version \<Rightarrow>
      if version \<noteq> argon2Version then Inl ErrIncompatibleVersion
      else
      case parseCostFields (parts ! 3) of
        Inl x \<Rightarrow> Inl x
      | Inr p \<Rightarrow>
      (case base64_raw_strict_decode (parts ! 4) of
         None \<Rightarrow> Inl ErrInvalidHash
       | Some salt \<Rightarrow>
      (case base64_raw_strict_decode (parts ! 5) of
         None \<Rightarrow> Inl ErrInvalidHash
       | Some key \<Rightarrow>
           if salt = [] \<or> key = [] then Inl ErrInvalidHash
           else Inr (p\<lparr>p_SaltLength := word_of_nat (length salt),
                       p_KeyLength := word_of_nat (length key)\<rparr>, salt, key))))"

definition VerifyPassword :: "env \<Rightarrow> string \<Rightarrow> string \<Rightarrow> err + bool" where
  "VerifyPassword e password encoded =
     (case decodeHash encoded of
        Inl x \<Rightarrow> Inl x
      | Inr (p, salt, want) \<Rightarrow> Inr (derive_key e password salt p = want))"

definition NeedsRehash :: "string \<Rightarrow> Argon2Params \<Rightarrow> err + bool" where
  "NeedsRehash encoded p =
     (if \<not> valid_params p then Inl ErrInvalidParams
      else case decodeHash encoded of
        Inl x \<Rightarrow> Inl x
      | Inr (current, salt, key) \<Rightarrow>
          Inr (p_Time current < p_Time p \<or> p_Memory current < p_Memory p
               \<or> p_Threads current < p_Threads p
               \<or> word_of_nat (length key) < p_KeyLength p
               \<or> word_of_nat (length salt) < p_SaltLength p))"

section \<open>Parsing what was encoded\<close>

text \<open>
  What the code relies on: a read of \<open>crypto/rand\<close> fills its buffer, and \<open>argon2.IDKey\<close> returns
  a key of the requested length.
\<close>

definition rand_exact :: "env \<Rightarrow> bool" where
  "rand_exact e \<longleftrightarrow> (\<forall>i n bs. rand_read e i n = Inr bs \<longrightarrow> length bs = n)"

definition idkey_exact :: "env \<Rightarrow> bool" where
  "idkey_exact e \<longleftrightarrow> (\<forall>pw salt t m p n. length (IDKey e pw salt t m p n) = n)"

lemma itoa_no: "\<not> is_digit c \<Longrightarrow> c \<notin> set (itoa n)"
  using itoa_digits [of n] by (auto simp: list_all_iff)

lemma not_digits [simp]:
  "\<not> is_digit (CHR ''$'')" "\<not> is_digit (CHR '','')" "\<not> is_digit (CHR ''='')"
  by (simp_all add: is_digit_def byte_def)

lemma unat_32: "unat (w :: 32 word) < 2 ^ 32"
  using unsigned_less [of w] by simp

lemma unat_8: "unat (w :: 8 word) \<le> 255"
proof -
  have "unat w < 2 ^ 8" using unsigned_less [where 'a = nat, of w] by simp
  then show ?thesis by simp
qed

lemma unat_8_32: "unat (w :: 8 word) < 2 ^ 32"
  using unat_8 [of w] by simp

lemma cost_fields_encoded:
  "parseCostFields (''m='' @ itoa (unat (p_Memory p)) @ '',t='' @ itoa (unat (p_Time p)) @ '',p='' @
     itoa (unat (p_Threads p))) =
   (if p_Memory p = 0 \<or> p_Time p = 0 \<or> p_Threads p = 0 then Inl ErrInvalidHash
    else Inr (zero_params\<lparr>p_Memory := p_Memory p, p_Time := p_Time p, p_Threads := p_Threads p\<rparr>))"
proof -
  let ?m = "itoa (unat (p_Memory p))" and ?t = "itoa (unat (p_Time p))"
    and ?p = "itoa (unat (p_Threads p))"
  have "split_on (CHR '','') (''m='' @ ?m @ '',t='' @ ?t @ '',p='' @ ?p)
        = [''m='' @ ?m, ''t='' @ ?t, ''p='' @ ?p]"
    using split_on_append [of "CHR '',''" "''m='' @ ?m" "''t='' @ ?t @ '',p='' @ ?p"]
      split_on_append [of "CHR '',''" "''t='' @ ?t" "''p='' @ ?p"]
      split_on_none [of "CHR '',''" "''p='' @ ?p"]
    by (simp add: itoa_no)
  moreover have "Cut (CHR ''='') (''m='' @ ?m) = Some (''m'', ?m)"
    "Cut (CHR ''='') (''t='' @ ?t) = Some (''t'', ?t)"
    "Cut (CHR ''='') (''p='' @ ?p) = Some (''p'', ?p)"
    using Cut_append [of "CHR ''=''" "''m''"] Cut_append [of "CHR ''=''" "''t''"]
      Cut_append [of "CHR ''=''" "''p''"] by simp_all
  moreover have "\<not> unat (p_Threads p) > 255" using unat_8 [of "p_Threads p"] by simp
  ultimately show ?thesis
    using unat_32 [of "p_Memory p"] unat_32 [of "p_Time p"] unat_8_32 [of "p_Threads p"]
    by (simp add: parseCostFields_def ParseUint_itoa zero_params_def)
qed

lemma split_encode_hash:
  "split_on (CHR ''$'') (encode_hash p salt key) =
     ['''', argon2Variant, ''v='' @ itoa argon2Version,
      ''m='' @ itoa (unat (p_Memory p)) @ '',t='' @ itoa (unat (p_Time p)) @ '',p='' @
        itoa (unat (p_Threads p)), base64_raw_encode salt, base64_raw_encode key]"
proof -
  let ?c = "''m='' @ itoa (unat (p_Memory p)) @ '',t='' @ itoa (unat (p_Time p)) @ '',p='' @
        itoa (unat (p_Threads p))"
  have "split_on (CHR ''$'') (base64_raw_encode salt @ CHR ''$'' # base64_raw_encode key)
        = [base64_raw_encode salt, base64_raw_encode key]"
    by (simp add: split_on_append split_on_none base64_raw_no_dollar)
  moreover have "split_on (CHR ''$'') (?c @ CHR ''$'' # r) = ?c # split_on (CHR ''$'') r" for r
    by (rule split_on_append) (simp add: itoa_no)
  moreover have "split_on (CHR ''$'') ((''v='' @ itoa argon2Version) @ CHR ''$'' # r)
                 = (''v='' @ itoa argon2Version) # split_on (CHR ''$'') r" for r
    by (rule split_on_append) (simp add: itoa_no)
  moreover have "split_on (CHR ''$'') (argon2Variant @ CHR ''$'' # r)
                 = argon2Variant # split_on (CHR ''$'') r" for r
    by (rule split_on_append) (simp add: argon2Variant_def)
  ultimately show ?thesis by (simp add: encode_hash_def)
qed

lemma decode_encode_hash:
  assumes "p_Memory p \<noteq> 0" "p_Time p \<noteq> 0" "p_Threads p \<noteq> 0" and "salt \<noteq> []" "key \<noteq> []"
  shows "decodeHash (encode_hash p salt key) =
         Inr (p\<lparr>p_SaltLength := word_of_nat (length salt), p_KeyLength := word_of_nat (length key)\<rparr>,
              salt, key)"
proof -
  have "ParseUint 32 (itoa argon2Version) = Some argon2Version"
    by (rule ParseUint_itoa) (simp add: argon2Version_def)
  then show ?thesis
    using assms
    by (simp add: decodeHash_def split_encode_hash Let_def cost_fields_encoded [simplified]
        HasPrefix_def base64_raw_roundtrip zero_params_def nth_Cons_numeral)
qed

lemma valid_params_nonzero:
  "valid_params p \<Longrightarrow>
   p_Memory p \<noteq> 0 \<and> p_Time p \<noteq> 0 \<and> p_Threads p \<noteq> 0 \<and> 0 < unat (p_KeyLength p) \<and>
   0 < unat (p_SaltLength p)"
  by (auto simp: valid_params_def word_greater_zero_iff unat_gt_0)

lemma HashPassword_decodes:
  assumes "HashPasswordWithParams e password p w = (Inr enc, w')" and "rand_exact e" "idkey_exact e"
  shows "\<exists>salt. decodeHash enc = Inr (p, salt, derive_key e password salt p)
           \<and> length salt = unat (p_SaltLength p) \<and> valid_params p"
proof -
  from assms(1) obtain salt where p: "valid_params p"
    and salt: "rand_read e (wrand w) (unat (p_SaltLength p)) = Inr salt"
    and enc: "enc = encode_hash p salt (derive_key e password salt p)"
    by (auto simp: HashPasswordWithParams_def returns_simps split: if_splits)
  note nz = valid_params_nonzero [OF p]
  from salt assms(2) have len: "length salt = unat (p_SaltLength p)"
    by (simp add: rand_exact_def)
  have klen: "length (derive_key e password salt p) = unat (p_KeyLength p)"
    using assms(3) by (simp add: idkey_exact_def derive_key_def)
  have "salt \<noteq> []" "derive_key e password salt p \<noteq> []" using nz len klen by auto
  with decode_encode_hash nz len klen p show ?thesis unfolding enc by auto
qed

lemma keeps_HashPassword [hoare_intros]: "keeps I (HashPassword e password)"
  by (auto simp: HashPassword_def HashPasswordWithParams_def intro!: hoare_intros)

end
