(* ===== verification/Encryption.thy ===== *)
theory Encryption
  imports Passwords
begin

text \<open>
  \<^verbatim>\<open>src/src/security/encrypt.go\<close>: versioned AES-256-GCM values and the key ring of a rotation.
  \<open>gcm_seal\<close> and \<open>gcm_open\<close> of the environment are \<open>AEAD.Seal\<close> and \<open>AEAD.Open\<close> of the standard
  library under a key.
\<close>

section \<open>Ciphers\<close>

definition KeyLength :: nat where "KeyLength = 32"
definition NonceSize :: nat where "NonceSize = 12"
definition Overhead :: nat where "Overhead = 16"

definition GenerateEncryptionKey :: "env \<Rightarrow> ('d, string) action" where
  "GenerateEncryptionKey e =
     call (read_random e KeyLength) rand_error (\<lambda>key. ok (base64_encode key))"

definition NewCipher :: "string \<Rightarrow> int \<Rightarrow> err + Cipher" where
  "NewCipher base64Key version =
     (if version < 1 then Inl ErrInvalidKeyVersion
      else case base64_decode (TrimSpace base64Key) of
        None \<Rightarrow> Inl ErrInvalidKey
      | Some key \<Rightarrow>
          if length key \<noteq> KeyLength then Inl ErrInvalidKey
          else Inr \<lparr>aead_key = key, aead_version = version\<rparr>)"

definition itoa_int :: "int \<Rightarrow> string" where
  "itoa_int n = (if n < 0 then ''-'' @ itoa (nat (- n)) else itoa (nat n))"

definition Encrypt :: "env \<Rightarrow> Cipher \<Rightarrow> string \<Rightarrow> ('d, string) action" where
  "Encrypt e c plaintext =
     call (read_random e NonceSize) rand_error (\<lambda>nonce.
     ok (''v'' @ itoa_int (aead_version c) @ '':'' @
         base64_encode (nonce @ gcm_seal e (aead_key c) nonce plaintext)))"

text \<open>The second component is the key version; an untagged value has version 1.\<close>

definition splitVersionTag :: "string \<Rightarrow> err + string \<times> int" where
  "splitVersionTag encoded =
     (if encoded = [] then Inl ErrInvalidCiphertext
      else case Cut (CHR '':'') encoded of
        None \<Rightarrow> Inr (encoded, 1)
      | Some (tag, payload) \<Rightarrow>
          if \<not> HasPrefix tag ''v'' then Inl ErrInvalidCiphertext
          else (case ParseInt64 (drop 1 tag) of
                  None \<Rightarrow> Inl ErrInvalidCiphertext
                | Some version \<Rightarrow>
                    if version < 1 then Inl ErrInvalidCiphertext else Inr (payload, version)))"

definition Decrypt :: "env \<Rightarrow> Cipher \<Rightarrow> string \<Rightarrow> err + string" where
  "Decrypt e c encoded =
     (case splitVersionTag encoded of
        Inl x \<Rightarrow> Inl x
      | Inr (payload, version) \<Rightarrow>
          if version \<noteq> aead_version c then Inl ErrKeyVersionMismatch
          else case base64_decode payload of
            None \<Rightarrow> Inl ErrInvalidCiphertext
          | Some raw \<Rightarrow>
              if length raw < NonceSize + Overhead then Inl ErrInvalidCiphertext
              else (case gcm_open e (aead_key c) (take NonceSize raw) (drop NonceSize raw) of
                      None \<Rightarrow> Inl ErrDecryptFailed
                    | Some plaintext \<Rightarrow> Inr plaintext))"

section \<open>The key ring\<close>

record KeyRing =
  ring_current :: "Cipher option"
  ring_previous :: "Cipher option list"

definition NewKeyRing :: "Cipher option \<Rightarrow> Cipher option list \<Rightarrow> KeyRing" where
  "NewKeyRing current previous = \<lparr>ring_current = current, ring_previous = previous\<rparr>"

definition ring_Encrypt :: "env \<Rightarrow> KeyRing \<Rightarrow> string \<Rightarrow> ('d, string) action" where
  "ring_Encrypt e k plaintext =
     (case ring_current k of None \<Rightarrow> fail ErrInvalidKey | Some c \<Rightarrow> Encrypt e c plaintext)"

fun try_previous :: "env \<Rightarrow> Cipher option list \<Rightarrow> string \<Rightarrow> err + string" where
  "try_previous e [] encoded = Inl ErrDecryptFailed"
| "try_previous e (None # cs) encoded = try_previous e cs encoded"
| "try_previous e (Some c # cs) encoded =
     (case Decrypt e c encoded of Inr p \<Rightarrow> Inr p | Inl _ \<Rightarrow> try_previous e cs encoded)"

definition ring_Decrypt :: "env \<Rightarrow> KeyRing \<Rightarrow> string \<Rightarrow> err + string" where
  "ring_Decrypt e k encoded =
     (case ring_current k of
        Some c \<Rightarrow>
          (case Decrypt e c encoded of
             Inr p \<Rightarrow> Inr p
           | Inl _ \<Rightarrow> try_previous e (ring_previous k) encoded)
      | None \<Rightarrow> try_previous e (ring_previous k) encoded)"

section \<open>Opening what was sealed\<close>

text \<open>The documented contract of an AEAD: it opens what it sealed, and a tag of 16 bytes is added.\<close>

definition aead_correct :: "env \<Rightarrow> bool" where
  "aead_correct e \<longleftrightarrow>
     (\<forall>k n p. gcm_open e k n (gcm_seal e k n p) = Some p
              \<and> length (gcm_seal e k n p) = length p + Overhead)"

lemma ParseInt64_itoa_int: "0 \<le> n \<Longrightarrow> n < 2 ^ 63 \<Longrightarrow> ParseInt64 (itoa_int n) = Some n"
  by (simp add: itoa_int_def ParseInt64_itoa)

lemma itoa_int_no_colon: "0 \<le> n \<Longrightarrow> CHR '':'' \<notin> set (itoa_int n)"
  using itoa_no [of "CHR '':''" "nat n"] by (simp add: itoa_int_def is_digit_def byte_def)

lemma splitVersionTag_encoded:
  assumes "1 \<le> n" "n < 2 ^ 63"
  shows "splitVersionTag (''v'' @ itoa_int n @ '':'' @ payload) = Inr (payload, n)"
proof -
  have "Cut (CHR '':'') ((''v'' @ itoa_int n) @ CHR '':'' # payload) = Some (''v'' @ itoa_int n, payload)"
    using assms(1) itoa_int_no_colon [of n] by (intro Cut_append) simp
  then show ?thesis
    using assms ParseInt64_itoa_int [of n] by (simp add: splitVersionTag_def HasPrefix_def)
qed

lemma Encrypt_returns:
  assumes "Encrypt e c p w = (Inr s, w')" and "rand_exact e"
  shows "\<exists>nonce. length nonce = NonceSize \<and>
           s = ''v'' @ itoa_int (aead_version c) @ '':'' @
               base64_encode (nonce @ gcm_seal e (aead_key c) nonce p)"
  using assms by (auto simp: Encrypt_def returns_simps rand_exact_def)

lemma Encrypt_opens:
  assumes "Encrypt e c p w = (Inr s, w')" and "rand_exact e" "aead_correct e"
    and "1 \<le> aead_version c" "aead_version c < 2 ^ 63"
  shows "Decrypt e c s = Inr p"
    and "aead_version c' \<noteq> aead_version c \<Longrightarrow> Decrypt e c' s = Inl ErrKeyVersionMismatch"
proof -
  from Encrypt_returns [OF assms(1,2)] obtain nonce where
    n: "length nonce = NonceSize" and
    s: "s = ''v'' @ itoa_int (aead_version c) @ '':'' @
            base64_encode (nonce @ gcm_seal e (aead_key c) nonce p)" by blast
  show "Decrypt e c s = Inr p"
    using assms(3) n
    by (simp add: Decrypt_def s splitVersionTag_encoded [OF assms(4,5), simplified]
        base64_roundtrip aead_correct_def)
  show "aead_version c' \<noteq> aead_version c \<Longrightarrow> Decrypt e c' s = Inl ErrKeyVersionMismatch"
    by (simp add: Decrypt_def s splitVersionTag_encoded [OF assms(4,5), simplified])
qed

lemma try_previous_opens:
  assumes "Some c \<in> set cs" and "Decrypt e c s = Inr p"
    and "\<And>c'. Some c' \<in> set cs \<Longrightarrow> aead_version c' = aead_version c \<Longrightarrow> c' = c"
    and "\<And>c'. aead_version c' \<noteq> aead_version c \<Longrightarrow> Decrypt e c' s = Inl ErrKeyVersionMismatch"
  shows "try_previous e cs s = Inr p"
  using assms(1,3)
proof (induction cs)
  case (Cons a cs)
  show ?case
  proof (cases a)
    case None
    with Cons show ?thesis by auto
  next
    case (Some c')
    show ?thesis
    proof (cases "aead_version c' = aead_version c")
      case True
      with Cons.prems Some have "c' = c" by auto
      with Some assms(2) show ?thesis by simp
    next
      case False
      with Cons Some assms(4) show ?thesis by auto
    qed
  qed
qed simp

lemma keeps_Encrypt [hoare_intros]: "keeps I (Encrypt e c p)"
  by (auto simp: Encrypt_def intro!: hoare_intros)

end
