(* ===== verification/Totp.thy ===== *)
theory Totp
  imports Encryption
begin

text \<open>
  \<^verbatim>\<open>src/src/security/totp.go\<close>: time-based one-time codes. HMAC-SHA1 is \<open>hmac_sha1\<close> of the
  environment; times are nanoseconds since the epoch and the counter is a 64-bit word, as in the
  source. The otpauth URI is \<open>provisioning_uri\<close> of the environment.
\<close>

section \<open>Codes\<close>

definition TOTPDigits :: nat where "TOTPDigits = 6"
definition TOTPPeriod :: int where "TOTPPeriod = 30 * second"
definition TOTPSecretBytes :: nat where "TOTPSecretBytes = 20"
definition TOTPSkew :: int where "TOTPSkew = 1"

definition GenerateTOTPSecret :: "env \<Rightarrow> ('d, string) action" where
  "GenerateTOTPSecret e =
     call (read_random e TOTPSecretBytes) id (\<lambda>seed. ok (base32_raw_encode seed))"

definition totp_counter :: "int \<Rightarrow> 64 word" where
  "totp_counter at = word_of_int (at div second) div word_of_int (TOTPPeriod div second)"

text \<open>\<open>binary.BigEndian\<close>\<close>

definition be64 :: "64 word \<Rightarrow> string" where
  "be64 n = map (\<lambda>i. chr (unat n div 256 ^ (7 - i) mod 256)) [0..<8]"

definition be32 :: "string \<Rightarrow> nat" where
  "be32 s = foldl (\<lambda>n c. 256 * n + byte c) 0 (take 4 s)"

text \<open>\<open>%0*d\<close>\<close>

definition zero_padded :: "nat \<Rightarrow> nat \<Rightarrow> string" where
  "zero_padded k n = replicate (k - length (itoa n)) (CHR ''0'') @ itoa n"

definition TOTPCode :: "env \<Rightarrow> string \<Rightarrow> int \<Rightarrow> err + string" where
  "TOTPCode e secret at =
     (case base32_raw_decode (ToUpper (TrimSpace secret)) of
        None \<Rightarrow> Inl ErrInvalidTOTPSecret
      | Some seed \<Rightarrow>
          let sum = hmac_sha1 e seed (be64 (totp_counter at));
              offset = byte (last sum) mod 16;
              truncated = be32 (drop offset sum) mod 2 ^ 31
          in Inr (zero_padded TOTPDigits (truncated mod 10 ^ TOTPDigits)))"

text \<open>
  The loop over the steps from \<open>- TOTPSkew\<close> to \<open>TOTPSkew\<close> collects whether any code matched; an
  error of any step answers no.
\<close>

fun match_steps :: "env \<Rightarrow> string \<Rightarrow> string \<Rightarrow> int \<Rightarrow> int list \<Rightarrow> bool \<Rightarrow> bool" where
  "match_steps e secret code at [] matched = matched"
| "match_steps e secret code at (step # steps) matched =
     (case TOTPCode e secret (at + step * TOTPPeriod) of
        Inl _ \<Rightarrow> False
      | Inr want \<Rightarrow> match_steps e secret code at steps (matched \<or> want = code))"

definition VerifyTOTP :: "env \<Rightarrow> string \<Rightarrow> string \<Rightarrow> int \<Rightarrow> bool" where
  "VerifyTOTP e secret code at =
     (let code = TrimSpace code
      in if length code \<noteq> TOTPDigits then False
         else match_steps e secret code at [- TOTPSkew..TOTPSkew] False)"

section \<open>The window\<close>

lemma match_steps_iff:
  "match_steps e secret code at steps m \<longleftrightarrow>
   (\<forall>s \<in> set steps. \<exists>c. TOTPCode e secret (at + s * TOTPPeriod) = Inr c) \<and>
   (m \<or> (\<exists>s \<in> set steps. TOTPCode e secret (at + s * TOTPPeriod) = Inr code))"
  by (induction steps arbitrary: m) (auto split: sum.splits)

lemma TOTPCode_Inl: "TOTPCode e secret at = Inl x \<Longrightarrow> TOTPCode e secret at' = Inl x"
  by (simp add: TOTPCode_def Let_def split: option.splits)

lemma steps_list: "[- TOTPSkew..TOTPSkew] = [-1, 0, 1]"
  by (simp add: TOTPSkew_def upto.simps)

lemma itoa_length: "n < 10 ^ k \<Longrightarrow> 0 < k \<Longrightarrow> length (itoa n) \<le> k"
proof (induction k arbitrary: n)
  case (Suc k)
  show ?case
  proof (cases "n < 10")
    case False
    with Suc.prems have "n div 10 < 10 ^ k" by (simp add: less_mult_imp_div_less mult.commute)
    moreover have "0 < k"
      using False Suc.prems(1) by (cases k) auto
    ultimately have "length (itoa (n div 10)) \<le> k" by (rule Suc.IH)
    then show ?thesis using False by (subst itoa.simps) simp
  qed (subst itoa.simps, simp)
qed simp

lemma zero_padded_digits:
  assumes "n < 10 ^ k" "0 < k"
  shows "length (zero_padded k n) = k \<and> list_all is_digit (zero_padded k n)"
proof -
  have "is_digit (CHR ''0'')" by (simp add: is_digit_def byte_def)
  moreover have "list_all is_digit (itoa n)" by (rule itoa_digits)
  ultimately show ?thesis
    using itoa_length [OF assms] by (auto simp: zero_padded_def list_all_iff)
qed

lemma TOTPCode_digits:
  "TOTPCode e secret at = Inr c \<Longrightarrow> length c = TOTPDigits \<and> list_all is_digit c"
  using zero_padded_digits [of "_ mod 10 ^ TOTPDigits" TOTPDigits]
  by (auto simp: TOTPCode_def Let_def TOTPDigits_def split: option.splits)

lemma digits_plain: "list_all is_digit s \<Longrightarrow> TrimSpace s = s"
  by (rule TrimSpace_plain) (auto simp: list_all_iff is_digit_def plain_byte_def)

end
