(* ===== verification/Models.thy ===== *)
theory Models
  imports Totp
begin

text \<open>
  The rows of users.db: the value types of \<^verbatim>\<open>src/src/server/model\<close> and of the store, with their
  methods. A field is the Go field with the type's initial before it. Times are whole seconds in
  nanoseconds since the epoch; a nullable TIMESTAMP column is an option (SQL NULL and Go's zero
  time are \<open>None\<close>), a NOT NULL one is a time, which is the zero time when it is \<open>zero_time\<close>.
\<close>

section \<open>\<^verbatim>\<open>model/user.go\<close>\<close>

definition zero_time :: int where "zero_time = - 62135596800 * second"

record User =
  u_ID :: int
  u_Username :: string
  u_Email :: string
  u_NotificationEmail :: string
  u_PasswordHash :: string
  u_DisplayName :: string
  u_Bio :: string
  u_Location :: string
  u_Website :: string
  u_AvatarURL :: string
  u_Timezone :: string
  u_Language :: string
  u_Role :: string
  u_Visibility :: string
  u_OrgVisibility :: bool
  u_Status :: string
  u_EmailVerified :: bool
  u_FailedLogins :: int
  u_LockedUntil :: "int option"
  u_LastLoginAt :: "int option"
  u_CreatedAt :: int
  u_UpdatedAt :: int

definition StatusActive :: string where "StatusActive = ''active''"
definition StatusSuspended :: string where "StatusSuspended = ''suspended''"
definition StatusPending :: string where "StatusPending = ''pending''"
definition VisibilityPublic :: string where "VisibilityPublic = ''public''"
definition VisibilityPrivate :: string where "VisibilityPrivate = ''private''"

definition user_Active :: "User \<Rightarrow> bool" where
  "user_Active u = (u_Status u = StatusActive)"

definition user_Locked :: "User \<Rightarrow> int \<Rightarrow> bool" where
  "user_Locked u now = (case u_LockedUntil u of None \<Rightarrow> False | Some t \<Rightarrow> now < t)"

definition user_Public :: "User \<Rightarrow> bool" where
  "user_Public u = (u_Visibility u = VisibilityPublic)"

definition ContactEmail :: "User \<Rightarrow> string" where
  "ContactEmail u = (if u_NotificationEmail u \<noteq> [] then u_NotificationEmail u else u_Email u)"

record Preferences =
  pr_UserID :: int
  pr_ShowEmail :: bool
  pr_ShowActivity :: bool
  pr_ShowOrgs :: bool
  pr_Searchable :: bool
  pr_EmailSecurity :: bool
  pr_EmailOrg :: bool
  pr_EmailProduct :: bool
  pr_Theme :: string
  pr_FontSize :: string
  pr_ReduceMotion :: bool
  pr_DateFormat :: string
  pr_TimeFormat :: string
  pr_UpdatedAt :: int

definition DefaultPreferences :: "int \<Rightarrow> Preferences" where
  "DefaultPreferences userID =
     \<lparr>pr_UserID = userID, pr_ShowEmail = False, pr_ShowActivity = True, pr_ShowOrgs = True,
      pr_Searchable = True, pr_EmailSecurity = True, pr_EmailOrg = True, pr_EmailProduct = False,
      pr_Theme = ''auto'', pr_FontSize = ''medium'', pr_ReduceMotion = False,
      pr_DateFormat = ''iso'', pr_TimeFormat = ''24h'', pr_UpdatedAt = zero_time\<rparr>"

record Session =
  s_ID :: int
  s_UserID :: int
  s_Hash :: string
  s_IP :: string
  s_UserAgent :: string
  s_TwoFactorOK :: bool
  s_CreatedAt :: int
  s_LastActive :: int
  s_ExpiresAt :: int

definition session_Expired :: "Session \<Rightarrow> int \<Rightarrow> bool" where
  "session_Expired s now = (s_ExpiresAt s \<noteq> zero_time \<and> \<not> now < s_ExpiresAt s)"

section \<open>\<^verbatim>\<open>model/org.go\<close>\<close>

record Org =
  o_ID :: int
  o_Slug :: string
  o_Name :: string
  o_Description :: string
  o_Website :: string
  o_Location :: string
  o_AvatarURL :: string
  o_Visibility :: string
  o_Personal :: bool
  o_OwnerID :: int
  o_Status :: string
  o_CreatedAt :: int
  o_UpdatedAt :: int

definition org_Public :: "Org \<Rightarrow> bool" where
  "org_Public o1 = (o_Visibility o1 = VisibilityPublic)"

definition org_Active :: "Org \<Rightarrow> bool" where
  "org_Active o1 = (o_Status o1 = StatusActive)"

text \<open>\<open>Username\<close> and \<open>Email\<close> are filled by the listing query only.\<close>

record Member =
  m_OrgID :: int
  m_UserID :: int
  m_Role :: string
  m_CreatedAt :: int
  m_Username :: string
  m_Email :: string

record Invite =
  i_ID :: int
  i_CodeHash :: string
  i_OrgID :: int
  i_Email :: string
  i_Role :: string
  i_MaxUses :: int
  i_UseCount :: int
  i_InvitedBy :: int
  i_AcceptedAt :: "int option"
  i_CreatedAt :: int
  i_ExpiresAt :: int

definition Redeemable :: "Invite \<Rightarrow> int \<Rightarrow> bool" where
  "Redeemable i now =
     (if i_ExpiresAt i \<noteq> zero_time \<and> \<not> now < i_ExpiresAt i then False
      else if i_MaxUses i = 0 then True
      else i_UseCount i < i_MaxUses i)"

record AuditEntry =
  a_ID :: int
  a_SubjectID :: int
  a_Event :: string
  a_ActorType :: string
  a_ActorID :: int
  a_TargetID :: int
  a_Details :: string
  a_CreatedAt :: int

definition ActorUser :: string where "ActorUser = ''user''"
definition ActorSystem :: string where "ActorSystem = ''system''"

section \<open>\<^verbatim>\<open>model/token.go\<close>\<close>

record Token =
  t_ID :: int
  t_OwnerType :: string
  t_OwnerID :: int
  t_Name :: string
  t_Hash :: string
  t_Prefix :: string
  t_Scope :: string
  t_Role :: string
  t_OrgID :: int
  t_ZoneID :: int
  t_Capability :: string
  t_LastUsedAt :: "int option"
  t_RevokedAt :: "int option"
  t_ExpiresAt :: "int option"
  t_CreatedAt :: int

definition token_Usable :: "Token \<Rightarrow> int \<Rightarrow> bool" where
  "token_Usable t now =
     (if t_RevokedAt t \<noteq> None then False
      else case t_ExpiresAt t of None \<Rightarrow> True | Some x \<Rightarrow> now < x)"

definition Narrowed :: "Token \<Rightarrow> bool" where
  "Narrowed t = (t_ZoneID t \<noteq> 0 \<or> t_Capability t \<noteq> [])"

definition token_AllowsCapability :: "Token \<Rightarrow> string \<Rightarrow> bool" where
  "token_AllowsCapability t name = (t_Capability t = [] \<or> t_Capability t = name)"

definition token_AllowsZone :: "Token \<Rightarrow> int \<Rightarrow> bool" where
  "token_AllowsZone t zoneID = (t_ZoneID t = 0 \<or> t_ZoneID t = zoneID)"

section \<open>\<^verbatim>\<open>model/domain.go\<close>\<close>

record Domain =
  d_ID :: int
  d_OrgID :: int
  d_Name :: string
  d_Purpose :: string
  d_IsApex :: bool
  d_IsWildcard :: bool
  d_VerificationStatus :: string
  d_VerificationToken :: string
  d_VerifiedAt :: "int option"
  d_LastCheckAt :: "int option"
  d_CheckCount :: int
  d_SSLEnabled :: bool
  d_SSLStatus :: string
  d_SSLChallenge :: string
  d_SSLIssuedAt :: "int option"
  d_SSLExpiresAt :: "int option"
  d_SSLLastError :: string
  d_Status :: string
  d_SuspendReason :: string
  d_CreatedAt :: int
  d_UpdatedAt :: int

definition PurposeUI :: string where "PurposeUI = ''ui''"

definition DomainPurposes :: "string list" where
  "DomainPurposes = [PurposeUI, ''ddns'', ''redirect'', ''parking'', ''gateway'']"

definition VerificationPending :: string where "VerificationPending = ''pending''"
definition VerificationVerified :: string where "VerificationVerified = ''verified''"
definition VerificationFailed :: string where "VerificationFailed = ''failed''"
definition SSLNone :: string where "SSLNone = ''none''"
definition SSLPending :: string where "SSLPending = ''pending''"
definition SSLIssued :: string where "SSLIssued = ''issued''"
definition SSLFailed :: string where "SSLFailed = ''failed''"
definition DomainPending :: string where "DomainPending = ''pending''"
definition DomainActive :: string where "DomainActive = ''active''"
definition DomainSuspended :: string where "DomainSuspended = ''suspended''"

lemmas model_consts = StatusActive_def StatusSuspended_def StatusPending_def VisibilityPublic_def
  VisibilityPrivate_def ActorUser_def ActorSystem_def PurposeUI_def VerificationPending_def
  VerificationVerified_def VerificationFailed_def SSLNone_def SSLPending_def SSLIssued_def
  SSLFailed_def DomainPending_def DomainActive_def DomainSuspended_def

definition Verified :: "Domain \<Rightarrow> bool" where
  "Verified d = (d_VerificationStatus d = VerificationVerified)"

definition Servable :: "Domain \<Rightarrow> bool" where
  "Servable d = (Verified d \<and> d_Status d = DomainActive)"

definition ValidPurpose :: "string \<Rightarrow> bool" where
  "ValidPurpose name = list_ex (\<lambda>p. p = name) DomainPurposes"

section \<open>\<^verbatim>\<open>store/credential.go\<close> and \<^verbatim>\<open>store/totp.go\<close>\<close>

text \<open>A row of password_resets (whose address is empty) or of email_verifications.\<close>

record Challenge =
  c_ID :: int
  c_UserID :: int
  c_Email :: string
  c_Hash :: string
  c_UsedAt :: "int option"
  c_CreatedAt :: int
  c_ExpiresAt :: int

definition challenge_Usable :: "Challenge \<Rightarrow> int \<Rightarrow> bool" where
  "challenge_Usable c at =
     (if c_UsedAt c \<noteq> None then False else c_ExpiresAt c = zero_time \<or> at < c_ExpiresAt c)"

record TOTP =
  totp_UserID :: int
  SecretEncrypted :: string
  KeyVersion :: int
  totp_Confirmed :: bool
  RecoveryCodes :: string
  totp_CreatedAt :: int

section \<open>\<^verbatim>\<open>database/schema_dns.go\<close>: what the store reads of zones\<close>

record Zone =
  z_ID :: int
  z_OrgID :: int
  z_Name :: string

record ZoneGrant =
  g_OrgID :: int
  g_UserID :: int
  g_ZoneID :: int
  g_Permission :: string
  g_CreatedAt :: int

section \<open>The database\<close>

record users_db =
  users :: "User list"
  user_preferences :: "Preferences list"
  user_sessions :: "Session list"
  password_resets :: "Challenge list"
  email_verifications :: "Challenge list"
  totp_secrets :: "TOTP list"
  organizations :: "Org list"
  organization_members :: "Member list"
  organization_audit :: "AuditEntry list"
  api_tokens :: "Token list"
  invitations :: "Invite list"
  custom_domains :: "Domain list"
  custom_domain_audit :: "AuditEntry list"
  zones :: "Zone list"
  zone_grants :: "ZoneGrant list"

end
