(* ===== verification/Users_DB.thy ===== *)
theory Users_DB
  imports Models
begin

text \<open>
  users.db as SQLite runs it: the statements the store issues, with the UNIQUE, PRIMARY KEY and
  FOREIGN KEY constraints of \<^verbatim>\<open>src/src/database/schema_users.go\<close> and the two zone tables of
  \<^verbatim>\<open>schema_dns.go\<close> (\<open>open.go\<close> turns foreign keys on). A violated constraint gives the driver's
  message; a deleted row takes the rows that reference it with ON DELETE CASCADE.
\<close>

section \<open>Statements\<close>

type_synonym 'a uaction = "(users_db, 'a) action"
type_synonym statement = "users_db \<Rightarrow> string + int \<times> users_db"

definition unique_msg :: "string \<Rightarrow> string" where
  "unique_msg column = ''constraint failed: UNIQUE constraint failed: '' @ column @ '' (2067)''"

definition foreign_key_msg :: string where
  "foreign_key_msg = ''constraint failed: FOREIGN KEY constraint failed (787)''"

text \<open>The first violated constraint of a list, then the change.\<close>

fun constrained :: "(bool \<times> string) list \<Rightarrow> string + int \<times> users_db \<Rightarrow> string + int \<times> users_db" where
  "constrained [] r = r"
| "constrained ((satisfied, msg) # cs) r = (if satisfied then constrained cs r else Inl msg)"

definition sql_update ::
  "(users_db \<Rightarrow> 'r list) \<Rightarrow> (('r list \<Rightarrow> 'r list) \<Rightarrow> users_db \<Rightarrow> users_db) \<Rightarrow>
   ('r \<Rightarrow> bool) \<Rightarrow> ('r \<Rightarrow> 'r) \<Rightarrow> statement"
where
  "sql_update table upd p f d = Inr (count_where p (table d), upd (update_where p f) d)"

definition sql_delete ::
  "(users_db \<Rightarrow> 'r list) \<Rightarrow> (('r list \<Rightarrow> 'r list) \<Rightarrow> users_db \<Rightarrow> users_db) \<Rightarrow>
   ('r \<Rightarrow> bool) \<Rightarrow> statement"
where
  "sql_delete table upd p d = Inr (count_where p (table d), upd (delete_where p) d)"

section \<open>Foreign keys\<close>

definition has_user :: "users_db \<Rightarrow> int \<Rightarrow> bool" where
  "has_user d ident = exists_where (\<lambda>u. u_ID u = ident) (users d)"

definition has_org :: "users_db \<Rightarrow> int \<Rightarrow> bool" where
  "has_org d ident = exists_where (\<lambda>o1. o_ID o1 = ident) (organizations d)"

definition has_zone :: "users_db \<Rightarrow> int \<Rightarrow> bool" where
  "has_zone d ident = exists_where (\<lambda>z. z_ID z = ident) (zones d)"

definition has_domain :: "users_db \<Rightarrow> int \<Rightarrow> bool" where
  "has_domain d ident = exists_where (\<lambda>x. d_ID x = ident) (custom_domains d)"

text \<open>A nullable INTEGER reference is stored as zero in the model where the column is NULL.\<close>

definition null_or :: "(int \<Rightarrow> bool) \<Rightarrow> int \<Rightarrow> bool" where
  "null_or p ident = (ident = 0 \<or> p ident)"

section \<open>Inserts\<close>

definition insert_user :: "User \<Rightarrow> statement" where
  "insert_user u d =
     (let u' = u\<lparr>u_ID := next_id (map u_ID (users d))\<rparr>
      in constrained
           [(\<not> exists_where (\<lambda>v. u_Username v = u_Username u) (users d), unique_msg ''users.username''),
            (\<not> exists_where (\<lambda>v. u_Email v = u_Email u) (users d), unique_msg ''users.email'')]
           (Inr (u_ID u', d\<lparr>users := users d @ [u']\<rparr>)))"

definition insert_session :: "Session \<Rightarrow> statement" where
  "insert_session s d =
     (let s' = s\<lparr>s_ID := next_id (map s_ID (user_sessions d))\<rparr>
      in constrained
           [(\<not> exists_where (\<lambda>v. s_Hash v = s_Hash s) (user_sessions d),
             unique_msg ''user_sessions.session_hash''),
            (has_user d (s_UserID s), foreign_key_msg)]
           (Inr (s_ID s', d\<lparr>user_sessions := user_sessions d @ [s']\<rparr>)))"

definition insert_password_reset :: "Challenge \<Rightarrow> statement" where
  "insert_password_reset c d =
     (let c' = c\<lparr>c_ID := next_id (map c_ID (password_resets d))\<rparr>
      in constrained
           [(\<not> exists_where (\<lambda>v. c_Hash v = c_Hash c) (password_resets d),
             unique_msg ''password_resets.token_hash''),
            (has_user d (c_UserID c), foreign_key_msg)]
           (Inr (c_ID c', d\<lparr>password_resets := password_resets d @ [c']\<rparr>)))"

definition insert_email_verification :: "Challenge \<Rightarrow> statement" where
  "insert_email_verification c d =
     (let c' = c\<lparr>c_ID := next_id (map c_ID (email_verifications d))\<rparr>
      in constrained
           [(\<not> exists_where (\<lambda>v. c_Hash v = c_Hash c) (email_verifications d),
             unique_msg ''email_verifications.token_hash''),
            (has_user d (c_UserID c), foreign_key_msg)]
           (Inr (c_ID c', d\<lparr>email_verifications := email_verifications d @ [c']\<rparr>)))"

definition insert_totp :: "TOTP \<Rightarrow> statement" where
  "insert_totp t d =
     constrained
       [(\<not> exists_where (\<lambda>v. totp_UserID v = totp_UserID t) (totp_secrets d),
         unique_msg ''totp_secrets.user_id''),
        (has_user d (totp_UserID t), foreign_key_msg)]
       (Inr (totp_UserID t, d\<lparr>totp_secrets := totp_secrets d @ [t]\<rparr>))"

definition insert_preferences :: "Preferences \<Rightarrow> statement" where
  "insert_preferences p d =
     constrained
       [(\<not> exists_where (\<lambda>v. pr_UserID v = pr_UserID p) (user_preferences d),
         unique_msg ''user_preferences.user_id''),
        (has_user d (pr_UserID p), foreign_key_msg)]
       (Inr (pr_UserID p, d\<lparr>user_preferences := user_preferences d @ [p]\<rparr>))"

definition insert_org :: "Org \<Rightarrow> statement" where
  "insert_org o1 d =
     (let o' = o1\<lparr>o_ID := next_id (map o_ID (organizations d))\<rparr>
      in constrained
           [(\<not> exists_where (\<lambda>v. o_Slug v = o_Slug o1) (organizations d),
             unique_msg ''organizations.slug''),
            (has_user d (o_OwnerID o1), foreign_key_msg)]
           (Inr (o_ID o', d\<lparr>organizations := organizations d @ [o']\<rparr>)))"

definition insert_member :: "Member \<Rightarrow> statement" where
  "insert_member m d =
     constrained
       [(\<not> exists_where (\<lambda>v. m_OrgID v = m_OrgID m \<and> m_UserID v = m_UserID m) (organization_members d),
         unique_msg ''organization_members.org_id, organization_members.user_id''),
        (has_org d (m_OrgID m), foreign_key_msg), (has_user d (m_UserID m), foreign_key_msg)]
       (Inr (int (length (organization_members d)) + 1,
             d\<lparr>organization_members := organization_members d @ [m]\<rparr>))"

definition insert_org_audit :: "AuditEntry \<Rightarrow> statement" where
  "insert_org_audit a d =
     (let a' = a\<lparr>a_ID := next_id (map a_ID (organization_audit d))\<rparr>
      in constrained [(has_org d (a_SubjectID a), foreign_key_msg)]
           (Inr (a_ID a', d\<lparr>organization_audit := organization_audit d @ [a']\<rparr>)))"

definition insert_domain_audit :: "AuditEntry \<Rightarrow> statement" where
  "insert_domain_audit a d =
     (let a' = a\<lparr>a_ID := next_id (map a_ID (custom_domain_audit d))\<rparr>
      in constrained [(has_domain d (a_SubjectID a), foreign_key_msg)]
           (Inr (a_ID a', d\<lparr>custom_domain_audit := custom_domain_audit d @ [a']\<rparr>)))"

definition insert_token :: "Token \<Rightarrow> statement" where
  "insert_token t d =
     (let t' = t\<lparr>t_ID := next_id (map t_ID (api_tokens d))\<rparr>
      in constrained
           [(\<not> exists_where (\<lambda>v. t_Hash v = t_Hash t) (api_tokens d), unique_msg ''api_tokens.token_hash'')]
           (Inr (t_ID t', d\<lparr>api_tokens := api_tokens d @ [t']\<rparr>)))"

definition insert_invite :: "Invite \<Rightarrow> statement" where
  "insert_invite i d =
     (let i' = i\<lparr>i_ID := next_id (map i_ID (invitations d))\<rparr>
      in constrained
           [(\<not> exists_where (\<lambda>v. i_CodeHash v = i_CodeHash i) (invitations d),
             unique_msg ''invitations.code_hash''),
            (null_or (has_org d) (i_OrgID i), foreign_key_msg),
            (null_or (has_user d) (i_InvitedBy i), foreign_key_msg)]
           (Inr (i_ID i', d\<lparr>invitations := invitations d @ [i']\<rparr>)))"

definition insert_domain :: "Domain \<Rightarrow> statement" where
  "insert_domain x d =
     (let x' = x\<lparr>d_ID := next_id (map d_ID (custom_domains d))\<rparr>
      in constrained
           [(\<not> exists_where (\<lambda>v. d_Name v = d_Name x) (custom_domains d),
             unique_msg ''custom_domains.domain''),
            (has_org d (d_OrgID x), foreign_key_msg)]
           (Inr (d_ID x', d\<lparr>custom_domains := custom_domains d @ [x']\<rparr>)))"

definition insert_zone_grant :: "ZoneGrant \<Rightarrow> statement" where
  "insert_zone_grant g d =
     constrained
       [(\<not> exists_where (\<lambda>v. g_OrgID v = g_OrgID g \<and> g_UserID v = g_UserID g \<and> g_ZoneID v = g_ZoneID g)
           (zone_grants d),
         unique_msg ''zone_grants.org_id, zone_grants.user_id, zone_grants.zone_id''),
        (has_org d (g_OrgID g), foreign_key_msg), (has_user d (g_UserID g), foreign_key_msg),
        (has_zone d (g_ZoneID g), foreign_key_msg)]
       (Inr (int (length (zone_grants d)) + 1, d\<lparr>zone_grants := zone_grants d @ [g]\<rparr>))"

text \<open>What a successful INSERT says: its constraints held, and the row is the last of its table.\<close>

lemma insert_user_returns [returns_simps]:
  "insert_user u d = Inr (n, d') \<longleftrightarrow>
     (\<forall>v \<in> set (users d). u_Username v \<noteq> u_Username u)
     \<and> (\<forall>v \<in> set (users d). u_Email v \<noteq> u_Email u)
     \<and> n = next_id (map u_ID (users d))
     \<and> d' = d\<lparr>users := users d @ [u\<lparr>u_ID := next_id (map u_ID (users d))\<rparr>]\<rparr>"
  by (auto simp: insert_user_def Let_def split: if_splits)

lemma insert_session_returns [returns_simps]:
  "insert_session s d = Inr (n, d') \<longleftrightarrow>
     (\<forall>v \<in> set (user_sessions d). s_Hash v \<noteq> s_Hash s)
     \<and> has_user d (s_UserID s)
     \<and> n = next_id (map s_ID (user_sessions d))
     \<and> d' = d\<lparr>user_sessions := user_sessions d @ [s\<lparr>s_ID := next_id (map s_ID (user_sessions d))\<rparr>]\<rparr>"
  by (auto simp: insert_session_def Let_def split: if_splits)

lemma insert_password_reset_returns [returns_simps]:
  "insert_password_reset c d = Inr (n, d') \<longleftrightarrow>
     (\<forall>v \<in> set (password_resets d). c_Hash v \<noteq> c_Hash c)
     \<and> has_user d (c_UserID c)
     \<and> n = next_id (map c_ID (password_resets d))
     \<and> d' = d\<lparr>password_resets := password_resets d @ [c\<lparr>c_ID := next_id (map c_ID (password_resets d))\<rparr>]\<rparr>"
  by (auto simp: insert_password_reset_def Let_def split: if_splits)

lemma insert_email_verification_returns [returns_simps]:
  "insert_email_verification c d = Inr (n, d') \<longleftrightarrow>
     (\<forall>v \<in> set (email_verifications d). c_Hash v \<noteq> c_Hash c)
     \<and> has_user d (c_UserID c)
     \<and> n = next_id (map c_ID (email_verifications d))
     \<and> d' = d\<lparr>email_verifications := email_verifications d @ [c\<lparr>c_ID := next_id (map c_ID (email_verifications d))\<rparr>]\<rparr>"
  by (auto simp: insert_email_verification_def Let_def split: if_splits)

lemma insert_totp_returns [returns_simps]:
  "insert_totp t d = Inr (n, d') \<longleftrightarrow>
     (\<forall>v \<in> set (totp_secrets d). totp_UserID v \<noteq> totp_UserID t)
     \<and> has_user d (totp_UserID t)
     \<and> n = totp_UserID t
     \<and> d' = d\<lparr>totp_secrets := totp_secrets d @ [t]\<rparr>"
  by (auto simp: insert_totp_def Let_def split: if_splits)

lemma insert_preferences_returns [returns_simps]:
  "insert_preferences p d = Inr (n, d') \<longleftrightarrow>
     (\<forall>v \<in> set (user_preferences d). pr_UserID v \<noteq> pr_UserID p)
     \<and> has_user d (pr_UserID p)
     \<and> n = pr_UserID p
     \<and> d' = d\<lparr>user_preferences := user_preferences d @ [p]\<rparr>"
  by (auto simp: insert_preferences_def Let_def split: if_splits)

lemma insert_org_returns [returns_simps]:
  "insert_org o1 d = Inr (n, d') \<longleftrightarrow>
     (\<forall>v \<in> set (organizations d). o_Slug v \<noteq> o_Slug o1)
     \<and> has_user d (o_OwnerID o1)
     \<and> n = next_id (map o_ID (organizations d))
     \<and> d' = d\<lparr>organizations := organizations d @ [o1\<lparr>o_ID := next_id (map o_ID (organizations d))\<rparr>]\<rparr>"
  by (auto simp: insert_org_def Let_def split: if_splits)

lemma insert_member_returns [returns_simps]:
  "insert_member m d = Inr (n, d') \<longleftrightarrow>
     (\<forall>v \<in> set (organization_members d). m_OrgID v = m_OrgID m \<longrightarrow> m_UserID v \<noteq> m_UserID m)
     \<and> has_org d (m_OrgID m)
     \<and> has_user d (m_UserID m)
     \<and> n = int (length (organization_members d)) + 1
     \<and> d' = d\<lparr>organization_members := organization_members d @ [m]\<rparr>"
  by (auto simp: insert_member_def Let_def split: if_splits)

lemma insert_org_audit_returns [returns_simps]:
  "insert_org_audit a d = Inr (n, d') \<longleftrightarrow>
     has_org d (a_SubjectID a)
     \<and> n = next_id (map a_ID (organization_audit d))
     \<and> d' = d\<lparr>organization_audit := organization_audit d @ [a\<lparr>a_ID := next_id (map a_ID (organization_audit d))\<rparr>]\<rparr>"
  by (auto simp: insert_org_audit_def Let_def split: if_splits)

lemma insert_domain_audit_returns [returns_simps]:
  "insert_domain_audit a d = Inr (n, d') \<longleftrightarrow>
     has_domain d (a_SubjectID a)
     \<and> n = next_id (map a_ID (custom_domain_audit d))
     \<and> d' = d\<lparr>custom_domain_audit := custom_domain_audit d @ [a\<lparr>a_ID := next_id (map a_ID (custom_domain_audit d))\<rparr>]\<rparr>"
  by (auto simp: insert_domain_audit_def Let_def split: if_splits)

lemma insert_token_returns [returns_simps]:
  "insert_token t d = Inr (n, d') \<longleftrightarrow>
     (\<forall>v \<in> set (api_tokens d). t_Hash v \<noteq> t_Hash t)
     \<and> n = next_id (map t_ID (api_tokens d))
     \<and> d' = d\<lparr>api_tokens := api_tokens d @ [t\<lparr>t_ID := next_id (map t_ID (api_tokens d))\<rparr>]\<rparr>"
  by (auto simp: insert_token_def Let_def split: if_splits)

lemma insert_invite_returns [returns_simps]:
  "insert_invite i d = Inr (n, d') \<longleftrightarrow>
     (\<forall>v \<in> set (invitations d). i_CodeHash v \<noteq> i_CodeHash i)
     \<and> null_or (has_org d) (i_OrgID i)
     \<and> null_or (has_user d) (i_InvitedBy i)
     \<and> n = next_id (map i_ID (invitations d))
     \<and> d' = d\<lparr>invitations := invitations d @ [i\<lparr>i_ID := next_id (map i_ID (invitations d))\<rparr>]\<rparr>"
  by (auto simp: insert_invite_def Let_def split: if_splits)

lemma insert_domain_returns [returns_simps]:
  "insert_domain x d = Inr (n, d') \<longleftrightarrow>
     (\<forall>v \<in> set (custom_domains d). d_Name v \<noteq> d_Name x)
     \<and> has_org d (d_OrgID x)
     \<and> n = next_id (map d_ID (custom_domains d))
     \<and> d' = d\<lparr>custom_domains := custom_domains d @ [x\<lparr>d_ID := next_id (map d_ID (custom_domains d))\<rparr>]\<rparr>"
  by (auto simp: insert_domain_def Let_def split: if_splits)

lemma insert_zone_grant_returns [returns_simps]:
  "insert_zone_grant g d = Inr (n, d') \<longleftrightarrow>
     (\<forall>v \<in> set (zone_grants d). g_OrgID v = g_OrgID g \<longrightarrow> g_UserID v = g_UserID g \<longrightarrow> g_ZoneID v \<noteq> g_ZoneID g)
     \<and> has_org d (g_OrgID g)
     \<and> has_user d (g_UserID g)
     \<and> has_zone d (g_ZoneID g)
     \<and> n = int (length (zone_grants d)) + 1
     \<and> d' = d\<lparr>zone_grants := zone_grants d @ [g]\<rparr>"
  by (auto simp: insert_zone_grant_def Let_def split: if_splits)

section \<open>Deletes that cascade\<close>

definition delete_domains :: "(Domain \<Rightarrow> bool) \<Rightarrow> users_db \<Rightarrow> users_db" where
  "delete_domains p d =
     (let gone = map d_ID (filter p (custom_domains d))
      in d\<lparr>custom_domains := delete_where p (custom_domains d),
           custom_domain_audit :=
             delete_where (\<lambda>a. a_SubjectID a \<in> set gone) (custom_domain_audit d)\<rparr>)"

definition delete_domain :: "int \<Rightarrow> statement" where
  "delete_domain ident d =
     Inr (count_where (\<lambda>x. d_ID x = ident) (custom_domains d), delete_domains (\<lambda>x. d_ID x = ident) d)"

text \<open>
  Deleting an organization takes its members, audit trail, invitations, domains (with theirs),
  zones and grants; api_tokens has no foreign key and keeps its rows.
\<close>

definition delete_org :: "int \<Rightarrow> statement" where
  "delete_org ident d =
     (let n = count_where (\<lambda>o1. o_ID o1 = ident) (organizations d);
          gone = (if n = 0 then (\<lambda>_. False) else (\<lambda>i. i = ident));
          zs = map z_ID (filter (\<lambda>z. gone (z_OrgID z)) (zones d));
          d' = delete_domains (\<lambda>x. gone (d_OrgID x)) d
      in Inr (n, d'\<lparr>
           organizations := delete_where (\<lambda>o1. o_ID o1 = ident) (organizations d),
           organization_members := delete_where (\<lambda>m. gone (m_OrgID m)) (organization_members d),
           organization_audit := delete_where (\<lambda>a. gone (a_SubjectID a)) (organization_audit d),
           invitations := delete_where (\<lambda>i. i_OrgID i \<noteq> 0 \<and> gone (i_OrgID i)) (invitations d),
           zones := delete_where (\<lambda>z. gone (z_OrgID z)) (zones d),
           zone_grants :=
             delete_where (\<lambda>g. gone (g_OrgID g) \<or> g_ZoneID g \<in> set zs) (zone_grants d)\<rparr>))"

text \<open>
  Deleting a user takes the rows of the tables that say ON DELETE CASCADE; organizations.owner_id
  and invitations.invited_by do not, so a row there makes the statement fail.
\<close>

definition delete_user :: "int \<Rightarrow> statement" where
  "delete_user ident d =
     (if \<not> has_user d ident then Inr (0, d)
      else constrained
        [(\<not> exists_where (\<lambda>o1. o_OwnerID o1 = ident) (organizations d), foreign_key_msg),
         (\<not> exists_where (\<lambda>i. i_InvitedBy i \<noteq> 0 \<and> i_InvitedBy i = ident) (invitations d), foreign_key_msg)]
        (Inr (1, d\<lparr>
           users := delete_where (\<lambda>u. u_ID u = ident) (users d),
           user_preferences := delete_where (\<lambda>p. pr_UserID p = ident) (user_preferences d),
           user_sessions := delete_where (\<lambda>s. s_UserID s = ident) (user_sessions d),
           password_resets := delete_where (\<lambda>c. c_UserID c = ident) (password_resets d),
           email_verifications := delete_where (\<lambda>c. c_UserID c = ident) (email_verifications d),
           totp_secrets := delete_where (\<lambda>t. totp_UserID t = ident) (totp_secrets d),
           organization_members := delete_where (\<lambda>m. m_UserID m = ident) (organization_members d),
           zone_grants := delete_where (\<lambda>g. g_UserID g = ident) (zone_grants d)\<rparr>)))"

end
