(* ===== verification/Store_Users.thy ===== *)
theory Store_Users
  imports Users_DB
begin

text \<open>
  The account half of \<^verbatim>\<open>src/src/server/store\<close>: \<^verbatim>\<open>store.go\<close>, \<^verbatim>\<open>user.go\<close>, \<^verbatim>\<open>session.go\<close>,
  \<^verbatim>\<open>credential.go\<close>, \<^verbatim>\<open>totp.go\<close> and \<^verbatim>\<open>preferences.go\<close>. A method \<open>M\<close> of \<open>Store\<close> is \<open>st_M\<close>. The
  row a method returns is the row itself: the scan functions only convert column types.
\<close>

section \<open>\<^verbatim>\<open>store.go\<close> and the helpers of \<^verbatim>\<open>user.go\<close>\<close>

definition isUniqueViolation :: "err \<Rightarrow> bool" where
  "isUniqueViolation x =
     (case x of
        LibError text \<Rightarrow>
          let msg = ToLower text
          in Contains msg ''unique constraint'' \<or> Contains msg ''duplicate key''
             \<or> Contains msg ''duplicate entry'' \<or> Contains msg ''constraint failed: unique''
             \<or> Contains msg ''violation of unique''
      | _ \<Rightarrow> False)"

text \<open>The messages of the model's constraints: only the unique ones count as a conflict.\<close>

lemma Contains_append: "Contains s t \<Longrightarrow> Contains (s @ u) t"
  unfolding Contains_iff by (metis append.assoc)

lemma foreign_key_no_conflict [simp]: "\<not> isUniqueViolation (LibError foreign_key_msg)"
  by (simp add: isUniqueViolation_def foreign_key_msg_def ToLower_ascii ascii_def byte_def
      lower_char_def is_upper_def chr_def)

lemma unique_msg_conflict:
  assumes "list_all ascii column"
  shows "isUniqueViolation (LibError (unique_msg column))"
proof -
  have "Contains (map lower_char ''constraint failed: UNIQUE constraint failed: '') ''unique constraint''"
    by code_simp
  moreover have "ToLower (unique_msg column) =
      map lower_char ''constraint failed: UNIQUE constraint failed: '' @
      map lower_char (column @ '' (2067)'')"
    using assms by (subst ToLower_ascii) (simp_all add: unique_msg_def ascii_def byte_def)
  ultimately show ?thesis
    unfolding isUniqueViolation_def by (simp only: err.case Let_def Contains_append simp_thms)
qed

definition conflict_or :: "err \<Rightarrow> err" where
  "conflict_or x = (if isUniqueViolation x then StoreConflict else x)"

definition affected :: "int uaction \<Rightarrow> unit uaction" where
  "affected m = call m conflict_or (\<lambda>n. if n = 0 then fail StoreNotFound else ok ())"

section \<open>\<^verbatim>\<open>user.go\<close>\<close>

definition st_UserByID :: "env \<Rightarrow> int \<Rightarrow> User uaction" where
  "st_UserByID e uid = query_row e (\<lambda>d. find_where (\<lambda>u. u_ID u = uid) (users d))"

definition st_UserByUsername :: "env \<Rightarrow> string \<Rightarrow> User uaction" where
  "st_UserByUsername e username =
     query_row e (\<lambda>d. find_where (\<lambda>u. u_Username u = ToLower (TrimSpace username)) (users d))"

definition st_UserByEmail :: "env \<Rightarrow> string \<Rightarrow> User uaction" where
  "st_UserByEmail e email =
     query_row e (\<lambda>d. find_where (\<lambda>u. u_Email u = ToLower (TrimSpace email)) (users d))"

text \<open>The columns the INSERT does not name have their defaults.\<close>

definition st_CreateUser :: "env \<Rightarrow> User \<Rightarrow> User uaction" where
  "st_CreateUser e u =
     store_now e (\<lambda>ts.
     call (exec e (insert_user (u\<lparr>u_FailedLogins := 0, u_LockedUntil := None, u_LastLoginAt := None,
                                  u_CreatedAt := ts, u_UpdatedAt := ts\<rparr>)))
       conflict_or
     (\<lambda>uid. st_UserByID e uid))"

definition st_ListUsers :: "env \<Rightarrow> int \<Rightarrow> int \<Rightarrow> User list uaction" where
  "st_ListUsers e lim offset =
     (let lim' = (if lim \<le> 0 \<or> lim > 200 then 50 else lim); offset' = (if offset < 0 then 0 else offset)
      in query e (\<lambda>d. take (nat lim') (drop (nat offset') (sort_key u_ID (users d)))))"

definition st_CountUsers :: "env \<Rightarrow> int uaction" where
  "st_CountUsers e = query e (\<lambda>d. int (length (users d)))"

definition update_user :: "env \<Rightarrow> int \<Rightarrow> (User \<Rightarrow> User) \<Rightarrow> int uaction" where
  "update_user e uid f = exec e (sql_update users users_update (\<lambda>u. u_ID u = uid) f)"

definition st_UpdateProfile :: "env \<Rightarrow> User \<Rightarrow> unit uaction" where
  "st_UpdateProfile e u =
     store_now e (\<lambda>ts. affected (update_user e (u_ID u) (\<lambda>r. r\<lparr>
       u_DisplayName := u_DisplayName u, u_Bio := u_Bio u, u_Location := u_Location u,
       u_Website := u_Website u, u_AvatarURL := u_AvatarURL u, u_Timezone := u_Timezone u,
       u_Language := u_Language u, u_NotificationEmail := u_NotificationEmail u,
       u_Visibility := u_Visibility u, u_OrgVisibility := u_OrgVisibility u, u_UpdatedAt := ts\<rparr>)))"

definition st_UpdatePassword :: "env \<Rightarrow> int \<Rightarrow> string \<Rightarrow> unit uaction" where
  "st_UpdatePassword e uid hash =
     store_now e (\<lambda>ts. affected (update_user e uid (\<lambda>r. r\<lparr>
       u_PasswordHash := hash, u_FailedLogins := 0, u_LockedUntil := None, u_UpdatedAt := ts\<rparr>)))"

definition st_UpdateStatus :: "env \<Rightarrow> int \<Rightarrow> string \<Rightarrow> unit uaction" where
  "st_UpdateStatus e uid status =
     store_now e (\<lambda>ts. affected (update_user e uid (\<lambda>r. r\<lparr>u_Status := status, u_UpdatedAt := ts\<rparr>)))"

definition st_MarkEmailVerified :: "env \<Rightarrow> int \<Rightarrow> unit uaction" where
  "st_MarkEmailVerified e uid =
     store_now e (\<lambda>ts. affected (update_user e uid (\<lambda>r. r\<lparr>u_EmailVerified := True, u_UpdatedAt := ts\<rparr>)))"

definition st_RecordLoginSuccess :: "env \<Rightarrow> int \<Rightarrow> unit uaction" where
  "st_RecordLoginSuccess e uid =
     store_now e (\<lambda>ts. affected (update_user e uid (\<lambda>r. r\<lparr>
       u_FailedLogins := 0, u_LockedUntil := None, u_LastLoginAt := Some ts, u_UpdatedAt := ts\<rparr>)))"

definition st_RecordLoginFailure :: "env \<Rightarrow> int \<Rightarrow> int \<Rightarrow> int \<Rightarrow> unit uaction" where
  "st_RecordLoginFailure e uid mx lockFor =
     call (st_UserByID e uid) id (\<lambda>u.
     store_now e (\<lambda>ts.
     let failed = u_FailedLogins u + 1;
         locked = (if mx > 0 \<and> failed \<ge> mx then Some (truncate_second (ts + lockFor)) else None)
     in affected (update_user e uid (\<lambda>r. r\<lparr>
          u_FailedLogins := failed, u_LockedUntil := locked, u_UpdatedAt := ts\<rparr>))))"

definition st_DeleteUser :: "env \<Rightarrow> int \<Rightarrow> unit uaction" where
  "st_DeleteUser e uid = affected (exec e (delete_user uid))"

section \<open>\<^verbatim>\<open>session.go\<close>\<close>

definition st_CreateSession :: "env \<Rightarrow> Session \<Rightarrow> Session uaction" where
  "st_CreateSession e sess =
     store_now e (\<lambda>ts.
     call (exec e (insert_session (sess\<lparr>s_CreatedAt := ts, s_LastActive := ts,
                                        s_ExpiresAt := truncate_second (s_ExpiresAt sess)\<rparr>))) id
     (\<lambda>sid. ok (sess\<lparr>s_ID := sid, s_CreatedAt := ts, s_LastActive := ts\<rparr>)))"

definition st_SessionByHash :: "env \<Rightarrow> string \<Rightarrow> Session uaction" where
  "st_SessionByHash e hash = query_row e (\<lambda>d. find_where (\<lambda>s. s_Hash s = hash) (user_sessions d))"

definition st_ListSessions :: "env \<Rightarrow> int \<Rightarrow> Session list uaction" where
  "st_ListSessions e uid =
     query e (\<lambda>d. sort_key (\<lambda>s. - s_LastActive s) (filter (\<lambda>s. s_UserID s = uid) (user_sessions d)))"

definition st_TouchSession :: "env \<Rightarrow> string \<Rightarrow> unit uaction" where
  "st_TouchSession e hash =
     store_now e (\<lambda>ts. affected (exec e (sql_update user_sessions user_sessions_update
       (\<lambda>s. s_Hash s = hash) (\<lambda>s. s\<lparr>s_LastActive := ts\<rparr>))))"

definition st_MarkSessionTwoFactor :: "env \<Rightarrow> string \<Rightarrow> unit uaction" where
  "st_MarkSessionTwoFactor e hash =
     affected (exec e (sql_update user_sessions user_sessions_update
       (\<lambda>s. s_Hash s = hash) (\<lambda>s. s\<lparr>s_TwoFactorOK := True\<rparr>)))"

definition st_DeleteSession :: "env \<Rightarrow> string \<Rightarrow> unit uaction" where
  "st_DeleteSession e hash =
     affected (exec e (sql_delete user_sessions user_sessions_update (\<lambda>s. s_Hash s = hash)))"

definition st_DeleteUserSessions :: "env \<Rightarrow> int \<Rightarrow> unit uaction" where
  "st_DeleteUserSessions e uid =
     call (exec e (sql_delete user_sessions user_sessions_update (\<lambda>s. s_UserID s = uid))) id
       (\<lambda>_. ok ())"

definition st_PurgeExpiredSessions :: "env \<Rightarrow> int \<Rightarrow> int uaction" where
  "st_PurgeExpiredSessions e cutoff =
     exec e (sql_delete user_sessions user_sessions_update
       (\<lambda>s. s_ExpiresAt s \<le> truncate_second cutoff))"

section \<open>\<^verbatim>\<open>credential.go\<close>\<close>

definition new_challenge :: "int \<Rightarrow> string \<Rightarrow> string \<Rightarrow> int \<Rightarrow> int \<Rightarrow> Challenge" where
  "new_challenge uid email hash ts expires =
     \<lparr>c_ID = 0, c_UserID = uid, c_Email = email, c_Hash = hash, c_UsedAt = None, c_CreatedAt = ts,
      c_ExpiresAt = truncate_second expires\<rparr>"

definition st_CreatePasswordReset :: "env \<Rightarrow> int \<Rightarrow> string \<Rightarrow> int \<Rightarrow> unit uaction" where
  "st_CreatePasswordReset e uid hash expires =
     store_now e (\<lambda>ts.
     call (exec e (insert_password_reset (new_challenge uid [] hash ts expires))) id (\<lambda>_. ok ()))"

definition st_PasswordReset :: "env \<Rightarrow> string \<Rightarrow> Challenge uaction" where
  "st_PasswordReset e hash = query_row e (\<lambda>d. find_where (\<lambda>c. c_Hash c = hash) (password_resets d))"

definition st_ConsumePasswordReset :: "env \<Rightarrow> int \<Rightarrow> unit uaction" where
  "st_ConsumePasswordReset e cid =
     store_now e (\<lambda>ts. affected (exec e (sql_update password_resets password_resets_update
       (\<lambda>c. c_ID c = cid \<and> c_UsedAt c = None) (\<lambda>c. c\<lparr>c_UsedAt := Some ts\<rparr>))))"

definition st_DeleteUserPasswordResets :: "env \<Rightarrow> int \<Rightarrow> unit uaction" where
  "st_DeleteUserPasswordResets e uid =
     call (exec e (sql_delete password_resets password_resets_update (\<lambda>c. c_UserID c = uid))) id
       (\<lambda>_. ok ())"

definition st_CreateEmailVerification ::
  "env \<Rightarrow> int \<Rightarrow> string \<Rightarrow> string \<Rightarrow> int \<Rightarrow> unit uaction"
where
  "st_CreateEmailVerification e uid email hash expires =
     store_now e (\<lambda>ts.
     call (exec e (insert_email_verification (new_challenge uid email hash ts expires))) id
       (\<lambda>_. ok ()))"

definition st_EmailVerification :: "env \<Rightarrow> string \<Rightarrow> Challenge uaction" where
  "st_EmailVerification e hash =
     query_row e (\<lambda>d. find_where (\<lambda>c. c_Hash c = hash) (email_verifications d))"

definition st_ConsumeEmailVerification :: "env \<Rightarrow> int \<Rightarrow> unit uaction" where
  "st_ConsumeEmailVerification e cid =
     store_now e (\<lambda>ts. affected (exec e (sql_update email_verifications email_verifications_update
       (\<lambda>c. c_ID c = cid \<and> c_UsedAt c = None) (\<lambda>c. c\<lparr>c_UsedAt := Some ts\<rparr>))))"

text \<open>
  The loop over the two tables: an error of the second returns the count of the first, which the
  callers drop with it.
\<close>

definition st_PurgeExpiredChallenges :: "env \<Rightarrow> int \<Rightarrow> int uaction" where
  "st_PurgeExpiredChallenges e cutoff =
     (let stamp = truncate_second cutoff
      in call (exec e (sql_delete password_resets password_resets_update (\<lambda>c. c_ExpiresAt c \<le> stamp)))
           id (\<lambda>n.
         call (exec e (sql_delete email_verifications email_verifications_update
                 (\<lambda>c. c_ExpiresAt c \<le> stamp))) id (\<lambda>m.
         ok (n + m))))"

section \<open>\<^verbatim>\<open>totp.go\<close>\<close>

definition st_SaveTOTP :: "env \<Rightarrow> TOTP \<Rightarrow> unit uaction" where
  "st_SaveTOTP e t =
     call (exec e (sql_update totp_secrets totp_secrets_update (\<lambda>r. totp_UserID r = totp_UserID t)
             (\<lambda>r. r\<lparr>SecretEncrypted := SecretEncrypted t, KeyVersion := KeyVersion t,
                     totp_Confirmed := totp_Confirmed t, RecoveryCodes := RecoveryCodes t\<rparr>))) id
     (\<lambda>n. if n > 0 then ok ()
      else store_now e (\<lambda>ts.
        call (exec e (insert_totp (t\<lparr>totp_CreatedAt := ts\<rparr>))) id (\<lambda>_. ok ())))"

definition st_TOTPForUser :: "env \<Rightarrow> int \<Rightarrow> TOTP uaction" where
  "st_TOTPForUser e uid = query_row e (\<lambda>d. find_where (\<lambda>t. totp_UserID t = uid) (totp_secrets d))"

definition st_ConfirmTOTP :: "env \<Rightarrow> int \<Rightarrow> unit uaction" where
  "st_ConfirmTOTP e uid =
     affected (exec e (sql_update totp_secrets totp_secrets_update (\<lambda>t. totp_UserID t = uid)
       (\<lambda>t. t\<lparr>totp_Confirmed := True\<rparr>)))"

definition st_SetRecoveryCodes :: "env \<Rightarrow> int \<Rightarrow> string \<Rightarrow> unit uaction" where
  "st_SetRecoveryCodes e uid codes =
     affected (exec e (sql_update totp_secrets totp_secrets_update (\<lambda>t. totp_UserID t = uid)
       (\<lambda>t. t\<lparr>RecoveryCodes := codes\<rparr>)))"

definition st_DeleteTOTP :: "env \<Rightarrow> int \<Rightarrow> unit uaction" where
  "st_DeleteTOTP e uid =
     affected (exec e (sql_delete totp_secrets totp_secrets_update (\<lambda>t. totp_UserID t = uid)))"

section \<open>\<^verbatim>\<open>preferences.go\<close>\<close>

definition st_Preferences :: "env \<Rightarrow> int \<Rightarrow> Preferences uaction" where
  "st_Preferences e uid =
     try_call (query_row e (\<lambda>d. find_where (\<lambda>p. pr_UserID p = uid) (user_preferences d)))
       (\<lambda>x. if x = StoreNotFound then ok (DefaultPreferences uid) else fail x) ok"

definition st_SavePreferences :: "env \<Rightarrow> Preferences \<Rightarrow> unit uaction" where
  "st_SavePreferences e p =
     store_now e (\<lambda>ts.
     call (exec e (sql_update user_preferences user_preferences_update
             (\<lambda>r. pr_UserID r = pr_UserID p) (\<lambda>r. p\<lparr>pr_UpdatedAt := ts\<rparr>))) id
     (\<lambda>n. if n > 0 then ok ()
      else call (exec e (insert_preferences (p\<lparr>pr_UpdatedAt := ts\<rparr>))) id (\<lambda>_. ok ())))"

end
