(* ===== verification/Store_Orgs.thy ===== *)
theory Store_Orgs
  imports Store_Users
begin

text \<open>
  The organization half of \<^verbatim>\<open>src/src/server/store\<close>: \<^verbatim>\<open>org.go\<close>, \<^verbatim>\<open>member.go\<close>, \<^verbatim>\<open>invite.go\<close>,
  \<^verbatim>\<open>token.go\<close>, \<^verbatim>\<open>domain.go\<close> and \<^verbatim>\<open>audit.go\<close>. A method \<open>M\<close> of \<open>Store\<close> is \<open>st_M\<close>.
\<close>

section \<open>\<^verbatim>\<open>org.go\<close>\<close>

definition st_OrgByID :: "env \<Rightarrow> int \<Rightarrow> Org uaction" where
  "st_OrgByID e oid = query_row e (\<lambda>d. find_where (\<lambda>o1. o_ID o1 = oid) (organizations d))"

definition st_OrgBySlug :: "env \<Rightarrow> string \<Rightarrow> Org uaction" where
  "st_OrgBySlug e slug =
     query_row e (\<lambda>d. find_where (\<lambda>o1. o_Slug o1 = ToLower (TrimSpace slug)) (organizations d))"

definition st_PersonalOrg :: "env \<Rightarrow> int \<Rightarrow> Org uaction" where
  "st_PersonalOrg e uid =
     query_row e (\<lambda>d. find_where (\<lambda>o1. o_OwnerID o1 = uid \<and> o_Personal o1) (organizations d))"

definition new_member :: "int \<Rightarrow> int \<Rightarrow> string \<Rightarrow> int \<Rightarrow> Member" where
  "new_member oid uid role ts =
     \<lparr>m_OrgID = oid, m_UserID = uid, m_Role = role, m_CreatedAt = ts, m_Username = [], m_Email = []\<rparr>"

text \<open>The organization and its owner's membership, in one transaction.\<close>

definition st_CreateOrg :: "env \<Rightarrow> Org \<Rightarrow> Org uaction" where
  "st_CreateOrg e o1 =
     store_now e (\<lambda>ts.
     call (with_tx e
             (call (exec e (insert_org (o1\<lparr>o_CreatedAt := ts, o_UpdatedAt := ts\<rparr>))) id (\<lambda>oid.
              call (exec e (insert_member (new_member oid (o_OwnerID o1) RoleOwner ts))) id (\<lambda>_.
              ok oid))))
       conflict_or
     (\<lambda>oid. st_OrgByID e oid))"

definition orgs_of_user :: "users_db \<Rightarrow> int \<Rightarrow> Org list" where
  "orgs_of_user d uid =
     concat (map (\<lambda>o1. map (\<lambda>_. o1)
       (filter (\<lambda>m. m_OrgID m = o_ID o1 \<and> m_UserID m = uid) (organization_members d)))
       (organizations d))"

text \<open>\<open>ORDER BY o.personal DESC, o.name\<close>, with stable sorts.\<close>

definition st_OrgsForUser :: "env \<Rightarrow> int \<Rightarrow> Org list uaction" where
  "st_OrgsForUser e uid =
     query e (\<lambda>d. sort_key (\<lambda>o1. if o_Personal o1 then 0 else (1::int))
                   (sort_key o_Name (orgs_of_user d uid)))"

definition st_CountOwnedOrgs :: "env \<Rightarrow> int \<Rightarrow> int uaction" where
  "st_CountOwnedOrgs e uid =
     query e (\<lambda>d. count_where (\<lambda>o1. o_OwnerID o1 = uid \<and> \<not> o_Personal o1) (organizations d))"

definition st_UpdateOrg :: "env \<Rightarrow> Org \<Rightarrow> unit uaction" where
  "st_UpdateOrg e o1 =
     store_now e (\<lambda>ts. affected (exec e (sql_update organizations organizations_update
       (\<lambda>r. o_ID r = o_ID o1)
       (\<lambda>r. r\<lparr>o_Name := o_Name o1, o_Description := o_Description o1, o_Website := o_Website o1,
               o_Location := o_Location o1, o_AvatarURL := o_AvatarURL o1,
               o_Visibility := o_Visibility o1, o_UpdatedAt := ts\<rparr>))))"

definition update_member_role :: "int \<Rightarrow> int \<Rightarrow> string \<Rightarrow> statement" where
  "update_member_role oid uid role =
     sql_update organization_members organization_members_update
       (\<lambda>m. m_OrgID m = oid \<and> m_UserID m = uid) (\<lambda>m. m\<lparr>m_Role := role\<rparr>)"

text \<open>The third statement references users (id), so it checks that the user is there.\<close>

definition set_org_owner :: "int \<Rightarrow> int \<Rightarrow> int \<Rightarrow> statement" where
  "set_org_owner oid uid ts d =
     constrained [(\<not> has_org d oid \<or> has_user d uid, foreign_key_msg)]
       (sql_update organizations organizations_update (\<lambda>o1. o_ID o1 = oid)
          (\<lambda>o1. o1\<lparr>o_OwnerID := uid, o_UpdatedAt := ts\<rparr>) d)"

definition st_TransferOrg :: "env \<Rightarrow> int \<Rightarrow> int \<Rightarrow> int \<Rightarrow> unit uaction" where
  "st_TransferOrg e oid fromID toID =
     store_now e (\<lambda>ts.
     with_tx e
       (call (exec e (update_member_role oid toID RoleOwner)) id (\<lambda>n.
        if n = 0 then fail StoreNotFound
        else
        call (exec e (update_member_role oid fromID RoleAdmin)) id (\<lambda>_.
        call (exec e (set_org_owner oid toID ts)) id (\<lambda>_.
        ok ())))))"

definition st_DeleteOrg :: "env \<Rightarrow> int \<Rightarrow> unit uaction" where
  "st_DeleteOrg e oid = affected (exec e (delete_org oid))"

section \<open>\<^verbatim>\<open>member.go\<close>\<close>

definition st_Membership :: "env \<Rightarrow> int \<Rightarrow> int \<Rightarrow> Member uaction" where
  "st_Membership e oid uid =
     query_row e (\<lambda>d. find_where (\<lambda>m. m_OrgID m = oid \<and> m_UserID m = uid) (organization_members d))"

definition members_of_org :: "users_db \<Rightarrow> int \<Rightarrow> Member list" where
  "members_of_org d oid =
     concat (map (\<lambda>m. map (\<lambda>u. m\<lparr>m_Username := u_Username u, m_Email := u_Email u\<rparr>)
       (filter (\<lambda>u. u_ID u = m_UserID m) (users d)))
       (filter (\<lambda>m. m_OrgID m = oid) (organization_members d)))"

definition st_ListMembers :: "env \<Rightarrow> int \<Rightarrow> Member list uaction" where
  "st_ListMembers e oid = query e (\<lambda>d. sort_key m_Username (members_of_org d oid))"

definition st_CountMembers :: "env \<Rightarrow> int \<Rightarrow> int uaction" where
  "st_CountMembers e oid = query e (\<lambda>d. count_where (\<lambda>m. m_OrgID m = oid) (organization_members d))"

definition st_AddMember :: "env \<Rightarrow> int \<Rightarrow> int \<Rightarrow> string \<Rightarrow> unit uaction" where
  "st_AddMember e oid uid role =
     store_now e (\<lambda>ts.
     call (exec e (insert_member (new_member oid uid role ts))) conflict_or (\<lambda>_. ok ()))"

definition st_SetMemberRole :: "env \<Rightarrow> int \<Rightarrow> int \<Rightarrow> string \<Rightarrow> unit uaction" where
  "st_SetMemberRole e oid uid role = affected (exec e (update_member_role oid uid role))"

definition revoke_org_tokens :: "int \<Rightarrow> int \<Rightarrow> int \<Rightarrow> statement" where
  "revoke_org_tokens oid uid ts =
     sql_update api_tokens api_tokens_update
       (\<lambda>t. t_OrgID t = oid \<and> t_OwnerType t = OwnerUser \<and> t_OwnerID t = uid \<and> t_RevokedAt t = None)
       (\<lambda>t. t\<lparr>t_RevokedAt := Some ts\<rparr>)"

definition st_RemoveMember :: "env \<Rightarrow> int \<Rightarrow> int \<Rightarrow> unit uaction" where
  "st_RemoveMember e oid uid =
     with_tx e
       (call (exec e (sql_delete organization_members organization_members_update
                (\<lambda>m. m_OrgID m = oid \<and> m_UserID m = uid))) id (\<lambda>n.
        if n = 0 then fail StoreNotFound
        else
        call (exec e (sql_delete zone_grants zone_grants_update
                (\<lambda>g. g_OrgID g = oid \<and> g_UserID g = uid))) id (\<lambda>_.
        store_now e (\<lambda>ts.
        call (exec e (revoke_org_tokens oid uid ts)) id (\<lambda>_.
        ok ())))))"

definition st_ZoneOrgID :: "env \<Rightarrow> int \<Rightarrow> int uaction" where
  "st_ZoneOrgID e zid = query_row e (\<lambda>d. map_option z_OrgID (find_where (\<lambda>z. z_ID z = zid) (zones d)))"

definition st_ZoneGranted :: "env \<Rightarrow> int \<Rightarrow> int \<Rightarrow> int \<Rightarrow> bool uaction" where
  "st_ZoneGranted e oid uid zid =
     query e (\<lambda>d. count_where (\<lambda>g. g_OrgID g = oid \<and> g_UserID g = uid \<and> g_ZoneID g = zid)
                    (zone_grants d) > 0)"

definition st_RevokeZone :: "env \<Rightarrow> int \<Rightarrow> int \<Rightarrow> int \<Rightarrow> unit uaction" where
  "st_RevokeZone e oid uid zid =
     affected (exec e (sql_delete zone_grants zone_grants_update
       (\<lambda>g. g_OrgID g = oid \<and> g_UserID g = uid \<and> g_ZoneID g = zid)))"

definition insert_grant :: "env \<Rightarrow> int \<Rightarrow> int \<Rightarrow> int \<Rightarrow> string \<Rightarrow> unit uaction" where
  "insert_grant e oid uid zid permission =
     store_now e (\<lambda>ts.
     call (exec e (insert_zone_grant \<lparr>g_OrgID = oid, g_UserID = uid, g_ZoneID = zid,
                                      g_Permission = permission, g_CreatedAt = ts\<rparr>)) id (\<lambda>_. ok ()))"

definition st_GrantZone :: "env \<Rightarrow> int \<Rightarrow> int \<Rightarrow> int \<Rightarrow> string \<Rightarrow> unit uaction" where
  "st_GrantZone e oid uid zid permission =
     try_call (st_RevokeZone e oid uid zid)
       (\<lambda>x. if x \<noteq> StoreNotFound then fail x else insert_grant e oid uid zid permission)
       (\<lambda>_. insert_grant e oid uid zid permission)"

section \<open>\<^verbatim>\<open>invite.go\<close>\<close>

definition st_CreateInvite :: "env \<Rightarrow> Invite \<Rightarrow> Invite uaction" where
  "st_CreateInvite e i =
     store_now e (\<lambda>ts.
     call (exec e (insert_invite (i\<lparr>i_UseCount := 0, i_AcceptedAt := None, i_CreatedAt := ts,
                                    i_ExpiresAt := truncate_second (i_ExpiresAt i)\<rparr>))) conflict_or
     (\<lambda>iid. ok (i\<lparr>i_ID := iid, i_UseCount := 0, i_CreatedAt := ts\<rparr>)))"

definition st_InviteByHash :: "env \<Rightarrow> string \<Rightarrow> Invite uaction" where
  "st_InviteByHash e hash = query_row e (\<lambda>d. find_where (\<lambda>i. i_CodeHash i = hash) (invitations d))"

definition st_ListOrgInvites :: "env \<Rightarrow> int \<Rightarrow> Invite list uaction" where
  "st_ListOrgInvites e oid =
     query e (\<lambda>d. sort_key (\<lambda>i. - i_ID i)
                   (filter (\<lambda>i. i_OrgID i \<noteq> 0 \<and> i_OrgID i = oid) (invitations d)))"

definition st_ListServerInvites :: "env \<Rightarrow> Invite list uaction" where
  "st_ListServerInvites e =
     query e (\<lambda>d. sort_key (\<lambda>i. - i_ID i) (filter (\<lambda>i. i_OrgID i = 0) (invitations d)))"

definition st_RedeemInvite :: "env \<Rightarrow> int \<Rightarrow> unit uaction" where
  "st_RedeemInvite e iid =
     store_now e (\<lambda>ts. affected (exec e (sql_update invitations invitations_update
       (\<lambda>i. i_ID i = iid \<and> i_ExpiresAt i > ts \<and> (i_MaxUses i = 0 \<or> i_UseCount i < i_MaxUses i))
       (\<lambda>i. i\<lparr>i_UseCount := i_UseCount i + 1, i_AcceptedAt := Some ts\<rparr>))))"

definition st_DeleteInvite :: "env \<Rightarrow> int \<Rightarrow> unit uaction" where
  "st_DeleteInvite e iid =
     affected (exec e (sql_delete invitations invitations_update (\<lambda>i. i_ID i = iid)))"

definition st_PurgeExpiredInvites :: "env \<Rightarrow> int uaction" where
  "st_PurgeExpiredInvites e =
     store_now e (\<lambda>ts. exec e (sql_delete invitations invitations_update (\<lambda>i. i_ExpiresAt i \<le> ts)))"

section \<open>\<^verbatim>\<open>token.go\<close>\<close>

definition st_CreateToken :: "env \<Rightarrow> Token \<Rightarrow> Token uaction" where
  "st_CreateToken e t =
     store_now e (\<lambda>ts.
     call (exec e (insert_token (t\<lparr>t_LastUsedAt := None, t_RevokedAt := None,
                                   t_ExpiresAt := map_option truncate_second (t_ExpiresAt t),
                                   t_CreatedAt := ts\<rparr>))) conflict_or
     (\<lambda>tid. ok (t\<lparr>t_ID := tid, t_CreatedAt := ts\<rparr>)))"

definition st_TokenByHash :: "env \<Rightarrow> string \<Rightarrow> Token uaction" where
  "st_TokenByHash e hash = query_row e (\<lambda>d. find_where (\<lambda>t. t_Hash t = hash) (api_tokens d))"

definition st_TokenByID :: "env \<Rightarrow> int \<Rightarrow> Token uaction" where
  "st_TokenByID e tid = query_row e (\<lambda>d. find_where (\<lambda>t. t_ID t = tid) (api_tokens d))"

definition st_ListTokens :: "env \<Rightarrow> string \<Rightarrow> int \<Rightarrow> Token list uaction" where
  "st_ListTokens e ownerType ownerID =
     query e (\<lambda>d. sort_key (\<lambda>t. - t_ID t)
       (filter (\<lambda>t. t_OwnerType t = ownerType \<and> t_OwnerID t = ownerID) (api_tokens d)))"

definition st_CountLiveTokens :: "env \<Rightarrow> string \<Rightarrow> int \<Rightarrow> int uaction" where
  "st_CountLiveTokens e ownerType ownerID =
     store_now e (\<lambda>ts. query e (\<lambda>d. count_where
       (\<lambda>t. t_OwnerType t = ownerType \<and> t_OwnerID t = ownerID \<and> t_RevokedAt t = None
            \<and> (case t_ExpiresAt t of None \<Rightarrow> True | Some x \<Rightarrow> x > ts)) (api_tokens d)))"

definition st_TouchToken :: "env \<Rightarrow> int \<Rightarrow> unit uaction" where
  "st_TouchToken e tid =
     store_now e (\<lambda>ts.
     call (exec e (sql_update api_tokens api_tokens_update (\<lambda>t. t_ID t = tid)
             (\<lambda>t. t\<lparr>t_LastUsedAt := Some ts\<rparr>))) id (\<lambda>_. ok ()))"

definition st_RevokeToken :: "env \<Rightarrow> int \<Rightarrow> unit uaction" where
  "st_RevokeToken e tid =
     store_now e (\<lambda>ts. affected (exec e (sql_update api_tokens api_tokens_update
       (\<lambda>t. t_ID t = tid \<and> t_RevokedAt t = None) (\<lambda>t. t\<lparr>t_RevokedAt := Some ts\<rparr>))))"

definition st_RevokeOrgTokensForUser :: "env \<Rightarrow> int \<Rightarrow> int \<Rightarrow> unit uaction" where
  "st_RevokeOrgTokensForUser e oid uid =
     store_now e (\<lambda>ts. call (exec e (revoke_org_tokens oid uid ts)) id (\<lambda>_. ok ()))"

definition st_DeleteToken :: "env \<Rightarrow> int \<Rightarrow> unit uaction" where
  "st_DeleteToken e tid =
     affected (exec e (sql_delete api_tokens api_tokens_update (\<lambda>t. t_ID t = tid)))"

section \<open>\<^verbatim>\<open>domain.go\<close>\<close>

definition normalizeDomain :: "string \<Rightarrow> string" where
  "normalizeDomain name = TrimSuffix (ToLower (TrimSpace name)) ''.''"

definition st_DomainByID :: "env \<Rightarrow> int \<Rightarrow> Domain uaction" where
  "st_DomainByID e did = query_row e (\<lambda>d. find_where (\<lambda>x. d_ID x = did) (custom_domains d))"

definition st_CreateDomain :: "env \<Rightarrow> Domain \<Rightarrow> Domain uaction" where
  "st_CreateDomain e x =
     store_now e (\<lambda>ts.
     call (exec e (insert_domain (x\<lparr>
             d_Name := normalizeDomain (d_Name x), d_VerificationStatus := VerificationPending,
             d_VerifiedAt := None, d_LastCheckAt := None, d_CheckCount := 0,
             d_SSLStatus := SSLNone, d_SSLChallenge := [], d_SSLIssuedAt := None,
             d_SSLExpiresAt := None, d_SSLLastError := [], d_Status := DomainPending,
             d_SuspendReason := [], d_CreatedAt := ts, d_UpdatedAt := ts\<rparr>))) conflict_or
     (\<lambda>did. st_DomainByID e did))"

definition st_DomainByName :: "env \<Rightarrow> string \<Rightarrow> Domain uaction" where
  "st_DomainByName e name =
     query_row e (\<lambda>d. find_where (\<lambda>x. d_Name x = normalizeDomain name) (custom_domains d))"

definition st_ListOrgDomains :: "env \<Rightarrow> int \<Rightarrow> Domain list uaction" where
  "st_ListOrgDomains e oid =
     query e (\<lambda>d. sort_key d_Name (filter (\<lambda>x. d_OrgID x = oid) (custom_domains d)))"

definition st_ListServableDomains :: "env \<Rightarrow> Domain list uaction" where
  "st_ListServableDomains e =
     query e (\<lambda>d. sort_key d_Name
       (filter (\<lambda>x. d_VerificationStatus x = VerificationVerified \<and> d_Status x = DomainActive)
         (custom_domains d)))"

text \<open>\<open>ORDER BY last_check_at ASC, id ASC\<close>: SQLite puts NULL first.\<close>

definition st_ListPendingVerification :: "env \<Rightarrow> int \<Rightarrow> Domain list uaction" where
  "st_ListPendingVerification e lim =
     (let lim' = (if lim \<le> 0 then 50 else lim)
      in query e (\<lambda>d.
           let pending = sort_key d_ID
                 (filter (\<lambda>x. d_VerificationStatus x = VerificationPending) (custom_domains d))
           in take (nat lim')
                (filter (\<lambda>x. d_LastCheckAt x = None) pending @
                 sort_key (\<lambda>x. the (d_LastCheckAt x)) (filter (\<lambda>x. d_LastCheckAt x \<noteq> None) pending))))"

definition st_ListRenewals :: "env \<Rightarrow> int \<Rightarrow> Domain list uaction" where
  "st_ListRenewals e cutoff =
     query e (\<lambda>d. sort_key (\<lambda>x. the (d_SSLExpiresAt x))
       (filter (\<lambda>x. d_SSLEnabled x \<and> d_Status x = DomainActive \<and>
                    (case d_SSLExpiresAt x of None \<Rightarrow> False | Some t \<Rightarrow> t \<le> truncate_second cutoff))
         (custom_domains d)))"

definition st_CountOrgDomains :: "env \<Rightarrow> int \<Rightarrow> int uaction" where
  "st_CountOrgDomains e oid = query e (\<lambda>d. count_where (\<lambda>x. d_OrgID x = oid) (custom_domains d))"

definition update_domain :: "env \<Rightarrow> (Domain \<Rightarrow> bool) \<Rightarrow> (Domain \<Rightarrow> Domain) \<Rightarrow> unit uaction" where
  "update_domain e p f = affected (exec e (sql_update custom_domains custom_domains_update p f))"

definition st_UpdateDomainPurpose :: "env \<Rightarrow> int \<Rightarrow> string \<Rightarrow> unit uaction" where
  "st_UpdateDomainPurpose e did purpose =
     store_now e (\<lambda>ts. update_domain e (\<lambda>x. d_ID x = did)
       (\<lambda>x. x\<lparr>d_Purpose := purpose, d_UpdatedAt := ts\<rparr>))"

definition st_RecordVerificationAttempt :: "env \<Rightarrow> int \<Rightarrow> string \<Rightarrow> unit uaction" where
  "st_RecordVerificationAttempt e did status =
     store_now e (\<lambda>ts.
     let verifiedAt = (if status = VerificationVerified then Some ts else None)
     in update_domain e (\<lambda>x. d_ID x = did) (\<lambda>x. x\<lparr>
          d_VerificationStatus := status, d_VerifiedAt := verifiedAt, d_LastCheckAt := Some ts,
          d_CheckCount := d_CheckCount x + 1, d_UpdatedAt := ts\<rparr>))"

definition st_ActivateDomain :: "env \<Rightarrow> int \<Rightarrow> unit uaction" where
  "st_ActivateDomain e did =
     store_now e (\<lambda>ts. update_domain e
       (\<lambda>x. d_ID x = did \<and> d_VerificationStatus x = VerificationVerified)
       (\<lambda>x. x\<lparr>d_Status := DomainActive, d_SuspendReason := [], d_UpdatedAt := ts\<rparr>))"

definition st_SuspendDomain :: "env \<Rightarrow> int \<Rightarrow> string \<Rightarrow> unit uaction" where
  "st_SuspendDomain e did reason =
     store_now e (\<lambda>ts. update_domain e (\<lambda>x. d_ID x = did)
       (\<lambda>x. x\<lparr>d_Status := DomainSuspended, d_SuspendReason := reason, d_UpdatedAt := ts\<rparr>))"

definition st_SetDomainSSL :: "env \<Rightarrow> Domain \<Rightarrow> unit uaction" where
  "st_SetDomainSSL e n =
     store_now e (\<lambda>ts. update_domain e (\<lambda>x. d_ID x = d_ID n) (\<lambda>x. x\<lparr>
       d_SSLEnabled := d_SSLEnabled n, d_SSLStatus := d_SSLStatus n,
       d_SSLChallenge := d_SSLChallenge n,
       d_SSLIssuedAt := map_option truncate_second (d_SSLIssuedAt n),
       d_SSLExpiresAt := map_option truncate_second (d_SSLExpiresAt n),
       d_SSLLastError := d_SSLLastError n, d_UpdatedAt := ts\<rparr>))"

definition st_DeleteDomain :: "env \<Rightarrow> int \<Rightarrow> unit uaction" where
  "st_DeleteDomain e did = affected (exec e (delete_domain did))"

section \<open>\<^verbatim>\<open>audit.go\<close>\<close>

definition EventOrgCreated :: string where "EventOrgCreated = ''org.created''"
definition EventOrgUpdated :: string where "EventOrgUpdated = ''org.updated''"
definition EventOrgTransferred :: string where "EventOrgTransferred = ''org.transferred''"
definition EventMemberInvited :: string where "EventMemberInvited = ''member.invited''"
definition EventMemberJoined :: string where "EventMemberJoined = ''member.joined''"
definition EventMemberRoleSet :: string where "EventMemberRoleSet = ''member.role_changed''"
definition EventMemberRemoved :: string where "EventMemberRemoved = ''member.removed''"
definition EventInviteRevoked :: string where "EventInviteRevoked = ''invite.revoked''"
definition EventTokenIssued :: string where "EventTokenIssued = ''token.issued''"
definition EventTokenRevoked :: string where "EventTokenRevoked = ''token.revoked''"
definition EventZoneGranted :: string where "EventZoneGranted = ''zone.granted''"
definition EventZoneRevoked :: string where "EventZoneRevoked = ''zone.revoked''"
definition EventDomainAdded :: string where "EventDomainAdded = ''domain.added''"
definition EventDomainVerified :: string where "EventDomainVerified = ''domain.verified''"
definition EventDomainFailed :: string where "EventDomainFailed = ''domain.verification_failed''"
definition EventDomainActivated :: string where "EventDomainActivated = ''domain.activated''"
definition EventDomainSuspended :: string where "EventDomainSuspended = ''domain.suspended''"
definition EventDomainRemoved :: string where "EventDomainRemoved = ''domain.removed''"
definition EventDomainSSLIssued :: string where "EventDomainSSLIssued = ''domain.ssl_issued''"
definition EventDomainSSLFailure :: string where "EventDomainSSLFailure = ''domain.ssl_failed''"

definition default_details :: "string \<Rightarrow> string" where
  "default_details details = (if details = [] then ''{}'' else details)"

definition st_RecordOrgAudit :: "env \<Rightarrow> AuditEntry \<Rightarrow> unit uaction" where
  "st_RecordOrgAudit e a =
     store_now e (\<lambda>ts.
     call (exec e (insert_org_audit
             (a\<lparr>a_Details := default_details (a_Details a), a_CreatedAt := ts\<rparr>))) id (\<lambda>_. ok ()))"

definition st_ListOrgAudit :: "env \<Rightarrow> int \<Rightarrow> int \<Rightarrow> int \<Rightarrow> AuditEntry list uaction" where
  "st_ListOrgAudit e oid lim offset =
     (let lim' = (if lim \<le> 0 then 50 else lim); offset' = (if offset < 0 then 0 else offset)
      in query e (\<lambda>d. take (nat lim') (drop (nat offset')
           (sort_key (\<lambda>a. - a_ID a) (filter (\<lambda>a. a_SubjectID a = oid) (organization_audit d))))))"

definition st_CountOrgAudit :: "env \<Rightarrow> int \<Rightarrow> int uaction" where
  "st_CountOrgAudit e oid =
     query e (\<lambda>d. count_where (\<lambda>a. a_SubjectID a = oid) (organization_audit d))"

definition st_RecordDomainAudit :: "env \<Rightarrow> AuditEntry \<Rightarrow> unit uaction" where
  "st_RecordDomainAudit e a =
     store_now e (\<lambda>ts.
     call (exec e (insert_domain_audit
             (a\<lparr>a_TargetID := 0, a_Details := default_details (a_Details a), a_CreatedAt := ts\<rparr>))) id
       (\<lambda>_. ok ()))"

definition st_ListDomainAudit :: "env \<Rightarrow> int \<Rightarrow> int \<Rightarrow> AuditEntry list uaction" where
  "st_ListDomainAudit e did lim =
     (let lim' = (if lim \<le> 0 then 50 else lim)
      in query e (\<lambda>d. take (nat lim')
           (sort_key (\<lambda>a. - a_ID a) (filter (\<lambda>a. a_SubjectID a = did) (custom_domain_audit d)))))"

end
