(* ===== verification/Service_Base.thy ===== *)
theory Service_Base
  imports Store_Orgs
begin

text \<open>
  \<^verbatim>\<open>src/src/server/service/service.go\<close>, and the parts of \<^verbatim>\<open>org.go\<close> and \<^verbatim>\<open>auth.go\<close> every other
  service file calls: the audit trail, \<open>Access\<close> and \<open>require\<close>, the redemption of an invite. The
  methods of \<open>Service\<close> are actions over users.db with the environment as first argument.
\<close>

section \<open>\<^verbatim>\<open>service.go\<close>\<close>

definition mapStoreErr :: "err \<Rightarrow> err" where
  "mapStoreErr x =
     (if x = StoreNotFound then ErrNotFound else if x = StoreConflict then ErrConflict else x)"

definition validationError :: "string \<Rightarrow> err" where
  "validationError msg = FieldError msg"

text \<open>\<open>validationError (err.Error ())\<close>\<close>

definition as_validation :: "err \<Rightarrow> err" where
  "as_validation x = validationError (user_error_text x)"

text \<open>Marshalling a map of strings and numbers does not fail.\<close>

definition encodeDetails :: "env \<Rightarrow> (string \<times> detail) list \<Rightarrow> string" where
  "encodeDetails e details = (if details = [] then ''{}'' else json_object e details)"

section \<open>The audit trail\<close>

definition audit ::
  "env \<Rightarrow> int \<Rightarrow> string \<Rightarrow> string \<Rightarrow> int \<Rightarrow> int \<Rightarrow> (string \<times> detail) list \<Rightarrow> unit uaction"
where
  "audit e oid event actorType actorID targetID details =
     ignoring
       (st_RecordOrgAudit e \<lparr>a_ID = 0, a_SubjectID = oid, a_Event = event, a_ActorType = actorType,
          a_ActorID = actorID, a_TargetID = targetID, a_Details = encodeDetails e details,
          a_CreatedAt = zero_time\<rparr>)
       (ok ())"

definition domainAudit ::
  "env \<Rightarrow> int \<Rightarrow> string \<Rightarrow> int \<Rightarrow> (string \<times> detail) list \<Rightarrow> unit uaction"
where
  "domainAudit e did event actorID details =
     ignoring
       (st_RecordDomainAudit e \<lparr>a_ID = 0, a_SubjectID = did, a_Event = event,
          a_ActorType = (if actorID = 0 then ActorSystem else ActorUser),
          a_ActorID = actorID, a_TargetID = 0, a_Details = encodeDetails e details,
          a_CreatedAt = zero_time\<rparr>)
       (ok ())"

section \<open>Access\<close>

record OrgAccess =
  access_Org :: Org
  access_Role :: role

definition access_Can :: "OrgAccess \<Rightarrow> permission \<Rightarrow> bool" where
  "access_Can a p = Can (access_Role a) p"

definition Access :: "env \<Rightarrow> int \<Rightarrow> int \<Rightarrow> OrgAccess uaction" where
  "Access e oid uid =
     call (st_OrgByID e oid) mapStoreErr (\<lambda>org.
     call (st_Membership e oid uid) (\<lambda>_. ErrNotFound) (\<lambda>member.
     check (ParseRole (m_Role member)) (\<lambda>_. ErrNotFound) (\<lambda>role.
     ok \<lparr>access_Org = org, access_Role = role\<rparr>)))"

definition AccessBySlug :: "env \<Rightarrow> string \<Rightarrow> int \<Rightarrow> OrgAccess uaction" where
  "AccessBySlug e slug uid =
     call (st_OrgBySlug e slug) (\<lambda>_. ErrNotFound) (\<lambda>org.
     call (st_Membership e (o_ID org) uid) (\<lambda>_. ErrNotFound) (\<lambda>member.
     check (ParseRole (m_Role member)) (\<lambda>_. ErrNotFound) (\<lambda>role.
     ok \<lparr>access_Org = org, access_Role = role\<rparr>)))"

definition require :: "env \<Rightarrow> int \<Rightarrow> int \<Rightarrow> permission \<Rightarrow> OrgAccess uaction" where
  "require e oid uid p =
     call (Access e oid uid) id (\<lambda>access.
     if \<not> access_Can access p then fail ErrForbidden else ok access)"

section \<open>Invites\<close>

definition redeemInvite :: "env \<Rightarrow> string \<Rightarrow> Invite uaction" where
  "redeemInvite e code =
     call (st_InviteByHash e (HashToken e code))
       (\<lambda>x. if x = ErrNotFound \<or> mapStoreErr x = ErrNotFound then ErrForbidden else x) (\<lambda>invite.
     with_now e (\<lambda>now.
     if \<not> Redeemable invite now then fail ErrForbidden
     else
     call (st_RedeemInvite e (i_ID invite)) (\<lambda>_. ErrForbidden) (\<lambda>_.
     ok invite)))"

section \<open>Configured roles, modes and visibilities\<close>

definition CreationMode :: "env \<Rightarrow> mode" where
  "CreationMode e =
     (case ParseCreationMode (creation_Mode (orgs_cfg e)) of
        Inl _ \<Rightarrow> CreationDisabled | Inr m \<Rightarrow> m)"

definition RegistrationMode :: "env \<Rightarrow> mode" where
  "RegistrationMode e =
     (case ParseRegistrationMode (reg_Mode (cfg_Registration (users_cfg e))) of
        Inl _ \<Rightarrow> RegistrationDisabled | Inr m \<Rightarrow> m)"

definition defaultOrgVisibility :: "env \<Rightarrow> string" where
  "defaultOrgVisibility e =
     (if org_DefaultVisibility (orgs_cfg e) = VisibilityPublic then VisibilityPublic
      else VisibilityPrivate)"

definition defaultUserVisibility :: "env \<Rightarrow> string" where
  "defaultUserVisibility e =
     (if user_DefaultVisibility (cfg_Profile (users_cfg e)) = VisibilityPublic
      then VisibilityPublic else VisibilityPrivate)"

definition defaultMemberRole :: "env \<Rightarrow> role" where
  "defaultMemberRole e =
     (case ParseRole (DefaultRole (orgs_cfg e)) of
        Inl _ \<Rightarrow> RoleViewer
      | Inr r \<Rightarrow> if r = RoleOwner then RoleViewer else r)"

definition passwordPolicy :: "env \<Rightarrow> password_policy" where
  "passwordPolicy e =
     (let auth = cfg_Auth (users_cfg e)
      in \<lparr>MinLength = PasswordMinLength auth, RequireUppercase = PasswordRequireUppercase auth,
          RequireLowercase = PasswordRequireLowercase auth,
          RequireNumber = PasswordRequireNumber auth,
          RequireSpecial = PasswordRequireSpecial auth\<rparr>)"

text \<open>\<open>if err = policy.ValidatePassword (p); err != nil { return validationError (err.Error ()) }\<close>\<close>

definition check_password :: "env \<Rightarrow> string \<Rightarrow> 'a uaction \<Rightarrow> 'a uaction" where
  "check_password e password k =
     (case ValidatePassword (rune_classes e) (passwordPolicy e) password of
        Some x \<Rightarrow> fail (as_validation x) | None \<Rightarrow> k)"

end
