(* ===== verification/Service_Orgs.thy ===== *)
theory Service_Orgs
  imports Service_Base
begin

text \<open>
  \<^verbatim>\<open>src/src/server/service/org.go\<close>: organizations, members, invitations and zone grants, and
  every rule on who may change them.
\<close>

section \<open>Creating an organization\<close>

definition EventOrgCreatedPersonal :: string where
  "EventOrgCreatedPersonal = ''org.created_personal''"

definition new_org :: "string \<Rightarrow> string \<Rightarrow> string \<Rightarrow> string \<Rightarrow> string \<Rightarrow> string \<Rightarrow> bool \<Rightarrow> int \<Rightarrow> Org" where
  "new_org slug name description website location visibility personal ownerID =
     \<lparr>o_ID = 0, o_Slug = slug, o_Name = name, o_Description = description, o_Website = website,
      o_Location = location, o_AvatarURL = [], o_Visibility = visibility, o_Personal = personal,
      o_OwnerID = ownerID, o_Status = StatusActive, o_CreatedAt = zero_time,
      o_UpdatedAt = zero_time\<rparr>"

definition createPersonalOrg :: "env \<Rightarrow> User \<Rightarrow> Org uaction" where
  "createPersonalOrg e account =
     call (st_CreateOrg e (new_org (u_Username account) (u_DisplayName account) [] [] []
             (defaultOrgVisibility e) True (u_ID account))) mapStoreErr (\<lambda>org.
     ignoring (audit e (o_ID org) EventOrgCreatedPersonal ActorSystem 0 (u_ID account) [])
     (ok org))"

definition joinInvitedOrg :: "env \<Rightarrow> Invite \<Rightarrow> User \<Rightarrow> unit uaction" where
  "joinInvitedOrg e invite account =
     (let role = (case ParseRole (i_Role invite) of Inl _ \<Rightarrow> defaultMemberRole e | Inr r \<Rightarrow> r)
      in call (st_AddMember e (i_OrgID invite) (u_ID account) role) mapStoreErr (\<lambda>_.
         ignoring (audit e (i_OrgID invite) EventMemberJoined ActorUser (u_ID account) (u_ID account)
                     [(''role'', DetailString role)])
         (ok ())))"

record CreateOrgInput =
  in_Slug :: string
  in_Name :: string
  in_Description :: string
  in_Website :: string
  in_Location :: string
  in_InviteCode :: string
  in_ByAdmin :: bool

text \<open>The switch on how the request arrived.\<close>

definition org_creation_gate :: "env \<Rightarrow> CreateOrgInput \<Rightarrow> unit uaction" where
  "org_creation_gate e inp =
     (let mode = CreationMode e
      in if in_ByAdmin inp then
           (if \<not> OrgAdminCreateAllowed mode then fail ErrDisabled else ok ())
         else if in_InviteCode inp \<noteq> [] then
           (if \<not> OrgInviteAllowed mode then fail ErrDisabled
            else call (redeemInvite e (in_InviteCode inp)) id (\<lambda>_. ok ()))
         else if \<not> OrgSelfServiceAllowed mode then fail ErrForbidden
         else ok ())"

definition org_quota :: "env \<Rightarrow> int \<Rightarrow> CreateOrgInput \<Rightarrow> unit uaction" where
  "org_quota e ownerID inp =
     (let mx = creation_MaxPerUser (orgs_cfg e)
      in if mx > 0 \<and> \<not> in_ByAdmin inp then
           call (st_CountOwnedOrgs e ownerID) id (\<lambda>owned.
           if owned \<ge> mx then fail ErrQuotaExceeded else ok ())
         else ok ())"

definition CreateOrg :: "env \<Rightarrow> int \<Rightarrow> CreateOrgInput \<Rightarrow> Org uaction" where
  "CreateOrg e ownerID inp =
     (if \<not> orgs_Enabled (orgs_cfg e) then fail ErrDisabled
      else
      call (org_creation_gate e inp) id (\<lambda>_.
      check (ValidateName (in_Slug inp)) as_validation (\<lambda>slug.
      call (org_quota e ownerID inp) id (\<lambda>_.
      let name = (if TrimSpace (in_Name inp) = [] then slug else TrimSpace (in_Name inp))
      in call (st_CreateOrg e (new_org slug name (TrimSpace (in_Description inp))
                 (TrimSpace (in_Website inp)) (TrimSpace (in_Location inp))
                 (defaultOrgVisibility e) False ownerID)) mapStoreErr (\<lambda>org.
         ignoring (audit e (o_ID org) EventOrgCreated ActorUser ownerID 0 [])
         (ok org))))))"

section \<open>Reading and changing it\<close>

definition Require :: "env \<Rightarrow> int \<Rightarrow> int \<Rightarrow> permission \<Rightarrow> OrgAccess uaction" where
  "Require e oid uid p = require e oid uid p"

definition OrgsForUser :: "env \<Rightarrow> int \<Rightarrow> Org list uaction" where
  "OrgsForUser e uid = call (st_OrgsForUser e uid) mapStoreErr ok"

definition UpdateOrg :: "env \<Rightarrow> int \<Rightarrow> int \<Rightarrow> CreateOrgInput \<Rightarrow> Org uaction" where
  "UpdateOrg e oid actorID inp =
     call (require e oid actorID PermOrgSettings) id (\<lambda>access.
     let org0 = access_Org access;
         org = org0\<lparr>o_Name := (if TrimSpace (in_Name inp) \<noteq> [] then TrimSpace (in_Name inp) else o_Name org0),
                    o_Description := TrimSpace (in_Description inp),
                    o_Website := TrimSpace (in_Website inp),
                    o_Location := TrimSpace (in_Location inp)\<rparr>
     in call (st_UpdateOrg e org) mapStoreErr (\<lambda>_.
        ignoring (audit e oid EventOrgUpdated ActorUser actorID 0 [])
        (ok org)))"

definition SetOrgVisibility :: "env \<Rightarrow> int \<Rightarrow> int \<Rightarrow> string \<Rightarrow> unit uaction" where
  "SetOrgVisibility e oid actorID visibility =
     (if visibility \<noteq> VisibilityPublic \<and> visibility \<noteq> VisibilityPrivate
      then fail (validationError ''visibility must be public or private'')
      else
      call (require e oid actorID PermOrgSettings) id (\<lambda>access.
      call (st_UpdateOrg e ((access_Org access)\<lparr>o_Visibility := visibility\<rparr>)) mapStoreErr (\<lambda>_.
      ignoring (audit e oid EventOrgUpdated ActorUser actorID 0 [(''visibility'', DetailString visibility)])
      (ok ()))))"

definition DeleteOrg :: "env \<Rightarrow> int \<Rightarrow> int \<Rightarrow> unit uaction" where
  "DeleteOrg e oid actorID =
     call (require e oid actorID PermOrgDelete) id (\<lambda>access.
     if o_Personal (access_Org access) then fail ErrForbidden
     else call (st_DeleteOrg e oid) mapStoreErr (\<lambda>_. ok ()))"

definition TransferOrg :: "env \<Rightarrow> int \<Rightarrow> int \<Rightarrow> int \<Rightarrow> unit uaction" where
  "TransferOrg e oid actorID newOwnerID =
     call (Access e oid actorID) id (\<lambda>access.
     if access_Role access \<noteq> RoleOwner \<or> o_OwnerID (access_Org access) \<noteq> actorID
     then fail ErrForbidden
     else if o_Personal (access_Org access) then fail ErrForbidden
     else if newOwnerID = actorID
     then fail (validationError ''the new owner must be a different member'')
     else
     call (st_TransferOrg e oid actorID newOwnerID) mapStoreErr (\<lambda>_.
     ignoring (audit e oid EventOrgTransferred ActorUser actorID newOwnerID [])
     (ok ())))"

section \<open>Members\<close>

definition Members :: "env \<Rightarrow> int \<Rightarrow> int \<Rightarrow> Member list uaction" where
  "Members e oid actorID =
     call (require e oid actorID PermRead) id (\<lambda>_.
     call (st_ListMembers e oid) mapStoreErr ok)"

definition SetMemberRole :: "env \<Rightarrow> int \<Rightarrow> int \<Rightarrow> int \<Rightarrow> string \<Rightarrow> unit uaction" where
  "SetMemberRole e oid actorID targetID role =
     call (require e oid actorID PermMembersManage) id (\<lambda>access.
     if o_Personal (access_Org access) then fail ErrForbidden
     else
     check (ParseRole role) (\<lambda>_. validationError ''unknown organization role'') (\<lambda>next.
     call (st_Membership e oid targetID) (\<lambda>_. ErrNotFound) (\<lambda>current.
     check (ParseRole (m_Role current)) (\<lambda>_. ErrNotFound) (\<lambda>existing.
     if \<not> CanManageMember (access_Role access) existing \<or> \<not> CanGrantRole (access_Role access) next
     then fail ErrForbidden
     else
     call (st_SetMemberRole e oid targetID next) mapStoreErr (\<lambda>_.
     ignoring (audit e oid EventMemberRoleSet ActorUser actorID targetID
                 [(''from'', DetailString existing), (''to'', DetailString next)])
     (ok ()))))))"

text \<open>The checks for removing somebody else.\<close>

definition removal_gate :: "env \<Rightarrow> int \<Rightarrow> int \<Rightarrow> int \<Rightarrow> OrgAccess \<Rightarrow> unit uaction" where
  "removal_gate e oid actorID targetID access =
     (if targetID \<noteq> actorID then
        if \<not> access_Can access PermMembersManage then fail ErrForbidden
        else
        call (st_Membership e oid targetID) (\<lambda>_. ErrNotFound) (\<lambda>current.
        check (ParseRole (m_Role current)) (\<lambda>_. ErrForbidden) (\<lambda>existing.
        if \<not> CanManageMember (access_Role access) existing then fail ErrForbidden else ok ()))
      else ok ())"

definition RemoveMember :: "env \<Rightarrow> int \<Rightarrow> int \<Rightarrow> int \<Rightarrow> unit uaction" where
  "RemoveMember e oid actorID targetID =
     call (Access e oid actorID) id (\<lambda>access.
     if o_Personal (access_Org access) then fail ErrForbidden
     else if o_OwnerID (access_Org access) = targetID then fail ErrForbidden
     else
     call (removal_gate e oid actorID targetID access) id (\<lambda>_.
     call (st_RemoveMember e oid targetID) mapStoreErr (\<lambda>_.
     ignoring (audit e oid EventMemberRemoved ActorUser actorID targetID [])
     (ok ()))))"

section \<open>Invitations\<close>

record InviteInput =
  inv_Email :: string
  inv_Role :: string
  inv_MaxUses :: int

record InviteResult =
  res_Invite :: Invite
  res_Code :: string

definition invite_role :: "env \<Rightarrow> OrgAccess \<Rightarrow> string \<Rightarrow> err + role" where
  "invite_role e access requested =
     (if requested = [] then Inr (defaultMemberRole e)
      else case ParseRole requested of
        Inl _ \<Rightarrow> Inl (validationError ''unknown organization role'')
      | Inr parsed \<Rightarrow> Inr (CapRole (access_Role access) parsed))"

definition optional_email :: "string \<Rightarrow> err + string" where
  "optional_email raw =
     (if TrimSpace raw = [] then Inr []
      else case ValidateEmail (TrimSpace raw) of
        Inl x \<Rightarrow> Inl (as_validation x) | Inr m \<Rightarrow> Inr m)"

definition InviteMember :: "env \<Rightarrow> int \<Rightarrow> int \<Rightarrow> InviteInput \<Rightarrow> InviteResult uaction" where
  "InviteMember e oid actorID inp =
     call (require e oid actorID PermMembersManage) id (\<lambda>access.
     if o_Personal (access_Org access) then fail ErrForbidden
     else if \<not> AllowInvites (orgs_cfg e) \<and> access_Role access \<noteq> RoleOwner then fail ErrForbidden
     else
     check (invite_role e access (inv_Role inp)) id (\<lambda>role.
     check (optional_email (inv_Email inp)) id (\<lambda>email.
     let maxUses = (if inv_MaxUses inp < 0 then 1 else inv_MaxUses inp)
     in call (RandomString e (int RandomLength)) id (\<lambda>code.
     let cfg_days = InviteExpirationDays (cfg_Registration (users_cfg e));
         days = (if cfg_days \<le> 0 then 7 else cfg_days)
     in with_now e (\<lambda>now.
     call (st_CreateInvite e \<lparr>i_ID = 0, i_CodeHash = HashToken e code, i_OrgID = oid,
             i_Email = email, i_Role = role, i_MaxUses = maxUses, i_UseCount = 0,
             i_InvitedBy = actorID, i_AcceptedAt = None, i_CreatedAt = zero_time,
             i_ExpiresAt = now + days_duration days\<rparr>) mapStoreErr (\<lambda>invite.
     ignoring (audit e oid EventMemberInvited ActorUser actorID 0
                 [(''role'', DetailString role), (''email'', DetailString (MaskEmail email))])
     (ok \<lparr>res_Invite = invite, res_Code = code\<rparr>)))))))"

definition orgByID :: "env \<Rightarrow> int \<Rightarrow> Org uaction" where
  "orgByID e oid = call (st_OrgByID e oid) mapStoreErr ok"

definition AcceptInvite :: "env \<Rightarrow> int \<Rightarrow> string \<Rightarrow> Org uaction" where
  "AcceptInvite e uid code =
     call (redeemInvite e code) id (\<lambda>invite.
     if i_OrgID invite = 0 then fail ErrForbidden
     else
     let role = (case ParseRole (i_Role invite) of Inl _ \<Rightarrow> defaultMemberRole e | Inr r \<Rightarrow> r)
     in try_call (st_AddMember e (i_OrgID invite) uid role)
          (\<lambda>x. if mapStoreErr x = ErrConflict then orgByID e (i_OrgID invite)
               else fail (mapStoreErr x))
          (\<lambda>_. ignoring (audit e (i_OrgID invite) EventMemberJoined ActorUser uid uid
                           [(''role'', DetailString role)])
               (orgByID e (i_OrgID invite))))"

definition ListInvites :: "env \<Rightarrow> int \<Rightarrow> int \<Rightarrow> Invite list uaction" where
  "ListInvites e oid actorID =
     call (require e oid actorID PermMembersManage) id (\<lambda>_.
     call (st_ListOrgInvites e oid) mapStoreErr ok)"

text \<open>The loop over the organization's own invitations returns at the first one with the id.\<close>

definition RevokeInvite :: "env \<Rightarrow> int \<Rightarrow> int \<Rightarrow> int \<Rightarrow> unit uaction" where
  "RevokeInvite e oid actorID inviteID =
     call (require e oid actorID PermMembersManage) id (\<lambda>_.
     call (st_ListOrgInvites e oid) mapStoreErr (\<lambda>invites.
     case find_where (\<lambda>i. i_ID i = inviteID) invites of
       None \<Rightarrow> fail ErrNotFound
     | Some _ \<Rightarrow>
         call (st_DeleteInvite e inviteID) mapStoreErr (\<lambda>_.
         ignoring (audit e oid EventInviteRevoked ActorUser actorID 0 [])
         (ok ()))))"

section \<open>Zones\<close>

definition GrantZone :: "env \<Rightarrow> int \<Rightarrow> int \<Rightarrow> int \<Rightarrow> int \<Rightarrow> string \<Rightarrow> unit uaction" where
  "GrantZone e oid actorID targetID zoneID permission =
     call (require e oid actorID PermMembersManage) id (\<lambda>_.
     call (st_Membership e oid targetID) (\<lambda>_. ErrNotFound) (\<lambda>_.
     call (st_ZoneOrgID e zoneID) mapStoreErr (\<lambda>zoneOrgID.
     if zoneOrgID \<noteq> oid then fail ErrForbidden
     else
     let permission' = (if permission = [] then ''edit'' else permission)
     in call (st_GrantZone e oid targetID zoneID permission') mapStoreErr (\<lambda>_.
        ignoring (audit e oid EventZoneGranted ActorUser actorID targetID
                    [(''zone_id'', DetailInt zoneID), (''permission'', DetailString permission')])
        (ok ())))))"

definition RevokeZone :: "env \<Rightarrow> int \<Rightarrow> int \<Rightarrow> int \<Rightarrow> int \<Rightarrow> unit uaction" where
  "RevokeZone e oid actorID targetID zoneID =
     call (require e oid actorID PermMembersManage) id (\<lambda>_.
     call (st_RevokeZone e oid targetID zoneID) mapStoreErr (\<lambda>_.
     ignoring (audit e oid EventZoneRevoked ActorUser actorID targetID [(''zone_id'', DetailInt zoneID)])
     (ok ())))"

definition CanEditZone :: "env \<Rightarrow> int \<Rightarrow> int \<Rightarrow> int \<Rightarrow> bool uaction" where
  "CanEditZone e oid uid zoneID =
     call (Access e oid uid) id (\<lambda>access.
     if \<not> access_Can access PermRecordsWrite then ok False
     else if OutranksOrEquals (access_Role access) RoleAdmin then ok True
     else call (st_ZoneGranted e oid uid zoneID) mapStoreErr ok)"

definition OrgAudit :: "env \<Rightarrow> int \<Rightarrow> int \<Rightarrow> int \<Rightarrow> int \<Rightarrow> AuditEntry list uaction" where
  "OrgAudit e oid actorID lim offset =
     call (require e oid actorID PermOrgSettings) id (\<lambda>_.
     call (st_ListOrgAudit e oid lim offset) mapStoreErr ok)"

end
