(* ===== verification/Service_Tokens.thy ===== *)
theory Service_Tokens
  imports Service_Orgs
begin

text \<open>
  \<^verbatim>\<open>src/src/server/service/token.go\<close>: issuing, listing, revoking and authenticating API tokens.
\<close>

section \<open>Issuing\<close>

record IssueTokenInput =
  it_Name :: string
  it_OrgID :: int
  it_ZoneID :: int
  it_Capability :: string
  it_Role :: string
  it_Scope :: string
  it_ExpiresIn :: int

record IssuedToken =
  issued_Token :: Token
  issued_Secret :: string

definition CapabilityACMEChallenge :: string where "CapabilityACMEChallenge = ''acme-challenge''"
definition CapabilityMetricsRead :: string where "CapabilityMetricsRead = ''metrics:read''"

definition requested_role :: "role \<Rightarrow> string \<Rightarrow> err + role" where
  "requested_role own raw =
     (if raw = [] then Inr own
      else case ParseRole raw of
        Inl _ \<Rightarrow> Inl (validationError ''unknown organization role'') | Inr r \<Rightarrow> Inr r)"

definition requested_scope :: "string \<Rightarrow> err + string" where
  "requested_scope raw =
     (if raw = [] then Inr ScopeRead
      else case ParseScope raw of
        Inl _ \<Rightarrow> Inl (validationError ''unknown token scope'') | Inr s \<Rightarrow> Inr s)"

text \<open>The zone check and the token quota, as the steps they are.\<close>

definition token_zone_gate :: "env \<Rightarrow> int \<Rightarrow> IssueTokenInput \<Rightarrow> unit uaction" where
  "token_zone_gate e uid inp =
     (if it_ZoneID inp \<noteq> 0 then
        call (CanEditZone e (it_OrgID inp) uid (it_ZoneID inp)) id (\<lambda>allowed.
        if \<not> allowed then fail ErrForbidden else ok ())
      else ok ())"

definition token_quota :: "env \<Rightarrow> int \<Rightarrow> unit uaction" where
  "token_quota e uid =
     (let mx = MaxPerUser (cfg_Tokens (users_cfg e))
      in if mx > 0 then
           call (st_CountLiveTokens e OwnerUser uid) id (\<lambda>live.
           if live \<ge> mx then fail ErrQuotaExceeded else ok ())
         else ok ())"

definition token_expiry :: "env \<Rightarrow> int \<Rightarrow> int \<Rightarrow> int option" where
  "token_expiry e expiresIn now =
     (let days = ExpirationDays (cfg_Tokens (users_cfg e))
      in if expiresIn > 0 then Some (now + expiresIn)
         else if days > 0 then Some (now + days_duration days)
         else None)"

definition IssueToken :: "env \<Rightarrow> int \<Rightarrow> IssueTokenInput \<Rightarrow> IssuedToken uaction" where
  "IssueToken e uid inp =
     (if \<not> tokens_Enabled (cfg_Tokens (users_cfg e)) then fail ErrDisabled
      else
      let name = TrimSpace (it_Name inp)
      in if name = [] then fail (validationError ''a token name is required'')
      else if it_OrgID inp = 0
      then fail (validationError ''a token must be scoped to an organization'')
      else
      call (require e (it_OrgID inp) uid PermTokensManage) id (\<lambda>access.
      check (requested_role (access_Role access) (it_Role inp)) id (\<lambda>requested.
      let role = CapRole (access_Role access) requested
      in check (requested_scope (it_Scope inp)) id (\<lambda>scope.
      if scope = ScopeGlobal then fail ErrForbidden
      else if scope = ScopeReadWrite \<and> \<not> Can role PermRecordsWrite then fail ErrForbidden
      else
      call (token_zone_gate e uid inp) id (\<lambda>_.
      let capability = TrimSpace (it_Capability inp)
      in if capability \<noteq> [] \<and> capability \<noteq> CapabilityACMEChallenge
            \<and> capability \<noteq> CapabilityMetricsRead \<and> \<not> Can role capability
      then fail (validationError ''unknown token capability'')
      else
      call (token_quota e uid) id (\<lambda>_.
      call (GenerateToken e PrefixUser) id (\<lambda>secret.
      with_now e (\<lambda>now.
      call (st_CreateToken e \<lparr>t_ID = 0, t_OwnerType = OwnerUser, t_OwnerID = uid, t_Name = name,
              t_Hash = HashToken e secret, t_Prefix = TokenPrefixDisplay secret, t_Scope = scope,
              t_Role = role, t_OrgID = it_OrgID inp, t_ZoneID = it_ZoneID inp,
              t_Capability = capability, t_LastUsedAt = None, t_RevokedAt = None,
              t_ExpiresAt = token_expiry e (it_ExpiresIn inp) now, t_CreatedAt = zero_time\<rparr>)
        mapStoreErr (\<lambda>token.
      ignoring (audit e (it_OrgID inp) EventTokenIssued ActorUser uid 0
                  [(''name'', DetailString name), (''role'', DetailString role),
                   (''scope'', DetailString scope), (''zone_id'', DetailInt (it_ZoneID inp)),
                   (''capability'', DetailString capability)])
      (ok \<lparr>issued_Token = token, issued_Secret = secret\<rparr>))))))))))"

section \<open>Listing and revoking\<close>

definition ListTokens :: "env \<Rightarrow> int \<Rightarrow> Token list uaction" where
  "ListTokens e uid = call (st_ListTokens e OwnerUser uid) mapStoreErr ok"

definition ListOrgTokens :: "env \<Rightarrow> int \<Rightarrow> int \<Rightarrow> Token list uaction" where
  "ListOrgTokens e oid actorID =
     call (require e oid actorID PermTokensManage) id (\<lambda>_.
     call (st_ListTokens e OwnerOrg oid) mapStoreErr ok)"

definition RevokeToken :: "env \<Rightarrow> int \<Rightarrow> int \<Rightarrow> unit uaction" where
  "RevokeToken e uid tokenID =
     call (st_TokenByID e tokenID) mapStoreErr (\<lambda>token.
     if t_OwnerType token \<noteq> OwnerUser \<or> t_OwnerID token \<noteq> uid then fail ErrNotFound
     else
     call (st_RevokeToken e tokenID) mapStoreErr (\<lambda>_.
     if t_OrgID token \<noteq> 0 then
       ignoring (audit e (t_OrgID token) EventTokenRevoked ActorUser uid 0
                   [(''name'', DetailString (t_Name token))])
       (ok ())
     else ok ()))"

definition RevokeOrgToken :: "env \<Rightarrow> int \<Rightarrow> int \<Rightarrow> int \<Rightarrow> unit uaction" where
  "RevokeOrgToken e oid actorID tokenID =
     call (require e oid actorID PermTokensManage) id (\<lambda>_.
     call (st_TokenByID e tokenID) mapStoreErr (\<lambda>token.
     if t_OrgID token \<noteq> oid then fail ErrNotFound
     else
     call (st_RevokeToken e tokenID) mapStoreErr (\<lambda>_.
     ignoring (audit e oid EventTokenRevoked ActorUser actorID (t_OwnerID token)
                 [(''name'', DetailString (t_Name token))])
     (ok ()))))"

section \<open>Authenticating\<close>

record TokenAuth =
  auth_Token :: Token
  auth_Role :: role
  auth_Scope :: string

definition auth_AllowsCapability :: "TokenAuth \<Rightarrow> string \<Rightarrow> bool" where
  "auth_AllowsCapability a name =
     (if \<not> token_AllowsCapability (auth_Token a) name then False
      else if name = CapabilityACMEChallenge \<or> name = CapabilityMetricsRead
      then t_Capability (auth_Token a) = name \<or> Can (auth_Role a) PermRecordsWrite
      else Can (auth_Role a) name)"

definition auth_AllowsZone :: "TokenAuth \<Rightarrow> int \<Rightarrow> bool" where
  "auth_AllowsZone a zoneID = token_AllowsZone (auth_Token a) zoneID"

definition token_role :: "env \<Rightarrow> Token \<Rightarrow> role uaction" where
  "token_role e token =
     (if t_OwnerType token = OwnerUser \<and> t_OrgID token \<noteq> 0 then
        call (Access e (t_OrgID token) (t_OwnerID token)) (\<lambda>_. ErrInvalidCredentials) (\<lambda>access.
        check (ParseRole (t_Role token)) (\<lambda>_. ErrInvalidCredentials) (\<lambda>granted.
        ok (CapRole (access_Role access) granted)))
      else ok (case ParseRole (t_Role token) of Inl _ \<Rightarrow> RoleViewer | Inr parsed \<Rightarrow> parsed))"

definition AuthenticateToken :: "env \<Rightarrow> string \<Rightarrow> TokenAuth uaction" where
  "AuthenticateToken e raw =
     (let presented = TrimSpace raw
      in if presented = [] then fail ErrInvalidCredentials
         else
         call (st_TokenByHash e (HashToken e presented)) (\<lambda>_. ErrInvalidCredentials) (\<lambda>token.
         with_now e (\<lambda>now.
         if \<not> token_Usable token now then fail ErrInvalidCredentials
         else
         call (token_role e token) id (\<lambda>role.
         let scope = (case ParseScope (t_Scope token) of Inl _ \<Rightarrow> ScopeRead | Inr s \<Rightarrow> s)
         in ignoring (st_TouchToken e (t_ID token))
            (ok \<lparr>auth_Token = token, auth_Role = role, auth_Scope = scope\<rparr>)))))"

end
