(* ===== verification/Service_Account.thy ===== *)
theory Service_Account
  imports Service_Orgs
begin

text \<open>
  \<^verbatim>\<open>src/src/server/service/account.go\<close> and \<^verbatim>\<open>auth.go\<close>: profiles and preferences, passwords and
  their reset, email confirmation, the second factor, registration, sign-in and sessions.
\<close>

section \<open>Identifiers\<close>

text \<open>\<open>Some\<close> account, or \<open>None\<close> where the source answers \<open>false\<close>; a failed lookup is not an error.\<close>

definition lookupIdentifier :: "env \<Rightarrow> string \<Rightarrow> User option uaction" where
  "lookupIdentifier e raw =
     (let found = (\<lambda>m. try_call m (\<lambda>_. ok None) (\<lambda>u. ok (Some u)))
      in case DetectIdentifier raw of
           IdentifierID \<Rightarrow>
             (case ParseInt64 raw of None \<Rightarrow> ok None | Some uid \<Rightarrow> found (st_UserByID e uid))
         | IdentifierEmail \<Rightarrow> found (st_UserByEmail e (NormalizeEmail raw))
         | IdentifierUsername \<Rightarrow> found (st_UserByUsername e (NormalizeName raw)))"

section \<open>Profiles and preferences\<close>

definition service_User :: "env \<Rightarrow> int \<Rightarrow> User uaction" where
  "service_User e uid = call (st_UserByID e uid) mapStoreErr ok"

record ProfileInput =
  pi_DisplayName :: string
  pi_Bio :: string
  pi_Location :: string
  pi_Website :: string
  pi_AvatarURL :: string
  pi_Timezone :: string
  pi_Language :: string
  pi_NotificationEmail :: string
  pi_Visibility :: string
  pi_OrgVisibility :: bool

definition UpdateProfile :: "env \<Rightarrow> int \<Rightarrow> ProfileInput \<Rightarrow> User uaction" where
  "UpdateProfile e uid inp =
     call (st_UserByID e uid) mapStoreErr (\<lambda>account0.
     let profile = cfg_Profile (users_cfg e);
         account = account0\<lparr>
           u_DisplayName := (if TrimSpace (pi_DisplayName inp) = [] then u_Username account0
                             else TrimSpace (pi_DisplayName inp)),
           u_Bio := (if AllowBio profile then TrimSpace (pi_Bio inp) else []),
           u_Website := (if AllowWebsite profile then TrimSpace (pi_Website inp) else []),
           u_Location := (if AllowLocation profile then TrimSpace (pi_Location inp) else []),
           u_AvatarURL := (if AllowAvatar profile then TrimSpace (pi_AvatarURL inp) else []),
           u_Timezone := TrimSpace (pi_Timezone inp), u_Language := TrimSpace (pi_Language inp)\<rparr>
     in check (optional_email (pi_NotificationEmail inp)) id (\<lambda>mail.
        if pi_Visibility inp \<noteq> VisibilityPublic \<and> pi_Visibility inp \<noteq> VisibilityPrivate
        then fail (validationError ''visibility must be public or private'')
        else
        let account' = account\<lparr>u_NotificationEmail := mail, u_Visibility := pi_Visibility inp,
                              u_OrgVisibility := pi_OrgVisibility inp\<rparr>
        in call (st_UpdateProfile e account') mapStoreErr (\<lambda>_. ok account')))"

definition Preferences :: "env \<Rightarrow> int \<Rightarrow> Preferences uaction" where
  "Preferences e uid = call (st_Preferences e uid) mapStoreErr ok"

definition SavePreferences :: "env \<Rightarrow> Preferences \<Rightarrow> unit uaction" where
  "SavePreferences e prefs = call (st_SavePreferences e prefs) mapStoreErr ok"

section \<open>Passwords\<close>

text \<open>\<open>ok, verifyErr := VerifyPassword (...); if verifyErr != nil || !ok\<close>\<close>

definition password_ok :: "env \<Rightarrow> string \<Rightarrow> string \<Rightarrow> bool" where
  "password_ok e password encoded = (VerifyPassword e password encoded = Inr True)"

definition ChangePassword :: "env \<Rightarrow> int \<Rightarrow> string \<Rightarrow> string \<Rightarrow> unit uaction" where
  "ChangePassword e uid current next =
     call (st_UserByID e uid) mapStoreErr (\<lambda>account.
     if \<not> password_ok e current (u_PasswordHash account) then fail ErrInvalidCredentials
     else
     check_password e next (
     call (HashPassword e next) id (\<lambda>hash.
     call (st_UpdatePassword e uid hash) mapStoreErr (\<lambda>_.
     call (st_DeleteUserPasswordResets e uid) id (\<lambda>_.
     call (st_DeleteUserSessions e uid) mapStoreErr ok)))))"

definition challengeLifetime :: int where "challengeLifetime = 2 * hour"

text \<open>The token and the account it is for; the source's empty token is \<open>None\<close>.\<close>

definition StartPasswordReset :: "env \<Rightarrow> string \<Rightarrow> (string \<times> User) option uaction" where
  "StartPasswordReset e identifier =
     call (lookupIdentifier e identifier) id (\<lambda>found.
     case found of
       None \<Rightarrow> ok None
     | Some account \<Rightarrow>
         if \<not> user_Active account then ok None
         else
         call (RandomString e (int RandomLength)) id (\<lambda>token.
         with_now e (\<lambda>now.
         call (st_CreatePasswordReset e (u_ID account) (HashToken e token)
                 (now + challengeLifetime)) id (\<lambda>_.
         ok (Some (token, account))))))"

definition CompletePasswordReset :: "env \<Rightarrow> string \<Rightarrow> string \<Rightarrow> unit uaction" where
  "CompletePasswordReset e token password =
     call (st_PasswordReset e (HashToken e token)) (\<lambda>_. ErrInvalidCredentials) (\<lambda>challenge.
     with_now e (\<lambda>now.
     if \<not> challenge_Usable challenge now then fail ErrInvalidCredentials
     else
     check_password e password (
     call (st_ConsumePasswordReset e (c_ID challenge)) (\<lambda>_. ErrInvalidCredentials) (\<lambda>_.
     call (HashPassword e password) id (\<lambda>hash.
     call (st_UpdatePassword e (c_UserID challenge) hash) mapStoreErr (\<lambda>_.
     call (st_DeleteUserSessions e (c_UserID challenge)) mapStoreErr ok))))))"

section \<open>Email confirmation\<close>

definition StartEmailVerification :: "env \<Rightarrow> int \<Rightarrow> string \<Rightarrow> string uaction" where
  "StartEmailVerification e uid email =
     check (ValidateEmail email) as_validation (\<lambda>normalized.
     call (RandomString e (int RandomLength)) id (\<lambda>token.
     with_now e (\<lambda>now.
     call (st_CreateEmailVerification e uid normalized (HashToken e token)
             (now + challengeLifetime)) id (\<lambda>_.
     ok token))))"

definition CompleteEmailVerification :: "env \<Rightarrow> string \<Rightarrow> User uaction" where
  "CompleteEmailVerification e token =
     call (st_EmailVerification e (HashToken e token)) (\<lambda>_. ErrInvalidCredentials) (\<lambda>challenge.
     with_now e (\<lambda>now.
     if \<not> challenge_Usable challenge now then fail ErrInvalidCredentials
     else
     call (st_ConsumeEmailVerification e (c_ID challenge)) (\<lambda>_. ErrInvalidCredentials) (\<lambda>_.
     call (st_MarkEmailVerified e (c_UserID challenge)) mapStoreErr (\<lambda>_.
     call (st_UserByID e (c_UserID challenge)) mapStoreErr (\<lambda>account.
     if u_Status account = StatusPending then
       call (st_UpdateStatus e (u_ID account) StatusActive) mapStoreErr (\<lambda>_.
       ok (account\<lparr>u_Status := StatusActive\<rparr>))
     else ok account)))))"

section \<open>The second factor\<close>

definition recoveryCodeCount :: nat where "recoveryCodeCount = 10"
definition recoveryCodeLength :: int where "recoveryCodeLength = 10"

definition twoFactorEnabled :: "env \<Rightarrow> int \<Rightarrow> bool uaction" where
  "twoFactorEnabled e uid =
     (if \<not> Allow2FA (cfg_Auth (users_cfg e)) then ok False
      else try_call (st_TOTPForUser e uid)
             (\<lambda>x. if mapStoreErr x = ErrNotFound then ok False else fail x)
             (\<lambda>enrollment. ok (totp_Confirmed enrollment)))"

record Enrollment =
  en_Secret :: string
  en_URI :: string
  en_RecoveryCodes :: "string list"

text \<open>The loop that draws the codes: the plaintext codes and their hashes.\<close>

fun recovery_loop ::
  "env \<Rightarrow> nat \<Rightarrow> string list \<Rightarrow> string list \<Rightarrow> (string list \<times> string list) uaction"
where
  "recovery_loop e 0 codes hashes = ok (codes, hashes)"
| "recovery_loop e (Suc n) codes hashes =
     call (RandomString e recoveryCodeLength) id (\<lambda>code.
     recovery_loop e n (codes @ [code]) (hashes @ [HashToken e code]))"

definition generateRecoveryCodes :: "env \<Rightarrow> (string list \<times> string list) uaction" where
  "generateRecoveryCodes e = recovery_loop e recoveryCodeCount [] []"

definition no_encryption_key :: err where
  "no_encryption_key = LibError ''service: encryption key required for two-factor enrollment''"

definition StartTwoFactor :: "env \<Rightarrow> int \<Rightarrow> Enrollment uaction" where
  "StartTwoFactor e uid =
     (if \<not> Allow2FA (cfg_Auth (users_cfg e)) then fail ErrDisabled
      else case cipher e of
        None \<Rightarrow> fail no_encryption_key
      | Some c \<Rightarrow>
          call (st_UserByID e uid) mapStoreErr (\<lambda>account.
          call (GenerateTOTPSecret e) id (\<lambda>secret.
          call (Encrypt e c secret) id (\<lambda>encrypted.
          call (generateRecoveryCodes e) id (\<lambda>(codes, hashed).
          call (st_SaveTOTP e \<lparr>totp_UserID = uid, SecretEncrypted = encrypted,
                  KeyVersion = aead_version c, totp_Confirmed = False,
                  RecoveryCodes = json_strings e hashed, totp_CreatedAt = zero_time\<rparr>) id (\<lambda>_.
          let issuer = (if ApplicationName e = [] then ''redxt'' else ApplicationName e)
          in ok \<lparr>en_Secret = secret,
                 en_URI = provisioning_uri e issuer (u_Username account) secret,
                 en_RecoveryCodes = codes\<rparr>))))))"

text \<open>The seed and the enrollment it came from.\<close>

definition totpSecret :: "env \<Rightarrow> int \<Rightarrow> (string \<times> TOTP) uaction" where
  "totpSecret e uid =
     (case cipher e of
        None \<Rightarrow> fail ErrDisabled
      | Some c \<Rightarrow>
          call (st_TOTPForUser e uid) mapStoreErr (\<lambda>enrollment.
          check (Decrypt e c (SecretEncrypted enrollment)) id (\<lambda>secret.
          ok (secret, enrollment))))"

definition ConfirmTwoFactor :: "env \<Rightarrow> int \<Rightarrow> string \<Rightarrow> unit uaction" where
  "ConfirmTwoFactor e uid code =
     call (totpSecret e uid) id (\<lambda>(secret, _).
     with_now e (\<lambda>now.
     if \<not> VerifyTOTP e secret code now then fail ErrInvalidCredentials
     else call (st_ConfirmTOTP e uid) mapStoreErr ok))"

text \<open>
  The loop drops the first hash that matches and keeps the others: the second component says
  whether one matched.
\<close>

fun drop_matching :: "env \<Rightarrow> string \<Rightarrow> string list \<Rightarrow> string list \<times> bool" where
  "drop_matching e candidate [] = ([], False)"
| "drop_matching e candidate (held # hashes) =
     (if VerifyTokenHash e candidate held then (hashes, True)
      else let (remaining, matched) = drop_matching e candidate hashes
           in (held # remaining, matched))"

definition consumeRecoveryCode :: "env \<Rightarrow> int \<Rightarrow> string \<Rightarrow> string \<Rightarrow> bool uaction" where
  "consumeRecoveryCode e uid encoded submitted =
     (case json_unstrings e encoded of
        None \<Rightarrow> ok False
      | Some hashes \<Rightarrow>
          let (remaining, matched) = drop_matching e (TrimSpace submitted) hashes
          in if \<not> matched then ok False
             else call (st_SetRecoveryCodes e uid (json_strings e remaining)) mapStoreErr
                    (\<lambda>_. ok True))"

definition second_factor :: "env \<Rightarrow> int \<Rightarrow> string \<Rightarrow> TOTP \<Rightarrow> string \<Rightarrow> unit uaction" where
  "second_factor e uid secret enrollment code =
     with_now e (\<lambda>now.
     if \<not> VerifyTOTP e secret code now then
       call (consumeRecoveryCode e uid (RecoveryCodes enrollment) code) id (\<lambda>used.
       if \<not> used then fail ErrInvalidCredentials else ok ())
     else ok ())"

definition VerifyTwoFactor :: "env \<Rightarrow> int \<Rightarrow> string \<Rightarrow> string \<Rightarrow> unit uaction" where
  "VerifyTwoFactor e uid sessionToken code =
     call (totpSecret e uid) id (\<lambda>(secret, enrollment).
     if \<not> totp_Confirmed enrollment then fail ErrInvalidCredentials
     else
     call (second_factor e uid secret enrollment code) id (\<lambda>_.
     call (st_MarkSessionTwoFactor e (HashToken e sessionToken)) mapStoreErr ok))"

definition DisableTwoFactor :: "env \<Rightarrow> int \<Rightarrow> string \<Rightarrow> unit uaction" where
  "DisableTwoFactor e uid password =
     call (st_UserByID e uid) mapStoreErr (\<lambda>account.
     if \<not> password_ok e password (u_PasswordHash account) then fail ErrInvalidCredentials
     else if Require2FA (cfg_Auth (users_cfg e)) then fail ErrForbidden
     else call (st_DeleteTOTP e uid) mapStoreErr ok)"

end
