(* ===== verification/Service_Auth.thy ===== *)
theory Service_Auth
  imports Service_Account
begin

text \<open>
  \<^verbatim>\<open>src/src/server/service/auth.go\<close>: registration, sign-in, sessions and the scheduled purge.
\<close>

section \<open>Registration\<close>

record RegisterInput =
  rg_Username :: string
  rg_Email :: string
  rg_Password :: string
  rg_InviteCode :: string
  rg_ByAdmin :: bool

text \<open>The switch on how the signup arrived.\<close>

definition registration_gate :: "env \<Rightarrow> RegisterInput \<Rightarrow> err option" where
  "registration_gate e inp =
     (let mode = RegistrationMode e
      in if rg_ByAdmin inp then (if \<not> RegAdminCreateAllowed mode then Some ErrDisabled else None)
         else if rg_InviteCode inp \<noteq> [] then
           (if \<not> RegInviteAllowed mode then Some ErrDisabled else None)
         else if \<not> RegSelfServiceAllowed mode then Some ErrForbidden
         else None)"

definition new_user :: "env \<Rightarrow> string \<Rightarrow> string \<Rightarrow> string \<Rightarrow> string \<Rightarrow> User" where
  "new_user e username email hash status =
     \<lparr>u_ID = 0, u_Username = username, u_Email = email, u_NotificationEmail = [],
      u_PasswordHash = hash, u_DisplayName = username, u_Bio = [], u_Location = [], u_Website = [],
      u_AvatarURL = [], u_Timezone = [], u_Language = [], u_Role = RoleViewer,
      u_Visibility = defaultUserVisibility e, u_OrgVisibility = True, u_Status = status,
      u_EmailVerified = False, u_FailedLogins = 0, u_LockedUntil = None, u_LastLoginAt = None,
      u_CreatedAt = zero_time, u_UpdatedAt = zero_time\<rparr>"

text \<open>The invite is redeemed before the account is written, and only when a code was presented.\<close>

definition register_invite :: "env \<Rightarrow> RegisterInput \<Rightarrow> Invite option uaction" where
  "register_invite e inp =
     (if \<not> rg_ByAdmin inp \<and> rg_InviteCode inp \<noteq> [] then
        call (redeemInvite e (rg_InviteCode inp)) id (\<lambda>invite. ok (Some invite))
      else ok None)"

definition register_join :: "env \<Rightarrow> Invite option \<Rightarrow> User \<Rightarrow> unit uaction" where
  "register_join e invite created =
     (case invite of
        None \<Rightarrow> ok ()
      | Some i \<Rightarrow> if i_OrgID i \<noteq> 0 then joinInvitedOrg e i created else ok ())"

definition Register :: "env \<Rightarrow> RegisterInput \<Rightarrow> User uaction" where
  "Register e inp =
     (if \<not> users_Enabled (users_cfg e) then fail ErrDisabled
      else
      case registration_gate e inp of Some x \<Rightarrow> fail x | None \<Rightarrow>
      check (ValidateName (rg_Username inp)) as_validation (\<lambda>username.
      check (ValidateEmail (rg_Email inp)) as_validation (\<lambda>email.
      check_password e (rg_Password inp) (
      let reg = cfg_Registration (users_cfg e)
      in if \<not> EmailDomainAllowed email (AllowedDomains reg) (BlockedDomains reg)
         then fail (validationError ''email domain is not accepted'')
         else
         call (register_invite e inp) id (\<lambda>invite.
         call (HashPassword e (rg_Password inp)) id (\<lambda>hash.
         let status = (if RequireEmailVerification reg \<and> \<not> rg_ByAdmin inp then StatusPending
                       else StatusActive)
         in call (st_CreateUser e (new_user e username email hash status)) mapStoreErr (\<lambda>created.
            call (createPersonalOrg e created) id (\<lambda>_.
            call (register_join e invite created) id (\<lambda>_.
            ok created))))))))) "

section \<open>Sign-in\<close>

definition openSession :: "env \<Rightarrow> int \<Rightarrow> string \<Rightarrow> string \<Rightarrow> bool \<Rightarrow> (string \<times> Session) uaction" where
  "openSession e uid ip agent twoFactorOK =
     call (RandomString e (int RandomLength)) id (\<lambda>token.
     with_now e (\<lambda>now.
     let configured = SessionDuration (cfg_Auth (users_cfg e));
         lifetime = (if configured \<le> 0 then 7 * 24 * hour else configured)
     in call (st_CreateSession e \<lparr>s_ID = 0, s_UserID = uid, s_Hash = HashToken e token, s_IP = ip,
                s_UserAgent = agent, s_TwoFactorOK = twoFactorOK, s_CreatedAt = now,
                s_LastActive = now, s_ExpiresAt = now + lifetime\<rparr>) id (\<lambda>session.
        ok (token, session))))"

record LoginInput =
  li_Identifier :: string
  li_Password :: string
  li_IP :: string
  li_UserAgent :: string

record LoginResult =
  lr_User :: User
  lr_SessionToken :: string
  lr_Session :: Session
  lr_TwoFactorPending :: bool

text \<open>The hash the password is checked against, whether an account was found or not.\<close>

definition stored_hash :: "env \<Rightarrow> User option \<Rightarrow> string" where
  "stored_hash e found =
     (case found of
        None \<Rightarrow> dummyHash e
      | Some account \<Rightarrow> if u_PasswordHash account = [] then dummyHash e else u_PasswordHash account)"

text \<open>The rehash after a verified password; none of its failures ends the sign-in.\<close>

definition rehash :: "env \<Rightarrow> User \<Rightarrow> string \<Rightarrow> string \<Rightarrow> unit uaction" where
  "rehash e account password stored =
     (if NeedsRehash stored DefaultParams = Inr True then
        try_call (HashPassword e password) (\<lambda>_. ok ())
          (\<lambda>newHash. ignoring (st_UpdatePassword e (u_ID account) newHash) (ok ()))
      else ok ())"

definition Login :: "env \<Rightarrow> LoginInput \<Rightarrow> LoginResult uaction" where
  "Login e inp =
     (if \<not> users_Enabled (users_cfg e) then fail ErrDisabled
      else
      call (lookupIdentifier e (li_Identifier inp)) id (\<lambda>found.
      let stored = stored_hash e found;
          verified = password_ok e (li_Password inp) stored
      in case found of
           None \<Rightarrow> fail ErrInvalidCredentials
         | Some account \<Rightarrow>
             with_now e (\<lambda>now.
             if user_Locked account now then fail ErrAccountLocked
             else if \<not> verified then
               let auth = cfg_Auth (users_cfg e)
               in call (st_RecordLoginFailure e (u_ID account) (MaxFailedLogins auth)
                          (LockoutDuration auth)) id (\<lambda>_.
                  fail ErrInvalidCredentials)
             else if \<not> user_Active account then fail ErrInvalidCredentials
             else
             call (rehash e account (li_Password inp) stored) id (\<lambda>_.
             call (st_RecordLoginSuccess e (u_ID account)) id (\<lambda>_.
             call (twoFactorEnabled e (u_ID account)) id (\<lambda>twoFactor.
             call (openSession e (u_ID account) (li_IP inp) (li_UserAgent inp) (\<not> twoFactor)) id
               (\<lambda>(token, session).
             ok \<lparr>lr_User = account, lr_SessionToken = token, lr_Session = session,
                 lr_TwoFactorPending = twoFactor\<rparr>)))))))"

section \<open>Sessions\<close>

definition Logout :: "env \<Rightarrow> string \<Rightarrow> unit uaction" where
  "Logout e token = call (st_DeleteSession e (HashToken e token)) mapStoreErr ok"

definition LogoutAll :: "env \<Rightarrow> int \<Rightarrow> unit uaction" where
  "LogoutAll e uid = call (st_DeleteUserSessions e uid) mapStoreErr ok"

definition ListSessions :: "env \<Rightarrow> int \<Rightarrow> Session list uaction" where
  "ListSessions e uid = call (st_ListSessions e uid) mapStoreErr ok"

definition RevokeSession :: "env \<Rightarrow> int \<Rightarrow> int \<Rightarrow> unit uaction" where
  "RevokeSession e uid sessionID =
     call (st_ListSessions e uid) mapStoreErr (\<lambda>sessions.
     case find_where (\<lambda>s. s_ID s = sessionID) sessions of
       None \<Rightarrow> fail ErrNotFound
     | Some sess \<Rightarrow> call (st_DeleteSession e (s_Hash sess)) mapStoreErr ok)"

definition ResolveSession :: "env \<Rightarrow> string \<Rightarrow> (User \<times> Session) uaction" where
  "ResolveSession e token =
     (let hash = HashToken e token
      in call (st_SessionByHash e hash) mapStoreErr (\<lambda>session.
         with_now e (\<lambda>now.
         if session_Expired session now then
           ignoring (st_DeleteSession e hash) (fail ErrInvalidCredentials)
         else
         call (st_UserByID e (s_UserID session)) mapStoreErr (\<lambda>account.
         if \<not> user_Active account then fail ErrInvalidCredentials
         else
         call (st_TouchSession e hash) id (\<lambda>_.
         ok (account, session))))))"

definition PurgeSessions :: "env \<Rightarrow> int uaction" where
  "PurgeSessions e =
     with_now e (\<lambda>now.
     call (st_PurgeExpiredSessions e now) id (\<lambda>sessions.
     call (st_PurgeExpiredChallenges e now) id (\<lambda>challenges.
     call (st_PurgeExpiredInvites e) id (\<lambda>invites.
     ok (sessions + challenges + invites)))))"

end
