(* ===== verification/Service_Domains.thy ===== *)
theory Service_Domains
  imports Service_Orgs
begin

text \<open>
  \<^verbatim>\<open>src/src/server/service/domain.go\<close>: claiming, verifying, serving and releasing custom domains.
  The DNS resolver and the ACME client are \<open>LookupTXT\<close> and \<open>certs_IssueFor\<close> of the environment,
  a regular expression of the configuration is the predicate \<open>regexp_MatchString\<close> gives it (or
  nothing where it does not compile).
\<close>

section \<open>Claims\<close>

definition VerificationPrefix :: string where "VerificationPrefix = ''_verify.''"
definition CodeTXTRecordMissing :: string where "CodeTXTRecordMissing = ''TXT_RECORD_MISSING''"
definition CodeDNSLookupFailed :: string where "CodeDNSLookupFailed = ''DNS_LOOKUP_FAILED''"

text \<open>\<open>err.Error ()\<close> of the errors the domain paths report.\<close>

definition error_text :: "err \<Rightarrow> string" where
  "error_text x =
     (case x of
        VerificationError code name det \<Rightarrow>
          if det = [] then code @ '': '' @ name else code @ '': '' @ name @ '': '' @ det
      | LibError msg \<Rightarrow> msg
      | FieldError msg \<Rightarrow> msg
      | StoreNotFound \<Rightarrow> ''store: not found''
      | StoreConflict \<Rightarrow> ''store: already exists''
      | ErrNotFound \<Rightarrow> ''service: not found''
      | ErrForbidden \<Rightarrow> ''service: forbidden''
      | ErrConflict \<Rightarrow> ''service: already exists''
      | _ \<Rightarrow> user_error_text x)"

definition is_reserved :: "string list \<Rightarrow> string \<Rightarrow> bool" where
  "is_reserved reserved bare =
     list_ex (\<lambda>r. let name = ToLower (TrimSpace r)
                  in name \<noteq> [] \<and> (bare = name \<or> HasSuffix bare (''.'' @ name))) reserved"

definition is_blocked_pattern :: "env \<Rightarrow> string list \<Rightarrow> string \<Rightarrow> bool" where
  "is_blocked_pattern e patterns bare =
     list_ex (\<lambda>p. case regexp_MatchString e p of None \<Rightarrow> False | Some matches \<Rightarrow> matches bare) patterns"

definition normalizeClaim :: "env \<Rightarrow> string \<Rightarrow> err + string \<times> bool" where
  "normalizeClaim e raw =
     (let policy = domains_cfg e;
          candidate = TrimSuffix (ToLower (TrimSpace raw)) ''.'';
          wildcard = IsWildcardDomain candidate
      in if wildcard \<and> \<not> AllowWildcard policy
         then Inl (validationError ''wildcard domains are not accepted'')
         else case ValidateDomain candidate of
           Inl x \<Rightarrow> Inl (as_validation x)
         | Inr name \<Rightarrow>
      let apex = IsApexDomain name
      in if apex \<and> \<not> AllowApex policy then Inl (validationError ''apex domains are not accepted'')
         else if \<not> apex \<and> \<not> wildcard \<and> \<not> AllowSubdomain policy
         then Inl (validationError ''subdomains are not accepted'')
         else
      let bare = TrimPrefix name ''*.''
      in if is_reserved (Reserved policy) bare then Inl (validationError ''that domain is reserved'')
         else if is_blocked_pattern e (BlockedPatterns policy) bare
         then Inl (validationError ''that domain is not accepted'')
         else Inr (name, wildcard))"

definition domain_quota :: "env \<Rightarrow> int \<Rightarrow> unit uaction" where
  "domain_quota e oid =
     (let mx = MaxDomainsPerOrg (domains_cfg e)
      in if mx > 0 then
           call (st_CountOrgDomains e oid) id (\<lambda>held.
           if held \<ge> mx then fail ErrQuotaExceeded else ok ())
         else ok ())"

definition new_domain :: "env \<Rightarrow> int \<Rightarrow> string \<Rightarrow> bool \<Rightarrow> string \<Rightarrow> string \<Rightarrow> Domain" where
  "new_domain e oid name wildcard purpose token =
     \<lparr>d_ID = 0, d_OrgID = oid, d_Name = name, d_Purpose = purpose, d_IsApex = IsApexDomain name,
      d_IsWildcard = wildcard, d_VerificationStatus = [], d_VerificationToken = token,
      d_VerifiedAt = None, d_LastCheckAt = None, d_CheckCount = 0,
      d_SSLEnabled = RequireSSL (domains_cfg e), d_SSLStatus = [], d_SSLChallenge = [],
      d_SSLIssuedAt = None, d_SSLExpiresAt = None, d_SSLLastError = [], d_Status = [],
      d_SuspendReason = [], d_CreatedAt = zero_time, d_UpdatedAt = zero_time\<rparr>"

record AddDomainInput =
  ad_Domain :: string
  ad_Purpose :: string

definition AddDomain :: "env \<Rightarrow> int \<Rightarrow> int \<Rightarrow> AddDomainInput \<Rightarrow> Domain uaction" where
  "AddDomain e oid actorID inp =
     (if \<not> domains_Enabled (domains_cfg e) then fail ErrDisabled
      else
      call (require e oid actorID PermOrgSettings) id (\<lambda>_.
      check (normalizeClaim e (ad_Domain inp)) id (\<lambda>(name, wildcard).
      let purpose = (if TrimSpace (ad_Purpose inp) = [] then PurposeUI else TrimSpace (ad_Purpose inp))
      in if \<not> ValidPurpose purpose then fail (validationError ''unknown custom domain purpose'')
         else
         call (domain_quota e oid) id (\<lambda>_.
         call (RandomString e (int RandomLength)) id (\<lambda>token.
         call (st_CreateDomain e (new_domain e oid name wildcard purpose token)) mapStoreErr (\<lambda>dm.
         ignoring (domainAudit e (d_ID dm) EventDomainAdded actorID
                     [(''domain'', DetailString name), (''purpose'', DetailString purpose)])
         (ignoring (audit e oid EventDomainAdded ActorUser actorID 0 [(''domain'', DetailString name)])
         (ok dm))))))))"

section \<open>Ownership\<close>

definition domainForOrg :: "env \<Rightarrow> int \<Rightarrow> int \<Rightarrow> int \<Rightarrow> permission \<Rightarrow> Domain uaction" where
  "domainForOrg e oid actorID did perm =
     call (require e oid actorID perm) id (\<lambda>_.
     call (st_DomainByID e did) mapStoreErr (\<lambda>dm.
     if d_OrgID dm \<noteq> oid then fail ErrNotFound else ok dm))"

definition verification_name :: "Domain \<Rightarrow> string" where
  "verification_name dm = VerificationPrefix @ TrimPrefix (d_Name dm) ''*.''"

record VerificationRecord =
  vr_Name :: string
  vr_Type :: string
  vr_Value :: string

definition VerificationInstructions :: "env \<Rightarrow> int \<Rightarrow> int \<Rightarrow> int \<Rightarrow> VerificationRecord uaction" where
  "VerificationInstructions e oid actorID did =
     call (domainForOrg e oid actorID did PermOrgSettings) id (\<lambda>dm.
     ok \<lparr>vr_Name = verification_name dm, vr_Type = ''TXT'', vr_Value = d_VerificationToken dm\<rparr>)"

text \<open>
  The comparison in constant time, over values of the token's length, is equality. A name that
  does not exist is a missing record; any other failure of the lookup is reported as such.
\<close>

definition lookup_txt ::
  "env \<Rightarrow> string \<Rightarrow> (dns_error + string list \<Rightarrow> 'a uaction) \<Rightarrow> 'a uaction"
where
  "lookup_txt e name k w = k (LookupTXT e (wtick w) name) w"

definition checkOwnership :: "env \<Rightarrow> Domain \<Rightarrow> unit uaction" where
  "checkOwnership e dm =
     (let name = verification_name dm
      in lookup_txt e name (\<lambda>answer.
         case answer of
           Inl err \<Rightarrow>
             (case err of
                DNSNotFound _ \<Rightarrow> fail (VerificationError CodeTXTRecordMissing name [])
              | DNSFailed msg \<Rightarrow> fail (VerificationError CodeDNSLookupFailed name msg))
         | Inr values \<Rightarrow>
             if list_ex (\<lambda>v. TrimSpace v = d_VerificationToken dm) values then ok ()
             else fail (VerificationError CodeTXTRecordMissing name [])))"

section \<open>Certificates\<close>

definition issue_for ::
  "env \<Rightarrow> string \<Rightarrow> (string + certificate \<Rightarrow> 'a uaction) \<Rightarrow> 'a uaction"
where
  "issue_for e host k w = k (certs_IssueFor e (wtick w) host) w"

definition issueCertificate :: "env \<Rightarrow> Domain \<Rightarrow> unit uaction" where
  "issueCertificate e dm =
     (case certs_Challenge e of
        None \<Rightarrow> fail (LibError ''service: no certificate manager configured'')
      | Some challenge \<Rightarrow>
          if \<not> Verified dm then fail ErrForbidden
          else
          let updated = dm\<lparr>d_SSLChallenge := challenge\<rparr>
          in issue_for e (TrimPrefix (d_Name dm) ''*.'') (\<lambda>issued.
             case issued of
               Inl msg \<Rightarrow>
                 call (st_SetDomainSSL e (updated\<lparr>d_SSLStatus := SSLFailed, d_SSLLastError := msg\<rparr>)) id
                   (\<lambda>_. fail (LibError msg))
             | Inr cert \<Rightarrow>
                 call (st_SetDomainSSL e (updated\<lparr>
                         d_SSLStatus := SSLIssued, d_SSLLastError := [],
                         d_SSLIssuedAt := Some (NotBefore cert),
                         d_SSLExpiresAt := Some (NotAfter cert)\<rparr>)) mapStoreErr
                   (\<lambda>_. ignoring (domainAudit e (d_ID dm) EventDomainSSLIssued 0
                                    [(''expires_at'', DetailTime (NotAfter cert))])
                        (ok ()))))"

definition reloadDomain :: "env \<Rightarrow> int \<Rightarrow> Domain uaction" where
  "reloadDomain e did = call (st_DomainByID e did) mapStoreErr ok"

text \<open>What follows a proven claim: the row as stored, and a first certificate if it wants one.\<close>

definition verified_result :: "env \<Rightarrow> int \<Rightarrow> int \<Rightarrow> Domain uaction" where
  "verified_result e actorID did =
     call (st_DomainByID e did) mapStoreErr (\<lambda>verified.
     if d_SSLEnabled verified then
       try_call (issueCertificate e verified)
         (\<lambda>x. ignoring (domainAudit e (d_ID verified) EventDomainSSLFailure actorID
                          [(''error'', DetailString (error_text x))])
              (reloadDomain e (d_ID verified)))
         (\<lambda>_. reloadDomain e (d_ID verified))
     else ok verified)"

definition VerifyDomain :: "env \<Rightarrow> int \<Rightarrow> int \<Rightarrow> int \<Rightarrow> Domain uaction" where
  "VerifyDomain e oid actorID did =
     call (domainForOrg e oid actorID did PermOrgSettings) id (\<lambda>dm.
     if Verified dm then ok dm
     else
     try_call (checkOwnership e dm)
       (\<lambda>x. call (st_RecordVerificationAttempt e (d_ID dm) VerificationFailed) mapStoreErr (\<lambda>_.
            ignoring (domainAudit e (d_ID dm) EventDomainFailed actorID
                        [(''error'', DetailString (error_text x))])
            (fail x)))
       (\<lambda>_. call (st_RecordVerificationAttempt e (d_ID dm) VerificationVerified) mapStoreErr (\<lambda>_.
            call (st_ActivateDomain e (d_ID dm)) mapStoreErr (\<lambda>_.
            ignoring (domainAudit e (d_ID dm) EventDomainVerified actorID [])
            (ignoring (audit e oid EventDomainActivated ActorUser actorID 0
                         [(''domain'', DetailString (d_Name dm))])
            (verified_result e actorID (d_ID dm)))))))"

fun renew_loop :: "env \<Rightarrow> Domain list \<Rightarrow> int \<Rightarrow> int uaction" where
  "renew_loop e [] renewed = ok renewed"
| "renew_loop e (dm # due) renewed =
     try_call (issueCertificate e dm)
       (\<lambda>x. ignoring (domainAudit e (d_ID dm) EventDomainSSLFailure 0
                        [(''error'', DetailString (error_text x))])
            (renew_loop e due renewed))
       (\<lambda>_. renew_loop e due (renewed + 1))"

definition RenewCertificates :: "env \<Rightarrow> int uaction" where
  "RenewCertificates e =
     (if \<not> domains_Enabled (domains_cfg e) \<or> certs_Challenge e = None then ok 0
      else
      let cfg_days = SSLRenewalDays (domains_cfg e); days = (if cfg_days \<le> 0 then 30 else cfg_days)
      in with_now e (\<lambda>now.
         call (st_ListRenewals e (now + days_duration days)) mapStoreErr (\<lambda>due.
         renew_loop e due 0)))"

section \<open>Managing and serving\<close>

definition ListDomains :: "env \<Rightarrow> int \<Rightarrow> int \<Rightarrow> Domain list uaction" where
  "ListDomains e oid actorID =
     call (require e oid actorID PermRead) id (\<lambda>_.
     call (st_ListOrgDomains e oid) mapStoreErr ok)"

definition SetDomainPurpose :: "env \<Rightarrow> int \<Rightarrow> int \<Rightarrow> int \<Rightarrow> string \<Rightarrow> unit uaction" where
  "SetDomainPurpose e oid actorID did purpose =
     (if \<not> ValidPurpose purpose then fail (validationError ''unknown custom domain purpose'')
      else
      call (domainForOrg e oid actorID did PermOrgSettings) id (\<lambda>dm.
      call (st_UpdateDomainPurpose e (d_ID dm) purpose) mapStoreErr (\<lambda>_.
      ignoring (domainAudit e (d_ID dm) EventDomainAdded actorID [(''purpose'', DetailString purpose)])
      (ok ()))))"

definition RemoveDomain :: "env \<Rightarrow> int \<Rightarrow> int \<Rightarrow> int \<Rightarrow> unit uaction" where
  "RemoveDomain e oid actorID did =
     call (domainForOrg e oid actorID did PermOrgSettings) id (\<lambda>dm.
     call (st_DeleteDomain e (d_ID dm)) mapStoreErr (\<lambda>_.
     ignoring (audit e oid EventDomainRemoved ActorUser actorID 0
                 [(''domain'', DetailString (d_Name dm))])
     (ok ())))"

definition SuspendDomain :: "env \<Rightarrow> int \<Rightarrow> int \<Rightarrow> int \<Rightarrow> string \<Rightarrow> unit uaction" where
  "SuspendDomain e oid actorID did reason =
     call (domainForOrg e oid actorID did PermOrgSettings) id (\<lambda>dm.
     call (st_SuspendDomain e (d_ID dm) reason) mapStoreErr (\<lambda>_.
     ignoring (domainAudit e (d_ID dm) EventDomainSuspended actorID [(''reason'', DetailString reason)])
     (ok ())))"

text \<open>The host of \<open>net.SplitHostPort\<close>, or nothing where it reports an error.\<close>

definition SplitHostPort :: "string \<Rightarrow> string option" where
  "SplitHostPort hp =
     (let i = LastIndexByte hp (CHR '':'')
      in if i < 0 then None
         else if hd hp = CHR ''['' then
           let close = length (takeWhile (\<lambda>c. c \<noteq> CHR '']'') hp)
           in if close = length hp \<or> int (close + 1) \<noteq> i then None
              else if CHR ''['' \<in> set (drop 1 hp) \<or> CHR '']'' \<in> set (drop (close + 1) hp) then None
              else Some (take (close - 1) (drop 1 hp))
         else
           let host = take (nat i) hp
           in if CHR '':'' \<in> set host \<or> CHR ''['' \<in> set hp \<or> CHR '']'' \<in> set hp then None
              else Some host)"

definition ResolveServableDomain :: "env \<Rightarrow> string \<Rightarrow> Domain uaction" where
  "ResolveServableDomain e host =
     (let lowered = ToLower (TrimSpace host);
          unported = (case SplitHostPort lowered of Some h \<Rightarrow> h | None \<Rightarrow> lowered);
          name = TrimSuffix unported ''.''
      in if name = [] then fail ErrNotFound
         else
         call (st_DomainByName e name) mapStoreErr (\<lambda>dm.
         if \<not> Servable dm then fail ErrNotFound else ok dm))"

end
