(* ===== verification/Service_Profile.thy ===== *)
theory Service_Profile
  imports Service_Account
begin

text \<open>
  \<^verbatim>\<open>src/src/server/service/profile.go\<close>: what the vanity URL of a user or of an organization shows
  to a viewer. A viewer id of zero is an anonymous visitor.
\<close>

record PublicProfile =
  pp_Username :: string
  pp_DisplayName :: string
  pp_Bio :: string
  pp_Location :: string
  pp_Website :: string
  pp_AvatarURL :: string
  pp_Email :: string
  pp_Orgs :: "Org list"

record PublicOrgProfile =
  po_Slug :: string
  po_Name :: string
  po_Description :: string
  po_Website :: string
  po_Location :: string
  po_AvatarURL :: string
  po_MemberCount :: int

text \<open>The loop of \<open>sharesOrg\<close>: a failed membership lookup counts as no membership.\<close>

fun shares_loop :: "env \<Rightarrow> Org list \<Rightarrow> int \<Rightarrow> bool uaction" where
  "shares_loop e [] b = ok False"
| "shares_loop e (org # orgs) b =
     (if o_Personal org then shares_loop e orgs b
      else try_call (st_Membership e (o_ID org) b) (\<lambda>_. shares_loop e orgs b) (\<lambda>_. ok True))"

definition sharesOrg :: "env \<Rightarrow> int \<Rightarrow> int \<Rightarrow> bool uaction" where
  "sharesOrg e a b =
     call (st_OrgsForUser e a) mapStoreErr (\<lambda>mine. shares_loop e mine b)"

definition profile_visible :: "env \<Rightarrow> User \<Rightarrow> int \<Rightarrow> bool uaction" where
  "profile_visible e account viewerID =
     (let visible = user_Public account \<or> u_ID account = viewerID
      in if \<not> visible \<and> u_OrgVisibility account \<and> viewerID \<noteq> 0
         then call (sharesOrg e (u_ID account) viewerID) id ok
         else ok visible)"

definition shown_orgs :: "env \<Rightarrow> User \<Rightarrow> Preferences \<Rightarrow> Org list uaction" where
  "shown_orgs e account prefs =
     (if pr_ShowOrgs prefs then
        call (st_OrgsForUser e (u_ID account)) mapStoreErr (\<lambda>orgs.
        ok (filter (\<lambda>o1. \<not> (o_Personal o1 \<or> \<not> org_Public o1)) orgs))
      else ok [])"

definition UserProfile :: "env \<Rightarrow> string \<Rightarrow> int \<Rightarrow> PublicProfile uaction" where
  "UserProfile e username viewerID =
     call (st_UserByUsername e username) (\<lambda>_. ErrNotFound) (\<lambda>account.
     if \<not> user_Active account then fail ErrNotFound
     else
     call (profile_visible e account viewerID) id (\<lambda>visible.
     if \<not> visible then fail ErrNotFound
     else
     call (st_Preferences e (u_ID account)) mapStoreErr (\<lambda>prefs.
     call (shown_orgs e account prefs) id (\<lambda>orgs.
     ok \<lparr>pp_Username = u_Username account, pp_DisplayName = u_DisplayName account,
         pp_Bio = u_Bio account, pp_Location = u_Location account, pp_Website = u_Website account,
         pp_AvatarURL = u_AvatarURL account,
         pp_Email = (if pr_ShowEmail prefs then ContactEmail account else []),
         pp_Orgs = orgs\<rparr>))))"

definition OrgProfile :: "env \<Rightarrow> string \<Rightarrow> int \<Rightarrow> PublicOrgProfile uaction" where
  "OrgProfile e slug viewerID =
     call (st_OrgBySlug e slug) (\<lambda>_. ErrNotFound) (\<lambda>org.
     if \<not> org_Active org \<or> o_Personal org then fail ErrNotFound
     else
     call (if \<not> org_Public org then
             (if viewerID = 0 then fail ErrNotFound
              else call (st_Membership e (o_ID org) viewerID) (\<lambda>_. ErrNotFound) (\<lambda>_. ok ()))
           else ok ()) id (\<lambda>_.
     call (st_CountMembers e (o_ID org)) mapStoreErr (\<lambda>count.
     ok \<lparr>po_Slug = o_Slug org, po_Name = o_Name org, po_Description = o_Description org,
         po_Website = o_Website org, po_Location = o_Location org, po_AvatarURL = o_AvatarURL org,
         po_MemberCount = count\<rparr>)))"

end
