(* ===== verification/Store_Contract.thy ===== *)
theory Store_Contract
  imports Service_Tokens Service_Auth Service_Domains Service_Profile
begin

text \<open>
  The interface between the service layer and the store, as a locale: a property \<open>I\<close> of users.db
  that every method of the store keeps, whatever the environment does (clocks, faults, random
  bytes). Inside it each operation of the service is shown to keep \<open>I\<close>, so that an invariant
  needs a proof for the statements of the store only. One method has a weaker law: a failed
  verification attempt has to keep \<open>I\<close> only for a domain that is not verified yet.
\<close>

definition stored_unverified :: "int \<Rightarrow> users_db \<Rightarrow> bool" where
  "stored_unverified did d =
     (case find_where (\<lambda>x. d_ID x = did) (custom_domains d) of
        None \<Rightarrow> False | Some x \<Rightarrow> \<not> Verified x)"

subsection \<open>Methods that only read\<close>

lemmas read_defs = st_UserByID_def st_UserByUsername_def st_UserByEmail_def st_ListUsers_def
  st_CountUsers_def st_SessionByHash_def st_ListSessions_def st_PasswordReset_def
  st_EmailVerification_def st_TOTPForUser_def st_Preferences_def st_OrgByID_def st_OrgBySlug_def
  st_PersonalOrg_def st_OrgsForUser_def st_CountOwnedOrgs_def st_Membership_def st_ListMembers_def
  st_CountMembers_def st_ZoneOrgID_def st_ZoneGranted_def st_InviteByHash_def st_ListOrgInvites_def
  st_ListServerInvites_def st_TokenByHash_def st_TokenByID_def st_ListTokens_def
  st_CountLiveTokens_def st_DomainByID_def st_DomainByName_def st_ListOrgDomains_def
  st_ListServableDomains_def st_ListPendingVerification_def st_ListRenewals_def
  st_CountOrgDomains_def st_ListOrgAudit_def st_CountOrgAudit_def st_ListDomainAudit_def Let_def

lemma keeps_reads [hoare_intros]:
  "keeps I (st_UserByID e a)" "keeps I (st_UserByUsername e b)" "keeps I (st_UserByEmail e b)"
  "keeps I (st_ListUsers e n m)" "keeps I (st_CountUsers e)" "keeps I (st_SessionByHash e b)"
  "keeps I (st_ListSessions e a)" "keeps I (st_PasswordReset e b)"
  "keeps I (st_EmailVerification e b)" "keeps I (st_TOTPForUser e a)" "keeps I (st_Preferences e a)"
  "keeps I (st_OrgByID e a)" "keeps I (st_OrgBySlug e b)" "keeps I (st_PersonalOrg e a)"
  "keeps I (st_OrgsForUser e a)" "keeps I (st_CountOwnedOrgs e a)" "keeps I (st_Membership e a a')"
  "keeps I (st_ListMembers e a)" "keeps I (st_CountMembers e a)" "keeps I (st_ZoneOrgID e a)"
  "keeps I (st_ZoneGranted e a a' a'')" "keeps I (st_InviteByHash e b)"
  "keeps I (st_ListOrgInvites e a)" "keeps I (st_ListServerInvites e)"
  "keeps I (st_TokenByHash e b)" "keeps I (st_TokenByID e a)" "keeps I (st_ListTokens e b a)"
  "keeps I (st_CountLiveTokens e b a)" "keeps I (st_DomainByID e a)" "keeps I (st_DomainByName e b)"
  "keeps I (st_ListOrgDomains e a)" "keeps I (st_ListServableDomains e)"
  "keeps I (st_ListPendingVerification e n)" "keeps I (st_ListRenewals e n)"
  "keeps I (st_CountOrgDomains e a)" "keeps I (st_ListOrgAudit e a n m)"
  "keeps I (st_CountOrgAudit e a)" "keeps I (st_ListDomainAudit e a n)"
  by (auto simp: read_defs intro!: hoare_intros)

lemma keeps_Access [hoare_intros]: "keeps I (Access e oid uid)"
  by (auto simp: Access_def intro!: hoare_intros)

lemma keeps_require [hoare_intros]: "keeps I (require e oid uid p)"
  by (auto simp: require_def intro!: hoare_intros)

lemma keeps_lookupIdentifier [hoare_intros]: "keeps I (lookupIdentifier e raw)"
  by (auto simp: lookupIdentifier_def Let_def split: identifier_kind.split intro!: hoare_intros)

lemma keeps_twoFactorEnabled [hoare_intros]: "keeps I (twoFactorEnabled e uid)"
  by (auto simp: twoFactorEnabled_def intro!: hoare_intros)

lemma keeps_totpSecret [hoare_intros]: "keeps I (totpSecret e uid)"
  by (auto simp: totpSecret_def intro!: hoare_intros)

lemma keeps_domainForOrg [hoare_intros]: "keeps I (domainForOrg e oid uid did p)"
  by (auto simp: domainForOrg_def intro!: hoare_intros)

lemma keeps_lookup_txt [hoare_intros]: "(\<And>r. keeps I (k r)) \<Longrightarrow> keeps I (lookup_txt e name k)"
  by (simp add: keeps_def hoare_def lookup_txt_def)

lemma keeps_issue_for [hoare_intros]: "(\<And>r. keeps I (k r)) \<Longrightarrow> keeps I (issue_for e host k)"
  by (simp add: keeps_def hoare_def issue_for_def)

lemma keeps_checkOwnership [hoare_intros]: "keeps I (checkOwnership e dm)"
  by (auto simp: checkOwnership_def Let_def split: dns_error.split intro!: hoare_intros)

lemma keeps_CanEditZone [hoare_intros]: "keeps I (CanEditZone e oid uid zid)"
  by (auto simp: CanEditZone_def intro!: hoare_intros)

lemma keeps_GenerateTOTPSecret [hoare_intros]: "keeps I (GenerateTOTPSecret e)"
  by (auto simp: GenerateTOTPSecret_def intro!: hoare_intros)

lemma keeps_check_password [hoare_intros]: "keeps I k \<Longrightarrow> keeps I (check_password e p k)"
  by (auto simp: check_password_def intro!: hoare_intros)

lemma keeps_recovery_loop: "keeps I (recovery_loop e n codes hashes)"
  by (induction n arbitrary: codes hashes) (auto intro!: hoare_intros)

lemma keeps_generateRecoveryCodes [hoare_intros]: "keeps I (generateRecoveryCodes e)"
  unfolding generateRecoveryCodes_def by (rule keeps_recovery_loop)

lemma keeps_shares_loop: "keeps I (shares_loop e orgs b)"
  by (induction orgs) (auto intro!: hoare_intros)

lemma keeps_sharesOrg [hoare_intros]: "keeps I (sharesOrg e a b)"
  by (auto simp: sharesOrg_def intro!: hoare_intros keeps_shares_loop)

lemma keeps_UserProfile [hoare_intros]: "keeps I (UserProfile e name viewer)"
  by (auto simp: UserProfile_def profile_visible_def shown_orgs_def Let_def intro!: hoare_intros)

lemma keeps_OrgProfile [hoare_intros]: "keeps I (OrgProfile e slug viewer)"
  by (auto simp: OrgProfile_def intro!: hoare_intros)

section \<open>The contract\<close>

locale store_keeps =
  fixes I :: "users_db \<Rightarrow> bool"
  assumes CreateUser: "keeps I (st_CreateUser e u)"
    and UpdateProfile: "keeps I (st_UpdateProfile e u)"
    and UpdatePassword: "keeps I (st_UpdatePassword e uid hash)"
    and UpdateStatus: "keeps I (st_UpdateStatus e uid status)"
    and MarkEmailVerified: "keeps I (st_MarkEmailVerified e uid)"
    and RecordLoginSuccess: "keeps I (st_RecordLoginSuccess e uid)"
    and RecordLoginFailure: "keeps I (st_RecordLoginFailure e uid mx dur)"
    and CreateSession: "keeps I (st_CreateSession e sess)"
    and TouchSession: "keeps I (st_TouchSession e hash)"
    and MarkSessionTwoFactor: "keeps I (st_MarkSessionTwoFactor e hash)"
    and DeleteSession: "keeps I (st_DeleteSession e hash)"
    and DeleteUserSessions: "keeps I (st_DeleteUserSessions e uid)"
    and PurgeExpiredSessions: "keeps I (st_PurgeExpiredSessions e cutoff)"
    and CreatePasswordReset: "keeps I (st_CreatePasswordReset e uid hash t)"
    and ConsumePasswordReset: "keeps I (st_ConsumePasswordReset e cid)"
    and DeleteUserPasswordResets: "keeps I (st_DeleteUserPasswordResets e uid)"
    and CreateEmailVerification: "keeps I (st_CreateEmailVerification e uid email hash t)"
    and ConsumeEmailVerification: "keeps I (st_ConsumeEmailVerification e cid)"
    and PurgeExpiredChallenges: "keeps I (st_PurgeExpiredChallenges e cutoff)"
    and SaveTOTP: "keeps I (st_SaveTOTP e totp)"
    and ConfirmTOTP: "keeps I (st_ConfirmTOTP e uid)"
    and SetRecoveryCodes: "keeps I (st_SetRecoveryCodes e uid codes)"
    and DeleteTOTP: "keeps I (st_DeleteTOTP e uid)"
    and SavePreferences: "keeps I (st_SavePreferences e p)"
    and CreateOrg: "keeps I (st_CreateOrg e org)"
    and UpdateOrg: "keeps I (st_UpdateOrg e org)"
    and TransferOrg: "keeps I (st_TransferOrg e oid fromID toID)"
    and DeleteOrg: "keeps I (st_DeleteOrg e oid)"
    and AddMember: "keeps I (st_AddMember e oid uid role)"
    and SetMemberRole: "keeps I (st_SetMemberRole e oid uid role)"
    and RemoveMember: "keeps I (st_RemoveMember e oid uid)"
    and GrantZone: "keeps I (st_GrantZone e oid uid zid perm)"
    and RevokeZone: "keeps I (st_RevokeZone e oid uid zid)"
    and CreateInvite: "keeps I (st_CreateInvite e i)"
    and RedeemInvite: "keeps I (st_RedeemInvite e iid)"
    and DeleteInvite: "keeps I (st_DeleteInvite e iid)"
    and PurgeExpiredInvites: "keeps I (st_PurgeExpiredInvites e)"
    and CreateToken: "t_OwnerType tok = OwnerUser \<Longrightarrow> keeps I (st_CreateToken e tok)"
    and TouchToken: "keeps I (st_TouchToken e tid)"
    and RevokeToken: "keeps I (st_RevokeToken e tid)"
    and CreateDomain: "keeps I (st_CreateDomain e x)"
    and UpdateDomainPurpose: "keeps I (st_UpdateDomainPurpose e did purpose)"
    and VerificationSucceeded: "keeps I (st_RecordVerificationAttempt e did VerificationVerified)"
    and VerificationFailed:
      "hoare (\<lambda>d. I d \<and> stored_unverified did d)
         (st_RecordVerificationAttempt e did VerificationFailed) (\<lambda>_. I) I"
    and ActivateDomain: "keeps I (st_ActivateDomain e did)"
    and SuspendDomain: "keeps I (st_SuspendDomain e did reason)"
    and SetDomainSSL: "keeps I (st_SetDomainSSL e x)"
    and DeleteDomain: "keeps I (st_DeleteDomain e did)"
    and RecordOrgAudit: "keeps I (st_RecordOrgAudit e a)"
    and RecordDomainAudit: "keeps I (st_RecordDomainAudit e a)"
begin

lemmas store_intros = CreateUser UpdateProfile UpdatePassword UpdateStatus MarkEmailVerified
  RecordLoginSuccess RecordLoginFailure CreateSession TouchSession MarkSessionTwoFactor
  DeleteSession DeleteUserSessions PurgeExpiredSessions CreatePasswordReset ConsumePasswordReset
  DeleteUserPasswordResets CreateEmailVerification ConsumeEmailVerification
  PurgeExpiredChallenges SaveTOTP ConfirmTOTP SetRecoveryCodes DeleteTOTP SavePreferences CreateOrg
  UpdateOrg TransferOrg DeleteOrg AddMember SetMemberRole RemoveMember GrantZone RevokeZone
  CreateInvite RedeemInvite DeleteInvite PurgeExpiredInvites CreateToken TouchToken RevokeToken
  CreateDomain UpdateDomainPurpose VerificationSucceeded ActivateDomain SuspendDomain SetDomainSSL
  DeleteDomain RecordOrgAudit RecordDomainAudit

lemma audit: "keeps I (audit e oid event actor a t details)"
  by (auto simp: audit_def intro!: hoare_intros store_intros)

lemma domainAudit: "keeps I (domainAudit e did event a details)"
  by (auto simp: domainAudit_def intro!: hoare_intros store_intros)

lemma redeemInvite: "keeps I (redeemInvite e code)"
  by (auto simp: redeemInvite_def intro!: hoare_intros store_intros)

lemmas service_intros = hoare_intros store_intros audit domainAudit redeemInvite

lemma orgs:
  "keeps I (createPersonalOrg e account)" "keeps I (joinInvitedOrg e invite account)"
  "keeps I (org_creation_gate e inp)" "keeps I (org_quota e uid inp)"
  by (auto simp: createPersonalOrg_def joinInvitedOrg_def org_creation_gate_def org_quota_def Let_def
      intro!: service_intros)

lemma CreateOrg_op: "keeps I (Service_Orgs.CreateOrg e uid inp)"
  by (auto simp: CreateOrg_def Let_def intro!: service_intros orgs)

lemma org_changes:
  "keeps I (Service_Orgs.UpdateOrg e oid uid inp)" "keeps I (SetOrgVisibility e oid uid vis)"
  "keeps I (Service_Orgs.DeleteOrg e oid uid)" "keeps I (Service_Orgs.TransferOrg e oid uid uid')"
  by (auto simp: UpdateOrg_def SetOrgVisibility_def DeleteOrg_def TransferOrg_def Let_def
      intro!: service_intros)

lemma member_changes:
  "keeps I (Service_Orgs.SetMemberRole e oid uid uid' role)"
  "keeps I (Service_Orgs.RemoveMember e oid uid uid')"
  by (auto simp: SetMemberRole_def RemoveMember_def removal_gate_def intro!: service_intros)

lemma invite_changes:
  "keeps I (InviteMember e oid uid iinp)" "keeps I (AcceptInvite e uid code)"
  "keeps I (RevokeInvite e oid uid iid)"
  by (auto simp: InviteMember_def AcceptInvite_def RevokeInvite_def orgByID_def Let_def
      intro!: service_intros)

lemma zone_changes:
  "keeps I (Service_Orgs.GrantZone e oid uid uid' zid perm)"
  "keeps I (Service_Orgs.RevokeZone e oid uid uid' zid)"
  by (auto simp: GrantZone_def RevokeZone_def Let_def intro!: service_intros)

lemma token_changes:
  "keeps I (IssueToken e uid tinp)" "keeps I (Service_Tokens.RevokeToken e uid tid)"
  "keeps I (RevokeOrgToken e oid uid tid)" "keeps I (AuthenticateToken e raw)"
  by (auto simp: IssueToken_def RevokeToken_def RevokeOrgToken_def AuthenticateToken_def
      token_zone_gate_def token_quota_def token_role_def Let_def intro!: service_intros)

lemma account_changes:
  "keeps I (Service_Account.UpdateProfile e uid pinp)"
  "keeps I (Service_Account.SavePreferences e prefs)" "keeps I (ChangePassword e uid old new)"
  "keeps I (StartPasswordReset e raw)" "keeps I (CompletePasswordReset e token new)"
  "keeps I (StartEmailVerification e uid raw)" "keeps I (CompleteEmailVerification e token)"
  by (auto simp: UpdateProfile_def SavePreferences_def ChangePassword_def StartPasswordReset_def
      CompletePasswordReset_def StartEmailVerification_def CompleteEmailVerification_def Let_def
      intro!: service_intros)

lemma two_factor_changes:
  "keeps I (StartTwoFactor e uid)" "keeps I (ConfirmTwoFactor e uid code)"
  "keeps I (VerifyTwoFactor e uid token code)" "keeps I (DisableTwoFactor e uid pw)"
  by (auto simp: StartTwoFactor_def ConfirmTwoFactor_def VerifyTwoFactor_def DisableTwoFactor_def
      second_factor_def consumeRecoveryCode_def Let_def split: prod.splits intro!: service_intros)

lemma register_parts:
  "keeps I (register_invite e rinp)" "keeps I (register_join e invt account)"
  by (auto simp: register_invite_def register_join_def intro!: service_intros orgs)

lemma Register_op: "keeps I (Register e rinp)"
  by (auto simp: Register_def Let_def intro!: service_intros orgs register_parts)

lemma session_parts:
  "keeps I (openSession e uid ip agent tf)" "keeps I (rehash e account pw stored)"
  by (auto simp: openSession_def rehash_def Let_def intro!: service_intros)

lemma Login_op: "keeps I (Login e linp)"
  by (auto simp: Login_def Let_def split: prod.splits intro!: service_intros session_parts)

lemma session_changes:
  "keeps I (Logout e token)" "keeps I (LogoutAll e uid)" "keeps I (RevokeSession e uid sid)"
  "keeps I (ResolveSession e token)" "keeps I (PurgeSessions e)"
  by (auto simp: Logout_def LogoutAll_def RevokeSession_def ResolveSession_def PurgeSessions_def Let_def
      intro!: service_intros)

lemma AddDomain_op: "keeps I (AddDomain e oid uid ainp)"
  by (auto simp: AddDomain_def domain_quota_def Let_def split: prod.splits intro!: service_intros)

lemma domain_changes:
  "keeps I (SetDomainPurpose e oid uid did purpose)" "keeps I (RemoveDomain e oid uid did)"
  "keeps I (Service_Domains.SuspendDomain e oid uid did reason)"
  by (auto simp: SetDomainPurpose_def RemoveDomain_def SuspendDomain_def intro!: service_intros)

lemma issueCertificate: "keeps I (issueCertificate e dm)"
  by (auto simp: issueCertificate_def Let_def intro!: service_intros)

lemma renew_loop: "keeps I (renew_loop e due n)"
  by (induction due arbitrary: n) (auto intro!: service_intros issueCertificate)

lemma RenewCertificates_op: "keeps I (RenewCertificates e)"
  by (auto simp: RenewCertificates_def Let_def intro!: service_intros renew_loop)

lemma verified_result: "keeps I (verified_result e uid did)"
  by (auto simp: verified_result_def reloadDomain_def intro!: service_intros issueCertificate)

text \<open>A domain that \<open>domainForOrg\<close> returns is the stored row with its id.\<close>

lemma domainForOrg_stored:
  "hoare I (domainForOrg e oid uid did p)
     (\<lambda>dm d. I d \<and> find_where (\<lambda>x. d_ID x = d_ID dm) (custom_domains d) = Some dm) I"
  unfolding domainForOrg_def
proof (rule hoare_call)
  show "hoare I (require e oid uid p) (\<lambda>_. I) I"
    using keeps_require by (simp add: keeps_def)
  show "hoare I (call (st_DomainByID e did) mapStoreErr
          (\<lambda>dm. if d_OrgID dm \<noteq> oid then fail ErrNotFound else ok dm))
          (\<lambda>dm d. I d \<and> find_where (\<lambda>x. d_ID x = d_ID dm) (custom_domains d) = Some dm) I" for a
  proof (rule hoare_call)
    show "hoare I (st_DomainByID e did)
            (\<lambda>dm d. I d \<and> find_where (\<lambda>x. d_ID x = d_ID dm) (custom_domains d) = Some dm) I"
      unfolding st_DomainByID_def
      by (rule hoare_query_row) (auto dest: find_where_SomeD)
  qed (auto intro!: hoare_ok hoare_fail)
qed

lemma VerifyDomain_op: "keeps I (VerifyDomain e oid uid did)"
  unfolding VerifyDomain_def keeps_def
proof (rule hoare_call [OF domainForOrg_stored])
  fix dm :: Domain
  let ?P = "\<lambda>d. I d \<and> find_where (\<lambda>x. d_ID x = d_ID dm) (custom_domains d) = Some dm"
  have unv: "?P d \<Longrightarrow> \<not> Verified dm \<Longrightarrow> I d \<and> stored_unverified (d_ID dm) d" for d
    by (simp add: stored_unverified_def)
  have own: "hoare ?P (checkOwnership e dm) (\<lambda>_. ?P) ?P"
    using keeps_checkOwnership [of ?P] by (simp add: keeps_def)
  have bad: "hoare ?P (call (st_RecordVerificationAttempt e (d_ID dm) VerificationFailed)
      mapStoreErr (\<lambda>_. ignoring (domainAudit e (d_ID dm) EventDomainFailed uid dl) (fail x)))
      (\<lambda>_. I) I" if "\<not> Verified dm" for x :: err and dl
  proof (rule hoare_call)
    show "hoare ?P (st_RecordVerificationAttempt e (d_ID dm) VerificationFailed) (\<lambda>_. I) I"
      by (rule hoare_weaken [OF VerificationFailed]) (use unv that in auto)
    show "hoare I (ignoring (domainAudit e (d_ID dm) EventDomainFailed uid dl) (fail x)) (\<lambda>_. I) I"
      for a :: unit
      using keeps_ignoring [OF domainAudit keeps_fail] by (simp add: keeps_def)
  qed
  have good: "keeps I (call (st_RecordVerificationAttempt e (d_ID dm) VerificationVerified)
      mapStoreErr (\<lambda>_. call (st_ActivateDomain e (d_ID dm)) mapStoreErr (\<lambda>_.
        ignoring (domainAudit e (d_ID dm) EventDomainVerified uid [])
        (ignoring (Service_Base.audit e oid EventDomainActivated ActorUser uid 0 dl)
        (verified_result e uid (d_ID dm))))))" for dl
    by (auto intro!: service_intros verified_result)
  show "hoare ?P (if Verified dm then ok dm else
     try_call (checkOwnership e dm)
       (\<lambda>x. call (st_RecordVerificationAttempt e (d_ID dm) VerificationFailed) mapStoreErr (\<lambda>_.
            ignoring (domainAudit e (d_ID dm) EventDomainFailed uid
                        [(''error'', DetailString (error_text x))])
            (fail x)))
       (\<lambda>_. call (st_RecordVerificationAttempt e (d_ID dm) VerificationVerified) mapStoreErr (\<lambda>_.
            call (st_ActivateDomain e (d_ID dm)) mapStoreErr (\<lambda>_.
            ignoring (domainAudit e (d_ID dm) EventDomainVerified uid [])
            (ignoring (Service_Base.audit e oid EventDomainActivated ActorUser uid 0
                         [(''domain'', DetailString (d_Name dm))])
            (verified_result e uid (d_ID dm)))))))
     (\<lambda>_. I) I"
  proof (cases "Verified dm")
    case False
    have "hoare ?P (call (st_RecordVerificationAttempt e (d_ID dm) VerificationVerified)
      mapStoreErr (\<lambda>_. call (st_ActivateDomain e (d_ID dm)) mapStoreErr (\<lambda>_.
        ignoring (domainAudit e (d_ID dm) EventDomainVerified uid [])
        (ignoring (Service_Base.audit e oid EventDomainActivated ActorUser uid 0
                     [(''domain'', DetailString (d_Name dm))])
        (verified_result e uid (d_ID dm)))))) (\<lambda>_. I) I" for u :: unit
      by (rule hoare_weaken [OF good [unfolded keeps_def]]) auto
    with False show ?thesis by (auto intro!: hoare_try_call [OF own] bad)
  qed (auto intro!: hoare_ok)
qed

end

end
