(* ===== verification/Integrity.thy ===== *)
theory Integrity
  imports Store_Contract
begin

text \<open>
  The invariant of users.db: keys are unique, references point to rows, and the rows obey the
  rules of their life cycle (an invite is not redeemed beyond its uses, an active domain is
  verified). Every statement of the store keeps it, so the contract \<open>store_keeps\<close> holds of it and
  every operation of the service keeps it under every environment.
\<close>

section \<open>The invariant\<close>

definition keys_ok :: "users_db \<Rightarrow> bool" where
  "keys_ok d \<longleftrightarrow>
     unique_on u_ID (users d) \<and> unique_on u_Username (users d) \<and> unique_on u_Email (users d)
   \<and> unique_on pr_UserID (user_preferences d) \<and> unique_on totp_UserID (totp_secrets d)
   \<and> unique_on s_ID (user_sessions d) \<and> unique_on s_Hash (user_sessions d)
   \<and> unique_on c_ID (password_resets d) \<and> unique_on c_Hash (password_resets d)
   \<and> unique_on c_ID (email_verifications d) \<and> unique_on c_Hash (email_verifications d)
   \<and> unique_on o_ID (organizations d) \<and> unique_on o_Slug (organizations d)
   \<and> unique_on (\<lambda>m. (m_OrgID m, m_UserID m)) (organization_members d)
   \<and> unique_on t_ID (api_tokens d) \<and> unique_on t_Hash (api_tokens d)
   \<and> unique_on i_ID (invitations d) \<and> unique_on i_CodeHash (invitations d)
   \<and> unique_on d_ID (custom_domains d) \<and> unique_on d_Name (custom_domains d)
   \<and> unique_on z_ID (zones d)
   \<and> unique_on (\<lambda>g. (g_OrgID g, g_UserID g, g_ZoneID g)) (zone_grants d)"

definition refs_ok :: "users_db \<Rightarrow> bool" where
  "refs_ok d \<longleftrightarrow>
     pr_UserID ` set (user_preferences d) \<subseteq> u_ID ` set (users d)
   \<and> totp_UserID ` set (totp_secrets d) \<subseteq> u_ID ` set (users d)
   \<and> s_UserID ` set (user_sessions d) \<subseteq> u_ID ` set (users d)
   \<and> c_UserID ` set (password_resets d) \<subseteq> u_ID ` set (users d)
   \<and> c_UserID ` set (email_verifications d) \<subseteq> u_ID ` set (users d)
   \<and> o_OwnerID ` set (organizations d) \<subseteq> u_ID ` set (users d)
   \<and> m_OrgID ` set (organization_members d) \<subseteq> o_ID ` set (organizations d)
   \<and> m_UserID ` set (organization_members d) \<subseteq> u_ID ` set (users d)
   \<and> a_SubjectID ` set (organization_audit d) \<subseteq> o_ID ` set (organizations d)
   \<and> i_OrgID ` set (invitations d) \<subseteq> insert 0 (o_ID ` set (organizations d))
   \<and> i_InvitedBy ` set (invitations d) \<subseteq> insert 0 (u_ID ` set (users d))
   \<and> d_OrgID ` set (custom_domains d) \<subseteq> o_ID ` set (organizations d)
   \<and> a_SubjectID ` set (custom_domain_audit d) \<subseteq> d_ID ` set (custom_domains d)
   \<and> z_OrgID ` set (zones d) \<subseteq> o_ID ` set (organizations d)
   \<and> g_OrgID ` set (zone_grants d) \<subseteq> o_ID ` set (organizations d)
   \<and> g_UserID ` set (zone_grants d) \<subseteq> u_ID ` set (users d)
   \<and> g_ZoneID ` set (zone_grants d) \<subseteq> z_ID ` set (zones d)"

definition invite_ok :: "Invite \<Rightarrow> bool" where
  "invite_ok i \<longleftrightarrow> 0 \<le> i_UseCount i \<and> (0 < i_MaxUses i \<longrightarrow> i_UseCount i \<le> i_MaxUses i)"

definition domain_ok :: "Domain \<Rightarrow> bool" where
  "domain_ok x \<longleftrightarrow> (d_Status x = DomainActive \<longrightarrow> Verified x)"

definition rows_ok :: "users_db \<Rightarrow> bool" where
  "rows_ok d \<longleftrightarrow>
     (\<forall>i \<in> set (invitations d). invite_ok i) \<and> (\<forall>x \<in> set (custom_domains d). domain_ok x)
   \<and> (\<forall>u \<in> set (users d). 0 < u_ID u) \<and> (\<forall>o1 \<in> set (organizations d). 0 < o_ID o1)"

definition db_integrity :: "users_db \<Rightarrow> bool" where
  "db_integrity d \<longleftrightarrow> keys_ok d \<and> refs_ok d \<and> rows_ok d"

definition empty_db :: users_db where
  "empty_db = \<lparr>users = [], user_preferences = [], user_sessions = [], password_resets = [],
     email_verifications = [], totp_secrets = [], organizations = [], organization_members = [],
     organization_audit = [], api_tokens = [], invitations = [], custom_domains = [],
     custom_domain_audit = [], zones = [], zone_grants = []\<rparr>"

lemma empty_db_integrity: "db_integrity empty_db"
  by (simp add: db_integrity_def keys_ok_def refs_ok_def rows_ok_def empty_db_def)

lemmas integrity_defs = db_integrity_def keys_ok_def refs_ok_def rows_ok_def

section \<open>Statements\<close>

lemma has_user_iff: "has_user d k \<longleftrightarrow> k \<in> u_ID ` set (users d)"
  by (auto simp: has_user_def)

lemma has_org_iff: "has_org d k \<longleftrightarrow> k \<in> o_ID ` set (organizations d)"
  by (auto simp: has_org_def)

lemma has_zone_iff: "has_zone d k \<longleftrightarrow> k \<in> z_ID ` set (zones d)"
  by (auto simp: has_zone_def)

lemma has_domain_iff: "has_domain d k \<longleftrightarrow> k \<in> d_ID ` set (custom_domains d)"
  by (auto simp: has_domain_def)

lemmas has_iffs = has_user_iff has_org_iff has_zone_iff has_domain_iff null_or_def

lemma constrained_Inr: "constrained cs r = Inr x \<longleftrightarrow> list_all fst cs \<and> r = Inr x"
  by (induction cs r rule: constrained.induct) auto

lemma image_update_where [row_simps]:
  assumes "\<And>r. key (f r) = key r"
  shows "key ` set (update_where p f rows) = key ` set rows"
proof -
  have "map key (update_where p f rows) = map key rows"
    by (simp add: update_where_def assms)
  then show ?thesis by (metis list.set_map)
qed

lemma image_delete_where: "key ` set (delete_where p rows) \<subseteq> key ` set rows"
  by auto

lemma next_id_image [simp]: "next_id (map key rows) \<notin> key ` set rows"
  using next_id_not_in [of "map key rows"] by simp

declare unique_on_append1 [row_simps] unique_on_update [row_simps] unique_on_delete [row_simps]

lemma keeps_update:
  "(\<And>d. I d \<Longrightarrow> I (upd (update_where p f) d)) \<Longrightarrow> keeps I (exec e (sql_update table upd p f))"
  by (rule keeps_exec) (simp add: sql_update_def)

lemma keeps_delete:
  "(\<And>d. I d \<Longrightarrow> I (upd (delete_where p) d)) \<Longrightarrow> keeps I (exec e (sql_delete table upd p))"
  by (rule keeps_exec) (simp add: sql_delete_def)

lemma keeps_affected [hoare_intros]: "keeps I m \<Longrightarrow> keeps I (affected m)"
  by (auto simp: affected_def intro!: hoare_intros)

subsection \<open>Inserts\<close>

text \<open>The constraints of an INSERT are what the invariant asks of the new row.\<close>

lemma keys_after_insert:
  assumes "keys_ok d"
  shows "insert_user u d = Inr (n, d') \<Longrightarrow> keys_ok d'"
    and "insert_session s d = Inr (n, d') \<Longrightarrow> keys_ok d'"
    and "insert_password_reset c d = Inr (n, d') \<Longrightarrow> keys_ok d'"
    and "insert_email_verification c d = Inr (n, d') \<Longrightarrow> keys_ok d'"
    and "insert_totp t d = Inr (n, d') \<Longrightarrow> keys_ok d'"
    and "insert_preferences p d = Inr (n, d') \<Longrightarrow> keys_ok d'"
    and "insert_org o1 d = Inr (n, d') \<Longrightarrow> keys_ok d'"
    and "insert_member m d = Inr (n, d') \<Longrightarrow> keys_ok d'"
    and "insert_org_audit a d = Inr (n, d') \<Longrightarrow> keys_ok d'"
    and "insert_domain_audit a d = Inr (n, d') \<Longrightarrow> keys_ok d'"
    and "insert_token tok d = Inr (n, d') \<Longrightarrow> keys_ok d'"
    and "insert_domain x d = Inr (n, d') \<Longrightarrow> keys_ok d'"
    and "insert_zone_grant g d = Inr (n, d') \<Longrightarrow> keys_ok d'"
    and "insert_invite i d = Inr (n, d') \<Longrightarrow> keys_ok d'"
  using assms
  by (simp_all add: keys_ok_def returns_simps has_iffs row_simps next_id_pos)

lemma subset_insert_second: "A \<subseteq> insert a B \<Longrightarrow> A \<subseteq> insert a (insert b B)"
  by blast

lemma refs_after_insert:
  assumes "refs_ok d"
  shows "insert_user u d = Inr (n, d') \<Longrightarrow> refs_ok d'"
    and "insert_session s d = Inr (n, d') \<Longrightarrow> refs_ok d'"
    and "insert_password_reset c d = Inr (n, d') \<Longrightarrow> refs_ok d'"
    and "insert_email_verification c d = Inr (n, d') \<Longrightarrow> refs_ok d'"
    and "insert_totp t d = Inr (n, d') \<Longrightarrow> refs_ok d'"
    and "insert_preferences p d = Inr (n, d') \<Longrightarrow> refs_ok d'"
    and "insert_org o1 d = Inr (n, d') \<Longrightarrow> refs_ok d'"
    and "insert_member m d = Inr (n, d') \<Longrightarrow> refs_ok d'"
    and "insert_org_audit a d = Inr (n, d') \<Longrightarrow> refs_ok d'"
    and "insert_domain_audit a d = Inr (n, d') \<Longrightarrow> refs_ok d'"
    and "insert_token tok d = Inr (n, d') \<Longrightarrow> refs_ok d'"
    and "insert_domain x d = Inr (n, d') \<Longrightarrow> refs_ok d'"
    and "insert_zone_grant g d = Inr (n, d') \<Longrightarrow> refs_ok d'"
    and "insert_invite i d = Inr (n, d') \<Longrightarrow> refs_ok d'"
  using assms
  by (simp_all add: refs_ok_def returns_simps has_iffs row_simps subset_insertI2
      subset_insert_second)

lemma rows_after_insert:
  assumes "rows_ok d"
  shows "insert_user u d = Inr (n, d') \<Longrightarrow> rows_ok d'"
    and "insert_session s d = Inr (n, d') \<Longrightarrow> rows_ok d'"
    and "insert_password_reset c d = Inr (n, d') \<Longrightarrow> rows_ok d'"
    and "insert_email_verification c d = Inr (n, d') \<Longrightarrow> rows_ok d'"
    and "insert_totp t d = Inr (n, d') \<Longrightarrow> rows_ok d'"
    and "insert_preferences p d = Inr (n, d') \<Longrightarrow> rows_ok d'"
    and "insert_org o1 d = Inr (n, d') \<Longrightarrow> rows_ok d'"
    and "insert_member m d = Inr (n, d') \<Longrightarrow> rows_ok d'"
    and "insert_org_audit a d = Inr (n, d') \<Longrightarrow> rows_ok d'"
    and "insert_domain_audit a d = Inr (n, d') \<Longrightarrow> rows_ok d'"
    and "insert_token tok d = Inr (n, d') \<Longrightarrow> rows_ok d'"
    and "insert_zone_grant g d = Inr (n, d') \<Longrightarrow> rows_ok d'"
    and "insert_domain x d = Inr (n, d') \<Longrightarrow> domain_ok x \<Longrightarrow> rows_ok d'"
    and "insert_invite i d = Inr (n, d') \<Longrightarrow> invite_ok i \<Longrightarrow> rows_ok d'"
  using assms
  by (simp_all add: rows_ok_def returns_simps has_iffs row_simps next_id_pos
      domain_ok_def Verified_def invite_ok_def)

lemma integrity_after_insert:
  assumes "db_integrity d"
  shows "insert_user u d = Inr (n, d') \<Longrightarrow> db_integrity d'"
    and "insert_session s d = Inr (n, d') \<Longrightarrow> db_integrity d'"
    and "insert_password_reset c d = Inr (n, d') \<Longrightarrow> db_integrity d'"
    and "insert_email_verification c d = Inr (n, d') \<Longrightarrow> db_integrity d'"
    and "insert_totp t d = Inr (n, d') \<Longrightarrow> db_integrity d'"
    and "insert_preferences p d = Inr (n, d') \<Longrightarrow> db_integrity d'"
    and "insert_org o1 d = Inr (n, d') \<Longrightarrow> db_integrity d'"
    and "insert_member m d = Inr (n, d') \<Longrightarrow> db_integrity d'"
    and "insert_org_audit a d = Inr (n, d') \<Longrightarrow> db_integrity d'"
    and "insert_domain_audit a d = Inr (n, d') \<Longrightarrow> db_integrity d'"
    and "insert_token tok d = Inr (n, d') \<Longrightarrow> db_integrity d'"
    and "insert_zone_grant g d = Inr (n, d') \<Longrightarrow> db_integrity d'"
    and "insert_domain x d = Inr (n, d') \<Longrightarrow> domain_ok x \<Longrightarrow> db_integrity d'"
    and "insert_invite i d = Inr (n, d') \<Longrightarrow> invite_ok i \<Longrightarrow> db_integrity d'"
  using assms unfolding db_integrity_def
  by (blast intro: keys_after_insert refs_after_insert rows_after_insert)+

subsection \<open>Updates\<close>

text \<open>An UPDATE that keeps the key and reference columns, and the rules of the rows.\<close>

lemma update_users:
  assumes "db_integrity d" and "\<And>r. u_ID (f r) = u_ID r"
    and "\<And>r. u_Username (f r) = u_Username r"
    and "\<And>r. u_Email (f r) = u_Email r"
  shows "db_integrity (users_update (update_where p f) d)"
  using assms by (simp add: integrity_defs row_simps ball_update_where)

lemma update_user_sessions:
  assumes "db_integrity d" and "\<And>r. s_ID (f r) = s_ID r"
    and "\<And>r. s_Hash (f r) = s_Hash r"
    and "\<And>r. s_UserID (f r) = s_UserID r"
  shows "db_integrity (user_sessions_update (update_where p f) d)"
  using assms by (simp add: integrity_defs row_simps ball_update_where)

lemma update_password_resets:
  assumes "db_integrity d" and "\<And>r. c_ID (f r) = c_ID r"
    and "\<And>r. c_Hash (f r) = c_Hash r"
    and "\<And>r. c_UserID (f r) = c_UserID r"
  shows "db_integrity (password_resets_update (update_where p f) d)"
  using assms by (simp add: integrity_defs row_simps ball_update_where)

lemma update_email_verifications:
  assumes "db_integrity d" and "\<And>r. c_ID (f r) = c_ID r"
    and "\<And>r. c_Hash (f r) = c_Hash r"
    and "\<And>r. c_UserID (f r) = c_UserID r"
  shows "db_integrity (email_verifications_update (update_where p f) d)"
  using assms by (simp add: integrity_defs row_simps ball_update_where)

lemma update_totp_secrets:
  assumes "db_integrity d" and "\<And>r. totp_UserID (f r) = totp_UserID r"
  shows "db_integrity (totp_secrets_update (update_where p f) d)"
  using assms by (simp add: integrity_defs row_simps ball_update_where)

lemma update_organizations:
  assumes "db_integrity d" and "\<And>r. o_ID (f r) = o_ID r"
    and "\<And>r. o_Slug (f r) = o_Slug r"
    and "\<And>r. o_OwnerID (f r) = o_OwnerID r"
  shows "db_integrity (organizations_update (update_where p f) d)"
  using assms by (simp add: integrity_defs row_simps ball_update_where)

lemma update_organization_members:
  assumes "db_integrity d" and "\<And>r. m_OrgID (f r) = m_OrgID r"
    and "\<And>r. m_UserID (f r) = m_UserID r"
  shows "db_integrity (organization_members_update (update_where p f) d)"
  using assms by (simp add: integrity_defs row_simps ball_update_where)

lemma update_api_tokens:
  assumes "db_integrity d" and "\<And>r. t_ID (f r) = t_ID r"
    and "\<And>r. t_Hash (f r) = t_Hash r"
  shows "db_integrity (api_tokens_update (update_where p f) d)"
  using assms by (simp add: integrity_defs row_simps ball_update_where)

lemma update_invitations:
  assumes "db_integrity d" and "\<And>r. i_ID (f r) = i_ID r"
    and "\<And>r. i_CodeHash (f r) = i_CodeHash r"
    and "\<And>r. i_OrgID (f r) = i_OrgID r"
    and "\<And>r. i_InvitedBy (f r) = i_InvitedBy r"
    and "\<And>r. invite_ok r \<Longrightarrow> p r \<Longrightarrow> invite_ok (f r)"
  shows "db_integrity (invitations_update (update_where p f) d)"
  using assms by (simp add: integrity_defs row_simps ball_update_where)

lemma update_custom_domains:
  assumes "db_integrity d" and "\<And>r. d_ID (f r) = d_ID r"
    and "\<And>r. d_Name (f r) = d_Name r"
    and "\<And>r. d_OrgID (f r) = d_OrgID r"
    and "\<And>r. domain_ok r \<Longrightarrow> p r \<Longrightarrow> domain_ok (f r)"
  shows "db_integrity (custom_domains_update (update_where p f) d)"
  using assms by (simp add: integrity_defs row_simps ball_update_where)

text \<open>A transfer names another user as the owner; the statement checks that it is there.\<close>

lemma set_org_owner_integrity:
  assumes "db_integrity d" and "set_org_owner oid uid ts d = Inr (n, d')"
  shows "db_integrity d'"
proof -
  have d': "d' = organizations_update (update_where (\<lambda>o1. o_ID o1 = oid)
                   (\<lambda>o1. o1\<lparr>o_OwnerID := uid, o_UpdatedAt := ts\<rparr>)) d"
    and owner: "\<not> has_org d oid \<or> has_user d uid"
    using assms(2) by (auto simp: set_org_owner_def sql_update_def split: if_splits)
  have "o_OwnerID ` set (organizations d') \<subseteq> u_ID ` set (users d)"
    using assms(1) owner
    by (auto simp: d' integrity_defs update_where_def has_user_def has_org_def)
  with assms(1) show ?thesis
    by (simp add: d' integrity_defs row_simps ball_update_where, blast)
qed

subsection \<open>Deletes\<close>

lemma subset_image_filter: "f ` set rows \<subseteq> A \<Longrightarrow> f ` {r \<in> set rows. p r} \<subseteq> A"
  by auto

lemma subset_image_delete:
  "f ` A \<subseteq> key ` B \<Longrightarrow> f ` {r \<in> A. f r \<notin> key ` {s \<in> B. q s}} \<subseteq> key ` {s \<in> B. \<not> q s}"
  by auto

lemma subset_image_delete_and:
  "f ` A \<subseteq> key ` B \<Longrightarrow>
   f ` {r \<in> A. p r \<and> f r \<notin> key ` {s \<in> B. q s}} \<subseteq> key ` {s \<in> B. \<not> q s}"
  by auto

lemma subset_image_delete_key:
  "f ` A \<subseteq> key ` B \<Longrightarrow> f ` {r \<in> A. f r \<noteq> k} \<subseteq> key ` {s \<in> B. key s \<noteq> k}"
  by auto

lemma subset_image_delete_null:
  "f ` A \<subseteq> insert 0 (key ` B) \<Longrightarrow>
   f ` {r \<in> A. f r = 0 \<or> f r \<noteq> k} \<subseteq> insert 0 (key ` {s \<in> B. key s \<noteq> (k::int)})"
  by auto

lemma subset_image_without:
  "f ` A \<subseteq> key ` B \<Longrightarrow> \<forall>r \<in> A. f r \<noteq> k \<Longrightarrow> f ` A \<subseteq> key ` {s \<in> B. key s \<noteq> k}"
  "f ` A \<subseteq> insert z (key ` B) \<Longrightarrow> \<forall>r \<in> A. f r = z \<or> f r \<noteq> k \<Longrightarrow>
   f ` A \<subseteq> insert z (key ` {s \<in> B. key s \<noteq> k})"
  by auto

lemmas subset_delete = subset_image_filter subset_image_delete subset_image_delete_and subset_image_delete_key
  subset_image_delete_null subset_image_without

lemma delete_where_none [simp]: "delete_where (\<lambda>r. False) rows = rows"
  by (simp add: delete_where_def)

lemma delete_leaf:
  assumes "db_integrity d"
  shows "db_integrity (user_sessions_update (delete_where p) d)"
    and "db_integrity (password_resets_update (delete_where p1) d)"
    and "db_integrity (email_verifications_update (delete_where p2) d)"
    and "db_integrity (totp_secrets_update (delete_where p3) d)"
    and "db_integrity (organization_members_update (delete_where p4) d)"
    and "db_integrity (zone_grants_update (delete_where p5) d)"
    and "db_integrity (invitations_update (delete_where p6) d)"
    and "db_integrity (api_tokens_update (delete_where p7) d)"
  using assms by (simp_all add: integrity_defs row_simps subset_image_filter)

lemma delete_domains_keys: "keys_ok d \<Longrightarrow> keys_ok (delete_domains p d)"
  by (simp add: delete_domains_def keys_ok_def row_simps)

lemma delete_domains_refs: "refs_ok d \<Longrightarrow> refs_ok (delete_domains p d)"
  by (simp add: delete_domains_def refs_ok_def Let_def subset_delete)

lemma delete_domains_rows: "rows_ok d \<Longrightarrow> rows_ok (delete_domains p d)"
  by (simp add: delete_domains_def rows_ok_def Let_def) 

lemma delete_domain_integrity:
  "db_integrity d \<Longrightarrow> delete_domain ident d = Inr (n, d') \<Longrightarrow> db_integrity d'"
  unfolding db_integrity_def delete_domain_def
  using delete_domains_keys delete_domains_refs delete_domains_rows by auto

lemma delete_org_absent: "delete_org ident d = Inr (0, d') \<Longrightarrow> d' = d"
  by (auto simp: delete_org_def delete_domains_def delete_where_def filter_id_conv Let_def)

text \<open>What is left when the organization was there.\<close>

definition org_removed :: "int \<Rightarrow> users_db \<Rightarrow> users_db" where
  "org_removed ident d =
     (delete_domains (\<lambda>x. d_OrgID x = ident) d)\<lparr>
       organizations := delete_where (\<lambda>o1. o_ID o1 = ident) (organizations d),
       organization_members := delete_where (\<lambda>m. m_OrgID m = ident) (organization_members d),
       organization_audit := delete_where (\<lambda>a. a_SubjectID a = ident) (organization_audit d),
       invitations := delete_where (\<lambda>i. i_OrgID i \<noteq> 0 \<and> i_OrgID i = ident) (invitations d),
       zones := delete_where (\<lambda>z. z_OrgID z = ident) (zones d),
       zone_grants := delete_where (\<lambda>g. g_OrgID g = ident \<or>
         g_ZoneID g \<in> z_ID ` {z \<in> set (zones d). z_OrgID z = ident}) (zone_grants d)\<rparr>"

lemma delete_org_present: "delete_org ident d = Inr (n, d') \<Longrightarrow> n \<noteq> 0 \<Longrightarrow> d' = org_removed ident d"
  by (auto simp: delete_org_def org_removed_def Let_def split: if_splits)

lemma delete_org_integrity:
  assumes "db_integrity d" and "delete_org ident d = Inr (n, d')"
  shows "db_integrity d'"
proof (cases "n = 0")
  case True
  with assms show ?thesis using delete_org_absent by blast
next
  case False
  with assms(2) have d': "d' = org_removed ident d" by (rule delete_org_present)
  note defs = d' org_removed_def delete_domains_def Let_def
  have "keys_ok d'"
    using assms(1) by (simp add: defs db_integrity_def keys_ok_def row_simps)
  moreover have "rows_ok d'"
    using assms(1) by (simp add: defs db_integrity_def rows_ok_def)
  moreover have "refs_ok d'"
    using assms(1) by (simp add: defs db_integrity_def refs_ok_def subset_delete)
  ultimately show ?thesis by (simp add: db_integrity_def)
qed

lemma delete_user_integrity:
  assumes "db_integrity d" and "delete_user ident d = Inr (n, d')"
  shows "db_integrity d'"
proof (cases "has_user d ident")
  case True
  have owners: "\<forall>o1 \<in> set (organizations d). o_OwnerID o1 \<noteq> ident"
    and inviters: "\<forall>i \<in> set (invitations d). i_InvitedBy i = 0 \<or> i_InvitedBy i \<noteq> ident"
    and d': "d' = d\<lparr>
           users := delete_where (\<lambda>u. u_ID u = ident) (users d),
           user_preferences := delete_where (\<lambda>p. pr_UserID p = ident) (user_preferences d),
           user_sessions := delete_where (\<lambda>s. s_UserID s = ident) (user_sessions d),
           password_resets := delete_where (\<lambda>c. c_UserID c = ident) (password_resets d),
           email_verifications := delete_where (\<lambda>c. c_UserID c = ident) (email_verifications d),
           totp_secrets := delete_where (\<lambda>t. totp_UserID t = ident) (totp_secrets d),
           organization_members := delete_where (\<lambda>m. m_UserID m = ident) (organization_members d),
           zone_grants := delete_where (\<lambda>g. g_UserID g = ident) (zone_grants d)\<rparr>"
    using assms(2) True by (auto simp: delete_user_def split: if_splits)
  have "keys_ok d'"
    using assms(1) by (simp add: d' db_integrity_def keys_ok_def row_simps)
  moreover have "rows_ok d'"
    using assms(1) by (simp add: d' db_integrity_def rows_ok_def)
  moreover have "refs_ok d'"
    using assms(1) owners inviters
    by (simp add: d' db_integrity_def refs_ok_def subset_delete)
  ultimately show ?thesis by (simp add: db_integrity_def)
qed (use assms in \<open>auto simp: delete_user_def\<close>)

section \<open>The store keeps it\<close>

lemma keeps_insert [hoare_intros]:
  "keeps db_integrity (exec e (insert_user u))" "keeps db_integrity (exec e (insert_session s))"
  "keeps db_integrity (exec e (insert_password_reset c))"
  "keeps db_integrity (exec e (insert_email_verification c))"
  "keeps db_integrity (exec e (insert_totp t))" "keeps db_integrity (exec e (insert_preferences p))"
  "keeps db_integrity (exec e (insert_org o1))" "keeps db_integrity (exec e (insert_member m))"
  "keeps db_integrity (exec e (insert_org_audit a))"
  "keeps db_integrity (exec e (insert_domain_audit a))"
  "keeps db_integrity (exec e (insert_token tok))"
  "keeps db_integrity (exec e (insert_zone_grant g))"
  "domain_ok x \<Longrightarrow> keeps db_integrity (exec e (insert_domain x))"
  "invite_ok i \<Longrightarrow> keeps db_integrity (exec e (insert_invite i))"
  by (rule keeps_exec; blast intro: integrity_after_insert)+

lemma keeps_cascades [hoare_intros]:
  "keeps db_integrity (exec e (set_org_owner oid uid ts))"
  "keeps db_integrity (exec e (delete_user uid))" "keeps db_integrity (exec e (delete_org oid))"
  "keeps db_integrity (exec e (delete_domain did))"
  by (rule keeps_exec;
      blast intro: set_org_owner_integrity delete_user_integrity delete_org_integrity
        delete_domain_integrity)+

lemmas changing_intros = hoare_intros keeps_update keeps_delete delete_leaf

lemma account_store:
  "keeps db_integrity (st_CreateUser e u)" "keeps db_integrity (st_UpdateProfile e u)"
  "keeps db_integrity (st_UpdatePassword e uid hash)"
  "keeps db_integrity (st_UpdateStatus e uid status)"
  "keeps db_integrity (st_MarkEmailVerified e uid)"
  "keeps db_integrity (st_RecordLoginSuccess e uid)"
  "keeps db_integrity (st_RecordLoginFailure e uid mx dur)"
  by (auto simp: st_CreateUser_def st_UpdateProfile_def st_UpdatePassword_def st_UpdateStatus_def
      st_MarkEmailVerified_def st_RecordLoginSuccess_def st_RecordLoginFailure_def update_user_def
      Let_def intro!: changing_intros update_users)

lemma session_store:
  "keeps db_integrity (st_CreateSession e sess)" "keeps db_integrity (st_TouchSession e hash)"
  "keeps db_integrity (st_MarkSessionTwoFactor e hash)"
  "keeps db_integrity (st_DeleteSession e hash)" "keeps db_integrity (st_DeleteUserSessions e uid)"
  "keeps db_integrity (st_PurgeExpiredSessions e cutoff)"
  by (auto simp: st_CreateSession_def st_TouchSession_def st_MarkSessionTwoFactor_def
      st_DeleteSession_def st_DeleteUserSessions_def st_PurgeExpiredSessions_def
      intro!: changing_intros update_user_sessions)

lemma challenge_store:
  "keeps db_integrity (st_CreatePasswordReset e uid hash t)"
  "keeps db_integrity (st_ConsumePasswordReset e cid)"
  "keeps db_integrity (st_DeleteUserPasswordResets e uid)"
  "keeps db_integrity (st_CreateEmailVerification e uid email hash t)"
  "keeps db_integrity (st_ConsumeEmailVerification e cid)"
  "keeps db_integrity (st_PurgeExpiredChallenges e cutoff)"
  by (auto simp: st_CreatePasswordReset_def st_ConsumePasswordReset_def
      st_DeleteUserPasswordResets_def st_CreateEmailVerification_def
      st_ConsumeEmailVerification_def st_PurgeExpiredChallenges_def Let_def
      intro!: changing_intros update_password_resets update_email_verifications)

lemma keeps_save_preferences:
  "keeps db_integrity (exec e (sql_update user_preferences user_preferences_update
     (\<lambda>r. pr_UserID r = pr_UserID p) (\<lambda>r. p\<lparr>pr_UpdatedAt := ts\<rparr>)))"
proof (rule keeps_update)
  fix d assume d: "db_integrity d"
  let ?rows = "update_where (\<lambda>r. pr_UserID r = pr_UserID p) (\<lambda>r. p\<lparr>pr_UpdatedAt := ts\<rparr>)
                 (user_preferences d)"
  have "map pr_UserID ?rows = map pr_UserID (user_preferences d)"
    by (simp add: update_where_def)
  then have "unique_on pr_UserID ?rows = unique_on pr_UserID (user_preferences d)"
    and "pr_UserID ` set ?rows = pr_UserID ` set (user_preferences d)"
    by (simp_all add: unique_on_def) (metis list.set_map)
  with d show "db_integrity (user_preferences_update (update_where (\<lambda>r. pr_UserID r = pr_UserID p)
                  (\<lambda>r. p\<lparr>pr_UpdatedAt := ts\<rparr>)) d)"
    by (simp add: integrity_defs)
qed

lemma second_factor_store:
  "keeps db_integrity (st_SaveTOTP e t)" "keeps db_integrity (st_ConfirmTOTP e uid)"
  "keeps db_integrity (st_SetRecoveryCodes e uid codes)" "keeps db_integrity (st_DeleteTOTP e uid)"
  "keeps db_integrity (st_SavePreferences e p)"
  by (auto simp: st_SaveTOTP_def st_ConfirmTOTP_def st_SetRecoveryCodes_def st_DeleteTOTP_def
      st_SavePreferences_def intro!: changing_intros update_totp_secrets keeps_save_preferences)

lemma org_store:
  "keeps db_integrity (st_CreateOrg e o1)" "keeps db_integrity (st_UpdateOrg e o1)"
  "keeps db_integrity (st_TransferOrg e oid fromID toID)" "keeps db_integrity (st_DeleteOrg e oid)"
  by (auto simp: st_CreateOrg_def st_UpdateOrg_def st_TransferOrg_def st_DeleteOrg_def
      update_member_role_def
      intro!: changing_intros update_organizations update_organization_members)

lemma member_store:
  "keeps db_integrity (st_AddMember e oid uid role)"
  "keeps db_integrity (st_SetMemberRole e oid uid role)"
  "keeps db_integrity (st_RemoveMember e oid uid)"
  "keeps db_integrity (st_RevokeZone e oid uid zid)"
  "keeps db_integrity (st_GrantZone e oid uid zid perm)"
  by (auto simp: st_AddMember_def st_SetMemberRole_def st_RemoveMember_def st_GrantZone_def
      st_RevokeZone_def insert_grant_def update_member_role_def revoke_org_tokens_def
      intro!: changing_intros update_organization_members update_api_tokens)

lemma invite_store:
  "keeps db_integrity (st_CreateInvite e i)" "keeps db_integrity (st_RedeemInvite e iid)"
  "keeps db_integrity (st_DeleteInvite e iid)" "keeps db_integrity (st_PurgeExpiredInvites e)"
  by (auto simp: st_CreateInvite_def st_RedeemInvite_def st_DeleteInvite_def
      st_PurgeExpiredInvites_def invite_ok_def intro!: changing_intros update_invitations)

lemma token_store:
  "keeps db_integrity (st_CreateToken e tok)" "keeps db_integrity (st_TouchToken e tid)"
  "keeps db_integrity (st_RevokeToken e tid)"
  by (auto simp: st_CreateToken_def st_TouchToken_def st_RevokeToken_def
      intro!: changing_intros update_api_tokens)

lemma domain_store:
  "keeps db_integrity (st_CreateDomain e x)"
  "keeps db_integrity (st_UpdateDomainPurpose e did purpose)"
  "keeps db_integrity (st_RecordVerificationAttempt e did VerificationVerified)"
  "keeps db_integrity (st_ActivateDomain e did)" "keeps db_integrity (st_SuspendDomain e did reason)"
  "keeps db_integrity (st_SetDomainSSL e x)" "keeps db_integrity (st_DeleteDomain e did)"
  by (auto simp: st_CreateDomain_def st_UpdateDomainPurpose_def st_RecordVerificationAttempt_def
      st_ActivateDomain_def st_SuspendDomain_def st_SetDomainSSL_def st_DeleteDomain_def
      update_domain_def domain_ok_def Verified_def model_consts Let_def
      intro!: changing_intros update_custom_domains)

lemma audit_store:
  "keeps db_integrity (st_RecordOrgAudit e a)" "keeps db_integrity (st_RecordDomainAudit e a)"
  by (auto simp: st_RecordOrgAudit_def st_RecordDomainAudit_def intro!: changing_intros)

lemma failed_verification:
  "hoare (\<lambda>d. db_integrity d \<and> stored_unverified did d)
     (st_RecordVerificationAttempt e did VerificationFailed) (\<lambda>_. db_integrity) db_integrity"
proof -
  have step: "db_integrity (custom_domains_update (update_where (\<lambda>x. d_ID x = did) (\<lambda>x. x\<lparr>
          d_VerificationStatus := VerificationFailed, d_VerifiedAt := None, d_LastCheckAt := Some ts,
          d_CheckCount := d_CheckCount x + 1, d_UpdatedAt := ts\<rparr>)) d)"
    if d: "db_integrity d" and u: "stored_unverified did d" for d ts
  proof -
    obtain x0 where x0: "find_where (\<lambda>x. d_ID x = did) (custom_domains d) = Some x0" "\<not> Verified x0"
      using u by (auto simp: stored_unverified_def split: option.splits)
    have "\<not> Verified x" if "x \<in> set (custom_domains d)" "d_ID x = did" for x
    proof -
      have "unique_on d_ID (custom_domains d)" using d by (simp add: integrity_defs)
      with find_where_key [OF this that] x0 show ?thesis by simp
    qed
    moreover have "domain_ok x" if "x \<in> set (custom_domains d)" for x
      using d that by (simp add: integrity_defs)
    ultimately have "\<forall>x \<in> set (custom_domains d). d_ID x = did \<longrightarrow> d_Status x \<noteq> DomainActive"
      by (auto simp: domain_ok_def)
    with d show ?thesis
      by (simp add: integrity_defs row_simps ball_update_where domain_ok_def)
  qed
  have "hoare (\<lambda>d. db_integrity d \<and> stored_unverified did d)
          (update_domain e (\<lambda>x. d_ID x = did) (\<lambda>x. x\<lparr>
          d_VerificationStatus := VerificationFailed, d_VerifiedAt := None, d_LastCheckAt := Some ts,
          d_CheckCount := d_CheckCount x + 1, d_UpdatedAt := ts\<rparr>)) (\<lambda>_. db_integrity) db_integrity"
    for ts
    unfolding update_domain_def affected_def
  proof (rule hoare_call)
    show "hoare (\<lambda>d. db_integrity d \<and> stored_unverified did d)
       (exec e (sql_update custom_domains custom_domains_update (\<lambda>x. d_ID x = did) (\<lambda>x. x\<lparr>
          d_VerificationStatus := VerificationFailed, d_VerifiedAt := None, d_LastCheckAt := Some ts,
          d_CheckCount := d_CheckCount x + 1, d_UpdatedAt := ts\<rparr>))) (\<lambda>_. db_integrity) db_integrity"
      by (rule hoare_exec) (auto simp: sql_update_def step)
    show "hoare db_integrity (if n = 0 then fail StoreNotFound else ok ()) (\<lambda>_. db_integrity) db_integrity"
      for n :: int
      by (simp add: hoare_ok hoare_fail)
  qed
  then show ?thesis
    by (simp add: st_RecordVerificationAttempt_def hoare_def store_now_def model_consts)
qed

section \<open>The contract holds of the invariant\<close>

interpretation integrity: store_keeps db_integrity
  by unfold_locales
    (rule account_store session_store challenge_store second_factor_store org_store member_store
      invite_store token_store domain_store audit_store failed_verification)+

end
