(* ===== verification/Reachability.thy ===== *)
theory Reachability
  imports Integrity
begin

text \<open>
  The service as a transition system over users.db: every request that can change the database,
  run under any environment (clocks, faults, random bytes, answers of the resolver and of the
  certificate authority), and the zones that the DNS side adds. What is reachable from an empty
  database has the invariant of \<open>Integrity\<close>; and an account, once registered, keeps its id, its
  username and its address.
\<close>

section \<open>Requests\<close>

datatype request =
    ReqRegister RegisterInput
  | ReqLogin LoginInput
  | ReqLogout string
  | ReqLogoutAll int
  | ReqRevokeSession int int
  | ReqResolveSession string
  | ReqPurge
  | ReqUpdateProfile int ProfileInput
  | ReqSavePreferences Preferences
  | ReqChangePassword int string string
  | ReqStartReset string
  | ReqCompleteReset string string
  | ReqStartVerification int string
  | ReqCompleteVerification string
  | ReqStartTwoFactor int
  | ReqConfirmTwoFactor int string
  | ReqVerifyTwoFactor int string string
  | ReqDisableTwoFactor int string
  | ReqCreateOrg int CreateOrgInput
  | ReqUpdateOrg int int CreateOrgInput
  | ReqSetOrgVisibility int int string
  | ReqDeleteOrg int int
  | ReqTransferOrg int int int
  | ReqSetMemberRole int int int string
  | ReqRemoveMember int int int
  | ReqInvite int int InviteInput
  | ReqAcceptInvite int string
  | ReqRevokeInvite int int int
  | ReqGrantZone int int int int string
  | ReqRevokeZone int int int int
  | ReqIssueToken int IssueTokenInput
  | ReqRevokeToken int int
  | ReqRevokeOrgToken int int int
  | ReqAuthenticateToken string
  | ReqAddDomain int int AddDomainInput
  | ReqVerifyDomain int int int
  | ReqSetDomainPurpose int int int string
  | ReqSuspendDomain int int int string
  | ReqRemoveDomain int int int
  | ReqRenewCertificates

text \<open>A handler drops the result; only the change of the database matters here.\<close>

definition drop_result :: "'a uaction \<Rightarrow> unit uaction" where
  "drop_result m = call m id (\<lambda>_. ok ())"

fun serve :: "env \<Rightarrow> request \<Rightarrow> unit uaction" where
  "serve e (ReqRegister inp) = drop_result (Register e inp)"
| "serve e (ReqLogin inp) = drop_result (Login e inp)"
| "serve e (ReqLogout token) = Logout e token"
| "serve e (ReqLogoutAll uid) = LogoutAll e uid"
| "serve e (ReqRevokeSession uid sid) = RevokeSession e uid sid"
| "serve e (ReqResolveSession token) = drop_result (ResolveSession e token)"
| "serve e ReqPurge = drop_result (PurgeSessions e)"
| "serve e (ReqUpdateProfile uid inp) = drop_result (Service_Account.UpdateProfile e uid inp)"
| "serve e (ReqSavePreferences p) = Service_Account.SavePreferences e p"
| "serve e (ReqChangePassword uid old new) = ChangePassword e uid old new"
| "serve e (ReqStartReset ident) = drop_result (StartPasswordReset e ident)"
| "serve e (ReqCompleteReset token new) = CompletePasswordReset e token new"
| "serve e (ReqStartVerification uid mail) = drop_result (StartEmailVerification e uid mail)"
| "serve e (ReqCompleteVerification token) = drop_result (CompleteEmailVerification e token)"
| "serve e (ReqStartTwoFactor uid) = drop_result (StartTwoFactor e uid)"
| "serve e (ReqConfirmTwoFactor uid code) = ConfirmTwoFactor e uid code"
| "serve e (ReqVerifyTwoFactor uid token code) = VerifyTwoFactor e uid token code"
| "serve e (ReqDisableTwoFactor uid pw) = DisableTwoFactor e uid pw"
| "serve e (ReqCreateOrg uid inp) = drop_result (Service_Orgs.CreateOrg e uid inp)"
| "serve e (ReqUpdateOrg oid uid inp) = drop_result (Service_Orgs.UpdateOrg e oid uid inp)"
| "serve e (ReqSetOrgVisibility oid uid vis) = SetOrgVisibility e oid uid vis"
| "serve e (ReqDeleteOrg oid uid) = Service_Orgs.DeleteOrg e oid uid"
| "serve e (ReqTransferOrg oid uid new) = Service_Orgs.TransferOrg e oid uid new"
| "serve e (ReqSetMemberRole oid uid tid role) = Service_Orgs.SetMemberRole e oid uid tid role"
| "serve e (ReqRemoveMember oid uid tid) = Service_Orgs.RemoveMember e oid uid tid"
| "serve e (ReqInvite oid uid inp) = drop_result (InviteMember e oid uid inp)"
| "serve e (ReqAcceptInvite uid code) = drop_result (AcceptInvite e uid code)"
| "serve e (ReqRevokeInvite oid uid iid) = RevokeInvite e oid uid iid"
| "serve e (ReqGrantZone oid uid tid zid perm) = Service_Orgs.GrantZone e oid uid tid zid perm"
| "serve e (ReqRevokeZone oid uid tid zid) = Service_Orgs.RevokeZone e oid uid tid zid"
| "serve e (ReqIssueToken uid inp) = drop_result (IssueToken e uid inp)"
| "serve e (ReqRevokeToken uid tid) = Service_Tokens.RevokeToken e uid tid"
| "serve e (ReqRevokeOrgToken oid uid tid) = RevokeOrgToken e oid uid tid"
| "serve e (ReqAuthenticateToken raw) = drop_result (AuthenticateToken e raw)"
| "serve e (ReqAddDomain oid uid inp) = drop_result (AddDomain e oid uid inp)"
| "serve e (ReqVerifyDomain oid uid did) = drop_result (VerifyDomain e oid uid did)"
| "serve e (ReqSetDomainPurpose oid uid did p) = SetDomainPurpose e oid uid did p"
| "serve e (ReqSuspendDomain oid uid did why) = Service_Domains.SuspendDomain e oid uid did why"
| "serve e (ReqRemoveDomain oid uid did) = RemoveDomain e oid uid did"
| "serve e ReqRenewCertificates = drop_result (RenewCertificates e)"

lemma keeps_drop_result [hoare_intros]: "keeps I m \<Longrightarrow> keeps I (drop_result m)"
  unfolding drop_result_def by (intro keeps_call keeps_ok)

context store_keeps
begin

lemma serve_keeps: "keeps I (serve e q)"
  by (cases q)
    (simp_all add: keeps_drop_result CreateOrg_op org_changes member_changes invite_changes
      zone_changes token_changes account_changes two_factor_changes Register_op Login_op
      session_changes AddDomain_op domain_changes RenewCertificates_op VerifyDomain_op)

end

section \<open>Steps\<close>

definition add_zone :: "Zone \<Rightarrow> users_db \<Rightarrow> users_db" where
  "add_zone z d = d\<lparr>zones := zones d @ [z\<lparr>z_ID := next_id (map z_ID (zones d))\<rparr>]\<rparr>"

inductive service_step :: "users_db \<Rightarrow> users_db \<Rightarrow> bool" where
  request: "serve e q \<lparr>wdb = d, wtick = t, wrand = r\<rparr> = (res, w) \<Longrightarrow> service_step d (wdb w)"
| zone: "has_org d (z_OrgID z) \<Longrightarrow> service_step d (add_zone z d)"

inductive_cases service_stepE: "service_step d d'"

abbreviation reachable :: "users_db \<Rightarrow> bool" where
  "reachable \<equiv> service_step\<^sup>*\<^sup>* empty_db"

lemma add_zone_integrity: "db_integrity d \<Longrightarrow> has_org d (z_OrgID z) \<Longrightarrow> db_integrity (add_zone z d)"
  by (simp add: add_zone_def integrity_defs row_simps has_iffs subset_insertI2)

lemma service_step_integrity: "service_step d d' \<Longrightarrow> db_integrity d \<Longrightarrow> db_integrity d'"
proof (erule service_stepE)
  fix e q t r res and w :: "users_db world"
  assume "db_integrity d" and run: "serve e q \<lparr>wdb = d, wtick = t, wrand = r\<rparr> = (res, w)"
    and "d' = wdb w"
  then show "db_integrity d'" using keepsD [OF integrity.serve_keeps _ run] by simp
qed (simp add: add_zone_integrity)

lemma service_steps_integrity: "service_step\<^sup>*\<^sup>* d d' \<Longrightarrow> db_integrity d \<Longrightarrow> db_integrity d'"
  by (induction rule: rtranclp_induct) (auto intro: service_step_integrity)

lemma reachable_integrity_lemma: "reachable d \<Longrightarrow> db_integrity d"
  using service_steps_integrity empty_db_integrity by blast

section \<open>An account keeps its identity\<close>

definition has_account :: "int \<Rightarrow> string \<Rightarrow> string \<Rightarrow> users_db \<Rightarrow> bool" where
  "has_account uid name mail d \<longleftrightarrow>
     (\<exists>u \<in> set (users d). u_ID u = uid \<and> u_Username u = name \<and> u_Email u = mail)"

lemma has_account_frame [simp]:
  "has_account uid name mail (user_preferences_update f d) = has_account uid name mail d"
  "has_account uid name mail (user_sessions_update f1 d) = has_account uid name mail d"
  "has_account uid name mail (password_resets_update f2 d) = has_account uid name mail d"
  "has_account uid name mail (email_verifications_update f2 d) = has_account uid name mail d"
  "has_account uid name mail (totp_secrets_update f3 d) = has_account uid name mail d"
  "has_account uid name mail (organizations_update f4 d) = has_account uid name mail d"
  "has_account uid name mail (organization_members_update f5 d) = has_account uid name mail d"
  "has_account uid name mail (organization_audit_update f6 d) = has_account uid name mail d"
  "has_account uid name mail (api_tokens_update f7 d) = has_account uid name mail d"
  "has_account uid name mail (invitations_update f8 d) = has_account uid name mail d"
  "has_account uid name mail (custom_domains_update f9 d) = has_account uid name mail d"
  "has_account uid name mail (custom_domain_audit_update f6 d) = has_account uid name mail d"
  "has_account uid name mail (zones_update f10 d) = has_account uid name mail d"
  "has_account uid name mail (zone_grants_update f11 d) = has_account uid name mail d"
  by (simp_all add: has_account_def)

lemma has_account_user_update:
  assumes "\<And>u. u_ID (f u) = u_ID u" and "\<And>u. u_Username (f u) = u_Username u"
    and "\<And>u. u_Email (f u) = u_Email u" and "has_account uid name mail d"
  shows "has_account uid name mail (users_update (update_where p f) d)"
  using assms by (auto simp: has_account_def bex_update_where)

lemma has_account_insert_user:
  "insert_user u d = Inr (n, d') \<Longrightarrow> has_account uid name mail d \<Longrightarrow> has_account uid name mail d'"
  by (auto simp: insert_user_returns has_account_def)

lemma has_account_cascades:
  assumes "has_account uid name mail d"
  shows "set_org_owner oid owner ts d = Inr (n, d') \<Longrightarrow> has_account uid name mail d'"
    and "delete_org oid d = Inr (n, d') \<Longrightarrow> has_account uid name mail d'"
    and "delete_domain did d = Inr (n, d') \<Longrightarrow> has_account uid name mail d'"
  using assms
  by (auto simp: set_org_owner_def sql_update_def delete_org_def delete_domain_def
      delete_domains_def Let_def split: if_splits)

lemma account_statements [hoare_intros]:
  "keeps (has_account uid name mail) (exec e (insert_user u))"
  "keeps (has_account uid name mail) (exec e (insert_session s))"
  "keeps (has_account uid name mail) (exec e (insert_password_reset c))"
  "keeps (has_account uid name mail) (exec e (insert_email_verification c))"
  "keeps (has_account uid name mail) (exec e (insert_totp totp))"
  "keeps (has_account uid name mail) (exec e (insert_preferences prefs))"
  "keeps (has_account uid name mail) (exec e (insert_org o1))"
  "keeps (has_account uid name mail) (exec e (insert_member m))"
  "keeps (has_account uid name mail) (exec e (insert_org_audit a))"
  "keeps (has_account uid name mail) (exec e (insert_domain_audit a))"
  "keeps (has_account uid name mail) (exec e (insert_token tok))"
  "keeps (has_account uid name mail) (exec e (insert_invite i))"
  "keeps (has_account uid name mail) (exec e (insert_domain x))"
  "keeps (has_account uid name mail) (exec e (insert_zone_grant g))"
  "keeps (has_account uid name mail) (exec e (set_org_owner oid owner ts))"
  "keeps (has_account uid name mail) (exec e (delete_org oid))"
  "keeps (has_account uid name mail) (exec e (delete_domain did))"
  by (rule keeps_exec;
      auto simp: returns_simps intro: has_account_insert_user has_account_cascades)+

lemmas account_intros = hoare_intros keeps_update keeps_delete has_account_user_update

lemma account_of_account_store:
  "keeps (has_account n name mail) (st_CreateUser e u)"
  "keeps (has_account n name mail) (st_UpdateProfile e u)"
  "keeps (has_account n name mail) (st_UpdatePassword e uid hash)"
  "keeps (has_account n name mail) (st_UpdateStatus e uid status)"
  "keeps (has_account n name mail) (st_MarkEmailVerified e uid)"
  "keeps (has_account n name mail) (st_RecordLoginSuccess e uid)"
  "keeps (has_account n name mail) (st_RecordLoginFailure e uid mx dur)"
  by (auto simp: st_CreateUser_def st_UpdateProfile_def st_UpdatePassword_def st_UpdateStatus_def
      st_MarkEmailVerified_def st_RecordLoginSuccess_def st_RecordLoginFailure_def update_user_def
      Let_def intro!: account_intros)

lemma account_of_credential_store:
  "keeps (has_account n name mail) (st_CreateSession e sess)"
  "keeps (has_account n name mail) (st_TouchSession e hash)"
  "keeps (has_account n name mail) (st_MarkSessionTwoFactor e hash)"
  "keeps (has_account n name mail) (st_DeleteSession e hash)"
  "keeps (has_account n name mail) (st_DeleteUserSessions e uid)"
  "keeps (has_account n name mail) (st_PurgeExpiredSessions e cutoff)"
  "keeps (has_account n name mail) (st_CreatePasswordReset e uid hash at)"
  "keeps (has_account n name mail) (st_ConsumePasswordReset e cid)"
  "keeps (has_account n name mail) (st_DeleteUserPasswordResets e uid)"
  "keeps (has_account n name mail) (st_CreateEmailVerification e uid email hash at)"
  "keeps (has_account n name mail) (st_ConsumeEmailVerification e cid)"
  "keeps (has_account n name mail) (st_PurgeExpiredChallenges e cutoff)"
  "keeps (has_account n name mail) (st_SaveTOTP e t)"
  "keeps (has_account n name mail) (st_ConfirmTOTP e uid)"
  "keeps (has_account n name mail) (st_SetRecoveryCodes e uid codes)"
  "keeps (has_account n name mail) (st_DeleteTOTP e uid)"
  "keeps (has_account n name mail) (st_SavePreferences e p)"
  by (auto simp: st_CreateSession_def st_TouchSession_def st_MarkSessionTwoFactor_def
      st_DeleteSession_def st_DeleteUserSessions_def st_PurgeExpiredSessions_def
      st_CreatePasswordReset_def st_ConsumePasswordReset_def st_DeleteUserPasswordResets_def
      st_CreateEmailVerification_def st_ConsumeEmailVerification_def st_PurgeExpiredChallenges_def
      st_SaveTOTP_def st_ConfirmTOTP_def st_SetRecoveryCodes_def st_DeleteTOTP_def
      st_SavePreferences_def Let_def intro!: account_intros)

lemma account_of_org_store:
  "keeps (has_account n name mail) (st_CreateOrg e o1)"
  "keeps (has_account n name mail) (st_UpdateOrg e o1)"
  "keeps (has_account n name mail) (st_TransferOrg e oid fromID toID)"
  "keeps (has_account n name mail) (st_DeleteOrg e oid)"
  "keeps (has_account n name mail) (st_AddMember e oid uid role)"
  "keeps (has_account n name mail) (st_SetMemberRole e oid uid role)"
  "keeps (has_account n name mail) (st_RemoveMember e oid uid)"
  "keeps (has_account n name mail) (st_GrantZone e oid uid zid perm)"
  "keeps (has_account n name mail) (st_RevokeZone e oid uid zid)"
  "keeps (has_account n name mail) (st_CreateInvite e i)"
  "keeps (has_account n name mail) (st_RedeemInvite e iid)"
  "keeps (has_account n name mail) (st_DeleteInvite e iid)"
  "keeps (has_account n name mail) (st_PurgeExpiredInvites e)"
  "keeps (has_account n name mail) (st_RecordOrgAudit e a)"
  by (auto simp: st_CreateOrg_def st_UpdateOrg_def st_TransferOrg_def st_DeleteOrg_def
      st_AddMember_def st_SetMemberRole_def st_RemoveMember_def st_GrantZone_def st_RevokeZone_def
      insert_grant_def update_member_role_def revoke_org_tokens_def st_CreateInvite_def
      st_RedeemInvite_def st_DeleteInvite_def st_PurgeExpiredInvites_def st_RecordOrgAudit_def
      intro!: account_intros)

lemma account_of_domain_store:
  "keeps (has_account n name mail) (st_CreateToken e tok)"
  "keeps (has_account n name mail) (st_TouchToken e tid)"
  "keeps (has_account n name mail) (st_RevokeToken e tid)"
  "keeps (has_account n name mail) (st_CreateDomain e x)"
  "keeps (has_account n name mail) (st_UpdateDomainPurpose e did purpose)"
  "keeps (has_account n name mail) (st_RecordVerificationAttempt e did status)"
  "keeps (has_account n name mail) (st_ActivateDomain e did)"
  "keeps (has_account n name mail) (st_SuspendDomain e did reason)"
  "keeps (has_account n name mail) (st_SetDomainSSL e x)"
  "keeps (has_account n name mail) (st_DeleteDomain e did)"
  "keeps (has_account n name mail) (st_RecordDomainAudit e a)"
  by (auto simp: st_CreateToken_def st_TouchToken_def st_RevokeToken_def st_CreateDomain_def
      st_UpdateDomainPurpose_def st_RecordVerificationAttempt_def st_ActivateDomain_def
      st_SuspendDomain_def st_SetDomainSSL_def st_DeleteDomain_def st_RecordDomainAudit_def
      update_domain_def Let_def intro!: account_intros)

lemma account_of_failed_verification:
  "hoare (\<lambda>d. has_account n name mail d \<and> stored_unverified did d)
     (st_RecordVerificationAttempt e did VerificationFailed)
     (\<lambda>_. has_account n name mail) (has_account n name mail)"
  by (rule hoare_weaken [OF account_of_domain_store(6) [unfolded keeps_def]]) auto

interpretation account: store_keeps "has_account uid name mail" for uid name mail
  by unfold_locales
    (rule account_of_account_store account_of_credential_store account_of_org_store
      account_of_domain_store account_of_failed_verification)+

lemma service_steps_account:
  assumes "service_step\<^sup>*\<^sup>* d d'" and "has_account uid name mail d"
  shows "has_account uid name mail d'"
  using assms(1)
proof (induction rule: rtranclp_induct)
  case (step d1 d2)
  then show ?case
  proof (elim service_stepE)
    fix e q t r res and w :: "users_db world"
    assume run: "serve e q \<lparr>wdb = d1, wtick = t, wrand = r\<rparr> = (res, w)" and "d2 = wdb w"
      and "has_account uid name mail d1"
    then show "has_account uid name mail d2"
      using keepsD [OF account.serve_keeps _ run] by simp
  qed (simp add: add_zone_def)
qed (rule assms(2))

end
