(* ===== verification/Fixtures.thy ===== *)
theory Fixtures
  imports Reachability
begin

text \<open>
  A concrete environment and a concrete database: the inputs at which the properties of the
  development are applied. The environment stands in for the libraries with the simplest
  functions that have the documented behaviour (an injective hash, a key derivation of the asked
  length, a cipher that opens what it seals, a codec that reads what it writes).
\<close>

section \<open>An environment\<close>

definition demo_users :: Users_config where
  "demo_users =
     \<lparr>users_Enabled = True,
      cfg_Registration = \<lparr>reg_Mode = ''open'', RequireEmailVerification = False, AllowedDomains = [],
        BlockedDomains = [], InviteExpirationDays = 7\<rparr>,
      cfg_Auth = \<lparr>SessionDuration = 0, Allow2FA = True, Require2FA = False, PasswordMinLength = 8,
        PasswordRequireUppercase = False, PasswordRequireLowercase = False,
        PasswordRequireNumber = False, PasswordRequireSpecial = False, MaxFailedLogins = 2,
        LockoutDuration = 15 * 60 * second\<rparr>,
      cfg_Tokens = \<lparr>tokens_Enabled = True, MaxPerUser = 5, ExpirationDays = 0\<rparr>,
      cfg_Profile = \<lparr>user_DefaultVisibility = ''public'', AllowBio = True, AllowWebsite = True,
        AllowLocation = True, AllowAvatar = True\<rparr>\<rparr>"

definition demo_orgs :: Orgs_config where
  "demo_orgs = \<lparr>orgs_Enabled = True, creation_Mode = ''open'', creation_MaxPerUser = 3,
                org_DefaultVisibility = ''private'', DefaultRole = ''viewer'', AllowInvites = True\<rparr>"

definition demo_domains :: CustomDomains_config where
  "demo_domains = \<lparr>domains_Enabled = True, MaxDomainsPerOrg = 5, RequireSSL = True, AllowApex = True,
                   AllowSubdomain = True, AllowWildcard = True, SSLRenewalDays = 30,
                   Reserved = [''redxt.example''], BlockedPatterns = []\<rparr>"

definition demo_now :: int where "demo_now = 1000000 * second"

text \<open>A list of strings as one string: every character behind a dot, every string before a comma.\<close>

fun pack_strings :: "string list \<Rightarrow> string" where
  "pack_strings [] = []"
| "pack_strings (x # xs) = concat (map (\<lambda>c. [CHR ''.'', c]) x) @ '','' @ pack_strings xs"

fun unpack_strings :: "string \<Rightarrow> string \<Rightarrow> string list" where
  "unpack_strings (a # b # s) cur =
     (if a = CHR ''.'' then unpack_strings s (cur @ [b]) else cur # unpack_strings (b # s) [])"
| "unpack_strings [a] cur = [cur]"
| "unpack_strings [] cur = []"

lemma unpack_one:
  "unpack_strings (concat (map (\<lambda>c. [CHR ''.'', c]) x) @ CHR '','' # s) cur = (cur @ x) # unpack_strings s []"
  by (induction x arbitrary: cur) (cases s; simp)+

lemma unpack_pack: "unpack_strings (pack_strings xs) [] = xs"
  by (induction xs) (simp_all add: unpack_one)

definition demo_env :: env where
  "demo_env =
     \<lparr>users_cfg = demo_users, orgs_cfg = demo_orgs, domains_cfg = demo_domains,
      ApplicationName = ''redxt'', clock = (\<lambda>_. demo_now), store_clock = (\<lambda>_. demo_now),
      fault = (\<lambda>_. None), rand_read = (\<lambda>i n. Inr (replicate n (CHR ''b''))), rand_fuel = 40,
      sha256 = (\<lambda>s. s), IDKey = (\<lambda>pw salt t m p n. take n (pw @ salt @ replicate n (CHR ''k''))),
      hmac_sha1 = (\<lambda>k s. replicate 20 (CHR ''A'')),
      gcm_seal = (\<lambda>k n s. s @ replicate 16 (CHR ''t'')),
      gcm_open = (\<lambda>k n s. Some (take (length s - 16) s)),
      cipher = Some \<lparr>aead_key = replicate 32 (CHR ''q''), aead_version = 1\<rparr>,
      json_strings = pack_strings, json_unstrings = (\<lambda>s. Some (unpack_strings s [])),
      json_object = (\<lambda>_. ''{}''), provisioning_uri = (\<lambda>issuer name secret. secret),
      rune_classes = (\<lambda>_. OtherRune),
      LookupTXT = (\<lambda>_ name. Inr [''proof'']), regexp_MatchString = (\<lambda>_. None),
      certs_Challenge = Some ''http-01'',
      certs_IssueFor = (\<lambda>_ host. Inr \<lparr>NotBefore = demo_now, NotAfter = demo_now + 90 * 24 * hour\<rparr>),
      dummyHash = []\<rparr>"

section \<open>A database\<close>

text \<open>
  alice (1) owns her personal organization (1) and acme (2), where carol (3) is an admin and bob
  (2) a viewer. bob has a session, an API token in acme, a pending password reset, a second factor,
  and a pending confirmation of an address that is not the one on his account. acme has an
  invitation for one use, a claimed domain and a live one, and a zone.
\<close>

definition demo_hash :: "string \<Rightarrow> string" where
  "demo_hash pw = encode_hash DefaultParams (replicate 16 (CHR ''s''))
                    (derive_key demo_env pw (replicate 16 (CHR ''s'')) DefaultParams)"

definition demo_user :: "int \<Rightarrow> string \<Rightarrow> string \<Rightarrow> User" where
  "demo_user uid name pw =
     (new_user demo_env name (name @ ''@acme.example'') (demo_hash pw) StatusActive)\<lparr>u_ID := uid\<rparr>"

definition demo_org :: "int \<Rightarrow> string \<Rightarrow> bool \<Rightarrow> int \<Rightarrow> Org" where
  "demo_org oid slug personal owner =
     (new_org slug slug [] [] [] VisibilityPublic personal owner)\<lparr>o_ID := oid\<rparr>"

definition demo_token :: Token where
  "demo_token = \<lparr>t_ID = 1, t_OwnerType = OwnerUser, t_OwnerID = 2, t_Name = ''ci'',
     t_Hash = HashToken demo_env ''usr_bob'', t_Prefix = ''usr_bob'', t_Scope = ScopeRead,
     t_Role = RoleViewer, t_OrgID = 2, t_ZoneID = 0, t_Capability = [], t_LastUsedAt = None,
     t_RevokedAt = None, t_ExpiresAt = None, t_CreatedAt = 0\<rparr>"

definition demo_session :: Session where
  "demo_session = \<lparr>s_ID = 1, s_UserID = 2, s_Hash = HashToken demo_env ''bobs-session'', s_IP = [],
     s_UserAgent = [], s_TwoFactorOK = False, s_CreatedAt = 0, s_LastActive = 0,
     s_ExpiresAt = demo_now + hour\<rparr>"

definition demo_invite :: Invite where
  "demo_invite = \<lparr>i_ID = 1, i_CodeHash = HashToken demo_env ''invite-code'', i_OrgID = 2, i_Email = [],
     i_Role = RoleEditor, i_MaxUses = 1, i_UseCount = 0, i_InvitedBy = 1, i_AcceptedAt = None,
     i_CreatedAt = 0, i_ExpiresAt = demo_now + hour\<rparr>"

definition demo_claim :: Domain where
  "demo_claim = (new_domain demo_env 2 ''dns.acme.example'' False PurposeUI ''proof'')\<lparr>
     d_ID := 1, d_VerificationStatus := VerificationPending, d_Status := DomainPending\<rparr>"

definition demo_live :: Domain where
  "demo_live = (new_domain demo_env 2 ''live.example'' False PurposeUI ''other'')\<lparr>
     d_ID := 2, d_VerificationStatus := VerificationVerified, d_Status := DomainActive\<rparr>"

definition demo_totp :: TOTP where
  "demo_totp = \<lparr>totp_UserID = 2,
     SecretEncrypted = ''v1:'' @ base64_encode (replicate 12 (CHR ''n'') @ ''MFRGGZDFMZTWQ2LK'' @
                                              replicate 16 (CHR ''t'')),
     KeyVersion = 1, totp_Confirmed = True, RecoveryCodes = pack_strings [HashToken demo_env ''spare''],
     totp_CreatedAt = 0\<rparr>"

definition demo_db :: users_db where
  "demo_db =
     \<lparr>users = [demo_user 1 ''alice'' ''wonderland'', demo_user 2 ''bob'' ''builder99'',
               demo_user 3 ''carol'' ''christmas''],
      user_preferences = [], user_sessions = [demo_session],
      password_resets = [(new_challenge 2 [] (HashToken demo_env ''reset-code'') 0 (demo_now + hour))
                           \<lparr>c_ID := 1\<rparr>],
      email_verifications =
        [(new_challenge 2 ''bob@elsewhere.example'' (HashToken demo_env ''confirm-code'') 0
            (demo_now + hour))\<lparr>c_ID := 1\<rparr>],
      totp_secrets = [demo_totp],
      organizations = [demo_org 1 ''alice'' True 1, demo_org 2 ''acme'' False 1],
      organization_members = [new_member 1 1 RoleOwner 0, new_member 2 1 RoleOwner 0,
                              new_member 2 2 RoleViewer 0, new_member 2 3 RoleAdmin 0],
      organization_audit = [], api_tokens = [demo_token], invitations = [demo_invite],
      custom_domains = [demo_claim, demo_live], custom_domain_audit = [],
      zones = [\<lparr>z_ID = 1, z_OrgID = 2, z_Name = ''acme.example''\<rparr>], zone_grants = []\<rparr>"

definition demo_world :: "users_db world" where
  "demo_world = \<lparr>wdb = demo_db, wtick = 0, wrand = 0\<rparr>"

section \<open>Evaluating\<close>

lemmas run_defs = ok_def fail_def try_call_def call_def ignoring_def check_def with_now_def
  store_now_def exec_def query_def query_row_def with_tx_def next_tick_def affected_def
  read_random_def sql_update_def sql_delete_def conflict_or_def

lemma demo_env_simps [simp]:
  "users_cfg demo_env = demo_users" "orgs_cfg demo_env = demo_orgs"
  "domains_cfg demo_env = demo_domains" "clock demo_env n = demo_now"
  "store_clock demo_env n = demo_now" "fault demo_env n = None"
  "rand_read demo_env n k = Inr (replicate k (CHR ''b''))" "rand_fuel demo_env = 40"
  "sha256 demo_env s = s" "json_object demo_env det = ''{}''"
  "LookupTXT demo_env n s = Inr [''proof'']" "json_strings demo_env = pack_strings"
  "json_unstrings demo_env s = Some (unpack_strings s [])"
  "cipher demo_env = Some \<lparr>aead_key = replicate 32 (CHR ''q''), aead_version = 1\<rparr>"
  "truncate_second demo_now = demo_now"
  by (simp_all add: demo_env_def truncate_second_def demo_now_def)

lemma demo_world_simps [simp]:
  "wdb demo_world = demo_db" "wtick demo_world = 0" "wrand demo_world = 0"
  by (simp_all add: demo_world_def)

lemma demo_user_simps [simp]:
  "u_ID (demo_user uid name pw) = uid" "u_Username (demo_user uid name pw) = name"
  "u_Email (demo_user uid name pw) = name @ ''@acme.example''"
  "u_PasswordHash (demo_user uid name pw) = demo_hash pw"
  "u_Status (demo_user uid name pw) = StatusActive"
  "u_LockedUntil (demo_user uid name pw) = None" "u_FailedLogins (demo_user uid name pw) = 0"
  by (simp_all add: demo_user_def new_user_def)

lemma demo_org_simps [simp]:
  "o_ID (demo_org oid slug personal owner) = oid" "o_Slug (demo_org oid slug personal owner) = slug"
  "o_Personal (demo_org oid slug personal owner) = personal"
  "o_OwnerID (demo_org oid slug personal owner) = owner"
  by (simp_all add: demo_org_def new_org_def)

lemma new_member_simps [simp]:
  "m_OrgID (new_member oid uid role ts) = oid" "m_UserID (new_member oid uid role ts) = uid"
  "m_Role (new_member oid uid role ts) = role"
  by (simp_all add: new_member_def)

lemma demo_db_simps [simp]:
  "users demo_db = [demo_user 1 ''alice'' ''wonderland'', demo_user 2 ''bob'' ''builder99'',
                    demo_user 3 ''carol'' ''christmas'']"
  "user_sessions demo_db = [demo_session]" "totp_secrets demo_db = [demo_totp]"
  "organizations demo_db = [demo_org 1 ''alice'' True 1, demo_org 2 ''acme'' False 1]"
  "organization_members demo_db = [new_member 1 1 RoleOwner 0, new_member 2 1 RoleOwner 0,
                                   new_member 2 2 RoleViewer 0, new_member 2 3 RoleAdmin 0]"
  "api_tokens demo_db = [demo_token]" "invitations demo_db = [demo_invite]"
  "custom_domains demo_db = [demo_claim, demo_live]"
  "zones demo_db = [\<lparr>z_ID = 1, z_OrgID = 2, z_Name = ''acme.example''\<rparr>]"
  "zone_grants demo_db = []" "user_preferences demo_db = []" "organization_audit demo_db = []"
  "custom_domain_audit demo_db = []"
  by (simp_all add: demo_db_def)

lemma demo_integrity: "db_integrity demo_db"
  by (simp add: integrity_defs unique_on_def demo_db_def demo_session_def new_challenge_def
      demo_totp_def demo_token_def demo_invite_def demo_claim_def demo_live_def new_domain_def
      invite_ok_def domain_ok_def Verified_def model_consts)

end
