(* ===== verification/Org_Access.thy ===== *)
theory Org_Access
  imports Fixtures
begin

text \<open>
  Who may do what in an organization. \<open>role_in\<close> is the abstract view of a membership, \<open>permitted\<close>
  of a permission; \<open>Access\<close> and \<open>require\<close> implement them, and every guarded request of the service
  is refused, without a change of the database, to a caller who is not permitted.
\<close>

section \<open>The abstract view\<close>

definition role_in :: "users_db \<Rightarrow> int \<Rightarrow> int \<Rightarrow> role option" where
  "role_in d oid uid =
     (if has_org d oid then
        (case find_where (\<lambda>m. m_OrgID m = oid \<and> m_UserID m = uid) (organization_members d) of
           None \<Rightarrow> None
         | Some m \<Rightarrow> (case ParseRole (m_Role m) of Inl _ \<Rightarrow> None | Inr r \<Rightarrow> Some r))
      else None)"

definition permitted :: "users_db \<Rightarrow> int \<Rightarrow> int \<Rightarrow> permission \<Rightarrow> bool" where
  "permitted d oid uid p = (case role_in d oid uid of None \<Rightarrow> False | Some r \<Rightarrow> Can r p)"

definition org_row :: "users_db \<Rightarrow> int \<Rightarrow> Org option" where
  "org_row d oid = find_where (\<lambda>o1. o_ID o1 = oid) (organizations d)"

lemma has_org_row: "has_org d oid \<longleftrightarrow> (\<exists>o1. org_row d oid = Some o1)"
  using find_where_None [of "\<lambda>o1. o_ID o1 = oid" "organizations d"]
  by (auto simp: has_org_def org_row_def)

lemma role_in_known: "role_in d oid uid = Some r \<Longrightarrow> known_role r"
  by (auto simp: role_in_def ParseRole_Inr split: option.splits sum.splits if_splits)

section \<open>Running the gate\<close>

lemma Access_returns [returns_simps]:
  "Access e oid uid w = (Inr a, w') \<longleftrightarrow>
     fault e (wtick w) = None \<and> fault e (Suc (wtick w)) = None
   \<and> org_row (wdb w) oid = Some (access_Org a) \<and> role_in (wdb w) oid uid = Some (access_Role a)
   \<and> w' = next_tick (next_tick w)"
  by (cases a)
    (auto simp: Access_def st_OrgByID_def st_Membership_def returns_simps role_in_def has_org_row
      org_row_def split: option.splits sum.splits)

lemma require_returns [returns_simps]:
  "require e oid uid p w = (Inr a, w') \<longleftrightarrow>
     Access e oid uid w = (Inr a, w') \<and> Can (access_Role a) p"
  by (auto simp: require_def returns_simps access_Can_def)

lemma reads_gate: "reads (Access e oid uid)" "reads (require e oid uid p)"
  by (rule readsI, rule keeps_Access keeps_require)+

text \<open>An action that is refused: it reports an error and leaves the database as it was.\<close>

definition refused :: "('d, 'a) action \<Rightarrow> 'd world \<Rightarrow> bool" where
  "refused m w \<longleftrightarrow> (case m w of (Inl _, w') \<Rightarrow> wdb w' = wdb w | (Inr _, _) \<Rightarrow> False)"

named_theorems refused_intros "where the refusal of an operation comes from"

lemma refused_fail [refused_intros]: "refused (fail x) w"
  by (simp add: refused_def fail_def)

lemma refused_if [refused_intros]: "refused m w \<Longrightarrow> refused k w \<Longrightarrow> refused (if c then m else k) w"
  by simp

lemma refused_Let [refused_intros]: "refused (k x) w \<Longrightarrow> refused (Let x k) w"
  by simp

lemma refused_call [refused_intros]: "refused m w \<Longrightarrow> refused (call m f k) w"
  by (auto simp: refused_def call_def try_call_def fail_def split: prod.splits sum.splits)

lemma refused_drop [refused_intros]: "refused m w \<Longrightarrow> refused (drop_result m) w"
  unfolding drop_result_def by (rule refused_call)

lemma refused_read: "reads m \<Longrightarrow> \<forall>a w'. m w \<noteq> (Inr a, w') \<Longrightarrow> refused m w"
  by (auto simp: refused_def readsD split: prod.splits sum.splits)

lemma refused_Access: "role_in (wdb w) oid uid = None \<Longrightarrow> refused (Access e oid uid) w"
  by (rule refused_read) (simp_all add: reads_gate returns_simps)

lemma refused_require: "\<not> permitted (wdb w) oid uid p \<Longrightarrow> refused (require e oid uid p) w"
  by (rule refused_read) (auto simp: reads_gate returns_simps permitted_def)

section \<open>The permission each request needs\<close>

text \<open>
  The organization, the caller and the permission of every request that acts on an organization.
  Leaving or removing a member and transferring the ownership need a membership; what else they
  need is in \<open>removal_gate\<close> and \<open>TransferOrg\<close>.
\<close>

fun guard :: "request \<Rightarrow> (int \<times> int \<times> permission) option" where
  "guard (ReqUpdateOrg oid uid _) = Some (oid, uid, PermOrgSettings)"
| "guard (ReqSetOrgVisibility oid uid _) = Some (oid, uid, PermOrgSettings)"
| "guard (ReqDeleteOrg oid uid) = Some (oid, uid, PermOrgDelete)"
| "guard (ReqTransferOrg oid uid _) = Some (oid, uid, PermOrgTransfer)"
| "guard (ReqSetMemberRole oid uid _ _) = Some (oid, uid, PermMembersManage)"
| "guard (ReqRemoveMember oid uid tid) =
     Some (oid, uid, if tid = uid then PermRead else PermMembersManage)"
| "guard (ReqInvite oid uid _) = Some (oid, uid, PermMembersManage)"
| "guard (ReqRevokeInvite oid uid _) = Some (oid, uid, PermMembersManage)"
| "guard (ReqGrantZone oid uid _ _ _) = Some (oid, uid, PermMembersManage)"
| "guard (ReqRevokeZone oid uid _ _) = Some (oid, uid, PermMembersManage)"
| "guard (ReqIssueToken uid inp) = Some (it_OrgID inp, uid, PermTokensManage)"
| "guard (ReqRevokeOrgToken oid uid _) = Some (oid, uid, PermTokensManage)"
| "guard (ReqAddDomain oid uid _) = Some (oid, uid, PermOrgSettings)"
| "guard (ReqVerifyDomain oid uid _) = Some (oid, uid, PermOrgSettings)"
| "guard (ReqSetDomainPurpose oid uid _ _) = Some (oid, uid, PermOrgSettings)"
| "guard (ReqSuspendDomain oid uid _ _) = Some (oid, uid, PermOrgSettings)"
| "guard (ReqRemoveDomain oid uid _) = Some (oid, uid, PermOrgSettings)"
| "guard _ = None"

lemma Can_transfer_iff: "Can r PermOrgTransfer \<longleftrightarrow> r = RoleOwner"
  by (cases "known_role r") (auto simp: known_role_def role_simps perm_defs Can_unknown)

lemma Can_read_iff: "Can r PermRead \<longleftrightarrow> known_role r"
  by (cases "known_role r") (auto simp: known_role_def role_simps perm_defs Can_unknown)

lemma refused_transfer:
  assumes "\<not> permitted (wdb w) oid uid PermOrgTransfer"
  shows "refused (Service_Orgs.TransferOrg e oid uid new) w"
proof (cases "role_in (wdb w) oid uid")
  case None
  then show ?thesis
    unfolding TransferOrg_def by (intro refused_call refused_Access)
next
  case (Some r)
  with assms have "r \<noteq> RoleOwner" by (simp add: permitted_def Can_transfer_iff)
  with Some show ?thesis
    using reads_gate(1) [of e oid uid]
    by (cases "Access e oid uid w")
      (auto simp: TransferOrg_def refused_def call_def try_call_def fail_def returns_simps
        split: sum.splits dest: readsD)
qed

lemma refused_remove:
  assumes "\<not> permitted (wdb w) oid uid (if tid = uid then PermRead else PermMembersManage)"
  shows "refused (Service_Orgs.RemoveMember e oid uid tid) w"
proof (cases "role_in (wdb w) oid uid")
  case None
  then show ?thesis
    unfolding RemoveMember_def by (intro refused_call refused_Access)
next
  case (Some r)
  then have known: "known_role r" by (rule role_in_known)
  with Some assms have "tid \<noteq> uid" "\<not> Can r PermMembersManage"
    by (auto simp: permitted_def Can_read_iff split: if_splits)
  with Some show ?thesis
    using reads_gate(1) [of e oid uid]
    by (cases "Access e oid uid w")
      (auto simp: RemoveMember_def removal_gate_def refused_def call_def try_call_def fail_def
        access_Can_def returns_simps split: sum.splits dest: readsD)
qed

lemma guarded_refused:
  "guard q = Some (oid, uid, p) \<Longrightarrow> \<not> permitted (wdb w) oid uid p \<Longrightarrow> refused (serve e q) w"
  by (cases q)
    (auto simp: UpdateOrg_def SetOrgVisibility_def DeleteOrg_def SetMemberRole_def InviteMember_def
      RevokeInvite_def GrantZone_def RevokeZone_def IssueToken_def RevokeOrgToken_def AddDomain_def
      VerifyDomain_def SetDomainPurpose_def SuspendDomain_def RemoveDomain_def domainForOrg_def
      intro!: refused_intros refused_require refused_transfer refused_remove)

section \<open>The demo organization\<close>

lemma ParseRole_constants [simp]:
  "ParseRole RoleOwner = Inr RoleOwner" "ParseRole RoleAdmin = Inr RoleAdmin"
  "ParseRole RoleEditor = Inr RoleEditor" "ParseRole RoleViewer = Inr RoleViewer"
  by (simp_all add: ParseRole_known known_role_def)

lemma demo_roles [simp]:
  "role_in demo_db 1 1 = Some RoleOwner" "role_in demo_db 2 1 = Some RoleOwner"
  "role_in demo_db 2 2 = Some RoleViewer" "role_in demo_db 2 3 = Some RoleAdmin"
  "role_in demo_db 1 2 = None" "role_in demo_db 7 2 = None"
  "org_row demo_db 1 = Some (demo_org 1 ''alice'' True 1)"
  "org_row demo_db 2 = Some (demo_org 2 ''acme'' False 1)"
  by (simp_all add: role_in_def has_org_def org_row_def find_where_Cons)

text \<open>Evaluating an operation on concrete input.\<close>

definition no_faults :: "env \<Rightarrow> bool" where
  "no_faults e \<longleftrightarrow> (\<forall>n. fault e n = None)"

lemma demo_no_faults [simp]: "no_faults demo_env"
  by (simp add: no_faults_def)

lemma Access_run [simp]:
  "no_faults e \<Longrightarrow> org_row (wdb w) oid = Some org \<Longrightarrow> role_in (wdb w) oid uid = Some r \<Longrightarrow>
   Access e oid uid w = (Inr \<lparr>access_Org = org, access_Role = r\<rparr>, next_tick (next_tick w))"
  by (simp add: Access_returns no_faults_def)

lemma require_run [simp]:
  "no_faults e \<Longrightarrow> org_row (wdb w) oid = Some org \<Longrightarrow> role_in (wdb w) oid uid = Some r \<Longrightarrow> Can r p \<Longrightarrow>
   require e oid uid p w = (Inr \<lparr>access_Org = org, access_Role = r\<rparr>, next_tick (next_tick w))"
  by (simp add: require_returns Access_returns no_faults_def)

lemmas eval_defs = ok_def fail_def try_call_def call_def ignoring_eq check_def with_now_def
  store_now_def exec_def query_def query_row_def with_tx_def affected_def read_random_def
  sql_update_def sql_delete_def find_where_Cons role_simps perm_defs

section \<open>Properties\<close>

text \<open>
  C3: \<open>Access\<close> implements the abstract membership: without a database failure it returns the stored
  organization and the caller's role when the organization exists, the caller has a membership
  row in it and the role stored there is a known one. In every other case, a missing organization
  and an organization the caller is not in alike, the answer is the same \<open>ErrNotFound\<close>; and the
  database is never changed.
\<close>

theorem Access_refines:
  assumes "no_faults e"
  shows "fst (Access e oid uid w) =
           (case (org_row (wdb w) oid, role_in (wdb w) oid uid) of
              (Some org, Some r) \<Rightarrow> Inr \<lparr>access_Org = org, access_Role = r\<rparr>
            | _ \<Rightarrow> Inl ErrNotFound)
         \<and> wdb (snd (Access e oid uid w)) = wdb w"
proof -
  have "wdb (snd (Access e oid uid w)) = wdb w"
    using reads_gate(1) [of e oid uid] by (simp add: reads_def)
  moreover have "fst (Access e oid uid w) = Inl ErrNotFound" if "role_in (wdb w) oid uid = None"
    using that assms
    by (auto simp: Access_def st_OrgByID_def st_Membership_def role_in_def has_org_row org_row_def
        run_defs no_faults_def mapStoreErr_def split: option.splits sum.splits if_splits)
  moreover have "fst (Access e oid uid w) = Inr \<lparr>access_Org = org, access_Role = r\<rparr>"
    if "org_row (wdb w) oid = Some org" "role_in (wdb w) oid uid = Some r" for org r
  proof -
    have "Access e oid uid w = (Inr \<lparr>access_Org = org, access_Role = r\<rparr>, next_tick (next_tick w))"
      using that assms by (simp add: Access_returns no_faults_def)
    then show ?thesis by simp
  qed
  moreover have "role_in (wdb w) oid uid = None" if "org_row (wdb w) oid = None"
    using that by (simp add: role_in_def has_org_row)
  ultimately show ?thesis
    by (auto split: option.splits)
qed

theorem Access_refines_witness:
  "fst (Access demo_env 2 3 demo_world) =
     Inr \<lparr>access_Org = demo_org 2 ''acme'' False 1, access_Role = RoleAdmin\<rparr>
   \<and> fst (Access demo_env 1 2 demo_world) = fst (Access demo_env 7 2 demo_world)"
  using Access_refines [of demo_env 2 3 demo_world] Access_refines [of demo_env 1 2 demo_world]
    Access_refines [of demo_env 7 2 demo_world]
  by (simp split: option.split)

text \<open>
  C2: The permission table is enforced. A request that acts on an organization, from a caller whose
  role there does not have the permission the table of \<open>guard\<close> names (or who has no role there),
  ends with an error and leaves the database exactly as it was, under every environment.
\<close>

theorem guarded_requests_refused:
  assumes "guard q = Some (oid, uid, p)" and "\<not> permitted (wdb w) oid uid p"
  shows "\<exists>x w'. serve e q w = (Inl x, w') \<and> wdb w' = wdb w"
  using guarded_refused [OF assms, of e]
  by (cases "serve e q w") (auto simp: refused_def split: sum.splits)

theorem guarded_requests_refused_witness:
  "\<exists>x w'. serve demo_env (ReqSetMemberRole 2 2 3 ''viewer'') demo_world = (Inl x, w') \<and> wdb w' = demo_db"
  using guarded_requests_refused [of "ReqSetMemberRole 2 2 3 ''viewer''" 2 2 PermMembersManage demo_world
      demo_env]
  by (simp add: permitted_def Can_viewer perm_defs)

end
