(* ===== verification/Org_Changes.thy ===== *)
theory Org_Changes
  imports Org_Access
begin

text \<open>
  What the changes of an organization do when they succeed: roles never rise above their granter,
  a removed member keeps nothing, an invitation admits as often as it says, a transfer moves the
  ownership as a whole.
\<close>

section \<open>The audit trail as a frame\<close>

text \<open>Two databases that differ in the audit trails only.\<close>

definition sans_audit :: "users_db \<Rightarrow> users_db" where
  "sans_audit d = d\<lparr>organization_audit := [], custom_domain_audit := []\<rparr>"

definition audited :: "users_db \<Rightarrow> users_db \<Rightarrow> bool" where
  "audited d d' \<longleftrightarrow> sans_audit d' = sans_audit d"

lemma audited_refl [simp]: "audited d d"
  by (simp add: audited_def)

lemma audited_trans: "audited d d1 \<Longrightarrow> audited d1 d2 \<Longrightarrow> audited d d2"
  by (simp add: audited_def)

lemma sans_audit_fields [simp]:
  "users (sans_audit d) = users d" "user_preferences (sans_audit d) = user_preferences d"
  "user_sessions (sans_audit d) = user_sessions d" "password_resets (sans_audit d) = password_resets d"
  "email_verifications (sans_audit d) = email_verifications d"
  "totp_secrets (sans_audit d) = totp_secrets d" "organizations (sans_audit d) = organizations d"
  "organization_members (sans_audit d) = organization_members d"
  "api_tokens (sans_audit d) = api_tokens d" "invitations (sans_audit d) = invitations d"
  "custom_domains (sans_audit d) = custom_domains d" "zones (sans_audit d) = zones d"
  "zone_grants (sans_audit d) = zone_grants d"
  by (simp_all add: sans_audit_def)

lemma auditedD:
  assumes "audited d d'"
  shows "users d' = users d" "user_preferences d' = user_preferences d"
    "user_sessions d' = user_sessions d" "password_resets d' = password_resets d"
    "email_verifications d' = email_verifications d" "totp_secrets d' = totp_secrets d"
    "organizations d' = organizations d" "organization_members d' = organization_members d"
    "api_tokens d' = api_tokens d" "invitations d' = invitations d"
    "custom_domains d' = custom_domains d" "zones d' = zones d" "zone_grants d' = zone_grants d"
  using assms sans_audit_fields unfolding audited_def by metis+

lemma audited_roles: "audited d d' \<Longrightarrow> role_in d' = role_in d" "audited d d' \<Longrightarrow> org_row d' = org_row d"
  by (auto simp: role_in_def org_row_def has_org_def auditedD fun_eq_iff)

lemma keeps_audited:
  "keeps (audited d) (Service_Base.audit e oid ev at a t det)"
  "keeps (audited d) (domainAudit e did ev a det)"
  by (auto simp: Service_Base.audit_def domainAudit_def st_RecordOrgAudit_def st_RecordDomainAudit_def
      returns_simps audited_def sans_audit_def intro!: hoare_intros keeps_exec)

lemma audited_run:
  "audited (wdb w) (wdb (snd (Service_Base.audit e oid ev at a t det w)))"
  "audited (wdb w) (wdb (snd (domainAudit e did ev a det w)))"
  using keepsD [OF keeps_audited(1) audited_refl prod.collapse [symmetric]]
    keepsD [OF keeps_audited(2) audited_refl prod.collapse [symmetric]]
  by blast+

lemma audited_after [simp]:
  "audited d (wdb (snd (Service_Base.audit e oid ev at a t det w))) = audited d (wdb w)"
  "audited d (wdb (snd (domainAudit e did ev a det w))) = audited d (wdb w)"
  using audited_run [of w] by (simp_all add: audited_def)

section \<open>Roles\<close>

lemma affected_returns [returns_simps]:
  "affected m w = (Inr u, w') \<longleftrightarrow> (\<exists>n. m w = (Inr n, w') \<and> n \<noteq> 0)"
  by (auto simp: affected_def returns_simps)

lemma sql_update_returns [returns_simps]:
  "sql_update table upd p f d = Inr (n, d') \<longleftrightarrow>
     n = count_where p (table d) \<and> d' = upd (update_where p f) d"
  by (auto simp: sql_update_def)

lemma sql_delete_returns [returns_simps]:
  "sql_delete table upd p d = Inr (n, d') \<longleftrightarrow>
     n = count_where p (table d) \<and> d' = upd (delete_where p) d"
  by (auto simp: sql_delete_def)

lemma find_update_member_role:
  "find_where (\<lambda>m. m_OrgID m = o' \<and> m_UserID m = u')
     (update_where (\<lambda>m. m_OrgID m = oid \<and> m_UserID m = uid) (\<lambda>m. m\<lparr>m_Role := r\<rparr>) rows) =
   map_option (\<lambda>m. if o' = oid \<and> u' = uid then m\<lparr>m_Role := r\<rparr> else m)
     (find_where (\<lambda>m. m_OrgID m = o' \<and> m_UserID m = u') rows)"
  by (induction rows) (auto simp: find_where_Cons update_where_def)

lemma count_find: "count_where p rows = 0 \<longleftrightarrow> find_where p rows = None"
  by (simp add: find_where_None)

lemma role_in_update_member_role:
  assumes "update_member_role oid uid r d = Inr (n, d')" and "known_role r"
  shows "role_in d' o' u' =
           (if o' = oid \<and> u' = uid \<and> has_org d oid \<and> n \<noteq> 0 then Some r else role_in d o' u')"
  using assms
  by (auto simp: update_member_role_def returns_simps role_in_def has_org_def find_update_member_role
      ParseRole_known count_find simp del: count_where_zero split: option.splits if_splits)

lemma role_in_someD:
  assumes "update_member_role oid uid r d = Inr (n, d')" and "role_in d oid uid = Some r0"
  shows "has_org d oid \<and> n \<noteq> 0"
  using assms
  by (auto simp: update_member_role_def returns_simps role_in_def count_find simp del: count_where_zero
      split: option.splits if_splits)

lemma SetMemberRole_returns:
  assumes "Service_Orgs.SetMemberRole e oid aid tid raw w = (Inr (), w')"
  shows "\<exists>org ra ro r n d1.
    org_row (wdb w) oid = Some org \<and> \<not> o_Personal org
    \<and> role_in (wdb w) oid aid = Some ra \<and> role_in (wdb w) oid tid = Some ro \<and> ParseRole raw = Inr r
    \<and> CanManageMember ra ro \<and> CanGrantRole ra r
    \<and> update_member_role oid tid r (wdb w) = Inr (n, d1) \<and> audited d1 (wdb w')"
proof -
  from assms obtain a w1 r m ro n d1 where a: "require e oid aid PermMembersManage w = (Inr a, w1)"
    and np: "\<not> o_Personal (access_Org a)" and r: "ParseRole raw = Inr r"
    and m: "find_where (\<lambda>m. m_OrgID m = oid \<and> m_UserID m = tid) (organization_members (wdb w1)) = Some m"
    and ro: "ParseRole (m_Role m) = Inr ro" and may: "CanManageMember (access_Role a) ro"
    "CanGrantRole (access_Role a) r"
    and upd: "update_member_role oid tid r (wdb w1) = Inr (n, d1)" and w': "audited d1 (wdb w')"
    by (auto simp: SetMemberRole_def returns_simps st_Membership_def st_SetMemberRole_def
        simp del: require_returns Access_returns split: if_splits)
  from a have w1: "wdb w1 = wdb w" by (simp add: returns_simps)
  moreover from a have "org_row (wdb w) oid = Some (access_Org a)"
    "role_in (wdb w) oid aid = Some (access_Role a)" by (simp_all add: returns_simps)
  moreover from this m ro have "role_in (wdb w) oid tid = Some ro"
    by (auto simp: role_in_def has_org_row w1 split: if_splits)
  ultimately show ?thesis using np r may upd w' by auto
qed

text \<open>
  C4: Changing a role never escalates. When \<open>SetMemberRole\<close> succeeds, the organization is not a
  personal one, the caller's role has members:manage, and unless the caller is an owner both the
  target's old role and its new one rank strictly below the caller's. Exactly the target's role
  changes: every other role in every organization is what it was.
\<close>

theorem SetMemberRole_no_escalation:
  assumes "Service_Orgs.SetMemberRole e oid aid tid raw w = (Inr (), w')"
  shows "\<exists>org ra ro r.
    org_row (wdb w) oid = Some org \<and> \<not> o_Personal org
    \<and> role_in (wdb w) oid aid = Some ra \<and> role_in (wdb w) oid tid = Some ro \<and> ParseRole raw = Inr r
    \<and> Can ra PermMembersManage \<and> (ra \<noteq> RoleOwner \<longrightarrow> Rank ro < Rank ra \<and> Rank r < Rank ra)
    \<and> (\<forall>o' u'. role_in (wdb w') o' u' =
               (if o' = oid \<and> u' = tid then Some r else role_in (wdb w) o' u'))"
proof -
  from SetMemberRole_returns [OF assms] obtain org ra ro r n d1 where *:
    "org_row (wdb w) oid = Some org" "\<not> o_Personal org" "role_in (wdb w) oid aid = Some ra"
    "role_in (wdb w) oid tid = Some ro" "ParseRole raw = Inr r"
    and may: "CanManageMember ra ro" "CanGrantRole ra r"
    and upd: "update_member_role oid tid r (wdb w) = Inr (n, d1)" and aud: "audited d1 (wdb w')"
    by blast
  have "known_role r" using * by (auto simp: ParseRole_Inr)
  then have "role_in (wdb w') o' u' =
               (if o' = oid \<and> u' = tid then Some r else role_in (wdb w) o' u')" for o' u'
    using role_in_update_member_role [OF upd] role_in_someD [OF upd] *
    by (simp add: audited_roles(1) [OF aud])
  moreover have "Can ra PermMembersManage" "ra \<noteq> RoleOwner \<longrightarrow> Rank ro < Rank ra \<and> Rank r < Rank ra"
    using may by (auto simp: CanManageMember_def CanGrantRole_def split: if_splits)
  ultimately show ?thesis using * by blast
qed

lemma demo_role_run:
  "\<exists>w'. Service_Orgs.SetMemberRole demo_env 2 1 2 RoleEditor demo_world = (Inr (), w')"
  by (simp add: eval_defs SetMemberRole_def st_Membership_def st_SetMemberRole_def
      update_member_role_def CanManageMember_def CanGrantRole_def)

theorem SetMemberRole_no_escalation_witness:
  "\<exists>w'. Service_Orgs.SetMemberRole demo_env 2 1 2 RoleEditor demo_world = (Inr (), w')
        \<and> role_in (wdb w') 2 2 = Some RoleEditor \<and> role_in (wdb w') 2 3 = Some RoleAdmin"
proof -
  obtain w' where run: "Service_Orgs.SetMemberRole demo_env 2 1 2 RoleEditor demo_world = (Inr (), w')"
    using demo_role_run by blast
  show ?thesis using SetMemberRole_no_escalation [OF run] run by auto
qed

section \<open>Removing a member\<close>

definition without_member :: "int \<Rightarrow> int \<Rightarrow> int \<Rightarrow> users_db \<Rightarrow> users_db" where
  "without_member oid uid ts d =
     api_tokens_update (update_where
       (\<lambda>t. t_OrgID t = oid \<and> t_OwnerType t = OwnerUser \<and> t_OwnerID t = uid \<and> t_RevokedAt t = None)
       (\<lambda>t. t\<lparr>t_RevokedAt := Some ts\<rparr>))
     (zone_grants_update (delete_where (\<lambda>g. g_OrgID g = oid \<and> g_UserID g = uid))
     (organization_members_update (delete_where (\<lambda>m. m_OrgID m = oid \<and> m_UserID m = uid)) d))"

lemma st_RemoveMember_returns:
  "st_RemoveMember e oid uid w = (Inr (), w') \<Longrightarrow> \<exists>ts. wdb w' = without_member oid uid ts (wdb w)"
  by (auto simp: st_RemoveMember_def returns_simps revoke_org_tokens_def without_member_def
      split: if_splits intro!: exI [of _ "truncate_second (store_clock e (Suc (Suc (Suc (wtick w)))))"])

lemma reads_removal_gate: "reads (removal_gate e oid aid tid a)"
  by (rule readsI) (auto simp: removal_gate_def st_Membership_def intro!: hoare_intros)

lemma RemoveMember_returns:
  assumes "Service_Orgs.RemoveMember e oid aid tid w = (Inr (), w')"
  shows "\<exists>org ra ts.
    org_row (wdb w) oid = Some org \<and> \<not> o_Personal org \<and> o_OwnerID org \<noteq> tid
    \<and> role_in (wdb w) oid aid = Some ra
    \<and> (tid \<noteq> aid \<longrightarrow> (\<exists>ro. role_in (wdb w) oid tid = Some ro \<and> CanManageMember ra ro))
    \<and> audited (without_member oid tid ts (wdb w)) (wdb w')"
proof -
  from assms obtain a w1 w2 w3 where a: "Access e oid aid w = (Inr a, w1)"
    and g: "removal_gate e oid aid tid a w1 = (Inr (), w2)"
    and np: "\<not> o_Personal (access_Org a)" "o_OwnerID (access_Org a) \<noteq> tid"
    and rm: "st_RemoveMember e oid tid w2 = (Inr (), w3)" and aud: "audited (wdb w3) (wdb w')"
    by (auto simp: RemoveMember_def returns_simps simp del: Access_returns split: if_splits)
  from a have w1: "wdb w1 = wdb w" and org: "org_row (wdb w) oid = Some (access_Org a)"
    and ra: "role_in (wdb w) oid aid = Some (access_Role a)" by (simp_all add: returns_simps)
  from g have "wdb w2 = wdb w1" by (rule readsD [OF reads_removal_gate])
  moreover from g have "tid \<noteq> aid \<longrightarrow> (\<exists>ro. role_in (wdb w) oid tid = Some ro \<and> CanManageMember (access_Role a) ro)"
    using org
    by (auto simp: removal_gate_def returns_simps st_Membership_def w1 role_in_def has_org_row
        split: if_splits)
  ultimately show ?thesis
    using st_RemoveMember_returns [OF rm] w1 org ra np aud by fastforce
qed

lemma find_delete_member:
  "find_where (\<lambda>m. m_OrgID m = o' \<and> m_UserID m = u')
     (delete_where (\<lambda>m. m_OrgID m = oid \<and> m_UserID m = uid) rows) =
   (if o' = oid \<and> u' = uid then None
    else find_where (\<lambda>m. m_OrgID m = o' \<and> m_UserID m = u') rows)"
  by (induction rows) (auto simp: find_where_Cons delete_where_def)

lemma role_in_without_member:
  "role_in (without_member oid uid ts d) o' u' =
     (if o' = oid \<and> u' = uid then None else role_in d o' u')"
  by (simp add: role_in_def without_member_def has_org_def find_delete_member)

text \<open>
  C5: Removing a member removes everything the membership gave. When \<open>RemoveMember\<close> succeeds, the
  caller had a role in a non-personal organization whose owner is not the target, and outranked the
  target unless they are the same; afterwards the target has no role and no zone grant there, every
  API token it held in that organization is revoked, and all other roles are unchanged.
\<close>

theorem RemoveMember_revokes_all:
  assumes "Service_Orgs.RemoveMember e oid aid tid w = (Inr (), w')"
  shows "(\<exists>org ra. org_row (wdb w) oid = Some org \<and> \<not> o_Personal org \<and> o_OwnerID org \<noteq> tid
            \<and> role_in (wdb w) oid aid = Some ra
            \<and> (tid \<noteq> aid \<longrightarrow> (\<exists>ro. role_in (wdb w) oid tid = Some ro \<and> CanManageMember ra ro)))
         \<and> (\<forall>o' u'. role_in (wdb w') o' u' =
                    (if o' = oid \<and> u' = tid then None else role_in (wdb w) o' u'))
         \<and> (\<forall>g \<in> set (zone_grants (wdb w')). \<not> (g_OrgID g = oid \<and> g_UserID g = tid))
         \<and> (\<forall>t \<in> set (api_tokens (wdb w')).
              t_OrgID t = oid \<and> t_OwnerType t = OwnerUser \<and> t_OwnerID t = tid \<longrightarrow> t_RevokedAt t \<noteq> None)"
proof -
  from RemoveMember_returns [OF assms] obtain org ra ts where
    gate: "org_row (wdb w) oid = Some org" "\<not> o_Personal org" "o_OwnerID org \<noteq> tid"
      "role_in (wdb w) oid aid = Some ra"
      "tid \<noteq> aid \<longrightarrow> (\<exists>ro. role_in (wdb w) oid tid = Some ro \<and> CanManageMember ra ro)"
    and aud: "audited (without_member oid tid ts (wdb w)) (wdb w')" by blast
  note after = auditedD [OF aud] audited_roles [OF aud]
  have "\<forall>o' u'. role_in (wdb w') o' u' = (if o' = oid \<and> u' = tid then None else role_in (wdb w) o' u')"
    by (simp add: after role_in_without_member)
  moreover have "\<forall>g \<in> set (zone_grants (wdb w')). \<not> (g_OrgID g = oid \<and> g_UserID g = tid)"
    by (simp add: after without_member_def)
  moreover have "\<forall>t \<in> set (api_tokens (wdb w')).
      t_OrgID t = oid \<and> t_OwnerType t = OwnerUser \<and> t_OwnerID t = tid \<longrightarrow> t_RevokedAt t \<noteq> None"
    by (auto simp: after without_member_def ball_update_where)
  ultimately show ?thesis using gate by blast
qed

lemma demo_remove_run:
  "\<exists>w'. Service_Orgs.RemoveMember demo_env 2 3 2 demo_world = (Inr (), w')"
  by (simp add: eval_defs RemoveMember_def removal_gate_def st_Membership_def st_RemoveMember_def
      revoke_org_tokens_def CanManageMember_def access_Can_def)

theorem RemoveMember_revokes_all_witness:
  "\<exists>w'. Service_Orgs.RemoveMember demo_env 2 3 2 demo_world = (Inr (), w')
        \<and> role_in (wdb w') 2 2 = None \<and> role_in (wdb w') 2 3 = Some RoleAdmin"
proof -
  obtain w' where run: "Service_Orgs.RemoveMember demo_env 2 3 2 demo_world = (Inr (), w')"
    using demo_remove_run by blast
  show ?thesis using RemoveMember_revokes_all [OF run] run by simp
qed

section \<open>Transferring the ownership\<close>

lemma org_row_set_owner:
  assumes "set_org_owner oid uid ts d = Inr (n, d')"
  shows "org_row d' o' = map_option (\<lambda>o1. if o' = oid then o1\<lparr>o_OwnerID := uid, o_UpdatedAt := ts\<rparr> else o1)
                          (org_row d o')"
    and "organization_members d' = organization_members d" and "has_org d' o' = has_org d o'"
proof -
  have d': "d' = organizations_update (update_where (\<lambda>o1. o_ID o1 = oid)
                   (\<lambda>o1. o1\<lparr>o_OwnerID := uid, o_UpdatedAt := ts\<rparr>)) d"
    using assms by (auto simp: set_org_owner_def sql_update_def split: if_splits)
  have "find_where (\<lambda>o1. o_ID o1 = o') (update_where (\<lambda>o1. o_ID o1 = oid)
          (\<lambda>o1. o1\<lparr>o_OwnerID := uid, o_UpdatedAt := ts\<rparr>) rows) =
        map_option (\<lambda>o1. if o' = oid then o1\<lparr>o_OwnerID := uid, o_UpdatedAt := ts\<rparr> else o1)
          (find_where (\<lambda>o1. o_ID o1 = o') rows)" for rows
    by (induction rows) (auto simp: find_where_Cons update_where_def)
  then show "org_row d' o' = map_option (\<lambda>o1. if o' = oid then o1\<lparr>o_OwnerID := uid, o_UpdatedAt := ts\<rparr>
               else o1) (org_row d o')"
    by (simp add: d' org_row_def)
  then show "has_org d' o' = has_org d o'" by (auto simp: has_org_row)
qed (use assms in \<open>auto simp: set_org_owner_def sql_update_def split: if_splits\<close>)

lemma TransferOrg_returns:
  assumes "Service_Orgs.TransferOrg e oid aid new w = (Inr (), w')"
  shows "\<exists>org n d1 n' d2 ts n2 d3.
    org_row (wdb w) oid = Some org \<and> o_OwnerID org = aid \<and> \<not> o_Personal org \<and> new \<noteq> aid
    \<and> role_in (wdb w) oid aid = Some RoleOwner
    \<and> update_member_role oid new RoleOwner (wdb w) = Inr (n, d1) \<and> n \<noteq> 0
    \<and> update_member_role oid aid RoleAdmin d1 = Inr (n', d2)
    \<and> set_org_owner oid new ts d2 = Inr (n2, d3) \<and> audited d3 (wdb w')"
  using assms
  by (auto simp: TransferOrg_def returns_simps st_TransferOrg_def split: if_splits)
    (blast intro: audited_refl)

lemma update_member_role_frame:
  "update_member_role oid uid r d = Inr (n, d') \<Longrightarrow> org_row d' = org_row d \<and> has_org d' = has_org d"
  by (auto simp: update_member_role_def returns_simps org_row_def has_org_def fun_eq_iff)

lemma role_in_set_owner: "set_org_owner oid uid ts d = Inr (n, d') \<Longrightarrow> role_in d' o' u' = role_in d o' u'"
  using org_row_set_owner [of oid uid ts d n d'] by (simp add: role_in_def)

text \<open>
  Ownership moves as a whole. When \<open>TransferOrg\<close> succeeds, the caller was the recorded owner,
  with the owner role, of a non-personal organization; afterwards the new owner, who was a member,
  is recorded as the owner and has the owner role, the caller is an admin, and no other
  organization and no other role has changed.
\<close>

theorem TransferOrg_moves_ownership:
  assumes "Service_Orgs.TransferOrg e oid aid new w = (Inr (), w')"
  shows "(\<exists>org org'. org_row (wdb w) oid = Some org \<and> o_OwnerID org = aid \<and> \<not> o_Personal org
            \<and> org_row (wdb w') oid = Some org' \<and> o_OwnerID org' = new)
         \<and> new \<noteq> aid \<and> role_in (wdb w) oid aid = Some RoleOwner
         \<and> (\<exists>m \<in> set (organization_members (wdb w)). m_OrgID m = oid \<and> m_UserID m = new)
         \<and> (\<forall>o' u'. role_in (wdb w') o' u' =
              (if o' = oid \<and> u' = new then Some RoleOwner
               else if o' = oid \<and> u' = aid then Some RoleAdmin else role_in (wdb w) o' u'))
         \<and> (\<forall>o'. o' \<noteq> oid \<longrightarrow> org_row (wdb w') o' = org_row (wdb w) o')"
proof -
  from TransferOrg_returns [OF assms] obtain org n d1 n' d2 ts n2 d3 where
    org: "org_row (wdb w) oid = Some org" "o_OwnerID org = aid" "\<not> o_Personal org" "new \<noteq> aid"
      "role_in (wdb w) oid aid = Some RoleOwner"
    and u1: "update_member_role oid new RoleOwner (wdb w) = Inr (n, d1)" "n \<noteq> 0"
    and u2: "update_member_role oid aid RoleAdmin d1 = Inr (n', d2)"
    and u3: "set_org_owner oid new ts d2 = Inr (n2, d3)" and aud: "audited d3 (wdb w')" by blast
  have known: "known_role RoleOwner" "known_role RoleAdmin" by (simp_all add: known_role_def)
  note frames = update_member_role_frame [OF u1(1)] update_member_role_frame [OF u2]
  note after = audited_roles [OF aud] role_in_set_owner [OF u3] org_row_set_owner(1) [OF u3] frames
  have has: "has_org (wdb w) oid" using org by (simp add: has_org_row)
  have r1: "role_in d1 o' u' =
      (if o' = oid \<and> u' = new then Some RoleOwner else role_in (wdb w) o' u')" for o' u'
    using role_in_update_member_role [OF u1(1) known(1)] has u1(2) by simp
  have n': "n' \<noteq> 0" using role_in_someD [OF u2, of RoleOwner] org r1 by simp
  have "\<forall>o' u'. role_in (wdb w') o' u' =
      (if o' = oid \<and> u' = new then Some RoleOwner
       else if o' = oid \<and> u' = aid then Some RoleAdmin else role_in (wdb w) o' u')"
    using role_in_update_member_role [OF u2 known(2)] n' has frames org(4)
    by (auto simp: after r1)
  moreover have "\<exists>m \<in> set (organization_members (wdb w)). m_OrgID m = oid \<and> m_UserID m = new"
    using u1 by (auto simp: update_member_role_def returns_simps)
  moreover have "org_row (wdb w') oid = Some (org\<lparr>o_OwnerID := new, o_UpdatedAt := ts\<rparr>)"
    using org by (simp add: after)
  moreover have "\<forall>o'. o' \<noteq> oid \<longrightarrow> org_row (wdb w') o' = org_row (wdb w) o'"
    by (simp add: after option.map_ident_strong)
  ultimately show ?thesis using org by (intro conjI) (auto intro!: exI)
qed

lemma demo_transfer_run:
  "\<exists>w'. Service_Orgs.TransferOrg demo_env 2 1 3 demo_world = (Inr (), w')"
  by (simp add: eval_defs TransferOrg_def st_TransferOrg_def update_member_role_def
      set_org_owner_def has_user_def has_org_def)

theorem TransferOrg_moves_ownership_witness:
  "\<exists>w'. Service_Orgs.TransferOrg demo_env 2 1 3 demo_world = (Inr (), w')
        \<and> role_in (wdb w') 2 3 = Some RoleOwner \<and> role_in (wdb w') 2 1 = Some RoleAdmin"
proof -
  obtain w' where run: "Service_Orgs.TransferOrg demo_env 2 1 3 demo_world = (Inr (), w')"
    using demo_transfer_run by blast
  show ?thesis using TransferOrg_moves_ownership [OF run] run by simp
qed

section \<open>Deleting an organization\<close>

text \<open>
  Deleting an organization leaves nothing of it behind but its tokens. When \<open>DeleteOrg\<close> succeeds
  the caller had the owner role in a non-personal organization; afterwards there is no organization
  with that id, no member, audit entry, invitation, domain, zone or grant that belongs to it, and
  the rows of other organizations are all still there. The API tokens are exactly those from
  before: the rows of the deleted organization stay in the table.
\<close>

theorem DeleteOrg_cascades:
  assumes "Service_Orgs.DeleteOrg e oid aid w = (Inr (), w')" and "oid \<noteq> 0"
  shows "(\<exists>org. org_row (wdb w) oid = Some org \<and> \<not> o_Personal org)
         \<and> role_in (wdb w) oid aid = Some RoleOwner
         \<and> \<not> has_org (wdb w') oid
         \<and> set (organization_members (wdb w')) = {m \<in> set (organization_members (wdb w)). m_OrgID m \<noteq> oid}
         \<and> set (organization_audit (wdb w')) = {a \<in> set (organization_audit (wdb w)). a_SubjectID a \<noteq> oid}
         \<and> set (invitations (wdb w')) = {i \<in> set (invitations (wdb w)). i_OrgID i \<noteq> oid}
         \<and> set (custom_domains (wdb w')) = {x \<in> set (custom_domains (wdb w)). d_OrgID x \<noteq> oid}
         \<and> set (zones (wdb w')) = {z \<in> set (zones (wdb w)). z_OrgID z \<noteq> oid}
         \<and> (\<forall>g \<in> set (zone_grants (wdb w')). g_OrgID g \<noteq> oid)
         \<and> api_tokens (wdb w') = api_tokens (wdb w)"
proof -
  have owner: "Can r PermOrgDelete \<longleftrightarrow> r = RoleOwner" for r
    by (cases "known_role r") (auto simp: known_role_def role_simps perm_defs Can_unknown)
  from assms obtain org n where a: "org_row (wdb w) oid = Some org"
    "role_in (wdb w) oid aid = Some RoleOwner" "\<not> o_Personal org" and del: "delete_org oid (wdb w) = Inr (n, wdb w')" "n \<noteq> 0"
    by (auto simp: DeleteOrg_def returns_simps st_DeleteOrg_def owner split: if_splits)
  show ?thesis
    using delete_org_present [OF del] a assms(2)
    by (auto simp: org_removed_def delete_domains_def Let_def has_org_def)
qed

lemma demo_delete_run: "\<exists>w'. Service_Orgs.DeleteOrg demo_env 2 1 demo_world = (Inr (), w')"
  by (simp add: eval_defs DeleteOrg_def st_DeleteOrg_def delete_org_def Let_def)

theorem DeleteOrg_cascades_witness:
  "\<exists>w'. Service_Orgs.DeleteOrg demo_env 2 1 demo_world = (Inr (), w') \<and> \<not> has_org (wdb w') 2
        \<and> api_tokens (wdb w') = [demo_token] \<and> t_OrgID demo_token = 2"
proof -
  obtain w' where run: "Service_Orgs.DeleteOrg demo_env 2 1 demo_world = (Inr (), w')"
    using demo_delete_run by blast
  show ?thesis using DeleteOrg_cascades [OF run] run by (simp add: demo_token_def)
qed

section \<open>Invitations\<close>

definition use_invite :: "int \<Rightarrow> int \<Rightarrow> users_db \<Rightarrow> users_db" where
  "use_invite iid ts = invitations_update (update_where
     (\<lambda>i. i_ID i = iid \<and> i_ExpiresAt i > ts \<and> (i_MaxUses i = 0 \<or> i_UseCount i < i_MaxUses i))
     (\<lambda>i. i\<lparr>i_UseCount := i_UseCount i + 1, i_AcceptedAt := Some ts\<rparr>))"

definition invite_row :: "env \<Rightarrow> users_db \<Rightarrow> string \<Rightarrow> Invite option" where
  "invite_row e d code = find_where (\<lambda>i. i_CodeHash i = HashToken e code) (invitations d)"

lemma redeemInvite_returns:
  assumes "redeemInvite e code w = (Inr i, w')"
  shows "invite_row e (wdb w) code = Some i
         \<and> Redeemable i (truncate_second (clock e (Suc (wtick w))))
         \<and> (\<exists>ts. wdb w' = use_invite (i_ID i) ts (wdb w)
              \<and> (\<exists>r \<in> set (invitations (wdb w)). i_ID r = i_ID i \<and> i_ExpiresAt r > ts
                   \<and> (i_MaxUses r = 0 \<or> i_UseCount r < i_MaxUses r)))"
  using assms
  by (auto simp: redeemInvite_def returns_simps st_InviteByHash_def st_RedeemInvite_def use_invite_def
      invite_row_def split: if_splits intro!: exI [of _ "truncate_second (store_clock e (Suc (wtick w)))"])

lemma invite_row_use:
  assumes "db_integrity d" and "invite_row e d code = Some i" and "i_ExpiresAt i > ts"
    and "i_MaxUses i = 0 \<or> i_UseCount i < i_MaxUses i"
  shows "invite_row e (use_invite (i_ID i) ts d) code =
         Some (i\<lparr>i_UseCount := i_UseCount i + 1, i_AcceptedAt := Some ts\<rparr>)"
  using assms(2-4)
  by (simp add: invite_row_def use_invite_def find_where_update_key)

text \<open>
  An invitation admits at most as often as it says. In a database with the invariant, a
  redemption finds the invitation with the code's hash, unexpired and with a use left, and leaves
  it with exactly one use more, never beyond its maximum; and once the last use is gone, the code is
  refused under every environment, without a change of the database.
\<close>

theorem redeemInvite_counts:
  assumes "db_integrity (wdb w)" and "redeemInvite e code w = (Inr i, w')"
  shows "invite_row e (wdb w) code = Some i
         \<and> (\<exists>i'. invite_row e (wdb w') code = Some i' \<and> i_ID i' = i_ID i
              \<and> i_UseCount i' = i_UseCount i + 1 \<and> i_MaxUses i' = i_MaxUses i
              \<and> (i_MaxUses i = 0 \<or> i_UseCount i' \<le> i_MaxUses i)
              \<and> (i_MaxUses i \<noteq> 0 \<and> i_UseCount i' = i_MaxUses i \<longrightarrow>
                   (\<forall>e2 w2. sha256 e2 = sha256 e \<and> wdb w2 = wdb w' \<longrightarrow> refused (redeemInvite e2 code) w2)))"
proof -
  from redeemInvite_returns [OF assms(2)] obtain ts r where i: "invite_row e (wdb w) code = Some i"
    and w': "wdb w' = use_invite (i_ID i) ts (wdb w)"
    and r: "r \<in> set (invitations (wdb w))" "i_ID r = i_ID i" "i_ExpiresAt r > ts"
      "i_MaxUses r = 0 \<or> i_UseCount r < i_MaxUses r" by blast
  have "i \<in> set (invitations (wdb w))" using i by (auto simp: invite_row_def dest: find_where_SomeD)
  then have "r = i"
    using r assms(1) unique_onD [of i_ID "invitations (wdb w)" r i] by (simp add: integrity_defs)
  define i' where "i' = i\<lparr>i_UseCount := i_UseCount i + 1, i_AcceptedAt := Some ts\<rparr>"
  have i': "invite_row e (wdb w') code = Some i'"
    using invite_row_use [OF assms(1) i] r(3,4) \<open>r = i\<close> by (simp add: w' i'_def)
  have "refused (redeemInvite e2 code) w2"
    if used: "i_MaxUses i \<noteq> 0" "i_UseCount i' = i_MaxUses i"
      and w2: "sha256 e2 = sha256 e" "wdb w2 = wdb w'" for e2 w2
  proof -
    have "invite_row e2 (wdb w2) code = Some i'"
      using i' w2 by (simp add: invite_row_def HashToken_def)
    moreover have "\<not> Redeemable i' now" for now using used by (simp add: Redeemable_def i'_def)
    ultimately show ?thesis
      by (auto simp: refused_def redeemInvite_def st_InviteByHash_def run_defs invite_row_def
          split: option.splits)
  qed
  then show ?thesis
    using i i' r(4) \<open>r = i\<close> by (auto simp: i'_def)
qed

lemma demo_redeem_run: "\<exists>w'. redeemInvite demo_env ''invite-code'' demo_world = (Inr demo_invite, w')"
  by (simp add: eval_defs redeemInvite_def st_InviteByHash_def demo_invite_def Redeemable_def
      st_RedeemInvite_def hour_def second_def)

theorem redeemInvite_counts_witness:
  "\<exists>w'. redeemInvite demo_env ''invite-code'' demo_world = (Inr demo_invite, w')
        \<and> refused (redeemInvite demo_env ''invite-code'') w'"
proof -
  obtain w' where run: "redeemInvite demo_env ''invite-code'' demo_world = (Inr demo_invite, w')"
    using demo_redeem_run by blast
  show ?thesis
    using redeemInvite_counts [OF _ run] demo_integrity run by (auto simp: demo_invite_def)
qed

section \<open>An owner who steps down\<close>

lemma refused_after_read:
  assumes "reads m" and "\<And>a w1. m w = (Inr a, w1) \<Longrightarrow> refused (k a) w1"
  shows "refused (call m f k) w"
proof (cases "m w")
  case (Pair r w1)
  have db: "wdb w1 = wdb w" by (rule readsD [OF assms(1) Pair])
  show ?thesis
  proof (cases r)
    case (Inl x)
    then show ?thesis using Pair db by (simp add: refused_def call_def try_call_def fail_def)
  next
    case (Inr a)
    then show ?thesis
      using Pair db assms(2) by (auto simp: refused_def call_def try_call_def split: prod.splits sum.splits)
  qed
qed

lemma transfer_needs_owner:
  assumes "org_row (wdb w) oid = Some org" and "o_OwnerID org \<noteq> aid \<or> role_in (wdb w) oid aid \<noteq> Some RoleOwner"
  shows "refused (Service_Orgs.TransferOrg e oid aid new) w"
  unfolding TransferOrg_def
  by (rule refused_after_read [OF reads_gate(1)])
    (use assms in \<open>auto simp: returns_simps intro!: refused_intros\<close>)

text \<open>
  The owner of an organization can give up the owner role. On a non-personal organization
  \<open>SetMemberRole\<close> accepts the owner as its own target with any known role; the recorded owner stays
  the same row, so that afterwards nobody can transfer the organization: the recorded owner lacks
  the role, and everybody else is not the recorded owner.
\<close>

theorem owner_can_step_down:
  assumes "no_faults e" and "org_row (wdb w) oid = Some org" and "\<not> o_Personal org"
    and "o_OwnerID org = uid" and "role_in (wdb w) oid uid = Some RoleOwner"
    and "ParseRole raw = Inr r" and "r \<noteq> RoleOwner"
  shows "\<exists>w'. Service_Orgs.SetMemberRole e oid uid uid raw w = (Inr (), w')
              \<and> role_in (wdb w') oid uid = Some r \<and> org_row (wdb w') oid = Some org
              \<and> (\<forall>e2 w2 aid new. wdb w2 = wdb w' \<longrightarrow> refused (Service_Orgs.TransferOrg e2 oid aid new) w2)"
proof -
  obtain m where m: "find_where (\<lambda>m. m_OrgID m = oid \<and> m_UserID m = uid) (organization_members (wdb w)) = Some m"
    "ParseRole (m_Role m) = Inr RoleOwner"
    using assms(5) by (auto simp: role_in_def split: option.splits sum.splits if_splits)
  then have n: "count_where (\<lambda>m. m_OrgID m = oid \<and> m_UserID m = uid) (organization_members (wdb w)) \<noteq> 0"
    by (simp add: count_find del: count_where_zero)
  have can: "Can RoleOwner PermMembersManage" by (simp add: role_simps)
  have may: "CanManageMember RoleOwner RoleOwner" "CanGrantRole RoleOwner r"
    using can assms(7) by (auto simp: CanManageMember_def CanGrantRole_def)
  have f: "fault e n = None" for n using assms(1) by (simp add: no_faults_def)
  obtain w' where run: "Service_Orgs.SetMemberRole e oid uid uid raw w = (Inr (), w')"
    using assms m n can may
    by (simp add: SetMemberRole_def run_defs ignoring_eq require_run [unfolded next_tick_def] st_Membership_def
        st_SetMemberRole_def update_member_role_def f del: count_where_zero ignoring_def)
  from SetMemberRole_returns [OF run] obtain ra n d1 where
    upd: "update_member_role oid uid r (wdb w) = Inr (n, d1)" and aud: "audited d1 (wdb w')"
    using assms(6) by auto
  have "known_role r" using assms(6) by (auto simp: ParseRole_Inr)
  then have r': "role_in (wdb w') oid uid = Some r"
    using role_in_update_member_role [OF upd] role_in_someD [OF upd assms(5)]
    by (simp add: audited_roles(1) [OF aud])
  have o': "org_row (wdb w') oid = Some org"
    using update_member_role_frame [OF upd] assms(2) by (simp add: audited_roles(2) [OF aud])
  have "refused (Service_Orgs.TransferOrg e2 oid aid new) w2" if "wdb w2 = wdb w'" for e2 w2 aid new
  proof (rule transfer_needs_owner)
    show "org_row (wdb w2) oid = Some org" using o' that by simp
    show "o_OwnerID org \<noteq> aid \<or> role_in (wdb w2) oid aid \<noteq> Some RoleOwner"
      using r' assms(4,7) that by auto
  qed
  with run r' o' show ?thesis by blast
qed

theorem owner_can_step_down_witness:
  "\<exists>w'. Service_Orgs.SetMemberRole demo_env 2 1 1 RoleViewer demo_world = (Inr (), w')
        \<and> role_in (wdb w') 2 1 = Some RoleViewer
        \<and> refused (Service_Orgs.TransferOrg demo_env 2 1 3) w'"
  using owner_can_step_down [of demo_env demo_world 2 "demo_org 2 ''acme'' False 1" 1 RoleViewer RoleViewer]
  by auto

section \<open>Accepting an invitation\<close>

definition invited_role :: "env \<Rightarrow> Invite \<Rightarrow> role" where
  "invited_role e i = (case ParseRole (i_Role i) of Inl _ \<Rightarrow> defaultMemberRole e | Inr r \<Rightarrow> r)"

definition is_member :: "users_db \<Rightarrow> int \<Rightarrow> int \<Rightarrow> bool" where
  "is_member d oid uid \<longleftrightarrow>
     find_where (\<lambda>m. m_OrgID m = oid \<and> m_UserID m = uid) (organization_members d) \<noteq> None"

lemma defaultMemberRole_known: "known_role (defaultMemberRole e)"
  by (auto simp: defaultMemberRole_def ParseRole_Inr known_role_def split: sum.splits)

lemma invited_role_known: "known_role (invited_role e i)"
  by (auto simp: invited_role_def defaultMemberRole_known ParseRole_Inr split: sum.splits)

lemma use_invite_frame [simp]:
  "organization_members (use_invite iid ts d) = organization_members d"
  "organizations (use_invite iid ts d) = organizations d" "users (use_invite iid ts d) = users d"
  by (simp_all add: use_invite_def)

lemma find_append1:
  "find_where p (rows @ [r]) =
     (case find_where p rows of Some x \<Rightarrow> Some x | None \<Rightarrow> if p r then Some r else None)"
  by (simp add: find_where_append find_where_Cons split: option.splits)

lemma not_member_iff:
  "\<not> is_member d oid uid \<longleftrightarrow> (\<forall>m \<in> set (organization_members d). m_OrgID m = oid \<longrightarrow> m_UserID m \<noteq> uid)"
  by (auto simp: is_member_def find_where_None)

lemma role_in_insert_member:
  assumes "insert_member m d = Inr (n, d')"
  shows "role_in d' o' u' =
           (if o' = m_OrgID m \<and> u' = m_UserID m then
              (case ParseRole (m_Role m) of Inl _ \<Rightarrow> None | Inr r \<Rightarrow> Some r)
            else role_in d o' u')"
    and "\<not> is_member d (m_OrgID m) (m_UserID m)" and "org_row d' = org_row d"
proof -
  have d': "d' = d\<lparr>organization_members := organization_members d @ [m]\<rparr>"
    and org: "has_org d (m_OrgID m)"
    and new: "\<not> is_member d (m_OrgID m) (m_UserID m)"
    using assms by (simp_all add: insert_member_returns not_member_iff)
  show "\<not> is_member d (m_OrgID m) (m_UserID m)" by (rule new)
  show "org_row d' = org_row d" by (simp add: d' org_row_def fun_eq_iff)
  have "has_org d' o' = has_org d o'" by (simp add: d' has_org_def)
  then show "role_in d' o' u' =
           (if o' = m_OrgID m \<and> u' = m_UserID m then
              (case ParseRole (m_Role m) of Inl _ \<Rightarrow> None | Inr r \<Rightarrow> Some r)
            else role_in d o' u')"
    using new org
    by (auto simp: role_in_def d' find_append1 is_member_def split: option.splits sum.splits)
qed

lemma ascii_column: "list_all ascii ''organization_members.org_id, organization_members.user_id''"
  by (simp add: ascii_def byte_def)

lemma insert_member_conflict:
  assumes "insert_member m d = Inl msg"
  shows "isUniqueViolation (LibError msg) \<longleftrightarrow> is_member d (m_OrgID m) (m_UserID m)"
proof (cases "is_member d (m_OrgID m) (m_UserID m)")
  case True
  then have "msg = unique_msg ''organization_members.org_id, organization_members.user_id''"
    using assms not_member_iff [of d "m_OrgID m" "m_UserID m"]
    by (auto simp: insert_member_def split: if_splits)
  with True show ?thesis using unique_msg_conflict [OF ascii_column] by simp
next
  case False
  then have "msg = foreign_key_msg"
    using assms not_member_iff [of d "m_OrgID m" "m_UserID m"]
    by (auto simp: insert_member_def split: if_splits)
  with False show ?thesis by simp
qed

text \<open>
  An invitation is the only door for a newcomer, and it never changes a member. When
  \<open>AcceptInvite\<close> succeeds on a working database, the code belongs to an invitation of the
  organization it returns; if the account had no membership there it now has the invited role (a
  known one), and otherwise its role is what it was. No other role in any organization changes.
\<close>

theorem AcceptInvite_admits:
  assumes "no_faults e" and "AcceptInvite e uid code w = (Inr org, w')"
  shows "\<exists>i. invite_row e (wdb w) code = Some i \<and> i_OrgID i \<noteq> 0
           \<and> org_row (wdb w) (i_OrgID i) = Some org \<and> known_role (invited_role e i)
           \<and> (\<forall>o' u'. role_in (wdb w') o' u' =
                (if o' = i_OrgID i \<and> u' = uid \<and> \<not> is_member (wdb w) o' u'
                 then Some (invited_role e i) else role_in (wdb w) o' u'))"
proof -
  from assms(2) obtain i w1 where red: "redeemInvite e code w = (Inr i, w1)" and org0: "i_OrgID i \<noteq> 0"
    and rest: "try_call (st_AddMember e (i_OrgID i) uid (invited_role e i))
          (\<lambda>x. if mapStoreErr x = ErrConflict then orgByID e (i_OrgID i) else fail (mapStoreErr x))
          (\<lambda>_. ignoring (Service_Base.audit e (i_OrgID i) EventMemberJoined ActorUser uid uid
                           [(''role'', DetailString (invited_role e i))])
               (orgByID e (i_OrgID i))) w1 = (Inr org, w')"
    by (auto simp: AcceptInvite_def returns_simps invited_role_def Let_def split: if_splits)
  from redeemInvite_returns [OF red] obtain ts where i: "invite_row e (wdb w) code = Some i"
    and w1: "wdb w1 = use_invite (i_ID i) ts (wdb w)" by blast
  have same: "role_in (wdb w1) = role_in (wdb w)" "org_row (wdb w1) = org_row (wdb w)"
    "is_member (wdb w1) = is_member (wdb w)"
    by (simp_all add: w1 role_in_def has_org_def org_row_def is_member_def fun_eq_iff)
  define m where "m = new_member (i_OrgID i) uid (invited_role e i)
                        (truncate_second (store_clock e (wtick w1)))"
  have m: "m_OrgID m = i_OrgID i" "m_UserID m = uid" "ParseRole (m_Role m) = Inr (invited_role e i)"
    using invited_role_known by (simp_all add: m_def ParseRole_known)
  have nof: "fault e n = None" for n using assms(1) by (simp add: no_faults_def)
  show ?thesis
  proof (cases "insert_member m (wdb w1)")
    case (Inl msg)
    have add: "st_AddMember e (i_OrgID i) uid (invited_role e i) w1 =
               (Inl (conflict_or (LibError msg)), next_tick w1)"
      using Inl by (simp add: st_AddMember_def store_now_def call_def try_call_def exec_def fail_def nof
          m_def [symmetric])
    then have "mapStoreErr (conflict_or (LibError msg)) = ErrConflict"
      and o': "orgByID e (i_OrgID i) (next_tick w1) = (Inr org, w')"
      using rest by (auto simp: try_call_def fail_def split: if_splits)
    then have "isUniqueViolation (LibError msg)"
      by (auto simp: conflict_or_def mapStoreErr_def split: if_splits)
    then have "is_member (wdb w) (i_OrgID i) uid"
      using insert_member_conflict [OF Inl] m same by simp
    moreover have "wdb w' = wdb w1" "org_row (wdb w1) (i_OrgID i) = Some org"
      using o' by (auto simp: orgByID_def st_OrgByID_def returns_simps org_row_def)
    ultimately show ?thesis
      using i org0 same invited_role_known by auto
  next
    case (Inr nd)
    obtain n d1 where nd: "nd = (n, d1)" by (cases nd)
    have add: "st_AddMember e (i_OrgID i) uid (invited_role e i) w1 = (Inr (), (next_tick w1)\<lparr>wdb := d1\<rparr>)"
      using Inr by (simp add: nd st_AddMember_def store_now_def call_def try_call_def exec_def ok_def nof
          m_def [symmetric])
    define w2 where "w2 = snd (Service_Base.audit e (i_OrgID i) EventMemberJoined ActorUser uid uid
                            [(''role'', DetailString (invited_role e i))] ((next_tick w1)\<lparr>wdb := d1\<rparr>))"
    have aud: "audited d1 (wdb w2)" by (simp add: w2_def)
    have o': "orgByID e (i_OrgID i) w2 = (Inr org, w')"
      using rest by (simp add: try_call_def add ignoring_eq w2_def)
    then have w': "wdb w' = wdb w2" and "org_row (wdb w2) (i_OrgID i) = Some org"
      by (auto simp: orgByID_def st_OrgByID_def returns_simps org_row_def)
    then have "org_row (wdb w) (i_OrgID i) = Some org"
      using role_in_insert_member(3) [OF Inr [unfolded nd]] same by (simp add: audited_roles [OF aud])
    moreover have "\<not> is_member (wdb w) (i_OrgID i) uid"
      using role_in_insert_member(2) [OF Inr [unfolded nd]] m same by simp
    moreover have "role_in (wdb w') o' u' =
        (if o' = i_OrgID i \<and> u' = uid then Some (invited_role e i) else role_in (wdb w) o' u')" for o' u'
      using role_in_insert_member(1) [OF Inr [unfolded nd]] m same
      by (simp add: w' audited_roles [OF aud])
    ultimately show ?thesis using i org0 invited_role_known by auto
  qed
qed

lemma demo_accept_run:
  "\<exists>w'. AcceptInvite demo_env 3 ''invite-code'' demo_world = (Inr (demo_org 2 ''acme'' False 1), w')"
proof -
  have "\<exists>w'. redeemInvite demo_env ''invite-code'' demo_world = (Inr demo_invite, w')
             \<and> wdb w' = use_invite 1 demo_now demo_db"
    by (simp add: eval_defs redeemInvite_def st_InviteByHash_def demo_invite_def Redeemable_def
        st_RedeemInvite_def hour_def second_def use_invite_def)
  then obtain w1 where red: "redeemInvite demo_env ''invite-code'' demo_world = (Inr demo_invite, w1)"
    and w1: "wdb w1 = use_invite 1 demo_now demo_db" by blast
  have "insert_member (new_member 2 3 r ts) (wdb w1) =
        Inl (unique_msg ''organization_members.org_id, organization_members.user_id'')" for r ts
    by (simp add: insert_member_def w1)
  then show ?thesis
    by (simp add: AcceptInvite_def call_def try_call_def red demo_invite_def st_AddMember_def
        store_now_def exec_def fail_def ok_def conflict_or_def unique_msg_conflict [OF ascii_column]
        mapStoreErr_def orgByID_def st_OrgByID_def query_row_def query_def w1 find_where_Cons)
qed

theorem AcceptInvite_admits_witness:
  "\<exists>w'. AcceptInvite demo_env 3 ''invite-code'' demo_world = (Inr (demo_org 2 ''acme'' False 1), w')
        \<and> role_in (wdb w') 2 3 = Some RoleAdmin"
proof -
  obtain w' where run: "AcceptInvite demo_env 3 ''invite-code'' demo_world =
      (Inr (demo_org 2 ''acme'' False 1), w')" using demo_accept_run by blast
  have "invite_row demo_env demo_db ''invite-code'' = Some demo_invite"
    by (simp add: invite_row_def find_where_Cons) (simp add: demo_invite_def)
  moreover have "is_member demo_db 2 3" by (simp add: is_member_def find_where_Cons)
  ultimately show ?thesis
    using AcceptInvite_admits [OF demo_no_faults run] run by (auto simp: demo_invite_def)
qed

end
