(* ===== verification/Primitives.thy ===== *)
theory Primitives
  imports Org_Changes
begin

text \<open>
  The properties of the pure rules: what the validators accept, how the roles are ordered, what a
  token looks like, and what the password, cipher and one-time code primitives guarantee when
  the algorithms under them do what they document.
\<close>

section \<open>Validators\<close>

text \<open>
  \<open>ValidateName\<close> is the rule its documentation states, error by error: the trimmed lower-case
  name has 2 to 39 bytes, else it reports the length; it has letters, digits and dashes only, a
  letter or digit at both ends and no two dashes in a row, else it reports the format; it is not
  on the blocklist and contains no blocked word, else it is reserved. What it returns is the
  normal form, and a validated name validates again to itself.
\<close>

theorem ValidateName_spec:
  "ValidateName raw =
     (let n = NormalizeName raw
      in if length n < 2 \<or> 39 < length n then Inl ErrNameLength
         else if list_all name_char n \<and> alnum (hd n) \<and> alnum (last n) \<and> \<not> Contains n ''--''
         then (if List.member Blocklist n \<or> list_ex (Contains n) substringBlocked
               then Inl ErrNameReserved else Inr n)
         else Inl ErrNameFormat)"
proof (cases "list_all name_char (NormalizeName raw) \<and> NormalizeName raw \<noteq> []")
  case True
  then have "NormalizeName (NormalizeName raw) = NormalizeName raw"
    by (simp add: NormalizeName_name_chars)
  with True have "IsBlocked (NormalizeName raw) \<longleftrightarrow>
      List.member Blocklist (NormalizeName raw) \<or> list_ex (Contains (NormalizeName raw)) substringBlocked"
    by (simp add: IsBlocked_def Let_def NormalizeName_def [of "NormalizeName raw"])
  then show ?thesis
    by (auto simp: ValidateName_def Let_def namePattern_iff MinNameLength_def MaxNameLength_def)
qed (auto simp: ValidateName_def Let_def namePattern_iff MinNameLength_def MaxNameLength_def)

definition local_char :: "char \<Rightarrow> bool" where
  "local_char c \<longleftrightarrow> alnum c \<or> c \<in> set ''.+_-''"

definition host_char :: "char \<Rightarrow> bool" where
  "host_char c \<longleftrightarrow> alnum c \<or> c \<in> set ''.-''"

lemma byte_is: "byte c = n \<longleftrightarrow> n < 256 \<and> c = chr n"
  using byte_less byte_chr byte_inject by metis

lemma in_cls_email [simp]:
  "in_cls [(97, 122), (48, 57), (46, 46), (43, 43), (95, 95), (45, 45)] = local_char"
  "in_cls [(97, 122), (48, 57), (46, 46), (45, 45)] = host_char"
  by (auto simp: fun_eq_iff in_cls_Cons local_char_def host_char_def alnum_def is_lower_def
      is_digit_def byte_def intro: byte_eqI)

lemma emailLocalPattern_iff: "rx_match emailLocalPattern l \<longleftrightarrow> l \<noteq> [] \<and> list_all local_char l"
  by (simp add: rx_match_iff emailLocalPattern_def rx_RPlus_cls)

lemma rx_lower_tail: "s \<in> rx_lang (RSeq rx_az (RPlus rx_az)) \<longleftrightarrow> 2 \<le> length s \<and> list_all is_lower s"
  by (cases s) (auto simp: rx_az_def rx_RPlus_cls Suc_le_eq simp del: rx_lang.simps(4))

lemma rx_alnum_one: "s \<in> rx_lang rx_alnum \<longleftrightarrow> (\<exists>c. s = [c] \<and> alnum c)"
  by (auto simp: rx_alnum_def)

lemma rx_seq: "s \<in> rx_lang (RSeq a b) \<longleftrightarrow> (\<exists>u v. s = u @ v \<and> u \<in> rx_lang a \<and> v \<in> rx_lang b)"
  by auto

lemma rx_alnum_seq:
  "s \<in> rx_lang (RSeq rx_alnum r) \<longleftrightarrow> (\<exists>c t. s = c # t \<and> alnum c \<and> t \<in> rx_lang r)"
  unfolding rx_seq rx_alnum_one by (metis append_Cons append_Nil)

lemma emailDomainPattern_iff:
  "rx_match emailDomainPattern d \<longleftrightarrow>
   (\<exists>u v. d = u @ CHR ''.'' # v \<and> 2 \<le> length u \<and> list_all host_char u \<and> alnum (hd u) \<and> alnum (last u)
          \<and> 2 \<le> length v \<and> list_all is_lower v)" (is "_ \<longleftrightarrow> ?R")
proof -
  have dot: "s \<in> rx_lang (RSeq (RLit ''.'') (RSeq rx_az (RPlus rx_az))) \<longleftrightarrow>
     (\<exists>v. s = CHR ''.'' # v \<and> 2 \<le> length v \<and> list_all is_lower v)" for s
    unfolding rx_seq [of _ "RLit ''.''"] using rx_lower_tail by (auto simp: rx_RLit)
  have "rx_match emailDomainPattern d \<longleftrightarrow>
     (\<exists>a t. d = a # t \<and> alnum a \<and> (\<exists>m r. t = m @ r \<and> list_all host_char m \<and>
        (\<exists>b q. r = b # q \<and> alnum b \<and> (\<exists>v. q = CHR ''.'' # v \<and> 2 \<le> length v \<and> list_all is_lower v))))"
    unfolding rx_match_iff emailDomainPattern_def rx_alnum_seq rx_seq [of _ "RStar r" for r]
      rx_RStar_cls in_cls_email dot ..
  also have "\<dots> \<longleftrightarrow> (\<exists>a m b v. d = a # m @ b # CHR ''.'' # v \<and> alnum a \<and> list_all host_char m \<and> alnum b
        \<and> 2 \<le> length v \<and> list_all is_lower v)" by blast
  also have "\<dots> \<longleftrightarrow> ?R"
  proof
    assume "\<exists>a m b v. d = a # m @ b # CHR ''.'' # v \<and> alnum a \<and> list_all host_char m \<and> alnum b
        \<and> 2 \<le> length v \<and> list_all is_lower v"
    then obtain a m b v where "d = (a # m @ [b]) @ CHR ''.'' # v" "alnum a" "list_all host_char m"
      "alnum b" "2 \<le> length v" "list_all is_lower v" by auto
    then show ?R by (intro exI [of _ "a # m @ [b]"] exI [of _ v]) (simp add: host_char_def)
  next
    assume ?R
    then obtain u v where d: "d = u @ CHR ''.'' # v" and u: "2 \<le> length u" "list_all host_char u"
      "alnum (hd u)" "alnum (last u)" and v: "2 \<le> length v" "list_all is_lower v" by blast
    from u(1) obtain a m b where "u = a # m @ [b]"
      by (cases u; cases "tl u" rule: rev_cases) auto
    with d u v show "\<exists>a m b v. d = a # m @ b # CHR ''.'' # v \<and> alnum a \<and> list_all host_char m \<and> alnum b
        \<and> 2 \<le> length v \<and> list_all is_lower v" by auto
  qed
  finally show ?thesis .
qed

text \<open>
  C6: What \<open>ValidateEmail\<close> accepts. The address is the trimmed lower-case input, at most 254 bytes
  without two dots in a row; before its last \<open>@\<close> stand 1 to 64 of the letters, digits and
  \<open>. + _ -\<close>, with no dot at either end; after it a host of at least two bytes that begins and ends
  with a letter or digit, a dot, and a top-level domain of two or more letters.
\<close>

theorem ValidateEmail_spec:
  "ValidateEmail raw = Inr e \<longleftrightarrow>
     e = NormalizeEmail raw \<and> length e \<le> 254 \<and> \<not> Contains e ''..''
     \<and> (\<exists>l u v. e = l @ ''@'' @ u @ ''.'' @ v
          \<and> 1 \<le> length l \<and> length l \<le> 64 \<and> list_all local_char l
          \<and> hd l \<noteq> CHR ''.'' \<and> last l \<noteq> CHR ''.''
          \<and> 2 \<le> length u \<and> list_all host_char u \<and> alnum (hd u) \<and> alnum (last u)
          \<and> 2 \<le> length v \<and> list_all is_lower v)"
proof -
  have dot: "HasPrefix l ''.'' \<longleftrightarrow> l \<noteq> [] \<and> hd l = CHR ''.''"
    "HasSuffix l ''.'' \<longleftrightarrow> l \<noteq> [] \<and> last l = CHR ''.''" for l
    by (cases l; auto simp: HasPrefix_def) (cases l rule: rev_cases; auto simp: HasSuffix_def suffix_def)
  have at: "CHR ''@'' \<notin> set (u @ CHR ''.'' # v)" if "list_all host_char u" "list_all is_lower v" for u v
    using that by (auto simp: list_all_iff host_char_def alnum_def is_lower_def is_digit_def byte_def)
  have shape: "(\<exists>l d. e = l @ CHR ''@'' # d \<and> CHR ''@'' \<notin> set d \<and> l \<noteq> [] \<and> length l \<le> 64 \<and> d \<noteq> []
      \<and> \<not> HasPrefix l ''.'' \<and> \<not> HasSuffix l ''.''
      \<and> rx_match emailLocalPattern l \<and> rx_match emailDomainPattern d) \<longleftrightarrow>
    (\<exists>l u v. e = l @ ''@'' @ u @ ''.'' @ v \<and> 1 \<le> length l \<and> length l \<le> 64 \<and> list_all local_char l
          \<and> hd l \<noteq> CHR ''.'' \<and> last l \<noteq> CHR ''.''
          \<and> 2 \<le> length u \<and> list_all host_char u \<and> alnum (hd u) \<and> alnum (last u)
          \<and> 2 \<le> length v \<and> list_all is_lower v)" (is "?A \<longleftrightarrow> ?B")
  proof
    assume ?A
    then obtain l d where l: "e = l @ CHR ''@'' # d" "l \<noteq> []" "length l \<le> 64" "list_all local_char l"
      "hd l \<noteq> CHR ''.''" "last l \<noteq> CHR ''.''" and d: "rx_match emailDomainPattern d"
      unfolding dot emailLocalPattern_iff by blast
    from d obtain u v where "d = u @ CHR ''.'' # v" "2 \<le> length u \<and> list_all host_char u" "alnum (hd u)"
      "alnum (last u)" "2 \<le> length v \<and> list_all is_lower v" unfolding emailDomainPattern_iff by blast
    with l show ?B by (intro exI [of _ l] exI [of _ u] exI [of _ v]) (simp add: Suc_le_eq)
  next
    assume ?B
    then obtain l u v where B: "e = l @ ''@'' @ u @ ''.'' @ v" "1 \<le> length l" "length l \<le> 64"
      "list_all local_char l" "hd l \<noteq> CHR ''.''" "last l \<noteq> CHR ''.''" "2 \<le> length u" "list_all host_char u"
      "alnum (hd u)" "alnum (last u)" "2 \<le> length v" "list_all is_lower v" by blast
    then have "rx_match emailDomainPattern (u @ CHR ''.'' # v)" unfolding emailDomainPattern_iff by blast
    with B at show ?A
      unfolding dot emailLocalPattern_iff
      by (intro exI [of _ l] exI [of _ "u @ CHR ''.'' # v"]) auto
  qed
  show ?thesis unfolding ValidateEmail_Inr_iff shape ..
qed

text \<open>
  What \<open>ValidatePassword\<close> accepts: at least the policy's minimum of runes (8 where the policy
  gives none), and a rune of each required class; every rune that is no letter and no digit counts
  as a special one. Too short is reported before a missing class.
\<close>

theorem ValidatePassword_spec:
  "ValidatePassword uc p password =
     (if int (length (runes password)) < (if MinLength p \<le> 0 then 8 else MinLength p)
      then Some ErrPasswordLength
      else if \<exists>(required, cls) \<in> {(RequireUppercase p, UpperRune), (RequireLowercase p, LowerRune),
                                  (RequireNumber p, DigitRune), (RequireSpecial p, OtherRune)}.
                required \<and> cls \<notin> class_of_rune uc ` set (runes password)
      then Some ErrPasswordComposition
      else None)"
proof -
  define img where "img = class_of_rune uc ` set (runes password)"
  have "password_flags uc (runes password) (False, False, False, False) =
    (UpperRune \<in> img, LowerRune \<in> img, DigitRune \<in> img, OtherRune \<in> img)"
    unfolding password_flags_eq img_def by (simp add: image_iff eq_commute)
  then show ?thesis
    unfolding ValidatePassword_def Let_def img_def [symmetric] by simp
qed

section \<open>Roles\<close>

text \<open>
  The roles form a chain. One role's permissions are contained in another's exactly when its
  rank is not above the other's; a token's role, the request capped by its issuer, carries exactly
  the permissions both have (the issuer's, when the requested role is not a known one); and only an
  owner can make an owner.
\<close>

theorem role_chain:
  "({p. Can r p} \<subseteq> {p. Can s p} \<longleftrightarrow> Rank r \<le> Rank s)
   \<and> {p. Can (CapRole s r) p} = (if known_role r then {p. Can s p} \<inter> {p. Can r p} else {p. Can s p})
   \<and> (CanGrantRole r RoleOwner \<longleftrightarrow> r = RoleOwner)"
proof (intro conjI)
  have top: "Rank r \<le> Rank s" if sub: "{p. Can r p} \<subseteq> {p. Can s p}" for r s
  proof (cases "known_role r")
    case True
    then have "Can r PermRead" by (simp add: Can_read_iff)
    with sub have "known_role s" using Can_known_role by blast
    moreover have "Can s PermOrgDelete" if "r = RoleOwner" using that sub by (auto simp: role_simps)
    moreover have "Can s PermMembersManage" if "r = RoleAdmin" using that sub by (auto simp: role_simps)
    moreover have "Can s PermRecordsWrite" if "r = RoleEditor" using that sub by (auto simp: role_simps)
    ultimately show ?thesis
      using True by (auto simp: known_role_def role_simps perm_defs)
  next
    case False
    then have "Rank r = 0" by simp
    then show ?thesis by linarith
  qed
  show chain: "{p. Can r p} \<subseteq> {p. Can s p} \<longleftrightarrow> Rank r \<le> Rank s"
    using top [of r s] Can_mono [of r s] by blast
  show "{p. Can (CapRole s r) p} = (if known_role r then {p. Can s p} \<inter> {p. Can r p} else {p. Can s p})"
    using Can_mono [of r s] Can_mono [of s r] by (auto simp: CapRole_def)
  show "CanGrantRole r RoleOwner \<longleftrightarrow> r = RoleOwner"
    by (auto simp: CanGrantRole_def Can_members_iff)
qed

section \<open>Random strings and tokens\<close>

text \<open>
  C7: The token parser accepts exactly the six documented shapes: a known prefix with the owner and
  the agent flag that belong to it, followed by 32 letters and digits, and nothing else; it takes
  the token apart without loss.
\<close>

theorem ParseToken_iff:
  "ParseToken t = Inr i \<longleftrightarrow>
     (info_Prefix i, info_OwnerType i, info_IsAgent i) \<in> set token_kinds
     \<and> length (info_Random i) = 32 \<and> isAlphanumeric (info_Random i)
     \<and> t = info_Prefix i @ info_Random i"
proof
  assume "ParseToken t = Inr i"
  then show "(info_Prefix i, info_OwnerType i, info_IsAgent i) \<in> set token_kinds
     \<and> length (info_Random i) = 32 \<and> isAlphanumeric (info_Random i)
     \<and> t = info_Prefix i @ info_Random i"
    using ParseToken_Inr [of t i] by (simp add: RandomLength_def)
next
  assume *: "(info_Prefix i, info_OwnerType i, info_IsAgent i) \<in> set token_kinds
     \<and> length (info_Random i) = 32 \<and> isAlphanumeric (info_Random i)
     \<and> t = info_Prefix i @ info_Random i"
  then show "ParseToken t = Inr i"
    using ParseToken_agent [of "info_Random i"] ParseToken_plain [of "info_Random i"]
    by (cases i) (auto simp: token_kinds_def RandomLength_def)
qed

lemma card_residue:
  assumes "i < 62"
  shows "{b. b < 248 \<and> b mod 62 = (i::nat)} = {i, i + 62, i + 124, i + 186}"
proof (intro equalityI subsetI)
  fix b assume "b \<in> {b. b < 248 \<and> b mod 62 = i}"
  then have b: "b < 248" "b mod 62 = i" by simp_all
  have "b div 62 < 4" using b(1) by (simp add: less_mult_imp_div_less)
  then have "b div 62 \<in> {0, 1, 2, 3}" by auto
  then show "b \<in> {i, i + 62, i + 124, i + 186}"
    using b(2) div_mult_mod_eq [of b 62] by auto
qed (use assms in \<open>auto simp: mod_nat_eqI\<close>)

lemma sample_one:
  "b < 256 \<and> sample_bytes 1 [] [chr b] = [c] \<longleftrightarrow> b < 248 \<and> alphabet ! (b mod 62) = c"
  "b < 256 \<and> sample_bytes 1 [] [chr b] = [] \<longleftrightarrow> 248 \<le> b \<and> b < 256"
proof -
  have "sample_bytes 1 [] [chr b] = (if b < 248 then [alphabet ! (b mod 62)] else [])" if "b < 256"
    using that by (simp add: byte_chr)
  then show "b < 256 \<and> sample_bytes 1 [] [chr b] = [c] \<longleftrightarrow> b < 248 \<and> alphabet ! (b mod 62) = c"
    "b < 256 \<and> sample_bytes 1 [] [chr b] = [] \<longleftrightarrow> 248 \<le> b \<and> b < 256"
    by (cases "b < 256"; cases "b < 248"; simp)+
qed

text \<open>
  Sampling is uniform. Of the 256 values of a random byte, exactly four give each of the 62
  characters of the alphabet, and the eight that would favour the first characters give none.
\<close>

theorem RandomString_uniform:
  "map (\<lambda>c. card {b. b < 256 \<and> sample_bytes 1 [] [chr b] = [c]}) alphabet = replicate 62 4
   \<and> card {b. b < 256 \<and> sample_bytes 1 [] [chr b] = []} = 8"
proof
  have "card {b. b < 248 \<and> alphabet ! (b mod 62) = alphabet ! i} = 4" if i: "i < 62" for i
  proof -
    have "alphabet ! (b mod 62) = alphabet ! i \<longleftrightarrow> b mod 62 = i" for b
      using i by (simp add: nth_eq_iff_index_eq)
    then show ?thesis using card_residue [OF i] by simp
  qed
  then show "map (\<lambda>c. card {b. b < 256 \<and> sample_bytes 1 [] [chr b] = [c]}) alphabet = replicate 62 4"
    unfolding sample_one by (intro nth_equalityI) simp_all
  have "{b. 248 \<le> b \<and> b < (256::nat)} = {248..<256}" by auto
  then show "card {b. b < 256 \<and> sample_bytes 1 [] [chr b] = []} = 8" unfolding sample_one by simp
qed

text \<open>
  C8: Generating a token ends and its result parses. When the random source never fails and every
  read holds a byte below the sampling limit, as many reads as the token has characters are enough:
  \<open>GenerateToken\<close> returns, without touching the database, a token that \<open>ParseToken\<close> takes apart
  into the prefix asked for, the owner type and agent flag that belong to it, and 32 characters.
\<close>

theorem GenerateToken_parses:
  assumes "fair_random e RandomLength" and "RandomLength < rand_fuel e"
    and "(pre, owner, agent) \<in> set token_kinds"
  shows "\<exists>t w' r. GenerateToken e pre w = (Inr t, w') \<and> wdb w' = wdb w
           \<and> ParseToken t = Inr \<lparr>info_Prefix = pre, info_OwnerType = owner, info_IsAgent = agent,
                                 info_Random = r\<rparr>"
proof -
  have pos: "0 < int RandomLength" by (simp add: RandomLength_def)
  obtain r w' where r: "RandomString e (int RandomLength) w = (Inr r, w')"
    using RandomString_total [of e "int RandomLength" w] assms(1,2) pos by auto
  from RandomString_result [OF this] have "length r = 32" "isAlphanumeric r" "wdb w' = wdb w"
    by (simp_all add: RandomLength_def)
  moreover from this have "ParseToken (pre @ r) = Inr \<lparr>info_Prefix = pre, info_OwnerType = owner,
      info_IsAgent = agent, info_Random = r\<rparr>"
    using assms(3) by (simp add: ParseToken_iff [THEN iffD2])
  moreover have "GenerateToken e pre w = (Inr (pre @ r), w')"
    using assms(3) r by (auto simp: GenerateToken_def call_def try_call_def ok_def token_kinds_def)
  ultimately show ?thesis by blast
qed

lemma demo_fair [simp]: "fair_random demo_env n \<longleftrightarrow> 0 < n"
  by (auto simp: fair_random_def byte_def)

theorem GenerateToken_parses_witness:
  "\<exists>t w' r. GenerateToken demo_env PrefixUser demo_world = (Inr t, w') \<and> wdb w' = demo_db
     \<and> ParseToken t = Inr \<lparr>info_Prefix = PrefixUser, info_OwnerType = OwnerUser, info_IsAgent = False,
                           info_Random = r\<rparr>"
  using GenerateToken_parses [of demo_env PrefixUser OwnerUser False demo_world]
  by (simp add: RandomLength_def token_kinds_def)

section \<open>Encodings that can be read back\<close>

text \<open>
  A codec is an encoder whose decoder reads back what it wrote. Distinct values then have distinct
  encodings, and a stored value has one meaning. The codecs of the program are instances.
\<close>

locale codec =
  fixes valid :: "'a \<Rightarrow> bool" and enc :: "'a \<Rightarrow> string" and dec :: "string \<Rightarrow> err + 'a"
  assumes reads_back: "valid x \<Longrightarrow> dec (enc x) = Inr x"
begin

lemma enc_eq_iff: "valid x \<Longrightarrow> valid y \<Longrightarrow> enc x = enc y \<longleftrightarrow> x = y"
  by (metis reads_back sum.inject(2))

lemma enc_inj_on: "inj_on enc {x. valid x}"
  by (auto simp: inj_on_def enc_eq_iff)

lemma reads_only: "valid x \<Longrightarrow> dec (enc x) = Inr y \<longleftrightarrow> y = x"
  by (auto simp: reads_back)

end

definition storable :: "Argon2Params \<times> string \<times> string \<Rightarrow> bool" where
  "storable = (\<lambda>(p, salt, key). valid_params p \<and> length salt = unat (p_SaltLength p)
                                \<and> length key = unat (p_KeyLength p))"

interpretation phc: codec storable "\<lambda>(p, salt, key). encode_hash p salt key" decodeHash
proof
  fix x :: "Argon2Params \<times> string \<times> string"
  obtain p salt key where x: "x = (p, salt, key)" by (cases x)
  assume "storable x"
  then have p: "valid_params p" and len: "length salt = unat (p_SaltLength p)"
    "length key = unat (p_KeyLength p)" by (simp_all add: storable_def x)
  then have "salt \<noteq> []" "key \<noteq> []" using valid_params_nonzero [OF p] by auto
  with len show "decodeHash ((\<lambda>(p, salt, key). encode_hash p salt key) x) = Inr x"
    using decode_encode_hash valid_params_nonzero [OF p] by (simp add: x)
qed

interpretation scope: codec "\<lambda>s. s \<in> {ScopeGlobal, ScopeReadWrite, ScopeRead}" id ParseScope
  by unfold_locales (auto simp: ParseScope_def token_consts)

interpretation role: codec known_role id ParseRole
  by unfold_locales (simp add: ParseRole_known)

interpretation version: codec "\<lambda>(payload, n). 1 \<le> n \<and> n < 2 ^ 63"
  "\<lambda>(payload, n). ''v'' @ itoa_int n @ '':'' @ payload" splitVersionTag
  by unfold_locales (use splitVersionTag_encoded in auto)

section \<open>Passwords\<close>

text \<open>
  A stored password hash means one thing. With \<open>argon2.IDKey\<close> returning keys of the requested
  length and full reads from \<open>crypto/rand\<close>, whatever parameters \<open>HashPasswordWithParams\<close> accepted:
  the hash it wrote verifies exactly those passwords that derive the same key under the drawn salt,
  the password it was made from among them, and it is not due for a rehash under these parameters.
\<close>

theorem HashPassword_verifies:
  assumes "HashPasswordWithParams e password p w = (Inr enc, w')" and "rand_exact e" and "idkey_exact e"
  shows "\<exists>salt. length salt = unat (p_SaltLength p)
           \<and> (\<forall>other. VerifyPassword e other enc =
                        Inr (derive_key e other salt p = derive_key e password salt p))
           \<and> VerifyPassword e password enc = Inr True \<and> NeedsRehash enc p = Inr False
           \<and> wdb w' = wdb w"
proof -
  from HashPassword_decodes [OF assms] obtain salt where
    dec: "decodeHash enc = Inr (p, salt, derive_key e password salt p)"
    and len: "length salt = unat (p_SaltLength p)" and p: "valid_params p" by blast
  have "length (derive_key e password salt p) = unat (p_KeyLength p)"
    using assms(3) by (simp add: idkey_exact_def derive_key_def)
  then have "NeedsRehash enc p = Inr False" using dec len p by (simp add: NeedsRehash_def)
  moreover have "wdb w' = wdb w"
    using assms(1) by (auto simp: HashPasswordWithParams_def returns_simps split: if_splits)
  ultimately show ?thesis using dec len by (auto simp: VerifyPassword_def)
qed

lemma demo_exact [simp]: "rand_exact demo_env" "idkey_exact demo_env" "aead_correct demo_env"
  by (auto simp: rand_exact_def idkey_exact_def aead_correct_def demo_env_def Overhead_def)

lemma default_valid [simp]: "valid_params DefaultParams"
  by (simp add: valid_params_def DefaultParams_def)

theorem HashPassword_verifies_witness:
  "\<exists>enc w'. HashPasswordWithParams demo_env ''tea'' DefaultParams demo_world = (Inr enc, w')
     \<and> VerifyPassword demo_env ''tea'' enc = Inr True \<and> NeedsRehash enc DefaultParams = Inr False"
proof -
  obtain enc w' where run: "HashPasswordWithParams demo_env ''tea'' DefaultParams demo_world = (Inr enc, w')"
    by (simp add: HashPasswordWithParams_def eval_defs)
  show ?thesis using HashPassword_verifies [OF run] run by auto
qed

section \<open>Ciphers\<close>

text \<open>
  Rotating the encryption key loses nothing. A value that some cipher of the installation
  encrypted opens, to the plaintext it was made from, with any key ring that holds this cipher as
  its current one or among the previous ones, provided no two ciphers of the ring share a version
  number; and a ring with no cipher of that version refuses it.
\<close>

theorem KeyRing_rotation:
  assumes "Encrypt e c p w = (Inr s, w')" and "rand_exact e" and "aead_correct e"
    and "1 \<le> aead_version c" and "aead_version c < 2 ^ 63"
    and "\<And>c'. Some c' \<in> set (ring_current k # ring_previous k) \<Longrightarrow>
               aead_version c' = aead_version c \<Longrightarrow> c' = c"
  shows "ring_Decrypt e k s =
           (if Some c \<in> set (ring_current k # ring_previous k) then Inr p else Inl ErrDecryptFailed)"
proof -
  note opens = Encrypt_opens [OF assms(1-5)]
  have prev: "try_previous e cs s = (if Some c \<in> set cs then Inr p else Inl ErrDecryptFailed)"
    if "\<And>c'. Some c' \<in> set cs \<Longrightarrow> aead_version c' = aead_version c \<Longrightarrow> c' = c" for cs
    using that
  proof (induction cs)
    case (Cons a cs)
    show ?case
    proof (cases a)
      case None
      with Cons show ?thesis by simp
    next
      case (Some c')
      then have "c' = c \<or> Decrypt e c' s = Inl ErrKeyVersionMismatch"
        using Cons.prems [of c'] opens(2) by auto
      moreover have "try_previous e cs s = (if Some c \<in> set cs then Inr p else Inl ErrDecryptFailed)"
        using Cons by simp
      ultimately show ?thesis using Some opens(1) by (cases "c' = c") auto
    qed
  qed simp
  have "try_previous e (ring_current k # ring_previous k) s = ring_Decrypt e k s"
    by (cases "ring_current k") (simp_all add: ring_Decrypt_def)
  then show ?thesis using prev [OF assms(6)] by metis
qed

theorem KeyRing_rotation_witness:
  "\<exists>s w'. Encrypt demo_env \<lparr>aead_key = ''old'', aead_version = 1\<rparr> ''seed'' demo_world = (Inr s, w')
     \<and> ring_Decrypt demo_env (NewKeyRing (Some \<lparr>aead_key = ''new'', aead_version = 2\<rparr>)
         [Some \<lparr>aead_key = ''old'', aead_version = 1\<rparr>]) s = Inr ''seed''"
proof -
  let ?old = "\<lparr>aead_key = ''old'', aead_version = 1\<rparr>" and ?new = "\<lparr>aead_key = ''new'', aead_version = 2\<rparr>"
  obtain s w' where run: "Encrypt demo_env ?old ''seed'' demo_world = (Inr s, w')"
    by (simp add: Encrypt_def eval_defs)
  have "ring_Decrypt demo_env (NewKeyRing (Some ?new) [Some ?old]) s = Inr ''seed''"
    by (subst KeyRing_rotation [OF run]) (auto simp: NewKeyRing_def)
  with run show ?thesis by blast
qed

section \<open>One-time codes\<close>

text \<open>
  A one-time code is accepted in its window only. With a seed that decodes, \<open>VerifyTOTP\<close> accepts
  a code at a time exactly when, trimmed, it is the code of the period before, of this one or of the
  next; with a seed that does not decode it accepts nothing. Every code has six digits.
\<close>

theorem VerifyTOTP_window:
  "(VerifyTOTP e secret code at \<longleftrightarrow>
      TOTPCode e secret (at - TOTPPeriod) = Inr (TrimSpace code)
      \<or> TOTPCode e secret at = Inr (TrimSpace code)
      \<or> TOTPCode e secret (at + TOTPPeriod) = Inr (TrimSpace code))
   \<and> (case TOTPCode e secret at of
        Inl x \<Rightarrow> x = ErrInvalidTOTPSecret
      | Inr c \<Rightarrow> length c = 6 \<and> list_all is_digit c)"
proof
  have same: "(\<exists>c. TOTPCode e secret t = Inr c) \<longleftrightarrow> (\<exists>c. TOTPCode e secret t' = Inr c)" for t t'
    using TOTPCode_Inl [of e secret t _ t'] TOTPCode_Inl [of e secret t' _ t]
    by (cases "TOTPCode e secret t"; cases "TOTPCode e secret t'") auto
  have six: "length (TrimSpace code) = TOTPDigits" if "TOTPCode e secret t = Inr (TrimSpace code)" for t
    using TOTPCode_digits [OF that] by simp
  show "VerifyTOTP e secret code at \<longleftrightarrow>
      TOTPCode e secret (at - TOTPPeriod) = Inr (TrimSpace code)
      \<or> TOTPCode e secret at = Inr (TrimSpace code)
      \<or> TOTPCode e secret (at + TOTPPeriod) = Inr (TrimSpace code)"
    using six same [of at "at - TOTPPeriod"] same [of at "at + TOTPPeriod"]
    by (simp add: VerifyTOTP_def steps_list match_steps_iff Let_def) metis
  show "case TOTPCode e secret at of
        Inl x \<Rightarrow> x = ErrInvalidTOTPSecret | Inr c \<Rightarrow> length c = 6 \<and> list_all is_digit c"
  proof (cases "TOTPCode e secret at")
    case (Inl x)
    then have "x = ErrInvalidTOTPSecret" by (simp add: TOTPCode_def Let_def split: option.splits)
    with Inl show ?thesis by simp
  next
    case (Inr c)
    then show ?thesis using TOTPCode_digits [OF Inr] by (simp add: TOTPDigits_def)
  qed
qed

end
