(* ===== verification/Sign_In.thy ===== *)
theory Sign_In
  imports Primitives
begin

text \<open>
  Accounts: what registration, sign-in and sessions promise. \<open>user_row\<close> and \<open>identified\<close> are the
  abstract views of the account table the operations are compared with.
\<close>

section \<open>The abstract view\<close>

definition user_row :: "users_db \<Rightarrow> int \<Rightarrow> User option" where
  "user_row d uid = find_where (\<lambda>u. u_ID u = uid) (users d)"

text \<open>The account a login identifier names: by its number, its address or its name.\<close>

definition identified :: "users_db \<Rightarrow> string \<Rightarrow> User option" where
  "identified d raw =
     (case DetectIdentifier raw of
        IdentifierID \<Rightarrow> (case ParseInt64 raw of None \<Rightarrow> None | Some uid \<Rightarrow> user_row d uid)
      | IdentifierEmail \<Rightarrow>
          find_where (\<lambda>u. u_Email u = ToLower (TrimSpace (NormalizeEmail raw))) (users d)
      | IdentifierUsername \<Rightarrow>
          find_where (\<lambda>u. u_Username u = ToLower (TrimSpace (NormalizeName raw))) (users d))"

lemma user_row_audited: "audited d d' \<Longrightarrow> user_row d' = user_row d"
  by (simp add: user_row_def auditedD fun_eq_iff)

lemma lookupIdentifier_run:
  assumes "no_faults e"
  shows "\<exists>w'. lookupIdentifier e raw w = (Inr (identified (wdb w) raw), w') \<and> wdb w' = wdb w
              \<and> wtick w' \<ge> wtick w"
  using assms
  by (auto simp: lookupIdentifier_def identified_def user_row_def st_UserByID_def st_UserByEmail_def
      st_UserByUsername_def run_defs no_faults_def split: identifier_kind.splits option.splits)

section \<open>Registration\<close>

lemma register_invite_users:
  "keeps (\<lambda>d. users d = U \<and> organizations d = O1 \<and> organization_members d = M) (register_invite e inp)"
  by (auto simp: register_invite_def redeemInvite_def st_InviteByHash_def st_RedeemInvite_def
      intro!: hoare_intros keeps_update)

lemma find_fresh:
  "k \<notin> key ` set rows \<Longrightarrow> find_where (\<lambda>r. key r = k) (rows @ [x]) = (if key x = k then Some x else None)"
  by (induction rows) (auto simp: find_where_Cons)

lemma st_CreateUser_returns:
  assumes "st_CreateUser e u w = (Inr v, w')"
  shows "\<exists>ts. v = u\<lparr>u_FailedLogins := 0, u_LockedUntil := None, u_LastLoginAt := None,
                    u_CreatedAt := ts, u_UpdatedAt := ts, u_ID := next_id (map u_ID (users (wdb w)))\<rparr>
           \<and> wdb w' = (wdb w)\<lparr>users := users (wdb w) @ [v]\<rparr>
           \<and> (\<forall>x \<in> set (users (wdb w)). u_Username x \<noteq> u_Username u \<and> u_Email x \<noteq> u_Email u)"
  using assms
  by (auto simp: st_CreateUser_def st_UserByID_def returns_simps find_fresh)

lemma createPersonalOrg_returns:
  assumes "createPersonalOrg e a w = (Inr org, w')"
  shows "\<exists>ts d1. org = (new_org (u_Username a) (u_DisplayName a) [] [] [] (defaultOrgVisibility e) True (u_ID a))
                    \<lparr>o_ID := next_id (map o_ID (organizations (wdb w))), o_CreatedAt := ts, o_UpdatedAt := ts\<rparr>
           \<and> d1 = (wdb w)\<lparr>organizations := organizations (wdb w) @ [org],
                organization_members := organization_members (wdb w) @
                  [new_member (o_ID org) (u_ID a) RoleOwner ts]\<rparr>
           \<and> (\<forall>x \<in> set (organizations (wdb w)). o_Slug x \<noteq> u_Username a)
           \<and> \<not> is_member (wdb w) (o_ID org) (u_ID a)
           \<and> audited d1 (wdb w')"
proof -
  from assms obtain w1 where c: "st_CreateOrg e (new_org (u_Username a) (u_DisplayName a) [] [] []
      (defaultOrgVisibility e) True (u_ID a)) w = (Inr org, w1)" and aud: "audited (wdb w1) (wdb w')"
    by (auto simp: createPersonalOrg_def returns_simps)
  then show ?thesis
    by (auto simp: st_CreateOrg_def st_OrgByID_def returns_simps find_fresh new_org_def not_member_iff
        intro!: exI [of _ "truncate_second (store_clock e (wtick w))"])
qed

lemma register_join_returns:
  assumes "register_join e invite u w = (Inr (), w')"
  shows "audited (wdb w) (wdb w')
     \<or> (\<exists>i r ts n d1. invite = Some i \<and> insert_member (new_member (i_OrgID i) (u_ID u) r ts) (wdb w) = Inr (n, d1)
          \<and> audited d1 (wdb w'))"
proof (cases "\<exists>i. invite = Some i \<and> i_OrgID i \<noteq> 0")
  case True
  then obtain i where i: "invite = Some i" "i_OrgID i \<noteq> 0" by blast
  define r where "r = (case ParseRole (i_Role i) of Inl _ \<Rightarrow> defaultMemberRole e | Inr r \<Rightarrow> r)"
  from assms i obtain w1 where add: "st_AddMember e (i_OrgID i) (u_ID u) r w = (Inr (), w1)"
    and aud: "audited (wdb w1) (wdb w')"
    by (auto simp: register_join_def joinInvitedOrg_def returns_simps r_def [symmetric])
  from add obtain ts n d1 where
    "insert_member (new_member (i_OrgID i) (u_ID u) r ts) (wdb w) = Inr (n, d1)" "wdb w1 = d1"
    by (auto simp: st_AddMember_def store_now_returns call_returns exec_returns ok_returns)
  with i aud show ?thesis by blast
next
  case False
  then have "w' = w" using assms by (cases invite) (auto simp: register_join_def returns_simps)
  then show ?thesis by simp
qed

lemma register_join_frame:
  assumes "register_join e invite u w = (Inr (), w')"
  shows "users (wdb w') = users (wdb w)" and "org_row (wdb w') = org_row (wdb w)"
    and "role_in (wdb w) oid (u_ID u) = Some r \<Longrightarrow> role_in (wdb w') oid (u_ID u) = Some r"
proof -
  consider "audited (wdb w) (wdb w')"
    | i :: Invite and r' ts n d1 where "insert_member (new_member (i_OrgID i) (u_ID u) r' ts) (wdb w) = Inr (n, d1)"
        "audited d1 (wdb w')"
    using register_join_returns [OF assms] by blast
  then have "users (wdb w') = users (wdb w) \<and> org_row (wdb w') = org_row (wdb w)
     \<and> (role_in (wdb w) oid (u_ID u) = Some r \<longrightarrow> role_in (wdb w') oid (u_ID u) = Some r)"
  proof cases
    case 1
    then show ?thesis by (simp add: auditedD audited_roles)
  next
    case 2
    note ins = role_in_insert_member [OF 2(1)]
    have "is_member (wdb w) oid (u_ID u)" if "role_in (wdb w) oid (u_ID u) = Some r"
      using that by (auto simp: role_in_def is_member_def split: option.splits if_splits)
    moreover have "users d1 = users (wdb w)" using 2(1) by (auto simp: insert_member_returns)
    ultimately show ?thesis
      using ins auditedD(1) [OF 2(2)] audited_roles [OF 2(2)] by auto
  qed
  then show "users (wdb w') = users (wdb w)" "org_row (wdb w') = org_row (wdb w)"
    "role_in (wdb w) oid (u_ID u) = Some r \<Longrightarrow> role_in (wdb w') oid (u_ID u) = Some r" by blast+
qed

text \<open>
  C9: What a registration gives. When \<open>Register\<close> succeeds, accounts are enabled, the mode admits
  this way of signing up, the name, the address and the password pass their validators and the
  address's domain is accepted; the new account is in the table under an id of its own with the
  validated name and address, which nobody had, unverified and active or, where confirmation is
  required, pending; and it owns a personal organization named after it, as its owner.
\<close>

theorem Register_result:
  assumes "Register e inp w = (Inr u, w')"
  shows "users_Enabled (users_cfg e) \<and> registration_gate e inp = None
    \<and> ValidateName (rg_Username inp) = Inr (u_Username u) \<and> ValidateEmail (rg_Email inp) = Inr (u_Email u)
    \<and> ValidatePassword (rune_classes e) (passwordPolicy e) (rg_Password inp) = None
    \<and> EmailDomainAllowed (u_Email u) (AllowedDomains (cfg_Registration (users_cfg e)))
        (BlockedDomains (cfg_Registration (users_cfg e)))
    \<and> user_row (wdb w) (u_ID u) = None \<and> user_row (wdb w') (u_ID u) = Some u
    \<and> (\<forall>x \<in> set (users (wdb w)). u_Username x \<noteq> u_Username u \<and> u_Email x \<noteq> u_Email u)
    \<and> \<not> u_EmailVerified u
    \<and> u_Status u = (if RequireEmailVerification (cfg_Registration (users_cfg e)) \<and> \<not> rg_ByAdmin inp
                    then StatusPending else StatusActive)
    \<and> (\<exists>oid org. org_row (wdb w') oid = Some org \<and> o_Personal org \<and> o_Slug org = u_Username u
              \<and> o_OwnerID org = u_ID u \<and> role_in (wdb w') oid (u_ID u) = Some RoleOwner)"
proof -
  define U where "U = users (wdb w)"
  obtain name mail invite hash org w1 w2 w3 w4 where
    gate: "users_Enabled (users_cfg e)" "registration_gate e inp = None"
      "ValidateName (rg_Username inp) = Inr name" "ValidateEmail (rg_Email inp) = Inr mail"
      "ValidatePassword (rune_classes e) (passwordPolicy e) (rg_Password inp) = None"
      "EmailDomainAllowed mail (AllowedDomains (cfg_Registration (users_cfg e)))
         (BlockedDomains (cfg_Registration (users_cfg e)))"
    and inv: "register_invite e inp w = (Inr invite, w1)"
    and hash: "HashPassword e (rg_Password inp) w1 = (Inr hash, w2)"
    and user: "st_CreateUser e (new_user e name mail hash
         (if RequireEmailVerification (cfg_Registration (users_cfg e)) \<and> \<not> rg_ByAdmin inp
          then StatusPending else StatusActive)) w2 = (Inr u, w3)"
    and porg: "createPersonalOrg e u w3 = (Inr org, w4)" and join: "register_join e invite u w4 = (Inr (), w')"
    using assms
    by (auto simp: Register_def check_password_def returns_simps Let_def
        split: if_splits option.splits)
  have w1: "users (wdb w1) = U"
    using keepsD [OF register_invite_users _ inv] unfolding U_def by blast
  have "reads (HashPassword e (rg_Password inp))" by (rule readsI) (rule keeps_HashPassword)
  from readsD [OF this hash] have w2: "users (wdb w2) = U" by (simp add: w1)
  from st_CreateUser_returns [OF user] obtain ts where
    u: "u_ID u = next_id (map u_ID U)" "u_Username u = name" "u_Email u = mail" "\<not> u_EmailVerified u"
      "u_Status u = (if RequireEmailVerification (cfg_Registration (users_cfg e)) \<and> \<not> rg_ByAdmin inp
                     then StatusPending else StatusActive)"
    and w3: "users (wdb w3) = U @ [u]" and free: "\<forall>x \<in> set U. u_Username x \<noteq> name \<and> u_Email x \<noteq> mail"
    by (auto simp: w2 new_user_def)
  from createPersonalOrg_returns [OF porg] obtain ts d1 where
    org: "org = (new_org (u_Username u) (u_DisplayName u) [] [] [] (defaultOrgVisibility e) True (u_ID u))
                  \<lparr>o_ID := next_id (map o_ID (organizations (wdb w3))), o_CreatedAt := ts, o_UpdatedAt := ts\<rparr>"
    and d1: "d1 = (wdb w3)\<lparr>organizations := organizations (wdb w3) @ [org],
                organization_members := organization_members (wdb w3) @
                  [new_member (o_ID org) (u_ID u) RoleOwner ts]\<rparr>"
    and new: "\<not> is_member (wdb w3) (o_ID org) (u_ID u)" and aud: "audited d1 (wdb w4)" by blast
  have row: "org_row d1 (o_ID org) = Some org"
    by (simp add: d1 org_row_def find_fresh org new_org_def)
  moreover have "role_in d1 (o_ID org) (u_ID u) = Some RoleOwner"
    using new row
    by (auto simp: role_in_def has_org_row d1 find_append1 is_member_def split: option.splits)
  ultimately have "org_row (wdb w') (o_ID org) = Some org"
    "role_in (wdb w') (o_ID org) (u_ID u) = Some RoleOwner"
    using register_join_frame [OF join] by (simp_all add: audited_roles [OF aud])
  moreover have "o_Personal org \<and> o_Slug org = u_Username u \<and> o_OwnerID org = u_ID u"
    by (simp add: org new_org_def)
  ultimately have owns: "\<exists>oid org. org_row (wdb w') oid = Some org \<and> o_Personal org
      \<and> o_Slug org = u_Username u \<and> o_OwnerID org = u_ID u \<and> role_in (wdb w') oid (u_ID u) = Some RoleOwner"
    by blast
  have "users (wdb w') = U @ [u]"
    using register_join_frame(1) [OF join] auditedD(1) [OF aud] by (simp add: d1 w3)
  then have "user_row (wdb w) (u_ID u) = None" "user_row (wdb w') (u_ID u) = Some u"
    using u(1) next_id_image [of u_ID U]
    by (auto simp: user_row_def find_fresh find_where_None U_def [symmetric])
  with gate u free owns show ?thesis by (simp add: U_def)
qed

definition demo_registration :: RegisterInput where
  "demo_registration = \<lparr>rg_Username = ''dave'', rg_Email = ''dave@acme.example'',
     rg_Password = ''xyzzy plugh'', rg_InviteCode = [], rg_ByAdmin = False\<rparr>"

lemma demo_registration_normal:
  "NormalizeEmail ''dave@acme.example'' = ''dave@acme.example''" "NormalizeName ''dave'' = ''dave''"
  by (rule plain_lower_fixed; simp add: plain_byte_def is_upper_def byte_def;
      simp add: plain_byte_def is_upper_def byte_def)+

lemma demo_registration_valid:
  "ValidateName ''dave'' = Inr ''dave''" "ValidateEmail ''dave@acme.example'' = Inr ''dave@acme.example''"
  "EmailDomainAllowed ''dave@acme.example'' [] []"
  "ValidatePassword (rune_classes e) (passwordPolicy demo_env) ''xyzzy plugh'' = None"
proof -
  have no: "\<not> Contains ''dave@acme.example'' ''..''" "\<not> Contains ''dave'' ''--''"
    "\<not> list_ex (Contains ''dave'') substringBlocked" by code_simp+
  have "\<not> List.member Blocklist ''dave''" by (simp add: Blocklist_def)
  with no show "ValidateName ''dave'' = Inr ''dave''"
    using ValidateName_Inr_iff [of "''dave''" "''dave''"] demo_registration_normal(2)
    by (simp add: IsBlocked_def NormalizeName_def name_char_def alnum_def is_lower_def byte_def)
  have "rx_match emailLocalPattern ''dave''" "rx_match emailDomainPattern ''acme.example''" by code_simp+
  with no show "ValidateEmail ''dave@acme.example'' = Inr ''dave@acme.example''"
    unfolding ValidateEmail_Inr_iff demo_registration_normal
    by (intro conjI exI [of _ "''dave''"] exI [of _ "''acme.example''"])
      (simp_all add: HasPrefix_def HasSuffix_def suffix_def)
  show "EmailDomainAllowed ''dave@acme.example'' [] []"
    by (simp add: EmailDomainAllowed_def LastIndexByte_def)
  show "ValidatePassword (rune_classes e) (passwordPolicy demo_env) ''xyzzy plugh'' = None"
    by (simp add: ValidatePassword_def passwordPolicy_def demo_users_def runes_def runes_of_ascii byte_def
        Let_def split: prod.split)
qed

lemma demo_HashPassword:
  "\<exists>h. HashPassword demo_env pw w = (Inr h, w\<lparr>wrand := Suc (wrand w)\<rparr>)"
  by (simp add: HashPassword_def HashPasswordWithParams_def eval_defs)

lemma demo_gates [simp]:
  "users_Enabled demo_users" "RequireEmailVerification (cfg_Registration demo_users) = False"
  "AllowedDomains (cfg_Registration demo_users) = []" "BlockedDomains (cfg_Registration demo_users) = []"
  by (simp_all add: demo_users_def)

lemma demo_gate_open: "registration_gate demo_env demo_registration = None"
proof -
  have "NormalizeName ''open'' = ''open''"
    by (rule plain_lower_fixed; simp add: plain_byte_def is_upper_def byte_def;
        simp add: plain_byte_def is_upper_def byte_def)
  then show ?thesis
    by (simp add: registration_gate_def RegistrationMode_def demo_registration_def demo_users_def
        ParseRegistrationMode_def RegSelfServiceAllowed_def mode_defs)
qed

lemmas register_defs = Register_def check_password_def register_invite_def register_join_def
  createPersonalOrg_def st_CreateUser_def st_CreateOrg_def st_UserByID_def st_OrgByID_def
  insert_user_def insert_org_def insert_member_def new_user_def new_org_def has_user_def has_org_def
  next_id_def

lemma demo_register_runs:
  assumes "d \<in> {demo_db, empty_db}"
  shows "\<exists>u w'. Register demo_env demo_registration \<lparr>wdb = d, wtick = 0, wrand = 0\<rparr> = (Inr u, w')"
proof -
  let ?w = "\<lparr>wdb = d, wtick = 0, wrand = 0\<rparr> :: users_db world"
  obtain h where h: "HashPassword demo_env ''xyzzy plugh'' ?w = (Inr h, ?w\<lparr>wrand := 1\<rparr>)"
    using demo_HashPassword [of "''xyzzy plugh''" ?w] by auto
  from assms show ?thesis
    using demo_gate_open h
    by (auto simp: register_defs demo_registration_def demo_registration_valid eval_defs empty_db_def)
qed

lemma demo_register_run: "\<exists>u w'. Register demo_env demo_registration demo_world = (Inr u, w')"
  using demo_register_runs [of demo_db] by (simp add: demo_world_def)

theorem Register_result_witness:
  "\<exists>u w'. Register demo_env demo_registration demo_world = (Inr u, w') \<and> u_Username u = ''dave''
     \<and> user_row (wdb w') (u_ID u) = Some u
     \<and> (\<exists>oid. role_in (wdb w') oid (u_ID u) = Some RoleOwner)"
proof -
  obtain u w' where run: "Register demo_env demo_registration demo_world = (Inr u, w')"
    using demo_register_run by blast
  show ?thesis
    using Register_result [OF run] run
    by (auto simp: demo_registration_def demo_registration_valid)
qed

end
