(* ===== verification/Logins.thy ===== *)
theory Logins
  imports Sign_In
begin

text \<open>
  Signing in: who is refused with which answer, what a failed attempt leaves behind, when an account
  is locked, and what a session is good for.
\<close>

section \<open>Refusals\<close>

text \<open>A request during which every reading of the clock is the second \<open>now\<close>.\<close>

definition steady :: "env \<Rightarrow> int \<Rightarrow> bool" where
  "steady e now \<longleftrightarrow>
     (\<forall>t. truncate_second (clock e t) = now \<and> truncate_second (store_clock e t) = now)"

lemma demo_steady [simp]: "steady demo_env demo_now"
  by (simp add: steady_def)

definition refusal :: "env \<Rightarrow> User option \<Rightarrow> string \<Rightarrow> int \<Rightarrow> err option" where
  "refusal e found password now =
     (case found of
        None \<Rightarrow> Some ErrInvalidCredentials
      | Some a \<Rightarrow>
          if user_Locked a now then Some ErrAccountLocked
          else if \<not> password_ok e password (stored_hash e found) then Some ErrInvalidCredentials
          else if \<not> user_Active a then Some ErrInvalidCredentials
          else None)"

definition counts_failure :: "env \<Rightarrow> User option \<Rightarrow> string \<Rightarrow> int \<Rightarrow> bool" where
  "counts_failure e found password now \<longleftrightarrow>
     (\<exists>a. found = Some a \<and> \<not> user_Locked a now \<and> \<not> password_ok e password (stored_hash e found))"

definition failed_once :: "UserAuth \<Rightarrow> int \<Rightarrow> User \<Rightarrow> User" where
  "failed_once auth now a =
     a\<lparr>u_FailedLogins := u_FailedLogins a + 1,
       u_LockedUntil :=
         (if MaxFailedLogins auth > 0 \<and> u_FailedLogins a + 1 \<ge> MaxFailedLogins auth
          then Some (truncate_second (now + LockoutDuration auth)) else None),
       u_UpdatedAt := now\<rparr>"

lemma update_where_key:
  assumes "unique_on key rows" and "r \<in> set rows" and "\<And>x. key x = key r \<Longrightarrow> x = r \<Longrightarrow> f x = g x"
  shows "update_where (\<lambda>x. key x = key r) f rows = update_where (\<lambda>x. key x = key r) g rows"
  using assms unique_onD [OF assms(1)] by (auto simp: update_where_def)

lemma identified_row:
  assumes "db_integrity d" and "identified d raw = Some a"
  shows "a \<in> set (users d) \<and> user_row d (u_ID a) = Some a"
proof -
  have "a \<in> set (users d)"
    using assms(2)
    by (auto simp: identified_def user_row_def dest: find_where_SomeD
        split: identifier_kind.splits option.splits)
  moreover have "unique_on u_ID (users d)"
    using assms(1) by (simp add: integrity_defs)
  ultimately show ?thesis by (simp add: user_row_def find_where_key)
qed

lemma affected_update_user_run:
  assumes "no_faults e" and "user_row (wdb w) uid = Some a"
  shows "affected (update_user e uid f) w =
     (Inr (), (next_tick w)\<lparr>wdb := users_update (update_where (\<lambda>u. u_ID u = uid) f) (wdb w)\<rparr>)"
proof -
  have "count_where (\<lambda>u. u_ID u = uid) (users (wdb w)) \<noteq> 0"
    using assms(2) by (simp add: count_find user_row_def del: count_where_zero)
  then show ?thesis
    using assms(1)
    by (simp add: affected_def update_user_def call_def try_call_def exec_def sql_update_def ok_def
        no_faults_def del: count_where_zero)
qed

lemma st_RecordLoginFailure_run:
  assumes "no_faults e" and "steady e now" and "db_integrity (wdb w)" and "user_row (wdb w) uid = Some a"
  shows "st_RecordLoginFailure e uid (MaxFailedLogins auth) (LockoutDuration auth) w =
     (Inr (), (next_tick (next_tick w))
        \<lparr>wdb := users_update (update_where (\<lambda>u. u_ID u = uid) (failed_once auth now)) (wdb w)\<rparr>)"
proof -
  have a: "a \<in> set (users (wdb w))" "u_ID a = uid"
    using assms(4) by (auto simp: user_row_def dest: find_where_SomeD)
  have u: "unique_on u_ID (users (wdb w))" using assms(3) by (simp add: integrity_defs)
  define lock where "lock = (if MaxFailedLogins auth > 0 \<and> u_FailedLogins a + 1 \<ge> MaxFailedLogins auth
            then Some (truncate_second (now + LockoutDuration auth)) else None)"
  let ?f = "\<lambda>r. r\<lparr>u_FailedLogins := u_FailedLogins a + 1, u_LockedUntil := lock, u_UpdatedAt := now\<rparr>"
  have "update_where (\<lambda>u. u_ID u = uid) ?f (users (wdb w)) =
        update_where (\<lambda>u. u_ID u = uid) (failed_once auth now) (users (wdb w))"
    using update_where_key [OF u a(1), of ?f "failed_once auth now"] by (simp add: a(2) failed_once_def lock_def)
  then have same: "users_update (update_where (\<lambda>u. u_ID u = uid) ?f) (wdb w) =
      users_update (update_where (\<lambda>u. u_ID u = uid) (failed_once auth now)) (wdb w)" by simp
  have "st_UserByID e uid w = (Inr a, next_tick w)"
    using assms(1,4) by (simp add: st_UserByID_def query_row_def query_def try_call_def ok_def
        no_faults_def user_row_def)
  moreover have "truncate_second (store_clock e t) = now" for t using assms(2) by (simp add: steady_def)
  moreover have "affected (update_user e uid ?f) (next_tick w) = (Inr (), (next_tick (next_tick w))
        \<lparr>wdb := users_update (update_where (\<lambda>u. u_ID u = uid) (failed_once auth now)) (wdb w)\<rparr>)"
    using affected_update_user_run [OF assms(1), of "next_tick w" uid a ?f] assms(4) same by simp
  ultimately show ?thesis
    unfolding st_RecordLoginFailure_def call_def try_call_def store_now_def Let_def
    by (simp only: prod.case sum.case lock_def)
qed

lemma Login_refused:
  assumes "no_faults e" and "steady e now" and "db_integrity (wdb w)" and "users_Enabled (users_cfg e)"
    and "refusal e (identified (wdb w) (li_Identifier inp)) (li_Password inp) now = Some x"
  shows "fst (Login e inp w) = Inl x
    \<and> wdb (snd (Login e inp w)) =
        (if counts_failure e (identified (wdb w) (li_Identifier inp)) (li_Password inp) now
         then users_update (update_where
                (\<lambda>u. u_ID u = u_ID (the (identified (wdb w) (li_Identifier inp))))
                (failed_once (cfg_Auth (users_cfg e)) now)) (wdb w)
         else wdb w)"
proof -
  obtain w1 where look: "lookupIdentifier e (li_Identifier inp) w =
      (Inr (identified (wdb w) (li_Identifier inp)), w1)" and w1: "wdb w1 = wdb w"
    using lookupIdentifier_run [OF assms(1)] by blast
  have clk: "truncate_second (clock e t) = now" for t using assms(2) by (simp add: steady_def)
  show ?thesis
  proof (cases "identified (wdb w) (li_Identifier inp)")
    case None
    with assms(4,5) look w1 show ?thesis
      by (simp add: Login_def call_def try_call_def fail_def refusal_def counts_failure_def)
  next
    case (Some a)
    have row: "user_row (wdb w1) (u_ID a) = Some a"
      using identified_row [OF assms(3) Some] by (simp add: w1)
    note fails = st_RecordLoginFailure_run [OF assms(1,2) _ row]
    from assms(3-5) look w1 Some fails show ?thesis
      by (auto simp: Login_def call_def try_call_def fail_def refusal_def counts_failure_def
          with_now_def clk Let_def split: if_splits)
  qed
qed

text \<open>
  C10: A refused sign-in says the same about an unknown account, a wrong password and an account
  that is not active. With the database working and its invariant in force, a request whose account
  is unknown, locked, not active, or whose password does not verify ends with the answer of
  \<open>refusal\<close>: \<open>ErrInvalidCredentials\<close> in every case but a locked account. It opens no session, and
  the only change it makes is to count a wrong password on an account that is not locked: one more
  failure, and a lock for the configured time once the configured number is reached.
\<close>

theorem Login_refuses:
  assumes "no_faults e" and "steady e now" and "db_integrity (wdb w)" and "users_Enabled (users_cfg e)"
    and "refusal e (identified (wdb w) (li_Identifier inp)) (li_Password inp) now = Some x"
  shows "fst (Login e inp w) = Inl x
    \<and> wdb (snd (Login e inp w)) =
        (if counts_failure e (identified (wdb w) (li_Identifier inp)) (li_Password inp) now
         then users_update (update_where
                (\<lambda>u. u_ID u = u_ID (the (identified (wdb w) (li_Identifier inp))))
                (failed_once (cfg_Auth (users_cfg e)) now)) (wdb w)
         else wdb w)"
  using assms by (rule Login_refused)

lemma demo_normal:
  "NormalizeName ''nobody'' = ''nobody''" "TrimSpace ''nobody'' = ''nobody''"
  "NormalizeName ''bob'' = ''bob''" "TrimSpace ''bob'' = ''bob''"
  by (rule plain_lower_fixed TrimSpace_plain; simp add: plain_byte_def is_upper_def byte_def;
      simp add: plain_byte_def is_upper_def byte_def)+

lemma demo_identified:
  "identified demo_db ''nobody'' = None"
  "identified demo_db ''bob'' = Some (demo_user 2 ''bob'' ''builder99'')"
proof -
  have "\<not> Contains ''nobody'' ''@''" "\<not> Contains ''bob'' ''@''" by code_simp+
  then have "DetectIdentifier ''nobody'' = IdentifierUsername" "DetectIdentifier ''bob'' = IdentifierUsername"
    by (simp_all add: DetectIdentifier_def demo_normal is_digit_def byte_def)
  then show "identified demo_db ''nobody'' = None"
    "identified demo_db ''bob'' = Some (demo_user 2 ''bob'' ''builder99'')"
    using demo_normal by (simp_all add: identified_def find_where_Cons NormalizeName_def)
qed

theorem Login_refuses_witness:
  "fst (Login demo_env \<lparr>li_Identifier = ''nobody'', li_Password = ''guess'', li_IP = [], li_UserAgent = []\<rparr>
          demo_world) = Inl ErrInvalidCredentials"
  using Login_refuses [of demo_env demo_now demo_world
      "\<lparr>li_Identifier = ''nobody'', li_Password = ''guess'', li_IP = [], li_UserAgent = []\<rparr>"
      ErrInvalidCredentials] demo_integrity
  by (simp add: refusal_def demo_identified)

section \<open>Admissions\<close>

lemma lookupIdentifier_returns:
  "lookupIdentifier e raw w = (Inr (Some a), w') \<Longrightarrow> identified (wdb w) raw = Some a \<and> wdb w' = wdb w"
  by (auto simp: lookupIdentifier_def identified_def user_row_def st_UserByID_def st_UserByEmail_def
      st_UserByUsername_def try_call_returns returns_simps split: identifier_kind.splits option.splits)

lemma login_frames:
  "keeps (\<lambda>d. user_sessions d = S \<and> totp_secrets d = T) (rehash e a pw stored)"
  "keeps (\<lambda>d. user_sessions d = S \<and> totp_secrets d = T) (st_RecordLoginSuccess e uid)"
  by (auto simp: rehash_def st_UpdatePassword_def st_RecordLoginSuccess_def update_user_def
      intro!: hoare_intros keeps_update)

lemma st_RecordLoginSuccess_returns:
  assumes "st_RecordLoginSuccess e uid w = (Inr (), w')"
  shows "\<exists>u. user_row (wdb w') uid = Some u \<and> u_FailedLogins u = 0 \<and> u_LockedUntil u = None"
proof -
  from assms obtain ts where ts: "count_where (\<lambda>u. u_ID u = uid) (users (wdb w)) \<noteq> 0"
    "users (wdb w') = update_where (\<lambda>u. u_ID u = uid) (\<lambda>r. r\<lparr>u_FailedLogins := 0, u_LockedUntil := None,
        u_LastLoginAt := Some ts, u_UpdatedAt := ts\<rparr>) (users (wdb w))"
    by (auto simp: st_RecordLoginSuccess_def update_user_def returns_simps simp del: count_where_zero)
  then obtain u where u: "find_where (\<lambda>u. u_ID u = uid) (users (wdb w)) = Some u"
    by (auto simp: count_find simp del: count_where_zero)
  have "find_where (\<lambda>u. u_ID u = uid) (users (wdb w')) = map_option
     (\<lambda>r. if u_ID r = uid then r\<lparr>u_FailedLogins := 0, u_LockedUntil := None,
        u_LastLoginAt := Some ts, u_UpdatedAt := ts\<rparr> else r) (find_where (\<lambda>u. u_ID u = uid) (users (wdb w)))"
    unfolding ts(2) by (rule find_where_update_key) simp
  then show ?thesis using u find_where_SomeD [OF u] by (simp add: user_row_def)
qed

definition second_factor_on :: "env \<Rightarrow> users_db \<Rightarrow> int \<Rightarrow> bool" where
  "second_factor_on e d uid \<longleftrightarrow>
     Allow2FA (cfg_Auth (users_cfg e))
     \<and> (case find_where (\<lambda>t. totp_UserID t = uid) (totp_secrets d) of
          None \<Rightarrow> False | Some t \<Rightarrow> totp_Confirmed t)"

lemma twoFactorEnabled_returns:
  "twoFactorEnabled e uid w = (Inr b, w') \<Longrightarrow> b = second_factor_on e (wdb w) uid \<and> wdb w' = wdb w"
  by (auto simp: twoFactorEnabled_def second_factor_on_def st_TOTPForUser_def try_call_returns
      query_row_fails returns_simps mapStoreErr_def split: if_splits option.splits)

lemma openSession_returns:
  assumes "openSession e uid ip agent ok2 w = (Inr (token, s), w')"
  shows "length token = 32 \<and> isAlphanumeric token \<and> users (wdb w') = users (wdb w)
    \<and> (\<forall>x \<in> set (user_sessions (wdb w)). s_Hash x \<noteq> HashToken e token)
    \<and> (\<exists>row. user_sessions (wdb w') = user_sessions (wdb w) @ [row] \<and> s_Hash row = HashToken e token
          \<and> s_UserID row = uid \<and> s_TwoFactorOK row = ok2 \<and> s_ID s = s_ID row)"
proof -
  from assms obtain w1 w2 sess where r: "RandomString e (int RandomLength) w = (Inr token, w1)"
    and sess: "s_UserID sess = uid" "s_Hash sess = HashToken e token" "s_TwoFactorOK sess = ok2"
    and c: "st_CreateSession e sess w1 = (Inr s, w')"
    by (force simp: openSession_def returns_simps Let_def)
  have "length token = 32" "isAlphanumeric token" "wdb w1 = wdb w"
    using RandomString_result [OF r] by (simp_all add: RandomLength_def)
  with c sess show ?thesis
    by (auto simp: st_CreateSession_def returns_simps)
qed

text \<open>
  C11: What a sign-in proves and what it opens. When \<open>Login\<close> succeeds, the identifier names the
  account it returns, which was not locked at some reading of the clock, is active, and whose stored
  hash verifies the password. Its failures and lock are cleared. A session is added for this account
  under the hash of a fresh 32-character token that no other session has, and nothing else is in
  that table; it counts as complete exactly when the account has no confirmed second factor.
\<close>

theorem Login_admits:
  assumes "Login e inp w = (Inr r, w')"
  shows "users_Enabled (users_cfg e)
    \<and> identified (wdb w) (li_Identifier inp) = Some (lr_User r)
    \<and> (\<exists>t. refusal e (Some (lr_User r)) (li_Password inp) (truncate_second (clock e t)) = None)
    \<and> (\<exists>u. user_row (wdb w') (u_ID (lr_User r)) = Some u \<and> u_FailedLogins u = 0 \<and> u_LockedUntil u = None)
    \<and> length (lr_SessionToken r) = 32 \<and> isAlphanumeric (lr_SessionToken r)
    \<and> HashToken e (lr_SessionToken r) \<notin> s_Hash ` set (user_sessions (wdb w))
    \<and> lr_TwoFactorPending r = second_factor_on e (wdb w) (u_ID (lr_User r))
    \<and> (\<exists>row. user_sessions (wdb w') = user_sessions (wdb w) @ [row]
          \<and> s_Hash row = HashToken e (lr_SessionToken r) \<and> s_UserID row = u_ID (lr_User r)
          \<and> s_TwoFactorOK row = (\<not> lr_TwoFactorPending r))"
proof -
  from assms obtain a w1 t w2 w3 w4 b token s where
    en: "users_Enabled (users_cfg e)"
    and look: "lookupIdentifier e (li_Identifier inp) w = (Inr (Some a), w1)"
    and may: "\<not> user_Locked a (truncate_second (clock e t))" "password_ok e (li_Password inp) (stored_hash e (Some a))" "user_Active a"
    and re: "rehash e a (li_Password inp) (stored_hash e (Some a)) w1 = (Inr (), w2)"
    and suc: "st_RecordLoginSuccess e (u_ID a) w2 = (Inr (), w3)"
    and two: "twoFactorEnabled e (u_ID a) w3 = (Inr b, w4)"
    and sess: "openSession e (u_ID a) (li_IP inp) (li_UserAgent inp) (\<not> b) w4 = (Inr (token, s), w')"
    and r: "r = \<lparr>lr_User = a, lr_SessionToken = token, lr_Session = s, lr_TwoFactorPending = b\<rparr>"
    by (auto simp: Login_def returns_simps Let_def split: if_splits option.splits prod.splits)
  from lookupIdentifier_returns [OF look] have a: "identified (wdb w) (li_Identifier inp) = Some a"
    and w1: "wdb w1 = wdb w" by simp_all
  have w2: "user_sessions (wdb w2) = user_sessions (wdb w) \<and> totp_secrets (wdb w2) = totp_secrets (wdb w)"
    using keepsD [OF login_frames(1) _ re] by (simp add: w1)
  have w3: "user_sessions (wdb w3) = user_sessions (wdb w) \<and> totp_secrets (wdb w3) = totp_secrets (wdb w)"
    using keepsD [OF login_frames(2) w2 suc] .
  have b: "b = second_factor_on e (wdb w) (u_ID a)" and w4: "wdb w4 = wdb w3"
    using twoFactorEnabled_returns [OF two] w3 by (simp_all add: second_factor_on_def)
  have "refusal e (Some a) (li_Password inp) (truncate_second (clock e t)) = None" using may by (simp add: refusal_def)
  moreover have "\<exists>u. user_row (wdb w') (u_ID a) = Some u \<and> u_FailedLogins u = 0 \<and> u_LockedUntil u = None"
    using st_RecordLoginSuccess_returns [OF suc] openSession_returns [OF sess] w4 by (simp add: user_row_def)
  ultimately show ?thesis
    using openSession_returns [OF sess] en a b w3 w4 by (auto simp: r)
qed

lemma length_hex_encode: "length (hex_encode s) = 2 * length s"
  using length_encode_digits [of 4 hex_alphabet s] pad_length [of 4 "to_bits s"]
  by (simp add: hex_encode_def mod_mult_left_eq [symmetric] mod_0_imp_dvd)

lemma demo_RandomString:
  assumes "0 < n" "n < 40"
  shows "\<exists>s w'. RandomString demo_env n w = (Inr s, w') \<and> length s = nat n \<and> wdb w' = wdb w \<and> wtick w' = wtick w"
proof -
  have "nat n < rand_fuel demo_env" "fair_random demo_env (nat n)" using assms by simp_all
  then obtain s w' where "RandomString demo_env n w = (Inr s, w')"
    using RandomString_total [of demo_env n w] assms(1) by blast
  with RandomString_result [OF this] show ?thesis by blast
qed

lemma decode_demo_hash:
  "decodeHash (demo_hash pw) = Inr (DefaultParams, replicate 16 (CHR ''s''),
     derive_key demo_env pw (replicate 16 (CHR ''s'')) DefaultParams)"
proof -
  let ?salt = "replicate 16 (CHR ''s'')"
  have len: "length (derive_key demo_env pw ?salt DefaultParams) = 32"
    using demo_exact(2) by (simp add: idkey_exact_def derive_key_def DefaultParams_def)
  then have "derive_key demo_env pw ?salt DefaultParams \<noteq> []" by auto
  from decode_encode_hash [OF _ _ _ _ this, of DefaultParams ?salt] len
  show ?thesis by (simp add: demo_hash_def DefaultParams_def)
qed

lemma demo_password_ok [simp]: "password_ok demo_env pw (demo_hash pw)"
  by (simp add: password_ok_def VerifyPassword_def decode_demo_hash)

lemma demo_hash_not_Nil [simp]: "demo_hash pw \<noteq> []"
  by (simp add: demo_hash_def encode_hash_def)

lemma demo_no_rehash: "\<exists>w'. rehash demo_env a pw (demo_hash pw') w = (Inr (), w') \<and> wdb w' = wdb w"
proof -
  have "length (derive_key demo_env pw' (replicate 16 (CHR ''s'')) DefaultParams) = 32"
    using demo_exact(2) by (simp add: idkey_exact_def derive_key_def DefaultParams_def)
  then have "NeedsRehash (demo_hash pw') DefaultParams = Inr False"
    by (simp add: decode_demo_hash NeedsRehash_def) (simp add: DefaultParams_def)
  then show ?thesis by (simp add: rehash_def ok_def)
qed

definition demo_login :: LoginInput where
  "demo_login = \<lparr>li_Identifier = ''bob'', li_Password = ''builder99'', li_IP = [], li_UserAgent = []\<rparr>"

lemma demo_openSession:
  assumes "has_user (wdb w) uid" and "\<forall>x \<in> set (user_sessions (wdb w)). length (s_Hash x) \<noteq> 64"
  shows "\<exists>p w'. openSession demo_env uid ip agent b w = (Inr p, w')"
proof -
  obtain t w1 where t: "RandomString demo_env (int RandomLength) w = (Inr t, w1)" "length t = 32"
    "wdb w1 = wdb w"
    using demo_RandomString [of "int RandomLength" w] by (auto simp: RandomLength_def)
  have "s_Hash x \<noteq> HashToken demo_env t" if "x \<in> set (user_sessions (wdb w))" for x
  proof -
    have "length (HashToken demo_env t) = 64" by (simp add: HashToken_def length_hex_encode t(2))
    with assms(2) that show ?thesis by metis
  qed
  with t assms(1) show ?thesis
    by (auto simp: openSession_def st_CreateSession_def insert_session_def run_defs Let_def)
qed

lemma demo_login_run: "\<exists>r w'. Login demo_env demo_login demo_world = (Inr r, w')"
proof -
  let ?bob = "demo_user 2 ''bob'' ''builder99''"
  obtain w1 where w1: "lookupIdentifier demo_env ''bob'' demo_world = (Inr (Some ?bob), w1)" "wdb w1 = demo_db"
    using lookupIdentifier_run [of demo_env "''bob''" demo_world] by (auto simp: demo_identified)
  obtain w2 where w2: "rehash demo_env ?bob ''builder99'' (demo_hash ''builder99'') w1 = (Inr (), w2)"
    "wdb w2 = demo_db" using demo_no_rehash w1(2) by metis
  let ?f = "\<lambda>r. r\<lparr>u_FailedLogins := 0, u_LockedUntil := None, u_LastLoginAt := Some demo_now, u_UpdatedAt := demo_now\<rparr>"
  have "user_row (wdb w2) 2 = Some ?bob" by (simp add: user_row_def w2 find_where_Cons)
  note suc = affected_update_user_run [OF demo_no_faults this, of ?f]
  define w3 where "w3 = (next_tick w2)\<lparr>wdb := users_update (update_where (\<lambda>u. u_ID u = 2) ?f) (wdb w2)\<rparr>"
  have w3: "st_RecordLoginSuccess demo_env 2 w2 = (Inr (), w3)"
    using suc by (simp add: st_RecordLoginSuccess_def store_now_def w3_def)
  have s3: "user_sessions (wdb w3) = [demo_session]" "totp_secrets (wdb w3) = [demo_totp]" "has_user (wdb w3) 2"
    by (simp_all add: w3_def w2 has_user_def bex_update_where)
  have two: "twoFactorEnabled demo_env 2 w3 = (Inr True, next_tick w3)"
    by (simp add: twoFactorEnabled_def demo_users_def st_TOTPForUser_def query_row_def query_def
        try_call_def ok_def s3 find_where_Cons demo_totp_def)
  have "length (s_Hash demo_session) \<noteq> 64"
    by (simp add: demo_session_def HashToken_def length_hex_encode)
  then obtain p w4 where o4: "openSession demo_env 2 [] [] False (next_tick w3) = (Inr p, w4)"
    using demo_openSession [of "next_tick w3" 2 "[]" "[]" False] s3 by auto
  show ?thesis
    by (cases p) (simp add: Login_def demo_login_def call_def try_call_def w1 with_now_def user_Locked_def
        stored_hash_def user_Active_def w2(1) w3 two o4 ok_def)
qed

theorem Login_admits_witness:
  "\<exists>r w'. Login demo_env demo_login demo_world = (Inr r, w') \<and> u_Username (lr_User r) = ''bob''
          \<and> lr_TwoFactorPending r \<and> length (user_sessions (wdb w')) = 2"
proof -
  obtain r w' where run: "Login demo_env demo_login demo_world = (Inr r, w')"
    using demo_login_run by blast
  from Login_admits [OF run] have u: "lr_User r = demo_user 2 ''bob'' ''builder99''"
    by (simp add: demo_login_def demo_identified)
  from Login_admits [OF run, unfolded u] have
    "lr_TwoFactorPending r = second_factor_on demo_env demo_db 2" "length (user_sessions (wdb w')) = 2"
    by auto
  note this u
  with run show ?thesis
    by (auto simp: second_factor_on_def demo_users_def find_where_Cons demo_totp_def)
qed

section \<open>The lock\<close>

lemma find_where_update_frame:
  assumes "\<And>r. p (f r) = p r"
  shows "find_where p (update_where q f rows) =
         map_option (\<lambda>r. if q r then f r else r) (find_where p rows)"
  using assms by (induction rows) (auto simp: find_where_Cons update_where_def)

lemma identified_failed:
  assumes "identified d raw = Some a"
  shows "identified (users_update (update_where (\<lambda>u. u_ID u = u_ID a) (failed_once auth now)) d) raw =
         Some (failed_once auth now a)"
  using assms
  by (auto simp: identified_def user_row_def failed_once_def find_where_update_frame
      split: identifier_kind.splits option.splits)

text \<open>Sign-in attempts on one identifier, with a list of passwords.\<close>

definition attempt :: "string \<Rightarrow> string \<Rightarrow> LoginInput" where
  "attempt ident pw = \<lparr>li_Identifier = ident, li_Password = pw, li_IP = [], li_UserAgent = []\<rparr>"

fun after_attempts :: "env \<Rightarrow> string \<Rightarrow> string list \<Rightarrow> users_db world \<Rightarrow> users_db world" where
  "after_attempts e ident [] w = w"
| "after_attempts e ident (pw # pws) w = after_attempts e ident pws (snd (Login e (attempt ident pw) w))"

definition wrong_password :: "env \<Rightarrow> User \<Rightarrow> string \<Rightarrow> bool" where
  "wrong_password e a pw \<longleftrightarrow> \<not> password_ok e pw (stored_hash e (Some a))"

lemma wrong_password_failed [simp]: "wrong_password e (failed_once auth now a) = wrong_password e a"
  by (simp add: wrong_password_def stored_hash_def failed_once_def fun_eq_iff)

lemma one_wrong_attempt:
  assumes "no_faults e" and "steady e now" and "db_integrity (wdb w)" and "users_Enabled (users_cfg e)"
    and "identified (wdb w) ident = Some a" and "\<not> user_Locked a now" and "wrong_password e a pw"
  shows "db_integrity (wdb (snd (Login e (attempt ident pw) w)))
    \<and> identified (wdb (snd (Login e (attempt ident pw) w))) ident =
        Some (failed_once (cfg_Auth (users_cfg e)) now a)"
proof
  have "refusal e (identified (wdb w) (li_Identifier (attempt ident pw))) (li_Password (attempt ident pw)) now =
      Some ErrInvalidCredentials"
    using assms(5-7) by (simp add: refusal_def attempt_def wrong_password_def)
  from Login_refused [OF assms(1-4) this] assms(5-7)
  show "identified (wdb (snd (Login e (attempt ident pw) w))) ident =
        Some (failed_once (cfg_Auth (users_cfg e)) now a)"
    by (simp add: counts_failure_def attempt_def wrong_password_def identified_failed)
  show "db_integrity (wdb (snd (Login e (attempt ident pw) w)))"
    using keepsD [OF integrity.Login_op assms(3) prod.collapse [symmetric]] .
qed

lemma attempts_count:
  assumes "no_faults e" and "steady e now" and "users_Enabled (users_cfg e)"
    and "auth = cfg_Auth (users_cfg e)"
  shows "db_integrity (wdb w) \<Longrightarrow> identified (wdb w) ident = Some a \<Longrightarrow> \<not> user_Locked a now \<Longrightarrow>
    list_all (wrong_password e a) pws \<Longrightarrow> u_FailedLogins a + int (length pws) \<le> MaxFailedLogins auth \<Longrightarrow>
    0 < MaxFailedLogins auth \<Longrightarrow>
    db_integrity (wdb (after_attempts e ident pws w))
    \<and> (\<exists>a'. identified (wdb (after_attempts e ident pws w)) ident = Some a'
        \<and> (pws \<noteq> [] \<longrightarrow> u_FailedLogins a + int (length pws) = MaxFailedLogins auth \<longrightarrow>
             u_LockedUntil a' = Some (truncate_second (now + LockoutDuration auth))))"
proof (induction pws arbitrary: w a)
  case (Cons pw pws)
  let ?w = "snd (Login e (attempt ident pw) w)" and ?a = "failed_once auth now a"
  have step: "db_integrity (wdb ?w)" "identified (wdb ?w) ident = Some ?a"
    using one_wrong_attempt [OF assms(1,2) Cons.prems(1) assms(3) Cons.prems(2,3)] Cons.prems(4)
    by (simp_all add: assms(4))
  show ?case
  proof (cases "pws = []")
    case True
    have "u_LockedUntil ?a = Some (truncate_second (now + LockoutDuration auth))"
      if "u_FailedLogins a + 1 = MaxFailedLogins auth"
      using that Cons.prems(6) by (simp add: failed_once_def)
    with True step show ?thesis by simp
  next
    case False
    then have less: "u_FailedLogins a + 1 < MaxFailedLogins auth"
      using Cons.prems(5) by (cases pws) simp_all
    then have "\<not> user_Locked ?a now" by (simp add: failed_once_def user_Locked_def)
    moreover have "u_FailedLogins ?a = u_FailedLogins a + 1" by (simp add: failed_once_def)
    ultimately show ?thesis
      using Cons.IH [OF step] Cons.prems(4-6) False by (simp add: add.assoc)
  qed
qed simp

text \<open>
  C12: Guessing is bounded. Take an account that is not locked, and as many wrong passwords in a row,
  within one second of the clock, as it has failures left before the configured maximum (the count
  it already has and these make up the maximum). After these attempts every sign-in to it, with the
  right password too, is refused as locked, as long as the lock lasts at least a second.
\<close>

theorem lockout_after_failures:
  assumes "no_faults e" and "steady e now" and "db_integrity (wdb w)" and "users_Enabled (users_cfg e)"
    and "identified (wdb w) ident = Some a" and "\<not> user_Locked a now" and "list_all (wrong_password e a) pws"
    and "pws \<noteq> []" and "0 < MaxFailedLogins (cfg_Auth (users_cfg e))"
    and "u_FailedLogins a + int (length pws) = MaxFailedLogins (cfg_Auth (users_cfg e))"
    and "now < truncate_second (now + LockoutDuration (cfg_Auth (users_cfg e)))"
  shows "fst (Login e (attempt ident pw) (after_attempts e ident pws w)) = Inl ErrAccountLocked"
proof -
  let ?w = "after_attempts e ident pws w"
  from attempts_count [OF assms(1,2,4) refl assms(3,5,6,7)] assms(8-10) obtain a' where
    ok: "db_integrity (wdb ?w)" and a': "identified (wdb ?w) ident = Some a'"
      "u_LockedUntil a' = Some (truncate_second (now + LockoutDuration (cfg_Auth (users_cfg e))))"
    by auto
  have "refusal e (identified (wdb ?w) (li_Identifier (attempt ident pw)))
      (li_Password (attempt ident pw)) now = Some ErrAccountLocked"
    using a' assms(11) by (simp add: refusal_def user_Locked_def attempt_def)
  from Login_refused [OF assms(1,2) ok assms(4) this] show ?thesis by simp
qed

lemma demo_wrong: "wrong_password demo_env (demo_user 2 ''bob'' ''builder99'') ''guess''"
proof -
  have "derive_key demo_env ''guess'' s DefaultParams \<noteq> derive_key demo_env ''builder99'' s DefaultParams" for s
    by (simp add: derive_key_def demo_env_def DefaultParams_def)
  then show ?thesis
    by (simp add: wrong_password_def stored_hash_def password_ok_def VerifyPassword_def decode_demo_hash)
qed

theorem lockout_after_failures_witness:
  "fst (Login demo_env demo_login (after_attempts demo_env ''bob'' [''guess'', ''guess''] demo_world)) =
     Inl ErrAccountLocked"
proof -
  have "demo_login = attempt ''bob'' ''builder99''" by (simp add: demo_login_def attempt_def)
  moreover have "demo_now < truncate_second (demo_now + LockoutDuration (cfg_Auth (users_cfg demo_env)))"
    by (simp add: demo_users_def demo_now_def truncate_second_def second_def)
  ultimately show ?thesis
    using lockout_after_failures [of demo_env demo_now demo_world "''bob''" "demo_user 2 ''bob'' ''builder99''"
        "[''guess'', ''guess'']" "''builder99''"] demo_integrity demo_identified(2) demo_wrong
    by (simp add: user_Locked_def) (simp add: demo_users_def)
qed

section \<open>Sessions\<close>

definition session_row :: "env \<Rightarrow> users_db \<Rightarrow> string \<Rightarrow> Session option" where
  "session_row e d token = find_where (\<lambda>s. s_Hash s = HashToken e token) (user_sessions d)"

text \<open>
  Resolving a session token. On a working database with the invariant, the token is good
  exactly when a session with its hash is stored that has not expired and whose account is active,
  and then the account and the session are returned; an unknown token, an expired session and an
  account that is not active are refused. An expired session is deleted, a good one is touched, and
  nothing else changes.
\<close>

theorem ResolveSession_spec:
  assumes "no_faults e" and "steady e now" and "db_integrity (wdb w)"
  shows "fst (ResolveSession e token w) =
      (case session_row e (wdb w) token of
         None \<Rightarrow> Inl ErrNotFound
       | Some s \<Rightarrow>
           if session_Expired s now then Inl ErrInvalidCredentials
           else (case user_row (wdb w) (s_UserID s) of
                   None \<Rightarrow> Inl ErrNotFound
                 | Some a \<Rightarrow> if user_Active a then Inr (a, s) else Inl ErrInvalidCredentials))
    \<and> wdb (snd (ResolveSession e token w)) =
      (case session_row e (wdb w) token of
         None \<Rightarrow> wdb w
       | Some s \<Rightarrow>
           if session_Expired s now
           then user_sessions_update (delete_where (\<lambda>x. s_Hash x = HashToken e token)) (wdb w)
           else if user_Active (the (user_row (wdb w) (s_UserID s)))
           then user_sessions_update (update_where (\<lambda>x. s_Hash x = HashToken e token)
                  (\<lambda>x. x\<lparr>s_LastActive := now\<rparr>)) (wdb w)
           else wdb w)"
proof (cases "session_row e (wdb w) token")
  case None
  with assms(1) have "st_SessionByHash e (HashToken e token) w = (Inl StoreNotFound, next_tick w)"
    by (simp add: session_row_def st_SessionByHash_def query_row_def query_def try_call_def fail_def no_faults_def)
  with None show ?thesis
    by (simp add: ResolveSession_def Let_def call_def try_call_def fail_def mapStoreErr_def)
next
  case (Some s)
  then have s: "s \<in> set (user_sessions (wdb w))" "s_Hash s = HashToken e token"
    by (auto simp: session_row_def dest: find_where_SomeD)
  then have some: "count_where (\<lambda>x. s_Hash x = HashToken e token) (user_sessions (wdb w)) \<noteq> 0" by auto
  have "s_UserID s \<in> u_ID ` set (users (wdb w))" using assms(3) s(1) by (auto simp: integrity_defs)
  then obtain a where a: "user_row (wdb w) (s_UserID s) = Some a"
    by (auto simp: user_row_def dest: find_where_ex)
  have f: "fault e t = None" and clk: "truncate_second (clock e t) = now"
    "truncate_second (store_clock e t) = now" for t
    using assms(1,2) by (simp_all add: no_faults_def steady_def)
  have hash: "st_SessionByHash e (HashToken e token) w = (Inr s, next_tick w)"
    using Some f by (simp add: st_SessionByHash_def session_row_def query_row_def query_def try_call_def ok_def)
  have user: "st_UserByID e (s_UserID s) (next_tick w) = (Inr a, next_tick (next_tick w))"
    using a f by (simp add: st_UserByID_def user_row_def query_row_def query_def try_call_def ok_def)
  show ?thesis
    using some
    by (simp add: Some a ResolveSession_def Let_def call_def try_call_def hash user with_now_def clk
        ignoring_def st_DeleteSession_def st_TouchSession_def store_now_def affected_def exec_def f
        sql_update_def sql_delete_def fail_def ok_def del: count_where_zero)
qed

lemma demo_session_row: "session_row demo_env demo_db ''bobs-session'' = Some demo_session"
  by (simp add: session_row_def find_where_Cons) (simp add: demo_session_def)

theorem ResolveSession_spec_witness:
  "fst (ResolveSession demo_env ''bobs-session'' demo_world) =
     Inr (demo_user 2 ''bob'' ''builder99'', demo_session)"
proof -
  have "\<not> session_Expired demo_session demo_now" "s_UserID demo_session = 2"
    by (simp_all add: demo_session_def session_Expired_def hour_def second_def)
  moreover have "user_row demo_db 2 = Some (demo_user 2 ''bob'' ''builder99'')"
    by (simp add: user_row_def find_where_Cons)
  ultimately show ?thesis
    using ResolveSession_spec [of demo_env demo_now demo_world "''bobs-session''"] demo_integrity
    by (simp add: demo_session_row user_Active_def)
qed

end
