(* ===== verification/Credentials.thy ===== *)
theory Credentials
  imports Logins
begin

text \<open>
  Passwords, confirmations and the second factor: what a change, a reset, a confirmed address and a
  recovery code do to the account, its sessions and its pending challenges.
\<close>

section \<open>Passwords\<close>

lemma user_row_update:
  assumes "\<And>u. u_ID (f u) = u_ID u" and "user_row d uid = Some a"
  shows "user_row (users_update (update_where (\<lambda>u. u_ID u = uid) f) d) k =
         (if k = uid then Some (f a) else user_row d k)"
proof (cases "user_row d k")
  case None
  then show ?thesis using assms by (auto simp: user_row_def find_where_update_key)
next
  case (Some u)
  have "u_ID u = k" using Some by (auto simp: user_row_def dest: find_where_SomeD)
  then show ?thesis using Some assms by (auto simp: user_row_def find_where_update_key)
qed

lemma user_row_updated:
  assumes "affected (update_user e uid f) w = (Inr (), w')" and "\<And>u. u_ID (f u) = u_ID u"
  shows "\<exists>a. user_row (wdb w) uid = Some a
     \<and> (\<forall>k. user_row (wdb w') k = (if k = uid then Some (f a) else user_row (wdb w) k))
     \<and> wdb w' = users_update (update_where (\<lambda>u. u_ID u = uid) f) (wdb w)"
proof -
  from assms(1) have n: "count_where (\<lambda>u. u_ID u = uid) (users (wdb w)) \<noteq> 0"
    and d: "wdb w' = users_update (update_where (\<lambda>u. u_ID u = uid) f) (wdb w)"
    by (auto simp: update_user_def returns_simps simp del: count_where_zero)
  from n obtain a where "user_row (wdb w) uid = Some a"
    by (auto simp: count_find user_row_def simp del: count_where_zero)
  with d user_row_update [OF assms(2) this] show ?thesis by simp
qed

lemma st_UpdatePassword_returns:
  assumes "st_UpdatePassword e uid hash w = (Inr (), w')"
  shows "\<exists>a ts. user_row (wdb w) uid = Some a
     \<and> (\<forall>k. user_row (wdb w') k = (if k = uid then Some (a\<lparr>u_PasswordHash := hash, u_FailedLogins := 0,
              u_LockedUntil := None, u_UpdatedAt := ts\<rparr>) else user_row (wdb w) k))
     \<and> user_sessions (wdb w') = user_sessions (wdb w)
     \<and> password_resets (wdb w') = password_resets (wdb w)"
proof -
  define ts where "ts = truncate_second (store_clock e (wtick w))"
  from assms have run: "affected (update_user e uid (\<lambda>r. r\<lparr>u_PasswordHash := hash, u_FailedLogins := 0,
      u_LockedUntil := None, u_UpdatedAt := ts\<rparr>)) w = (Inr (), w')"
    by (simp add: st_UpdatePassword_def store_now_def ts_def)
  show ?thesis using user_row_updated [OF run] by auto
qed

lemma HashPassword_ok:
  assumes "HashPassword e pw w = (Inr h, w')" and "rand_exact e" "idkey_exact e"
  shows "password_ok e pw h \<and> wdb w' = wdb w"
proof -
  from assms(1) have run: "HashPasswordWithParams e pw DefaultParams w = (Inr h, w')"
    by (simp add: HashPassword_def)
  have "reads (HashPassword e pw)" by (rule readsI) (rule keeps_HashPassword)
  from readsD [OF this assms(1)] show ?thesis
    using HashPassword_decodes [OF run assms(2,3)] by (auto simp: password_ok_def VerifyPassword_def)
qed

text \<open>
  Changing the password ends what the old one opened. When \<open>ChangePassword\<close> succeeds the old
  password was verified and the new one meets the policy; afterwards the new one verifies, the
  failures and the lock are cleared, every session of the account is gone, the one that made the
  change included, every pending password reset of it too, and no other account changed.
\<close>

theorem ChangePassword_result:
  assumes "ChangePassword e uid old new w = (Inr (), w')" and "rand_exact e" and "idkey_exact e"
  shows "\<exists>a a'. user_row (wdb w) uid = Some a \<and> password_ok e old (u_PasswordHash a)
    \<and> ValidatePassword (rune_classes e) (passwordPolicy e) new = None
    \<and> password_ok e new (u_PasswordHash a') \<and> u_FailedLogins a' = 0 \<and> u_LockedUntil a' = None
    \<and> (\<forall>k. user_row (wdb w') k = (if k = uid then Some a' else user_row (wdb w) k))
    \<and> user_sessions (wdb w') = delete_where (\<lambda>s. s_UserID s = uid) (user_sessions (wdb w))
    \<and> password_resets (wdb w') = delete_where (\<lambda>c. c_UserID c = uid) (password_resets (wdb w))"
proof -
  from assms(1) obtain a hash w2 w3 w4 where
    a: "user_row (wdb w) uid = Some a" and old: "password_ok e old (u_PasswordHash a)"
    and new: "ValidatePassword (rune_classes e) (passwordPolicy e) new = None"
    and hash: "HashPassword e new (next_tick w) = (Inr hash, w2)"
    and upd: "st_UpdatePassword e uid hash w2 = (Inr (), w3)"
    and del: "st_DeleteUserPasswordResets e uid w3 = (Inr (), w4)" "st_DeleteUserSessions e uid w4 = (Inr (), w')"
    by (auto simp: ChangePassword_def check_password_def st_UserByID_def user_row_def returns_simps
        split: if_splits option.splits)
  from del have w': "wdb w' = user_sessions_update (delete_where (\<lambda>s. s_UserID s = uid))
               (password_resets_update (delete_where (\<lambda>c. c_UserID c = uid)) (wdb w3))"
    by (auto simp: st_DeleteUserPasswordResets_def st_DeleteUserSessions_def returns_simps)
  from HashPassword_ok [OF hash assms(2,3)] have ok: "password_ok e new hash" and w2: "wdb w2 = wdb w"
    by simp_all
  from st_UpdatePassword_returns [OF upd] a(1) obtain ts where
    "\<forall>k. user_row (wdb w3) k = (if k = uid then Some (a\<lparr>u_PasswordHash := hash, u_FailedLogins := 0,
              u_LockedUntil := None, u_UpdatedAt := ts\<rparr>) else user_row (wdb w) k)"
    "user_sessions (wdb w3) = user_sessions (wdb w)" "password_resets (wdb w3) = password_resets (wdb w)"
    by (auto simp: w2)
  with a old new ok show ?thesis
    by (intro exI [of _ a] exI [of _ "a\<lparr>u_PasswordHash := hash, u_FailedLogins := 0,
              u_LockedUntil := None, u_UpdatedAt := ts\<rparr>"]) (simp add: w' user_row_def)
qed

lemma demo_bob_row [simp]: "user_row demo_db 2 = Some (demo_user 2 ''bob'' ''builder99'')"
  by (simp add: user_row_def find_where_Cons)

lemma demo_bob_password [simp]: "u_PasswordHash (demo_user 2 ''bob'' pw) = demo_hash pw"
  by (simp add: demo_user_def new_user_def)

lemma demo_change_run:
  "\<exists>w'. ChangePassword demo_env 2 ''builder99'' ''xyzzy plugh'' demo_world = (Inr (), w')"
proof -
  obtain h where h: "HashPassword demo_env ''xyzzy plugh'' (next_tick demo_world) =
      (Inr h, (next_tick demo_world)\<lparr>wrand := 1\<rparr>)"
    using demo_HashPassword [of "''xyzzy plugh''" "next_tick demo_world"] by (auto simp: next_tick_def)
  show ?thesis
    by (simp add: ChangePassword_def check_password_def demo_registration_valid st_UserByID_def
        st_UpdatePassword_def update_user_def st_DeleteUserPasswordResets_def st_DeleteUserSessions_def
        eval_defs h)
qed

theorem ChangePassword_result_witness:
  "\<exists>w'. ChangePassword demo_env 2 ''builder99'' ''xyzzy plugh'' demo_world = (Inr (), w')
     \<and> user_sessions (wdb w') = [] \<and> password_resets (wdb w') = []"
proof -
  obtain w' where run: "ChangePassword demo_env 2 ''builder99'' ''xyzzy plugh'' demo_world = (Inr (), w')"
    using demo_change_run by blast
  from ChangePassword_result [OF run] run show ?thesis
    by (auto simp: delete_where_def demo_session_def demo_db_def new_challenge_def)
qed

section \<open>Resets\<close>

lemma delete_updated:
  assumes "\<And>r. q r \<Longrightarrow> p r \<and> p (f r)"
  shows "delete_where p (update_where q f rows) = delete_where p rows"
  using assms by (induction rows) (auto simp: delete_where_def update_where_def)

definition reset_row :: "env \<Rightarrow> users_db \<Rightarrow> string \<Rightarrow> Challenge option" where
  "reset_row e d token = find_where (\<lambda>c. c_Hash c = HashToken e token) (password_resets d)"

lemma reset_needs_unused:
  assumes "reset_row e (wdb w) token = Some c" and "c_UsedAt c \<noteq> None"
  shows "refused (CompletePasswordReset e token pw) w"
  unfolding CompletePasswordReset_def
  by (rule refused_after_read)
    (use assms in \<open>auto simp: st_PasswordReset_def reset_row_def returns_simps challenge_Usable_def
      with_now_def refused_def fail_def intro!: readsI hoare_intros\<close>)

lemma st_ConsumePasswordReset_returns:
  "st_ConsumePasswordReset e cid w = (Inr (), w') \<Longrightarrow>
   \<exists>ts. wdb w' = password_resets_update (update_where (\<lambda>c. c_ID c = cid \<and> c_UsedAt c = None)
          (\<lambda>c. c\<lparr>c_UsedAt := Some ts\<rparr>)) (wdb w)"
  by (auto simp: st_ConsumePasswordReset_def returns_simps)

text \<open>
  C13: A reset works once, and only itself. When \<open>CompletePasswordReset\<close> succeeds, the token's
  challenge was unused and not expired at some reading of the clock and the new password meets the
  policy; the account of the challenge has the new password and no session left. The challenge is
  spent: every later completion with the token is refused, whatever the environment. But every
  other pending reset of the account is still there as it was, in contrast to a password change.
\<close>

theorem CompletePasswordReset_once:
  assumes "CompletePasswordReset e token new w = (Inr (), w')" and "rand_exact e" and "idkey_exact e"
  shows "\<exists>c t a'. reset_row e (wdb w) token = Some c \<and> challenge_Usable c (truncate_second (clock e t))
    \<and> ValidatePassword (rune_classes e) (passwordPolicy e) new = None
    \<and> password_ok e new (u_PasswordHash a')
    \<and> (\<forall>k. user_row (wdb w') k = (if k = c_UserID c then Some a' else user_row (wdb w) k))
    \<and> user_sessions (wdb w') = delete_where (\<lambda>s. s_UserID s = c_UserID c) (user_sessions (wdb w))
    \<and> (\<forall>e2 w2 pw. sha256 e2 = sha256 e \<longrightarrow> password_resets (wdb w2) = password_resets (wdb w') \<longrightarrow>
          refused (CompletePasswordReset e2 token pw) w2)
    \<and> delete_where (\<lambda>x. c_ID x = c_ID c) (password_resets (wdb w')) =
        delete_where (\<lambda>x. c_ID x = c_ID c) (password_resets (wdb w))"
proof -
  from assms(1) obtain c t w2 hash w3 w4 where
    c: "reset_row e (wdb w) token = Some c" and use: "challenge_Usable c (truncate_second (clock e t))"
    and new: "ValidatePassword (rune_classes e) (passwordPolicy e) new = None"
    and con: "st_ConsumePasswordReset e (c_ID c) (next_tick w) = (Inr (), w2)"
    and hash: "HashPassword e new w2 = (Inr hash, w3)"
    and upd: "st_UpdatePassword e (c_UserID c) hash w3 = (Inr (), w4)"
    and del: "st_DeleteUserSessions e (c_UserID c) w4 = (Inr (), w')"
    by (auto simp: CompletePasswordReset_def check_password_def st_PasswordReset_def reset_row_def
        returns_simps split: if_splits option.splits)
  from st_ConsumePasswordReset_returns [OF con] obtain ts where
    w2: "wdb w2 = password_resets_update (update_where (\<lambda>x. c_ID x = c_ID c \<and> c_UsedAt x = None)
          (\<lambda>x. x\<lparr>c_UsedAt := Some ts\<rparr>)) (wdb w)" by auto
  from HashPassword_ok [OF hash assms(2,3)] have ok: "password_ok e new hash" and w3: "wdb w3 = wdb w2"
    by simp_all
  from st_UpdatePassword_returns [OF upd] obtain a ts2 where
    u: "\<forall>k. user_row (wdb w4) k = (if k = c_UserID c then Some (a\<lparr>u_PasswordHash := hash, u_FailedLogins := 0,
              u_LockedUntil := None, u_UpdatedAt := ts2\<rparr>) else user_row (wdb w3) k)"
    and frame: "user_sessions (wdb w4) = user_sessions (wdb w3)" "password_resets (wdb w4) = password_resets (wdb w3)"
    by blast
  from del have w': "user_sessions (wdb w') = delete_where (\<lambda>s. s_UserID s = c_UserID c) (user_sessions (wdb w))"
    "users (wdb w') = users (wdb w4)"
    and r': "password_resets (wdb w') = update_where (\<lambda>x. c_ID x = c_ID c \<and> c_UsedAt x = None)
          (\<lambda>x. x\<lparr>c_UsedAt := Some ts\<rparr>) (password_resets (wdb w))"
    by (auto simp: st_DeleteUserSessions_def returns_simps frame w3 w2)
  have "c_UsedAt c = None" using use by (simp add: challenge_Usable_def split: if_splits)
  then have spent: "find_where (\<lambda>x. c_Hash x = HashToken e token) (password_resets (wdb w')) =
      Some (c\<lparr>c_UsedAt := Some ts\<rparr>)"
    using c by (simp add: r' reset_row_def find_where_update_key)
  have "refused (CompletePasswordReset e2 token pw) w2"
    if "sha256 e2 = sha256 e" "password_resets (wdb w2) = password_resets (wdb w')" for e2 w2 pw
    by (rule reset_needs_unused [of _ _ _ "c\<lparr>c_UsedAt := Some ts\<rparr>"])
      (use spent that in \<open>simp_all add: reset_row_def HashToken_def\<close>)
  moreover have "delete_where (\<lambda>x. c_ID x = c_ID c) (password_resets (wdb w')) =
        delete_where (\<lambda>x. c_ID x = c_ID c) (password_resets (wdb w))"
    unfolding r' by (rule delete_updated) auto
  ultimately show ?thesis
    using c use new ok u w' w3 w2
    by (intro exI [of _ c] exI [of _ t] exI [of _ "a\<lparr>u_PasswordHash := hash, u_FailedLogins := 0,
              u_LockedUntil := None, u_UpdatedAt := ts2\<rparr>"]) (simp add: user_row_def)
qed

lemma demo_reset_row: "reset_row demo_env demo_db ''reset-code'' =
    Some ((new_challenge 2 [] (HashToken demo_env ''reset-code'') 0 (demo_now + hour))\<lparr>c_ID := 1\<rparr>)"
  by (simp add: reset_row_def demo_db_def find_where_Cons) (simp add: new_challenge_def)

lemma hour_later [simp]: "truncate_second (demo_now + hour) = demo_now + hour" "demo_now < demo_now + hour"
  by (simp_all add: truncate_second_def demo_now_def hour_def second_def)

lemma demo_reset_run: "\<exists>w'. CompletePasswordReset demo_env ''reset-code'' ''xyzzy plugh'' demo_world = (Inr (), w')"
proof -
  let ?c = "(new_challenge 2 [] (HashToken demo_env ''reset-code'') 0 (demo_now + hour))\<lparr>c_ID := 1\<rparr>"
  have c: "st_PasswordReset demo_env (HashToken demo_env ''reset-code'') demo_world = (Inr ?c, next_tick demo_world)"
    using demo_reset_row by (simp add: st_PasswordReset_def reset_row_def query_row_def query_def
        try_call_def ok_def)
  have use: "challenge_Usable ?c demo_now" "c_ID ?c = 1" "c_UserID ?c = 2"
    by (simp_all add: challenge_Usable_def new_challenge_def hour_def second_def truncate_second_def demo_now_def)
  define w2 where "w2 = (next_tick (next_tick demo_world))\<lparr>wdb := password_resets_update
      (update_where (\<lambda>x. c_ID x = 1 \<and> c_UsedAt x = None) (\<lambda>x. x\<lparr>c_UsedAt := Some demo_now\<rparr>)) demo_db\<rparr>"
  have w2: "st_ConsumePasswordReset demo_env 1 (next_tick demo_world) = (Inr (), w2)"
    by (simp add: st_ConsumePasswordReset_def eval_defs w2_def demo_db_def new_challenge_def del: demo_db_simps)
  obtain h w3 where h: "HashPassword demo_env ''xyzzy plugh'' w2 = (Inr h, w3)" "wdb w3 = wdb w2"
    using demo_HashPassword [of "''xyzzy plugh''" w2] by auto
  have "user_row (wdb w3) 2 = Some (demo_user 2 ''bob'' ''builder99'')"
    by (simp add: h w2_def user_row_def find_where_Cons)
  from affected_update_user_run [OF demo_no_faults this]
  obtain w4 where w4: "st_UpdatePassword demo_env 2 h w3 = (Inr (), w4)"
    by (simp add: st_UpdatePassword_def store_now_def)
  obtain w5 where "st_DeleteUserSessions demo_env 2 w4 = (Inr (), w5)"
    by (simp add: st_DeleteUserSessions_def eval_defs)
  with w4 h(1) show ?thesis
    by (simp add: CompletePasswordReset_def check_password_def demo_registration_valid call_def
        try_call_def c with_now_def use w2 ok_def)
qed

theorem CompletePasswordReset_once_witness:
  "\<exists>w'. CompletePasswordReset demo_env ''reset-code'' ''xyzzy plugh'' demo_world = (Inr (), w')
     \<and> user_sessions (wdb w') = []
     \<and> refused (CompletePasswordReset demo_env ''reset-code'' ''another one'') w'"
proof -
  obtain w' where run: "CompletePasswordReset demo_env ''reset-code'' ''xyzzy plugh'' demo_world = (Inr (), w')"
    using demo_reset_run by blast
  from CompletePasswordReset_once [OF run] run show ?thesis
    by (auto simp: demo_reset_row new_challenge_def delete_where_def demo_session_def)
qed

section \<open>Confirming an address\<close>

lemma st_MarkEmailVerified_returns:
  assumes "st_MarkEmailVerified e uid w = (Inr (), w')"
  shows "\<exists>a ts. user_row (wdb w) uid = Some a
     \<and> (\<forall>k. user_row (wdb w') k = (if k = uid then Some (a\<lparr>u_EmailVerified := True, u_UpdatedAt := ts\<rparr>)
                                     else user_row (wdb w) k))"
proof -
  define ts where "ts = truncate_second (store_clock e (wtick w))"
  from assms have run: "affected (update_user e uid (\<lambda>r. r\<lparr>u_EmailVerified := True, u_UpdatedAt := ts\<rparr>)) w
      = (Inr (), w')" by (simp add: st_MarkEmailVerified_def store_now_def ts_def)
  show ?thesis using user_row_updated [OF run] by auto
qed

lemma st_UpdateStatus_returns:
  assumes "st_UpdateStatus e uid st w = (Inr (), w')"
  shows "\<exists>a ts. user_row (wdb w) uid = Some a
     \<and> (\<forall>k. user_row (wdb w') k = (if k = uid then Some (a\<lparr>u_Status := st, u_UpdatedAt := ts\<rparr>)
                                     else user_row (wdb w) k))"
proof -
  define ts where "ts = truncate_second (store_clock e (wtick w))"
  from assms have run: "affected (update_user e uid (\<lambda>r. r\<lparr>u_Status := st, u_UpdatedAt := ts\<rparr>)) w
      = (Inr (), w')" by (simp add: st_UpdateStatus_def store_now_def ts_def)
  show ?thesis using user_row_updated [OF run] by auto
qed

definition confirmation_row :: "env \<Rightarrow> users_db \<Rightarrow> string \<Rightarrow> Challenge option" where
  "confirmation_row e d token = find_where (\<lambda>c. c_Hash c = HashToken e token) (email_verifications d)"

text \<open>
  What confirming an address does. When \<open>CompleteEmailVerification\<close> succeeds, the token's
  challenge was unused and not expired at some reading of the clock; the account it belongs to is
  marked as verified and, if it was pending, becomes active. The account keeps its address: the one
  that is marked verified is the account's, whatever address the challenge was sent to.
\<close>

theorem CompleteEmailVerification_result:
  assumes "CompleteEmailVerification e token w = (Inr u, w')"
  shows "\<exists>c t a a'. confirmation_row e (wdb w) token = Some c
    \<and> challenge_Usable c (truncate_second (clock e t))
    \<and> user_row (wdb w) (c_UserID c) = Some a
    \<and> (\<forall>k. user_row (wdb w') k = (if k = c_UserID c then Some a' else user_row (wdb w) k))
    \<and> u_EmailVerified a' \<and> u_Email a' = u_Email a \<and> u_PasswordHash a' = u_PasswordHash a
    \<and> u_Status a' = (if u_Status a = StatusPending then StatusActive else u_Status a)"
proof -
  from assms obtain c t w2 w3 v where
    c: "confirmation_row e (wdb w) token = Some c" and use: "challenge_Usable c (truncate_second (clock e t))"
    and con: "st_ConsumeEmailVerification e (c_ID c) (next_tick w) = (Inr (), w2)"
    and mark: "st_MarkEmailVerified e (c_UserID c) w2 = (Inr (), w3)"
    and v: "user_row (wdb w3) (c_UserID c) = Some v"
    and rest: "(if u_Status v = StatusPending then
        call (st_UpdateStatus e (u_ID v) StatusActive) mapStoreErr (\<lambda>_. ok (v\<lparr>u_Status := StatusActive\<rparr>))
        else ok v) (next_tick w3) = (Inr u, w')"
    by (auto simp: CompleteEmailVerification_def st_EmailVerification_def confirmation_row_def
        st_UserByID_def user_row_def call_returns query_row_returns with_now_returns fail_returns
        if_action split: if_splits)
  have w2: "users (wdb w2) = users (wdb w)"
    using con by (auto simp: st_ConsumeEmailVerification_def returns_simps)
  from st_MarkEmailVerified_returns [OF mark] obtain a ts where
    a: "user_row (wdb w) (c_UserID c) = Some a" and w3: "\<forall>k. user_row (wdb w3) k =
      (if k = c_UserID c then Some (a\<lparr>u_EmailVerified := True, u_UpdatedAt := ts\<rparr>) else user_row (wdb w) k)"
    by (auto simp: user_row_def w2)
  with v have v': "v = a\<lparr>u_EmailVerified := True, u_UpdatedAt := ts\<rparr>" by simp
  have id: "u_ID v = c_UserID c" using v by (auto simp: user_row_def dest: find_where_SomeD)
  show ?thesis
  proof (cases "u_Status v = StatusPending")
    case True
    with rest have st: "st_UpdateStatus e (c_UserID c) StatusActive (next_tick w3) = (Inr (), w')"
      by (auto simp: id returns_simps)
    have "user_row (wdb (next_tick w3)) (c_UserID c) = Some v" using v by simp
    with st_UpdateStatus_returns [OF st] obtain ts2 where w': "\<forall>k. user_row (wdb w') k =
        (if k = c_UserID c then Some (v\<lparr>u_Status := StatusActive, u_UpdatedAt := ts2\<rparr>)
         else user_row (wdb w3) k)" by auto
    have "\<forall>k. user_row (wdb w') k = (if k = c_UserID c
        then Some (v\<lparr>u_Status := StatusActive, u_UpdatedAt := ts2\<rparr>) else user_row (wdb w) k)"
      using w' w3 by simp
    moreover have "u_EmailVerified a' \<and> u_Email a' = u_Email a \<and> u_PasswordHash a' = u_PasswordHash a
        \<and> u_Status a' = (if u_Status a = StatusPending then StatusActive else u_Status a)"
      if "a' = v\<lparr>u_Status := StatusActive, u_UpdatedAt := ts2\<rparr>" for a'
      using True by (simp add: that v')
    ultimately show ?thesis using c use a by blast
  next
    case False
    with rest have "wdb w' = wdb w3" by (auto simp: returns_simps)
    with w3 v' have "\<forall>k. user_row (wdb w') k = (if k = c_UserID c then Some v else user_row (wdb w) k)"
      by simp
    moreover have "u_EmailVerified v \<and> u_Email v = u_Email a \<and> u_PasswordHash v = u_PasswordHash a
        \<and> u_Status v = (if u_Status a = StatusPending then StatusActive else u_Status a)"
      using False by (simp add: v')
    ultimately show ?thesis using c use a by blast
  qed
qed

lemma demo_confirmation_row: "confirmation_row demo_env demo_db ''confirm-code'' =
    Some ((new_challenge 2 ''bob@elsewhere.example'' (HashToken demo_env ''confirm-code'') 0
             (demo_now + hour))\<lparr>c_ID := 1\<rparr>)"
  by (simp add: confirmation_row_def demo_db_def find_where_Cons) (simp add: new_challenge_def)

lemma demo_confirm_run: "\<exists>u w'. CompleteEmailVerification demo_env ''confirm-code'' demo_world = (Inr u, w')"
proof -
  let ?c = "(new_challenge 2 ''bob@elsewhere.example'' (HashToken demo_env ''confirm-code'') 0
             (demo_now + hour))\<lparr>c_ID := 1\<rparr>"
  have c: "st_EmailVerification demo_env (HashToken demo_env ''confirm-code'') demo_world = (Inr ?c, next_tick demo_world)"
    using demo_confirmation_row by (simp add: st_EmailVerification_def confirmation_row_def query_row_def
        query_def try_call_def ok_def)
  have use: "challenge_Usable ?c demo_now" "c_ID ?c = 1" "c_UserID ?c = 2"
    by (simp_all add: challenge_Usable_def new_challenge_def hour_def second_def truncate_second_def demo_now_def)
  obtain w2 where w2: "st_ConsumeEmailVerification demo_env 1 (next_tick demo_world) = (Inr (), w2)"
    "users (wdb w2) = users demo_db"
    by (simp add: st_ConsumeEmailVerification_def eval_defs demo_db_def new_challenge_def del: demo_db_simps)
  have row: "user_row (wdb w2) 2 = Some (demo_user 2 ''bob'' ''builder99'')"
    by (simp add: user_row_def w2 find_where_Cons)
  note upd = affected_update_user_run [OF demo_no_faults row]
  obtain w3 where w3: "st_MarkEmailVerified demo_env 2 w2 = (Inr (), w3)"
    by (simp add: st_MarkEmailVerified_def store_now_def upd)
  from st_MarkEmailVerified_returns [OF w3] row obtain ts where
    "user_row (wdb w3) 2 = Some ((demo_user 2 ''bob'' ''builder99'')\<lparr>u_EmailVerified := True, u_UpdatedAt := ts\<rparr>)"
    by auto
  then have "st_UserByID demo_env 2 w3 = (Inr ((demo_user 2 ''bob'' ''builder99'')\<lparr>u_EmailVerified := True,
      u_UpdatedAt := ts\<rparr>), next_tick w3)"
    by (simp add: st_UserByID_def user_row_def query_row_def query_def try_call_def ok_def)
  then show ?thesis
    by (simp add: CompleteEmailVerification_def call_def try_call_def c with_now_def use w2 w3 ok_def
        model_consts)
qed

theorem CompleteEmailVerification_result_witness:
  "\<exists>u w' a'. CompleteEmailVerification demo_env ''confirm-code'' demo_world = (Inr u, w')
     \<and> map_option c_Email (confirmation_row demo_env demo_db ''confirm-code'') = Some ''bob@elsewhere.example''
     \<and> user_row (wdb w') 2 = Some a' \<and> u_EmailVerified a' \<and> u_Email a' = ''bob@acme.example''"
proof -
  obtain u w' where run: "CompleteEmailVerification demo_env ''confirm-code'' demo_world = (Inr u, w')"
    using demo_confirm_run by blast
  from CompleteEmailVerification_result [OF run] run show ?thesis
    by (auto simp: demo_confirmation_row new_challenge_def)
qed

section \<open>The second factor\<close>

definition totp_row :: "users_db \<Rightarrow> int \<Rightarrow> TOTP option" where
  "totp_row d uid = find_where (\<lambda>t. totp_UserID t = uid) (totp_secrets d)"

lemma drop_matching_filter:
  "distinct hashes \<Longrightarrow> drop_matching e candidate hashes =
     (filter (\<lambda>h. h \<noteq> HashToken e candidate) hashes, HashToken e candidate \<in> set hashes)"
proof (induction hashes)
  case (Cons h hashes)
  show ?case
  proof (cases "HashToken e candidate = h")
    case True
    then have "filter (\<lambda>x. x \<noteq> h) hashes = hashes" using Cons.prems by (intro filter_True) auto
    with True show ?thesis by (simp add: VerifyTokenHash_def)
  next
    case False
    then show ?thesis using Cons by (simp add: VerifyTokenHash_def)
  qed
qed simp

lemma consumeRecoveryCode_returns:
  "consumeRecoveryCode e uid encoded code w = (Inr b, w') \<longleftrightarrow>
     (case json_unstrings e encoded of
        None \<Rightarrow> \<not> b \<and> w' = w
      | Some hashes \<Rightarrow>
          (if snd (drop_matching e (TrimSpace code) hashes)
           then b \<and> st_SetRecoveryCodes e uid (json_strings e (fst (drop_matching e (TrimSpace code) hashes))) w
                    = (Inr (), w')
           else \<not> b \<and> w' = w))"
  by (auto simp: consumeRecoveryCode_def returns_simps split: option.splits prod.splits)

lemma st_SetRecoveryCodes_returns:
  assumes "st_SetRecoveryCodes e uid codes w = (Inr (), w')"
  shows "\<exists>t. totp_row (wdb w) uid = Some t \<and> totp_row (wdb w') uid = Some (t\<lparr>RecoveryCodes := codes\<rparr>)
     \<and> wdb w' = totp_secrets_update (update_where (\<lambda>t. totp_UserID t = uid) (\<lambda>t. t\<lparr>RecoveryCodes := codes\<rparr>)) (wdb w)"
proof -
  from assms have n: "count_where (\<lambda>t. totp_UserID t = uid) (totp_secrets (wdb w)) \<noteq> 0"
    and d: "wdb w' = totp_secrets_update (update_where (\<lambda>t. totp_UserID t = uid) (\<lambda>t. t\<lparr>RecoveryCodes := codes\<rparr>)) (wdb w)"
    by (auto simp: st_SetRecoveryCodes_def returns_simps simp del: count_where_zero)
  from n obtain t where t: "totp_row (wdb w) uid = Some t"
    by (auto simp: count_find totp_row_def simp del: count_where_zero)
  then have "totp_UserID t = uid" by (auto simp: totp_row_def dest: find_where_SomeD)
  with t d show ?thesis by (simp add: totp_row_def find_where_update_key)
qed

lemma totpSecret_returns:
  "totpSecret e uid w = (Inr (secret, t), w') \<longleftrightarrow>
   (\<exists>c. cipher e = Some c \<and> fault e (wtick w) = None \<and> totp_row (wdb w) uid = Some t
        \<and> Decrypt e c (SecretEncrypted t) = Inr secret \<and> w' = next_tick w)"
  by (auto simp: totpSecret_def st_TOTPForUser_def totp_row_def returns_simps split: option.splits)

text \<open>
  What passes for the second factor. When \<open>VerifyTwoFactor\<close> succeeds, the account has a
  confirmed enrollment whose seed the installation's cipher opens, and the code is either a one-time
  code of the current window, and the enrollment is unchanged, or one of the stored recovery codes,
  and exactly the hashes other than that one remain. Of the sessions, those under the token that was
  presented are marked as complete and no other one is touched.
\<close>

theorem VerifyTwoFactor_factors:
  assumes "VerifyTwoFactor e uid token code w = (Inr (), w')"
  shows "\<exists>c t secret. cipher e = Some c \<and> totp_row (wdb w) uid = Some t \<and> totp_Confirmed t
    \<and> Decrypt e c (SecretEncrypted t) = Inr secret
    \<and> ((\<exists>n. VerifyTOTP e secret code (truncate_second (clock e n))
            \<and> totp_secrets (wdb w') = totp_secrets (wdb w))
       \<or> (\<exists>hashes rest. json_unstrings e (RecoveryCodes t) = Some hashes
            \<and> drop_matching e (TrimSpace code) hashes = (rest, True)
            \<and> totp_row (wdb w') uid = Some (t\<lparr>RecoveryCodes := json_strings e rest\<rparr>)))
    \<and> user_sessions (wdb w') = update_where (\<lambda>s. s_Hash s = HashToken e token)
         (\<lambda>s. s\<lparr>s_TwoFactorOK := True\<rparr>) (user_sessions (wdb w))"
proof -
  from assms obtain secret t w1 w2 where
    sec: "totpSecret e uid w = (Inr (secret, t), w1)" and conf: "totp_Confirmed t"
    and fac: "second_factor e uid secret t code w1 = (Inr (), w2)"
    and mark: "st_MarkSessionTwoFactor e (HashToken e token) w2 = (Inr (), w')"
    by (auto simp: VerifyTwoFactor_def returns_simps split: if_splits prod.splits)
  from sec obtain c where c: "cipher e = Some c" "totp_row (wdb w) uid = Some t"
    "Decrypt e c (SecretEncrypted t) = Inr secret" and w1: "wdb w1 = wdb w"
    by (auto simp: totpSecret_returns)
  from mark have s': "user_sessions (wdb w') = update_where (\<lambda>s. s_Hash s = HashToken e token)
         (\<lambda>s. s\<lparr>s_TwoFactorOK := True\<rparr>) (user_sessions (wdb w2))"
    and t': "totp_secrets (wdb w') = totp_secrets (wdb w2)"
    by (auto simp: st_MarkSessionTwoFactor_def returns_simps)
  define now where "now = truncate_second (clock e (wtick w1))"
  show ?thesis
  proof (cases "VerifyTOTP e secret code now")
    case True
    with fac have "w2 = w1" by (simp add: second_factor_def returns_simps now_def)
    with True c conf s' t' w1 show ?thesis unfolding now_def by auto
  next
    case False
    with fac have used: "consumeRecoveryCode e uid (RecoveryCodes t) code w1 = (Inr True, w2)"
      by (auto simp: second_factor_def returns_simps now_def split: if_splits)
    then obtain hashes where h: "json_unstrings e (RecoveryCodes t) = Some hashes"
      "snd (drop_matching e (TrimSpace code) hashes)"
      and set: "st_SetRecoveryCodes e uid (json_strings e (fst (drop_matching e (TrimSpace code) hashes))) w1
                = (Inr (), w2)"
      by (auto simp: consumeRecoveryCode_returns split: option.splits if_splits)
    obtain rest where rest: "drop_matching e (TrimSpace code) hashes = (rest, True)"
      using h(2) by (cases "drop_matching e (TrimSpace code) hashes") simp
    from st_SetRecoveryCodes_returns [OF set] c(2) w1 rest
    have row: "totp_row (wdb w2) uid = Some (t\<lparr>RecoveryCodes := json_strings e rest\<rparr>)"
      and "user_sessions (wdb w2) = user_sessions (wdb w)" by auto
    with s' t' c conf h(1) rest show ?thesis by (auto simp: totp_row_def)
  qed
qed

text \<open>
  A recovery code works once. With lists of strings that JSON reads back as they were written,
  and an account whose stored recovery hashes are distinct, a recovery code that was accepted is
  refused by the list that remains; every other code is accepted by it exactly when it was accepted
  before.
\<close>

theorem recovery_code_once:
  assumes "consumeRecoveryCode e uid (RecoveryCodes t) code w = (Inr True, w')"
    and "totp_row (wdb w) uid = Some t" and "\<forall>xs. json_unstrings e (json_strings e xs) = Some xs"
    and "json_unstrings e (RecoveryCodes t) = Some hashes" and "distinct hashes"
  shows "\<exists>t' rest. totp_row (wdb w') uid = Some t' \<and> json_unstrings e (RecoveryCodes t') = Some rest
    \<and> distinct rest \<and> set rest = set hashes - {HashToken e (TrimSpace code)}
    \<and> (\<forall>w2. consumeRecoveryCode e uid (RecoveryCodes t') code w2 = (Inr False, w2))
    \<and> (\<forall>other. HashToken e (TrimSpace other) \<noteq> HashToken e (TrimSpace code) \<longrightarrow>
         snd (drop_matching e (TrimSpace other) rest) = snd (drop_matching e (TrimSpace other) hashes))"
proof -
  let ?h = "HashToken e (TrimSpace code)"
  define rest where "rest = filter (\<lambda>h. h \<noteq> ?h) hashes"
  have rest: "distinct rest" "set rest = set hashes - {?h}" using assms(5) by (auto simp: rest_def)
  from assms(1,4,5) have "st_SetRecoveryCodes e uid (json_strings e rest) w = (Inr (), w')"
    by (simp add: consumeRecoveryCode_returns drop_matching_filter rest_def split: if_splits)
  from st_SetRecoveryCodes_returns [OF this] assms(2)
  have row: "totp_row (wdb w') uid = Some (t\<lparr>RecoveryCodes := json_strings e rest\<rparr>)" by auto
  moreover have "consumeRecoveryCode e uid (json_strings e rest) code w2 = (Inr False, w2)" for w2
    using assms(3) rest by (simp add: consumeRecoveryCode_returns drop_matching_filter)
  ultimately show ?thesis
    using assms(3,5) rest
    by (intro exI [of _ "t\<lparr>RecoveryCodes := json_strings e rest\<rparr>"] exI [of _ rest])
      (auto simp: drop_matching_filter)
qed

lemma demo_totp_row [simp]: "totp_row demo_db 2 = Some demo_totp"
  by (simp add: totp_row_def find_where_Cons) (simp add: demo_totp_def)

lemma demo_spare [simp]: "TrimSpace ''spare'' = ''spare''"
  by (rule TrimSpace_plain; simp add: plain_byte_def byte_def)

lemma demo_recovery:
  "json_unstrings demo_env (RecoveryCodes demo_totp) = Some [HashToken demo_env ''spare'']"
  by (simp add: demo_totp_def unpack_pack [of "[HashToken demo_env ''spare'']", simplified])

lemma demo_set_codes: "\<exists>w'. st_SetRecoveryCodes demo_env 2 codes (next_tick demo_world) = (Inr (), w')
    \<and> user_sessions (wdb w') = [demo_session]"
  by (simp add: st_SetRecoveryCodes_def eval_defs) (simp add: demo_totp_def)

lemma demo_consume_run: "w = next_tick demo_world \<Longrightarrow>
    \<exists>w'. consumeRecoveryCode demo_env 2 (RecoveryCodes demo_totp) ''spare'' w = (Inr True, w')
       \<and> user_sessions (wdb w') = [demo_session]"
  using demo_set_codes
  by (simp add: consumeRecoveryCode_returns demo_recovery VerifyTokenHash_def del: demo_env_simps)

lemma demo_secret: "Decrypt demo_env \<lparr>aead_key = replicate 32 (CHR ''q''), aead_version = 1\<rparr>
    (SecretEncrypted demo_totp) = Inr ''MFRGGZDFMZTWQ2LK''"
proof -
  have "itoa_int 1 = ''1''" by code_simp
  then have "splitVersionTag (SecretEncrypted demo_totp) = Inr (base64_encode (replicate 12 (CHR ''n'') @
      ''MFRGGZDFMZTWQ2LK'' @ replicate 16 (CHR ''t'')), 1)"
    using splitVersionTag_encoded [of 1 "base64_encode (replicate 12 (CHR ''n'') @
      ''MFRGGZDFMZTWQ2LK'' @ replicate 16 (CHR ''t''))"] by (simp add: demo_totp_def)
  then show ?thesis
    by (simp add: Decrypt_def base64_roundtrip NonceSize_def Overhead_def) (simp add: demo_env_def numeral_eq_Suc)
qed

lemma demo_two_factor_run: "\<exists>w'. VerifyTwoFactor demo_env 2 ''bobs-session'' ''spare'' demo_world = (Inr (), w')"
proof -
  have sec: "totpSecret demo_env 2 demo_world = (Inr (''MFRGGZDFMZTWQ2LK'', demo_totp), next_tick demo_world)"
    by (simp add: totpSecret_returns demo_secret)
  have no: "\<not> VerifyTOTP demo_env s ''spare'' t" for s t by (simp add: VerifyTOTP_def TOTPDigits_def)
  obtain w2 where w2: "consumeRecoveryCode demo_env 2 (RecoveryCodes demo_totp) ''spare'' (next_tick demo_world)
      = (Inr True, w2)" "user_sessions (wdb w2) = [demo_session]"
    using demo_consume_run by blast
  have "s_Hash demo_session = HashToken demo_env ''bobs-session''" by (simp add: demo_session_def)
  with w2(2) obtain w3 where "st_MarkSessionTwoFactor demo_env (HashToken demo_env ''bobs-session'') w2 = (Inr (), w3)"
    by (simp add: st_MarkSessionTwoFactor_def eval_defs)
  then show ?thesis
    by (simp add: VerifyTwoFactor_def call_def try_call_def sec second_factor_def with_now_def no w2(1) ok_def)
      (simp add: demo_totp_def)
qed

theorem VerifyTwoFactor_factors_witness:
  "\<exists>w'. VerifyTwoFactor demo_env 2 ''bobs-session'' ''spare'' demo_world = (Inr (), w')
     \<and> map s_TwoFactorOK (user_sessions (wdb w')) = [True]"
proof -
  obtain w' where run: "VerifyTwoFactor demo_env 2 ''bobs-session'' ''spare'' demo_world = (Inr (), w')"
    using demo_two_factor_run by blast
  from VerifyTwoFactor_factors [OF run] run show ?thesis
    by (auto simp: update_where_def demo_session_def)
qed

theorem recovery_code_once_witness:
  "\<exists>w' t'. consumeRecoveryCode demo_env 2 (RecoveryCodes demo_totp) ''spare'' (next_tick demo_world) = (Inr True, w')
     \<and> totp_row (wdb w') 2 = Some t'
     \<and> fst (consumeRecoveryCode demo_env 2 (RecoveryCodes t') ''spare'' w') = Inr False"
proof -
  obtain w' where run: "consumeRecoveryCode demo_env 2 (RecoveryCodes demo_totp) ''spare'' (next_tick demo_world)
      = (Inr True, w')" using demo_consume_run by blast
  from recovery_code_once [OF run, of "[HashToken demo_env ''spare'']"] run demo_recovery show ?thesis
    by (auto simp: unpack_pack)
qed

section \<open>What a failure leaves\<close>

text \<open>
  A registration is not all or nothing. When everything about a sign-up without an invitation is
  in order and its name and address are free among the accounts, but some organization already uses
  the name as its slug, \<open>Register\<close> reports a conflict after it has written the account: the account
  stays, with the name and the address taken, and it has no personal organization.
\<close>

theorem Register_leaves_account:
  assumes "no_faults e" and "\<forall>i n. \<exists>bs. rand_read e i n = Inr bs"
    and "users_Enabled (users_cfg e)" and "registration_gate e inp = None" and "rg_InviteCode inp = []"
    and "ValidateName (rg_Username inp) = Inr name" and "ValidateEmail (rg_Email inp) = Inr mail"
    and "ValidatePassword (rune_classes e) (passwordPolicy e) (rg_Password inp) = None"
    and "EmailDomainAllowed mail (AllowedDomains (cfg_Registration (users_cfg e)))
           (BlockedDomains (cfg_Registration (users_cfg e)))"
    and "\<forall>x \<in> set (users (wdb w)). u_Username x \<noteq> name \<and> u_Email x \<noteq> mail"
    and "\<exists>x \<in> set (organizations (wdb w)). o_Slug x = name"
  shows "\<exists>w' u. Register e inp w = (Inl ErrConflict, w') \<and> users (wdb w') = users (wdb w) @ [u]
    \<and> u_Username u = name \<and> u_Email u = mail \<and> u_ID u \<notin> u_ID ` set (users (wdb w))
    \<and> organizations (wdb w') = organizations (wdb w)
    \<and> organization_members (wdb w') = organization_members (wdb w)"
proof -
  have f: "fault e t = None" for t using assms(1) by (simp add: no_faults_def)
  have "\<exists>bs. rand_read e (wrand w) (unat (p_SaltLength DefaultParams)) = Inr bs" using assms(2) by blast
  then obtain hash where hash: "HashPassword e (rg_Password inp) w = (Inr hash, w\<lparr>wrand := Suc (wrand w)\<rparr>)"
    by (auto simp: HashPassword_def HashPasswordWithParams_def call_def try_call_def read_random_def ok_def)
  define st where "st = (if RequireEmailVerification (cfg_Registration (users_cfg e)) \<and> \<not> rg_ByAdmin inp
                        then StatusPending else StatusActive)"
  obtain u w2 where u: "st_CreateUser e (new_user e name mail hash st) (w\<lparr>wrand := Suc (wrand w)\<rparr>) = (Inr u, w2)"
    using assms(10) by (auto simp: st_CreateUser_def st_UserByID_def new_user_def run_defs f insert_user_def
        find_fresh Let_def)
  from st_CreateUser_returns [OF u] have w2: "wdb w2 = (wdb w)\<lparr>users := users (wdb w) @ [u]\<rparr>"
    and row: "u_Username u = name" "u_Email u = mail" "u_ID u = next_id (map u_ID (users (wdb w)))"
    by (auto simp: new_user_def)
  have col: "list_all ascii ''organizations.slug''" by (simp add: ascii_def byte_def)
  have "\<exists>w3. createPersonalOrg e u w2 = (Inl ErrConflict, w3) \<and> wdb w3 = wdb w2"
    using assms(11) row
    by (auto simp: createPersonalOrg_def st_CreateOrg_def new_org_def run_defs f insert_org_def
        w2 unique_msg_conflict [OF col] mapStoreErr_def Let_def)
  then obtain w3 where "createPersonalOrg e u w2 = (Inl ErrConflict, w3)" "wdb w3 = wdb w2" by blast
  with assms hash u row w2 show ?thesis
    by (simp add: Register_def check_def check_password_def register_invite_def call_def try_call_def
        ok_def fail_def st_def [symmetric])
qed

definition demo_clash :: RegisterInput where
  "demo_clash = demo_registration\<lparr>rg_Username := ''acme''\<rparr>"

lemma demo_clash_name: "ValidateName ''acme'' = Inr ''acme''"
proof -
  have no: "\<not> Contains ''acme'' ''--''" "\<not> list_ex (Contains ''acme'') substringBlocked" by code_simp+
  have "NormalizeName ''acme'' = ''acme''"
    by (rule plain_lower_fixed; simp add: plain_byte_def is_upper_def byte_def;
        simp add: plain_byte_def is_upper_def byte_def)
  moreover have "\<not> List.member Blocklist ''acme''" by (simp add: Blocklist_def)
  ultimately show ?thesis
    using no ValidateName_Inr_iff [of "''acme''" "''acme''"]
    by (simp add: IsBlocked_def NormalizeName_def name_char_def alnum_def is_lower_def byte_def)
qed

theorem Register_leaves_account_witness:
  "\<exists>w'. Register demo_env demo_clash demo_world = (Inl ErrConflict, w') \<and> length (users (wdb w')) = 4
      \<and> length (organizations (wdb w')) = 2"
proof -
  have "registration_gate demo_env demo_clash = registration_gate demo_env demo_registration"
    by (simp add: demo_clash_def demo_registration_def registration_gate_def)
  then show ?thesis
    using Register_leaves_account [of demo_env demo_clash "''acme''" "''dave@acme.example''" demo_world]
      demo_gate_open
    by (auto simp: demo_clash_def demo_registration_def demo_clash_name demo_registration_valid)
qed

text \<open>
  An account that owns an organization, and after \<open>Register\<close> every account owns its personal one,
  cannot be deleted: on a working database \<open>DeleteUser\<close> reports the foreign key and changes
  nothing. Only an account that owns nothing and has no pending invitation of its own goes, and
  with it go its sessions, credentials, memberships and grants.
\<close>

theorem DeleteUser_needs_no_orgs:
  assumes "no_faults e" and "db_integrity (wdb w)" and "user_row (wdb w) uid \<noteq> None"
  shows "(if (\<exists>o1 \<in> set (organizations (wdb w)). o_OwnerID o1 = uid)
             \<or> (\<exists>i \<in> set (invitations (wdb w)). i_InvitedBy i = uid)
          then fst (st_DeleteUser e uid w) = Inl (LibError foreign_key_msg)
               \<and> wdb (snd (st_DeleteUser e uid w)) = wdb w
          else fst (st_DeleteUser e uid w) = Inr ()
               \<and> user_row (wdb (snd (st_DeleteUser e uid w))) uid = None
               \<and> uid \<notin> s_UserID ` set (user_sessions (wdb (snd (st_DeleteUser e uid w))))
               \<and> uid \<notin> m_UserID ` set (organization_members (wdb (snd (st_DeleteUser e uid w)))))"
proof -
  have u: "has_user (wdb w) uid" using assms(3) by (auto simp: has_user_def user_row_def find_where_None)
  then have pos: "uid \<noteq> 0" using assms(2) by (auto simp: has_user_def integrity_defs)
  have f: "fault e t = None" for t using assms(1) by (simp add: no_faults_def)
  show ?thesis
  proof (cases "(\<exists>o1 \<in> set (organizations (wdb w)). o_OwnerID o1 = uid)
             \<or> (\<exists>i \<in> set (invitations (wdb w)). i_InvitedBy i = uid)")
    case True
    then have "delete_user uid (wdb w) = Inl foreign_key_msg" using u pos by (auto simp: delete_user_def)
    with True show ?thesis
      by (simp add: st_DeleteUser_def affected_def call_def try_call_def exec_def f fail_def conflict_or_def)
  next
    case False
    with u show ?thesis
      by (auto simp: st_DeleteUser_def affected_def call_def try_call_def exec_def f ok_def delete_user_def
          user_row_def find_where_None)
  qed
qed

theorem DeleteUser_needs_no_orgs_witness:
  "fst (st_DeleteUser demo_env 1 demo_world) = Inl (LibError foreign_key_msg)
   \<and> fst (st_DeleteUser demo_env 2 demo_world) = Inr ()"
  using DeleteUser_needs_no_orgs [of demo_env demo_world 1] DeleteUser_needs_no_orgs [of demo_env demo_world 2]
    demo_integrity
  by (auto simp: user_row_def find_where_Cons demo_invite_def split: if_splits)

end
