(* ===== verification/Token_Access.thy ===== *)
theory Token_Access
  imports Credentials
begin

text \<open>
  API tokens: what a token may do is bounded by what its holder may do, when it is issued and every
  time it is presented.
\<close>

section \<open>Presenting a token\<close>

definition token_row :: "env \<Rightarrow> users_db \<Rightarrow> string \<Rightarrow> Token option" where
  "token_row e d presented = find_where (\<lambda>t. t_Hash t = HashToken e presented) (api_tokens d)"

lemma CapRole_inter:
  "known_role r \<Longrightarrow> {p. Can (CapRole s r) p} = {p. Can s p} \<inter> {p. Can r p}"
  using Can_mono [of r s] Can_mono [of s r] by (auto simp: CapRole_def)

lemma token_role_returns:
  "token_role e t w = (Inr r, w') \<longleftrightarrow>
     (if t_OwnerType t = OwnerUser \<and> t_OrgID t \<noteq> 0 then
        (\<exists>a g. Access e (t_OrgID t) (t_OwnerID t) w = (Inr a, w') \<and> ParseRole (t_Role t) = Inr g
               \<and> r = CapRole (access_Role a) g)
      else r = (case ParseRole (t_Role t) of Inl _ \<Rightarrow> RoleViewer | Inr g \<Rightarrow> g) \<and> w' = w)"
  by (auto simp: token_role_def call_returns check_returns ok_returns)

lemma AuthenticateToken_returns:
  assumes "AuthenticateToken e raw w = (Inr a, w')"
  shows "\<exists>t n w1 r. token_row e (wdb w) (TrimSpace raw) = Some t \<and> TrimSpace raw \<noteq> []
     \<and> token_Usable t (truncate_second (clock e n)) \<and> token_role e t (next_tick w) = (Inr r, w1)
     \<and> a = \<lparr>auth_Token = t, auth_Role = r,
            auth_Scope = (case ParseScope (t_Scope t) of Inl _ \<Rightarrow> ScopeRead | Inr s \<Rightarrow> s)\<rparr>"
  using assms
  by (auto simp: AuthenticateToken_def st_TokenByHash_def token_row_def call_returns query_row_returns
      with_now_returns fail_returns ignoring_eq ok_returns Let_def split: if_splits)

text \<open>
  C14: A token is worth what its holder is worth now. When \<open>AuthenticateToken\<close> accepts a token, the
  hash of the trimmed value is stored, the row is not revoked and not expired at some reading of the
  clock; and for a personal token in an organization, the holder has a role there at this moment,
  the role stored with the token is a known one, and the request gets exactly the permissions that
  both of them have.
\<close>

theorem AuthenticateToken_live:
  assumes "AuthenticateToken e raw w = (Inr a, w')"
  shows "token_row e (wdb w) (TrimSpace raw) = Some (auth_Token a) \<and> TrimSpace raw \<noteq> []
    \<and> (\<exists>n. token_Usable (auth_Token a) (truncate_second (clock e n)))
    \<and> (if t_OwnerType (auth_Token a) = OwnerUser \<and> t_OrgID (auth_Token a) \<noteq> 0
       then \<exists>r g. role_in (wdb w) (t_OrgID (auth_Token a)) (t_OwnerID (auth_Token a)) = Some r
              \<and> ParseRole (t_Role (auth_Token a)) = Inr g
              \<and> {p. Can (auth_Role a) p} = {p. Can r p} \<inter> {p. Can g p}
       else known_role (auth_Role a))"
proof -
  from AuthenticateToken_returns [OF assms] obtain t n w1 r where
    t: "token_row e (wdb w) (TrimSpace raw) = Some t" "TrimSpace raw \<noteq> []"
      "token_Usable t (truncate_second (clock e n))"
    and role: "token_role e t (next_tick w) = (Inr r, w1)"
    and a: "auth_Token a = t" "auth_Role a = r" by auto
  have "if t_OwnerType t = OwnerUser \<and> t_OrgID t \<noteq> 0
       then \<exists>r0 g. role_in (wdb w) (t_OrgID t) (t_OwnerID t) = Some r0
              \<and> ParseRole (t_Role t) = Inr g \<and> {p. Can r p} = {p. Can r0 p} \<inter> {p. Can g p}
       else known_role r"
    using role CapRole_inter
    by (auto simp: token_role_returns Access_returns ParseRole_Inr split: if_splits sum.splits)
      (auto simp: known_role_def)
  with t show ?thesis unfolding a by blast
qed

lemma demo_bob_token: "token_row demo_env demo_db ''usr_bob'' = Some demo_token"
  by (simp add: token_row_def find_where_Cons) (simp add: demo_token_def)

lemma demo_usr_bob: "TrimSpace ''usr_bob'' = ''usr_bob''"
  by (rule TrimSpace_plain; simp add: plain_byte_def byte_def)

lemma demo_authenticate_run: "\<exists>a w'. AuthenticateToken demo_env ''usr_bob'' demo_world = (Inr a, w')
    \<and> auth_Token a = demo_token"
proof -
  have hash: "st_TokenByHash demo_env (HashToken demo_env ''usr_bob'') demo_world = (Inr demo_token, next_tick demo_world)"
    using demo_bob_token by (simp add: st_TokenByHash_def token_row_def query_row_def query_def try_call_def ok_def)
  have "token_role demo_env demo_token (next_tick demo_world) =
      (Inr (CapRole RoleViewer RoleViewer), next_tick (next_tick (next_tick demo_world)))"
    by (simp add: token_role_def demo_token_def call_def try_call_def check_def ok_def)
  then show ?thesis
    by (simp add: AuthenticateToken_def demo_usr_bob call_def try_call_def hash with_now_def ignoring_eq ok_def)
      (simp add: demo_token_def token_Usable_def)
qed

theorem AuthenticateToken_live_witness:
  "\<exists>a w'. AuthenticateToken demo_env ''usr_bob'' demo_world = (Inr a, w') \<and> auth_Token a = demo_token
     \<and> {p. Can (auth_Role a) p} = {PermRead}"
proof -
  obtain a w' where run: "AuthenticateToken demo_env ''usr_bob'' demo_world = (Inr a, w')"
    "auth_Token a = demo_token" using demo_authenticate_run by blast
  from AuthenticateToken_live [OF run(1)] run show ?thesis
    by (auto simp: demo_token_def Can_viewer)
qed

section \<open>Losing the membership\<close>

lemma unusable_token_refused:
  assumes "\<And>t. token_row e (wdb w) (TrimSpace raw) = Some t \<Longrightarrow> t_RevokedAt t \<noteq> None"
  shows "refused (AuthenticateToken e raw) w"
proof (cases "TrimSpace raw = []")
  case False
  show ?thesis
    unfolding AuthenticateToken_def Let_def if_not_P [OF False]
    by (rule refused_after_read)
      (use assms in \<open>auto simp: st_TokenByHash_def token_row_def returns_simps token_Usable_def
        with_now_def refused_def fail_def intro!: readsI hoare_intros\<close>)
qed (simp add: AuthenticateToken_def refused_fail)

text \<open>
  Who leaves an organization leaves with dead tokens. After \<open>RemoveMember\<close> has succeeded, every
  token the removed member held in the organization is refused, whatever environment it is presented
  under, without a change of the database.
\<close>

theorem removed_member_tokens_refused:
  assumes "Service_Orgs.RemoveMember e oid aid tid w = (Inr (), w')" and "db_integrity (wdb w)"
    and "t \<in> set (api_tokens (wdb w))" and "t_OrgID t = oid" and "t_OwnerType t = OwnerUser"
    and "t_OwnerID t = tid" and "HashToken e2 (TrimSpace raw) = t_Hash t" and "wdb w2 = wdb w'"
  shows "\<exists>x w3. AuthenticateToken e2 raw w2 = (Inl x, w3) \<and> wdb w3 = wdb w2"
proof -
  from RemoveMember_returns [OF assms(1)] obtain ts where
    aud: "audited (without_member oid tid ts (wdb w)) (wdb w')" by blast
  have key: "unique_on t_Hash (api_tokens (wdb w))" using assms(2) by (simp add: integrity_defs)
  have "refused (AuthenticateToken e2 raw) w2"
  proof (rule unusable_token_refused)
    fix t' assume "token_row e2 (wdb w2) (TrimSpace raw) = Some t'"
    then have "find_where (\<lambda>x. t_Hash x = t_Hash t) (api_tokens (wdb w')) = Some t'"
      by (simp add: token_row_def assms(7,8))
    then have "map_option (\<lambda>x. if t_OrgID x = oid \<and> t_OwnerType x = OwnerUser \<and> t_OwnerID x = tid
          \<and> t_RevokedAt x = None then x\<lparr>t_RevokedAt := Some ts\<rparr> else x)
        (find_where (\<lambda>x. t_Hash x = t_Hash t) (api_tokens (wdb w))) = Some t'"
      by (simp add: auditedD [OF aud] without_member_def find_where_update_key)
    then show "t_RevokedAt t' \<noteq> None"
      using find_where_key [OF key assms(3) refl] assms(4-6) by (auto split: if_splits)
  qed
  then show ?thesis
    by (cases "AuthenticateToken e2 raw w2") (auto simp: refused_def split: sum.splits)
qed

theorem removed_member_tokens_refused_witness:
  "\<exists>w'. Service_Orgs.RemoveMember demo_env 2 3 2 demo_world = (Inr (), w')
     \<and> (\<exists>x w3. AuthenticateToken demo_env ''usr_bob'' w' = (Inl x, w3) \<and> wdb w3 = wdb w')"
proof -
  obtain w' where run: "Service_Orgs.RemoveMember demo_env 2 3 2 demo_world = (Inr (), w')"
    using demo_remove_run by blast
  have t: "t_OrgID demo_token = 2" "t_OwnerType demo_token = OwnerUser" "t_OwnerID demo_token = 2"
    "HashToken demo_env (TrimSpace ''usr_bob'') = t_Hash demo_token"
    unfolding demo_usr_bob by (simp_all add: demo_token_def)
  have "\<exists>x w3. AuthenticateToken demo_env ''usr_bob'' w' = (Inl x, w3) \<and> wdb w3 = wdb w'"
    by (rule removed_member_tokens_refused [OF run _ _ t(1-4) refl]) (simp_all add: demo_integrity)
  with run show ?thesis by blast
qed

section \<open>Issuing a token\<close>

lemma GenerateToken_returns:
  assumes "GenerateToken e PrefixUser w = (Inr s, w')"
  shows "(\<exists>r. s = PrefixUser @ r \<and> length r = 32 \<and> isAlphanumeric r) \<and> wdb w' = wdb w"
proof -
  from assms obtain r where r: "RandomString e (int RandomLength) w = (Inr r, w')" "s = PrefixUser @ r"
    by (auto simp: GenerateToken_def returns_simps split: if_splits)
  from RandomString_result [OF r(1)] r(2) show ?thesis by (auto simp: RandomLength_def)
qed

lemma alphabet_plain: "c \<in> set alphabet \<Longrightarrow> plain_byte c"
  by (auto simp: alphabet_def plain_byte_def byte_def)

lemma token_plain:
  assumes "isAlphanumeric r"
  shows "TrimSpace (PrefixUser @ r) = PrefixUser @ r"
proof (rule TrimSpace_plain)
  have "list_all plain_byte r"
    using assms alphabet_plain unfolding isAlphanumeric_def list_all_iff by blast
  moreover have "list_all plain_byte PrefixUser" by (simp add: PrefixUser_def plain_byte_def byte_def)
  ultimately show "list_all plain_byte (PrefixUser @ r)" by simp
qed

lemma reads_token_gates: "reads (token_zone_gate e uid inp)" "reads (token_quota e uid)"
  by (rule readsI; auto simp: token_zone_gate_def token_quota_def CanEditZone_def st_ZoneGranted_def
      st_CountLiveTokens_def Let_def intro!: hoare_intros keeps_Access)+

definition live_tokens :: "users_db \<Rightarrow> int \<Rightarrow> int \<Rightarrow> int" where
  "live_tokens d uid now =
     count_where (\<lambda>t. t_OwnerType t = OwnerUser \<and> t_OwnerID t = uid \<and> t_RevokedAt t = None
       \<and> (case t_ExpiresAt t of None \<Rightarrow> True | Some x \<Rightarrow> x > now)) (api_tokens d)"

lemma token_quota_returns:
  "token_quota e uid w = (Inr (), w') \<Longrightarrow>
   \<exists>n. 0 < MaxPerUser (cfg_Tokens (users_cfg e)) \<longrightarrow>
       live_tokens (wdb w) uid (truncate_second (store_clock e n)) < MaxPerUser (cfg_Tokens (users_cfg e))"
  by (rule exI [of _ "wtick w"])
    (auto simp: token_quota_def st_CountLiveTokens_def live_tokens_def returns_simps Let_def
      split: if_splits)

lemma requested_scope_cases:
  "requested_scope raw = Inr s \<Longrightarrow> s \<in> {ScopeGlobal, ScopeReadWrite, ScopeRead}"
  by (auto simp: requested_scope_def ParseScope_def split: if_splits)

lemma IssueToken_returns:
  assumes "IssueToken e uid inp w = (Inr i, w')"
  shows "\<exists>r role n. role_in (wdb w) (it_OrgID inp) uid = Some r \<and> Can r PermTokensManage
     \<and> t_Role (issued_Token i) = CapRole r role \<and> known_role role
     \<and> t_Scope (issued_Token i) \<in> {ScopeReadWrite, ScopeRead}
     \<and> (t_Scope (issued_Token i) = ScopeReadWrite \<longrightarrow> Can (CapRole r role) PermRecordsWrite)
     \<and> (0 < MaxPerUser (cfg_Tokens (users_cfg e)) \<longrightarrow>
          live_tokens (wdb w) uid (truncate_second (store_clock e n)) < MaxPerUser (cfg_Tokens (users_cfg e)))
     \<and> (\<exists>s. issued_Secret i = PrefixUser @ s \<and> length s = 32 \<and> isAlphanumeric s)
     \<and> t_Hash (issued_Token i) = HashToken e (issued_Secret i)
     \<and> t_OwnerType (issued_Token i) = OwnerUser \<and> t_OwnerID (issued_Token i) = uid
     \<and> t_OrgID (issued_Token i) = it_OrgID inp \<and> it_OrgID inp \<noteq> 0 \<and> t_RevokedAt (issued_Token i) = None
     \<and> (\<exists>n d1. insert_token ((issued_Token i)\<lparr>t_ExpiresAt := map_option truncate_second (t_ExpiresAt (issued_Token i)),
            t_ID := 0\<rparr>) (wdb w) = Inr (n, d1) \<and> audited d1 (wdb w'))"
proof -
  from assms obtain a w1 requested scope w2 w3 secret w4 w5 name cap now where
    acc: "require e (it_OrgID inp) uid PermTokensManage w = (Inr a, w1)" and org: "it_OrgID inp \<noteq> 0"
    and req: "requested_role (access_Role a) (it_Role inp) = Inr requested"
    and sc: "requested_scope (it_Scope inp) = Inr scope" "scope \<noteq> ScopeGlobal"
      "\<not> (scope = ScopeReadWrite \<and> \<not> Can (CapRole (access_Role a) requested) PermRecordsWrite)"
    and zone: "token_zone_gate e uid inp w1 = (Inr (), w2)" and quota: "token_quota e uid w2 = (Inr (), w3)"
    and gen: "GenerateToken e PrefixUser w3 = (Inr secret, w4)"
    and cre: "st_CreateToken e \<lparr>t_ID = 0, t_OwnerType = OwnerUser, t_OwnerID = uid, t_Name = name,
              t_Hash = HashToken e secret, t_Prefix = TokenPrefixDisplay secret, t_Scope = scope,
              t_Role = CapRole (access_Role a) requested, t_OrgID = it_OrgID inp, t_ZoneID = it_ZoneID inp,
              t_Capability = cap, t_LastUsedAt = None, t_RevokedAt = None,
              t_ExpiresAt = token_expiry e (it_ExpiresIn inp) now, t_CreatedAt = zero_time\<rparr> w4
          = (Inr (issued_Token i), w5)"
    and sec: "issued_Secret i = secret" and aud: "audited (wdb w5) (wdb w')"
    by (auto simp: IssueToken_def call_returns check_returns fail_returns with_now_returns ignoring_eq
        ok_returns Let_def simp del: require_returns split: if_splits)
  from acc have w1: "wdb w1 = wdb w" and r: "role_in (wdb w) (it_OrgID inp) uid = Some (access_Role a)"
    "Can (access_Role a) PermTokensManage" by (simp_all add: returns_simps)
  have db: "wdb w2 = wdb w" "wdb w3 = wdb w"
    using readsD [OF reads_token_gates(1) zone] readsD [OF reads_token_gates(2) quota] w1 by simp_all
  from GenerateToken_returns [OF gen] have s: "\<exists>s. secret = PrefixUser @ s \<and> length s = 32 \<and> isAlphanumeric s"
    and w4: "wdb w4 = wdb w" by (simp_all add: db)
  from token_quota_returns [OF quota] obtain n where n: "0 < MaxPerUser (cfg_Tokens (users_cfg e)) \<longrightarrow>
      live_tokens (wdb w) uid (truncate_second (store_clock e n)) < MaxPerUser (cfg_Tokens (users_cfg e))"
    by (auto simp: db)
  have known: "known_role requested"
    using req role_in_known [OF r(1)]
    by (auto simp: requested_role_def ParseRole_Inr split: if_splits sum.splits)
  from cre have t: "t_Role (issued_Token i) = CapRole (access_Role a) requested"
    "t_Scope (issued_Token i) = scope" "t_Hash (issued_Token i) = HashToken e secret"
    "t_OwnerType (issued_Token i) = OwnerUser" "t_OwnerID (issued_Token i) = uid"
    "t_OrgID (issued_Token i) = it_OrgID inp" "t_RevokedAt (issued_Token i) = None"
    and ins: "\<exists>n d1. insert_token ((issued_Token i)\<lparr>t_ExpiresAt := map_option truncate_second
        (t_ExpiresAt (issued_Token i)), t_ID := 0\<rparr>) (wdb w4) = Inr (n, d1) \<and> wdb w5 = d1"
    by (cases i; auto simp: st_CreateToken_def store_now_returns call_returns exec_returns ok_returns)+
  show ?thesis
    by (intro exI [of _ "access_Role a"] exI [of _ requested] exI [of _ n])
      (use r known t sc(2,3) requested_scope_cases [OF sc(1)] n s sec org ins aud w4 in auto)
qed

text \<open>
  C15: A token never exceeds its issuer. When \<open>IssueToken\<close> succeeds, the caller has a role with
  tokens:manage in the organization, the token belongs to the caller and to this organization, its
  role's permissions are among the caller's, its scope is not the global one and allows writing only
  with a role that may write records, and the caller held fewer live tokens than the configured
  maximum at some reading of the clock. The secret has the documented user format, and what is
  stored of it is its hash, which no other token has.
\<close>

theorem IssueToken_bounded:
  assumes "IssueToken e uid inp w = (Inr i, w')"
  shows "\<exists>r n. role_in (wdb w) (it_OrgID inp) uid = Some r \<and> Can r PermTokensManage
    \<and> t_OwnerType (issued_Token i) = OwnerUser \<and> t_OwnerID (issued_Token i) = uid
    \<and> t_OrgID (issued_Token i) = it_OrgID inp
    \<and> {p. Can (t_Role (issued_Token i)) p} \<subseteq> {p. Can r p}
    \<and> t_Scope (issued_Token i) \<noteq> ScopeGlobal
    \<and> (t_Scope (issued_Token i) = ScopeReadWrite \<longrightarrow> Can (t_Role (issued_Token i)) PermRecordsWrite)
    \<and> (0 < MaxPerUser (cfg_Tokens (users_cfg e)) \<longrightarrow>
         live_tokens (wdb w) uid (truncate_second (store_clock e n)) < MaxPerUser (cfg_Tokens (users_cfg e)))
    \<and> (\<exists>s. ParseToken (issued_Secret i) = Inr \<lparr>info_Prefix = PrefixUser, info_OwnerType = OwnerUser,
              info_IsAgent = False, info_Random = s\<rparr>)
    \<and> token_row e (wdb w) (issued_Secret i) = None
    \<and> (\<exists>row. token_row e (wdb w') (issued_Secret i) = Some row \<and> t_Role row = t_Role (issued_Token i)
           \<and> t_OwnerID row = uid \<and> t_OrgID row = it_OrgID inp \<and> t_RevokedAt row = None)"
proof -
  from IssueToken_returns [OF assms] obtain r role n s k d1 where
    r: "role_in (wdb w) (it_OrgID inp) uid = Some r" "Can r PermTokensManage"
    and t: "t_Role (issued_Token i) = CapRole r role" "t_Scope (issued_Token i) \<in> {ScopeReadWrite, ScopeRead}"
      "t_Scope (issued_Token i) = ScopeReadWrite \<longrightarrow> Can (CapRole r role) PermRecordsWrite"
    and n: "0 < MaxPerUser (cfg_Tokens (users_cfg e)) \<longrightarrow>
      live_tokens (wdb w) uid (truncate_second (store_clock e n)) < MaxPerUser (cfg_Tokens (users_cfg e))"
    and s: "issued_Secret i = PrefixUser @ s" "length s = 32" "isAlphanumeric s"
    and row: "t_Hash (issued_Token i) = HashToken e (issued_Secret i)"
      "t_OwnerType (issued_Token i) = OwnerUser" "t_OwnerID (issued_Token i) = uid"
      "t_OrgID (issued_Token i) = it_OrgID inp" "t_RevokedAt (issued_Token i) = None"
    and ins: "insert_token ((issued_Token i)\<lparr>t_ExpiresAt := map_option truncate_second (t_ExpiresAt (issued_Token i)),
            t_ID := 0\<rparr>) (wdb w) = Inr (k, d1)" and aud: "audited d1 (wdb w')"
    by blast
  have parse: "ParseToken (issued_Secret i) = Inr \<lparr>info_Prefix = PrefixUser, info_OwnerType = OwnerUser,
              info_IsAgent = False, info_Random = s\<rparr>"
    unfolding s(1) by (rule ParseToken_plain) (simp_all add: s RandomLength_def)
  from ins have none: "token_row e (wdb w) (issued_Secret i) = None"
    and d1: "\<exists>x. api_tokens d1 = api_tokens (wdb w) @ [x] \<and> t_Hash x = HashToken e (issued_Secret i)
        \<and> t_Role x = t_Role (issued_Token i) \<and> t_OwnerID x = uid \<and> t_OrgID x = it_OrgID inp \<and> t_RevokedAt x = None"
    using row by (auto simp: insert_token_returns token_row_def find_where_None)
  then have "\<exists>row. token_row e (wdb w') (issued_Secret i) = Some row \<and> t_Role row = t_Role (issued_Token i)
           \<and> t_OwnerID row = uid \<and> t_OrgID row = it_OrgID inp \<and> t_RevokedAt row = None"
    by (auto simp: token_row_def auditedD [OF aud] find_append1)
  moreover have "{p. Can (t_Role (issued_Token i)) p} \<subseteq> {p. Can r p}" using CapRole_Can by (auto simp: t(1))
  moreover have "t_Scope (issued_Token i) \<noteq> ScopeGlobal" using t(2) by (auto simp: token_consts)
  ultimately show ?thesis using r t n parse none row by auto
qed

definition demo_issue :: IssueTokenInput where
  "demo_issue = \<lparr>it_Name = ''deploy'', it_OrgID = 2, it_ZoneID = 0, it_Capability = [], it_Role = [],
                 it_Scope = [], it_ExpiresIn = 0\<rparr>"

lemma demo_GenerateToken: "\<exists>s w'. GenerateToken demo_env PrefixUser w = (Inr s, w') \<and> length s = 36 \<and> wdb w' = wdb w"
proof -
  obtain r w' where "RandomString demo_env (int RandomLength) w = (Inr r, w')" "length r = 32" "wdb w' = wdb w"
    using demo_RandomString [of "int RandomLength" w] by (auto simp: RandomLength_def)
  then show ?thesis
    by (auto simp: GenerateToken_def call_def try_call_def ok_def PrefixUser_def)
qed

lemma demo_issue_run:
  "\<exists>i w'. IssueToken demo_env 3 demo_issue demo_world = (Inr i, w') \<and> t_ExpiresAt (issued_Token i) = None"
proof -
  have deploy: "TrimSpace ''deploy'' = ''deploy''" by (rule TrimSpace_plain; simp add: plain_byte_def byte_def)
  define w1 where "w1 = next_tick (next_tick demo_world)"
  have acc: "require demo_env 2 3 PermTokensManage demo_world =
      (Inr \<lparr>access_Org = demo_org 2 ''acme'' False 1, access_Role = RoleAdmin\<rparr>, w1)"
    by (simp add: w1_def role_simps perm_defs)
  have quota: "token_quota demo_env 3 w1 = (Inr (), next_tick w1)"
    by (simp add: token_quota_def st_CountLiveTokens_def demo_users_def call_def try_call_def store_now_def
        query_def ok_def w1_def Let_def) (simp add: count_where_def demo_token_def OwnerUser_def)
  obtain s w2 where gen: "GenerateToken demo_env PrefixUser (next_tick w1) = (Inr s, w2)" "length s = 36"
    "wdb w2 = demo_db" using demo_GenerateToken [of "next_tick w1"] by (auto simp: w1_def)
  have "length (HashToken demo_env s) = 72" "length (t_Hash demo_token) = 14"
    by (simp_all add: HashToken_def length_hex_encode gen(2) demo_token_def)
  then have "t_Hash demo_token \<noteq> HashToken demo_env s" by auto
  with gen have "\<exists>t w3. st_CreateToken demo_env (x\<lparr>t_Hash := HashToken demo_env s\<rparr>) w2 = (Inr t, w3)" for x
    by (auto simp: st_CreateToken_def store_now_def call_def try_call_def exec_def ok_def insert_token_def Let_def)
  note this [of "\<lparr>t_ID = 0, t_OwnerType = OwnerUser, t_OwnerID = 3, t_Name = ''deploy'', t_Hash = [],
      t_Prefix = TokenPrefixDisplay s, t_Scope = ScopeRead, t_Role = RoleAdmin, t_OrgID = 2, t_ZoneID = 0,
      t_Capability = [], t_LastUsedAt = None, t_RevokedAt = None, t_ExpiresAt = None, t_CreatedAt = zero_time\<rparr>"]
  then obtain t w3 where "st_CreateToken demo_env \<lparr>t_ID = 0, t_OwnerType = OwnerUser, t_OwnerID = 3,
      t_Name = ''deploy'', t_Hash = HashToken demo_env s,
      t_Prefix = TokenPrefixDisplay s, t_Scope = ScopeRead, t_Role = RoleAdmin, t_OrgID = 2, t_ZoneID = 0,
      t_Capability = [], t_LastUsedAt = None, t_RevokedAt = None, t_ExpiresAt = None, t_CreatedAt = zero_time\<rparr> w2
      = (Inr t, w3)" by auto
  moreover from this have "t_ExpiresAt t = None"
    by (auto simp: st_CreateToken_def store_now_returns call_returns ok_returns)
  moreover have "ScopeRead \<noteq> ScopeGlobal" "ScopeRead \<noteq> ScopeReadWrite" by (simp_all add: token_consts)
  ultimately show ?thesis
    by (simp add: IssueToken_def demo_users_def demo_issue_def deploy call_def try_call_def acc Let_def
        check_def requested_role_def requested_scope_def CapRole_def token_zone_gate_def quota
        gen(1) with_now_def token_expiry_def ignoring_eq ok_def)
qed

theorem IssueToken_bounded_witness:
  "\<exists>i w'. IssueToken demo_env 3 demo_issue demo_world = (Inr i, w')
     \<and> {p. Can (t_Role (issued_Token i)) p} \<subseteq> {p. Can RoleAdmin p}
     \<and> \<not> Can (t_Role (issued_Token i)) PermOrgDelete"
proof -
  obtain i w' where run: "IssueToken demo_env 3 demo_issue demo_world = (Inr i, w')"
    using demo_issue_run by blast
  from IssueToken_bounded [OF run] have sub: "{p. Can (t_Role (issued_Token i)) p} \<subseteq> {p. Can RoleAdmin p}"
    by (auto simp: demo_issue_def)
  moreover have "\<not> Can RoleAdmin PermOrgDelete" by (simp add: role_simps perm_defs)
  ultimately show ?thesis using run by blast
qed

text \<open>
  C16: An issued secret authenticates. While the database is as the issue left it, working, and the
  token has not expired, \<open>AuthenticateToken\<close> accepts the returned secret and gives exactly the role
  and the scope the token was issued with.
\<close>

theorem issued_token_authenticates:
  assumes "IssueToken e uid inp w = (Inr i, w')" and "wdb w2 = wdb w'" and "no_faults e2"
    and "sha256 e2 = sha256 e" and "steady e2 now"
    and "case t_ExpiresAt (issued_Token i) of None \<Rightarrow> True | Some x \<Rightarrow> now < truncate_second x"
  shows "\<exists>a w3. AuthenticateToken e2 (issued_Secret i) w2 = (Inr a, w3)
    \<and> t_OwnerID (auth_Token a) = uid \<and> auth_Role a = t_Role (issued_Token i)
    \<and> auth_Scope a = t_Scope (issued_Token i)"
proof -
  from IssueToken_returns [OF assms(1)] obtain r role s k d1 where
    r: "role_in (wdb w) (it_OrgID inp) uid = Some r"
    and t: "t_Role (issued_Token i) = CapRole r role" "known_role role"
      "t_Scope (issued_Token i) \<in> {ScopeReadWrite, ScopeRead}"
    and s: "issued_Secret i = PrefixUser @ s" "isAlphanumeric s"
    and row: "t_Hash (issued_Token i) = HashToken e (issued_Secret i)"
      "t_OwnerType (issued_Token i) = OwnerUser" "t_OwnerID (issued_Token i) = uid"
      "t_OrgID (issued_Token i) = it_OrgID inp" "it_OrgID inp \<noteq> 0" "t_RevokedAt (issued_Token i) = None"
    and ins: "insert_token ((issued_Token i)\<lparr>t_ExpiresAt := map_option truncate_second (t_ExpiresAt (issued_Token i)),
            t_ID := 0\<rparr>) (wdb w) = Inr (k, d1)" and aud: "audited d1 (wdb w')"
    by blast
  define x where "x = (issued_Token i)\<lparr>t_ExpiresAt := map_option truncate_second (t_ExpiresAt (issued_Token i)),
            t_ID := next_id (map t_ID (api_tokens (wdb w)))\<rparr>"
  from ins have d1: "d1 = (wdb w)\<lparr>api_tokens := api_tokens (wdb w) @ [x]\<rparr>"
    and fresh: "\<forall>v \<in> set (api_tokens (wdb w)). t_Hash v \<noteq> HashToken e (issued_Secret i)"
    using row(1) by (auto simp: insert_token_returns x_def)
  have x: "t_Hash x = HashToken e (issued_Secret i)" "t_Role x = CapRole r role"
    "t_Scope x = t_Scope (issued_Token i)" "t_OwnerType x = OwnerUser" "t_OwnerID x = uid"
    "t_OrgID x = it_OrgID inp" "it_OrgID inp \<noteq> 0" "token_Usable x now"
    using row t assms(6) by (auto simp: x_def token_Usable_def split: option.splits)
  have plain: "TrimSpace (issued_Secret i) = issued_Secret i" "issued_Secret i \<noteq> []"
    using token_plain [OF s(2)] by (simp_all add: s(1) PrefixUser_def)
  have f: "fault e2 n = None" and clk: "truncate_second (clock e2 n) = now" for n
    using assms(3,5) by (simp_all add: no_faults_def steady_def)
  have "find_where (\<lambda>t. t_Hash t = HashToken e2 (issued_Secret i)) (api_tokens (wdb w2)) = Some x"
    using fresh x(1)
    by (simp add: assms(2) auditedD [OF aud] d1 find_append1 HashToken_def assms(4) find_where_None [THEN iffD2])
  then have hash: "st_TokenByHash e2 (HashToken e2 (issued_Secret i)) w2 = (Inr x, next_tick w2)"
    by (simp add: st_TokenByHash_def query_row_def query_def try_call_def ok_def f)
  have same: "role_in (wdb w2) = role_in (wdb w)" "org_row (wdb w2) = org_row (wdb w)"
    by (simp_all add: assms(2) audited_roles [OF aud] d1 role_in_def org_row_def has_org_def fun_eq_iff)
  obtain org where "org_row (wdb w) (it_OrgID inp) = Some org"
    using r by (auto simp: role_in_def has_org_row split: if_splits)
  then have "Access e2 (it_OrgID inp) uid (next_tick w2) =
      (Inr \<lparr>access_Org = org, access_Role = r\<rparr>, next_tick (next_tick (next_tick w2)))"
    using r same assms(3) by simp
  moreover have "ParseRole (CapRole r role) = Inr (CapRole r role)"
    using CapRole_known role_in_known [OF r] by (simp add: ParseRole_known)
  ultimately have "token_role e2 x (next_tick w2) = (Inr (CapRole r role), next_tick (next_tick (next_tick w2)))"
    using x by (simp add: token_role_def call_def try_call_def check_def ok_def CapRole_idem)
  then show ?thesis
    using t x plain
    by (auto simp: AuthenticateToken_def call_def try_call_def hash with_now_def clk ignoring_eq ok_def
        ParseScope_def token_consts)
qed

theorem issued_token_authenticates_witness:
  "\<exists>i w' a w3. IssueToken demo_env 3 demo_issue demo_world = (Inr i, w')
     \<and> AuthenticateToken demo_env (issued_Secret i) w' = (Inr a, w3) \<and> t_OwnerID (auth_Token a) = 3"
proof -
  obtain i w' where run: "IssueToken demo_env 3 demo_issue demo_world = (Inr i, w')"
    and ex: "t_ExpiresAt (issued_Token i) = None" using demo_issue_run by blast
  from issued_token_authenticates [OF run, of w' demo_env demo_now] run ex show ?thesis by auto
qed

end
