(* ===== verification/Domain_Claims.thy ===== *)
theory Domain_Claims
  imports Token_Access
begin

text \<open>
  Custom domains: a claim is only worth something once the TXT record proves it, and only a proven,
  active domain is served.
\<close>

section \<open>Claiming\<close>

definition domain_row :: "users_db \<Rightarrow> int \<Rightarrow> Domain option" where
  "domain_row d did = find_where (\<lambda>x. d_ID x = did) (custom_domains d)"

definition named_domain :: "users_db \<Rightarrow> string \<Rightarrow> Domain option" where
  "named_domain d name = find_where (\<lambda>x. d_Name x = name) (custom_domains d)"

lemma audited_domains: "audited d d' \<Longrightarrow> domain_row d' = domain_row d" "audited d d' \<Longrightarrow> named_domain d' = named_domain d"
  by (auto simp: domain_row_def named_domain_def auditedD fun_eq_iff)

lemma domain_quota_returns:
  "domain_quota e oid w = (Inr (), w') \<Longrightarrow> wdb w' = wdb w
   \<and> (0 < MaxDomainsPerOrg (domains_cfg e) \<longrightarrow>
        count_where (\<lambda>x. d_OrgID x = oid) (custom_domains (wdb w)) < MaxDomainsPerOrg (domains_cfg e))"
  by (auto simp: domain_quota_def st_CountOrgDomains_def returns_simps Let_def split: if_splits)

lemma st_CreateDomain_returns:
  assumes "st_CreateDomain e x w = (Inr dm, w')"
  shows "custom_domains (wdb w') = custom_domains (wdb w) @ [dm] \<and> d_OrgID dm = d_OrgID x
    \<and> d_Name dm = normalizeDomain (d_Name x) \<and> d_Purpose dm = d_Purpose x
    \<and> d_VerificationToken dm = d_VerificationToken x \<and> d_VerificationStatus dm = VerificationPending
    \<and> d_Status dm = DomainPending \<and> d_ID dm \<notin> d_ID ` set (custom_domains (wdb w))
    \<and> (\<forall>v \<in> set (custom_domains (wdb w)). d_Name v \<noteq> d_Name dm)"
  using assms next_id_image [of d_ID "custom_domains (wdb w)"]
  by (auto simp: st_CreateDomain_def st_DomainByID_def store_now_returns call_returns exec_returns
      query_row_returns insert_domain_returns find_fresh simp del: next_id_image)

text \<open>
  A claim alone proves nothing. When \<open>AddDomain\<close> succeeds, domains are enabled, the caller may
  change the organization's settings, the policy admits the name, the purpose is a known one and the
  organization had room for a domain. The new row, under a name nobody had claimed, carries a fresh
  32-character token, is pending, and is not served.
\<close>

theorem AddDomain_pending:
  assumes "AddDomain e oid aid inp w = (Inr dm, w')"
  shows "domains_Enabled (domains_cfg e) \<and> permitted (wdb w) oid aid PermOrgSettings
    \<and> (\<exists>name wildcard. normalizeClaim e (ad_Domain inp) = Inr (name, wildcard)
          \<and> d_Name dm = normalizeDomain name)
    \<and> ValidPurpose (d_Purpose dm) \<and> d_OrgID dm = oid
    \<and> (0 < MaxDomainsPerOrg (domains_cfg e) \<longrightarrow>
         count_where (\<lambda>x. d_OrgID x = oid) (custom_domains (wdb w)) < MaxDomainsPerOrg (domains_cfg e))
    \<and> named_domain (wdb w) (d_Name dm) = None \<and> named_domain (wdb w') (d_Name dm) = Some dm
    \<and> domain_row (wdb w') (d_ID dm) = Some dm
    \<and> length (d_VerificationToken dm) = 32 \<and> isAlphanumeric (d_VerificationToken dm)
    \<and> \<not> Verified dm \<and> \<not> Servable dm \<and> d_Status dm = DomainPending"
proof -
  from assms obtain a w1 name wildcard purpose w2 token w3 w4 where
    en: "domains_Enabled (domains_cfg e)" and acc: "require e oid aid PermOrgSettings w = (Inr a, w1)"
    and claim: "normalizeClaim e (ad_Domain inp) = Inr (name, wildcard)" and pur: "ValidPurpose purpose"
    and quota: "domain_quota e oid w1 = (Inr (), w2)"
    and rand: "RandomString e (int RandomLength) w2 = (Inr token, w3)"
    and cre: "st_CreateDomain e (new_domain e oid name wildcard purpose token) w3 = (Inr dm, w4)"
    and aud: "audited (wdb w4) (wdb w')"
    by (auto simp: AddDomain_def call_returns check_returns fail_returns ignoring_eq ok_returns Let_def
        simp del: require_returns split: if_splits)
  from acc have w1: "wdb w1 = wdb w" and may: "permitted (wdb w) oid aid PermOrgSettings"
    by (simp_all add: returns_simps permitted_def)
  note q = domain_quota_returns [OF quota, unfolded w1]
  from RandomString_result [OF rand] q have w3: "wdb w3 = wdb w" and tok: "length token = 32" "isAlphanumeric token"
    by (simp_all add: RandomLength_def)
  note row = st_CreateDomain_returns [OF cre, unfolded w3]
  have none: "named_domain (wdb w) (d_Name dm) = None"
    using row by (auto simp: named_domain_def find_where_None)
  have app: "custom_domains (wdb w') = custom_domains (wdb w) @ [dm]" "d_ID dm \<notin> d_ID ` set (custom_domains (wdb w))"
    using row by (auto simp: auditedD [OF aud])
  from none app have "named_domain (wdb w') (d_Name dm) = Some dm" "domain_row (wdb w') (d_ID dm) = Some dm"
    by (simp add: named_domain_def find_append1, simp add: domain_row_def find_fresh)
  note none this
  moreover have "\<not> Verified dm" "\<not> Servable dm"
    using row by (simp_all add: Verified_def Servable_def model_consts)
  moreover have "d_Name dm = normalizeDomain name" "d_Purpose dm = purpose" "d_OrgID dm = oid"
    "d_VerificationToken dm = token" "d_Status dm = DomainPending"
    using row by (simp_all add: new_domain_def)
  ultimately show ?thesis using en may claim pur q tok by auto
qed

section \<open>Proving\<close>

lemma domainForOrg_returns:
  "domainForOrg e oid aid did p w = (Inr x, w') \<Longrightarrow>
   permitted (wdb w) oid aid p \<and> domain_row (wdb w) did = Some x \<and> d_OrgID x = oid \<and> wdb w' = wdb w"
  by (auto simp: domainForOrg_def st_DomainByID_def domain_row_def permitted_def returns_simps
      split: if_splits)

definition proves :: "env \<Rightarrow> Domain \<Rightarrow> nat \<Rightarrow> bool" where
  "proves e x n \<longleftrightarrow>
     (\<exists>values. LookupTXT e n (verification_name x) = Inr values
               \<and> (\<exists>v \<in> set values. TrimSpace v = d_VerificationToken x))"

lemma checkOwnership_run:
  "\<exists>r. checkOwnership e x w = (r, w) \<and> (r = Inr () \<longleftrightarrow> proves e x (wtick w))"
  by (auto simp: checkOwnership_def lookup_txt_def proves_def fail_def ok_def list_ex_iff Let_def
      split: sum.splits dns_error.splits)

lemma update_domain_returns:
  assumes "update_domain e p f w = (Inr (), w')" and "\<And>x. d_ID (f x) = d_ID x"
  shows "domain_row (wdb w') k = map_option (\<lambda>x. if p x then f x else x) (domain_row (wdb w) k)"
  using assms by (auto simp: update_domain_def returns_simps domain_row_def find_where_update_key)

lemma domain_row_ID: "domain_row d k = Some x \<Longrightarrow> d_ID x = k"
  by (auto simp: domain_row_def dest: find_where_SomeD)

lemma st_RecordVerificationAttempt_returns:
  assumes "st_RecordVerificationAttempt e did st w = (Inr (), w')"
  shows "\<exists>g. (\<forall>x. d_ID (g x) = d_ID x \<and> d_VerificationStatus (g x) = st \<and> d_Status (g x) = d_Status x
              \<and> d_OrgID (g x) = d_OrgID x \<and> d_Name (g x) = d_Name x)
     \<and> (\<forall>k. domain_row (wdb w') k = map_option (\<lambda>x. if k = did then g x else x) (domain_row (wdb w) k))"
proof -
  define ts where "ts = truncate_second (store_clock e (wtick w))"
  define g where "g = (\<lambda>x :: Domain. x\<lparr>d_VerificationStatus := st,
      d_VerifiedAt := (if st = VerificationVerified then Some ts else None), d_LastCheckAt := Some ts,
      d_CheckCount := d_CheckCount x + 1, d_UpdatedAt := ts\<rparr>)"
  from assms have "update_domain e (\<lambda>x. d_ID x = did) g w = (Inr (), w')"
    unfolding st_RecordVerificationAttempt_def store_now_def Let_def by (simp only: g_def ts_def)
  from update_domain_returns [OF this]
  have "domain_row (wdb w') k = map_option (\<lambda>x. if d_ID x = did then g x else x) (domain_row (wdb w) k)" for k
    by (simp add: g_def)
  then have "domain_row (wdb w') k = map_option (\<lambda>x. if k = did then g x else x) (domain_row (wdb w) k)" for k
    using domain_row_ID [of "wdb w" k] by (cases "domain_row (wdb w) k") auto
  then show ?thesis by (intro exI [of _ g]) (simp add: g_def)
qed

lemma st_ActivateDomain_returns:
  assumes "st_ActivateDomain e did w = (Inr (), w')" and "domain_row (wdb w) did = Some x"
  shows "\<exists>y. domain_row (wdb w') did = Some y \<and> d_VerificationStatus y = d_VerificationStatus x
     \<and> (Verified x \<longrightarrow> d_Status y = DomainActive) \<and> d_OrgID y = d_OrgID x \<and> d_Name y = d_Name x"
proof -
  define ts where "ts = truncate_second (store_clock e (wtick w))"
  from assms(1) have "update_domain e (\<lambda>x. d_ID x = did \<and> d_VerificationStatus x = VerificationVerified)
       (\<lambda>x. x\<lparr>d_Status := DomainActive, d_SuspendReason := [], d_UpdatedAt := ts\<rparr>) w = (Inr (), w')"
    by (simp add: st_ActivateDomain_def store_now_def ts_def)
  from update_domain_returns [OF this] show ?thesis
    using domain_row_ID [OF assms(2)] by (simp add: assms(2) Verified_def)
qed

lemma reads_domainForOrg: "reads (domainForOrg e oid aid did p)"
  by (rule readsI)
    (auto simp: domainForOrg_def st_DomainByID_def intro!: hoare_intros keeps_require)

definition unverified :: "int \<Rightarrow> users_db \<Rightarrow> bool" where
  "unverified did d \<longleftrightarrow> (case domain_row d did of None \<Rightarrow> True | Some y \<Rightarrow> \<not> Verified y)"

lemma unverified_frames:
  "keeps (unverified did) (domainAudit e k ev a det)" "keeps (unverified did) (Service_Base.audit e oid ev at a t det)"
  by (auto simp: unverified_def domain_row_def domainAudit_def Service_Base.audit_def st_RecordDomainAudit_def
      st_RecordOrgAudit_def returns_simps intro!: hoare_intros keeps_exec)

lemma unverified_attempt:
  assumes "st_RecordVerificationAttempt e did VerificationFailed w = (r, w')" and "unverified did (wdb w)"
  shows "unverified did (wdb w')"
proof (cases r)
  case (Inl x)
  then have "wdb w' = wdb w"
    using assms(1)
    by (auto simp: st_RecordVerificationAttempt_def update_domain_def affected_def store_now_def call_fails
        exec_fails exec_returns sql_update_def fail_def ok_def Let_def split: if_splits)
      (auto simp: update_where_def map_idI)
  with assms(2) show ?thesis by simp
next
  case (Inr u)
  with st_RecordVerificationAttempt_returns [of e did VerificationFailed w w'] assms show ?thesis
    by (auto simp: unverified_def Verified_def model_consts split: option.splits)
qed

text \<open>
  C17: No domain is verified without its record. If the domain is not verified and no answer of the
  resolver for its \<open>_verify\<close> name holds its token, \<open>VerifyDomain\<close> reports an error, under every
  environment, and the domain is neither verified nor served afterwards.
\<close>

theorem VerifyDomain_needs_proof:
  assumes "unverified did (wdb w)" and "\<forall>x n. domain_row (wdb w) did = Some x \<longrightarrow> \<not> proves e x n"
    and "VerifyDomain e oid aid did w = (r, w')"
  shows "(\<exists>x. r = Inl x) \<and> unverified did (wdb w')
    \<and> (\<forall>y. domain_row (wdb w') did = Some y \<longrightarrow> \<not> Servable y)"
proof -
  have "(\<exists>x. r = Inl x) \<and> unverified did (wdb w')"
  proof (cases "domainForOrg e oid aid did PermOrgSettings w")
    case (Pair q w1)
    have w1: "wdb w1 = wdb w" by (rule readsD [OF reads_domainForOrg Pair])
    show ?thesis
    proof (cases q)
      case (Inl x)
      with Pair assms(1,3) w1 show ?thesis by (auto simp: VerifyDomain_def call_def try_call_def fail_def)
    next
      case (Inr x)
      from domainForOrg_returns [of e oid aid did PermOrgSettings w x w1] Pair Inr
      have row: "domain_row (wdb w) did = Some x" by simp
      then have nv: "\<not> Verified x" and id: "d_ID x = did"
        using assms(1) by (simp_all add: unverified_def domain_row_ID)
      obtain err where err: "checkOwnership e x w1 = (Inl err, w1)"
        using checkOwnership_run [of e x w1] assms(2) row by (metis (full_types) old.unit.exhaust sum.exhaust)
      obtain q2 w2 where att: "st_RecordVerificationAttempt e did VerificationFailed w1 = (q2, w2)" by fastforce
      have w2: "unverified did (wdb w2)" using unverified_attempt [OF att] assms(1) by (simp add: w1)
      have "unverified did (wdb (snd (domainAudit e did EventDomainFailed aid det w2)))" for det
        using keepsD [OF unverified_frames(1) w2 prod.collapse [symmetric]] .
      then show ?thesis
        using assms(3) w2
        by (cases q2) (auto simp: VerifyDomain_def call_def try_call_def Pair Inr nv err id att ignoring_eq fail_def)
    qed
  qed
  then show ?thesis by (auto simp: unverified_def Servable_def)
qed

lemma demo_claim_row: "domain_row demo_db 1 = Some demo_claim"
  by (simp add: domain_row_def find_where_Cons) (simp add: demo_claim_def)

lemma demo_live_row: "domain_row demo_db 2 = Some demo_live"
  by (simp add: domain_row_def find_where_Cons) (simp add: demo_claim_def demo_live_def)

definition mute_env :: env where
  "mute_env = demo_env\<lparr>LookupTXT := (\<lambda>_ name. Inl (DNSNotFound name))\<rparr>"

theorem VerifyDomain_needs_proof_witness:
  "\<exists>x w'. VerifyDomain mute_env 2 1 1 demo_world = (Inl x, w') \<and> unverified 1 (wdb w')"
proof -
  have "unverified 1 demo_db" unfolding unverified_def demo_claim_row
    by (simp add: demo_claim_def Verified_def model_consts)
  moreover have "\<not> proves mute_env x n" for x n by (simp add: proves_def mute_env_def)
  ultimately show ?thesis
    using VerifyDomain_needs_proof [of 1 demo_world mute_env 2 1]
    by (cases "VerifyDomain mute_env 2 1 1 demo_world") auto
qed

definition serves :: "int \<Rightarrow> int \<Rightarrow> string \<Rightarrow> users_db \<Rightarrow> bool" where
  "serves did oid name d \<longleftrightarrow>
     (\<exists>y. domain_row d did = Some y \<and> Servable y \<and> d_OrgID y = oid \<and> d_Name y = name)"

lemma serves_frames:
  "keeps (serves did oid name) (domainAudit e k ev a det)"
  "keeps (serves did oid name) (Service_Base.audit e oid2 ev at a t det)"
  by (auto simp: serves_def domain_row_def domainAudit_def Service_Base.audit_def st_RecordDomainAudit_def
      st_RecordOrgAudit_def returns_simps intro!: hoare_intros keeps_exec)

lemma serves_update:
  assumes "\<And>x. d_ID (f x) = d_ID x \<and> d_VerificationStatus (f x) = d_VerificationStatus x
      \<and> d_Status (f x) = d_Status x \<and> d_OrgID (f x) = d_OrgID x \<and> d_Name (f x) = d_Name x"
  shows "serves did oid name (custom_domains_update (update_where p f) d) = serves did oid name d"
  using assms
  by (cases "domain_row d did")
    (auto simp: serves_def domain_row_def find_where_update_key Servable_def Verified_def)

lemma serves_ssl: "keeps (serves did oid name) (st_SetDomainSSL e n)"
  unfolding st_SetDomainSSL_def update_domain_def
  by (intro keeps_store_now keeps_affected keeps_update) (simp add: serves_update)

lemma serves_result: "keeps (serves did oid name) (verified_result e aid k)"
  unfolding verified_result_def issueCertificate_def reloadDomain_def st_DomainByID_def
  by (intro hoare_intros serves_frames serves_ssl)

text \<open>
  A proven domain is served for the organization that claimed it. When \<open>VerifyDomain\<close> succeeds
  on a claim that was not verified, the caller may change the organization's settings, the domain
  belongs to the organization, and an answer of the resolver for its \<open>_verify\<close> name held its token;
  afterwards the stored row is verified and active, for the same organization and name, whatever the
  certificate authority said.
\<close>

theorem VerifyDomain_activates:
  assumes "VerifyDomain e oid aid did w = (Inr dm, w')" and "unverified did (wdb w)"
  shows "\<exists>x n. domain_row (wdb w) did = Some x \<and> d_OrgID x = oid
    \<and> permitted (wdb w) oid aid PermOrgSettings \<and> proves e x n
    \<and> (\<exists>y. domain_row (wdb w') did = Some y \<and> Servable y \<and> d_OrgID y = oid \<and> d_Name y = d_Name x)"
proof -
  from assms(1) obtain x w1 where x: "domainForOrg e oid aid did PermOrgSettings w = (Inr x, w1)"
    by (auto simp: VerifyDomain_def call_returns)
  note dom = domainForOrg_returns [OF x]
  have nv: "\<not> Verified x" and id: "d_ID x = did"
    using assms(2) dom domain_row_ID [of "wdb w" did x] by (simp_all add: unverified_def)
  obtain q where q: "checkOwnership e x w1 = (q, w1)" "q = Inr () \<longleftrightarrow> proves e x (wtick w1)"
    using checkOwnership_run by blast
  define after where "after = (\<lambda>w3. snd (Service_Base.audit e oid EventDomainActivated ActorUser aid 0
      [(''domain'', DetailString (d_Name x))] (snd (domainAudit e did EventDomainVerified aid [] w3))))"
  have aud: "audited (wdb w3) (wdb (after w3))" for w3 by (simp add: after_def)
  from assms(1) x nv id q(1) obtain w2 w3 where ok: "q = Inr ()"
    and att: "st_RecordVerificationAttempt e did VerificationVerified w1 = (Inr (), w2)"
    and act: "st_ActivateDomain e did w2 = (Inr (), w3)"
    and res: "verified_result e aid did (after w3) = (Inr dm, w')"
    unfolding after_def
    by (auto simp: VerifyDomain_def call_returns try_call_returns if_action ignoring_eq fail_returns ok_returns)
  from st_RecordVerificationAttempt_returns [OF att] dom obtain y where
    y: "domain_row (wdb w2) did = Some y" "Verified y" "d_OrgID y = oid" "d_Name y = d_Name x"
    by (auto simp: Verified_def)
  from st_ActivateDomain_returns [OF act y(1)] y have "serves did oid (d_Name x) (wdb w3)"
    by (auto simp: serves_def Servable_def Verified_def)
  then have "serves did oid (d_Name x) (wdb (after w3))"
    by (simp add: serves_def audited_domains [OF aud])
  from keepsD [OF serves_result this res] show ?thesis
    using dom q ok unfolding serves_def by blast
qed

lemma affected_update_domain_run:
  assumes "no_faults e" and "domain_row (wdb w) did = Some x" and "p x"
  shows "update_domain e p f w =
     (Inr (), (next_tick w)\<lparr>wdb := custom_domains_update (update_where p f) (wdb w)\<rparr>)"
proof -
  have "x \<in> set (custom_domains (wdb w))" using assms(2) by (auto simp: domain_row_def dest: find_where_SomeD)
  then have "count_where p (custom_domains (wdb w)) \<noteq> 0" using assms(3) by auto
  then show ?thesis
    using assms(1)
    by (simp add: update_domain_def affected_def call_def try_call_def exec_def sql_update_def ok_def
        no_faults_def del: count_where_zero)
qed

lemma demo_claim_ID: "d_ID demo_claim = 1" "d_OrgID demo_claim = 2" "\<not> Verified demo_claim"
  "d_VerificationToken demo_claim = ''proof''"
  by (simp_all add: demo_claim_def new_domain_def Verified_def model_consts)

lemma demo_certs: "certs_Challenge demo_env = Some ''http-01''"
  "certs_IssueFor demo_env n host = Inr \<lparr>NotBefore = demo_now, NotAfter = demo_now + 90 * 24 * hour\<rparr>"
  by (simp_all add: demo_env_def)

lemma demo_result_run:
  assumes "domain_row (wdb w) did = Some x" and "Verified x" and "d_ID x = did"
  shows "\<exists>y w'. verified_result demo_env aid did w = (Inr y, w')"
proof (cases "d_SSLEnabled x")
  case True
  have read: "st_DomainByID demo_env did v = (Inr y, next_tick v)" if "domain_row (wdb v) did = Some y" for v y
    using that by (simp add: st_DomainByID_def domain_row_def query_row_def query_def try_call_def ok_def)
  define n where "n = x\<lparr>d_SSLChallenge := ''http-01'', d_SSLStatus := SSLIssued, d_SSLLastError := [],
      d_SSLIssuedAt := Some demo_now, d_SSLExpiresAt := Some (demo_now + 90 * 24 * hour)\<rparr>"
  obtain f where set: "st_SetDomainSSL demo_env n (next_tick w) =
      (Inr (), (next_tick (next_tick w))\<lparr>wdb := custom_domains_update (update_where (\<lambda>z. d_ID z = did) f) (wdb w)\<rparr>)"
    and f: "\<And>z. d_ID (f z) = d_ID z"
    using affected_update_domain_run [of demo_env "next_tick w" did x "\<lambda>z. d_ID z = did"] assms
    by (simp add: st_SetDomainSSL_def store_now_def n_def)
  define w2 where "w2 = snd (domainAudit demo_env did EventDomainSSLIssued 0
      [(''expires_at'', DetailTime (demo_now + 90 * 24 * hour))]
      ((next_tick (next_tick w))\<lparr>wdb := custom_domains_update (update_where (\<lambda>z. d_ID z = did) f) (wdb w)\<rparr>))"
  have issue: "issueCertificate demo_env x (next_tick w) = (Inr (), w2)"
    using set assms(2,3) by (simp add: issueCertificate_def issue_for_def call_def try_call_def n_def w2_def
        ignoring_eq ok_def demo_certs Let_def)
  have "audited (custom_domains_update (update_where (\<lambda>z. d_ID z = did) f) (wdb w)) (wdb w2)"
    by (simp add: w2_def)
  from audited_domains(1) [OF this] assms(1,3) f have "domain_row (wdb w2) did = Some (f x)"
    by (simp add: domain_row_def find_where_update_key)
  then show ?thesis
    using read [OF assms(1)] read [of w2] True assms(3)
    by (simp add: verified_result_def reloadDomain_def call_def try_call_def issue ok_def)
next
  case False
  then show ?thesis
    using assms by (simp add: verified_result_def st_DomainByID_def domain_row_def query_row_def query_def
        call_def try_call_def ok_def)
qed

lemma demo_verify_run: "\<exists>x w'. VerifyDomain demo_env 2 1 1 demo_world = (Inr x, w')"
proof -
  define w1 where "w1 = next_tick (next_tick (next_tick demo_world))"
  have dom: "domainForOrg demo_env 2 1 1 PermOrgSettings demo_world = (Inr demo_claim, w1)"
    using demo_claim_row
    by (simp add: domainForOrg_def call_def try_call_def role_simps perm_defs st_DomainByID_def domain_row_def
        query_row_def query_def ok_def w1_def demo_claim_ID)
  have "TrimSpace ''proof'' = ''proof''" by (rule TrimSpace_plain; simp add: plain_byte_def byte_def)
  then have own: "checkOwnership demo_env demo_claim w1 = (Inr (), w1)"
    by (simp add: checkOwnership_def lookup_txt_def Let_def ok_def demo_claim_ID)
  have row1: "domain_row (wdb w1) 1 = Some demo_claim" by (simp add: w1_def demo_claim_row)
  obtain w2 where att: "st_RecordVerificationAttempt demo_env 1 VerificationVerified w1 = (Inr (), w2)"
    using affected_update_domain_run [OF demo_no_faults row1, of "\<lambda>x. d_ID x = 1"]
    by (simp add: st_RecordVerificationAttempt_def store_now_def Let_def demo_claim_ID)
  from st_RecordVerificationAttempt_returns [OF att] row1 obtain y where
    y: "domain_row (wdb w2) 1 = Some y" "d_VerificationStatus y = VerificationVerified" by auto
  have "d_ID y = 1" using y(1) by (rule domain_row_ID)
  then obtain w3 where act: "st_ActivateDomain demo_env 1 w2 = (Inr (), w3)"
    using affected_update_domain_run [OF demo_no_faults y(1), of "\<lambda>x. d_ID x = 1 \<and> d_VerificationStatus x = VerificationVerified"] y(2)
    by (simp add: st_ActivateDomain_def store_now_def)
  from st_ActivateDomain_returns [OF act y(1)] y(2) obtain z where
    z: "domain_row (wdb w3) 1 = Some z" "Verified z" by (auto simp: Verified_def)
  define w4 where "w4 = snd (Service_Base.audit demo_env 2 EventDomainActivated ActorUser 1 0
      [(''domain'', DetailString (d_Name demo_claim))]
      (snd (domainAudit demo_env 1 EventDomainVerified 1 [] w3)))"
  have "audited (wdb w3) (wdb w4)" by (simp add: w4_def)
  then have "domain_row (wdb w4) 1 = Some z" using z by (simp add: audited_domains)
  from demo_result_run [OF this z(2) domain_row_ID [OF z(1)], of 1] obtain v w5 where
    "verified_result demo_env 1 1 w4 = (Inr v, w5)" by blast
  then show ?thesis
    by (simp add: VerifyDomain_def call_def try_call_def dom own att act ignoring_eq demo_claim_ID
        w4_def)
qed

theorem VerifyDomain_activates_witness:
  "\<exists>x w' y. VerifyDomain demo_env 2 1 1 demo_world = (Inr x, w')
     \<and> domain_row (wdb w') 1 = Some y \<and> Servable y \<and> d_Name y = d_Name demo_claim"
proof -
  obtain x w' where run: "VerifyDomain demo_env 2 1 1 demo_world = (Inr x, w')" using demo_verify_run by blast
  have "unverified 1 (wdb demo_world)"
    using demo_claim_ID(3) by (simp add: unverified_def demo_claim_row)
  from VerifyDomain_activates [OF run this] run show ?thesis
    by (auto simp: demo_claim_row)
qed

definition demo_addition :: AddDomainInput where
  "demo_addition = \<lparr>ad_Domain = ''shop.example'', ad_Purpose = []\<rparr>"

lemma demo_shop_valid: "ValidateDomain ''shop.example'' = Inr ''shop.example''"
proof -
  have norm: "NormalizeName ''shop.example'' = ''shop.example''"
    by (rule plain_lower_fixed; simp add: plain_byte_def is_upper_def byte_def;
        simp add: plain_byte_def is_upper_def byte_def)
  have "TrimSuffix ''shop.example'' ''.'' = ''shop.example''" "rx_match domainPattern ''shop.example''"
    "split_on (CHR ''.'') (TrimPrefix ''shop.example'' ''*.'') = [''shop'', ''example'']" by code_simp+
  with norm show ?thesis by (simp add: ValidateDomain_def MaxEmailDomainLength_def)
qed

lemma demo_shop_claim: "normalizeClaim demo_env ''shop.example'' = Inr (''shop.example'', False)"
proof -
  have norm: "NormalizeName ''shop.example'' = ''shop.example''" "TrimSpace ''shop.example'' = ''shop.example''"
    "TrimSpace ''redxt.example'' = ''redxt.example''" "NormalizeName ''redxt.example'' = ''redxt.example''"
    by (rule plain_lower_fixed TrimSpace_plain; simp add: plain_byte_def is_upper_def byte_def;
        simp add: plain_byte_def is_upper_def byte_def)+
  then have "ToLower ''shop.example'' = ''shop.example''" "ToLower ''redxt.example'' = ''redxt.example''"
    by (simp_all add: NormalizeName_def)
  moreover have "TrimSuffix ''shop.example'' ''.'' = ''shop.example''" "\<not> IsWildcardDomain ''shop.example''"
    "IsApexDomain ''shop.example''" "TrimPrefix ''shop.example'' ''*.'' = ''shop.example''"
    "\<not> HasSuffix ''shop.example'' (''.'' @ ''redxt.example'')" by code_simp+
  ultimately show ?thesis
    using norm
    by (simp add: normalizeClaim_def demo_domains_def demo_shop_valid is_reserved_def is_blocked_pattern_def)
qed

lemma demo_add_run: "\<exists>x w'. AddDomain demo_env 2 1 demo_addition demo_world = (Inr x, w')"
proof -
  define w1 where "w1 = next_tick (next_tick demo_world)"
  have acc: "require demo_env 2 1 PermOrgSettings demo_world =
      (Inr \<lparr>access_Org = demo_org 2 ''acme'' False 1, access_Role = RoleOwner\<rparr>, w1)"
    by (simp add: w1_def role_simps perm_defs)
  have quota: "domain_quota demo_env 2 w1 = (Inr (), next_tick w1)"
    by (simp add: domain_quota_def st_CountOrgDomains_def demo_domains_def call_def try_call_def query_def
        ok_def w1_def Let_def count_where_def)
  obtain t w2 where rand: "RandomString demo_env (int RandomLength) (next_tick w1) = (Inr t, w2)" "wdb w2 = demo_db"
    using demo_RandomString [of "int RandomLength" "next_tick w1"] by (auto simp: RandomLength_def w1_def)
  have "NormalizeName ''shop.example'' = ''shop.example''" "TrimSpace ''shop.example'' = ''shop.example''"
    by (rule plain_lower_fixed TrimSpace_plain; simp add: plain_byte_def is_upper_def byte_def;
        simp add: plain_byte_def is_upper_def byte_def)+
  moreover have "TrimSuffix ''shop.example'' ''.'' = ''shop.example''" by code_simp
  ultimately have name: "normalizeDomain ''shop.example'' = ''shop.example''"
    by (simp add: normalizeDomain_def NormalizeName_def)
  have names: "d_Name demo_claim = ''dns.acme.example''" "d_Name demo_live = ''live.example''"
    "d_ID demo_claim = 1" "d_ID demo_live = 2"
    by (simp_all add: demo_claim_def demo_live_def new_domain_def)
  have "\<exists>x w3. st_CreateDomain demo_env (new_domain demo_env 2 ''shop.example'' False PurposeUI t) w2 = (Inr x, w3)"
    using rand(2) by (simp add: st_CreateDomain_def st_DomainByID_def new_domain_def eval_defs insert_domain_def
        name names has_org_def next_id_def)
  then obtain x w3 where cre: "st_CreateDomain demo_env (new_domain demo_env 2 ''shop.example'' False PurposeUI t) w2
      = (Inr x, w3)" by blast
  have "ValidPurpose PurposeUI" by (simp add: ValidPurpose_def DomainPurposes_def)
  then show ?thesis
    by (simp add: AddDomain_def demo_addition_def demo_domains_def call_def try_call_def acc check_def demo_shop_claim
        quota rand(1) cre ignoring_eq ok_def Let_def)
qed

theorem AddDomain_pending_witness:
  "\<exists>x w'. AddDomain demo_env 2 1 demo_addition demo_world = (Inr x, w') \<and> d_OrgID x = 2 \<and> \<not> Servable x
     \<and> length (d_VerificationToken x) = 32"
proof -
  obtain x w' where run: "AddDomain demo_env 2 1 demo_addition demo_world = (Inr x, w')" using demo_add_run by blast
  from AddDomain_pending [OF run] run show ?thesis by blast
qed

section \<open>Serving\<close>

lemma SplitHostPort_port:
  assumes "host \<noteq> []" and "list_all host_char host" and "list_all is_digit port"
  shows "SplitHostPort (host @ CHR '':'' # port) = Some host" and "SplitHostPort host = None"
proof -
  have no: "CHR '':'' \<notin> set host" "CHR ''['' \<notin> set host" "CHR '']'' \<notin> set host"
    "CHR '':'' \<notin> set port" "CHR ''['' \<notin> set port" "CHR '']'' \<notin> set port"
    using assms(2,3)
    by (auto simp: list_all_iff host_char_def alnum_def is_lower_def is_digit_def byte_def)
  then have "hd (host @ CHR '':'' # port) \<noteq> CHR ''[''" using assms(1) by (cases host) auto
  then show "SplitHostPort (host @ CHR '':'' # port) = Some host"
    using no by (simp add: SplitHostPort_def LastIndexByte_append)
  have "LastIndexByte host (CHR '':'') < 0"
    using LastIndexByte_split [of host "CHR '':''"] no(1) by auto
  then show "SplitHostPort host = None" by (simp add: SplitHostPort_def)
qed

lemma host_char_plain: "host_char c \<Longrightarrow> plain_byte c \<and> \<not> is_upper c"
  by (auto simp: host_char_def alnum_def is_lower_def is_digit_def plain_byte_def is_upper_def byte_def)

lemma host_normal:
  assumes "list_all plain_byte s" and "list_all (\<lambda>c. \<not> is_upper c) s"
  shows "TrimSpace s = s" "ToLower s = s"
proof -
  show "TrimSpace s = s" by (rule TrimSpace_plain [OF assms(1)])
  have "NormalizeName s = s" using assms by (rule plain_lower_fixed)
  with TrimSpace_plain [OF assms(1)] show "ToLower s = s" by (simp add: NormalizeName_def)
qed

lemma upper_then_lower:
  assumes "list_all plain_byte s" and "list_all (\<lambda>c. \<not> is_upper c) s"
  shows "list_all plain_byte (map upper_char s) \<and> ToLower (map upper_char s) = s"
proof -
  have one: "plain_byte (upper_char c) \<and> lower_char (upper_char c) = c" if "plain_byte c" "\<not> is_upper c" for c
  proof (cases "is_lower c")
    case True
    then have c: "97 \<le> byte c" "byte c \<le> 122" by (simp_all add: is_lower_def)
    define d where "d = chr (byte c - 32)"
    have d: "byte d = byte c - 32" using c by (simp add: d_def byte_chr)
    have "is_upper d" using c by (simp add: is_upper_def d) arith
    moreover have range: "byte d + 32 = byte c" "33 \<le> byte d" "byte d < 128" using c d by arith+
    ultimately have "lower_char d = chr (byte c)" by (simp add: lower_char_def)
    moreover have "chr (byte c) = c" using byte_chr [of "byte c"] byte_less [of c] by (simp add: byte_inject [symmetric])
    ultimately show ?thesis using range True by (simp add: upper_char_def d_def [symmetric] plain_byte_def)
  next
    case False
    then show ?thesis using that by (simp add: lower_char_def)
  qed
  have p: "list_all plain_byte (map upper_char s)" using assms one by (simp add: list_all_iff)
  moreover have "map lower_char (map upper_char s) = s" using assms one by (simp add: list_all_iff map_idI)
  ultimately show ?thesis by (simp add: ToLower_plain)
qed

text \<open>
  C18: What is served under a host. Let a host be a name of lower-case letters, digits, dots and
  dashes that ends in no dot. However a request spells it, plainly, in upper case, with a final dot
  or with a port, \<open>ResolveServableDomain\<close> on a working database answers with the domain of that name
  if it is verified and active, and with the same \<open>ErrNotFound\<close> if it is unknown, unverified,
  pending or suspended; it changes nothing.
\<close>

theorem ResolveServableDomain_hosts:
  assumes "no_faults e" and "host \<noteq> []" and "list_all host_char host" and "last host \<noteq> CHR ''.''"
    and "list_all is_digit port" and "raw \<in> set [host, map upper_char host, host @ ''.'', host @ '':'' @ port]"
  shows "fst (ResolveServableDomain e raw w) =
      (case named_domain (wdb w) host of
         None \<Rightarrow> Inl ErrNotFound | Some dm \<Rightarrow> if Servable dm then Inr dm else Inl ErrNotFound)
    \<and> wdb (snd (ResolveServableDomain e raw w)) = wdb w"
proof -
  have pl: "list_all plain_byte host" "list_all (\<lambda>c. \<not> is_upper c) host"
    using assms(3) host_char_plain by (auto simp: list_all_iff)
  have dot: "list_all plain_byte (host @ ''.'')" "list_all (\<lambda>c. \<not> is_upper c) (host @ ''.'')"
    "list_all host_char (host @ ''.'')"
    using pl assms(3) by (simp_all add: plain_byte_def is_upper_def byte_def host_char_def)
  have prt: "list_all plain_byte (host @ '':'' @ port)" "list_all (\<lambda>c. \<not> is_upper c) (host @ '':'' @ port)"
    using pl assms(5) by (auto simp: list_all_iff plain_byte_def is_upper_def is_digit_def byte_def)
  have no: "TrimSuffix host ''.'' = host" "TrimSuffix (host @ ''.'') ''.'' = host"
    using assms(2,4) by (auto simp: TrimSuffix_def HasSuffix_def suffix_def)
  have name: "TrimSuffix (case SplitHostPort (ToLower (TrimSpace raw)) of Some h \<Rightarrow> h
      | None \<Rightarrow> ToLower (TrimSpace raw)) ''.'' = host"
  proof -
    from assms(6) consider "raw = host" | "raw = map upper_char host" | "raw = host @ ''.''"
      | "raw = host @ '':'' @ port" by auto
    then show ?thesis
    proof cases
      case 1
      then show ?thesis using host_normal [OF pl] SplitHostPort_port(2) [OF assms(2,3,5)] no by simp
    next
      case 2
      then show ?thesis using upper_then_lower [OF pl] TrimSpace_plain [of "map upper_char host"]
          SplitHostPort_port(2) [OF assms(2,3,5)] no by simp
    next
      case 3
      then show ?thesis using host_normal [OF dot(1,2)] SplitHostPort_port(2) [OF _ dot(3) assms(5)] no by simp
    next
      case 4
      then show ?thesis using host_normal [OF prt] SplitHostPort_port(1) [OF assms(2,3,5)] no by simp
    qed
  qed
  have "normalizeDomain host = host" using host_normal [OF pl] no by (simp add: normalizeDomain_def)
  then have "st_DomainByName e host w = (case named_domain (wdb w) host of
      None \<Rightarrow> (Inl StoreNotFound, next_tick w) | Some dm \<Rightarrow> (Inr dm, next_tick w))"
    using assms(1) by (simp add: st_DomainByName_def named_domain_def query_row_def query_def try_call_def
        no_faults_def ok_def fail_def split: option.splits)
  moreover have "ResolveServableDomain e raw = call (st_DomainByName e host) mapStoreErr
      (\<lambda>dm. if \<not> Servable dm then fail ErrNotFound else ok dm)"
    unfolding ResolveServableDomain_def Let_def name using assms(2) by simp
  ultimately show ?thesis
    by (simp add: call_def try_call_def mapStoreErr_def ok_def fail_def split: option.splits)
qed

theorem ResolveServableDomain_hosts_witness:
  "fst (ResolveServableDomain demo_env ''live.example:8443'' demo_world) = Inr demo_live
   \<and> fst (ResolveServableDomain demo_env ''dns.acme.example'' demo_world) = Inl ErrNotFound"
proof -
  have row: "named_domain demo_db ''live.example'' = Some demo_live"
    "named_domain demo_db ''dns.acme.example'' = Some demo_claim"
    by (simp_all add: named_domain_def find_where_Cons) (simp_all add: demo_live_def demo_claim_def new_domain_def)
  have "Servable demo_live" "\<not> Servable demo_claim"
    by (simp_all add: demo_live_def demo_claim_def Servable_def Verified_def model_consts)
  with row show ?thesis
    using ResolveServableDomain_hosts [of demo_env "''live.example''" "''8443''" "''live.example:8443''" demo_world]
      ResolveServableDomain_hosts [of demo_env "''dns.acme.example''" "''8443''" "''dns.acme.example''" demo_world]
    by (simp add: host_char_def alnum_def is_lower_def is_digit_def byte_def)
qed

end
