(* ===== verification/Go_Time.thy ===== *)
theory Go_Time
  imports Effects
begin

text \<open>
  The part of Go's package \<^verbatim>\<open>time\<close> that the scheduler, the backups and the rate limiter use: instants as
  nanoseconds since 1970, the proleptic Gregorian calendar, locations as the offset they give an
  instant, and the two-way translation between days and dates.
\<close>

section \<open>Instants and locations\<close>

definition minute :: int where "minute = 60 * second"
definition day :: int where "day = 24 * hour"

lemma time_units:
  "second = 1000000000" "minute = 60000000000" "hour = 3600000000000" "day = 86400000000000"
  by (simp_all add: second_def minute_def hour_def day_def)

text \<open>
  \<open>t.Truncate (d)\<close> rounds down to a multiple of \<open>d\<close> since the zero time, 62135596800 seconds before
  1970.
\<close>

definition zero_instant :: int where "zero_instant = - 62135596800 * second"

definition Truncate :: "int \<Rightarrow> int \<Rightarrow> int" where
  "Truncate t d = (if d \<le> 0 then t else t - (t - zero_instant) mod d)"

lemma Truncate_dvd: "0 < d \<Longrightarrow> d dvd zero_instant \<Longrightarrow> Truncate t d = t - t mod d"
  using mod_diff_right_eq [of t zero_instant d] by (simp add: Truncate_def dvd_eq_mod_eq_0)

lemma Truncate_minute: "Truncate t minute = t - t mod minute"
  by (rule Truncate_dvd) (simp_all add: zero_instant_def time_units dvd_def exI [of _ "- 1035593280::int"])

lemma Truncate_bounds: "0 < d \<Longrightarrow> Truncate t d \<le> t \<and> t < Truncate t d + d"
  using pos_mod_bound [of d "t - zero_instant"] pos_mod_sign [of d "t - zero_instant"]
  by (simp add: Truncate_def)

text \<open>A \<open>*time.Location\<close>: the seconds east of UTC at an instant (in seconds since 1970).\<close>

type_synonym location = "int \<Rightarrow> int"

definition UTC :: location where "UTC _ = 0"

section \<open>Dates\<close>

record date =
  date_Year :: int
  date_Month :: nat
  date_Day :: nat

definition leap_year :: "int \<Rightarrow> bool" where
  "leap_year y = (y mod 4 = 0 \<and> (y mod 100 \<noteq> 0 \<or> y mod 400 = 0))"

text \<open>The days from the first of January 1970 to the first of January of a year.\<close>

definition year_start :: "int \<Rightarrow> int" where
  "year_start y = 365 * (y - 1970) + ((y - 1) div 4 - (y - 1) div 100 + (y - 1) div 400) - 477"

definition month_starts :: "bool \<Rightarrow> nat list" where
  "month_starts leap =
     (if leap then [0, 31, 60, 91, 121, 152, 182, 213, 244, 274, 305, 335]
      else [0, 31, 59, 90, 120, 151, 181, 212, 243, 273, 304, 334])"

definition month_length :: "int \<Rightarrow> nat \<Rightarrow> nat" where
  "month_length y m =
     (if m \<in> {4, 6, 9, 11} then 30 else if m = 2 then (if leap_year y then 29 else 28) else 31)"

definition valid_date :: "date \<Rightarrow> bool" where
  "valid_date d = (1 \<le> date_Month d \<and> date_Month d \<le> 12 \<and> 1 \<le> date_Day d
     \<and> date_Day d \<le> month_length (date_Year d) (date_Month d))"

definition days_of_date :: "date \<Rightarrow> int" where
  "days_of_date d = year_start (date_Year d)
     + int (month_starts (leap_year (date_Year d)) ! (date_Month d - 1)) + int (date_Day d) - 1"

text \<open>An estimate of the year that is at most one off, and its correction.\<close>

definition year_of_days :: "int \<Rightarrow> int" where
  "year_of_days n =
     (let y = 1970 + 400 * n div 146097
      in if n < year_start y then y - 1 else if year_start (y + 1) \<le> n then y + 1 else y)"

definition date_of_days :: "int \<Rightarrow> date" where
  "date_of_days n =
     (let y = year_of_days n;
          k = nat (n - year_start y);
          m = length (filter (\<lambda>s. s \<le> k) (month_starts (leap_year y)))
      in \<lparr>date_Year = y, date_Month = m, date_Day = k - month_starts (leap_year y) ! (m - 1) + 1\<rparr>)"

text \<open>The first of January 1970 was a Thursday; Sunday is 0.\<close>

definition weekday_of_days :: "int \<Rightarrow> int" where
  "weekday_of_days n = (n + 4) mod 7"

lemma div_pred: "0 < k \<Longrightarrow> (y::int) div k = (y - 1) div k + of_bool (k dvd y)"
proof -
  assume k: "0 < k"
  have "(y - 1) div k = (if k dvd y then y div k - 1 else y div k)"
  proof (rule int_div_pos_eq [of _ _ _ "if k dvd y then k - 1 else y mod k - 1"])
    have "0 < y mod k" if "\<not> k dvd y"
      using that k pos_mod_sign [of k y] by (metis dvd_eq_mod_eq_0 order_less_le)
    then show "0 \<le> (if k dvd y then k - 1 else y mod k - 1)" using k by simp
    show "(if k dvd y then k - 1 else y mod k - 1) < k"
      using k pos_mod_bound [of k y] by (auto simp del: pos_mod_bound)
    show "y - 1 = k * (if k dvd y then y div k - 1 else y div k) + (if k dvd y then k - 1 else y mod k - 1)"
      using mult_div_mod_eq [of k y] by (auto simp: dvd_eq_mod_eq_0 right_diff_distrib)
  qed
  then show ?thesis by simp
qed

lemma leap_sum:
  fixes a b c :: int
  assumes "a = a' + of_bool p" "b = b' + of_bool q" "c = c' + of_bool r" and "r \<longrightarrow> q" "q \<longrightarrow> p"
  shows "a - b + c = a' - b' + c' + of_bool (p \<and> (\<not> q \<or> r))"
  using assms by (cases p; cases q; cases r) simp_all

lemma hundreds: "(400::int) dvd y \<Longrightarrow> 100 dvd y" "(100::int) dvd y \<Longrightarrow> 4 dvd y"
  by (erule dvd_trans [rotated], simp)+

lemma year_start_next: "year_start (y + 1) = year_start y + 365 + of_bool (leap_year y)"
proof -
  have "(400::int) dvd y \<longrightarrow> 100 dvd y" "(100::int) dvd y \<longrightarrow> 4 dvd y" using hundreds by blast+
  with leap_sum [OF div_pred [of 4 y] div_pred [of 100 y] div_pred [of 400 y]]
  have "y div 4 - y div 100 + y div 400 =
      (y - 1) div 4 - (y - 1) div 100 + (y - 1) div 400 + of_bool (leap_year y)"
    by (simp only: leap_year_def mod_eq_0_iff_dvd zero_less_numeral simp_thms)
  then show ?thesis by (simp add: year_start_def)
qed

lemma year_start_mono: "a \<le> b \<Longrightarrow> year_start a \<le> year_start b"
proof (induction "nat (b - a)" arbitrary: b)
  case 0
  then show ?case by simp
next
  case (Suc n)
  then have "year_start a \<le> year_start (b - 1)" by simp
  then show ?case using year_start_next [of "b - 1"] by simp
qed

lemma quotient_bounds: "0 < k \<Longrightarrow> k * (y div k) \<le> y \<and> y < k * (y div k) + (k::int)"
  using mult_div_mod_eq [of k y] pos_mod_bound [of k y] pos_mod_sign [of k y] by linarith

lemma quarter_sum:
  fixes a b c y :: int
  shows "4 * a \<le> y - 1 \<Longrightarrow> y - 1 < 100 * b + 100 \<Longrightarrow> 400 * c \<le> y - 1 \<Longrightarrow>
      400 * (365 * (y - 1970) + (a - b + c) - 477) \<le> 146097 * (y - 1970) + 589"
    and "y - 1 < 4 * a + 4 \<Longrightarrow> 100 * b \<le> y - 1 \<Longrightarrow> y - 1 < 400 * c + 400 \<Longrightarrow>
      146097 * (y - 1970) - 506 \<le> 400 * (365 * (y - 1970) + (a - b + c) - 477)"
proof -
  assume "4 * a \<le> y - 1" "y - 1 < 100 * b + 100" "400 * c \<le> y - 1"
  then have "100 * (4 * a) \<le> 100 * (y - 1)" "4 * y \<le> 4 * (100 * b + 100)" "400 * c \<le> y - 1" by simp_all
  then show "400 * (365 * (y - 1970) + (a - b + c) - 477) \<le> 146097 * (y - 1970) + 589" by simp
next
  assume "y - 1 < 4 * a + 4" "100 * b \<le> y - 1" "y - 1 < 400 * c + 400"
  then have "100 * y \<le> 100 * (4 * a + 4)" "4 * (100 * b) \<le> 4 * (y - 1)" "y \<le> 400 * c + 400" by simp_all
  then show "146097 * (y - 1970) - 506 \<le> 400 * (365 * (y - 1970) + (a - b + c) - 477)" by simp
qed

lemma year_start_near:
  "400 * year_start y \<le> 146097 * (y - 1970) + 589" "146097 * (y - 1970) - 506 \<le> 400 * year_start y"
proof -
  define a b c where "a = (y - 1) div 4" and "b = (y - 1) div 100" and "c = (y - 1) div 400"
  have "4 * a \<le> y - 1" "y - 1 < 4 * a + 4" "100 * b \<le> y - 1" "y - 1 < 100 * b + 100"
    "400 * c \<le> y - 1" "y - 1 < 400 * c + 400"
    using quotient_bounds [of 4 "y - 1"] quotient_bounds [of 100 "y - 1"] quotient_bounds [of 400 "y - 1"]
    by (simp_all only: a_def b_def c_def)
  moreover have "year_start y = 365 * (y - 1970) + (a - b + c) - 477"
    by (simp add: year_start_def a_def b_def c_def)
  ultimately show "400 * year_start y \<le> 146097 * (y - 1970) + 589"
    and "146097 * (y - 1970) - 506 \<le> 400 * year_start y"
    using quarter_sum [of a y b c] by simp_all
qed

lemma year_of_days_bounds: "year_start (year_of_days n) \<le> n \<and> n < year_start (year_of_days n + 1)"
proof -
  define q where "q = 400 * n div 146097"
  define y where "y = 1970 + q"
  have "146097 * q \<le> 400 * n" "400 * n < 146097 * q + 146097"
    using quotient_bounds [of 146097 "400 * n"] by (simp_all only: q_def)
  then have "year_start (y - 1) \<le> n" "n < year_start (y + 2)"
    using year_start_near [of "y - 1"] year_start_near [of "y + 2"] by (simp_all add: y_def)
  then show ?thesis by (simp add: year_of_days_def y_def [symmetric] q_def [symmetric] Let_def add.commute [of y])
qed

lemma year_of_days_unique: "year_start y \<le> n \<Longrightarrow> n < year_start (y + 1) \<Longrightarrow> year_of_days n = y"
  using year_of_days_bounds [of n] year_start_mono [of "y + 1" "year_of_days n"]
    year_start_mono [of "year_of_days n + 1" y] by force

lemma length_month_starts [simp]: "length (month_starts leap) = 12"
  by (simp add: month_starts_def)

lemma in_set_Cons: "x \<in> set (a # as) \<Longrightarrow> (x = a \<Longrightarrow> P) \<Longrightarrow> (x \<in> set as \<Longrightarrow> P) \<Longrightarrow> P"
  by auto

lemma in_month:
  assumes "1 \<le> m" "m \<le> 12" "1 \<le> dd" "dd \<le> month_length y m"
    and "k = month_starts (leap_year y) ! (m - 1) + dd - 1"
  shows "length (filter (\<lambda>s. s \<le> k) (month_starts (leap_year y))) = m
      \<and> k - month_starts (leap_year y) ! (m - 1) + 1 = dd \<and> k < 365 + of_bool (leap_year y)"
proof -
  have "m \<in> {1 ..< 13}" using assms(1,2) by simp
  moreover have "{1 ..< 13} = set [1, 2, 3, 4, 5, 6, 7, 8, 9, 10, 11, 12 :: nat]" by code_simp
  ultimately have "m \<in> set [1, 2, 3, 4, 5, 6, 7, 8, 9, 10, 11, 12]" by blast
  then show ?thesis using assms(3,4,5)
    by (elim in_set_Cons) (simp_all add: month_starts_def month_length_def split: if_splits)
qed

lemma month_exists:
  assumes "k < 365 + of_bool (leap_year y)"
  obtains (fits) m dd where "1 \<le> m" "m \<le> 12" "1 \<le> dd" "dd \<le> month_length y m"
    "k = month_starts (leap_year y) ! (m - 1) + dd - 1"
proof -
  have go: thesis if "1 \<le> m" "m \<le> 12" "month_starts (leap_year y) ! (m - 1) \<le> k"
      "k < month_starts (leap_year y) ! (m - 1) + month_length y m" for m
    by (rule fits [of m "k - month_starts (leap_year y) ! (m - 1) + 1"]) (use that in simp_all)
  have "\<exists>m \<in> set [1, 2, 3, 4, 5, 6, 7, 8, 9, 10, 11, 12]. month_starts (leap_year y) ! (m - 1) \<le> k
      \<and> k < month_starts (leap_year y) ! (m - 1) + month_length y m"
    using assms by (cases "leap_year y") (simp add: month_starts_def month_length_def; presburger)+
  then obtain m where m: "m \<in> set [1, 2, 3, 4, 5, 6, 7, 8, 9, 10, 11, 12]"
    and "month_starts (leap_year y) ! (m - 1) \<le> k"
    "k < month_starts (leap_year y) ! (m - 1) + month_length y m" by blast
  moreover from m have "1 \<le> m" "m \<le> 12" by auto
  ultimately show thesis by (intro go) auto
qed

lemma days_of_date_eq:
  "valid_date d \<Longrightarrow> days_of_date d = year_start (date_Year d)
     + int (month_starts (leap_year (date_Year d)) ! (date_Month d - 1) + date_Day d - 1)"
  by (simp add: valid_date_def days_of_date_def of_nat_diff)

lemma date_of_days_of_date:
  assumes "valid_date d"
  shows "date_of_days (days_of_date d) = d"
proof -
  define y m dd where "y = date_Year d" and "m = date_Month d" and "dd = date_Day d"
  define k where "k = month_starts (leap_year y) ! (m - 1) + dd - 1"
  from assms have fit: "length (filter (\<lambda>s. s \<le> k) (month_starts (leap_year y))) = m
      \<and> k - month_starts (leap_year y) ! (m - 1) + 1 = dd \<and> k < 365 + of_bool (leap_year y)"
    by (intro in_month) (simp_all add: valid_date_def y_def m_def dd_def k_def)
  have n: "days_of_date d = year_start y + int k"
    using days_of_date_eq [OF assms] by (simp add: k_def y_def m_def dd_def)
  then have "year_of_days (days_of_date d) = y"
    using fit year_start_next [of y] by (intro year_of_days_unique) (auto simp: of_bool_def)
  then show ?thesis using fit by (simp add: date_of_days_def n Let_def y_def m_def dd_def)
qed

lemma date_of_days_valid: "valid_date (date_of_days n) \<and> days_of_date (date_of_days n) = n"
proof -
  define y where "y = year_of_days n"
  define k where "k = nat (n - year_start y)"
  have n: "n = year_start y + int k" and k: "k < 365 + of_bool (leap_year y)"
    using year_of_days_bounds [of n] year_start_next [of y] by (auto simp: k_def y_def)
  from month_exists [OF k] obtain m dd where m: "1 \<le> m" "m \<le> 12" "1 \<le> dd" "dd \<le> month_length y m"
    and km: "k = month_starts (leap_year y) ! (m - 1) + dd - 1" by blast
  have "date_of_days n = \<lparr>date_Year = y, date_Month = m, date_Day = dd\<rparr>"
    using in_month [OF m km] by (simp add: date_of_days_def y_def [symmetric] k_def [symmetric] Let_def)
  moreover have "valid_date \<lparr>date_Year = y, date_Month = m, date_Day = dd\<rparr>" using m by (simp add: valid_date_def)
  ultimately show ?thesis using days_of_date_eq [of "date_of_days n"] n km by simp
qed

section \<open>An instant read in a location\<close>

definition local_seconds :: "location \<Rightarrow> int \<Rightarrow> int" where
  "local_seconds loc t = t div second + loc (t div second)"

definition local_days :: "location \<Rightarrow> int \<Rightarrow> int" where
  "local_days loc t = local_seconds loc t div 86400"

definition Month :: "location \<Rightarrow> int \<Rightarrow> int" where
  "Month loc t = int (date_Month (date_of_days (local_days loc t)))"

definition Day :: "location \<Rightarrow> int \<Rightarrow> int" where
  "Day loc t = int (date_Day (date_of_days (local_days loc t)))"

definition Weekday :: "location \<Rightarrow> int \<Rightarrow> int" where
  "Weekday loc t = weekday_of_days (local_days loc t)"

definition Hour :: "location \<Rightarrow> int \<Rightarrow> int" where
  "Hour loc t = local_seconds loc t mod 86400 div 3600"

definition Minute :: "location \<Rightarrow> int \<Rightarrow> int" where
  "Minute loc t = local_seconds loc t mod 3600 div 60"

end
