(* ===== verification/Go_Float.thy ===== *)
theory Go_Float
  imports Complex_Main "HOL-Library.Log_Nat"
begin

text \<open>
  The \<^verbatim>\<open>float64\<close> values the program computes with are not negative and stay far inside the range of
  normal numbers. Each operation gives the exact result rounded to the nearest multiple of a unit
  that keeps 53 binary digits, ties to the even one: \<open>f64\<close> is this rounding, on rationals, so that
  the computations stay executable and exact to the last bit.
\<close>

definition round_even :: "rat \<Rightarrow> int" where
  "round_even r =
     (let f = \<lfloor>r\<rfloor>; d = r - of_int f
      in if d < 1 / 2 then f else if 1 / 2 < d then f + 1 else if even f then f else f + 1)"

text \<open>The exponent \<open>k\<close> with \<open>2 ^ k \<le> x < 2 ^ (k + 1)\<close>.\<close>

definition binade :: "rat \<Rightarrow> int" where
  "binade x =
     (let (p, q) = quotient_of x;
          e = int (floorlog 2 (nat p)) - int (floorlog 2 (nat q))
      in if x < 2 powi e then e - 1 else e)"

definition f64 :: "rat \<Rightarrow> rat" where
  "f64 x =
     (if x \<le> 0 then 0
      else let u = 2 powi (binade x - 52) in of_int (round_even (x / u)) * u)"

lemma round_even_int [simp]: "round_even (of_int n) = n"
  by (simp add: round_even_def)

lemma round_even_near: "r - 1 / 2 \<le> of_int (round_even r) \<and> of_int (round_even r) \<le> r + 1 / 2"
  using of_int_floor_le [of r] floor_correct [of r]
  by (auto simp: round_even_def Let_def field_simps) linarith+

lemma round_even_mono: "r \<le> s \<Longrightarrow> round_even r \<le> round_even s"
proof -
  assume le: "r \<le> s"
  show ?thesis
  proof (cases "\<lfloor>r\<rfloor> = \<lfloor>s\<rfloor>")
    case True
    then show ?thesis using le by (auto simp: round_even_def Let_def)
  next
    case False
    with floor_mono [OF le] have less: "\<lfloor>r\<rfloor> + 1 \<le> \<lfloor>s\<rfloor>" by linarith
    have "round_even r \<le> \<lfloor>r\<rfloor> + 1" "\<lfloor>s\<rfloor> \<le> round_even s" by (auto simp: round_even_def Let_def)
    with less show ?thesis by linarith
  qed
qed

lemma powi_mono: "a \<le> b \<Longrightarrow> (2::rat) powi a \<le> 2 powi b"
  by (rule power_int_increasing) simp_all

lemma powi_split: "(2::rat) powi (a - b) = 2 powi a / 2 powi b"
  by (rule power_int_diff) simp

lemma floorlog_bounds_rat:
  assumes "0 < p"
  shows "2 powi (int (floorlog 2 (nat p)) - 1) \<le> (of_int p :: rat)
    \<and> (of_int p :: rat) < 2 powi int (floorlog 2 (nat p))"
proof -
  define k where "k = floorlog 2 (nat p)"
  have b: "2 ^ (k - 1) \<le> nat p" "nat p < 2 ^ k" and "0 < k"
    using floorlog_bounds [of "nat p" 2] assms by (auto simp: k_def floorlog_def)
  have p: "(of_int p :: rat) = of_nat (nat p)" using assms by simp
  have "(2 :: rat) ^ (k - 1) = of_nat (2 ^ (k - 1))" by simp
  also have "\<dots> \<le> of_int p" unfolding p using b(1) of_nat_le_iff by blast
  finally have "(2 :: rat) ^ (k - 1) \<le> of_int p" .
  moreover have "(of_int p :: rat) < 2 ^ k"
    unfolding p using b(2) of_nat_less_iff [of "nat p" "2 ^ k", where 'a = rat] by simp
  moreover have "(2 :: rat) powi (int k - 1) = 2 ^ (k - 1)"
    using \<open>0 < k\<close> by (simp add: power_int_def nat_diff_distrib')
  ultimately show ?thesis by (simp add: k_def)
qed

lemma binade_bounds:
  assumes "0 < x"
  shows "2 powi binade x \<le> x" and "x < 2 powi (binade x + 1)"
proof -
  obtain p q where pq: "quotient_of x = (p, q)" by (cases "quotient_of x")
  have q: "0 < q" and x: "x = of_int p / of_int q"
    using quotient_of_denom_pos [OF pq] quotient_of_div [OF pq] by auto
  have p: "0 < p" using assms q by (simp add: x zero_less_divide_iff)
  define e where "e = int (floorlog 2 (nat p)) - int (floorlog 2 (nat q))"
  note P = floorlog_bounds_rat [OF p] and Q = floorlog_bounds_rat [OF q]
  have "2 powi (e - 1) = 2 powi (int (floorlog 2 (nat p)) - 1) / (2 powi int (floorlog 2 (nat q)) :: rat)"
    unfolding powi_split [symmetric] by (simp only: e_def algebra_simps)
  also have "\<dots> \<le> x" unfolding x using P Q q p by (intro frac_le) (auto simp: less_imp_le)
  finally have lo: "2 powi (e - 1) \<le> x" .
  have "x < 2 powi int (floorlog 2 (nat p)) / 2 powi (int (floorlog 2 (nat q)) - 1)"
    unfolding x using P Q by (intro frac_less) (use p in auto)
  also have "\<dots> = 2 powi (e + 1)" unfolding powi_split [symmetric] by (simp only: e_def algebra_simps)
  finally have hi: "x < 2 powi (e + 1)" .
  have "binade x = (if x < 2 powi e then e - 1 else e)" by (simp add: binade_def pq e_def)
  then show "2 powi binade x \<le> x" "x < 2 powi (binade x + 1)" using lo hi by (auto simp: not_less)
qed

lemma f64_zero [simp]: "f64 0 = 0"
  by (simp add: f64_def)

lemma f64_binade:
  assumes "0 < x"
  shows "2 powi binade x \<le> f64 x" and "f64 x \<le> 2 powi (binade x + 1)"
proof -
  define k where "k = binade x"
  define u :: rat where "u = 2 powi (k - 52)"
  have u: "0 < u" by (simp add: u_def)
  have lo: "2 powi k / u = of_int (2 ^ 52)" and hi: "2 powi (k + 1) / u = of_int (2 ^ 53)"
    by (simp_all add: u_def powi_split [symmetric])
  have "2 powi k / u \<le> x / u" "x / u \<le> 2 powi (k + 1) / u"
    using binade_bounds [OF assms] u by (auto intro: divide_right_mono less_imp_le simp: k_def)
  then have "round_even (of_int (2 ^ 52)) \<le> round_even (x / u)" "round_even (x / u) \<le> round_even (of_int (2 ^ 53))"
    unfolding lo hi by (blast intro: round_even_mono)+
  then have "2 ^ 52 \<le> round_even (x / u)" "round_even (x / u) \<le> 2 ^ 53" unfolding round_even_int .
  then have "of_int (2 ^ 52) * u \<le> of_int (round_even (x / u)) * u"
      "of_int (round_even (x / u)) * u \<le> of_int (2 ^ 53) * u"
    using u by (simp_all only: mult_le_cancel_right_pos of_int_le_iff)
  moreover have "f64 x = of_int (round_even (x / u)) * u"
    using assms by (simp add: f64_def u_def k_def Let_def)
  ultimately show "2 powi binade x \<le> f64 x" "f64 x \<le> 2 powi (binade x + 1)"
    using lo hi u by (simp_all add: field_simps k_def [symmetric] del: of_int_power)
qed

lemma f64_nonneg [simp]: "0 \<le> f64 x"
proof (cases "0 < x")
  case True
  have "0 \<le> (2::rat) powi binade x" by simp
  also have "\<dots> \<le> f64 x" by (rule f64_binade [OF True])
  finally show ?thesis .
qed (simp add: f64_def)

lemma f64_mono: "x \<le> y \<Longrightarrow> f64 x \<le> f64 y"
proof (cases "0 < x")
  case True
  assume le: "x \<le> y"
  with True have y: "0 < y" by simp
  consider "binade x = binade y" | "binade x + 1 \<le> binade y" | "binade y + 1 \<le> binade x" by linarith
  then show ?thesis
  proof cases
    case 1
    define u :: rat where "u = 2 powi (binade y - 52)"
    have "0 < u" by (simp add: u_def)
    then have "round_even (x / u) \<le> round_even (y / u)"
      using le by (intro round_even_mono divide_right_mono) auto
    then show ?thesis using True y 1 \<open>0 < u\<close> by (simp add: f64_def u_def Let_def mult_right_mono)
  next
    case 2
    have "f64 x \<le> 2 powi (binade x + 1)" by (rule f64_binade [OF True])
    also have "\<dots> \<le> 2 powi binade y" using 2 by (rule powi_mono)
    also have "\<dots> \<le> f64 y" by (rule f64_binade [OF y])
    finally show ?thesis .
  next
    case 3
    have "y < 2 powi (binade y + 1)" by (rule binade_bounds [OF y])
    also have "\<dots> \<le> 2 powi binade x" using 3 by (rule powi_mono)
    also have "\<dots> \<le> x" by (rule binade_bounds [OF True])
    finally show ?thesis using le by simp
  qed
next
  case False
  then have "f64 x = 0" by (simp add: f64_def)
  then show ?thesis by simp
qed

lemma f64_nat [simp]: "n < 2 ^ 53 \<Longrightarrow> f64 (of_nat n) = of_nat n"
proof (cases "n = 0")
  case False
  assume n: "n < 2 ^ 53"
  define x :: rat where "x = of_nat n"
  have x: "0 < x" using False by (simp add: x_def)
  have "2 powi binade x \<le> x" by (rule binade_bounds [OF x])
  also have "x < 2 powi 53" using n of_nat_less_iff [of n "2 ^ 53", where 'a = rat] by (simp add: x_def)
  finally have "binade x < 53" using powi_mono [of 53 "binade x"] by (auto simp: not_less [symmetric])
  then have "2 powi (52 - binade x) = (of_int (2 ^ nat (52 - binade x)) :: rat)" by (simp add: power_int_def)
  moreover have "x / 2 powi (binade x - 52) = x * 2 powi (52 - binade x)"
    by (simp add: powi_split)
  ultimately have "x / 2 powi (binade x - 52) = of_int (int n * 2 ^ nat (52 - binade x))" by (simp add: x_def)
  then have "f64 x = of_int (int n * 2 ^ nat (52 - binade x)) * 2 powi (binade x - 52)"
    using x by (simp add: f64_def Let_def del: of_int_mult of_int_power)
  also have "\<dots> = x" using \<open>x / 2 powi (binade x - 52) = of_int (int n * 2 ^ nat (52 - binade x))\<close>
    by (metis nonzero_eq_divide_eq power_int_eq_0_iff zero_neq_numeral)
  finally show ?thesis by (simp add: x_def)
qed simp

end
