(* ===== verification/Go_Duration.thy ===== *)
theory Go_Duration
  imports Go_Time Go_Float
begin

text \<open>
  \<open>time.ParseDuration\<close>: a sequence of decimal numbers with units, with Go's overflow checks on 64-bit
  integers and its floating-point fraction. The three errors it reports are one here.
\<close>

definition unit_map :: "(string \<times> nat) list" where
  "unit_map =
     [(''ns'', 1), (''us'', 1000), (map chr [194, 181, 115], 1000), (map chr [206, 188, 115], 1000),
      (''ms'', 1000000), (''s'', 1000000000), (''m'', 60000000000), (''h'', 3600000000000)]"

text \<open>The digits after the point: their value, the power of ten and the rest. Digits that would overflow are skipped.\<close>

fun leadingFraction :: "nat \<Rightarrow> nat \<Rightarrow> string \<Rightarrow> nat \<times> nat \<times> string" where
  "leadingFraction x scale [] = (x, scale, [])"
| "leadingFraction x scale (c # s) =
     (if \<not> is_digit c then (x, scale, c # s)
      else if x > (2 ^ 63 - 1) div 10 \<or> x * 10 + digit_val c > 2 ^ 63
      then (x, scale, dropWhile is_digit s)
      else leadingFraction (x * 10 + digit_val c) (scale * 10) s)"

definition fraction_part :: "string \<Rightarrow> nat \<times> nat \<times> string \<times> bool" where
  "fraction_part s =
     (if HasPrefix s ''.'' then
        let (f, scale, rest) = leadingFraction 0 1 (tl s)
        in (f, scale, rest, length rest \<noteq> length (tl s))
      else (0, 1, s, False))"

text \<open>One number with its unit: its nanoseconds and the rest.\<close>

definition duration_term :: "string \<Rightarrow> (nat \<times> string) option" where
  "duration_term s =
     (if \<not> (HasPrefix s ''.'' \<or> (s \<noteq> [] \<and> is_digit (hd s))) then None
      else
      let digits = takeWhile is_digit s;
          v = atoi_digits digits
      in if v > 2 ^ 63 then None
         else
      let (f, scale, s2, post) = fraction_part (dropWhile is_digit s)
      in if digits = [] \<and> \<not> post then None
         else
      let in_unit = (\<lambda>c. c \<noteq> CHR ''.'' \<and> \<not> is_digit c);
          u = takeWhile in_unit s2
      in if u = [] then None
         else (case map_of unit_map u of
            None \<Rightarrow> None
          | Some unit \<Rightarrow>
              if v > 2 ^ 63 div unit then None
              else
              let v2 = v * unit
                + (if f > 0 then nat \<lfloor>f64 (f64 (of_nat f) * f64 (f64 (of_nat unit) / f64 (of_nat scale)))\<rfloor> else 0)
              in if v2 > 2 ^ 63 then None else Some (v2, dropWhile in_unit s2)))"

lemma leadingFraction_length: "length (snd (snd (leadingFraction x scale s))) \<le> length s"
  by (induction x scale s rule: leadingFraction.induct)
     (auto simp: le_SucI intro: le_trans [OF length_dropWhile_le])

lemma fraction_part_length: "length (fst (snd (snd (fraction_part s)))) \<le> length s"
  using leadingFraction_length [of 0 1 "tl s"]
  by (cases s) (auto simp: fraction_part_def HasPrefix_def split: prod.splits)

lemma length_dropWhile_less: "takeWhile p s \<noteq> [] \<Longrightarrow> length (dropWhile p s) < length s"
  using length_dropWhile_le [of p "tl s"] by (cases s) (auto split: if_splits)

lemma duration_term_length: "duration_term s = Some (v, rest) \<Longrightarrow> length rest < length s"
proof -
  assume run: "duration_term s = Some (v, rest)"
  obtain f scale s2 post where part: "fraction_part (dropWhile is_digit s) = (f, scale, s2, post)"
    by (cases "fraction_part (dropWhile is_digit s)")
  have "length s2 \<le> length s"
    using fraction_part_length [of "dropWhile is_digit s"] length_dropWhile_le [of is_digit s]
    by (simp add: part)
  moreover from run have "length rest < length s2"
    using length_dropWhile_less [of "\<lambda>c. c \<noteq> CHR ''.'' \<and> \<not> is_digit c" s2]
    by (auto simp: duration_term_def part Let_def split: if_splits option.splits)
  ultimately show ?thesis by simp
qed

text \<open>The loop over the terms; the sum is an unsigned 64-bit integer.\<close>

function duration_loop :: "nat \<Rightarrow> string \<Rightarrow> nat option" where
  "duration_loop d s =
     (if s = [] then Some d
      else case duration_term s of
        None \<Rightarrow> None
      | Some (v, rest) \<Rightarrow>
          let d2 = (d + v) mod 2 ^ 64
          in if d2 > 2 ^ 63 then None else duration_loop d2 rest)"
  by pat_completeness auto
termination
  by (relation "measure (\<lambda>(d, s). length s)") (auto dest: duration_term_length)

declare duration_loop.simps [simp del]

definition ParseDuration :: "string \<Rightarrow> int option" where
  "ParseDuration raw =
     (let neg = HasPrefix raw ''-'';
          s = (if neg \<or> HasPrefix raw ''+'' then tl raw else raw)
      in if s = ''0'' then Some 0
         else if s = [] then None
         else (case duration_loop 0 s of
            None \<Rightarrow> None
          | Some d \<Rightarrow> if neg then Some (- int d) else if d > 2 ^ 63 - 1 then None else Some (int d)))"

text \<open>A whole number of one unit reads as their product.\<close>

lemma duration_term_whole:
  assumes "map_of unit_map u = Some unit" and "u \<noteq> []" and "list_all (\<lambda>c. c \<noteq> CHR ''.'' \<and> \<not> is_digit c) u"
    and "n * unit \<le> 2 ^ 63"
  shows "duration_term (itoa n @ u) = Some (n * unit, [])"
proof -
  have unit: "0 < unit" using assms(1) by (auto simp: unit_map_def split: if_splits)
  have n: "n \<le> 2 ^ 63" using assms(4) unit by (metis le_trans mult.commute mult_le_mono1 nat_mult_1 Suc_leI One_nat_def)
  have le: "n \<le> 2 ^ 63 div unit" using assms(4) unit by (simp add: less_eq_div_iff_mult_less_eq)
  have digits: "takeWhile is_digit (itoa n @ u) = itoa n" "dropWhile is_digit (itoa n @ u) = u"
    using itoa_digits [of n] assms(2,3)
    by (cases u; auto simp: takeWhile_append dropWhile_append list_all_iff)+
  have "hd (itoa n @ u) = hd (itoa n)" "is_digit (hd (itoa n))"
    using itoa_digits [of n] by (cases "itoa n"; simp)+
  moreover have "\<not> HasPrefix u ''.''" using assms(2,3) by (cases u) (auto simp: HasPrefix_def)
  moreover have all: "takeWhile (\<lambda>c. c \<noteq> CHR ''.'' \<and> \<not> is_digit c) u = u"
    "dropWhile (\<lambda>c. c \<noteq> CHR ''.'' \<and> \<not> is_digit c) u = []"
    using assms(3) by (simp_all add: list_all_iff takeWhile_eq_all_conv)
  ultimately show ?thesis using assms(1,2,4) n le
    by (simp add: duration_term_def digits all fraction_part_def atoi_itoa Let_def)
qed

lemma ParseDuration_whole:
  assumes "map_of unit_map u = Some unit" and "u \<noteq> []" and "list_all (\<lambda>c. c \<noteq> CHR ''.'' \<and> \<not> is_digit c) u"
    and "n * unit < 2 ^ 63"
  shows "ParseDuration (itoa n @ u) = Some (int (n * unit))"
proof -
  have "is_digit (hd (itoa n @ u))" using itoa_digits [of n] by (cases "itoa n"; simp)
  then have "\<not> HasPrefix (itoa n @ u) ''-''" "\<not> HasPrefix (itoa n @ u) ''+''"
    by (cases "itoa n @ u"; auto simp: HasPrefix_def is_digit_def byte_def)+
  moreover have "itoa n @ u \<noteq> ''0''" using assms(2) itoa_not_Nil [of n] by (cases "itoa n") auto
  moreover have "duration_loop 0 (itoa n @ u) = Some (n * unit)"
    using assms duration_term_whole [OF assms(1,2,3)] by (simp add: duration_loop.simps)
  ultimately show ?thesis using assms(4) by (simp add: ParseDuration_def)
qed

end
