(* ===== verification/Cron.thy ===== *)
theory Cron
  imports Go_Duration
begin

text \<open>
  \<^verbatim>\<open>src/scheduler/cron.go\<close>: schedules as the five fields of a cron expression or a fixed interval, and the
  search for the next run.
\<close>

section \<open>Fields of a string\<close>

text \<open>\<open>strings.Fields\<close>: the maximal runs without white space. \<open>cur\<close> is the run being read.\<close>

function fields_from :: "string \<Rightarrow> string \<Rightarrow> string list" where
  "fields_from cur [] = (if cur = [] then [] else [cur])"
| "fields_from cur (c # s) =
     (case List.find (\<lambda>p. p \<noteq> [] \<and> prefix p (c # s)) go_spaces of
        None \<Rightarrow> fields_from (cur @ [c]) s
      | Some p \<Rightarrow> (if cur = [] then [] else [cur]) @ fields_from [] (drop (length p) (c # s)))"
  by pat_completeness auto
termination
  by (relation "measure (\<lambda>(cur, s). length s)") (auto simp: find_Some_iff neq_Nil_conv)

definition Fields :: "string \<Rightarrow> string list" where
  "Fields s = fields_from [] s"

section \<open>Parsing\<close>

datatype cron_error =
    BadInterval string
  | BadFieldCount string nat
  | BadStep string
  | BadValue string

record schedule =
  sch_every :: int
  sch_minute :: "int \<Rightarrow> bool"
  sch_hour :: "int \<Rightarrow> bool"
  sch_dom :: "int \<Rightarrow> bool"
  sch_month :: "int \<Rightarrow> bool"
  sch_dow :: "int \<Rightarrow> bool"

text \<open>The values of a comma-separated list; the first one that is no number of the range is the error.\<close>

fun parse_values :: "string list \<Rightarrow> int \<Rightarrow> int \<Rightarrow> cron_error + int list" where
  "parse_values [] mn mx = Inr []"
| "parse_values (p # ps) mn mx =
     (case ParseInt64 (TrimSpace p) of
        None \<Rightarrow> Inl (BadValue p)
      | Some n \<Rightarrow>
          if n < mn \<or> n > mx then Inl (BadValue p)
          else case parse_values ps mn mx of Inl x \<Rightarrow> Inl x | Inr ns \<Rightarrow> Inr (n # ns))"

definition parseField :: "string \<Rightarrow> int \<Rightarrow> int \<Rightarrow> cron_error + (int \<Rightarrow> bool)" where
  "parseField field mn mx =
     (if field = ''*'' then Inr (\<lambda>_. True)
      else if HasPrefix field ''*/'' then
        (case ParseInt64 (TrimPrefix field ''*/'') of
           None \<Rightarrow> Inl (BadStep field)
         | Some step \<Rightarrow> if step \<le> 0 then Inl (BadStep field) else Inr (\<lambda>v. (v - mn) mod step = 0))
      else (case parse_values (split_on (CHR '','') field) mn mx of
              Inl x \<Rightarrow> Inl x | Inr values \<Rightarrow> Inr (\<lambda>v. v \<in> set values)))"

definition parseCron :: "string \<Rightarrow> cron_error + schedule" where
  "parseCron expr =
     (let fs = Fields expr
      in if length fs \<noteq> 5 then Inl (BadFieldCount expr (length fs))
         else
         case parseField (fs ! 0) 0 59 of Inl x \<Rightarrow> Inl x | Inr mi \<Rightarrow>
         case parseField (fs ! 1) 0 23 of Inl x \<Rightarrow> Inl x | Inr ho \<Rightarrow>
         case parseField (fs ! 2) 1 31 of Inl x \<Rightarrow> Inl x | Inr dm \<Rightarrow>
         case parseField (fs ! 3) 1 12 of Inl x \<Rightarrow> Inl x | Inr mo \<Rightarrow>
         case parseField (fs ! 4) 0 7 of Inl x \<Rightarrow> Inl x | Inr dw \<Rightarrow>
           Inr \<lparr>sch_every = 0, sch_minute = mi, sch_hour = ho, sch_dom = dm, sch_month = mo, sch_dow = dw\<rparr>)"

text \<open>The matchers of an interval stay \<^verbatim>\<open>nil\<close>; nothing calls them.\<close>

definition every_schedule :: "int \<Rightarrow> schedule" where
  "every_schedule d =
     \<lparr>sch_every = d, sch_minute = (\<lambda>_. False), sch_hour = (\<lambda>_. False), sch_dom = (\<lambda>_. False),
      sch_month = (\<lambda>_. False), sch_dow = (\<lambda>_. False)\<rparr>"

definition ParseSchedule :: "string \<Rightarrow> cron_error + schedule" where
  "ParseSchedule raw =
     (let expr = TrimSpace raw
      in if HasPrefix expr ''@every '' then
           (case ParseDuration (TrimSpace (TrimPrefix expr ''@every '')) of
              None \<Rightarrow> Inl (BadInterval expr)
            | Some d \<Rightarrow> if d \<le> 0 then Inl (BadInterval expr) else Inr (every_schedule d))
         else if expr = ''@hourly'' then parseCron ''0 * * * *''
         else if expr = ''@daily'' \<or> expr = ''@midnight'' then parseCron ''0 0 * * *''
         else if expr = ''@weekly'' then parseCron ''0 0 * * 0''
         else if expr = ''@monthly'' then parseCron ''0 0 1 * *''
         else parseCron expr)"

section \<open>The next run\<close>

definition maxLookahead :: int where "maxLookahead = 4 * 366 * 24 * hour"

definition dowMatches :: "(int \<Rightarrow> bool) \<Rightarrow> int \<Rightarrow> bool" where
  "dowMatches m wd = (if m wd then True else if wd = 0 then m 7 else False)"

definition fires :: "schedule \<Rightarrow> location \<Rightarrow> int \<Rightarrow> bool" where
  "fires s loc t =
     (sch_month s (Month loc t) \<and> sch_dom s (Day loc t) \<and> dowMatches (sch_dow s) (Weekday loc t)
      \<and> sch_hour s (Hour loc t) \<and> sch_minute s (Minute loc t))"

lemma minute_pos [simp]: "0 < minute"
  by (simp add: time_units)

function search_run :: "schedule \<Rightarrow> location \<Rightarrow> int \<Rightarrow> int \<Rightarrow> int option" where
  "search_run s loc deadline t =
     (if t < deadline then
        if fires s loc t then Some t else search_run s loc deadline (t + minute)
      else None)"
  by pat_completeness auto
termination
  by (relation "measure (\<lambda>(s, loc, deadline, t). nat (deadline - t))") (auto simp: time_units)

declare search_run.simps [simp del]

text \<open>\<open>None\<close> is the error that no run was found within \<open>maxLookahead\<close>.\<close>

definition Next :: "schedule \<Rightarrow> int \<Rightarrow> location \<Rightarrow> int option" where
  "Next s after loc =
     (if sch_every s > 0 then Some (after + sch_every s)
      else search_run s loc (after + maxLookahead) (Truncate after minute + minute))"

section \<open>What the search finds\<close>

text \<open>The first instant after a given one that has a property.\<close>

definition first_after :: "(int \<Rightarrow> bool) \<Rightarrow> int \<Rightarrow> int \<Rightarrow> bool" where
  "first_after P after t \<longleftrightarrow> after < t \<and> P t \<and> (\<forall>u. after < u \<and> u < t \<longrightarrow> \<not> P u)"

lemma search_run_finds:
  assumes "search_run s loc deadline t0 = r"
  shows "case r of
      Some t \<Rightarrow> t0 \<le> t \<and> t < deadline \<and> minute dvd t - t0 \<and> fires s loc t
        \<and> (\<forall>u. t0 \<le> u \<and> u < t \<and> minute dvd u - t0 \<longrightarrow> \<not> fires s loc u)
    | None \<Rightarrow> \<forall>u. t0 \<le> u \<and> u < deadline \<and> minute dvd u - t0 \<longrightarrow> \<not> fires s loc u"
  using assms
proof (induction s loc deadline t0 arbitrary: r rule: search_run.induct)
  case (1 s loc deadline t0)
  have step: "u = t0 \<or> (t0 + minute \<le> u \<and> minute dvd u - (t0 + minute))"
    if u: "t0 \<le> u" "minute dvd u - t0" for u
  proof -
    have "0 \<le> u - t0" using u by simp
    with u(2) have "u - t0 = 0 \<or> minute \<le> u - t0" by (metis dvd_imp_le_int order_le_less abs_of_nonneg minute_pos)
    moreover have "minute dvd u - (t0 + minute)" using u(2) by (simp add: diff_diff_eq [symmetric])
    ultimately show ?thesis by auto
  qed
  have earlier: "minute dvd u - t0" if "minute dvd u - (t0 + minute)" for u
  proof -
    have "u - t0 = u - (t0 + minute) + minute" by simp
    with that show ?thesis by (metis dvd_add dvd_refl)
  qed
  show ?case
  proof (cases "t0 < deadline \<and> \<not> fires s loc t0")
    case True
    then have eq: "search_run s loc deadline (t0 + minute) = r"
      using 1(2) by (simp add: search_run.simps [of s loc deadline t0])
    have IH: "case r of
      Some t \<Rightarrow> t0 + minute \<le> t \<and> t < deadline \<and> minute dvd t - (t0 + minute) \<and> fires s loc t
        \<and> (\<forall>u. t0 + minute \<le> u \<and> u < t \<and> minute dvd u - (t0 + minute) \<longrightarrow> \<not> fires s loc u)
    | None \<Rightarrow> \<forall>u. t0 + minute \<le> u \<and> u < deadline \<and> minute dvd u - (t0 + minute) \<longrightarrow> \<not> fires s loc u"
      using 1(1) True eq by blast
    show ?thesis
    proof (cases r)
      case None
      then show ?thesis using IH step True by (auto; blast)
    next
      case (Some t)
      have "t0 \<le> t" using IH Some minute_pos by (auto simp del: minute_pos)
      then show ?thesis using IH step earlier True Some by (auto; blast)
    qed
  next
    case False
    then show ?thesis using 1(2) by (auto simp: search_run.simps [of s loc deadline t0])
  qed
qed

lemma Next_spec:
  assumes "\<not> 0 < sch_every s"
  shows "case Next s after loc of
      Some t \<Rightarrow> first_after (\<lambda>u. minute dvd u \<and> fires s loc u) after t \<and> t < after + maxLookahead
    | None \<Rightarrow> \<forall>u. after < u \<and> u < after + maxLookahead \<and> minute dvd u \<longrightarrow> \<not> fires s loc u"
proof -
  define t0 where "t0 = Truncate after minute + minute"
  have run: "Next s after loc = search_run s loc (after + maxLookahead) t0"
    using assms by (simp add: Next_def t0_def)
  have t0: "minute dvd t0" by (simp add: t0_def Truncate_minute)
  have gap: "t0 - minute \<le> after \<and> after < t0"
    using Truncate_bounds [of minute after] by (simp add: t0_def)
  have grid: "minute dvd u - t0 \<longleftrightarrow> minute dvd u" for u
    using t0 by (metis dvd_diff dvd_add diff_add_cancel)
  have past: "after < u \<longleftrightarrow> t0 \<le> u" if u: "minute dvd u" for u
  proof
    assume "after < u"
    show "t0 \<le> u"
    proof (rule ccontr)
      assume "\<not> t0 \<le> u"
      with \<open>after < u\<close> gap have "0 < t0 - u" "t0 - u < minute" by simp_all
      moreover have "minute dvd t0 - u" using u t0 by (rule dvd_diff [rotated])
      ultimately show False by (metis zdvd_imp_le not_less)
    qed
  next
    assume "t0 \<le> u"
    with gap show "after < u" by simp
  qed
  have "case Next s after loc of
      Some t \<Rightarrow> t0 \<le> t \<and> t < after + maxLookahead \<and> minute dvd t - t0 \<and> fires s loc t
        \<and> (\<forall>u. t0 \<le> u \<and> u < t \<and> minute dvd u - t0 \<longrightarrow> \<not> fires s loc u)
    | None \<Rightarrow> \<forall>u. t0 \<le> u \<and> u < after + maxLookahead \<and> minute dvd u - t0 \<longrightarrow> \<not> fires s loc u"
    unfolding run by (rule search_run_finds) (rule refl)
  then show ?thesis unfolding grid first_after_def using past by (auto split: option.splits)
qed

section \<open>UTC\<close>

lemma UTC_fields:
  "Minute UTC (minute * q) = q mod 60" "Hour UTC (minute * q) = q mod 1440 div 60"
  "local_days UTC (minute * q) = q div 1440"
proof -
  have sec: "local_seconds UTC (minute * q) = 60 * q" by (simp add: local_seconds_def UTC_def time_units)
  show "Minute UTC (minute * q) = q mod 60"
    using mod_mult_mult1 [of 60 q 60] by (simp add: Minute_def sec)
  show "Hour UTC (minute * q) = q mod 1440 div 60"
    using mod_mult_mult1 [of 60 q 1440] div_mult_mult1 [of 60 "q mod 1440" 60] by (simp add: Hour_def sec)
  show "local_days UTC (minute * q) = q div 1440"
    using div_mult_mult1 [of 60 q 1440] by (simp add: local_days_def sec)
qed

lemma UTC_clock:
  "Hour UTC (minute * q) = h \<and> Minute UTC (minute * q) = m \<longleftrightarrow>
   q mod 1440 = 60 * h + m \<and> 0 \<le> m \<and> m < 60"
proof -
  have "q mod 60 = q mod 1440 mod 60" by (simp add: mod_mod_cancel)
  then show ?thesis unfolding UTC_fields
    using mult_div_mod_eq [of 60 "q mod 1440"] by (auto simp: div_pos_pos_trivial)
qed

text \<open>Words of plain letters, joined by one space each, are the fields of their line.\<close>

lemma fields_from_word:
  "list_all plain_byte w \<Longrightarrow> fields_from cur (w @ s) = fields_from (cur @ w) s"
proof (induction w arbitrary: cur)
  case (Cons c w)
  have "\<not> (p \<noteq> [] \<and> prefix p (c # (w @ s)))" if "p \<in> set go_spaces" for p
    using go_spaces_not_plain [OF that] Cons.prems by (cases p) auto
  then have "List.find (\<lambda>p. p \<noteq> [] \<and> prefix p (c # (w @ s))) go_spaces = None"
    by (simp only: find_None_iff) blast
  with Cons show ?case by simp
qed simp

lemma fields_from_space: "fields_from cur (CHR '' '' # s) = (if cur = [] then [] else [cur]) @ fields_from [] s"
proof -
  have "List.find (\<lambda>p. p \<noteq> [] \<and> prefix p (CHR '' '' # s)) go_spaces = Some '' ''"
  proof -
    obtain rest where r: "go_spaces =
        [CHR 0x09] # [CHR 0x0A] # [CHR 0x0B] # [CHR 0x0C] # [CHR 0x0D] # '' '' # rest"
      using go_spaces_split unfolding control_chars by blast
    show ?thesis unfolding r by simp
  qed
  then show ?thesis by simp
qed

lemma Fields_join:
  "list_all (\<lambda>w. w \<noteq> [] \<and> list_all plain_byte w) ws \<Longrightarrow> Fields (join '' '' ws) = ws"
proof (induction ws rule: induct_list012)
  case (2 w)
  then show ?case using fields_from_word [of w "[]" "[]"] by (simp add: Fields_def)
next
  case (3 w v ws)
  then show ?case using fields_from_word [of w "[]" "CHR '' '' # join '' '' (v # ws)"]
    by (simp add: Fields_def fields_from_space del: fields_from.simps(2))
qed (simp add: Fields_def)

lemma Next_UTC:
  assumes "sch_every s = 0" and "\<And>q. fires s UTC (minute * q) \<longleftrightarrow> P (minute * q)"
    and "\<And>u. P u \<Longrightarrow> minute dvd u" and "after < v" and "v < after + maxLookahead" and "P v"
  shows "\<exists>t. Next s after UTC = Some t \<and> first_after P after t"
proof -
  have same: "minute dvd u \<and> fires s UTC u \<longleftrightarrow> P u" for u using assms(2,3) by (auto elim!: dvdE)
  have spec: "case Next s after UTC of
      Some t \<Rightarrow> first_after P after t \<and> t < after + maxLookahead
    | None \<Rightarrow> \<forall>u. after < u \<and> u < after + maxLookahead \<longrightarrow> \<not> P u"
    using Next_spec [of s after UTC] assms(1) unfolding same by (auto simp: same [symmetric] split: option.splits)
  then show ?thesis using assms(4,5,6) by (cases "Next s after UTC") auto
qed

text \<open>The text of a field that is a star or one number, and what it matches.\<close>

definition field_text :: "nat option \<Rightarrow> string" where
  "field_text f = (case f of None \<Rightarrow> ''*'' | Some n \<Rightarrow> itoa n)"

definition field_matches :: "nat option \<Rightarrow> int \<Rightarrow> bool" where
  "field_matches f v = (case f of None \<Rightarrow> True | Some n \<Rightarrow> v = int n)"

definition field_within :: "nat option \<Rightarrow> nat \<Rightarrow> nat \<Rightarrow> bool" where
  "field_within f mn mx = (case f of None \<Rightarrow> True | Some n \<Rightarrow> mn \<le> n \<and> n \<le> mx)"

lemma digit_plain: "is_digit c \<Longrightarrow> plain_byte c \<and> c \<noteq> CHR '','' \<and> c \<noteq> CHR ''*'' \<and> c \<noteq> CHR ''-'' \<and> c \<noteq> CHR ''+''"
  by (auto simp: is_digit_def plain_byte_def byte_def)

lemma itoa_plain: "list_all plain_byte (itoa n)"
  using itoa_digits [of n] digit_plain by (auto simp: list_all_iff)

lemma parseField_text:
  assumes "field_within f mn mx" and "mx < 60"
  shows "parseField (field_text f) (int mn) (int mx) = Inr (field_matches f)"
proof (cases f)
  case None
  then show ?thesis by (simp add: field_text_def parseField_def field_matches_def fun_eq_iff)
next
  case (Some n)
  have "CHR '','' \<notin> set (itoa n)" "CHR ''*'' \<notin> set (itoa n)"
    using itoa_digits [of n] digit_plain by (auto simp: list_all_iff)
  moreover from this(2) have "itoa n \<noteq> ''*''" "\<not> HasPrefix (itoa n) ''*/''"
    by (cases "itoa n"; auto simp: HasPrefix_def)+
  ultimately show ?thesis using assms Some ParseInt64_itoa [of n] TrimSpace_plain [OF itoa_plain [of n]]
    by (auto simp: field_text_def field_within_def field_matches_def parseField_def split_on_none fun_eq_iff)
qed

definition text_schedule :: "nat option \<Rightarrow> nat option \<Rightarrow> nat option \<Rightarrow> nat option \<Rightarrow> nat option \<Rightarrow> schedule" where
  "text_schedule mi ho dm mo dw =
     \<lparr>sch_every = 0, sch_minute = field_matches mi, sch_hour = field_matches ho, sch_dom = field_matches dm,
      sch_month = field_matches mo, sch_dow = field_matches dw\<rparr>"

lemma parseCron_text:
  assumes "field_within mi 0 59" "field_within ho 0 23" "field_within dm 1 31" "field_within mo 1 12"
    "field_within dw 0 7"
  shows "parseCron (join '' '' (map field_text [mi, ho, dm, mo, dw])) = Inr (text_schedule mi ho dm mo dw)"
proof -
  have word: "field_text f \<noteq> [] \<and> list_all plain_byte (field_text f)" for f
    using itoa_plain by (cases f) (auto simp: field_text_def plain_byte_def byte_def)
  have "Fields (join '' '' (map field_text [mi, ho, dm, mo, dw])) = map field_text [mi, ho, dm, mo, dw]"
    by (rule Fields_join) (simp add: word)
  then show ?thesis
    using parseField_text [OF assms(1)] parseField_text [OF assms(2)] parseField_text [OF assms(3)]
      parseField_text [OF assms(4)] parseField_text [OF assms(5)]
    by (simp add: parseCron_def text_schedule_def Let_def)
qed

lemma text_fires:
  "fires (text_schedule mi ho dm mo dw) loc t \<longleftrightarrow>
     field_matches mo (Month loc t) \<and> field_matches dm (Day loc t) \<and> dowMatches (field_matches dw) (Weekday loc t)
     \<and> field_matches ho (Hour loc t) \<and> field_matches mi (Minute loc t)"
  by (simp add: fires_def text_schedule_def)

text \<open>
  C20: The next run is the first one. For a schedule that is no interval, \<open>Next\<close> returns a whole
  minute after the given instant at which all five fields match, before \<open>maxLookahead\<close> has passed, and
  none of the whole minutes in between matches; it fails only if no whole minute of that period matches.
  In any location.
\<close>

theorem Next_first:
  assumes "\<not> 0 < sch_every s"
  shows "case Next s after loc of
      Some t \<Rightarrow> first_after (\<lambda>u. minute dvd u \<and> fires s loc u) after t \<and> t < after + maxLookahead
    | None \<Rightarrow> \<forall>u. after < u \<and> u < after + maxLookahead \<and> minute dvd u \<longrightarrow> \<not> fires s loc u"
  using assms by (rule Next_spec)

theorem Next_first_witness:
  "case Next (text_schedule (Some 30) (Some 2) None None None) 0 UTC of
      Some t \<Rightarrow> first_after (\<lambda>u. minute dvd u \<and> fires (text_schedule (Some 30) (Some 2) None None None) UTC u) 0 t
        \<and> t < 0 + maxLookahead
    | None \<Rightarrow> \<forall>u. 0 < u \<and> u < 0 + maxLookahead \<and> minute dvd u
        \<longrightarrow> \<not> fires (text_schedule (Some 30) (Some 2) None None None) UTC u"
  by (rule Next_first) (simp add: text_schedule_def)

lemma ParseSchedule_text:
  assumes "field_within mi 0 59" "field_within ho 0 23" "field_within dm 1 31" "field_within mo 1 12"
    "field_within dw 0 7" and "mi \<noteq> None"
  shows "ParseSchedule (join '' '' (map field_text [mi, ho, dm, mo, dw])) = Inr (text_schedule mi ho dm mo dw)"
proof -
  define expr where "expr = join '' '' (map field_text [mi, ho, dm, mo, dw])"
  obtain n where n: "mi = Some n" using assms(6) by auto
  have "is_digit (hd expr)"
    using itoa_digits [of n] by (cases "itoa n") (auto simp: expr_def n field_text_def)
  then have hd: "hd expr \<noteq> CHR ''@''" and word: "expr \<noteq> []"
    using n by (auto simp: is_digit_def byte_def expr_def field_text_def)
  then have no_at: "\<not> HasPrefix expr ''@every ''" "expr \<noteq> ''@hourly''" "expr \<noteq> ''@daily''" "expr \<noteq> ''@midnight''"
    "expr \<noteq> ''@weekly''" "expr \<noteq> ''@monthly''"
    by (cases expr; auto simp: HasPrefix_def)+
  have last: "plain_byte (last expr)"
  proof -
    have "list_all plain_byte (field_text dw) \<and> field_text dw \<noteq> []"
      using itoa_plain by (cases dw) (auto simp: field_text_def plain_byte_def byte_def)
    then show ?thesis by (auto simp: expr_def list_all_iff)
  qed
  have first: "plain_byte (hd expr)"
    using itoa_plain [of n] by (cases "itoa n") (auto simp: expr_def n field_text_def)
  have "TrimSpace expr = expr" using word first last by (rule TrimSpace_ends)
  then show ?thesis using no_at parseCron_text [OF assms(1-5)]
    by (simp only: ParseSchedule_def Let_def expr_def [symmetric] if_False simp_thms)
qed

lemma maxLookahead_days: "maxLookahead = 1464 * day"
  by (simp add: maxLookahead_def time_units)

lemma next_multiple:
  fixes after k r :: int
  assumes "0 < k" "0 \<le> r" "r < k"
  obtains v where "after < v" "v \<le> after + k" "v mod k = r"
proof -
  define v where "v = after + k - (after - r) mod k"
  have "v = k * ((after - r) div k + 1) + r"
    using mult_div_mod_eq [of k "after - r"] by (simp add: v_def algebra_simps)
  then have "v mod k = r" using assms by simp
  moreover have "after < v" "v \<le> after + k"
    using assms(1) pos_mod_bound [of k "after - r"] pos_mod_sign [of k "after - r"] by (simp_all add: v_def)
  ultimately show thesis using that by blast
qed

lemma UTC_time_of_day:
  "(minute * q) mod day = hour * h + minute * m \<longleftrightarrow> q mod 1440 = 60 * h + m"
proof -
  have "(minute * q) mod day = minute * (q mod 1440)"
    using mod_mult_mult1 [of minute q 1440] by (simp add: time_units)
  moreover have "hour * h + minute * m = minute * (60 * h + m)" by (simp add: time_units)
  ultimately show ?thesis using minute_pos by (metis mult_cancel_left less_irrefl)
qed

text \<open>
  A task scheduled at a time of day runs every day at that time. The expression with minute \<open>m\<close>,
  hour \<open>h\<close> and three stars is a valid schedule, and from any instant its next run in UTC is the first
  later instant at exactly that time of day: never missed, never twice.
\<close>

theorem daily_schedule:
  assumes "h < 24" and "m < 60"
  shows "\<exists>s. ParseSchedule (itoa m @ '' '' @ itoa h @ '' * * *'') = Inr s
    \<and> (\<forall>after. \<exists>t. Next s after UTC = Some t
          \<and> first_after (\<lambda>u. u mod day = hour * int h + minute * int m) after t)"
proof -
  define s where "s = text_schedule (Some m) (Some h) None None None"
  have "ParseSchedule (itoa m @ '' '' @ itoa h @ '' * * *'') = Inr s"
    using ParseSchedule_text [of "Some m" "Some h" None None None] assms
    by (simp add: s_def field_within_def field_text_def)
  moreover have "\<exists>t. Next s after UTC = Some t
      \<and> first_after (\<lambda>u. u mod day = hour * int h + minute * int m) after t" for after
  proof -
    have "hour * int h + minute * int m < day" "0 \<le> hour * int h + minute * int m"
      using assms by (simp_all add: time_units)
    then obtain v where v: "after < v" "v \<le> after + day" "v mod day = hour * int h + minute * int m"
      using next_multiple [of day "hour * int h + minute * int m" after] by (auto simp: time_units)
    show ?thesis
    proof (rule Next_UTC)
      show "fires s UTC (minute * q) \<longleftrightarrow> (minute * q) mod day = hour * int h + minute * int m" for q
        unfolding UTC_time_of_day
        using UTC_clock [of q "int h" "int m"] assms
        by (simp add: s_def text_fires field_matches_def dowMatches_def)
      show "minute dvd u" if "u mod day = hour * int h + minute * int m" for u
      proof -
        have "minute dvd day" "minute dvd hour * int h + minute * int m" by (simp_all add: time_units)
        with that show ?thesis by (metis dvd_mod_iff)
      qed
      show "v < after + maxLookahead" using v(2) by (simp add: maxLookahead_days time_units)
    qed (use v in \<open>simp_all add: s_def text_schedule_def\<close>)
  qed
  ultimately show ?thesis by blast
qed

theorem daily_schedule_witness:
  "\<exists>s. ParseSchedule (itoa 30 @ '' '' @ itoa 2 @ '' * * *'') = Inr s
    \<and> (\<forall>after. \<exists>t. Next s after UTC = Some t
          \<and> first_after (\<lambda>u. u mod day = hour * int 2 + minute * int 30) after t)"
  using daily_schedule [of 2 30] by simp

end
