(* ===== verification/Go_Time_Text.thy ===== *)
theory Go_Time_Text
  imports Go_Time
begin

text \<open>
  Instants as text: the local date, the time of day and the fraction of a second, as \<^verbatim>\<open>time.Format\<close> writes them,
  and when such texts, compared byte by byte, are in the order of what they stand for.
\<close>

section \<open>Texts of fixed width\<close>

lemma append_less_iff:
  fixes x x' a b :: "'a::linorder list"
  shows "length x = length x' \<Longrightarrow> x @ a < x' @ b \<longleftrightarrow> x < x' \<or> x = x' \<and> a < b"
  by (induction x x' rule: list_induct2) auto

fun padded :: "nat \<Rightarrow> nat \<Rightarrow> string" where
  "padded 0 n = []"
| "padded (Suc k) n = padded k (n div 10) @ [char_of (48 + n mod 10)]"

lemma length_padded [simp]: "length (padded k n) = k"
  by (induction k arbitrary: n) auto

lemma digit_less_iff: "a < 10 \<Longrightarrow> b < 10 \<Longrightarrow> (char_of (48 + a) :: char) < char_of (48 + b) \<longleftrightarrow> (a::nat) < b"
  by (simp add: less_char_def)

lemma digit_eq_iff: "a < 10 \<Longrightarrow> b < 10 \<Longrightarrow> (char_of (48 + a) :: char) = char_of (48 + b) \<longleftrightarrow> (a::nat) = b"
  using digit_less_iff [of a b] digit_less_iff [of b a] by (metis less_irrefl linorder_neqE_nat)

lemma padded_eq_iff: "m < 10 ^ k \<Longrightarrow> n < 10 ^ k \<Longrightarrow> padded k m = padded k n \<longleftrightarrow> m = n"
proof (induction k arbitrary: m n)
  case (Suc k)
  have "m div 10 < 10 ^ k" "n div 10 < 10 ^ k" using Suc.prems by (simp_all add: div_less_iff_less_mult)
  from Suc.IH [OF this] show ?case
    by (simp add: digit_eq_iff del: char_of_mod_256) (metis div_mult_mod_eq)
qed simp

lemma less_div_mod: "0 < k \<Longrightarrow> (m::nat) < n \<longleftrightarrow> m div k < n div k \<or> m div k = n div k \<and> m mod k < n mod k"
proof -
  have lower: "x < y" if "x div k < y div k" for x y using that by (metis div_le_mono not_less)
  have same: "x < y \<longleftrightarrow> x mod k < y mod k" if "x div k = y div k" for x y
    using that by (metis div_mult_mod_eq nat_add_left_cancel_less)
  show ?thesis using lower [of m n] lower [of n m] same [of m n] by (metis less_asym linorder_neqE_nat)
qed

lemma padded_less_iff: "m < 10 ^ k \<Longrightarrow> n < 10 ^ k \<Longrightarrow> padded k m < padded k n \<longleftrightarrow> m < n"
proof (induction k arbitrary: m n)
  case (Suc k)
  have bounds: "m div 10 < 10 ^ k" "n div 10 < 10 ^ k" using Suc.prems by (simp_all add: div_less_iff_less_mult)
  have "padded (Suc k) m < padded (Suc k) n \<longleftrightarrow> m div 10 < n div 10 \<or> m div 10 = n div 10 \<and> m mod 10 < n mod 10"
    using Suc.IH [OF bounds] padded_eq_iff [OF bounds] by (simp add: append_less_iff digit_less_iff)
  also have "\<dots> \<longleftrightarrow> m < n" by (rule less_div_mod [symmetric]) simp
  finally show ?case .
qed simp

lemma padded_digits: "c \<in> set (padded k n) \<Longrightarrow> CHR ''0'' \<le> c"
  by (induction k arbitrary: n) (auto simp: less_eq_char_def)

section \<open>The fraction of a second\<close>

text \<open>Trailing zeros are not written, and a fraction of zero not at all.\<close>

fun trim_zeros :: "string \<Rightarrow> string" where
  "trim_zeros [] = []"
| "trim_zeros (c # s) = (let t = trim_zeros s in if t = [] \<and> c = CHR ''0'' then [] else c # t)"

definition fraction_text :: "nat \<Rightarrow> string" where
  "fraction_text n = (if n = 0 then [] else CHR ''.'' # trim_zeros (padded 9 n))"

lemma trim_zeros_positive:
  "length p = length q \<Longrightarrow> \<forall>c \<in> set p. CHR ''0'' \<le> c \<Longrightarrow> p < q \<Longrightarrow> trim_zeros q \<noteq> []"
  by (induction p q rule: list_induct2) (auto simp: Let_def)

lemma trim_zeros_less:
  assumes "length p = length q" and "\<forall>c \<in> set p \<union> set q. CHR ''0'' \<le> c" and "p < q" and "r \<noteq> []" and "hd r < CHR ''0''"
  shows "trim_zeros p @ r < trim_zeros q @ r'"
  using assms(1-3)
proof (induction p q rule: list_induct2)
  case (Cons x xs y ys)
  obtain r0 rs where r: "r = r0 # rs" "r0 < CHR ''0''" using assms(4,5) by (cases r) auto
  have y: "r0 < y" using r(2) Cons.prems(1) by auto
  show ?case
  proof (cases "x < y")
    case True
    then have "CHR ''0'' < y" using Cons.prems(1) by auto
    then show ?thesis using True y r(1) by (auto simp: Let_def)
  next
    case False
    then have tails: "x = y" "xs < ys" using Cons.prems(2) by auto
    have "trim_zeros ys \<noteq> []" using trim_zeros_positive [OF Cons.hyps _ tails(2)] Cons.prems(1) by auto
    then show ?thesis using tails Cons.IH Cons.prems(1) y r(1) by (auto simp: Let_def)
  qed
qed simp

lemma fraction_less:
  assumes "m < n" and "n < 10 ^ 9" and "r \<noteq> []" and "hd r < CHR ''.''"
  shows "fraction_text m @ r < fraction_text n @ r'"
proof (cases "m = 0")
  case True
  then show ?thesis using assms by (cases r) (auto simp: fraction_text_def)
next
  case False
  have "padded 9 m < padded 9 n" using assms(1,2) by (simp add: padded_less_iff)
  moreover have "hd r < CHR ''0''" using assms(4) by (rule less_trans) simp
  ultimately have "trim_zeros (padded 9 m) @ r < trim_zeros (padded 9 n) @ r'"
    using assms(3) by (intro trim_zeros_less) (auto dest: padded_digits)
  then show ?thesis using False assms(1) by (simp add: fraction_text_def)
qed

section \<open>The date and the time of day\<close>

text \<open>Local time, in nanoseconds.\<close>

definition local_nanos :: "location \<Rightarrow> int \<Rightarrow> int" where
  "local_nanos loc t = t + second * loc (t div second)"

definition date_text :: "int \<Rightarrow> string" where
  "date_text n = (let d = date_of_days n
     in padded 4 (nat (date_Year d)) @ ''-'' @ padded 2 (date_Month d) @ ''-'' @ padded 2 (date_Day d))"

definition clock_text :: "nat \<Rightarrow> string" where
  "clock_text s = padded 2 (s div 3600) @ '':'' @ padded 2 (s mod 3600 div 60) @ '':'' @ padded 2 (s mod 60)"

definition seconds_text :: "char \<Rightarrow> int \<Rightarrow> string" where
  "seconds_text sep s = date_text (s div 86400) @ [sep] @ clock_text (nat (s mod 86400))"

definition local_text :: "char \<Rightarrow> int \<Rightarrow> string" where
  "local_text sep z = seconds_text sep (z div second) @ fraction_text (nat (z mod second))"

text \<open>The years of four digits from 1970 on, in nanoseconds.\<close>

definition in_years :: "int \<Rightarrow> bool" where
  "in_years z \<longleftrightarrow> 0 \<le> z \<and> z < year_start 10000 * 86400 * second"

lemma date_text_less:
  assumes "0 \<le> m" and "m < n" and "n < year_start 10000"
  shows "date_text m < date_text n"
proof -
  define d e where "d = date_of_days m" and "e = date_of_days n"
  have valid: "valid_date d" "valid_date e" by (simp_all add: d_def e_def date_of_days_valid)
  have year: "date_Year d = year_of_days m" "date_Year e = year_of_days n"
    by (simp_all add: d_def e_def date_of_days_def Let_def)
  note B = year_of_days_bounds [of m] year_of_days_bounds [of n]
  have low: "0 \<le> date_Year d"
  proof (rule ccontr)
    assume "\<not> 0 \<le> date_Year d"
    then have "year_start (year_of_days m + 1) \<le> year_start 0" by (intro year_start_mono) (simp add: year)
    then show False using B(1) assms(1) by (simp add: year_start_def)
  qed
  have high: "date_Year e < 10000"
  proof (rule ccontr)
    assume "\<not> date_Year e < 10000"
    then have "year_start 10000 \<le> year_start (year_of_days n)" by (intro year_start_mono) (simp add: year)
    then show False using B(2) assms(3) by linarith
  qed
  have years: "date_Year d \<le> date_Year e"
  proof (rule ccontr)
    assume "\<not> date_Year d \<le> date_Year e"
    then have "year_start (year_of_days n + 1) \<le> year_start (year_of_days m)" by (intro year_start_mono) (simp add: year)
    then show False using B assms(2) by linarith
  qed
  have fields: "date_Month x < 100" "date_Day x < 100" if "valid_date x" for x
    using that by (auto simp: valid_date_def month_length_def split: if_splits)
  have "date_Year d < date_Year e \<or> date_Year d = date_Year e \<and>
      (date_Month d < date_Month e \<or> date_Month d = date_Month e \<and> date_Day d < date_Day e)"
  proof (cases "date_Year d = date_Year e")
    case True
    let ?ms = "month_starts (leap_year (date_Year d))"
    define k l where "k = nat (m - year_start (date_Year d))" and "l = nat (n - year_start (date_Year d))"
    have kl: "k < l" using B(1) assms(2) by (simp add: k_def l_def year)
    have months: "date_Month d = length (filter (\<lambda>s. s \<le> k) ?ms)" "date_Month e = length (filter (\<lambda>s. s \<le> l) ?ms)"
      using True by (simp_all add: d_def e_def date_of_days_def Let_def k_def l_def year)
    have "length (filter (\<lambda>s. s \<le> k) xs) \<le> length (filter (\<lambda>s. s \<le> l) xs)" for xs
      using kl by (induction xs) auto
    then have "date_Month d \<le> date_Month e" by (simp add: months)
    moreover have "date_Day d < date_Day e" if "date_Month d = date_Month e"
      using days_of_date_eq [OF valid(1)] days_of_date_eq [OF valid(2)] date_of_days_valid [of m] date_of_days_valid [of n]
        that True assms(2) valid by (auto simp: d_def [symmetric] e_def [symmetric] valid_date_def)
    ultimately show ?thesis using True by linarith
  next
    case False
    then show ?thesis using years by simp
  qed
  then show ?thesis
    using low high years fields [OF valid(1)] fields [OF valid(2)]
    by (auto simp: date_text_def Let_def d_def [symmetric] e_def [symmetric] append_less_iff padded_less_iff padded_eq_iff nat_less_eq_zless)
qed

lemma length_date_text [simp]: "length (date_text n) = 10"
  by (simp add: date_text_def Let_def)

lemma length_clock_text [simp]: "length (clock_text s) = 8"
  by (simp add: clock_text_def)

lemma clock_text_less:
  assumes "s < s'" and "s' < 86400"
  shows "clock_text s < clock_text s'"
proof -
  have "s div 3600 < s' div 3600 \<or> s div 3600 = s' div 3600 \<and>
      (s mod 3600 div 60 < s' mod 3600 div 60 \<or> s mod 3600 div 60 = s' mod 3600 div 60 \<and> s mod 60 < s' mod 60)"
    using assms(1) less_div_mod [of 3600 s s'] less_div_mod [of 60 "s mod 3600" "s' mod 3600"]
    by (simp add: mod_mod_cancel)
  moreover have "s div 3600 < 100" "s' div 3600 < 100" "s mod 3600 div 60 < 100" "s' mod 3600 div 60 < 100" "s mod 60 < 100" "s' mod 60 < 100"
    using assms by (auto simp: div_less_iff_less_mult intro: less_trans [OF mod_less_divisor])
  ultimately show ?thesis by (auto simp: clock_text_def append_less_iff padded_less_iff padded_eq_iff)
qed

lemma seconds_text_less:
  assumes "0 \<le> s" and "s < s'" and "s' < year_start 10000 * 86400"
  shows "seconds_text sep s < seconds_text sep s'"
proof -
  have days: "0 \<le> s div 86400" "s div 86400 \<le> s' div 86400" "s' div 86400 < year_start 10000"
    using assms by (simp_all add: pos_imp_zdiv_nonneg_iff zdiv_mono1 div_less_iff_less_mult)
  show ?thesis
  proof (cases "s div 86400 = s' div 86400")
    case True
    then have "s mod 86400 < s' mod 86400" using assms(2) div_mult_mod_eq [of s 86400] div_mult_mod_eq [of s' 86400] by linarith
    then have "nat (s mod 86400) < nat (s' mod 86400)" "nat (s' mod 86400) < 86400"
      by (simp_all add: nat_less_eq_zless nat_less_iff)
    then show ?thesis using True clock_text_less by (simp add: seconds_text_def append_less_iff)
  next
    case False
    then show ?thesis using days date_text_less [of "s div 86400" "s' div 86400"]
      by (simp add: seconds_text_def append_less_iff)
  qed
qed

lemma length_seconds_text [simp]: "length (seconds_text sep s) = 19"
  by (simp add: seconds_text_def)

lemma local_text_less:
  assumes "in_years z" and "in_years z'" and "z < z'" and "r \<noteq> []" and "hd r < CHR ''.''"
  shows "local_text sep z @ r < local_text sep z' @ r'"
proof (cases "z div second = z' div second")
  case True
  have pos: "0 < second" by (simp add: second_def)
  have "z mod second < z' mod second"
    using True assms(3) by (simp add: minus_div_mult_eq_mod [symmetric])
  then have "nat (z mod second) < nat (z' mod second)" "nat (z' mod second) < 10 ^ 9"
    using pos_mod_bound [OF pos, of z'] pos_mod_sign [OF pos, of z] by (simp_all add: second_def)
  then have "fraction_text (nat (z mod second)) @ r < fraction_text (nat (z' mod second)) @ r'"
    using assms(4,5) by (rule fraction_less)
  then show ?thesis using True by (simp add: local_text_def append_less_iff)
next
  case False
  have pos: "0 < second" by (simp add: second_def)
  have "z div second < z' div second" using False zdiv_mono1 [of z z' second] assms(3) pos by linarith
  moreover have "0 \<le> z div second" using assms(1) pos by (simp add: in_years_def pos_imp_zdiv_nonneg_iff)
  moreover have "second * (z' div second) < second * (year_start 10000 * 86400)"
    by (rule le_less_trans [OF conjunct1 [OF quotient_bounds [OF pos]]])
      (use assms(2) in \<open>simp add: in_years_def mult.commute\<close>)
  then have "z' div second < year_start 10000 * 86400" using pos by (simp only: mult_less_cancel_left_pos)
  ultimately have "seconds_text sep (z div second) < seconds_text sep (z' div second)"
    by (intro seconds_text_less)
  then show ?thesis by (simp add: local_text_def append_less_iff)
qed

end
