(* ===== verification/Scheduler.thy ===== *)
theory Scheduler
  imports Cron Go_Time_Text "HOL-Library.AList"
begin

text \<open>
  \<^verbatim>\<open>src/scheduler\<close>: the tables of server.db it uses, the cluster lock (\<^verbatim>\<open>lock.go\<close>), the persisted
  tasks (\<^verbatim>\<open>store.go\<close>) and the runner (\<^verbatim>\<open>scheduler.go\<close>). The clock readings and the outcomes of the handlers are
  arguments. A time that is bound to a statement is stored as the text the driver makes of it; the driver is
  an argument, from the local zone of the process and the instant to the text. Where a time is only read back it
  is the instant here; where two are compared, as in the lock, it is the texts that are.
\<close>

section \<open>Tables of server.db\<close>

record task_row =
  tr_name :: string
  tr_schedule :: string
  tr_enabled :: bool
  tr_lastRunAt :: "int option"
  tr_nextRunAt :: "int option"
  tr_updatedAt :: int

record history_row =
  hr_task :: string
  hr_node :: string
  hr_status :: string
  hr_message :: string
  hr_duration :: int
  hr_started :: int
  hr_finished :: int

record lock_row =
  lk_name :: string
  lk_holder :: string
  lk_acquired :: string
  lk_expires :: "string option"

record server_db =
  scheduler_tasks :: "task_row list"
  scheduler_history :: "history_row list"
  cluster_locks :: "lock_row list"

type_synonym 'a saction = "(server_db, 'a) action"

section \<open>\<^verbatim>\<open>lock.go\<close>\<close>

definition lockTTL :: int where "lockTTL = 5 * minute"

type_synonym time_driver = "location \<Rightarrow> int \<Rightarrow> string"

text \<open>
  The one statement of \<open>acquireLock\<close>: insert the row, or update the existing one where its holder is
  the same, it has no expiry, or the text of its expiry is before the text of this acquisition.
\<close>

definition take_lock :: "lock_row list \<Rightarrow> string \<Rightarrow> string \<Rightarrow> string \<Rightarrow> string \<Rightarrow> bool \<times> lock_row list" where
  "take_lock rows name holder acquired expires =
     (let row = \<lparr>lk_name = name, lk_holder = holder, lk_acquired = acquired, lk_expires = Some expires\<rparr>
      in case find_where (\<lambda>r. lk_name r = name) rows of
           None \<Rightarrow> (True, rows @ [row])
         | Some old \<Rightarrow>
             if lk_holder old = holder \<or> lk_expires old = None \<or> the (lk_expires old) < acquired
             then (True, update_where (\<lambda>r. lk_name r = name) (\<lambda>_. row) rows)
             else (False, rows))"

definition drop_lock :: "lock_row list \<Rightarrow> string \<Rightarrow> string \<Rightarrow> lock_row list" where
  "drop_lock rows name holder = delete_where (\<lambda>r. lk_name r = name \<and> lk_holder r = holder) rows"

definition acquireLock :: "env \<Rightarrow> time_driver \<Rightarrow> location \<Rightarrow> string \<Rightarrow> string \<Rightarrow> int \<Rightarrow> bool saction" where
  "acquireLock e driver here name holder now =
     call (exec e (\<lambda>d. let (got, rows) = take_lock (cluster_locks d) name holder (driver here now) (driver here (now + lockTTL))
                       in Inr (if got then 1 else 0, d\<lparr>cluster_locks := rows\<rparr>))) id (\<lambda>n.
     ok (n > 0))"

definition releaseLock :: "env \<Rightarrow> string \<Rightarrow> string \<Rightarrow> unit saction" where
  "releaseLock e name holder =
     call (exec e (\<lambda>d. Inr (count_where (\<lambda>r. lk_name r = name \<and> lk_holder r = holder) (cluster_locks d),
                            d\<lparr>cluster_locks := drop_lock (cluster_locks d) name holder\<rparr>))) id (\<lambda>_.
     ok ())"

section \<open>\<^verbatim>\<open>store.go\<close>\<close>

definition seedTask :: "env \<Rightarrow> string \<Rightarrow> string \<Rightarrow> bool \<Rightarrow> int \<Rightarrow> unit saction" where
  "seedTask e name sch enabled now =
     call (exec e (\<lambda>d.
        if exists_where (\<lambda>r. tr_name r = name) (scheduler_tasks d) then Inr (0, d)
        else Inr (1, d\<lparr>scheduler_tasks := scheduler_tasks d @
          [\<lparr>tr_name = name, tr_schedule = sch, tr_enabled = enabled, tr_lastRunAt = None,
            tr_nextRunAt = None, tr_updatedAt = now\<rparr>]\<rparr>))) id (\<lambda>_. ok ())"

definition loadTask :: "env \<Rightarrow> string \<Rightarrow> task_row saction" where
  "loadTask e name = query_row e (\<lambda>d. find_where (\<lambda>r. tr_name r = name) (scheduler_tasks d))"

definition setNextRun :: "env \<Rightarrow> string \<Rightarrow> int \<Rightarrow> int \<Rightarrow> unit saction" where
  "setNextRun e name nxt now =
     call (exec e (\<lambda>d. Inr (count_where (\<lambda>r. tr_name r = name) (scheduler_tasks d),
        d\<lparr>scheduler_tasks := update_where (\<lambda>r. tr_name r = name)
          (\<lambda>r. r\<lparr>tr_nextRunAt := Some nxt, tr_updatedAt := now\<rparr>) (scheduler_tasks d)\<rparr>))) id (\<lambda>_. ok ())"

text \<open>\<open>duration.Milliseconds ()\<close> rounds towards zero.\<close>

definition milliseconds :: "int \<Rightarrow> int" where
  "milliseconds d = (if d < 0 then - (- d div 1000000) else d div 1000000)"

definition recordRun :: "env \<Rightarrow> string \<Rightarrow> string \<Rightarrow> string \<Rightarrow> string \<Rightarrow> int \<Rightarrow> int \<Rightarrow> int \<Rightarrow> unit saction" where
  "recordRun e name node status message duration started finished =
     call (exec e (\<lambda>d. Inr (1, d\<lparr>scheduler_history := scheduler_history d @
        [\<lparr>hr_task = name, hr_node = node, hr_status = status, hr_message = message,
          hr_duration = milliseconds duration, hr_started = started, hr_finished = finished\<rparr>]\<rparr>))) id (\<lambda>_.
     call (exec e (\<lambda>d. Inr (count_where (\<lambda>r. tr_name r = name) (scheduler_tasks d),
        d\<lparr>scheduler_tasks := update_where (\<lambda>r. tr_name r = name)
          (\<lambda>r. r\<lparr>tr_lastRunAt := Some finished\<rparr>) (scheduler_tasks d)\<rparr>))) id (\<lambda>_.
     ok ()))"

section \<open>\<^verbatim>\<open>task.go\<close> and \<^verbatim>\<open>scheduler.go\<close>\<close>

record Task =
  task_Name :: string
  task_Schedule :: string
  task_Enabled :: bool
  task_ClusterAware :: bool
  task_RetryOnFail :: bool
  task_RetryDelay :: int

record entry =
  ent_task :: Task
  ent_sched :: schedule
  ent_next :: int
  ent_running :: bool

text \<open>The map of entries is a list; the order in which Go ranges over it is unspecified.\<close>

record scheduler =
  nodeID :: string
  timezone :: location
  catchUpWindow :: int
  entries :: "(string \<times> entry) list"

definition New_scheduler :: "string \<Rightarrow> location option \<Rightarrow> int \<Rightarrow> scheduler" where
  "New_scheduler node tz catchUp =
     \<lparr>nodeID = node, timezone = (case tz of None \<Rightarrow> UTC | Some loc \<Rightarrow> loc), catchUpWindow = catchUp, entries = []\<rparr>"

definition RegisterTask :: "scheduler \<Rightarrow> Task \<Rightarrow> cron_error + scheduler" where
  "RegisterTask s t =
     (case ParseSchedule (task_Schedule t) of
        Inl x \<Rightarrow> Inl x
      | Inr sched \<Rightarrow>
          Inr (s\<lparr>entries := AList.update (task_Name t)
                  \<lparr>ent_task = t, ent_sched = sched, ent_next = zero_instant, ent_running = False\<rparr> (entries s)\<rparr>))"

definition no_run_error :: err where
  "no_run_error = LibError ''no matching run time found''"

definition resumeNext :: "scheduler \<Rightarrow> entry \<Rightarrow> task_row \<Rightarrow> int \<Rightarrow> err + int" where
  "resumeNext s en row now =
     (case tr_nextRunAt row of
        Some persisted \<Rightarrow>
          if \<not> persisted < now - catchUpWindow s then Inr persisted
          else (case Next (ent_sched en) now (timezone s) of None \<Rightarrow> Inl no_run_error | Some t \<Rightarrow> Inr t)
      | None \<Rightarrow> (case Next (ent_sched en) now (timezone s) of None \<Rightarrow> Inl no_run_error | Some t \<Rightarrow> Inr t))"

text \<open>One pass of the loop of \<open>Start\<close>: the entry with its next run and the persisted switch.\<close>

definition start_entry :: "env \<Rightarrow> scheduler \<Rightarrow> int \<Rightarrow> entry \<Rightarrow> entry saction" where
  "start_entry e s now en =
     call (seedTask e (task_Name (ent_task en)) (task_Schedule (ent_task en)) (task_Enabled (ent_task en)) now) id (\<lambda>_.
     call (loadTask e (task_Name (ent_task en))) id (\<lambda>row.
     check (resumeNext s en row now) id (\<lambda>nxt.
     call (setNextRun e (task_Name (ent_task en)) nxt now) id (\<lambda>_.
     ok (en\<lparr>ent_next := nxt, ent_task := (ent_task en)\<lparr>task_Enabled := tr_enabled row\<rparr>\<rparr>)))))"

fun start_entries :: "env \<Rightarrow> scheduler \<Rightarrow> int \<Rightarrow> (string \<times> entry) list \<Rightarrow> (string \<times> entry) list saction" where
  "start_entries e s now [] = ok []"
| "start_entries e s now ((name, en) # rest) =
     call (start_entry e s now en) id (\<lambda>en'.
     call (start_entries e s now rest) id (\<lambda>rest'.
     ok ((name, en') # rest')))"

definition Start :: "env \<Rightarrow> int \<Rightarrow> scheduler \<Rightarrow> scheduler saction" where
  "Start e now s = call (start_entries e s now (entries s)) id (\<lambda>es. ok (s\<lparr>entries := es\<rparr>))"

text \<open>The entries a tick marks as running; they are what it starts.\<close>

definition is_due :: "int \<Rightarrow> entry \<Rightarrow> bool" where
  "is_due now en = (task_Enabled (ent_task en) \<and> \<not> ent_running en \<and> \<not> now < ent_next en)"

definition tick :: "int \<Rightarrow> scheduler \<Rightarrow> scheduler \<times> entry list" where
  "tick now s =
     (s\<lparr>entries := map (\<lambda>(name, en). (name, if is_due now en then en\<lparr>ent_running := True\<rparr> else en)) (entries s)\<rparr>,
      map (\<lambda>en. en\<lparr>ent_running := True\<rparr>) (filter (is_due now) (map snd (entries s))))"

text \<open>
  One occurrence of a task: the outcome of the first run of the handler, whether the scheduler was
  stopped while it waited for the retry, and the outcome of the second run. The times are the two
  readings of the clock.
\<close>

record outcome =
  out_first :: "string option"
  out_stopped :: bool
  out_second :: "string option"
  out_started :: int
  out_finished :: int

definition execute :: "env \<Rightarrow> string \<Rightarrow> Task \<Rightarrow> outcome \<Rightarrow> unit saction" where
  "execute e node t out =
     (let retry = out_first out \<noteq> None \<and> task_RetryOnFail t
      in if retry \<and> out_stopped out then ok ()
         else
         let err = (if retry then out_second out else out_first out);
             status = (case err of None \<Rightarrow> ''ok'' | Some _ \<Rightarrow> ''failed'');
             message = (case err of None \<Rightarrow> [] | Some m \<Rightarrow> m)
         in ignoring (recordRun e (task_Name t) node status message (out_finished out - out_started out)
                        (out_started out) (out_finished out)) (ok ()))"

definition lock_name :: "Task \<Rightarrow> string" where
  "lock_name t = ''scheduler:'' @ task_Name t"

text \<open>The claim of a cluster-aware task: whether this node is to run it.\<close>

definition claim_run :: "env \<Rightarrow> time_driver \<Rightarrow> location \<Rightarrow> string \<Rightarrow> Task \<Rightarrow> int \<Rightarrow> bool saction" where
  "claim_run e driver here node t now =
     (if task_ClusterAware t
      then try_call (acquireLock e driver here (lock_name t) node now) (\<lambda>_. ok False) ok
      else ok True)"

text \<open>What follows the handler: the record, and the release of the lock.\<close>

definition finish_run :: "env \<Rightarrow> string \<Rightarrow> Task \<Rightarrow> outcome \<Rightarrow> unit saction" where
  "finish_run e node t out =
     call (execute e node t out) id (\<lambda>_.
     if task_ClusterAware t then ignoring (releaseLock e (lock_name t) node) (ok ()) else ok ())"

text \<open>The deferred end: the entry is free again and has its next run.\<close>

definition settle_run :: "env \<Rightarrow> location \<Rightarrow> entry \<Rightarrow> int \<Rightarrow> entry saction" where
  "settle_run e loc en now =
     (let en' = en\<lparr>ent_running := False\<rparr>
      in case Next (ent_sched en) now loc of
           None \<Rightarrow> ok en'
         | Some nxt \<Rightarrow> ignoring (setNextRun e (task_Name (ent_task en)) nxt now) (ok (en'\<lparr>ent_next := nxt\<rparr>)))"

definition runEntry ::
  "env \<Rightarrow> time_driver \<Rightarrow> location \<Rightarrow> string \<Rightarrow> location \<Rightarrow> entry \<Rightarrow> int \<Rightarrow> outcome \<Rightarrow> entry saction"
where
  "runEntry e driver here node loc en now out =
     call (claim_run e driver here node (ent_task en) now) id (\<lambda>got.
     call (if got then finish_run e node (ent_task en) out else ok ()) id (\<lambda>_.
     settle_run e loc en now))"

end
