(* ===== verification/Leases.thy ===== *)
theory Leases
  imports Main
begin

text \<open>
  The contract of a lock that expires, as the scheduler and the cache both rely on it, and what
  workers on several nodes get from it. A node claims the lock with its own reading of the clock,
  which may differ from the common time by \<open>skew\<close>; it may die or fail to release. As long as no piece of
  work lasts longer than \<open>limit\<close>, two nodes never work on the same thing at once.
\<close>

section \<open>Workers\<close>

text \<open>The store of the locks, the common time, and since when a node works on something.\<close>

record ('s, 'k, 'n) workers =
  wk_store :: 's
  wk_time :: int
  wk_since :: "'k \<Rightarrow> 'n \<Rightarrow> int option"

definition set_since :: "'k \<Rightarrow> 'n \<Rightarrow> int option \<Rightarrow> ('k \<Rightarrow> 'n \<Rightarrow> int option) \<Rightarrow> 'k \<Rightarrow> 'n \<Rightarrow> int option" where
  "set_since k n x f = (\<lambda>j m. if j = k \<and> m = n then x else f j m)"

text \<open>
  Time passes, as far as the limit allows; a node claims; it finishes and releases, for which it needs no
  look at the store; or it gives up without releasing.
\<close>

inductive lease_step ::
  "('s \<Rightarrow> 'k \<Rightarrow> 'n \<Rightarrow> int \<Rightarrow> bool \<times> 's) \<Rightarrow> ('s \<Rightarrow> 'k \<Rightarrow> 'n \<Rightarrow> 's) \<Rightarrow> int \<Rightarrow> int \<Rightarrow>
   ('s, 'k, 'n) workers \<Rightarrow> ('s, 'k, 'n) workers \<Rightarrow> bool"
  for acquire release skew limit
where
  wait: "0 \<le> d \<Longrightarrow> \<forall>k n t. wk_since s k n = Some t \<longrightarrow> wk_time s + d - t \<le> limit \<Longrightarrow>
     lease_step acquire release skew limit s (s\<lparr>wk_time := wk_time s + d\<rparr>)"
| claim: "\<bar>c - wk_time s\<bar> \<le> skew \<Longrightarrow> wk_since s k n = None \<Longrightarrow> acquire (wk_store s) k n c = (got, st) \<Longrightarrow>
     lease_step acquire release skew limit s
       (s\<lparr>wk_store := st, wk_since := set_since k n (if got then Some (wk_time s) else None) (wk_since s)\<rparr>)"
| finish: "wk_since s k n = Some t \<Longrightarrow>
     lease_step acquire release skew limit s
       (s\<lparr>wk_store := release (wk_store s) k n, wk_since := set_since k n None (wk_since s)\<rparr>)"
| give_up: "wk_since s k n = Some t \<Longrightarrow>
     lease_step acquire release skew limit s (s\<lparr>wk_since := set_since k n None (wk_since s)\<rparr>)"

inductive_cases lease_stepE: "lease_step acquire release skew limit s s'"

text \<open>Nobody works on the same thing as somebody else.\<close>

definition exclusive :: "('s, 'k, 'n) workers \<Rightarrow> bool" where
  "exclusive s \<longleftrightarrow> (\<forall>k n m. wk_since s k n \<noteq> None \<longrightarrow> wk_since s k m \<noteq> None \<longrightarrow> n = m)"

section \<open>The contract\<close>

text \<open>\<open>holds s k n t\<close>: in the store \<open>s\<close>, node \<open>n\<close> has the lock \<open>k\<close>, and its lease lasts until \<open>t\<close> at least.\<close>

locale lease =
  fixes acquire :: "'s \<Rightarrow> 'k \<Rightarrow> 'n \<Rightarrow> int \<Rightarrow> bool \<times> 's"
    and release :: "'s \<Rightarrow> 'k \<Rightarrow> 'n \<Rightarrow> 's"
    and holds :: "'s \<Rightarrow> 'k \<Rightarrow> 'n \<Rightarrow> int \<Rightarrow> bool"
    and ttl :: int
  assumes acquire_holds: "0 < ttl \<Longrightarrow> acquire s k n c = (True, s') \<Longrightarrow> holds s' k n (c + ttl)"
    and acquire_excludes: "acquire s k n c = (True, s') \<Longrightarrow> holds s k m t \<Longrightarrow> c \<le> t \<Longrightarrow> m = n"
    and acquire_refused: "acquire s k n c = (False, s') \<Longrightarrow> s' = s"
    and acquire_keeps: "acquire s k n c = (got, s') \<Longrightarrow> holds s j m t \<Longrightarrow> (j, m) \<noteq> (k, n) \<Longrightarrow> c \<le> t \<Longrightarrow>
      holds s' j m t"
    and release_keeps: "holds s k n u \<Longrightarrow> holds s j m t \<Longrightarrow> (j, m) \<noteq> (k, n) \<Longrightarrow> holds (release s k n) j m t"
begin

text \<open>Whoever works has a lease that outlasts the limit.\<close>

definition covered :: "int \<Rightarrow> ('s, 'k, 'n) workers \<Rightarrow> bool" where
  "covered skew s \<longleftrightarrow> (\<forall>k n t. wk_since s k n = Some t \<longrightarrow>
     (\<exists>u \<ge> t - skew + ttl. holds (wk_store s) k n u))"

definition timely :: "int \<Rightarrow> ('s, 'k, 'n) workers \<Rightarrow> bool" where
  "timely limit s \<longleftrightarrow> (\<forall>k n t. wk_since s k n = Some t \<longrightarrow> wk_time s - t \<le> limit)"

lemma claim_alone:
  assumes "covered skew s" and "timely limit s" and "limit + 2 * skew \<le> ttl" and "c \<le> wk_time s + skew"
    and "acquire (wk_store s) k n c = (True, st)" and "wk_since s k m = Some t"
  shows "m = n"
proof -
  have "wk_time s - t \<le> limit" using assms(2,6) by (auto simp: timely_def)
  then have "c \<le> t - skew + ttl" using assms(3,4) by simp
  then obtain u where "holds (wk_store s) k m u" "c \<le> u"
    using assms(1,6) unfolding covered_def by (meson order_trans)
  then show ?thesis using acquire_excludes [OF assms(5)] by blast
qed

lemma step_keeps:
  assumes "lease_step acquire release skew limit s s'" and "limit + 2 * skew \<le> ttl" and "0 \<le> limit" and "0 < ttl"
    and "covered skew s" and "timely limit s" and "exclusive s"
  shows "covered skew s' \<and> timely limit s' \<and> exclusive s'"
  using assms(1)
proof (cases rule: lease_step.cases)
  case (wait d)
  then show ?thesis using assms(5,7) by (simp add: covered_def timely_def exclusive_def)
next
  case (claim c k n got st)
  have cov: "\<exists>u \<ge> t - skew + ttl. holds st j m u" if since: "wk_since s j m = Some t" and ne: "(j, m) \<noteq> (k, n)" for j m t
  proof -
    have "wk_time s - t \<le> limit" using assms(6) since by (auto simp: timely_def)
    then have "c \<le> t - skew + ttl" using assms(2) claim(2) by simp
    moreover obtain u where "u \<ge> t - skew + ttl" "holds (wk_store s) j m u"
      using assms(5) since unfolding covered_def by blast
    ultimately show ?thesis using acquire_keeps [OF claim(4) _ ne, of u] by auto
  qed
  have new: "got \<Longrightarrow> \<exists>u \<ge> wk_time s - skew + ttl. holds st k n u"
    using acquire_holds [OF assms(4)] claim(2,4) by (intro exI [of _ "c + ttl"]) auto
  have "covered skew s'"
    unfolding covered_def claim(1)
  proof (intro allI impI)
    fix j m t
    assume "wk_since (s\<lparr>wk_store := st, wk_since := set_since k n (if got then Some (wk_time s) else None) (wk_since s)\<rparr>) j m
      = Some t"
    then show "\<exists>u \<ge> t - skew + ttl. holds (wk_store (s\<lparr>wk_store := st,
        wk_since := set_since k n (if got then Some (wk_time s) else None) (wk_since s)\<rparr>)) j m u"
      using cov [of j m t] new by (auto simp: set_since_def split: if_splits)
  qed
  moreover have "timely limit s'" using assms(3,6) claim(1) by (auto simp: timely_def set_since_def)
  moreover have "exclusive s'"
  proof (cases got)
    case True
    have "m = n" if "wk_since s k m = Some t" for m t
      using claim_alone [OF assms(5,6,2) _ _ that, of c n st] claim(2,4) True by simp
    then show ?thesis using assms(7) True claim(1) by (fastforce simp: exclusive_def set_since_def)
  next
    case False
    then show ?thesis using assms(7) claim(1) by (auto simp: exclusive_def set_since_def)
  qed
  ultimately show ?thesis by blast
next
  case (finish k n t)
  obtain u where "holds (wk_store s) k n u" using assms(5) finish(2) unfolding covered_def by blast
  from release_keeps [OF this] have "covered skew s'"
    using assms(5) unfolding finish(1) covered_def by (fastforce simp: set_since_def split: if_splits)
  then show ?thesis using assms(6,7) finish(1) by (auto simp: timely_def exclusive_def set_since_def)
next
  case (give_up k n t)
  then show ?thesis using assms(5,6,7) by (auto simp: covered_def timely_def exclusive_def set_since_def)
qed

text \<open>Nobody works at the start; from then on the work is exclusive.\<close>

lemma run_exclusive:
  assumes "(lease_step acquire release skew limit)\<^sup>*\<^sup>* s0 s" and "\<forall>k n. wk_since s0 k n = None"
    and "limit + 2 * skew \<le> ttl" and "0 \<le> limit" and "0 < ttl"
  shows "exclusive s"
proof -
  have "covered skew s \<and> timely limit s \<and> exclusive s"
    using assms(1)
  proof (induction rule: rtranclp_induct)
    case base
    then show ?case using assms(2) by (simp add: covered_def timely_def exclusive_def)
  next
    case (step s s')
    then show ?case using step_keeps assms(3-5) by blast
  qed
  then show ?thesis by blast
qed

end

end
