(* ===== verification/Scheduler_Cluster.thy ===== *)
theory Scheduler_Cluster
  imports Scheduler Leases Org_Access
begin

text \<open>
  Several nodes that run the same scheduled tasks against one database: the lock of \<^verbatim>\<open>lock.go\<close> meets the
  contract of a lease while all nodes are at one offset from UTC, for the texts of the times are compared, the
  cluster as a system of interleaved steps with what it guarantees there, and the live lock that a node in
  another zone takes.
\<close>

section \<open>What the driver writes\<close>

text \<open>
  What is documented of the text that a bound time becomes: it starts with the local date and time of day,
  a fixed character between them, and the fraction of the second without trailing zeros; what follows, a blank
  or the sign of the offset, sorts before the point of a fraction and before every digit. Both the
  \<^verbatim>\<open>String\<close> method of a time and the timestamps with a numeric offset are of this form.
\<close>

definition renders_local :: "time_driver \<Rightarrow> bool" where
  "renders_local driver \<longleftrightarrow>
     (\<exists>sep. \<forall>loc t. \<exists>r. driver loc t = local_text sep (local_nanos loc t) @ r \<and> r \<noteq> [] \<and> hd r < CHR ''.'')"

lemma rendered_less:
  assumes "renders_local driver" and "in_years (local_nanos loc t)" and "in_years (local_nanos loc' u)"
    and "local_nanos loc t < local_nanos loc' u"
  shows "driver loc t < driver loc' u"
  using assms(1) local_text_less [OF assms(2-4)] unfolding renders_local_def by metis

text \<open>The text with a blank, and the offset in hours and minutes.\<close>

definition offset_text :: "int \<Rightarrow> string" where
  "offset_text o' = (if o' < 0 then ''-'' else ''+'') @ padded 2 (nat (\<bar>o'\<bar> div 3600)) @ padded 2 (nat (\<bar>o'\<bar> mod 3600 div 60))"

definition plain_driver :: time_driver where
  "plain_driver loc t = local_text (CHR '' '') (local_nanos loc t) @ '' '' @ offset_text (loc (t div second))"

lemma plain_driver_renders: "renders_local plain_driver"
  unfolding renders_local_def
proof (intro exI [of _ "CHR '' ''"] allI)
  fix loc :: location and t :: int
  show "\<exists>r. plain_driver loc t = local_text (CHR '' '') (local_nanos loc t) @ r \<and> r \<noteq> [] \<and> hd r < CHR ''.''"
    by (intro exI [of _ "'' '' @ offset_text (loc (t div second))"]) (simp add: plain_driver_def)
qed

section \<open>The lock is a lease\<close>

lemma find_where_update_same:
  "find_where p rows = Some r \<Longrightarrow> p x \<Longrightarrow> find_where p (update_where p (\<lambda>_. x) rows) = Some x"
  by (induction rows) (auto simp: find_where_Cons update_where_def split: if_splits)

lemma find_where_update_other:
  assumes "\<And>r. p r \<Longrightarrow> \<not> q r" and "\<not> q x"
  shows "find_where q (update_where p (\<lambda>_. x) rows) = find_where q rows"
  using assms by (induction rows) (auto simp: find_where_Cons update_where_def)

lemma find_where_delete_other:
  "(\<And>r. q r \<Longrightarrow> r \<in> set rows \<Longrightarrow> find_where q rows = Some r \<Longrightarrow> \<not> p r) \<Longrightarrow> find_where q rows = Some r
   \<Longrightarrow> find_where q (delete_where p rows) = Some r"
  by (induction rows) (auto simp: find_where_Cons delete_where_def split: if_splits)

lemma take_lock_cases:
  assumes "take_lock rows name holder acquired expires = (got, rows')"
  defines "row \<equiv> \<lparr>lk_name = name, lk_holder = holder, lk_acquired = acquired, lk_expires = Some expires\<rparr>"
  obtains
    (fresh) "got" "find_where (\<lambda>r. lk_name r = name) rows = None" "rows' = rows @ [row]"
  | (renewed) old where "got" "find_where (\<lambda>r. lk_name r = name) rows = Some old"
      "lk_holder old = holder \<or> lk_expires old = None \<or> the (lk_expires old) < acquired"
      "rows' = update_where (\<lambda>r. lk_name r = name) (\<lambda>_. row) rows"
  | (refused) "\<not> got" "rows' = rows"
  using assms by (auto simp: take_lock_def Let_def split: option.splits if_splits)

lemma lockTTL_pos [simp]: "0 < lockTTL"
  by (simp add: lockTTL_def time_units)

text \<open>
  The readings of a clock for which the texts are in order, where every node is \<open>off\<close> seconds east of UTC; the lock
  of a task, taken at such a reading; and until when, at least, it is held.
\<close>

definition in_era :: "int \<Rightarrow> int \<Rightarrow> bool" where
  "in_era off t \<longleftrightarrow> in_years (t + second * off) \<and> in_years (t + lockTTL + second * off)"

definition task_lock :: "time_driver \<Rightarrow> (string \<Rightarrow> location) \<Rightarrow> int \<Rightarrow> lock_row list \<Rightarrow> string \<Rightarrow> string \<Rightarrow> int \<Rightarrow> bool \<times> lock_row list" where
  "task_lock driver zone off rows name n now =
     (if in_era off now
      then take_lock rows (''scheduler:'' @ name) n (driver (zone n) now) (driver (zone n) (now + lockTTL))
      else (False, rows))"

definition task_release :: "lock_row list \<Rightarrow> string \<Rightarrow> string \<Rightarrow> lock_row list" where
  "task_release rows name = drop_lock rows (''scheduler:'' @ name)"

definition task_held :: "time_driver \<Rightarrow> (string \<Rightarrow> location) \<Rightarrow> int \<Rightarrow> lock_row list \<Rightarrow> string \<Rightarrow> string \<Rightarrow> int \<Rightarrow> bool" where
  "task_held driver zone off rows name n t \<longleftrightarrow>
     (\<exists>r. find_where (\<lambda>r. lk_name r = ''scheduler:'' @ name) rows = Some r \<and> lk_holder r = n
        \<and> (\<exists>x. lk_expires r = Some (driver (zone n) x) \<and> t < x \<and> in_years (x + second * off)))"

lemma task_lock_refused: "task_lock driver zone off rows k n c = (False, rows') \<Longrightarrow> rows' = rows"
  by (auto simp: task_lock_def split: if_splits elim: take_lock_cases)

text \<open>The contract of the environment: such a driver, and nodes that all keep one constant offset.\<close>

locale one_offset =
  fixes driver :: time_driver and zone :: "string \<Rightarrow> location" and off :: int
  assumes rendered: "renders_local driver" and same_offset: "zone n s = off"
begin

lemma text_less: "in_years (t + second * off) \<Longrightarrow> in_years (u + second * off) \<Longrightarrow> t < u \<Longrightarrow> driver (zone n) t < driver (zone m) u"
  by (rule rendered_less [OF rendered]) (simp_all add: local_nanos_def same_offset)

lemma held_not_before:
  assumes "lk_expires r = Some (driver (zone m) x)" and "c \<le> t" and "t < x" and "in_years (x + second * off)" and "in_era off c"
  shows "\<not> (lk_expires r = None \<or> the (lk_expires r) < driver (zone n) c)"
  using text_less [of c x n m] assms by (auto simp: in_era_def)

lemma lock_excludes:
  assumes "task_lock driver zone off rows k n c = (True, rows')" and "task_held driver zone off rows k m t" and "c \<le> t"
  shows "m = n"
proof -
  from assms(1) have era: "in_era off c" and taken: "take_lock rows (''scheduler:'' @ k) n (driver (zone n) c) (driver (zone n) (c + lockTTL)) = (True, rows')"
    by (auto simp: task_lock_def split: if_splits)
  from assms(2) obtain r x where r: "find_where (\<lambda>r. lk_name r = ''scheduler:'' @ k) rows = Some r" "lk_holder r = m"
    "lk_expires r = Some (driver (zone m) x)" "t < x" "in_years (x + second * off)" by (auto simp: task_held_def)
  from taken show ?thesis
    by (cases rule: take_lock_cases) (use r held_not_before [OF r(3) assms(3) r(4,5) era, of n] in auto)
qed

lemma lock_keeps:
  assumes "task_lock driver zone off rows k n c = (got, rows')" and held: "task_held driver zone off rows j m t"
    and "(j, m) \<noteq> (k, n)" and "c \<le> t"
  shows "task_held driver zone off rows' j m t"
proof (cases "got \<and> j = k")
  case True
  then show ?thesis using lock_excludes [of rows k n c rows' m t] assms by simp
next
  case False
  show ?thesis
  proof (cases "in_era off c")
    case True
    then have "take_lock rows (''scheduler:'' @ k) n (driver (zone n) c) (driver (zone n) (c + lockTTL)) = (got, rows')"
      using assms(1) by (simp add: task_lock_def)
    then show ?thesis
    proof (cases rule: take_lock_cases)
      case (renewed old)
      then have "j \<noteq> k" using False by simp
      then have "find_where (\<lambda>r. lk_name r = ''scheduler:'' @ j) rows' = find_where (\<lambda>r. lk_name r = ''scheduler:'' @ j) rows"
        unfolding renewed(4) by (intro find_where_update_other) simp_all
      then show ?thesis using held unfolding task_held_def by metis
    qed (use held in \<open>auto simp: task_held_def find_where_append\<close>)
  qed (use assms(1) held in \<open>auto simp: task_lock_def\<close>)
qed

lemma lock_holds: "task_lock driver zone off rows k n c = (True, rows') \<Longrightarrow> task_held driver zone off rows' k n (c + (lockTTL - 1))"
proof -
  assume "task_lock driver zone off rows k n c = (True, rows')"
  then have era: "in_era off c" and taken: "take_lock rows (''scheduler:'' @ k) n (driver (zone n) c) (driver (zone n) (c + lockTTL)) = (True, rows')"
    by (auto simp: task_lock_def split: if_splits)
  have later: "in_years (c + lockTTL + second * off)" using era by (simp add: in_era_def)
  from taken show ?thesis
    by (cases rule: take_lock_cases)
      (use later in \<open>auto simp: task_held_def find_where_append find_where_Cons find_where_update_same
        intro!: exI [of _ "c + lockTTL"]\<close>)
qed

lemma release_keeps:
  "task_held driver zone off rows j m t \<Longrightarrow> (j, m) \<noteq> (k, n) \<Longrightarrow> task_held driver zone off (task_release rows k n) j m t"
  unfolding task_held_def task_release_def drop_lock_def
  by (elim exE conjE) (intro exI conjI find_where_delete_other; auto)

end

sublocale one_offset \<subseteq> task_locks: lease "task_lock driver zone off" task_release "task_held driver zone off" "lockTTL - 1"
proof unfold_locales
  fix rows :: "lock_row list" and k n j m :: string and c t u :: int and got rows'
  show "task_lock driver zone off rows k n c = (True, rows') \<Longrightarrow> task_held driver zone off rows' k n (c + (lockTTL - 1))"
    by (rule lock_holds)
  show "task_lock driver zone off rows k n c = (True, rows') \<Longrightarrow> task_held driver zone off rows k m t \<Longrightarrow> c \<le> t \<Longrightarrow> m = n"
    by (rule lock_excludes)
  show "task_lock driver zone off rows k n c = (False, rows') \<Longrightarrow> rows' = rows"
    by (rule task_lock_refused)
  show "task_lock driver zone off rows k n c = (got, rows') \<Longrightarrow> task_held driver zone off rows j m t \<Longrightarrow>
      (j, m) \<noteq> (k, n) \<Longrightarrow> c \<le> t \<Longrightarrow> task_held driver zone off rows' j m t"
    by (rule lock_keeps)
  show "task_held driver zone off rows k n u \<Longrightarrow> task_held driver zone off rows j m t \<Longrightarrow>
      (j, m) \<noteq> (k, n) \<Longrightarrow> task_held driver zone off (task_release rows k n) j m t"
    by (rule release_keeps)
qed

context one_offset
begin

lemma leases_exclude:
  assumes "(lease_step (task_lock driver zone off) task_release skew limit)\<^sup>*\<^sup>* s0 s" and "\<forall>k n. wk_since s0 k n = None"
    and "0 \<le> limit" and "limit + 2 * skew < lockTTL"
  shows "exclusive s"
  by (rule task_locks.run_exclusive [OF assms(1,2)]) (use assms(3,4) in \<open>simp_all add: lockTTL_def time_units\<close>)

end

interpretation utc_locks: one_offset plain_driver "\<lambda>_. UTC" 0
  by unfold_locales (simp_all add: plain_driver_renders UTC_def)

section \<open>The cluster\<close>

text \<open>
  What the goroutine of a due task has come to: it is started, or it runs the handler of the task since a
  common time, having read its own clock as \<open>now\<close>.
\<close>

datatype run = Started | Working Task int int

record cluster =
  cl_world :: "server_db world"
  cl_time :: int
  cl_sched :: "string \<Rightarrow> scheduler"
  cl_runs :: "string \<Rightarrow> string \<Rightarrow> run option"

definition set_run :: "string \<Rightarrow> string \<Rightarrow> run option \<Rightarrow> (string \<Rightarrow> string \<Rightarrow> run option) \<Rightarrow> string \<Rightarrow> string \<Rightarrow> run option" where
  "set_run n k x f = (\<lambda>m j. if m = n \<and> j = k then x else f m j)"

definition set_entry :: "string \<Rightarrow> string \<Rightarrow> entry \<Rightarrow> (string \<Rightarrow> scheduler) \<Rightarrow> string \<Rightarrow> scheduler" where
  "set_entry n k en f = f(n := (f n)\<lparr>entries := AList.update k en (entries (f n))\<rparr>)"

definition started_names :: "entry list \<Rightarrow> string set" where
  "started_names due = (\<lambda>en. task_Name (ent_task en)) ` set due"

text \<open>
  The steps: time passes, while no handler of a cluster-aware task runs longer than \<open>limit\<close>; the loop of a
  node ticks; a started goroutine claims its task, and settles at once when it does not get it; a
  handler ends, with any outcome, and its goroutine records, releases and settles. Database faults are
  those of the environment; clocks are off by at most \<open>skew\<close>; every node has its local zone.
\<close>

inductive cluster_step :: "env \<Rightarrow> time_driver \<Rightarrow> (string \<Rightarrow> location) \<Rightarrow> int \<Rightarrow> int \<Rightarrow> cluster \<Rightarrow> cluster \<Rightarrow> bool"
  for e driver zone skew limit where
  pass: "0 \<le> d \<Longrightarrow>
     \<forall>n k t now since. cl_runs c n k = Some (Working t now since) \<longrightarrow> task_ClusterAware t
       \<longrightarrow> cl_time c + d - since \<le> limit \<Longrightarrow>
     cluster_step e driver zone skew limit c (c\<lparr>cl_time := cl_time c + d\<rparr>)"
| ticks: "\<bar>now - cl_time c\<bar> \<le> skew \<Longrightarrow> tick now (cl_sched c n) = (s, due) \<Longrightarrow>
     cluster_step e driver zone skew limit c
       (c\<lparr>cl_sched := (cl_sched c)(n := s),
          cl_runs := (\<lambda>m k. if m = n \<and> k \<in> started_names due then Some Started else cl_runs c m k)\<rparr>)"
| claimed: "cl_runs c n k = Some Started \<Longrightarrow> map_of (entries (cl_sched c n)) k = Some en \<Longrightarrow>
     \<bar>now - cl_time c\<bar> \<le> skew \<Longrightarrow> claim_run e driver (zone n) n (ent_task en) now (cl_world c) = (Inr True, w) \<Longrightarrow>
     cluster_step e driver zone skew limit c
       (c\<lparr>cl_world := w, cl_runs := set_run n k (Some (Working (ent_task en) now (cl_time c))) (cl_runs c)\<rparr>)"
| refused: "cl_runs c n k = Some Started \<Longrightarrow> map_of (entries (cl_sched c n)) k = Some en \<Longrightarrow>
     \<bar>now - cl_time c\<bar> \<le> skew \<Longrightarrow> claim_run e driver (zone n) n (ent_task en) now (cl_world c) = (Inr False, w) \<Longrightarrow>
     settle_run e (timezone (cl_sched c n)) en now w = (Inr en', w') \<Longrightarrow>
     cluster_step e driver zone skew limit c
       (c\<lparr>cl_world := w', cl_sched := set_entry n k en' (cl_sched c), cl_runs := set_run n k None (cl_runs c)\<rparr>)"
| finished: "cl_runs c n k = Some (Working t now since) \<Longrightarrow> map_of (entries (cl_sched c n)) k = Some en \<Longrightarrow>
     finish_run e n t out (cl_world c) = (Inr (), w) \<Longrightarrow>
     settle_run e (timezone (cl_sched c n)) en now w = (Inr en', w') \<Longrightarrow>
     cluster_step e driver zone skew limit c
       (c\<lparr>cl_world := w', cl_sched := set_entry n k en' (cl_sched c), cl_runs := set_run n k None (cl_runs c)\<rparr>)"

section \<open>It runs the leases\<close>

definition working_since :: "cluster \<Rightarrow> string \<Rightarrow> string \<Rightarrow> int option" where
  "working_since c k n =
     (case cl_runs c n k of
        Some (Working t now since) \<Rightarrow> if task_ClusterAware t then Some since else None
      | _ \<Rightarrow> None)"

definition lease_view :: "cluster \<Rightarrow> (lock_row list, string, string) workers" where
  "lease_view c = \<lparr>wk_store = cluster_locks (wdb (cl_world c)), wk_time = cl_time c, wk_since = working_since c\<rparr>"

text \<open>Entries are stored under the names of their tasks, and what runs belongs to an entry that is marked.\<close>

definition well_keyed :: "scheduler \<Rightarrow> bool" where
  "well_keyed s \<longleftrightarrow> distinct (map fst (entries s)) \<and> (\<forall>(k, en) \<in> set (entries s). task_Name (ent_task en) = k)"

definition runs_marked :: "cluster \<Rightarrow> bool" where
  "runs_marked c \<longleftrightarrow> (\<forall>n. well_keyed (cl_sched c n)) \<and>
     (\<forall>n k r. cl_runs c n k = Some r \<longrightarrow>
        (\<exists>en. map_of (entries (cl_sched c n)) k = Some en \<and> ent_running en
           \<and> (\<forall>t now since. r = Working t now since \<longrightarrow> task_Name t = k)))"

lemma keeps_locks [hoare_intros]:
  "keeps (\<lambda>d. cluster_locks d = L) (recordRun e name node status message duration started finished)"
  "keeps (\<lambda>d. cluster_locks d = L) (setNextRun e name nxt now)"
  unfolding recordRun_def setNextRun_def by (intro hoare_intros keeps_exec; auto)+

lemma settle_locks: "settle_run e loc en now w = (r, w') \<Longrightarrow> cluster_locks (wdb w') = cluster_locks (wdb w)"
proof -
  assume run: "settle_run e loc en now w = (r, w')"
  have "keeps (\<lambda>d. cluster_locks d = cluster_locks (wdb w)) (settle_run e loc en now)"
    unfolding settle_run_def by (intro hoare_intros)
  from keepsD [OF this refl run] show ?thesis .
qed

lemma settle_entry: "settle_run e loc en now w = (Inr en', w') \<Longrightarrow> \<not> ent_running en' \<and> ent_task en' = ent_task en"
  by (auto simp: settle_run_def returns_simps Let_def split: option.splits)

lemma execute_locks: "execute e node t out w = (r, w') \<Longrightarrow> cluster_locks (wdb w') = cluster_locks (wdb w)"
proof -
  assume run: "execute e node t out w = (r, w')"
  have "keeps (\<lambda>d. cluster_locks d = cluster_locks (wdb w)) (execute e node t out)"
    unfolding execute_def by (intro hoare_intros)
  from keepsD [OF this refl run] show ?thesis .
qed

lemma claim_locks:
  assumes "claim_run e driver (zone n) n t now w = (Inr got, w')" and "in_era off now"
  shows "if task_ClusterAware t \<and> cluster_locks (wdb w') \<noteq> cluster_locks (wdb w) \<or> task_ClusterAware t \<and> got
    then task_lock driver zone off (cluster_locks (wdb w)) (task_Name t) n now = (got, cluster_locks (wdb w'))
    else cluster_locks (wdb w') = cluster_locks (wdb w)"
  using assms
  by (auto simp: claim_run_def acquireLock_def exec_def call_def try_call_def ok_def fail_def task_lock_def lock_name_def
      next_tick_def split: option.splits sum.splits prod.splits if_splits)

lemma finish_locks:
  assumes "finish_run e n t out w = (Inr (), w')"
  shows "cluster_locks (wdb w') = cluster_locks (wdb w)
    \<or> task_ClusterAware t \<and> cluster_locks (wdb w') = task_release (cluster_locks (wdb w)) (task_Name t) n"
proof -
  from assms obtain w1 where run: "execute e n t out w = (Inr (), w1)"
    and rel: "w' = (if task_ClusterAware t then snd (releaseLock e (lock_name t) n w1) else w1)"
    by (auto simp: finish_run_def call_returns ignoring_eq ok_def split: if_splits)
  have "cluster_locks (wdb (snd (releaseLock e (lock_name t) n w1))) = cluster_locks (wdb w1)
      \<or> cluster_locks (wdb (snd (releaseLock e (lock_name t) n w1))) = drop_lock (cluster_locks (wdb w1)) (lock_name t) n"
    by (auto simp: releaseLock_def exec_def call_def try_call_def ok_def fail_def next_tick_def split: option.splits)
  then show ?thesis using rel execute_locks [OF run]
    by (auto simp: task_release_def lock_name_def split: if_splits)
qed

lemma map_of_update_same: "map_of (AList.update k v xs) = (map_of xs)(k \<mapsto> v)"
  by (rule AList.update_conv')

lemma well_keyed_entry: "well_keyed s \<Longrightarrow> map_of (entries s) k = Some en \<Longrightarrow> task_Name (ent_task en) = k"
  by (auto simp: well_keyed_def dest: map_of_SomeD)

lemma well_keyed_set:
  "well_keyed (f n) \<Longrightarrow> task_Name (ent_task en) = k \<Longrightarrow> well_keyed (set_entry n k en f m) \<longleftrightarrow> (m = n \<or> well_keyed (f m))"
proof -
  assume keyed: "well_keyed (f n)" and name: "task_Name (ent_task en) = k"
  have "(j, x) \<in> set (AList.update k en es) \<Longrightarrow> (j, x) = (k, en) \<or> (j, x) \<in> set es" for j x es
    by (induction es) (auto split: if_splits)
  then show ?thesis using keyed name
    by (auto simp: well_keyed_def set_entry_def AList.distinct_update) (fastforce+)?
qed

lemma tick_entries:
  assumes "tick now s = (s', due)"
  shows "map_of (entries s') k =
      map_option (\<lambda>en. if is_due now en then en\<lparr>ent_running := True\<rparr> else en) (map_of (entries s) k)"
    and "well_keyed s \<Longrightarrow> well_keyed s'"
proof -
  have s': "entries s' = map (\<lambda>(k, en). (k, if is_due now en then en\<lparr>ent_running := True\<rparr> else en)) (entries s)"
    using assms by (auto simp: tick_def)
  show "map_of (entries s') k =
      map_option (\<lambda>en. if is_due now en then en\<lparr>ent_running := True\<rparr> else en) (map_of (entries s) k)"
    unfolding s' by (simp add: map_of_map)
  show "well_keyed s \<Longrightarrow> well_keyed s'"
    unfolding well_keyed_def s' by (auto simp: case_prod_beta comp_def)
qed

lemma started_due:
  assumes "tick now s = (s', due)" and "well_keyed s" and "k \<in> started_names due"
  obtains en where "map_of (entries s) k = Some en" and "is_due now en"
proof -
  from assms obtain en where en: "en \<in> set (map snd (entries s))" "is_due now en" "task_Name (ent_task en) = k"
    by (fastforce simp: tick_def started_names_def)
  then obtain j where "(j, en) \<in> set (entries s)" by auto
  moreover from this have "j = k" using assms(2) en(3) by (auto simp: well_keyed_def)
  ultimately have "map_of (entries s) k = Some en" using assms(2) by (simp add: well_keyed_def map_of_eq_Some_iff)
  with en(2) that show thesis by blast
qed

lemma due_not_running:
  assumes "runs_marked c" and "tick now (cl_sched c n) = (s', due)" and "k \<in> started_names due"
  shows "cl_runs c n k = None"
proof -
  have "well_keyed (cl_sched c n)" using assms(1) by (simp add: runs_marked_def)
  from started_due [OF assms(2) this assms(3)] obtain en
    where "map_of (entries (cl_sched c n)) k = Some en" "is_due now en" .
  then show ?thesis using assms(1) by (cases "cl_runs c n k") (fastforce simp: runs_marked_def is_due_def)+
qed

lemma runs_markedI:
  "(\<And>n. well_keyed (cl_sched c n)) \<Longrightarrow>
   (\<And>n k r. cl_runs c n k = Some r \<Longrightarrow> \<exists>en. map_of (entries (cl_sched c n)) k = Some en \<and> ent_running en) \<Longrightarrow>
   (\<And>n k t now since. cl_runs c n k = Some (Working t now since) \<Longrightarrow> task_Name t = k) \<Longrightarrow> runs_marked c"
  by (fastforce simp: runs_marked_def)

lemma runs_markedD:
  assumes "runs_marked c"
  shows "well_keyed (cl_sched c n)"
    and "cl_runs c n k = Some r \<Longrightarrow> \<exists>en. map_of (entries (cl_sched c n)) k = Some en \<and> ent_running en"
    and "cl_runs c n k = Some (Working t now since) \<Longrightarrow> task_Name t = k"
  using assms by (fastforce simp: runs_marked_def)+

text \<open>A goroutine that settles frees its entry and touches no other.\<close>

lemma settled_marked:
  assumes "runs_marked c" and "map_of (entries (cl_sched c n)) k = Some en"
    and "settle_run e loc en now w = (Inr en', w')"
  shows "runs_marked (c\<lparr>cl_world := w', cl_sched := set_entry n k en' (cl_sched c),
    cl_runs := set_run n k None (cl_runs c)\<rparr>)"
proof -
  note D = runs_markedD [OF assms(1)]
  have name: "task_Name (ent_task en') = k"
    using well_keyed_entry [OF D(1) assms(2)] settle_entry [OF assms(3)] by simp
  show ?thesis
  proof (rule runs_markedI)
    show "well_keyed (cl_sched (c\<lparr>cl_world := w', cl_sched := set_entry n k en' (cl_sched c),
        cl_runs := set_run n k None (cl_runs c)\<rparr>) m)" for m
      using well_keyed_set [of "cl_sched c" n en' k m, OF D(1) name] D(1) by simp
  qed (use D(2,3) in \<open>auto simp: set_run_def set_entry_def map_of_update_same split: if_splits\<close>)
qed

lemma step_marked:
  assumes "cluster_step e driver zone skew limit c c'" and marked: "runs_marked c"
  shows "runs_marked c'"
  using assms(1)
proof (cases rule: cluster_step.cases)
  case (pass d)
  then show ?thesis using marked by (simp add: runs_marked_def)
next
  case (ticks now n s due)
  note D = runs_markedD [OF marked]
  note keyed = D(1) [of n] and lookup = tick_entries(1) [OF ticks(3)]
  show ?thesis unfolding ticks(1)
  proof (rule runs_markedI)
    show "well_keyed (cl_sched (c\<lparr>cl_sched := (cl_sched c)(n := s),
        cl_runs := (\<lambda>m k. if m = n \<and> k \<in> started_names due then Some Started else cl_runs c m k)\<rparr>) m)" for m
      using D(1) tick_entries(2) [OF ticks(3) keyed] by simp
    fix m k r
    assume "cl_runs (c\<lparr>cl_sched := (cl_sched c)(n := s),
        cl_runs := (\<lambda>m k. if m = n \<and> k \<in> started_names due then Some Started else cl_runs c m k)\<rparr>) m k = Some r"
    then consider "m = n" "k \<in> started_names due" | "m \<noteq> n" "cl_runs c m k = Some r" | "m = n" "cl_runs c n k = Some r"
      by (auto split: if_splits)
    then show "\<exists>en. map_of (entries (cl_sched (c\<lparr>cl_sched := (cl_sched c)(n := s),
        cl_runs := (\<lambda>m k. if m = n \<and> k \<in> started_names due then Some Started else cl_runs c m k)\<rparr>) m)) k
        = Some en \<and> ent_running en"
    proof cases
      case 1
      from started_due [OF ticks(3) keyed 1(2)] obtain en
        where "map_of (entries (cl_sched c n)) k = Some en" "is_due now en" .
      with 1(1) lookup [of k] show ?thesis by simp
    next
      case 2
      with D(2) show ?thesis by auto
    next
      case 3
      from D(2) [OF 3(2)] obtain en where "map_of (entries (cl_sched c n)) k = Some en" "ent_running en" by blast
      with 3(1) lookup [of k] show ?thesis by simp
    qed
  qed (use D(3) in \<open>auto split: if_splits\<close>)
next
  case (claimed n k en now w)
  note D = runs_markedD [OF marked]
  show ?thesis unfolding claimed(1)
    by (rule runs_markedI)
       (use D D(2) [OF claimed(2)] claimed(2,3) well_keyed_entry [OF D(1) claimed(3)] in \<open>auto simp: set_run_def split: if_splits\<close>)
next
  case (refused n k en now w en' w')
  then show ?thesis using settled_marked [OF marked refused(3,6)] by simp
next
  case (finished n k t now since en out w en' w')
  then show ?thesis using settled_marked [OF marked finished(3,5)] by simp
qed

lemma view_simps [simp]:
  "wk_store (lease_view c) = cluster_locks (wdb (cl_world c))" "wk_time (lease_view c) = cl_time c"
  "wk_since (lease_view c) = working_since c"
  by (simp_all add: lease_view_def)

text \<open>Every step of the cluster is a step of the leases, or changes nothing they see.\<close>

lemma step_leases:
  assumes "cluster_step e driver zone skew limit c c'" and marked: "runs_marked c"
    and era: "\<And>now. \<bar>now - cl_time c\<bar> \<le> skew \<Longrightarrow> in_era off now"
  shows "lease_view c' = lease_view c \<or> lease_step (task_lock driver zone off) task_release skew limit (lease_view c) (lease_view c')"
  using assms(1)
proof (cases rule: cluster_step.cases)
  case (pass d)
  have "lease_step (task_lock driver zone off) task_release skew limit (lease_view c)
      ((lease_view c)\<lparr>wk_time := wk_time (lease_view c) + d\<rparr>)"
    using pass(2,3) by (intro lease_step.wait) (auto simp: working_since_def split: option.splits run.splits if_splits)
  moreover have "lease_view c' = (lease_view c)\<lparr>wk_time := wk_time (lease_view c) + d\<rparr>"
    by (simp add: pass(1) lease_view_def working_since_def fun_eq_iff)
  ultimately show ?thesis by simp
next
  case (ticks now n s due)
  have "working_since c' = working_since c"
    using due_not_running [OF marked ticks(3)] by (auto simp: ticks(1) working_since_def fun_eq_iff)
  then show ?thesis by (simp add: ticks(1) lease_view_def)
next
  case (claimed n k en now w)
  have name: "task_Name (ent_task en) = k"
    using well_keyed_entry [OF runs_markedD(1) [OF marked] claimed(3)] .
  show ?thesis
  proof (cases "task_ClusterAware (ent_task en)")
    case True
    then have lock: "task_lock driver zone off (cluster_locks (wdb (cl_world c))) k now' now = X" if "now' = n"
      "X = (True, cluster_locks (wdb w))" for now' X
      using claim_locks [where zone = zone and n = n and off = off, OF claimed(5) era [OF claimed(4)]] name that by simp
    have "lease_step (task_lock driver zone off) task_release skew limit (lease_view c)
        ((lease_view c)\<lparr>wk_store := cluster_locks (wdb w),
          wk_since := set_since k n (if True then Some (wk_time (lease_view c)) else None) (wk_since (lease_view c))\<rparr>)"
      by (rule lease_step.claim [where c = now]) (use claimed(2,4) lock in \<open>simp_all add: working_since_def\<close>)
    moreover have "lease_view c' = (lease_view c)\<lparr>wk_store := cluster_locks (wdb w),
          wk_since := set_since k n (if True then Some (wk_time (lease_view c)) else None) (wk_since (lease_view c))\<rparr>"
      using True by (simp add: claimed(1) lease_view_def working_since_def set_since_def set_run_def fun_eq_iff)
    ultimately show ?thesis by simp
  next
    case False
    have "working_since c' = working_since c"
      using False claimed(2) by (simp add: claimed(1) working_since_def set_run_def fun_eq_iff)
    then show ?thesis using claim_locks [where zone = zone and n = n and off = off, OF claimed(5) era [OF claimed(4)]] False by (simp add: claimed(1) lease_view_def)
  qed
next
  case (refused n k en now w en' w')
  have same: "working_since c' = working_since c"
    using refused(2) by (simp add: refused(1) working_since_def set_run_def fun_eq_iff)
  have name: "task_Name (ent_task en) = k"
    using well_keyed_entry [OF runs_markedD(1) [OF marked] refused(3)] .
  have "cluster_locks (wdb w) = cluster_locks (wdb (cl_world c))"
    using claim_locks [where zone = zone and n = n and off = off, OF refused(5) era [OF refused(4)]] task_lock_refused by (fastforce split: if_splits)
  then show ?thesis using same settle_locks [OF refused(6)] by (simp add: refused(1) lease_view_def)
next
  case (finished n k t now since en out w en' w')
  have name: "task_Name t = k" using runs_markedD(3) [OF marked finished(2)] .
  have since: "working_since c' = set_since k n None (working_since c)"
    using finished(2) by (simp add: finished(1) working_since_def set_run_def set_since_def fun_eq_iff)
  have w': "cluster_locks (wdb w') = cluster_locks (wdb w)" by (rule settle_locks [OF finished(5)])
  show ?thesis
  proof (cases "task_ClusterAware t")
    case False
    then have "working_since c' = working_since c"
      using since finished(2) by (auto simp: set_since_def working_since_def fun_eq_iff)
    then show ?thesis using finish_locks [OF finished(4)] w' False by (simp add: finished(1) lease_view_def)
  next
    case True
    have busy: "wk_since (lease_view c) k n = Some since" using finished(2) True by (simp add: working_since_def)
    from finish_locks [OF finished(4)] show ?thesis
    proof
      assume "cluster_locks (wdb w) = cluster_locks (wdb (cl_world c))"
      then have "lease_view c' = (lease_view c)\<lparr>wk_since := set_since k n None (wk_since (lease_view c))\<rparr>"
        using since w' by (simp add: finished(1) lease_view_def)
      with lease_step.give_up [OF busy, of "task_lock driver zone off" task_release skew limit] show ?thesis by simp
    next
      assume "task_ClusterAware t \<and> cluster_locks (wdb w) =
          task_release (cluster_locks (wdb (cl_world c))) (task_Name t) n"
      then have "lease_view c' = (lease_view c)\<lparr>wk_store := task_release (wk_store (lease_view c)) k n,
          wk_since := set_since k n None (wk_since (lease_view c))\<rparr>"
        using since w' name by (simp add: finished(1) lease_view_def)
      then show ?thesis
        using lease_step.finish [OF busy, of "task_lock driver zone off" task_release skew limit] by simp
    qed
  qed
qed

lemma step_time: "cluster_step e driver zone skew limit c c' \<Longrightarrow> cl_time c \<le> cl_time c'"
  by (cases rule: cluster_step.cases) auto

lemma in_years_between: "in_years a \<Longrightarrow> in_years b \<Longrightarrow> a \<le> z \<Longrightarrow> z \<le> b \<Longrightarrow> in_years z"
  by (simp add: in_years_def)

text \<open>The readings of a run are in the era when the first and the last are.\<close>

lemma cluster_leases:
  assumes "(cluster_step e driver zone skew limit)\<^sup>*\<^sup>* c0 c" and "runs_marked c0"
    and "in_years (cl_time c0 - skew + second * off)" and "in_years (cl_time c + skew + lockTTL + second * off)" and "0 \<le> skew"
  shows "cl_time c0 \<le> cl_time c \<and> runs_marked c
    \<and> (lease_step (task_lock driver zone off) task_release skew limit)\<^sup>*\<^sup>* (lease_view c0) (lease_view c)"
  using assms(1,4)
proof (induction rule: rtranclp_induct)
  case base
  then show ?case using assms(2) by simp
next
  case (step c c')
  have times: "cl_time c \<le> cl_time c'" by (rule step_time [OF step(2)])
  have started: "cl_time c0 \<le> cl_time c" using step(1)
    by (induction rule: rtranclp_induct) (auto dest: step_time)
  have bounded: "in_years z" if "cl_time c - skew + second * off \<le> z" "z \<le> cl_time c + skew + lockTTL + second * off" for z
    using that times started by (intro in_years_between [OF assms(3) step.prems]) simp_all
  have "in_years (cl_time c + skew + lockTTL + second * off)"
    using assms(5) lockTTL_pos by (intro bounded) linarith+
  from step.IH [OF this] have IH: "runs_marked c"
    "(lease_step (task_lock driver zone off) task_release skew limit)\<^sup>*\<^sup>* (lease_view c0) (lease_view c)" by auto
  have era: "in_era off now" if "\<bar>now - cl_time c\<bar> \<le> skew" for now
    using that lockTTL_pos unfolding in_era_def by (intro conjI bounded) linarith+
  show ?case using step_marked [OF step(2) IH(1)] step_leases [OF step(2) IH(1) era] IH(2) started times
    by (metis order_trans rtranclp.rtrancl_into_rtrancl)
qed

section \<open>What the cluster guarantees\<close>

text \<open>A cluster in which nothing runs yet and the entries are stored under their names.\<close>

definition at_rest :: "cluster \<Rightarrow> bool" where
  "at_rest c \<longleftrightarrow> (\<forall>n k. cl_runs c n k = None) \<and> (\<forall>n. well_keyed (cl_sched c n))"

text \<open>
  C19: A cluster-aware task runs on one node at a time, where all nodes keep one and the same constant offset from UTC. From
  a cluster at rest, under every interleaving of ticks, claims, handlers of any outcome and releases on any number of
  nodes, with any database faults and with clocks off by at most \<open>skew\<close>, no two nodes run the handler of the same
  cluster-aware task at the same time, as long as no such handler runs longer than \<open>limit\<close>, the
  lease of five minutes is longer than the limit and twice the skew, and the years have four digits: the expiry of a lock is compared
  as the text of a local time, and such texts are in order under one offset.
\<close>

theorem cluster_runs_exclusive:
  assumes "renders_local driver" and "\<And>n s. zone n s = off"
    and "(cluster_step e driver zone skew limit)\<^sup>*\<^sup>* c0 c" and "at_rest c0"
    and "in_years (cl_time c0 - skew + second * off)" and "in_years (cl_time c + skew + lockTTL + second * off)"
    and "0 \<le> skew" and "0 \<le> limit" and "limit + 2 * skew < lockTTL"
    and "cl_runs c n k = Some (Working t now since)" and "task_ClusterAware t"
    and "cl_runs c m k = Some (Working t' now' since')" and "task_ClusterAware t'"
  shows "n = m"
proof -
  have "runs_marked c0" using assms(4) by (intro runs_markedI) (auto simp: at_rest_def)
  then have run: "(lease_step (task_lock driver zone off) task_release skew limit)\<^sup>*\<^sup>* (lease_view c0) (lease_view c)"
    using cluster_leases [OF assms(3) _ assms(5,6,7)] by blast
  have "\<forall>k n. wk_since (lease_view c0) k n = None"
    using assms(4) by (simp add: at_rest_def working_since_def)
  then have "exclusive (lease_view c)"
    using one_offset.leases_exclude [OF one_offset.intro [OF assms(1,2)] run] assms(8,9) by blast
  moreover have "working_since c k n \<noteq> None" "working_since c k m \<noteq> None"
    using assms(10-13) by (simp_all add: working_since_def)
  ultimately show ?thesis by (simp add: exclusive_def)
qed

text \<open>A cluster of two nodes with one due task each.\<close>

definition demo_task :: Task where
  "demo_task = \<lparr>task_Name = ''ssl_renewal'', task_Schedule = ''@every 1h'', task_Enabled = True,
     task_ClusterAware = True, task_RetryOnFail = False, task_RetryDelay = 0\<rparr>"

definition demo_entry :: entry where
  "demo_entry = \<lparr>ent_task = demo_task, ent_sched = every_schedule hour, ent_next = 0, ent_running = False\<rparr>"

definition demo_node :: "string \<Rightarrow> scheduler" where
  "demo_node n = \<lparr>nodeID = n, timezone = UTC, catchUpWindow = hour, entries = [(''ssl_renewal'', demo_entry)]\<rparr>"

definition demo_cluster :: cluster where
  "demo_cluster = \<lparr>cl_world = \<lparr>wdb = \<lparr>scheduler_tasks = [], scheduler_history = [], cluster_locks = []\<rparr>,
     wtick = 0, wrand = 0\<rparr>, cl_time = 0, cl_sched = demo_node, cl_runs = (\<lambda>_ _. None)\<rparr>"

lemma demo_at_rest: "at_rest demo_cluster"
  by (simp add: at_rest_def demo_cluster_def demo_node_def well_keyed_def demo_entry_def demo_task_def)

lemma demo_node_works:
  "\<exists>c. (cluster_step demo_env plain_driver (\<lambda>_. UTC) 0 0)\<^sup>*\<^sup>* demo_cluster c \<and> cl_time c = 0
     \<and> cl_runs c ''a'' ''ssl_renewal'' = Some (Working demo_task 0 0)"
proof -
  define en where "en = demo_entry\<lparr>ent_running := True\<rparr>"
  define s where "s = (demo_node ''a'')\<lparr>entries := [(''ssl_renewal'', en)]\<rparr>"
  have tick: "tick 0 (demo_node ''a'') = (s, [en])"
    by (simp add: tick_def demo_node_def s_def en_def is_due_def demo_entry_def demo_task_def)
  define c1 where "c1 = demo_cluster\<lparr>cl_sched := (cl_sched demo_cluster)(''a'' := s),
      cl_runs := (\<lambda>m k. if m = ''a'' \<and> k \<in> started_names [en] then Some Started else cl_runs demo_cluster m k)\<rparr>"
  have "cluster_step demo_env plain_driver (\<lambda>_. UTC) 0 0 demo_cluster c1"
    unfolding c1_def by (rule cluster_step.ticks [where now = 0]) (simp_all add: demo_cluster_def tick)
  moreover
  obtain w where claim: "claim_run demo_env plain_driver UTC ''a'' (ent_task en) 0 (cl_world c1) = (Inr True, w)"
    using demo_no_faults
    by (simp add: claim_run_def acquireLock_def exec_def call_def try_call_def ok_def no_faults_def take_lock_def
        en_def demo_entry_def demo_task_def c1_def demo_cluster_def next_tick_def)
  have "cluster_step demo_env plain_driver (\<lambda>_. UTC) 0 0 c1 (c1\<lparr>cl_world := w,
      cl_runs := set_run ''a'' ''ssl_renewal'' (Some (Working (ent_task en) 0 (cl_time c1))) (cl_runs c1)\<rparr>)"
    by (rule cluster_step.claimed [OF _ _ _ claim])
       (simp_all add: c1_def started_names_def en_def demo_entry_def demo_task_def demo_cluster_def s_def)
  ultimately have "(cluster_step demo_env plain_driver (\<lambda>_. UTC) 0 0)\<^sup>*\<^sup>* demo_cluster (c1\<lparr>cl_world := w,
      cl_runs := set_run ''a'' ''ssl_renewal'' (Some (Working (ent_task en) 0 (cl_time c1))) (cl_runs c1)\<rparr>)"
    by (meson rtranclp.rtrancl_refl rtranclp.rtrancl_into_rtrancl)
  then show ?thesis
    by (intro exI conjI) (auto simp: set_run_def en_def demo_entry_def c1_def demo_cluster_def)
qed

theorem cluster_runs_exclusive_witness:
  "\<exists>c :: cluster. cl_runs c ''a'' ''ssl_renewal'' = Some (Working demo_task 0 0)
     \<and> (\<forall>m now since. cl_runs c m ''ssl_renewal'' = Some (Working demo_task now since) \<longrightarrow> m = ''a'')"
proof -
  obtain c where run: "(cluster_step demo_env plain_driver (\<lambda>_. UTC) 0 0)\<^sup>*\<^sup>* demo_cluster c" and began: "cl_time c = 0"
    and work: "cl_runs c ''a'' ''ssl_renewal'' = Some (Working demo_task 0 0)" using demo_node_works by blast
  have aware: "task_ClusterAware demo_task" by (simp add: demo_task_def)
  have alone: "m = ''a''" if other: "cl_runs c m ''ssl_renewal'' = Some (Working demo_task now since)" for m now since
    by (rule cluster_runs_exclusive [where off = 0, OF plain_driver_renders _ run demo_at_rest _ _ _ _ _ other aware work aware])
       (use began in \<open>simp_all add: lockTTL_def time_units demo_cluster_def in_years_def UTC_def year_start_def\<close>)
  show ?thesis
  proof (rule exI [of _ c], rule conjI [OF work], rule allI, rule allI, rule allI, rule impI)
    fix m now since
    assume "cl_runs c m ''ssl_renewal'' = Some (Working demo_task now since)"
    then show "m = ''a''" by (rule alone)
  qed
qed

text \<open>
  C26: Across zones the lock does not hold. A claim that has just succeeded, with its five minutes to go, does not keep any
  other node from claiming the same task if the local time of that node is past the local time at which the lock
  ends, and no fault is needed: so it is for two nodes at one instant when their zones are more than five minutes apart, and within one
  zone when the clock goes back an hour while the lock runs.
\<close>

theorem live_lock_stolen:
  assumes "renders_local driver" and "no_faults e" and "task_ClusterAware t"
    and "claim_run e driver here n t now w = (Inr True, w1)"
    and "in_years (local_nanos here (now + lockTTL))" and "in_years (local_nanos there now')"
    and "local_nanos here (now + lockTTL) < local_nanos there now'"
  shows "fst (claim_run e driver there m t now' w1) = Inr True"
proof -
  have before: "driver here (now + lockTTL) < driver there now'" by (rule rendered_less [OF assms(1,5,6,7)])
  obtain rows where taken: "take_lock (cluster_locks (wdb w)) (lock_name t) n (driver here now) (driver here (now + lockTTL)) = (True, rows)"
    and w1: "cluster_locks (wdb w1) = rows"
    using assms(2,3,4)
    by (auto simp: claim_run_def acquireLock_def exec_def call_def try_call_def ok_def no_faults_def Let_def next_tick_def
        split: prod.splits if_splits)
  from taken obtain old where "find_where (\<lambda>r. lk_name r = lock_name t) rows = Some old"
    "lk_expires old = Some (driver here (now + lockTTL))"
    by (cases rule: take_lock_cases) (auto simp: find_where_append find_where_Cons find_where_update_same)
  then have "fst (take_lock rows (lock_name t) m (driver there now') (driver there (now' + lockTTL))) = True"
    using before by (simp add: take_lock_def Let_def)
  then show ?thesis using assms(2,3)
    by (auto simp: claim_run_def acquireLock_def exec_def call_def try_call_def ok_def no_faults_def Let_def w1 split: prod.splits)
qed

theorem live_lock_stolen_witness:
  "\<exists>w1. claim_run demo_env plain_driver UTC ''a'' demo_task 0 (cl_world demo_cluster) = (Inr True, w1)
     \<and> fst (claim_run demo_env plain_driver (\<lambda>_. 3600) ''b'' demo_task 0 w1) = Inr True"
proof -
  obtain w1 where claim: "claim_run demo_env plain_driver UTC ''a'' demo_task 0 (cl_world demo_cluster) = (Inr True, w1)"
    using demo_no_faults
    by (simp add: claim_run_def acquireLock_def exec_def call_def try_call_def ok_def no_faults_def take_lock_def
        demo_task_def demo_cluster_def next_tick_def)
  have "fst (claim_run demo_env plain_driver (\<lambda>_. 3600) ''b'' demo_task 0 w1) = Inr True"
    by (rule live_lock_stolen [OF plain_driver_renders demo_no_faults _ claim])
      (simp_all add: demo_task_def local_nanos_def UTC_def lockTTL_def time_units in_years_def year_start_def)
  with claim show ?thesis by blast
qed

text \<open>
  The lock does not make an occurrence run once. Let two nodes have the same due cluster-aware
  task, with the database working and the lock free when the first one claims it. When the first node
  has run its occurrence, it has released the lock, so that the second one, whose loop came a moment
  later, claims it as well and runs the same occurrence again: both runs are in the history.
\<close>

theorem occurrence_runs_twice:
  assumes "no_faults e" and "task_ClusterAware t" and "ent_task en1 = t" and "ent_task en2 = t"
    and "find_where (\<lambda>r. lk_name r = lock_name t) (cluster_locks (wdb w)) = None"
    and "out_first out1 = None" and "out_first out2 = None"
    and "runEntry e driver here1 n1 loc en1 now1 out1 w = (r1, w1)" and "runEntry e driver here2 n2 loc en2 now2 out2 w1 = (r2, w2)"
  shows "\<exists>h1 h2. scheduler_history (wdb w2) = scheduler_history (wdb w) @ [h1, h2]
    \<and> hr_task h1 = task_Name t \<and> hr_node h1 = n1 \<and> hr_status h1 = ''ok''
    \<and> hr_task h2 = task_Name t \<and> hr_node h2 = n2 \<and> hr_status h2 = ''ok''"
proof -
  have settle: "scheduler_history (wdb (snd (settle_run e loc en now w'))) = scheduler_history (wdb w')
      \<and> cluster_locks (wdb (snd (settle_run e loc en now w'))) = cluster_locks (wdb w')" for en now w'
    using assms(1) by (simp add: settle_run_def setNextRun_def exec_def call_def try_call_def ok_def ignoring_eq
        no_faults_def next_tick_def Let_def split: option.splits)
  have one: "\<exists>h. scheduler_history (wdb w'') = scheduler_history (wdb w') @ [h] \<and> hr_task h = task_Name t
      \<and> hr_node h = n \<and> hr_status h = ''ok''
      \<and> find_where (\<lambda>r. lk_name r = lock_name t) (cluster_locks (wdb w'')) = None"
    if run: "runEntry e driver here n loc en now out w' = (r, w'')" "ent_task en = t" and out: "out_first out = None"
      and free: "find_where (\<lambda>r. lk_name r = lock_name t) (cluster_locks (wdb w')) = None" for here n en now out w' r w''
  proof -
    define row where "row = \<lparr>lk_name = lock_name t, lk_holder = n, lk_acquired = driver here now, lk_expires = Some (driver here (now + lockTTL))\<rparr>"
    define wa where "wa = (next_tick w')\<lparr>wdb := (wdb w')\<lparr>cluster_locks := cluster_locks (wdb w') @ [row]\<rparr>\<rparr>"
    have claim: "claim_run e driver here n t now w' = (Inr True, wa)"
      using assms(1,2) free by (simp add: claim_run_def acquireLock_def exec_def call_def try_call_def ok_def
          no_faults_def take_lock_def row_def wa_def Let_def)
    obtain wf where fin: "finish_run e n t out wa = (Inr (), wf)"
      and hist: "\<exists>h. scheduler_history (wdb wf) = scheduler_history (wdb w') @ [h] \<and> hr_task h = task_Name t
        \<and> hr_node h = n \<and> hr_status h = ''ok''"
      and locks: "cluster_locks (wdb wf) = drop_lock (cluster_locks (wdb wa)) (lock_name t) n"
      using assms(1,2) out
      by (simp add: finish_run_def execute_def recordRun_def releaseLock_def exec_def call_def try_call_def ok_def
          ignoring_eq no_faults_def wa_def Let_def)
    have "w'' = snd (settle_run e loc en now wf)"
      using run claim fin by (simp add: runEntry_def call_def try_call_def)
    moreover have "find_where (\<lambda>r. lk_name r = lock_name t) (cluster_locks (wdb wf)) = None"
      using free locks by (auto simp: find_where_None drop_lock_def wa_def row_def)
    ultimately show ?thesis using settle [of en now wf] hist by auto
  qed
  from one [OF assms(8,3,6,5)] one [OF assms(9,4,7)] show ?thesis by auto
qed

theorem occurrence_runs_twice_witness:
  "\<exists>r1 w1 r2 w2. runEntry demo_env plain_driver UTC ''a'' UTC demo_entry 0 \<lparr>out_first = None, out_stopped = False, out_second = None,
       out_started = 0, out_finished = 1\<rparr> (cl_world demo_cluster) = (r1, w1)
   \<and> runEntry demo_env plain_driver UTC ''b'' UTC demo_entry 2 \<lparr>out_first = None, out_stopped = False, out_second = None,
       out_started = 2, out_finished = 3\<rparr> w1 = (r2, w2)
   \<and> map hr_node (scheduler_history (wdb w2)) = [''a'', ''b'']"
proof -
  define o1 where "o1 = \<lparr>out_first = None, out_stopped = False, out_second = None, out_started = 0::int, out_finished = 1\<rparr>"
  define o2 where "o2 = \<lparr>out_first = None, out_stopped = False, out_second = None, out_started = 2::int, out_finished = 3\<rparr>"
  obtain r1 w1 where 1: "runEntry demo_env plain_driver UTC ''a'' UTC demo_entry 0 o1 (cl_world demo_cluster) = (r1, w1)" by fastforce
  obtain r2 w2 where 2: "runEntry demo_env plain_driver UTC ''b'' UTC demo_entry 2 o2 w1 = (r2, w2)" by fastforce
  have "\<exists>h1 h2. scheduler_history (wdb w2) = scheduler_history (wdb (cl_world demo_cluster)) @ [h1, h2]
    \<and> hr_task h1 = task_Name demo_task \<and> hr_node h1 = ''a'' \<and> hr_status h1 = ''ok''
    \<and> hr_task h2 = task_Name demo_task \<and> hr_node h2 = ''b'' \<and> hr_status h2 = ''ok''"
    by (rule occurrence_runs_twice [OF demo_no_faults _ _ _ _ _ _ 1 2])
       (simp_all add: demo_task_def demo_entry_def demo_cluster_def o1_def o2_def)
  then have "map hr_node (scheduler_history (wdb w2)) = [''a'', ''b'']" by (auto simp: demo_cluster_def)
  with 1 2 show ?thesis unfolding o1_def o2_def by (intro exI conjI)
qed

end
