(* ===== verification/Cache.thy ===== *)
theory Cache
  imports Go_Time Leases "HOL-Library.AList"
begin

text \<open>
  \<^verbatim>\<open>src/cache\<close>: the in-process driver (\<^verbatim>\<open>memory.go\<close>), the driver that stores nothing, the choice of the
  driver and the read-through helper (\<^verbatim>\<open>cache.go\<close>), keys (\<^verbatim>\<open>key.go\<close>) and the lock on top of it
  (\<^verbatim>\<open>lock.go\<close>). Every operation is one critical section of the driver's mutex, so it is one step. The
  readings of \<open>time.Now\<close> are arguments. Stored values are copied on the way in and out, so they
  are values here.
\<close>

section \<open>\<^verbatim>\<open>memory.go\<close>\<close>

text \<open>An entry that never expires has the zero time as its expiry: no time here.\<close>

record 'v memoryEntry =
  me_value :: 'v
  me_expires :: "int option"

type_synonym 'v memoryCache = "string \<Rightarrow> 'v memoryEntry option"

definition expired :: "'v memoryEntry \<Rightarrow> int \<Rightarrow> bool" where
  "expired en now = (case me_expires en of None \<Rightarrow> False | Some x \<Rightarrow> x < now)"

definition newEntry :: "'v \<Rightarrow> int \<Rightarrow> int \<Rightarrow> 'v memoryEntry" where
  "newEntry v ttl now = \<lparr>me_value = v, me_expires = (if ttl > 0 then Some (now + ttl) else None)\<rparr>"

definition newMemoryCache :: "'v memoryCache" where
  "newMemoryCache = Map.empty"

definition mem_sweep :: "int \<Rightarrow> 'v memoryCache \<Rightarrow> 'v memoryCache" where
  "mem_sweep now c = (\<lambda>k. case c k of None \<Rightarrow> None | Some en \<Rightarrow> if expired en now then None else Some en)"

definition mem_Get :: "'v memoryCache \<Rightarrow> int \<Rightarrow> string \<Rightarrow> 'v option" where
  "mem_Get c now k =
     (case c k of None \<Rightarrow> None | Some en \<Rightarrow> if expired en now then None else Some (me_value en))"

definition mem_Set :: "'v memoryCache \<Rightarrow> int \<Rightarrow> string \<Rightarrow> 'v \<Rightarrow> int \<Rightarrow> 'v memoryCache" where
  "mem_Set c now k v ttl = c(k \<mapsto> newEntry v ttl now)"

definition mem_Delete :: "'v memoryCache \<Rightarrow> string list \<Rightarrow> 'v memoryCache" where
  "mem_Delete c ks = fold (\<lambda>k c. c(k := None)) ks c"

definition mem_DeletePrefix :: "'v memoryCache \<Rightarrow> string \<Rightarrow> 'v memoryCache" where
  "mem_DeletePrefix c p = (\<lambda>k. if HasPrefix k p then None else c k)"

definition mem_SetNX :: "'v memoryCache \<Rightarrow> int \<Rightarrow> string \<Rightarrow> 'v \<Rightarrow> int \<Rightarrow> bool \<times> 'v memoryCache" where
  "mem_SetNX c now k v ttl =
     (case c k of
        Some en \<Rightarrow> if \<not> expired en now then (False, c) else (True, c(k \<mapsto> newEntry v ttl now))
      | None \<Rightarrow> (True, c(k \<mapsto> newEntry v ttl now)))"

definition mem_Close :: "'v memoryCache \<Rightarrow> 'v memoryCache" where
  "mem_Close c = Map.empty"

section \<open>\<^verbatim>\<open>cache.go\<close>\<close>

definition TypeNone :: string where "TypeNone = ''none''"
definition TypeMemory :: string where "TypeMemory = ''memory''"
definition TypeValkey :: string where "TypeValkey = ''valkey''"
definition TypeRedis :: string where "TypeRedis = ''redis''"

datatype 'v cache = NoopCache | MemoryCache "'v memoryCache"

definition New_cache :: "string \<Rightarrow> err + 'v cache" where
  "New_cache typ =
     (if typ = TypeNone then Inr NoopCache
      else if typ = TypeMemory \<or> typ = [] then Inr (MemoryCache newMemoryCache)
      else if typ = TypeValkey \<or> typ = TypeRedis
      then Inl (LibError (''cache: driver '' @ typ @ '' is not available in this build''))
      else Inl (LibError (''cache: unknown driver '' @ typ)))"

fun cache_Get :: "'v cache \<Rightarrow> int \<Rightarrow> string \<Rightarrow> 'v option" where
  "cache_Get NoopCache now k = None"
| "cache_Get (MemoryCache c) now k = mem_Get c now k"

fun cache_Set :: "'v cache \<Rightarrow> int \<Rightarrow> string \<Rightarrow> 'v \<Rightarrow> int \<Rightarrow> 'v cache" where
  "cache_Set NoopCache now k v ttl = NoopCache"
| "cache_Set (MemoryCache c) now k v ttl = MemoryCache (mem_Set c now k v ttl)"

fun cache_Delete :: "'v cache \<Rightarrow> string list \<Rightarrow> 'v cache" where
  "cache_Delete NoopCache ks = NoopCache"
| "cache_Delete (MemoryCache c) ks = MemoryCache (mem_Delete c ks)"

fun cache_DeletePrefix :: "'v cache \<Rightarrow> string \<Rightarrow> 'v cache" where
  "cache_DeletePrefix NoopCache p = NoopCache"
| "cache_DeletePrefix (MemoryCache c) p = MemoryCache (mem_DeletePrefix c p)"

fun cache_SetNX :: "'v cache \<Rightarrow> int \<Rightarrow> string \<Rightarrow> 'v \<Rightarrow> int \<Rightarrow> bool \<times> 'v cache" where
  "cache_SetNX NoopCache now k v ttl = (True, NoopCache)"
| "cache_SetNX (MemoryCache c) now k v ttl =
     (let (stored, c') = mem_SetNX c now k v ttl in (stored, MemoryCache c'))"

text \<open>
  The JSON codec is an argument: encoding may fail, and so may decoding. A value is its bytes in
  the cache. The results are the value or an error, and the cache.
\<close>

definition GetJSON :: "(string \<Rightarrow> 'a option) \<Rightarrow> string cache \<Rightarrow> int \<Rightarrow> string \<Rightarrow> err + 'a option" where
  "GetJSON decode c now k =
     (case cache_Get c now k of
        None \<Rightarrow> Inr None
      | Some raw \<Rightarrow>
          (case decode raw of None \<Rightarrow> Inl (LibError (''cache: decode '' @ k)) | Some v \<Rightarrow> Inr (Some v)))"

definition SetJSON ::
  "('a \<Rightarrow> string option) \<Rightarrow> string cache \<Rightarrow> int \<Rightarrow> string \<Rightarrow> 'a \<Rightarrow> int \<Rightarrow> err option \<times> string cache"
where
  "SetJSON encode c now k v ttl =
     (case encode v of
        None \<Rightarrow> (Some (LibError (''cache: encode '' @ k)), c)
      | Some raw \<Rightarrow> (None, cache_Set c now k raw ttl))"

text \<open>
  The value comes with the error, as in the source: a value that was loaded but could not be encoded
  is returned along with the failure. The last component says whether \<open>load\<close> was called.
\<close>

definition GetOrSet ::
  "('a \<Rightarrow> string option) \<Rightarrow> (string \<Rightarrow> 'a option) \<Rightarrow> string cache \<Rightarrow> int \<Rightarrow> int \<Rightarrow> string \<Rightarrow> int \<Rightarrow> (err + 'a)
   \<Rightarrow> ('a option \<times> err option) \<times> string cache \<times> bool"
where
  "GetOrSet encode decode c now later k ttl load =
     (case GetJSON decode c now k of
        Inr (Some v) \<Rightarrow> ((Some v, None), c, False)
      | _ \<Rightarrow>
          (case load of
             Inl x \<Rightarrow> ((None, Some x), c, True)
           | Inr v \<Rightarrow> (let (x, c') = SetJSON encode c later k v ttl in ((Some v, x), c', True))))"

section \<open>\<^verbatim>\<open>key.go\<close>\<close>

definition allowedKeyRune :: "nat \<Rightarrow> bool" where
  "allowedKeyRune r = ((97 \<le> r \<and> r \<le> 122) \<or> (48 \<le> r \<and> r \<le> 57) \<or> r = 46 \<or> r = 95 \<or> r = 45)"

fun key_loop :: "nat list \<Rightarrow> bool \<Rightarrow> string" where
  "key_loop [] dashed = []"
| "key_loop (r # rs) dashed =
     (if allowedKeyRune r then chr r # key_loop rs False
      else if \<not> dashed then CHR ''-'' # key_loop rs True
      else key_loop rs dashed)"

definition normalize_key :: "string \<Rightarrow> string" where
  "normalize_key part = key_loop (runes (ToLower (TrimSpace part))) False"

definition Key :: "string list \<Rightarrow> string" where
  "Key parts = join '':'' (filter (\<lambda>n. n \<noteq> []) (map normalize_key parts))"

definition Resource :: "string \<Rightarrow> string \<Rightarrow> string" where
  "Resource typ ident = Key [typ, ident]"

definition Field :: "string \<Rightarrow> string \<Rightarrow> string \<Rightarrow> string" where
  "Field typ ident field = Key [typ, ident, field]"

definition List_key :: "string \<Rightarrow> string \<Rightarrow> string" where
  "List_key typ flt = Key [typ, ''list'', flt]"

definition Scoped :: "string \<Rightarrow> string \<Rightarrow> string \<Rightarrow> string \<Rightarrow> string" where
  "Scoped scope scopeID typ ident = Key [scope, scopeID, typ, ident]"

definition Rate :: "string \<Rightarrow> string \<Rightarrow> string" where
  "Rate typ key = Key [''rate'', typ, key]"

definition Lock :: "string \<Rightarrow> string" where
  "Lock resource = Key [''lock'', resource]"

definition Versioned :: "nat \<Rightarrow> string \<Rightarrow> string" where
  "Versioned version key = ''v'' @ itoa version @ '':'' @ key"

section \<open>\<^verbatim>\<open>lock.go\<close>\<close>

text \<open>
  The lock works on any cache: it takes the operations it calls as arguments. \<open>Release\<close> reads and then
  deletes, two operations of the cache with anything in between: its two halves are two functions.
\<close>

definition locker_acquire ::
  "('s \<Rightarrow> int \<Rightarrow> 'k \<Rightarrow> 'v \<Rightarrow> int \<Rightarrow> bool \<times> 's) \<Rightarrow> int \<Rightarrow> 's \<Rightarrow> 'k \<Rightarrow> 'v \<Rightarrow> int \<Rightarrow> bool \<times> 's"
where
  "locker_acquire setnx ttl c k node now = setnx c now k node ttl"

definition locker_owns :: "('s \<Rightarrow> int \<Rightarrow> 'k \<Rightarrow> 'v option) \<Rightarrow> 's \<Rightarrow> 'k \<Rightarrow> 'v \<Rightarrow> int \<Rightarrow> bool" where
  "locker_owns get c k node now = (case get c now k of None \<Rightarrow> False | Some v \<Rightarrow> v = node)"

definition locker_drop :: "('s \<Rightarrow> 'k list \<Rightarrow> 's) \<Rightarrow> 's \<Rightarrow> 'k \<Rightarrow> 'v \<Rightarrow> 's" where
  "locker_drop delete c k node = delete c [k]"

definition locker_Release ::
  "('s \<Rightarrow> int \<Rightarrow> 'k \<Rightarrow> 'v option) \<Rightarrow> ('s \<Rightarrow> 'k list \<Rightarrow> 's) \<Rightarrow> 's \<Rightarrow> 'k \<Rightarrow> 'v \<Rightarrow> int \<Rightarrow> 's"
where
  "locker_Release get delete c k node now =
     (if locker_owns get c k node now then locker_drop delete c k node else c)"

text \<open>\<open>Acquire\<close>, \<open>Release\<close> and \<open>WithLock\<close> on the driver; the work itself is an argument.\<close>

definition Acquire :: "string cache \<Rightarrow> string \<Rightarrow> int \<Rightarrow> string \<Rightarrow> int \<Rightarrow> bool \<times> string cache" where
  "Acquire c node now name ttl = locker_acquire cache_SetNX ttl c (Lock name) node now"

definition Release :: "string cache \<Rightarrow> string \<Rightarrow> int \<Rightarrow> string \<Rightarrow> string cache" where
  "Release c node now name = locker_Release cache_Get cache_Delete c (Lock name) node now"

definition WithLock ::
  "string cache \<Rightarrow> string \<Rightarrow> int \<Rightarrow> int \<Rightarrow> string \<Rightarrow> int \<Rightarrow> (string cache \<Rightarrow> 'e option \<times> string cache)
   \<Rightarrow> 'e option \<times> string cache"
where
  "WithLock c node now later name ttl work =
     (let (acquired, c1) = Acquire c node now name ttl
      in if \<not> acquired then (None, c1)
         else let (x, c2) = work c1 in (x, Release c2 node later name))"

end
