(* ===== verification/Cache_Laws.thy ===== *)
theory Cache_Laws
  imports Cache Cron
begin

text \<open>
  What the cache promises: the contract of its interface as a locale, met by the in-process driver;
  the lock that any such cache gives; the driver as a map from keys and times to values that the
  janitor cannot change; and keys.
\<close>

section \<open>The contract of the interface\<close>

locale ttl_cache =
  fixes get :: "'s \<Rightarrow> int \<Rightarrow> 'k \<Rightarrow> 'v option"
    and put :: "'s \<Rightarrow> int \<Rightarrow> 'k \<Rightarrow> 'v \<Rightarrow> int \<Rightarrow> 's"
    and delete :: "'s \<Rightarrow> 'k list \<Rightarrow> 's"
    and setnx :: "'s \<Rightarrow> int \<Rightarrow> 'k \<Rightarrow> 'v \<Rightarrow> int \<Rightarrow> bool \<times> 's"
  assumes get_earlier: "get s t k = Some v \<Longrightarrow> u \<le> t \<Longrightarrow> get s u k = Some v"
    and put_get: "get (put s now k v ttl) t j =
      (if j = k then if 0 < ttl \<and> now + ttl < t then None else Some v else get s t j)"
    and delete_get: "get (delete s ks) t j = (if j \<in> set ks then None else get s t j)"
    and setnx_put: "setnx s now k v ttl = (if get s now k = None then (True, put s now k v ttl) else (False, s))"
begin

lemma get_same: "get s t k = Some v \<Longrightarrow> get s u k = Some w \<Longrightarrow> v = w"
  using get_earlier [of s t k v u] get_earlier [of s u k w t] by (cases "u \<le> t") auto

lemma setnx_excludes: "setnx s c k n ttl = (True, s') \<Longrightarrow> get s t k = Some m \<Longrightarrow> c \<le> t \<Longrightarrow> False"
  using get_earlier [of s t k m c] by (auto simp: setnx_put split: if_splits)

end

text \<open>A node holds a lock until \<open>t\<close> when a reader at \<open>t\<close> finds its identifier; every such cache gives leases.\<close>

definition locker_holds :: "('s \<Rightarrow> int \<Rightarrow> 'k \<Rightarrow> 'v option) \<Rightarrow> 's \<Rightarrow> 'k \<Rightarrow> 'v \<Rightarrow> int \<Rightarrow> bool" where
  "locker_holds get c k node t \<longleftrightarrow> get c t k = Some node"

sublocale ttl_cache \<subseteq> locker: lease "locker_acquire setnx ttl" "locker_drop delete" "locker_holds get" ttl for ttl
proof unfold_locales
  fix s s' :: 's and k j :: 'k and n m :: 'v and c t u :: int and got
  show "0 < ttl \<Longrightarrow> locker_acquire setnx ttl s k n c = (True, s') \<Longrightarrow> locker_holds get s' k n (c + ttl)"
    by (auto simp: locker_acquire_def locker_holds_def setnx_put put_get split: if_splits)
  show "locker_acquire setnx ttl s k n c = (True, s') \<Longrightarrow> locker_holds get s k m t \<Longrightarrow> c \<le> t \<Longrightarrow> m = n"
    using setnx_excludes [of s c k n ttl s' t m] by (auto simp: locker_acquire_def locker_holds_def)
  show "locker_acquire setnx ttl s k n c = (False, s') \<Longrightarrow> s' = s"
    by (auto simp: locker_acquire_def setnx_put split: if_splits)
  show "locker_acquire setnx ttl s k n c = (got, s') \<Longrightarrow> locker_holds get s j m t \<Longrightarrow> (j, m) \<noteq> (k, n) \<Longrightarrow> c \<le> t
      \<Longrightarrow> locker_holds get s' j m t"
    using setnx_excludes [of s c k n ttl s' t m]
    by (cases "j = k"; cases got) (auto simp: locker_acquire_def locker_holds_def setnx_put put_get split: if_splits)
  show "locker_holds get s k n u \<Longrightarrow> locker_holds get s j m t \<Longrightarrow> (j, m) \<noteq> (k, n) \<Longrightarrow>
      locker_holds get (locker_drop delete s k n) j m t"
    using get_same [of s u k n t m] by (auto simp: locker_holds_def locker_drop_def delete_get)
qed

section \<open>The in-process driver meets it\<close>

lemma mem_Delete_apply: "mem_Delete c ks k = (if k \<in> set ks then None else c k)"
proof -
  have "fold (\<lambda>k c. c(k := None)) ks c k = (if k \<in> set ks then None else c k)"
    by (induction ks arbitrary: c) auto
  then show ?thesis by (simp add: mem_Delete_def)
qed

interpretation mem: ttl_cache mem_Get mem_Set mem_Delete mem_SetNX
  by unfold_locales
     (auto simp: mem_Get_def mem_Set_def mem_Delete_apply mem_SetNX_def newEntry_def expired_def
       split: option.splits if_splits)

section \<open>The lock\<close>

lemma cache_lock_is_locker:
  "Acquire (MemoryCache c) node now name ttl =
     (let (got, c') = locker_acquire mem_SetNX ttl c (Lock name) node now in (got, MemoryCache c'))"
  "Release (MemoryCache c) node now name =
     MemoryCache (if locker_owns mem_Get c (Lock name) node now then locker_drop mem_Delete c (Lock name) node else c)"
  by (simp_all add: Acquire_def Release_def locker_acquire_def locker_Release_def locker_owns_def locker_drop_def)

text \<open>
  The distributed lock is exclusive. Nodes share one in-process cache, claim locks
  with \<open>Acquire\<close>, and end their work with the delete of \<open>Release\<close>, at any distance from the read that
  precedes it, or without it; their clocks are off by at most \<open>skew\<close>. From a state where nobody works,
  no two nodes ever hold a lock of the same name at once, as long as no node takes longer than
  \<open>limit\<close> from the claim to the delete and the lock's lifetime covers the limit and twice the skew.
\<close>

theorem locker_exclusive:
  assumes "(lease_step (locker_acquire mem_SetNX ttl) (locker_drop mem_Delete) skew limit)\<^sup>*\<^sup>* s0 s"
    and "\<forall>k n. wk_since s0 k n = None" and "0 < ttl" and "0 \<le> limit" and "limit + 2 * skew \<le> ttl"
    and "wk_since s (Lock name) n = Some t" and "wk_since s (Lock name) m = Some u"
  shows "n = m"
proof -
  have "wk_since s (Lock name) n \<noteq> None" "wk_since s (Lock name) m \<noteq> None" using assms(6,7) by simp_all
  then show ?thesis using mem.locker.run_exclusive [OF assms(1,2,5,4,3)] unfolding exclusive_def by blast
qed

theorem locker_exclusive_witness:
  "\<exists>s :: (string memoryCache, string, string) workers. wk_since s (Lock ''backup'') ''a'' = Some 0
     \<and> (\<forall>m u. wk_since s (Lock ''backup'') m = Some u \<longrightarrow> m = ''a'')"
proof -
  define s0 :: "(string memoryCache, string, string) workers"
    where "s0 = \<lparr>wk_store = newMemoryCache, wk_time = 0, wk_since = (\<lambda>_ _. None)\<rparr>"
  define s where "s = s0\<lparr>wk_store := mem_Set newMemoryCache 0 (Lock ''backup'') ''a'' 60,
    wk_since := set_since (Lock ''backup'') ''a'' (if True then Some (wk_time s0) else None) (wk_since s0)\<rparr>"
  have "lease_step (locker_acquire mem_SetNX 60) (locker_drop mem_Delete) 0 0 s0 s"
    unfolding s_def
    by (rule lease_step.claim [where c = 0])
       (simp_all add: s0_def locker_acquire_def mem_SetNX_def mem_Set_def newMemoryCache_def)
  then have run: "(lease_step (locker_acquire mem_SetNX 60) (locker_drop mem_Delete) 0 0)\<^sup>*\<^sup>* s0 s" by blast
  have idle: "\<forall>k n. wk_since s0 k n = None" by (simp add: s0_def)
  have work: "wk_since s (Lock ''backup'') ''a'' = Some 0" by (simp add: s_def s0_def set_since_def)
  have "m = ''a''" if other: "wk_since s (Lock ''backup'') m = Some u" for m u
    by (rule locker_exclusive [OF run idle _ _ _ other work]) simp_all
  with work show ?thesis by blast
qed

text \<open>
  But the release is not safe against a slow holder. When node \<open>a\<close> has read its own
  identifier and its lock expires before its delete, so that node \<open>b\<close> gets the lock in between, the delete
  of \<open>a\<close> takes the lock of \<open>b\<close> away: a third node gets it at once, while the lease of \<open>b\<close> still runs.
\<close>

theorem locker_release_race:
  assumes "locker_owns mem_Get c0 (Lock name) a t0"
    and "locker_acquire mem_SetNX ttl c0 (Lock name) b t1 = (True, c1)"
    and "0 < ttl" and "t1 \<le> t2" and "t2 \<le> t1 + ttl"
  shows "mem_Get c1 t2 (Lock name) = Some b
    \<and> fst (locker_acquire mem_SetNX ttl (locker_drop mem_Delete c1 (Lock name) a) (Lock name) d t2)"
  using assms mem.locker.acquire_holds [OF assms(3,2)]
    mem.get_earlier [of c1 "t1 + ttl" "Lock name" b t2]
  by (simp add: locker_acquire_def locker_drop_def locker_holds_def mem.setnx_put mem.delete_get)

theorem locker_release_race_witness:
  "\<exists>c1. mem_Get c1 12 (Lock ''backup'') = Some ''b''
    \<and> fst (locker_acquire mem_SetNX 10 (locker_drop mem_Delete c1 (Lock ''backup'') ''a'') (Lock ''backup'') ''c'' 12)"
proof -
  define c0 where "c0 = mem_Set newMemoryCache 0 (Lock ''backup'') ''a'' 10"
  have "locker_owns mem_Get c0 (Lock ''backup'') ''a'' 5"
    by (simp add: c0_def locker_owns_def mem.put_get)
  moreover obtain c1 where "locker_acquire mem_SetNX 10 c0 (Lock ''backup'') ''b'' 11 = (True, c1)"
    by (simp add: c0_def locker_acquire_def mem.setnx_put mem.put_get)
  ultimately show ?thesis
    using locker_release_race [of c0 "''backup''" "''a''" 5 10 "''b''" 11 c1 12] by auto
qed

section \<open>The driver as a map\<close>

text \<open>
  What a cache means: the value a reader of a key gets at a time. The reference operations work on this
  meaning; the janitor is not among them.
\<close>

definition meaning :: "'v memoryCache \<Rightarrow> string \<Rightarrow> int \<Rightarrow> 'v option" where
  "meaning c k t = mem_Get c t k"

datatype 'v cache_op =
    OpGet string
  | OpSet string 'v int
  | OpSetNX string 'v int
  | OpDelete "string list"
  | OpDeletePrefix string
  | OpSweep

datatype 'v cache_result = Found "'v option" | Stored bool | Done

fun mem_op :: "'v memoryCache \<Rightarrow> int \<Rightarrow> 'v cache_op \<Rightarrow> 'v cache_result \<times> 'v memoryCache" where
  "mem_op c now (OpGet k) = (Found (mem_Get c now k), c)"
| "mem_op c now (OpSet k v ttl) = (Done, mem_Set c now k v ttl)"
| "mem_op c now (OpSetNX k v ttl) = (let (b, c') = mem_SetNX c now k v ttl in (Stored b, c'))"
| "mem_op c now (OpDelete ks) = (Done, mem_Delete c ks)"
| "mem_op c now (OpDeletePrefix p) = (Done, mem_DeletePrefix c p)"
| "mem_op c now OpSweep = (Done, mem_sweep now c)"

definition put_meaning ::
  "(string \<Rightarrow> int \<Rightarrow> 'v option) \<Rightarrow> int \<Rightarrow> string \<Rightarrow> 'v \<Rightarrow> int \<Rightarrow> string \<Rightarrow> int \<Rightarrow> 'v option"
where
  "put_meaning f now k v ttl = f(k := (\<lambda>t. if 0 < ttl \<and> now + ttl < t then None else Some v))"

fun ref_op ::
  "(string \<Rightarrow> int \<Rightarrow> 'v option) \<Rightarrow> int \<Rightarrow> 'v cache_op \<Rightarrow> 'v cache_result \<times> (string \<Rightarrow> int \<Rightarrow> 'v option)"
where
  "ref_op f now (OpGet k) = (Found (f k now), f)"
| "ref_op f now (OpSet k v ttl) = (Done, put_meaning f now k v ttl)"
| "ref_op f now (OpSetNX k v ttl) =
     (if f k now = None then (Stored True, put_meaning f now k v ttl) else (Stored False, f))"
| "ref_op f now (OpDelete ks) = (Done, (\<lambda>k. if k \<in> set ks then (\<lambda>_. None) else f k))"
| "ref_op f now (OpDeletePrefix p) = (Done, (\<lambda>k. if HasPrefix k p then (\<lambda>_. None) else f k))"
| "ref_op f now OpSweep = (Done, f)"

fun run_ops :: "('c \<Rightarrow> int \<Rightarrow> 'o \<Rightarrow> 'r \<times> 'c) \<Rightarrow> 'c \<Rightarrow> (int \<times> 'o) list \<Rightarrow> 'r list" where
  "run_ops step c [] = []"
| "run_ops step c ((now, x) # ops) = (let (r, c') = step c now x in r # run_ops step c' ops)"

lemma mem_sweep_get: "now \<le> t \<Longrightarrow> mem_Get (mem_sweep now c) t k = mem_Get c t k"
  by (auto simp: mem_Get_def mem_sweep_def expired_def split: option.splits)

lemma mem_prefix_get: "mem_Get (mem_DeletePrefix c p) t k = (if HasPrefix k p then None else mem_Get c t k)"
  by (simp add: mem_Get_def mem_DeletePrefix_def)

lemma mem_op_refines:
  assumes "\<forall>t \<ge> now. \<forall>k. mem_Get c t k = f k t"
  shows "fst (mem_op c now x) = fst (ref_op f now x)
    \<and> (\<forall>t \<ge> now. \<forall>k. mem_Get (snd (mem_op c now x)) t k = snd (ref_op f now x) k t)"
proof (cases x)
  case (OpSetNX k v ttl)
  then show ?thesis using assms by (simp add: mem.setnx_put mem.put_get put_meaning_def)
qed (use assms in \<open>simp_all add: mem.put_get put_meaning_def mem.delete_get mem_sweep_get mem_prefix_get\<close>)

text \<open>
  C21: The janitor is invisible. Take any history of reads, writes, conditional writes, deletes, prefix
  deletes and sweeps of the janitor, at times that do not go back. Every read and every conditional
  write answers what it answers on the reference, a map from keys and times to values in which an
  entry is there up to its expiry and the sweeps do nothing.
\<close>

theorem cache_refines_map:
  assumes "sorted (map fst ops)"
  shows "run_ops mem_op newMemoryCache ops = run_ops ref_op (meaning newMemoryCache) ops"
proof -
  have "run_ops mem_op c ops = run_ops ref_op f ops"
    if "sorted (map fst ops)" and "\<forall>now x rest. ops = (now, x) # rest \<longrightarrow> (\<forall>t \<ge> now. \<forall>k. mem_Get c t k = f k t)"
    for c :: "'a memoryCache" and f
    using that
  proof (induction ops arbitrary: c f)
    case (Cons op ops)
    obtain now x where op: "op = (now, x)" by (cases op)
    obtain r c' where m: "mem_op c now x = (r, c')" by (cases "mem_op c now x")
    obtain r' f' where f: "ref_op f now x = (r', f')" by (cases "ref_op f now x")
    have step: "r = r'" "\<forall>t \<ge> now. \<forall>k. mem_Get c' t k = f' k t"
      using mem_op_refines [of now c f x] Cons.prems(2) by (simp_all add: op m f)
    have "run_ops mem_op c' ops = run_ops ref_op f' ops"
      by (rule Cons.IH) (use Cons.prems(1) step(2) in \<open>auto simp: op\<close>)
    then show ?case by (simp add: op m f step(1))
  qed simp
  then show ?thesis using assms by (simp add: meaning_def)
qed

theorem cache_refines_map_witness:
  "run_ops mem_op newMemoryCache [(0, OpSet ''k'' ''v'' 60), (61, OpSweep), (62, OpSetNX ''k'' ''w'' 0)]
   = [Done, Done, Stored True]"
  using cache_refines_map [of "[(0, OpSet ''k'' ''v'' 60), (61, OpSweep), (62, OpSetNX ''k'' ''w'' 0)]"]
  by (simp add: put_meaning_def)

section \<open>Reading through\<close>

lemma GetOrSet_reads_back:
  assumes "encode v = Some raw" and "decode raw = Some v" and "0 < ttl" and "later \<le> t" and "t \<le> later + ttl"
    and "mem_Get c now k = None"
    and "GetOrSet encode decode (MemoryCache c) now later k ttl (Inr v) = (r, c', called)"
  shows "r = (Some v, None) \<and> called \<and> GetOrSet encode decode c' t t' k ttl load = ((Some v, None), c', False)"
  using assms by (auto simp: GetOrSet_def GetJSON_def SetJSON_def mem.put_get)

section \<open>Keys\<close>

definition key_char :: "char \<Rightarrow> bool" where
  "key_char c = (is_lower c \<or> is_digit c \<or> c \<in> {CHR ''.'', CHR ''_'', CHR ''-''})"

lemma allowedKeyRune_char: "allowedKeyRune r \<Longrightarrow> key_char (chr r)"
proof -
  assume ok: "allowedKeyRune r"
  then have r: "r < 256" by (auto simp: allowedKeyRune_def)
  have "chr 46 = CHR ''.''" "chr 95 = CHR ''_''" "chr 45 = CHR ''-''" by code_simp+
  with ok r show ?thesis
    by (auto simp: allowedKeyRune_def key_char_def is_lower_def is_digit_def byte_chr)
qed

lemma normalize_chars: "list_all key_char (normalize_key part)"
proof -
  have "list_all key_char (key_loop rs b)" for rs b
    by (induction rs b rule: key_loop.induct) (auto simp: allowedKeyRune_char, simp add: key_char_def)
  then show ?thesis by (simp add: normalize_key_def)
qed

lemma colon_no_key: "\<not> key_char (CHR '':'')"
  by (simp add: key_char_def is_lower_def is_digit_def byte_def)

definition key_parts :: "string list \<Rightarrow> string list" where
  "key_parts parts = filter (\<lambda>n. n \<noteq> []) (map normalize_key parts)"

lemma Key_parts: "Key parts = join '':'' (key_parts parts)"
  by (simp add: Key_def key_parts_def)

lemma split_Key: "key_parts parts \<noteq> [] \<Longrightarrow> split_on (CHR '':'') (Key parts) = key_parts parts"
proof -
  have "\<forall>w \<in> set (key_parts parts). CHR '':'' \<notin> set w"
    using normalize_chars colon_no_key by (fastforce simp: key_parts_def list_all_iff)
  then show "key_parts parts \<noteq> [] \<Longrightarrow> ?thesis" unfolding Key_parts by (rule split_on_join [rotated])
qed

text \<open>
  Keys are unambiguous. A key consists of lower-case letters, digits, dots, underscores, dashes and
  the colons that separate its segments, and taking it apart at the colons gives back the normalized
  parts that are not empty. So two keys are equal exactly when they were built from the same
  segments: no part can smuggle a separator into a key of another kind.
\<close>

theorem Key_unambiguous:
  "list_all (\<lambda>c. key_char c \<or> c = CHR '':'') (Key ps)
   \<and> (Key ps = Key qs \<longleftrightarrow> key_parts ps = key_parts qs)"
proof
  have "list_all (\<lambda>c. key_char c \<or> c = CHR '':'') (join '':'' ws)" if "list_all (list_all key_char) ws" for ws
    using that by (induction ws rule: induct_list012) (auto simp: list_all_iff)
  moreover have "list_all (list_all key_char) (key_parts ps)"
    using normalize_chars by (auto simp: key_parts_def list_all_iff)
  ultimately show "list_all (\<lambda>c. key_char c \<or> c = CHR '':'') (Key ps)" by (simp add: Key_parts)
next
  have empty: "Key parts = [] \<longleftrightarrow> key_parts parts = []" for parts
    using join_nonempty [of "key_parts parts"] by (auto simp: Key_parts key_parts_def)
  show "Key ps = Key qs \<longleftrightarrow> key_parts ps = key_parts qs"
  proof
    assume eq: "Key ps = Key qs"
    show "key_parts ps = key_parts qs"
    proof (cases "key_parts ps = []")
      case True
      then show ?thesis using empty eq by metis
    next
      case False
      then have "key_parts qs \<noteq> []" using empty eq by metis
      with False split_Key [of ps] split_Key [of qs] eq show ?thesis by simp
    qed
  qed (simp add: Key_parts)
qed

end
