(* ===== verification/Rate_Limit.thy ===== *)
theory Rate_Limit
  imports Go_Duration
begin

text \<open>
  The stores of the rate limiter: the exact sliding window of \<^verbatim>\<open>src/server/middleware/ratelimit.go\<close>, which
  remembers every request, and the two weighted counters of \<^verbatim>\<open>ratelimitsql.go\<close>, with the
  floating-point arithmetic of the source.
\<close>

section \<open>Verdicts\<close>

record Decision =
  dec_Allowed :: bool
  dec_Bucket :: string
  dec_Limit :: int
  dec_Remaining :: int
  dec_RetryAfter :: int

section \<open>The store in memory\<close>

text \<open>A key without history has the empty list.\<close>

type_synonym windows = "string \<Rightarrow> int list"

definition NewMemoryStore :: windows where
  "NewMemoryStore = (\<lambda>_. [])"

definition window_key :: "string \<Rightarrow> string \<Rightarrow> string" where
  "window_key identifier bucket = identifier @ chr 0 # bucket"

definition Allow :: "windows \<Rightarrow> string \<Rightarrow> string \<Rightarrow> int \<Rightarrow> int \<Rightarrow> int \<Rightarrow> Decision \<times> windows" where
  "Allow ws identifier bucket limit window now =
     (if limit \<le> 0 \<or> window \<le> 0
      then (\<lparr>dec_Allowed = True, dec_Bucket = bucket, dec_Limit = limit, dec_Remaining = 0, dec_RetryAfter = 0\<rparr>, ws)
      else
      let key = window_key identifier bucket;
          cutoff = now - window;
          kept = filter (\<lambda>stamp. cutoff < stamp) (ws key)
      in if int (length kept) \<ge> limit then
           (\<lparr>dec_Allowed = False, dec_Bucket = bucket, dec_Limit = limit, dec_Remaining = 0,
             dec_RetryAfter = max 0 (hd kept + window - now)\<rparr>, ws(key := kept))
         else
           let kept' = kept @ [now]
           in (\<lparr>dec_Allowed = True, dec_Bucket = bucket, dec_Limit = limit,
                dec_Remaining = limit - int (length kept'), dec_RetryAfter = 0\<rparr>, ws(key := kept')))"

definition Purge :: "windows \<Rightarrow> int \<Rightarrow> windows" where
  "Purge ws cutoff = (\<lambda>key. filter (\<lambda>stamp. cutoff < stamp) (ws key))"

section \<open>The store in the database\<close>

record rate_row =
  rl_identifier :: string
  rl_bucket :: string
  rl_window :: int
  rl_count :: int
  rl_updated :: int

type_synonym 'a raction = "(rate_row list, 'a) action"

text \<open>
  The scan of the rows of the two windows: a row of the current one sets the first count, any other
  the second.
\<close>

definition readWindows :: "env \<Rightarrow> string \<Rightarrow> string \<Rightarrow> int \<Rightarrow> int \<Rightarrow> (int \<times> int) raction" where
  "readWindows e identifier bucket current previous =
     query e (\<lambda>rows. fold (\<lambda>r (cur, prev). if rl_window r = current then (rl_count r, prev) else (cur, rl_count r))
       (filter (\<lambda>r. rl_identifier r = identifier \<and> rl_bucket r = bucket
                  \<and> (rl_window r = current \<or> rl_window r = previous)) rows) (0, 0))"

definition rate_key_msg :: string where
  "rate_key_msg = ''UNIQUE constraint failed: rate_limits.identifier, rate_limits.bucket, rate_limits.window_start''"

definition countRequest :: "env \<Rightarrow> string \<Rightarrow> string \<Rightarrow> int \<Rightarrow> int \<Rightarrow> unit raction" where
  "countRequest e identifier bucket current now =
     (let mine = (\<lambda>r. rl_identifier r = identifier \<and> rl_bucket r = bucket \<and> rl_window r = current)
      in call (exec e (\<lambda>rows. Inr (count_where mine rows,
           update_where mine (\<lambda>r. r\<lparr>rl_count := rl_count r + 1, rl_updated := now\<rparr>) rows))) id (\<lambda>affected.
         if affected > 0 then ok ()
         else call (exec e (\<lambda>rows.
              if exists_where mine rows then Inl rate_key_msg
              else Inr (1, rows @ [\<lparr>rl_identifier = identifier, rl_bucket = bucket, rl_window = current,
                                    rl_count = 1, rl_updated = now\<rparr>]))) id (\<lambda>_. ok ())))"

text \<open>\<open>weight\<close> and \<open>estimate\<close>, each operation rounded as a \<open>float64\<close>.\<close>

definition window_weight :: "int \<Rightarrow> int \<Rightarrow> rat" where
  "window_weight elapsed window = f64 (1 - f64 (f64 (of_int elapsed) / f64 (of_int window)))"

definition window_estimate :: "int \<Rightarrow> int \<Rightarrow> rat \<Rightarrow> rat" where
  "window_estimate previousCount currentCount weight =
     f64 (f64 (f64 (of_int previousCount) * weight) + f64 (of_int currentCount))"

text \<open>The transaction of \<open>Allow\<close>: a refused request is rolled back, not committed.\<close>

definition rate_tx :: "env \<Rightarrow> Decision raction \<Rightarrow> Decision raction" where
  "rate_tx e body w =
     (case fault e (wtick w) of
        Some msg \<Rightarrow> (Inl (LibError msg), next_tick w)
      | None \<Rightarrow>
          (case body (next_tick w) of
             (Inl x, w') \<Rightarrow> (Inl x, w'\<lparr>wdb := wdb w\<rparr>)
           | (Inr d, w') \<Rightarrow>
               if \<not> dec_Allowed d then (Inr d, w'\<lparr>wdb := wdb w\<rparr>)
               else (case fault e (wtick w') of
                       Some msg \<Rightarrow> (Inl (LibError msg), (next_tick w')\<lparr>wdb := wdb w\<rparr>)
                     | None \<Rightarrow> (Inr d, next_tick w'))))"

definition sql_Allow :: "env \<Rightarrow> string \<Rightarrow> string \<Rightarrow> int \<Rightarrow> int \<Rightarrow> int \<Rightarrow> Decision raction" where
  "sql_Allow e identifier bucket limit window now =
     (if limit \<le> 0 \<or> window \<le> 0
      then ok \<lparr>dec_Allowed = True, dec_Bucket = bucket, dec_Limit = limit, dec_Remaining = 0, dec_RetryAfter = 0\<rparr>
      else
      let current = Truncate now window;
          previous = current - window;
          elapsed = now - current
      in rate_tx e
        (call (readWindows e identifier bucket current previous) id (\<lambda>(currentCount, previousCount).
         let estimate = window_estimate previousCount currentCount (window_weight elapsed window)
         in if f64 (estimate + 1) > f64 (of_int limit) then
              ok \<lparr>dec_Allowed = False, dec_Bucket = bucket, dec_Limit = limit, dec_Remaining = 0,
                  dec_RetryAfter = max 0 (window - elapsed)\<rparr>
            else
              call (countRequest e identifier bucket current now) id (\<lambda>_.
              ok \<lparr>dec_Allowed = True, dec_Bucket = bucket, dec_Limit = limit,
                  dec_Remaining = max 0 (limit - \<lfloor>estimate\<rfloor> - 1), dec_RetryAfter = 0\<rparr>))))"

definition sql_Purge :: "env \<Rightarrow> int \<Rightarrow> unit raction" where
  "sql_Purge e cutoff =
     call (exec e (\<lambda>rows. Inr (count_where (\<lambda>r. rl_window r < cutoff) rows,
                               delete_where (\<lambda>r. rl_window r < cutoff) rows))) id (\<lambda>_. ok ())"

end
