(* ===== verification/Rate_Windows.thy ===== *)
theory Rate_Windows
  imports Rate_Limit Fixtures
begin

text \<open>
  What the two stores of the rate limiter guarantee: the store in memory decides exactly as a sliding
  window over the full history would, and the counters never let more than the budget through.
\<close>

section \<open>The sliding window\<close>

text \<open>A history: requests of a client to a bucket, and purges of what is older than a cutoff.\<close>

datatype rate_event = Request string string int | PurgeAt int int

fun event_time :: "rate_event \<Rightarrow> int" where
  "event_time (Request identifier bucket now) = now"
| "event_time (PurgeAt now cutoff) = now"

text \<open>The budget of every bucket: its limit and its window.\<close>

type_synonym budget = "string \<Rightarrow> int \<times> int"

fun mem_run :: "budget \<Rightarrow> windows \<Rightarrow> rate_event list \<Rightarrow> bool list" where
  "mem_run p ws [] = []"
| "mem_run p ws (Request i b now # es) =
     (let (d, ws') = Allow ws i b (fst (p b)) (snd (p b)) now in dec_Allowed d # mem_run p ws' es)"
| "mem_run p ws (PurgeAt now cutoff # es) = mem_run p (Purge ws cutoff) es"

text \<open>The reference keeps every accepted request for ever and counts those of the window.\<close>

type_synonym history = "(string \<times> string \<times> int) list"

definition hits :: "history \<Rightarrow> string \<Rightarrow> string \<Rightarrow> int \<Rightarrow> int list" where
  "hits h i b since = map (\<lambda>(_, _, s). s) (filter (\<lambda>(j, c, s). j = i \<and> c = b \<and> since < s) h)"

definition accepts :: "budget \<Rightarrow> history \<Rightarrow> string \<Rightarrow> string \<Rightarrow> int \<Rightarrow> bool" where
  "accepts p h i b now =
     (let (limit, window) = p b
      in limit \<le> 0 \<or> window \<le> 0 \<or> int (length (hits h i b (now - window))) < limit)"

fun ref_run :: "budget \<Rightarrow> history \<Rightarrow> rate_event list \<Rightarrow> bool list \<times> history" where
  "ref_run p h [] = ([], h)"
| "ref_run p h (Request i b now # es) =
     (let a = accepts p h i b now;
          (as, h') = ref_run p (if a then h @ [(i, b, now)] else h) es
      in (a # as, h'))"
| "ref_run p h (PurgeAt now cutoff # es) = ref_run p h es"

text \<open>Identifiers and buckets have no NUL in them, and no purge cuts into a window.\<close>

fun sound_event :: "budget \<Rightarrow> rate_event \<Rightarrow> bool" where
  "sound_event p (Request i b now) \<longleftrightarrow> chr 0 \<notin> set i \<and> chr 0 \<notin> set b"
| "sound_event p (PurgeAt now cutoff) \<longleftrightarrow> (\<forall>b. cutoff \<le> now - snd (p b))"

definition limited :: "budget \<Rightarrow> string \<Rightarrow> bool" where
  "limited p b \<longleftrightarrow> 0 < fst (p b) \<and> 0 < snd (p b)"

definition agree :: "budget \<Rightarrow> int \<Rightarrow> windows \<Rightarrow> history \<Rightarrow> bool" where
  "agree p now ws h \<longleftrightarrow> (\<forall>i b t. chr 0 \<notin> set i \<longrightarrow> chr 0 \<notin> set b \<longrightarrow> limited p b \<longrightarrow> now \<le> t \<longrightarrow>
     filter (\<lambda>s. t - snd (p b) < s) (ws (window_key i b)) = hits h i b (t - snd (p b)))"

lemma window_key_inject:
  assumes "chr 0 \<notin> set i" "chr 0 \<notin> set j"
  shows "window_key i b = window_key j c \<longleftrightarrow> i = j \<and> b = c"
proof
  assume "window_key i b = window_key j c"
  then have "Cut (chr 0) (i @ chr 0 # b) = Cut (chr 0) (j @ chr 0 # c)" by (simp add: window_key_def)
  then show "i = j \<and> b = c" using assms by (simp add: Cut_append)
qed simp

lemma filter_later: "(a::int) \<le> b \<Longrightarrow> filter (\<lambda>s. a < s \<and> b < s) xs = filter ((<) b) xs"
  by (induction xs) auto

lemma hits_append: "hits (h @ [(j, c, s)]) i b since = hits h i b since @ (if j = i \<and> c = b \<and> since < s then [s] else [])"
  by (simp add: hits_def)

lemma request_agrees:
  assumes "agree p now0 ws h" and "now0 \<le> now" and "chr 0 \<notin> set i" "chr 0 \<notin> set b"
    and "Allow ws i b (fst (p b)) (snd (p b)) now = (d, ws')"
  shows "dec_Allowed d = accepts p h i b now
    \<and> agree p now ws' (if accepts p h i b now then h @ [(i, b, now)] else h)"
proof (cases "limited p b")
  case False
  then have out: "dec_Allowed d" "ws' = ws" "accepts p h i b now"
    using assms(5) by (auto simp: Allow_def limited_def accepts_def split_beta)
  have "agree p now ws (h @ [(i, b, now)])"
    using assms(1,2) False by (auto simp: agree_def hits_append)
  with out show ?thesis by simp
next
  case True
  define w where "w = snd (p b)"
  define kept where "kept = filter (\<lambda>s. now - w < s) (ws (window_key i b))"
  have kept: "kept = hits h i b (now - w)"
    using assms(1,2,3,4) True by (simp add: agree_def kept_def w_def)
  have acc: "accepts p h i b now \<longleftrightarrow> int (length kept) < fst (p b)"
    using True by (auto simp: accepts_def limited_def split_beta kept w_def)
  have d: "dec_Allowed d = accepts p h i b now"
    and ws': "ws' = ws(window_key i b := if accepts p h i b now then kept @ [now] else kept)"
    using assms(5) True acc by (auto simp: Allow_def limited_def Let_def kept_def w_def split: if_splits)
  have "agree p now ws' (if accepts p h i b now then h @ [(i, b, now)] else h)"
    unfolding agree_def
  proof (intro allI impI)
    fix j c t
    assume j: "chr 0 \<notin> set j" "chr 0 \<notin> set c" "limited p c" and t: "now \<le> t"
    have old: "filter (\<lambda>s. t - snd (p c) < s) (ws (window_key j c)) = hits h j c (t - snd (p c))"
      using assms(1,2) j t by (simp add: agree_def)
    have "filter (\<lambda>s. t - w < s) kept = hits h i b (t - w)" if "j = i" "c = b"
      using old that t by (simp add: kept_def filter_later w_def)
    then show "filter (\<lambda>s. t - snd (p c) < s) (ws' (window_key j c)) =
        hits (if accepts p h i b now then h @ [(i, b, now)] else h) j c (t - snd (p c))"
      using old window_key_inject [OF j(1) assms(3), of c b]
      by (auto simp: ws' hits_append w_def)
  qed
  with d show ?thesis by simp
qed

lemma purge_agrees:
  assumes "agree p now0 ws h" and "now0 \<le> now" and "\<forall>b. cutoff \<le> now - snd (p b)"
  shows "agree p now (Purge ws cutoff) h"
  unfolding agree_def
proof (intro allI impI)
  fix i b t
  assume ib: "chr 0 \<notin> set i" "chr 0 \<notin> set b" "limited p b" and t: "now \<le> t"
  then have "filter ((<) (t - snd (p b))) (ws (window_key i b)) = hits h i b (t - snd (p b))"
    using assms(1,2) by (simp add: agree_def)
  moreover have "cutoff \<le> now - snd (p b)" using assms(3) by blast
  with t have "cutoff \<le> t - snd (p b)" by linarith
  ultimately show "filter (\<lambda>s. t - snd (p b) < s) (Purge ws cutoff (window_key i b)) = hits h i b (t - snd (p b))"
    by (simp add: Purge_def filter_later)
qed

lemma mem_run_ref:
  "sorted (map event_time es) \<Longrightarrow> list_all (sound_event p) es \<Longrightarrow> agree p now ws h \<Longrightarrow>
   \<forall>ev \<in> set es. now \<le> event_time ev \<Longrightarrow> mem_run p ws es = fst (ref_run p h es)"
proof (induction es arbitrary: ws h now)
  case (Cons ev es)
  show ?case
  proof (cases ev)
    case (Request i b t)
    obtain d ws' where run: "Allow ws i b (fst (p b)) (snd (p b)) t = (d, ws')"
      by (cases "Allow ws i b (fst (p b)) (snd (p b)) t")
    note step = request_agrees [OF Cons.prems(3) _ _ _ run]
    have "mem_run p ws' es = fst (ref_run p (if accepts p h i b t then h @ [(i, b, t)] else h) es)"
      by (rule Cons.IH [where now = t]) (use Cons.prems step in \<open>auto simp: Request\<close>)
    then show ?thesis using step Cons.prems by (simp add: Request run split_beta Let_def)
  next
    case (PurgeAt t cutoff)
    have "mem_run p (Purge ws cutoff) es = fst (ref_run p h es)"
      by (rule Cons.IH [where now = t]) (use Cons.prems purge_agrees [OF Cons.prems(3), of t cutoff] in \<open>auto simp: PurgeAt\<close>)
    then show ?thesis by (simp add: PurgeAt)
  qed
qed simp

text \<open>The reference never lets more than the budget into any window.\<close>

definition within_budget :: "budget \<Rightarrow> history \<Rightarrow> bool" where
  "within_budget p h \<longleftrightarrow> (\<forall>i b t. limited p b \<longrightarrow>
     int (length (filter (\<lambda>s. s \<le> t) (hits h i b (t - snd (p b))))) \<le> fst (p b))"

lemma length_hits_mono: "a \<le> c \<Longrightarrow> length (hits h i b c) \<le> length (hits h i b a)"
  by (induction h) (auto simp: hits_def)

lemma ref_run_budget:
  "sorted (map event_time es) \<Longrightarrow> within_budget p h \<Longrightarrow>
   \<forall>ev \<in> set es. \<forall>(i, b, s) \<in> set h. s \<le> event_time ev \<Longrightarrow> within_budget p (snd (ref_run p h es))"
proof (induction es arbitrary: h)
  case (Cons ev es)
  show ?case
  proof (cases ev)
    case (Request i b now)
    have all: "s \<le> now" if "(j, c, s) \<in> set h" for j c s using Cons.prems(3) that Request by fastforce
    define h' where "h' = (if accepts p h i b now then h @ [(i, b, now)] else h)"
    have "within_budget p h'"
      unfolding within_budget_def
    proof (intro allI impI)
      fix j c t
      assume lim: "limited p c"
      have old: "int (length (filter (\<lambda>s. s \<le> t) (hits h j c (t - snd (p c))))) \<le> fst (p c)"
        using Cons.prems(2) lim by (simp add: within_budget_def)
      show "int (length (filter (\<lambda>s. s \<le> t) (hits h' j c (t - snd (p c))))) \<le> fst (p c)"
      proof (cases "accepts p h i b now \<and> j = i \<and> c = b \<and> now \<le> t")
        case True
        have "length (filter (\<lambda>s. s \<le> t) (hits h i b (t - snd (p b)))) \<le> length (hits h i b (now - snd (p b)))"
          using length_hits_mono [of "now - snd (p b)" "t - snd (p b)" h i b] True
          by (intro le_trans [OF length_filter_le]) simp
        then show ?thesis using True lim
          by (auto simp: h'_def hits_append accepts_def limited_def split_beta)
      next
        case False
        then show ?thesis using old by (auto simp: h'_def hits_append)
      qed
    qed
    moreover have "\<forall>ev \<in> set es. \<forall>(j, c, s) \<in> set h'. s \<le> event_time ev"
      using Cons.prems(1,3) Request by (fastforce simp: h'_def split: if_splits)
    ultimately have "within_budget p (snd (ref_run p h' es))" using Cons.IH Cons.prems(1) by simp
    then show ?thesis by (simp add: Request h'_def split_beta Let_def)
  next
    case (PurgeAt now cutoff)
    then show ?thesis using Cons by auto
  qed
qed simp

text \<open>
  C22: The store in memory is an exact sliding window. For requests at times that do not go
  back, of any clients to any buckets with fixed budgets, mixed with purges of requests older than
  every window, the verdicts are those of a reference that never forgets a request: a request is let
  through exactly when fewer than the limit were let through in the window before it. And in no
  window of time of a bucket's length does a client get more requests through than the limit.
\<close>

theorem memory_store_exact:
  assumes "sorted (map event_time es)" and "list_all (sound_event p) es"
  shows "mem_run p NewMemoryStore es = fst (ref_run p [] es)
    \<and> (\<forall>i b t. 0 < fst (p b) \<longrightarrow> 0 < snd (p b) \<longrightarrow>
         int (length (filter (\<lambda>s. s \<le> t) (hits (snd (ref_run p [] es)) i b (t - snd (p b))))) \<le> fst (p b))"
proof -
  have "mem_run p NewMemoryStore es = fst (ref_run p [] es)"
  proof (cases es)
    case (Cons ev rest)
    have "agree p (event_time ev) NewMemoryStore []" by (simp add: agree_def NewMemoryStore_def hits_def)
    moreover have "\<forall>x \<in> set es. event_time ev \<le> event_time x" using assms(1) Cons by auto
    ultimately show ?thesis using assms by (intro mem_run_ref)
  qed simp
  moreover have "within_budget p (snd (ref_run p [] es))"
    using assms(1) by (intro ref_run_budget) (auto simp: within_budget_def hits_def limited_def)
  ultimately show ?thesis by (simp add: within_budget_def limited_def)
qed

lemma chr_0: "chr 0 = CHR 0x00"
  by code_simp

definition demo_events :: "rate_event list" where
  "demo_events = [Request ''ip'' ''read'' 0, Request ''ip'' ''read'' 5, Request ''ip'' ''read'' 9, PurgeAt 10 0,
     Request ''ip'' ''read'' 10]"

theorem memory_store_exact_witness:
  "mem_run (\<lambda>_. (2, 10)) NewMemoryStore demo_events = [True, True, False, True]"
proof -
  have "sorted (map event_time demo_events)" "list_all (sound_event (\<lambda>_. (2, 10))) demo_events"
    by (simp_all add: demo_events_def chr_0)
  from memory_store_exact [OF this]
  have "mem_run (\<lambda>_. (2, 10)) NewMemoryStore demo_events = fst (ref_run (\<lambda>_. (2, 10)) [] demo_events)" by blast
  also have "\<dots> = [True, True, False, True]" by (simp add: demo_events_def accepts_def hits_def)
  finally show ?thesis .
qed

section \<open>The counters\<close>

text \<open>The count of a client in a window: the row of that key.\<close>

definition rate_key :: "rate_row \<Rightarrow> string \<times> string \<times> int" where
  "rate_key r = (rl_identifier r, rl_bucket r, rl_window r)"

definition count_in :: "rate_row list \<Rightarrow> string \<times> string \<times> int \<Rightarrow> int" where
  "count_in rows k = (case find_where (\<lambda>r. rate_key r = k) rows of None \<Rightarrow> 0 | Some r \<Rightarrow> rl_count r)"

definition rate_ok :: "budget \<Rightarrow> rate_row list \<Rightarrow> bool" where
  "rate_ok p rows \<longleftrightarrow> unique_on rate_key rows
     \<and> (\<forall>r \<in> set rows. 0 \<le> rl_count r \<and> rl_count r \<le> fst (p (rl_bucket r)))"

text \<open>A run of requests, each with its verdict, and how many of a client a window let through.\<close>

definition verdict :: "err + Decision \<Rightarrow> bool" where
  "verdict r = (case r of Inl x \<Rightarrow> False | Inr d \<Rightarrow> dec_Allowed d)"

fun sql_run :: "env \<Rightarrow> budget \<Rightarrow> (string \<times> string \<times> int) list \<Rightarrow> rate_row list world
    \<Rightarrow> bool list \<times> rate_row list world" where
  "sql_run e p [] w = ([], w)"
| "sql_run e p ((i, b, now) # rs) w =
     (let (r, w1) = sql_Allow e i b (fst (p b)) (snd (p b)) now w;
          (vs, w2) = sql_run e p rs w1
      in (verdict r # vs, w2))"

definition admitted ::
  "budget \<Rightarrow> (string \<times> string \<times> int) list \<Rightarrow> bool list \<Rightarrow> string \<times> string \<times> int \<Rightarrow> int"
where
  "admitted p rs vs k =
     int (length (filter (\<lambda>((i, b, now), v). v \<and> (i, b, Truncate now (snd (p b))) = k) (zip rs vs)))"

lemma fold_windows:
  assumes "unique_on rate_key rows"
  shows "fst (fold (\<lambda>r (cur, prev). if rl_window r = current then (rl_count r, prev) else (cur, rl_count r))
      (filter (\<lambda>r. rl_identifier r = i \<and> rl_bucket r = b \<and> (rl_window r = current \<or> rl_window r = previous)) rows) (x, y))
    = (case find_where (\<lambda>r. rate_key r = (i, b, current)) rows of None \<Rightarrow> x | Some r \<Rightarrow> rl_count r)"
  using assms
proof (induction rows arbitrary: x y)
  case (Cons r rows)
  have u: "unique_on rate_key rows" "\<And>s. s \<in> set rows \<Longrightarrow> rate_key s \<noteq> rate_key r"
    using Cons.prems by (auto simp: unique_on_def image_iff)
  show ?case
  proof (cases "rate_key r = (i, b, current)")
    case True
    with u(2) have "find_where (\<lambda>r. rate_key r = (i, b, current)) rows = None" by (auto simp: find_where_None)
    with True show ?thesis using Cons.IH [OF u(1)] by (simp add: find_where_Cons rate_key_def)
  next
    case False
    then show ?thesis using Cons.IH [OF u(1)] by (auto simp: find_where_Cons rate_key_def)
  qed
qed simp

lemma readWindows_current:
  assumes "readWindows e i b current previous w = (Inr (c, q), w1)" and "unique_on rate_key (wdb w)"
  shows "c = count_in (wdb w) (i, b, current) \<and> wdb w1 = wdb w"
proof -
  have "c = fst (c, q)" by simp
  also have "\<dots> = count_in (wdb w) (i, b, current)"
    using assms(1) fold_windows [OF assms(2), of current i b previous 0 0]
    by (simp add: readWindows_def query_returns count_in_def)
  finally show ?thesis using assms(1) by (auto simp: readWindows_def query_returns)
qed

lemma estimate_room:
  assumes "0 \<le> c" and "c \<le> limit" and "limit < 2 ^ 52"
    and "\<not> f64 (window_estimate q c weight + 1) > f64 (of_int limit)"
  shows "c < limit"
proof (rule ccontr)
  assume "\<not> c < limit"
  then have c: "c = limit" using assms(2) by simp
  have int: "f64 (of_int n) = of_int n" if "0 \<le> n" "n \<le> limit + 1" for n
    using f64_nat [of "nat n"] that assms(3) by simp
  have "of_int limit \<le> window_estimate q c weight"
    unfolding window_estimate_def using c assms(1) int [of limit]
      f64_mono [of "f64 (of_int limit)" "f64 (f64 (of_int q) * weight) + f64 (of_int c)"] by simp
  then have "f64 (of_int (limit + 1)) \<le> f64 (window_estimate q c weight + 1)" by (intro f64_mono) simp
  then show False using assms(1,4) c int [of "limit + 1"] int [of limit] by simp
qed

lemma update_where_none: "\<forall>r \<in> set rows. \<not> q r \<Longrightarrow> update_where q f rows = rows"
  by (simp add: update_where_def map_idI)

lemma countRequest_counts:
  assumes "countRequest e i b current now w = (Inr u, w1)" and "unique_on rate_key (wdb w)"
  shows "unique_on rate_key (wdb w1)
    \<and> count_in (wdb w1) k = count_in (wdb w) k + (if k = (i, b, current) then 1 else 0)
    \<and> (\<forall>r \<in> set (wdb w1). r \<in> set (wdb w) \<or> rate_key r = (i, b, current))"
proof -
  define mine where "mine r \<longleftrightarrow> rl_identifier r = i \<and> rl_bucket r = b \<and> rl_window r = current" for r :: rate_row
  define rows where "rows = wdb w"
  have mine_eq: "(\<lambda>r. rl_identifier r = i \<and> rl_bucket r = b \<and> rl_window r = current) = mine"
    by (auto simp: mine_def)
  have mine: "mine r \<longleftrightarrow> rate_key r = (i, b, current)" for r by (simp add: mine_def rate_key_def)
  consider "\<exists>r \<in> set rows. mine r"
      "wdb w1 = update_where mine (\<lambda>r. r\<lparr>rl_count := rl_count r + 1, rl_updated := now\<rparr>) rows"
    | "\<forall>r \<in> set rows. \<not> mine r"
      "wdb w1 = rows @ [\<lparr>rl_identifier = i, rl_bucket = b, rl_window = current, rl_count = 1, rl_updated = now\<rparr>]"
    using assms(1) count_where_nonneg [of mine rows]
    by (auto simp: update_where_none countRequest_def Let_def call_returns exec_returns ok_def mine_eq rows_def
        split: if_splits)
  then show ?thesis
  proof cases
    case 1
    define bump where "bump r = r\<lparr>rl_count := rl_count r + 1, rl_updated := now\<rparr>" for r :: rate_row
    define rows' where "rows' = update_where mine bump rows"
    have w1: "wdb w1 = rows'" unfolding rows'_def using 1(2) bump_def [abs_def] by metis
    have key: "rate_key (bump r) = rate_key r" and count: "rl_count (bump r) = rl_count r + 1" for r
      by (simp_all add: bump_def rate_key_def)
    obtain r where r: "find_where (\<lambda>r. rate_key r = (i, b, current)) rows = Some r"
      using 1(1) find_where_ex [of _ rows "\<lambda>r. rate_key r = (i, b, current)"] by (auto simp: mine)
    have "unique_on rate_key rows'"
      using assms(2) by (simp add: rows'_def rows_def unique_on_update key)
    moreover have "count_in rows' k = count_in rows k + (if k = (i, b, current) then 1 else 0)"
      unfolding count_in_def rows'_def find_where_update_key [where f = bump and key = rate_key, OF key] using r
      by (auto simp: mine count dest!: find_where_SomeD split: option.splits)
    moreover have "\<forall>s \<in> set rows'. s \<in> set rows \<or> rate_key s = (i, b, current)"
      unfolding rows'_def ball_update_where by (simp add: mine key)
    ultimately show ?thesis by (simp add: w1 rows_def)
  next
    case 2
    then have "find_where (\<lambda>r. rate_key r = (i, b, current)) rows = None" by (simp add: find_where_None mine)
    with 2 assms(2) show ?thesis
      by (auto simp: unique_on_append1 count_in_def find_where_append find_where_Cons mine rows_def [symmetric]
          rate_key_def split: option.splits)
  qed
qed

lemma rate_tx_effect:
  assumes "rate_tx e body w = (r, w1)"
  shows "wdb w1 = wdb w \<and> (\<forall>d. r = Inr d \<longrightarrow> \<not> dec_Allowed d)
    \<or> (\<exists>d w2. r = Inr d \<and> dec_Allowed d \<and> body (next_tick w) = (Inr d, w2) \<and> wdb w1 = wdb w2)"
  using assms by (auto simp: rate_tx_def split: option.splits prod.splits sum.splits if_splits)

text \<open>A request changes the table only by counting itself, and only when there is room for it.\<close>

lemma sql_Allow_effect:
  assumes run: "sql_Allow e i b limit window now w = (r, w1)"
    and pos: "0 < limit" "0 < window" "limit < 2 ^ 52"
    and unique: "unique_on rate_key (wdb w)"
    and bounds: "0 \<le> count_in (wdb w) (i, b, Truncate now window)"
      "count_in (wdb w) (i, b, Truncate now window) \<le> limit"
  shows "\<not> verdict r \<and> wdb w1 = wdb w
    \<or> verdict r \<and> unique_on rate_key (wdb w1)
      \<and> count_in (wdb w) (i, b, Truncate now window) < limit
      \<and> (\<forall>k. count_in (wdb w1) k = count_in (wdb w) k + (if k = (i, b, Truncate now window) then 1 else 0))
      \<and> (\<forall>s \<in> set (wdb w1). s \<in> set (wdb w) \<or> rate_key s = (i, b, Truncate now window))"
proof -
  define start where "start = Truncate now window"
  define weight where "weight = window_weight (now - start) window"
  define body where "body =
    call (readWindows e i b start (start - window)) id (\<lambda>(c, q).
      let estimate = window_estimate q c weight
      in if f64 (estimate + 1) > f64 (of_int limit) then
           ok \<lparr>dec_Allowed = False, dec_Bucket = b, dec_Limit = limit, dec_Remaining = 0,
               dec_RetryAfter = max 0 (window - (now - start))\<rparr>
         else call (countRequest e i b start now) id (\<lambda>_.
           ok \<lparr>dec_Allowed = True, dec_Bucket = b, dec_Limit = limit,
               dec_Remaining = max 0 (limit - \<lfloor>estimate\<rfloor> - 1), dec_RetryAfter = 0\<rparr>))"
  have tx: "rate_tx e body w = (r, w1)"
    using run pos unfolding body_def start_def weight_def sql_Allow_def Let_def by simp
  from rate_tx_effect [OF tx] show ?thesis
  proof (elim disjE exE conjE)
    fix d w2
    assume r: "r = Inr d" "dec_Allowed d" and body: "body (next_tick w) = (Inr d, w2)" and w1: "wdb w1 = wdb w2"
    obtain c q w3 w4 where read: "readWindows e i b start (start - window) (next_tick w) = (Inr (c, q), w3)"
      and room: "\<not> f64 (window_estimate q c weight + 1) > f64 (of_int limit)"
      and counted: "countRequest e i b start now w3 = (Inr (), w4)" and w2: "w2 = w4"
      using body r(2) by (auto simp: body_def Let_def call_returns ok_def split: if_splits)
    have "unique_on rate_key (wdb (next_tick w))" using unique by simp
    note readWindows_current [OF read this]
    then have c: "c = count_in (wdb w) (i, b, start)" and w3: "wdb w3 = wdb w" by simp_all
    have "c < limit"
      using bounds unfolding start_def [symmetric] c [symmetric] by (rule estimate_room [OF _ _ pos(3) room])
    then have "count_in (wdb w) (i, b, start) < limit" unfolding c .
    moreover have "unique_on rate_key (wdb w3)" using unique by (simp add: w3)
    note counts = countRequest_counts [OF counted this, unfolded w3, folded w2, folded w1]
    moreover have "\<forall>k. count_in (wdb w1) k = count_in (wdb w) k + (if k = (i, b, start) then 1 else 0)"
      using counts by blast
    moreover have "verdict r" using r by (simp add: verdict_def)
    ultimately show ?thesis unfolding start_def [symmetric] by blast
  qed (auto simp: verdict_def split: sum.splits)
qed

lemma sql_Allow_unlimited:
  assumes "sql_Allow e i b limit window now w = (r, w1)" and "limit \<le> 0 \<or> window \<le> 0"
  shows "verdict r \<and> w1 = w"
  using assms by (auto simp: sql_Allow_def verdict_def ok_def)

lemma rate_ok_count:
  assumes "rate_ok p rows" and "0 \<le> fst (p b)"
  shows "0 \<le> count_in rows (i, b, s) \<and> count_in rows (i, b, s) \<le> fst (p b)"
  using assms by (auto simp: rate_ok_def count_in_def rate_key_def dest!: find_where_SomeD split: option.splits)

lemma count_in_row: "unique_on rate_key rows \<Longrightarrow> r \<in> set rows \<Longrightarrow> count_in rows (rate_key r) = rl_count r"
  by (simp add: count_in_def find_where_key)

text \<open>One request, in terms of the counts: the table stays sound and gains exactly the verdict.\<close>

lemma sql_Allow_step:
  assumes run: "sql_Allow e i b (fst (p b)) (snd (p b)) now w = (r, w1)"
    and lim: "limited p b" "fst (p b) < 2 ^ 52" and sound: "rate_ok p (wdb w)"
  shows "rate_ok p (wdb w1)" (is ?sound)
    and "count_in (wdb w1) k = count_in (wdb w) k
           + (if verdict r \<and> k = (i, b, Truncate now (snd (p b))) then 1 else 0)" (is ?count)
proof -
  define me where "me = (i, b, Truncate now (snd (p b)))"
  have unique: "unique_on rate_key (wdb w)" using sound by (simp add: rate_ok_def)
  have pos: "0 < fst (p b)" "0 < snd (p b)" using lim(1) by (simp_all add: limited_def)
  have bounds: "0 \<le> count_in (wdb w) me \<and> count_in (wdb w) me \<le> fst (p b)"
    unfolding me_def using pos by (intro rate_ok_count sound) simp
  consider "\<not> verdict r" "wdb w1 = wdb w"
    | "verdict r" "unique_on rate_key (wdb w1)" "count_in (wdb w) me < fst (p b)"
      "\<And>k. count_in (wdb w1) k = count_in (wdb w) k + (if k = me then 1 else 0)"
      "\<forall>s \<in> set (wdb w1). s \<in> set (wdb w) \<or> rate_key s = me"
    using sql_Allow_effect [OF run pos lim(2) unique, folded me_def] bounds by blast
  then have "?sound \<and> ?count"
  proof cases
    case 2
    have "0 \<le> rl_count s \<and> rl_count s \<le> fst (p (rl_bucket s))" if s: "s \<in> set (wdb w1)" for s
    proof (cases "rate_key s = me")
      case True
      then have "rl_count s = count_in (wdb w) me + 1" and "rl_bucket s = b"
        using count_in_row [OF 2(2) s] 2(4) by (auto simp: me_def rate_key_def)
      with bounds 2(3) show ?thesis by simp
    next
      case False
      with 2(5) s have "s \<in> set (wdb w)" by blast
      with sound show ?thesis by (simp add: rate_ok_def)
    qed
    with 2 show ?thesis by (simp add: rate_ok_def me_def)
  qed (use sound in simp)
  then show ?sound ?count by auto
qed

lemma admitted_Cons:
  "admitted p ((i, b, now) # rs) (v # vs) k
    = (if v \<and> (i, b, Truncate now (snd (p b))) = k then 1 else 0) + admitted p rs vs k"
  by (auto simp: admitted_def)

lemma sql_run_counts:
  assumes "sql_run e p rs w = (vs, w1)" and "rate_ok p (wdb w)" and "\<And>b. fst (p b) < 2 ^ 52"
  shows "rate_ok p (wdb w1)
    \<and> (limited p b \<longrightarrow> count_in (wdb w1) (i, b, s) = count_in (wdb w) (i, b, s) + admitted p rs vs (i, b, s))"
  using assms(1,2)
proof (induction rs arbitrary: w vs)
  case (Cons q rs)
  obtain j c now where q: "q = (j, c, now)" by (cases q)
  obtain r w2 where call: "sql_Allow e j c (fst (p c)) (snd (p c)) now w = (r, w2)" by fastforce
  obtain vs' where rest: "sql_run e p rs w2 = (vs', w1)" and vs: "vs = verdict r # vs'"
    using Cons.prems(1) by (auto simp: q call split: prod.splits)
  show ?case
  proof (cases "limited p c")
    case True
    note step = sql_Allow_step [OF call True assms(3) Cons.prems(2)]
    from Cons.IH [OF rest step(1)] step(2) [of "(i, b, s)"] show ?thesis
      by (auto simp: q vs admitted_Cons)
  next
    case False
    then have "w2 = w" using sql_Allow_unlimited [OF call] by (auto simp: limited_def)
    with Cons.IH [OF rest] Cons.prems(2) False show ?thesis by (auto simp: q vs admitted_Cons)
  qed
qed (simp add: admitted_def)

text \<open>
  C23: The store in the database is safe whatever the database does. From an empty table, with
  limits below \<open>2 ^ 52\<close> (where the floating-point estimate is exact enough), and for every sequence
  of requests in any order with any statement failing, the row of a client, a bucket and a window
  counts exactly the requests let through there, and these never exceed the limit.
\<close>

theorem sql_store_bounded:
  assumes "wdb w = []" and "sql_run e p rs w = (vs, w1)"
    and "\<And>b. fst (p b) < 2 ^ 52" and "0 < fst (p b)" and "0 < snd (p b)"
  shows "count_in (wdb w1) (i, b, s) = admitted p rs vs (i, b, s) \<and> admitted p rs vs (i, b, s) \<le> fst (p b)"
proof -
  have "rate_ok p (wdb w)" by (simp add: assms(1) rate_ok_def)
  from sql_run_counts [OF assms(2) this assms(3), of b i s] assms(1,4,5)
  have "rate_ok p (wdb w1)" "count_in (wdb w1) (i, b, s) = admitted p rs vs (i, b, s)"
    by (auto simp: limited_def count_in_def)
  with rate_ok_count [of p "wdb w1" b i s] assms(4) show ?thesis by simp
qed

definition demo_requests :: "(string \<times> string \<times> int) list" where
  "demo_requests = [(''ip'', ''read'', 13), (''ip'', ''read'', 15), (''ip'', ''read'', 17)]"

lemma f64_small [simp]: "f64 1 = 1" "f64 2 = 2" "f64 3 = 3"
  using f64_nat [of 1] f64_nat [of 2] f64_nat [of 3] by simp_all

lemma demo_windows: "Truncate 13 10 = 10" "Truncate 15 10 = 10" "Truncate 17 10 = 10"
  by (simp_all add: Truncate_def zero_instant_def second_def)

lemma demo_requests_run:
  "\<exists>w. sql_run demo_env (\<lambda>_. (2, 10)) demo_requests \<lparr>wdb = [], wtick = 0, wrand = 0\<rparr> = ([True, True, False], w)"
  by (simp add: demo_requests_def demo_windows sql_Allow_def rate_tx_def call_def try_call_def query_def exec_def
      ok_def fail_def readWindows_def countRequest_def window_estimate_def verdict_def update_where_def
      count_where_def next_tick_def Let_def)

theorem sql_store_bounded_witness:
  "\<exists>vs w. sql_run demo_env (\<lambda>_. (2, 10)) demo_requests \<lparr>wdb = [], wtick = 0, wrand = 0\<rparr> = (vs, w)
    \<and> vs = [True, True, False] \<and> count_in (wdb w) (''ip'', ''read'', 10) = 2"
proof -
  obtain w where run: "sql_run demo_env (\<lambda>_. (2, 10)) demo_requests \<lparr>wdb = [], wtick = 0, wrand = 0\<rparr> =
      ([True, True, False], w)" using demo_requests_run by blast
  have "count_in (wdb w) (''ip'', ''read'', 10) =
      admitted (\<lambda>_. (2, 10)) demo_requests [True, True, False] (''ip'', ''read'', 10)"
    by (rule conjunct1 [OF sql_store_bounded [OF _ run]]) simp_all
  also have "\<dots> = 2" by (simp add: admitted_def demo_requests_def demo_windows)
  finally show ?thesis using run by blast
qed

end
