(* ===== verification/Backup_Files.thy ===== *)
theory Backup_Files
  imports Go_Duration Totp "HOL-Library.Multiset" "HOL-Library.Word"
begin

text \<open>
  The backup files: their names and tiers (\<^verbatim>\<open>src/backup/filename.go\<close>) and the sweep that selects what to
  delete (\<^verbatim>\<open>retention.go\<close>). \<open>sort.Slice\<close> is not stable, so the sort is an argument: any function that
  returns the list in order. Sizes are summed in 64 bits, as in the source.
\<close>

section \<open>Names\<close>

text \<open>The layouts \<open>2006-01-02\<close> and \<open>150405\<close>.\<close>

definition format_date :: "location \<Rightarrow> int \<Rightarrow> string" where
  "format_date loc t =
     (let d = date_of_days (local_days loc t)
      in (if date_Year d < 0 then ''-'' else []) @ zero_padded 4 (nat \<bar>date_Year d\<bar>) @ ''-'' @ zero_padded 2 (date_Month d)
         @ ''-'' @ zero_padded 2 (date_Day d))"

definition format_time :: "location \<Rightarrow> int \<Rightarrow> string" where
  "format_time loc t =
     (let s = nat (local_seconds loc t mod 86400)
      in zero_padded 2 (s div 3600) @ zero_padded 2 (s mod 3600 div 60) @ zero_padded 2 (s mod 60))"

text \<open>
  \<open>time.Parse\<close> with these layouts, of a text that is already known to have the digits in place: the
  instant in UTC, or nothing for a month, day, hour, minute or second that does not exist.
\<close>

definition parse_date :: "string \<Rightarrow> int option" where
  "parse_date s =
     (let d = \<lparr>date_Year = int (atoi_digits (take 4 s)), date_Month = atoi_digits (take 2 (drop 5 s)),
               date_Day = atoi_digits (take 2 (drop 8 s))\<rparr>
      in if valid_date d then Some (days_of_date d * day) else None)"

definition parse_date_time :: "string \<Rightarrow> string \<Rightarrow> int option" where
  "parse_date_time ds ts =
     (let h = atoi_digits (take 2 ts); m = atoi_digits (take 2 (drop 2 ts)); s = atoi_digits (drop 4 ts)
      in case parse_date ds of
           None \<Rightarrow> None
         | Some t \<Rightarrow> if h < 24 \<and> m < 60 \<and> s < 60 then Some (t + int (h * 3600 + m * 60 + s) * second) else None)"

definition ext :: "bool \<Rightarrow> string" where
  "ext encrypted = (if encrypted then ''.tar.gz.enc'' else ''.tar.gz'')"

definition FullFilename :: "string \<Rightarrow> location \<Rightarrow> int \<Rightarrow> bool \<Rightarrow> string" where
  "FullFilename project loc t encrypted = project @ ''_backup_'' @ format_date loc t @ ext encrypted"

definition ManualFilename :: "string \<Rightarrow> location \<Rightarrow> int \<Rightarrow> bool \<Rightarrow> string" where
  "ManualFilename project loc t encrypted =
     project @ ''_backup_'' @ format_date loc t @ ''_'' @ format_time loc t @ ext encrypted"

definition DailyIncrementalFilename :: "string \<Rightarrow> bool \<Rightarrow> string" where
  "DailyIncrementalFilename project encrypted = project @ ''-daily'' @ ext encrypted"

definition HourlyIncrementalFilename :: "string \<Rightarrow> bool \<Rightarrow> string" where
  "HourlyIncrementalFilename project encrypted = project @ ''-hourly'' @ ext encrypted"

section \<open>Tiers\<close>

datatype tier = classDaily | classWeekly | classMonthly | classYearly | classIncremental

text \<open>A file; its path in the directory is left out, it is the directory and the name.\<close>

record File =
  file_Name :: string
  file_Date :: int
  file_Size :: int
  file_Class :: tier

text \<open>A date that was parsed is in UTC, a time of modification in the location of the server.\<close>

definition classify :: "location \<Rightarrow> int \<Rightarrow> tier" where
  "classify loc d =
     (if Month loc d = 1 \<and> Day loc d = 1 then classYearly
      else if Day loc d = 1 then classMonthly
      else if Weekday loc d = 0 then classWeekly
      else classDaily)"

section \<open>Patterns\<close>

definition rx_digit :: rx where "rx_digit = RCls [(48, 57)]"

definition rx_date :: rx where
  "rx_date = RSeq (RTimes 4 rx_digit) (RSeq (RLit ''-'') (RSeq (RTimes 2 rx_digit) (RSeq (RLit ''-'') (RTimes 2 rx_digit))))"

definition rx_ext :: rx where
  "rx_ext = RSeq (RLit ''.tar.gz'') (ROpt (RLit ''.enc''))"

text \<open>\<open>\S\<close>: any byte but tab, newline, form feed, carriage return and space.\<close>

definition rx_nonspace :: rx where
  "rx_nonspace = RCls [(0, 8), (11, 11), (14, 31), (33, 255)]"

record filenamePatterns =
  pat_full :: rx
  pat_manual :: rx
  pat_dailyIncr :: rx
  pat_hourlyIncr :: rx
  pat_genericFull :: rx

definition newFilenamePatterns :: "string \<Rightarrow> filenamePatterns" where
  "newFilenamePatterns project =
     \<lparr>pat_full = RSeq (RLit project) (RSeq (RLit ''_backup_'') (RSeq rx_date rx_ext)),
      pat_manual = RSeq (RLit project) (RSeq (RLit ''_backup_'') (RSeq rx_date (RSeq (RLit ''_'')
                     (RSeq (RTimes 6 rx_digit) rx_ext)))),
      pat_dailyIncr = RSeq (RLit project) (RSeq (RLit ''-daily'') rx_ext),
      pat_hourlyIncr = RSeq (RLit project) (RSeq (RLit ''-hourly'') rx_ext),
      pat_genericFull = RSeq (RLit project) (RSeq (RAlt (RLit ''_backup_'') (RLit ''-'')) (RSeq (RStar rx_nonspace) rx_ext))\<rparr>"

text \<open>The captured groups have a fixed place: the ten bytes after \<open>_backup_\<close>, and the six after those and a dash.\<close>

definition date_group :: "string \<Rightarrow> string \<Rightarrow> string" where
  "date_group project name = take 10 (drop (length project + 8) name)"

definition time_group :: "string \<Rightarrow> string \<Rightarrow> string" where
  "time_group project name = take 6 (drop (length project + 19) name)"

definition ClassifyFile :: "location \<Rightarrow> string \<Rightarrow> string \<Rightarrow> int \<Rightarrow> int \<Rightarrow> File option" where
  "ClassifyFile loc project name fsize modTime =
     (let p = newFilenamePatterns project;
          file = (\<lambda>l d. \<lparr>file_Name = name, file_Date = d, file_Size = fsize, file_Class = classify l d\<rparr>)
      in if rx_match (pat_full p) name then
           (case parse_date (date_group project name) of
              None \<Rightarrow> Some (file loc modTime) | Some d \<Rightarrow> Some (file UTC d))
         else if rx_match (pat_manual p) name then
           (case parse_date_time (date_group project name) (time_group project name) of
              None \<Rightarrow> Some (file loc modTime) | Some d \<Rightarrow> Some (file UTC d))
         else if rx_match (pat_dailyIncr p) name \<or> rx_match (pat_hourlyIncr p) name then
           Some \<lparr>file_Name = name, file_Date = modTime, file_Size = fsize, file_Class = classIncremental\<rparr>
         else if rx_match (pat_genericFull p) name then Some (file loc modTime)
         else None)"

text \<open>\<open>ScanDir\<close> over the entries of a directory that was read: directories and foreign names are left out.\<close>

record dir_entry =
  entry_Name :: string
  entry_IsDir :: bool
  entry_Size :: int
  entry_ModTime :: int

definition ScanDir :: "location \<Rightarrow> string \<Rightarrow> dir_entry list \<Rightarrow> File list" where
  "ScanDir loc project es =
     List.map_filter (\<lambda>en. if entry_IsDir en then None
       else ClassifyFile loc project (entry_Name en) (entry_Size en) (entry_ModTime en)) es"

section \<open>Switched off\<close>

definition normalizeFalsey :: "string \<Rightarrow> string" where
  "normalizeFalsey s =
     map (\<lambda>c. if 65 \<le> byte c \<and> byte c \<le> 90 then chr (byte c + 32) else c)
       (filter (\<lambda>c. byte c \<notin> {32, 9, 10, 13}) s)"

definition isFalsey :: "string \<Rightarrow> bool" where
  "isFalsey s = (normalizeFalsey s \<in> {[], ''0'', ''false'', ''no'', ''none'', ''disable'', ''disabled'', ''off''})"

section \<open>The sweep\<close>

record BackupRetention =
  MaxBackups :: int
  KeepWeekly :: int
  KeepMonthly :: int
  KeepYearly :: int

type_synonym sorter = "(File \<Rightarrow> File \<Rightarrow> bool) \<Rightarrow> File list \<Rightarrow> File list"

definition newest_first :: "File \<Rightarrow> File \<Rightarrow> bool" where
  "newest_first a b = (file_Date a > file_Date b)"

definition oldest_first :: "File \<Rightarrow> File \<Rightarrow> bool" where
  "oldest_first a b = (file_Date a < file_Date b)"

text \<open>The kept files and the deleted ones of a tier.\<close>

definition tierPrune :: "sorter \<Rightarrow> File list \<Rightarrow> int \<Rightarrow> File list \<times> File list" where
  "tierPrune srt tier keepN =
     (let k = (if keepN < 0 then 0 else keepN);
          sorted = srt newest_first tier
      in if k \<ge> int (length sorted) then (sorted, [])
         else (take (nat k) sorted, drop (nat k) sorted))"

definition u64 :: "int \<Rightarrow> 64 word" where
  "u64 n = word_of_int n"

fun cap_loop :: "64 word \<Rightarrow> 64 word \<Rightarrow> File list \<Rightarrow> File list" where
  "cap_loop cap used [] = []"
| "cap_loop cap used (f # fs) =
     (if used \<le> cap then [] else f # cap_loop cap (used - u64 (file_Size f)) fs)"

definition sizeCapPrune :: "sorter \<Rightarrow> File list \<Rightarrow> 64 word \<Rightarrow> File list" where
  "sizeCapPrune srt kept cap =
     (let used = fold (\<lambda>f n. n + u64 (file_Size f)) kept 0
      in if used \<le> cap then [] else cap_loop cap used (srt oldest_first kept))"

definition of_class :: "tier \<Rightarrow> File list \<Rightarrow> File list" where
  "of_class c files = filter (\<lambda>f. file_Class f = c) files"

definition SelectForDeletion :: "sorter \<Rightarrow> File list \<Rightarrow> BackupRetention \<Rightarrow> 64 word \<Rightarrow> bool \<Rightarrow> File list" where
  "SelectForDeletion srt files r capBytes capEnabled =
     (let maxBackups = (if MaxBackups r \<le> 0 then 1 else MaxBackups r);
          (yk, yd) = tierPrune srt (of_class classYearly files) (KeepYearly r);
          (mk, md) = tierPrune srt (of_class classMonthly files) (KeepMonthly r);
          (wk, wd) = tierPrune srt (of_class classWeekly files) (KeepWeekly r);
          (dk, dd) = tierPrune srt (of_class classDaily files) maxBackups;
          toDelete = yd @ md @ wd @ dd;
          kept = yk @ mk @ wk @ dk
      in if capEnabled \<and> capBytes > 0 then toDelete @ sizeCapPrune srt kept capBytes else toDelete)"

end
