(* ===== verification/Backup_Sweep.thy ===== *)
theory Backup_Sweep
  imports Backup_Files
begin

text \<open>
  What the names and the sweep of the backups guarantee: a name is classified by the date it was
  made from, every tier keeps its newest files, and the size cap takes the oldest ones first.
\<close>

section \<open>Names\<close>

lemma atoi_zeros: "atoi_digits (replicate k (CHR ''0'') @ s) = atoi_digits s"
proof (induction k)
  case (Suc k)
  have "digit_val (CHR ''0'') = 0" by (simp add: digit_val_def byte_def)
  with Suc show ?case by (simp add: atoi_digits_def)
qed simp

lemma atoi_zero_padded: "atoi_digits (zero_padded k n) = n"
  by (simp add: zero_padded_def atoi_zeros atoi_itoa)

lemma in_cls_digit: "in_cls [(48, 57)] c \<longleftrightarrow> is_digit c"
  by (simp add: in_cls_def is_digit_def)

lemma rx_digits: "s \<in> rx_lang (RTimes n rx_digit) \<longleftrightarrow> length s = n \<and> list_all is_digit s"
  unfolding rx_digit_def rx_RTimes_cls by (simp add: list_all_iff in_cls_digit)

text \<open>The date of an instant in a location, and a year that four digits can write.\<close>

definition date_at :: "location \<Rightarrow> int \<Rightarrow> date" where
  "date_at loc t = date_of_days (local_days loc t)"

definition common_year :: "location \<Rightarrow> int \<Rightarrow> bool" where
  "common_year loc t \<longleftrightarrow> 0 \<le> date_Year (date_at loc t) \<and> date_Year (date_at loc t) < 10000"

lemma valid_date_at: "valid_date (date_at loc t)" and days_date_at: "days_of_date (date_at loc t) = local_days loc t"
  using date_of_days_valid [of "local_days loc t"] by (simp_all add: date_at_def)

lemma month_length_le: "month_length y m \<le> 31"
  by (simp add: month_length_def)

lemma date_fields: "date_Month (date_at loc t) < 100" "date_Day (date_at loc t) < 100"
  using valid_date_at [of loc t] month_length_le [of "date_Year (date_at loc t)" "date_Month (date_at loc t)"]
  by (auto simp: valid_date_def)

lemma format_date_parts:
  assumes "common_year loc t"
  obtains y m d where "format_date loc t = y @ ''-'' @ m @ ''-'' @ d"
    and "length y = 4" "length m = 2" "length d = 2"
    and "list_all is_digit y" "list_all is_digit m" "list_all is_digit d"
    and "int (atoi_digits y) = date_Year (date_at loc t)" "atoi_digits m = date_Month (date_at loc t)"
      "atoi_digits d = date_Day (date_at loc t)"
proof -
  let ?d = "date_at loc t"
  have y: "nat (date_Year ?d) < 10 ^ 4" using assms by (simp add: common_year_def nat_less_iff)
  note digits = zero_padded_digits [OF y] zero_padded_digits [of "date_Month ?d" 2] zero_padded_digits [of "date_Day ?d" 2]
  show ?thesis
  proof (rule that)
    show "format_date loc t = zero_padded 4 (nat (date_Year ?d)) @ ''-'' @ zero_padded 2 (date_Month ?d) @ ''-''
        @ zero_padded 2 (date_Day ?d)"
      using assms by (simp add: format_date_def common_year_def date_at_def Let_def)
  qed (use digits date_fields [of loc t] assms in \<open>simp_all add: atoi_zero_padded common_year_def\<close>)
qed

lemma format_date_shape:
  assumes "common_year loc t"
  shows "length (format_date loc t) = 10" "format_date loc t \<in> rx_lang rx_date"
    "parse_date (format_date loc t) = Some (local_days loc t * day)"
proof -
  obtain y m d where fd: "format_date loc t = y @ ''-'' @ m @ ''-'' @ d"
    and len: "length y = 4" "length m = 2" "length d = 2"
    and dig: "list_all is_digit y" "list_all is_digit m" "list_all is_digit d"
    and val: "int (atoi_digits y) = date_Year (date_at loc t)" "atoi_digits m = date_Month (date_at loc t)"
      "atoi_digits d = date_Day (date_at loc t)"
    by (rule format_date_parts [OF assms])
  show "length (format_date loc t) = 10" using len by (simp add: fd)
  have "y \<in> rx_lang (RTimes 4 rx_digit)" "m \<in> rx_lang (RTimes 2 rx_digit)" "d \<in> rx_lang (RTimes 2 rx_digit)"
    using len dig by (simp_all add: rx_digits)
  then show "format_date loc t \<in> rx_lang rx_date"
    unfolding fd rx_date_def rx_lang.simps(4) rx_RLit [unfolded mem_Collect_eq] by blast
  have eta: "\<lparr>date_Year = date_Year (date_at loc t), date_Month = date_Month (date_at loc t), date_Day = date_Day (date_at loc t)\<rparr>
      = date_at loc t" by simp
  then show "parse_date (format_date loc t) = Some (local_days loc t * day)"
    using valid_date_at [of loc t] days_date_at [of loc t] len val
    by (simp add: fd parse_date_def Let_def eta)
qed


text \<open>The time of day, and with it the whole second.\<close>

lemma format_time_shape:
  shows "length (format_time loc t) = 6" "list_all is_digit (format_time loc t)"
    "parse_date ds = Some u \<Longrightarrow>
     parse_date_time ds (format_time loc t) = Some (u + local_seconds loc t mod 86400 * second)"
proof -
  define s where "s = nat (local_seconds loc t mod 86400)"
  have s: "s < 86400" and int_s: "int s = local_seconds loc t mod 86400" by (simp_all add: s_def nat_less_iff)
  then have small: "s div 3600 < 24" "s mod 3600 div 60 < 60" "s mod 60 < 60" by simp_all
  note digits = zero_padded_digits [of "s div 3600" 2] zero_padded_digits [of "s mod 3600 div 60" 2]
    zero_padded_digits [of "s mod 60" 2]
  have ft: "format_time loc t = zero_padded 2 (s div 3600) @ zero_padded 2 (s mod 3600 div 60) @ zero_padded 2 (s mod 60)"
    by (simp add: format_time_def s_def Let_def)
  show "length (format_time loc t) = 6" "list_all is_digit (format_time loc t)"
    using digits small by (simp_all add: ft)
  have "s mod 3600 mod 60 = s mod 60" by (simp add: mod_mod_cancel)
  with div_mult_mod_eq [of s 3600] div_mult_mod_eq [of "s mod 3600" 60]
  have split: "s div 3600 * 3600 + s mod 3600 div 60 * 60 + s mod 60 = s" by linarith
  assume "parse_date ds = Some u"
  then show "parse_date_time ds (format_time loc t) = Some (u + local_seconds loc t mod 86400 * second)"
    using digits small split int_s by (simp add: parse_date_time_def ft atoi_zero_padded Let_def)
qed

lemma ext_in: "ext encrypted \<in> rx_lang rx_ext"
  by (auto simp: ext_def rx_ext_def rx_RLit rx_ROpt)

text \<open>Which pattern a name matches.\<close>

lemma seq_in: "u \<in> rx_lang r \<Longrightarrow> v \<in> rx_lang q \<Longrightarrow> u @ v \<in> rx_lang (RSeq r q)"
  by auto

lemma lit_in: "s \<in> rx_lang (RLit s)"
  by (simp add: rx_RLit)

lemmas rx_parts = rx_match_iff rx_RLit rx_digits rx_ROpt

lemma full_matches:
  "d \<in> rx_lang rx_date \<Longrightarrow> rx_match (pat_full (newFilenamePatterns p)) (p @ ''_backup_'' @ d @ ext en)"
  unfolding rx_match_iff newFilenamePatterns_def filenamePatterns.simps
  by (intro seq_in lit_in ext_in)

lemma manual_matches:
  "d \<in> rx_lang rx_date \<Longrightarrow> length ts = 6 \<Longrightarrow> list_all is_digit ts \<Longrightarrow>
   rx_match (pat_manual (newFilenamePatterns p)) (p @ ''_backup_'' @ d @ ''_'' @ ts @ ext en)"
  unfolding rx_match_iff newFilenamePatterns_def filenamePatterns.simps
  by (intro seq_in lit_in ext_in) (simp_all add: rx_digits)

lemma rx_date_length: "d \<in> rx_lang rx_date \<Longrightarrow> length d = 10"
  by (auto simp: rx_date_def rx_RLit rx_digits)

lemma rx_ext_iff: "s \<in> rx_lang rx_ext \<longleftrightarrow> (\<exists>en. s = ext en)"
  by (auto simp: rx_ext_def rx_RLit rx_ROpt ext_def)

lemma full_matchesD:
  assumes "rx_match (pat_full (newFilenamePatterns p)) (p @ rest)"
  obtains d en where "rest = ''_backup_'' @ d @ ext en" "length d = 10"
  using assms unfolding rx_match_iff newFilenamePatterns_def filenamePatterns.simps
  by (auto simp: rx_RLit rx_ext_iff dest: rx_date_length)

lemma manual_matchesD:
  assumes "rx_match (pat_manual (newFilenamePatterns p)) (p @ rest)"
  obtains d where "rest = ''_backup_'' @ d"
  using assms unfolding rx_match_iff newFilenamePatterns_def filenamePatterns.simps
  by (auto simp: rx_RLit)

lemma incremental_matches:
  "rx_match (pat_dailyIncr (newFilenamePatterns p)) (p @ rest) \<longleftrightarrow> (\<exists>en. rest = ''-daily'' @ ext en)"
  "rx_match (pat_hourlyIncr (newFilenamePatterns p)) (p @ rest) \<longleftrightarrow> (\<exists>en. rest = ''-hourly'' @ ext en)"
  unfolding rx_match_iff newFilenamePatterns_def filenamePatterns.simps
  by (auto simp: rx_RLit rx_ext_iff)


lemma classify_date:
  "classify UTC (local_days loc t * day + s * second) = classify loc t" if "0 \<le> s" "s < 86400"
proof -
  have "local_days UTC (local_days loc t * day + s * second) = local_days loc t"
    using that by (simp add: local_days_def local_seconds_def UTC_def day_def hour_def second_def)
  then show ?thesis by (simp add: classify_def Month_def Day_def Weekday_def)
qed

lemma local_seconds_split: "local_days loc t * day + local_seconds loc t mod 86400 * second = local_seconds loc t * second"
  using div_mult_mod_eq [of "local_seconds loc t" 86400]
  by (simp add: local_days_def day_def hour_def algebra_simps flip: distrib_left)

lemma names_classified:
  assumes "common_year loc t"
  shows "ClassifyFile here p (FullFilename p loc t en) n m =
      Some \<lparr>file_Name = FullFilename p loc t en, file_Date = local_days loc t * day, file_Size = n,
            file_Class = classify loc t\<rparr>"
    and "ClassifyFile here p (ManualFilename p loc t en) n m =
      Some \<lparr>file_Name = ManualFilename p loc t en, file_Date = local_seconds loc t * second, file_Size = n,
            file_Class = classify loc t\<rparr>"
    and "\<forall>f \<in> {DailyIncrementalFilename p en, HourlyIncrementalFilename p en}.
      ClassifyFile here p f n m =
        Some \<lparr>file_Name = f, file_Date = m, file_Size = n, file_Class = classIncremental\<rparr>"
proof -
  note fd = format_date_shape [OF assms] and ft = format_time_shape [where loc = loc and t = t]
  have "date_group p (FullFilename p loc t en) = format_date loc t"
    using fd(1) by (simp add: date_group_def FullFilename_def)
  moreover have "rx_match (pat_full (newFilenamePatterns p)) (FullFilename p loc t en)"
    unfolding FullFilename_def by (rule full_matches [OF fd(2)])
  ultimately show "ClassifyFile here p (FullFilename p loc t en) n m =
      Some \<lparr>file_Name = FullFilename p loc t en, file_Date = local_days loc t * day, file_Size = n,
            file_Class = classify loc t\<rparr>"
    using fd(3) classify_date [of 0 loc t] by (simp add: ClassifyFile_def Let_def)
  have "\<not> rx_match (pat_full (newFilenamePatterns p)) (ManualFilename p loc t en)"
  proof
    assume "rx_match (pat_full (newFilenamePatterns p)) (ManualFilename p loc t en)"
    then obtain d en' where "format_date loc t @ ''_'' @ format_time loc t @ ext en = d @ ext en'" "length d = 10"
      unfolding ManualFilename_def by (auto elim: full_matchesD)
    then show False using fd(1) by (auto simp: ext_def split: if_splits)
  qed
  moreover have "rx_match (pat_manual (newFilenamePatterns p)) (ManualFilename p loc t en)"
    unfolding ManualFilename_def by (rule manual_matches [OF fd(2) ft(1,2)])
  moreover have "date_group p (ManualFilename p loc t en) = format_date loc t"
      "time_group p (ManualFilename p loc t en) = format_time loc t"
    using fd(1) ft(1) by (simp_all add: date_group_def time_group_def ManualFilename_def)
  ultimately show "ClassifyFile here p (ManualFilename p loc t en) n m =
      Some \<lparr>file_Name = ManualFilename p loc t en, file_Date = local_seconds loc t * second, file_Size = n,
            file_Class = classify loc t\<rparr>"
    using ft(3) [OF fd(3)] classify_date [of "local_seconds loc t mod 86400" loc t] local_seconds_split [of loc t]
    by (simp add: ClassifyFile_def Let_def)
  have "\<not> rx_match (pat_full (newFilenamePatterns p)) (p @ CHR ''-'' # s)"
    "\<not> rx_match (pat_manual (newFilenamePatterns p)) (p @ CHR ''-'' # s)" for s
    by (auto elim!: full_matchesD manual_matchesD)
  then show "\<forall>f \<in> {DailyIncrementalFilename p en, HourlyIncrementalFilename p en}.
      ClassifyFile here p f n m =
        Some \<lparr>file_Name = f, file_Date = m, file_Size = n, file_Class = classIncremental\<rparr>"
    by (auto simp: ClassifyFile_def Let_def DailyIncrementalFilename_def HourlyIncrementalFilename_def incremental_matches)
qed

text \<open>
  The name of a backup says when it was made, and the sweep reads it back. For every project,
  instant and location with a year of four digits, the name of a full or a manual backup is recognized
  and gets the date it was written with, to the day or to the second, and with it the tier of the day it was made on; the
  names of the two incremental backups are recognized as those.
\<close>

theorem backup_names_classified:
  assumes "common_year loc t"
  shows "ClassifyFile here p (FullFilename p loc t en) n m =
      Some \<lparr>file_Name = FullFilename p loc t en, file_Date = local_days loc t * day, file_Size = n,
            file_Class = classify loc t\<rparr>
    \<and> ClassifyFile here p (ManualFilename p loc t en) n m =
      Some \<lparr>file_Name = ManualFilename p loc t en, file_Date = local_seconds loc t * second, file_Size = n,
            file_Class = classify loc t\<rparr>
    \<and> (\<forall>f \<in> {DailyIncrementalFilename p en, HourlyIncrementalFilename p en}.
      ClassifyFile here p f n m =
        Some \<lparr>file_Name = f, file_Date = m, file_Size = n, file_Class = classIncremental\<rparr>)"
  using names_classified [OF assms] by blast

lemma epoch_date: "date_of_days 0 = \<lparr>date_Year = 1970, date_Month = 1, date_Day = 1\<rparr>"
  using date_of_days_of_date [of "\<lparr>date_Year = 1970, date_Month = 1, date_Day = 1\<rparr>"]
  by (simp add: valid_date_def month_length_def days_of_date_def year_start_def month_starts_def leap_year_def)

lemma epoch_day: "local_days UTC 0 = 0"
  by (simp add: local_days_def local_seconds_def UTC_def)

lemma epoch_year: "common_year UTC 0"
  by (simp add: common_year_def date_at_def epoch_date epoch_day)

theorem backup_names_classified_witness:
  "ClassifyFile UTC ''redxt'' (FullFilename ''redxt'' UTC 0 True) 7 9 =
     Some \<lparr>file_Name = FullFilename ''redxt'' UTC 0 True, file_Date = 0, file_Size = 7, file_Class = classYearly\<rparr>"
  using backup_names_classified [OF epoch_year, of UTC "''redxt''" True 7 9]
  by (simp add: epoch_date epoch_day classify_def Month_def Day_def)

text \<open>
  The names of another project can be taken for those of this one. A backup of a project whose
  name is that of this project, a dash and more text is claimed by this project as a backup made at the time
  of its modification, never as an incremental one, so the sweep counts it and may delete it.
\<close>

theorem sibling_backups_claimed:
  assumes "list_all (in_cls [(0, 8), (11, 11), (14, 31), (33, 255)]) q" and "common_year loc t"
  shows "ClassifyFile here p (FullFilename (p @ ''-'' @ q) loc t en) n m =
      Some \<lparr>file_Name = FullFilename (p @ ''-'' @ q) loc t en, file_Date = m, file_Size = n, file_Class = classify here m\<rparr>"
proof -
  define body where "body = q @ ''_backup_'' @ format_date loc t"
  have name: "FullFilename (p @ ''-'' @ q) loc t en = p @ CHR ''-'' # body @ ext en"
    by (simp add: FullFilename_def body_def)
  have "CHR ''_'' \<in> set (body @ ext en)" by (simp add: body_def)
  then have "\<nexists>en'. CHR ''-'' # body @ ext en = ''-daily'' @ ext en'" "\<nexists>en'. CHR ''-'' # body @ ext en = ''-hourly'' @ ext en'"
    by (auto simp: ext_def split: if_splits dest!: arg_cong [where f = set])
  then have "\<not> rx_match (pat_dailyIncr (newFilenamePatterns p)) (p @ CHR ''-'' # body @ ext en)"
    "\<not> rx_match (pat_hourlyIncr (newFilenamePatterns p)) (p @ CHR ''-'' # body @ ext en)"
    unfolding incremental_matches by simp_all
  moreover have "\<not> rx_match (pat_full (newFilenamePatterns p)) (p @ CHR ''-'' # body @ ext en)"
    "\<not> rx_match (pat_manual (newFilenamePatterns p)) (p @ CHR ''-'' # body @ ext en)"
    by (auto elim!: full_matchesD manual_matchesD)
  moreover have "rx_match (pat_genericFull (newFilenamePatterns p)) (p @ CHR ''-'' # body @ ext en)"
  proof -
    have "list_all (in_cls [(0, 8), (11, 11), (14, 31), (33, 255)]) body"
    proof -
      obtain y mo d where "format_date loc t = y @ ''-'' @ mo @ ''-'' @ d"
        "list_all is_digit y" "list_all is_digit mo" "list_all is_digit d"
        by (rule format_date_parts [OF assms(2)])
      moreover have "is_digit c \<Longrightarrow> in_cls [(0, 8), (11, 11), (14, 31), (33, 255)] c" for c
        by (auto simp: is_digit_def in_cls_def)
      ultimately show ?thesis using assms(1) by (auto simp: body_def list_all_iff in_cls_def byte_def)
    qed
    then have "body \<in> rx_lang (RStar rx_nonspace)" unfolding rx_nonspace_def rx_RStar_cls .
    moreover have "''-'' \<in> rx_lang (RAlt (RLit ''_backup_'') (RLit ''-''))" by (simp add: rx_RLit)
    ultimately have "p @ ''-'' @ body @ ext en \<in> rx_lang (pat_genericFull (newFilenamePatterns p))"
      unfolding newFilenamePatterns_def filenamePatterns.simps by (intro seq_in lit_in ext_in)
    then show ?thesis by (simp add: rx_match_iff)
  qed
  ultimately show ?thesis unfolding name by (simp add: ClassifyFile_def Let_def)
qed

section \<open>The sweep\<close>

text \<open>What \<open>sort.Slice\<close> promises for a comparison by a key.\<close>

definition sorts :: "sorter \<Rightarrow> bool" where
  "sorts srt \<longleftrightarrow> (\<forall>(key :: File \<Rightarrow> int) xs. mset (srt (\<lambda>a b. key a < key b) xs) = mset xs
     \<and> sorted_wrt (\<lambda>a b. key a \<le> key b) (srt (\<lambda>a b. key a < key b) xs))"

lemma sorts_newest:
  assumes "sorts srt"
  shows "mset (srt newest_first xs) = mset xs" and "sorted_wrt (\<lambda>a b. file_Date b \<le> file_Date a) (srt newest_first xs)"
proof -
  have "newest_first = (\<lambda>a b. - file_Date a < - file_Date b)" by (simp add: newest_first_def fun_eq_iff)
  with assms [unfolded sorts_def, rule_format, of "\<lambda>f. - file_Date f" xs]
  show "mset (srt newest_first xs) = mset xs" "sorted_wrt (\<lambda>a b. file_Date b \<le> file_Date a) (srt newest_first xs)" by auto
qed

lemma sorts_oldest:
  assumes "sorts srt"
  shows "mset (srt oldest_first xs) = mset xs" and "sorted_wrt (\<lambda>a b. file_Date a \<le> file_Date b) (srt oldest_first xs)"
proof -
  have "oldest_first = (\<lambda>a b. file_Date a < file_Date b)" by (simp add: oldest_first_def fun_eq_iff)
  with assms [unfolded sorts_def, rule_format, of file_Date xs]
  show "mset (srt oldest_first xs) = mset xs" "sorted_wrt (\<lambda>a b. file_Date a \<le> file_Date b) (srt oldest_first xs)" by auto
qed

lemma tierPrune_result:
  assumes "sorts srt" and "tierPrune srt tier k = (kept, gone)"
  shows "mset kept + mset gone = mset tier" and "length kept = min (nat k) (length tier)"
    and "\<forall>f \<in> set kept. \<forall>g \<in> set gone. file_Date g \<le> file_Date f"
proof -
  define xs where "xs = srt newest_first tier"
  have xs: "mset xs = mset tier" and sorted: "sorted_wrt (\<lambda>a b. file_Date b \<le> file_Date a) xs"
    using sorts_newest [OF assms(1)] by (simp_all add: xs_def)
  have len: "length xs = length tier" using xs by (metis size_mset)
  have res: "kept = take (nat k) xs" "gone = drop (nat k) xs"
    using assms(2) by (auto simp: tierPrune_def xs_def [symmetric] Let_def split: if_splits)
  show "mset kept + mset gone = mset tier" unfolding res xs [symmetric] by (metis append_take_drop_id mset_append)
  show "length kept = min (nat k) (length tier)" by (simp add: res len min.commute)
  have "sorted_wrt (\<lambda>a b. file_Date b \<le> file_Date a) (kept @ gone)" using sorted by (simp add: res)
  then show "\<forall>f \<in> set kept. \<forall>g \<in> set gone. file_Date g \<le> file_Date f" by (simp add: sorted_wrt_append)
qed


text \<open>How many files of a tier the settings keep, and the two halves of a tier.\<close>

fun keep_of :: "BackupRetention \<Rightarrow> tier \<Rightarrow> int" where
  "keep_of r classDaily = (if MaxBackups r \<le> 0 then 1 else MaxBackups r)"
| "keep_of r classWeekly = KeepWeekly r"
| "keep_of r classMonthly = KeepMonthly r"
| "keep_of r classYearly = KeepYearly r"
| "keep_of r classIncremental = 0"

definition tier_kept :: "sorter \<Rightarrow> File list \<Rightarrow> BackupRetention \<Rightarrow> tier \<Rightarrow> File list" where
  "tier_kept srt files r c = fst (tierPrune srt (of_class c files) (keep_of r c))"

definition tier_gone :: "sorter \<Rightarrow> File list \<Rightarrow> BackupRetention \<Rightarrow> tier \<Rightarrow> File list" where
  "tier_gone srt files r c = snd (tierPrune srt (of_class c files) (keep_of r c))"

definition all_kept :: "sorter \<Rightarrow> File list \<Rightarrow> BackupRetention \<Rightarrow> File list" where
  "all_kept srt files r = concat (map (tier_kept srt files r) [classYearly, classMonthly, classWeekly, classDaily])"

definition all_gone :: "sorter \<Rightarrow> File list \<Rightarrow> BackupRetention \<Rightarrow> File list" where
  "all_gone srt files r = concat (map (tier_gone srt files r) [classYearly, classMonthly, classWeekly, classDaily])"

lemma SelectForDeletion_parts:
  "SelectForDeletion srt files r cap on =
     all_gone srt files r @ (if on \<and> 0 < cap then sizeCapPrune srt (all_kept srt files r) cap else [])"
  by (simp add: SelectForDeletion_def all_gone_def all_kept_def tier_gone_def tier_kept_def case_prod_unfold Let_def)

lemma tier_halves:
  assumes "sorts srt"
  shows "mset (tier_kept srt files r c) + mset (tier_gone srt files r c) = mset (of_class c files)"
    and "length (tier_kept srt files r c) = min (nat (keep_of r c)) (length (of_class c files))"
    and "\<forall>f \<in> set (tier_kept srt files r c). \<forall>g \<in> set (tier_gone srt files r c). file_Date g \<le> file_Date f"
proof -
  have "tierPrune srt (of_class c files) (keep_of r c) = (tier_kept srt files r c, tier_gone srt files r c)"
    by (simp add: tier_kept_def tier_gone_def)
  note tierPrune_result [OF assms this]
  then show "mset (tier_kept srt files r c) + mset (tier_gone srt files r c) = mset (of_class c files)"
    "length (tier_kept srt files r c) = min (nat (keep_of r c)) (length (of_class c files))"
    "\<forall>f \<in> set (tier_kept srt files r c). \<forall>g \<in> set (tier_gone srt files r c). file_Date g \<le> file_Date f" .
qed

lemma tier_class:
  assumes "sorts srt"
  shows "f \<in> set (tier_kept srt files r c) \<Longrightarrow> file_Class f = c" and "f \<in> set (tier_gone srt files r c) \<Longrightarrow> file_Class f = c"
proof -
  have "set (tier_kept srt files r c) \<union> set (tier_gone srt files r c) = set (of_class c files)"
    using tier_halves(1) [OF assms, of files r c] by (metis set_mset_mset set_mset_union)
  then show "f \<in> set (tier_kept srt files r c) \<Longrightarrow> file_Class f = c" "f \<in> set (tier_gone srt files r c) \<Longrightarrow> file_Class f = c"
    by (auto simp: of_class_def)
qed

lemma filter_tiers:
  assumes "\<And>c f. f \<in> set (part c) \<Longrightarrow> file_Class f = c" and "c \<noteq> classIncremental"
  shows "filter (\<lambda>f. file_Class f = c) (concat (map part [classYearly, classMonthly, classWeekly, classDaily])) = part c"
proof -
  have "filter (\<lambda>f. file_Class f = c) (part d) = (if c = d then part d else [])" for d
    using assms(1) by (auto simp: filter_id_conv filter_empty_conv)
  then show ?thesis using assms(2) by (cases c) simp_all
qed

lemma of_class_parts:
  assumes "sorts srt" and "c \<noteq> classIncremental"
  shows "of_class c (all_gone srt files r) = tier_gone srt files r c" "of_class c (all_kept srt files r) = tier_kept srt files r c"
  unfolding of_class_def all_gone_def all_kept_def
  by (rule filter_tiers; use tier_class [OF assms(1)] assms(2) in blast)+

lemma all_not_incremental:
  assumes "sorts srt"
  shows "f \<in> set (all_gone srt files r) \<Longrightarrow> file_Class f \<noteq> classIncremental"
    "f \<in> set (all_kept srt files r) \<Longrightarrow> file_Class f \<noteq> classIncremental"
  using tier_class [OF assms] by (auto simp: all_gone_def all_kept_def)

lemma mset_by_class:
  assumes "\<And>c. mset (of_class c xs) = mset (of_class c ys)"
  shows "mset xs = mset ys"
proof (rule multiset_eqI)
  fix f
  have "count (mset zs) f = count (mset (of_class (file_Class f) zs)) f" for zs :: "File list"
    by (simp add: of_class_def)
  then show "count (mset xs) f = count (mset ys) f" using assms by metis
qed

lemma parts_of_files:
  assumes "sorts srt"
  shows "mset (all_kept srt files r) + mset (all_gone srt files r) = mset (filter (\<lambda>f. file_Class f \<noteq> classIncremental) files)"
proof -
  have "mset (of_class c (all_kept srt files r @ all_gone srt files r))
      = mset (of_class c (filter (\<lambda>f. file_Class f \<noteq> classIncremental) files))" for c
  proof (cases "c = classIncremental")
    case True
    then show ?thesis using all_not_incremental [OF assms] by (auto simp: of_class_def filter_empty_conv)
  next
    case False
    then have "of_class c (filter (\<lambda>f. file_Class f \<noteq> classIncremental) files) = of_class c files"
      by (auto simp: of_class_def intro: filter_cong)
    then show ?thesis using of_class_parts [OF assms False] tier_halves(1) [OF assms, of files r c]
      by (simp add: of_class_def)
  qed
  from mset_by_class [OF this] show ?thesis by simp
qed


text \<open>What is left of the files after a sweep.\<close>

definition left_after :: "File list \<Rightarrow> File list \<Rightarrow> File multiset" where
  "left_after files gone = mset files - mset gone"

lemma left_after_tiers:
  assumes "sorts srt" and "c \<noteq> classIncremental"
  shows "filter_mset (\<lambda>f. file_Class f = c) (left_after files (all_gone srt files r)) = mset (tier_kept srt files r c)"
proof -
  have "filter_mset (\<lambda>f. file_Class f = c) (left_after files (all_gone srt files r))
      = mset (of_class c files) - mset (of_class c (all_gone srt files r))"
    by (simp add: left_after_def of_class_def)
  also have "\<dots> = mset (tier_kept srt files r c)"
    unfolding of_class_parts [OF assms] tier_halves(1) [OF assms(1), of files r c, symmetric] by simp
  finally show ?thesis .
qed

lemma all_gone_files:
  assumes "sorts srt"
  shows "mset (all_gone srt files r) \<subseteq># mset files"
proof -
  have "mset (all_gone srt files r) \<subseteq># mset (filter (\<lambda>f. file_Class f \<noteq> classIncremental) files)"
    unfolding parts_of_files [OF assms, of files r, symmetric] by simp
  also have "\<dots> \<subseteq># mset files" by simp
  finally show ?thesis .
qed

text \<open>
  C39: The sweep keeps the newest files of every tier. Whatever the order in which \<open>sort.Slice\<close> leaves
  files of the same date, the sweep without a size cap deletes only files that are there, never an
  incremental one; of every tier as many files stay as the settings say, or all if there are fewer; and no deleted
  file of a tier is newer than one of the tier that stays.
\<close>

theorem retention_keeps_newest:
  assumes "sorts srt" and "gone = SelectForDeletion srt files r cap False"
  shows "mset gone \<subseteq># mset files
    \<and> (\<forall>g \<in> set gone. file_Class g \<noteq> classIncremental)
    \<and> (\<forall>c. c \<noteq> classIncremental \<longrightarrow>
         size (filter_mset (\<lambda>f. file_Class f = c) (left_after files gone))
           = min (nat (keep_of r c)) (length (of_class c files)))
    \<and> (\<forall>g \<in> set gone. \<forall>f \<in># left_after files gone. file_Class f = file_Class g \<longrightarrow> file_Date g \<le> file_Date f)"
proof -
  have gone: "gone = all_gone srt files r" using assms(2) by (simp add: SelectForDeletion_parts)
  have "file_Date g \<le> file_Date f"
    if g: "g \<in> set gone" and f: "f \<in># left_after files gone" and c: "file_Class f = file_Class g" for f g
  proof -
    have nc: "file_Class g \<noteq> classIncremental" using g gone all_not_incremental [OF assms(1)] by blast
    have "f \<in># filter_mset (\<lambda>h. file_Class h = file_Class g) (left_after files gone)" using f c by simp
    then have "f \<in> set (tier_kept srt files r (file_Class g))"
      unfolding gone left_after_tiers [OF assms(1) nc] by simp
    moreover have "g \<in> set (of_class (file_Class g) gone)" using g by (simp add: of_class_def)
    then have "g \<in> set (tier_gone srt files r (file_Class g))" unfolding gone of_class_parts [OF assms(1) nc] .
    ultimately show ?thesis using tier_halves(3) [OF assms(1)] by blast
  qed
  moreover have "size (filter_mset (\<lambda>f. file_Class f = c) (left_after files gone))
      = min (nat (keep_of r c)) (length (of_class c files))" if "c \<noteq> classIncremental" for c
    unfolding gone left_after_tiers [OF assms(1) that] using tier_halves(2) [OF assms(1)] by simp
  moreover have "\<forall>g \<in> set gone. file_Class g \<noteq> classIncremental"
    unfolding gone using all_not_incremental [OF assms(1)] by blast
  ultimately show ?thesis using all_gone_files [OF assms(1), of files r] gone by blast
qed


section \<open>The size cap\<close>

definition bytes_of :: "File list \<Rightarrow> int" where
  "bytes_of files = sum_list (map file_Size files)"

definition sized :: "File list \<Rightarrow> bool" where
  "sized files \<longleftrightarrow> (\<forall>f \<in> set files. 0 \<le> file_Size f) \<and> bytes_of files < 2 ^ 64"

lemma bytes_nonneg: "\<forall>f \<in> set files. 0 \<le> file_Size f \<Longrightarrow> 0 \<le> bytes_of files"
  by (induction files) (simp_all add: bytes_of_def)

lemma u64_le: "0 \<le> n \<Longrightarrow> n < 2 ^ 64 \<Longrightarrow> u64 n \<le> cap \<longleftrightarrow> n \<le> uint cap"
  by (simp add: u64_def word_le_def uint_word_of_int)

lemma u64_bytes: "fold (\<lambda>f n. n + u64 (file_Size f)) fs a = a + u64 (bytes_of fs)"
  by (induction fs arbitrary: a) (simp_all add: bytes_of_def u64_def)

lemma cap_loop_result:
  "sized fs \<Longrightarrow> \<exists>rest. fs = cap_loop cap (u64 (bytes_of fs)) fs @ rest \<and> bytes_of rest \<le> uint cap
     \<and> (cap_loop cap (u64 (bytes_of fs)) fs \<noteq> [] \<longrightarrow>
          uint cap < bytes_of rest + file_Size (last (cap_loop cap (u64 (bytes_of fs)) fs)))"
proof (induction fs)
  case (Cons f fs)
  have nonneg: "0 \<le> bytes_of (f # fs)" using Cons.prems by (intro bytes_nonneg) (simp add: sized_def)
  note le = u64_le [OF nonneg, of cap]
  show ?case
  proof (cases "bytes_of (f # fs) \<le> uint cap")
    case True
    then have "u64 (bytes_of (f # fs)) \<le> cap" using le Cons.prems by (simp add: sized_def)
    then show ?thesis using True by simp
  next
    case False
    have sized: "sized fs" using Cons.prems by (auto simp: sized_def bytes_of_def)
    have "\<not> u64 (bytes_of (f # fs)) \<le> cap" using False le Cons.prems by (simp add: sized_def)
    moreover have "u64 (bytes_of (f # fs)) - u64 (file_Size f) = u64 (bytes_of fs)" by (simp add: u64_def bytes_of_def)
    ultimately have run: "cap_loop cap (u64 (bytes_of (f # fs))) (f # fs) = f # cap_loop cap (u64 (bytes_of fs)) fs"
      by simp
    obtain rest where rest: "fs = cap_loop cap (u64 (bytes_of fs)) fs @ rest" "bytes_of rest \<le> uint cap"
      "cap_loop cap (u64 (bytes_of fs)) fs \<noteq> [] \<longrightarrow>
         uint cap < bytes_of rest + file_Size (last (cap_loop cap (u64 (bytes_of fs)) fs))"
      using Cons.IH [OF sized] by blast
    have "cap_loop cap (u64 (bytes_of fs)) fs = [] \<Longrightarrow> bytes_of (f # fs) = bytes_of rest + file_Size f"
      using rest(1) by (simp add: bytes_of_def)
    then show ?thesis unfolding run using rest False by (intro exI [of _ rest]) auto
  qed
qed (simp add: bytes_of_def)

lemma bytes_mset: "mset xs = mset ys \<Longrightarrow> bytes_of xs = bytes_of ys"
  by (metis bytes_of_def mset_map sum_mset_sum_list)

lemma sizeCapPrune_result:
  assumes "sorts srt" and "sized kept"
  shows "\<exists>rest. mset kept = mset (sizeCapPrune srt kept cap) + mset rest \<and> bytes_of rest \<le> uint cap
     \<and> (\<forall>g \<in> set (sizeCapPrune srt kept cap). \<forall>f \<in> set rest. file_Date g \<le> file_Date f)
     \<and> (sizeCapPrune srt kept cap \<noteq> [] \<longrightarrow>
          uint cap < bytes_of rest + file_Size (last (sizeCapPrune srt kept cap)))"
proof (cases "u64 (bytes_of kept) \<le> cap")
  case True
  have "0 \<le> bytes_of kept" using assms(2) by (intro bytes_nonneg) (simp add: sized_def)
  then have "bytes_of kept \<le> uint cap" using True assms(2) u64_le [of "bytes_of kept" cap] by (simp add: sized_def)
  moreover have "sizeCapPrune srt kept cap = []" using True by (simp add: sizeCapPrune_def u64_bytes)
  ultimately show ?thesis by (intro exI [of _ kept]) simp
next
  case False
  define xs where "xs = srt oldest_first kept"
  note xs = sorts_oldest [OF assms(1), of kept, folded xs_def]
  have same: "bytes_of xs = bytes_of kept" "set xs = set kept"
    using xs(1) bytes_mset mset_eq_setD by blast+
  have prune: "sizeCapPrune srt kept cap = cap_loop cap (u64 (bytes_of xs)) xs"
    using False by (simp add: sizeCapPrune_def u64_bytes xs_def [symmetric] same)
  have "sized xs" using assms(2) by (simp add: sized_def same)
  then obtain rest where rest: "xs = cap_loop cap (u64 (bytes_of xs)) xs @ rest" "bytes_of rest \<le> uint cap"
      "cap_loop cap (u64 (bytes_of xs)) xs \<noteq> [] \<longrightarrow>
         uint cap < bytes_of rest + file_Size (last (cap_loop cap (u64 (bytes_of xs)) xs))"
    using cap_loop_result by blast
  have "sorted_wrt (\<lambda>a b. file_Date a \<le> file_Date b) (cap_loop cap (u64 (bytes_of xs)) xs @ rest)"
    using xs(2) rest(1) by simp
  then have "\<forall>g \<in> set (cap_loop cap (u64 (bytes_of xs)) xs). \<forall>f \<in> set rest. file_Date g \<le> file_Date f"
    by (simp add: sorted_wrt_append)
  moreover have "mset kept = mset (cap_loop cap (u64 (bytes_of xs)) xs) + mset rest"
    using xs(1) rest(1) by (metis mset_append)
  ultimately show ?thesis unfolding prune using rest(2,3) by blast
qed


definition counted_after :: "File list \<Rightarrow> File list \<Rightarrow> File multiset" where
  "counted_after files gone = filter_mset (\<lambda>f. file_Class f \<noteq> classIncremental) (left_after files gone)"

lemma counted_after_all:
  assumes "sorts srt" and "mset (all_kept srt files r) = mset extra + mset rest"
  shows "counted_after files (all_gone srt files r @ extra) = mset rest" and "mset (all_gone srt files r @ extra) \<subseteq># mset files"
proof -
  let ?counted = "filter_mset (\<lambda>f. file_Class f \<noteq> classIncremental)"
  have "set extra \<subseteq> set (all_kept srt files r)"
    using assms(2) by (metis mset_eq_setD mset_append set_append sup_ge1)
  then have "\<forall>f \<in> set (all_gone srt files r @ extra). file_Class f \<noteq> classIncremental"
    using all_not_incremental [OF assms(1)] by auto
  then have "?counted (mset (all_gone srt files r @ extra)) = mset (all_gone srt files r @ extra)"
    unfolding mset_filter [symmetric] by (simp only: filter_True)
  then have "counted_after files (all_gone srt files r @ extra)
      = ?counted (mset files) - mset (all_gone srt files r @ extra)"
    by (simp add: counted_after_def left_after_def)
  also have "?counted (mset files) = mset (all_gone srt files r @ extra) + mset rest"
    using parts_of_files [OF assms(1), of files r] assms(2) by (simp add: ac_simps)
  finally show "counted_after files (all_gone srt files r @ extra) = mset rest" by simp
  have "?counted (mset files) = mset (all_gone srt files r @ extra) + mset rest"
    using parts_of_files [OF assms(1), of files r] assms(2) by (simp add: ac_simps)
  then have "mset (all_gone srt files r @ extra) \<subseteq># ?counted (mset files)" by simp
  also have "\<dots> \<subseteq># mset files" by simp
  finally show "mset (all_gone srt files r @ extra) \<subseteq># mset files" .
qed

lemma sized_part:
  assumes "sized files" and "mset part \<subseteq># mset files"
  shows "sized part"
proof -
  obtain rest where "mset files = mset part + mset rest"
    using assms(2) by (metis ex_mset mset_subset_eq_exists_conv)
  then have files: "set files = set part \<union> set rest" "bytes_of files = bytes_of part + bytes_of rest"
    using bytes_mset [of files "part @ rest"] mset_eq_setD [of files "part @ rest"] by (auto simp: bytes_of_def)
  then have "0 \<le> bytes_of rest" using assms(1) by (intro bytes_nonneg) (simp add: sized_def)
  with files assms(1) show ?thesis by (simp add: sized_def)
qed

text \<open>
  C40: The size cap is met by deleting the oldest files, and no more than needed. With a cap, the sweep deletes what it
  deletes without one, and then of what the tiers would keep only the oldest: the files left,
  incrementals aside, take no more than the cap, none of the further deleted ones is newer than one that stays, and
  without the last of them the cap would still be exceeded. No sum wraps as long as all files together take less than
  \<open>2 ^ 64\<close> bytes.
\<close>

theorem size_cap_oldest_first:
  assumes "sorts srt" and "sized files" and "0 < cap" and "gone = SelectForDeletion srt files r cap True"
  shows "\<exists>extra. gone = SelectForDeletion srt files r cap False @ extra
    \<and> mset gone \<subseteq># mset files
    \<and> (\<Sum>f \<in># counted_after files gone. file_Size f) \<le> uint cap
    \<and> (\<forall>g \<in> set extra. \<forall>f \<in># counted_after files gone. file_Date g \<le> file_Date f)
    \<and> (extra \<noteq> [] \<longrightarrow> uint cap < (\<Sum>f \<in># counted_after files gone. file_Size f) + file_Size (last extra))"
proof -
  define kept where "kept = all_kept srt files r"
  define extra where "extra = sizeCapPrune srt kept cap"
  have gone: "gone = all_gone srt files r @ extra" using assms(3,4) by (simp add: SelectForDeletion_parts extra_def kept_def)
  have "mset kept \<subseteq># mset (filter (\<lambda>f. file_Class f \<noteq> classIncremental) files)"
    unfolding kept_def parts_of_files [OF assms(1), of files r, symmetric] by simp
  also have "\<dots> \<subseteq># mset files" by simp
  finally have "sized kept" by (rule sized_part [OF assms(2)])
  then obtain rest where rest: "mset kept = mset extra + mset rest" "bytes_of rest \<le> uint cap"
      "\<forall>g \<in> set extra. \<forall>f \<in> set rest. file_Date g \<le> file_Date f"
      "extra \<noteq> [] \<longrightarrow> uint cap < bytes_of rest + file_Size (last extra)"
    using sizeCapPrune_result [OF assms(1)] unfolding extra_def by blast
  note left = counted_after_all [OF assms(1) rest(1) [unfolded kept_def], folded gone]
  have "(\<Sum>f \<in># mset rest. file_Size f) = bytes_of rest" by (simp add: bytes_of_def sum_mset_sum_list flip: mset_map)
  then show ?thesis using rest left unfolding left(1) gone
    by (intro exI [of _ extra]) (simp add: SelectForDeletion_parts)
qed

section \<open>The default settings\<close>

text \<open>What \<^verbatim>\<open>src/config/defaults.go\<close> sets for \<open>backup_daily\<close>.\<close>

definition default_retention :: BackupRetention where
  "default_retention = \<lparr>MaxBackups = 1, KeepWeekly = 0, KeepMonthly = 0, KeepYearly = 0\<rparr>"

text \<open>
  With the default settings the backup of a Sunday, or of the first of a month, never survives the sweep that
  follows it. Whatever else is in the directory, with or without a cap, the full backup named for such a day is
  selected for deletion, although it is the newest one.
\<close>

theorem default_deletes_sunday_backup:
  assumes "sorts srt" and "common_year loc t" and "Weekday loc t = 0 \<or> Day loc t = 1"
    and "en \<in> set es" and "\<not> entry_IsDir en" and "entry_Name en = FullFilename p loc t enc"
  shows "FullFilename p loc t enc
    \<in> file_Name ` set (SelectForDeletion srt (ScanDir here p es) default_retention cap on)"
proof -
  define f where "f = \<lparr>file_Name = FullFilename p loc t enc, file_Date = local_days loc t * day,
    file_Size = entry_Size en, file_Class = classify loc t\<rparr>"
  have "ClassifyFile here p (entry_Name en) (entry_Size en) (entry_ModTime en) = Some f"
    unfolding assms(6) f_def by (rule names_classified(1) [OF assms(2)])
  then have "f \<in> set (ScanDir here p es)"
    using assms(4,5) by (force simp: ScanDir_def List.map_filter_def)
  then have f: "f \<in> set (of_class (classify loc t) (ScanDir here p es))" by (simp add: of_class_def f_def)
  have tier: "classify loc t \<noteq> classDaily" "classify loc t \<noteq> classIncremental"
    using assms(3) by (auto simp: classify_def)
  then have "keep_of default_retention (classify loc t) = 0" by (cases "classify loc t") (simp_all add: default_retention_def)
  then have "tier_kept srt (ScanDir here p es) default_retention (classify loc t) = []"
    using tier_halves(2) [OF assms(1), of "ScanDir here p es" default_retention "classify loc t"] by simp
  then have "f \<in> set (tier_gone srt (ScanDir here p es) default_retention (classify loc t))"
    using f tier_halves(1) [OF assms(1), of "ScanDir here p es" default_retention "classify loc t"] mset_eq_setD by fastforce
  then have "f \<in> set (all_gone srt (ScanDir here p es) default_retention)"
    using tier by (cases "classify loc t") (simp_all add: all_gone_def)
  then show ?thesis by (force simp: SelectForDeletion_parts f_def)
qed


section \<open>A directory\<close>

text \<open>A sort by insertion, which keeps the promise.\<close>

fun insert_sorted :: "(File \<Rightarrow> File \<Rightarrow> bool) \<Rightarrow> File \<Rightarrow> File list \<Rightarrow> File list" where
  "insert_sorted lt f [] = [f]"
| "insert_sorted lt f (g # gs) = (if lt g f then g # insert_sorted lt f gs else f # g # gs)"

fun insertion_sort :: sorter where
  "insertion_sort lt [] = []"
| "insertion_sort lt (f # fs) = insert_sorted lt f (insertion_sort lt fs)"

lemma mset_insert_sorted: "mset (insert_sorted lt f fs) = add_mset f (mset fs)"
  by (induction fs) simp_all

lemma mset_insertion_sort: "mset (insertion_sort lt fs) = mset fs"
  by (induction fs) (simp_all add: mset_insert_sorted)

lemma sorted_insert_sorted:
  "sorted_wrt (\<lambda>a b. key a \<le> (key b :: int)) fs \<Longrightarrow>
   sorted_wrt (\<lambda>a b. key a \<le> key b) (insert_sorted (\<lambda>a b. key a < key b) f fs)"
proof (induction fs)
  case (Cons g gs)
  have "set (insert_sorted (\<lambda>a b. key a < key b) f gs) = insert f (set gs)"
    by (metis mset_insert_sorted set_mset_add_mset_insert set_mset_mset)
  with Cons show ?case by auto
qed simp

lemma insertion_sorts: "sorts insertion_sort"
proof -
  have "sorted_wrt (\<lambda>a b. key a \<le> key b) (insertion_sort (\<lambda>a b. key a < key b) xs)"
    for key :: "File \<Rightarrow> int" and xs
    by (induction xs) (simp_all add: sorted_insert_sorted)
  then show ?thesis by (simp add: sorts_def mset_insertion_sort)
qed

definition demo_file :: "string \<Rightarrow> int \<Rightarrow> int \<Rightarrow> tier \<Rightarrow> File" where
  "demo_file name d n c = \<lparr>file_Name = name, file_Date = d, file_Size = n, file_Class = c\<rparr>"

definition demo_files :: "File list" where
  "demo_files = [demo_file ''a'' 1 5 classDaily, demo_file ''b'' 3 6 classDaily, demo_file ''c'' 2 7 classDaily,
     demo_file ''w'' 4 8 classWeekly, demo_file ''i'' 0 9 classIncremental]"

definition demo_retention :: BackupRetention where
  "demo_retention = \<lparr>MaxBackups = 2, KeepWeekly = 1, KeepMonthly = 0, KeepYearly = 0\<rparr>"

lemmas demo_sweep = SelectForDeletion_def tierPrune_def of_class_def demo_files_def demo_file_def demo_retention_def
  newest_first_def oldest_first_def Let_def

theorem retention_keeps_newest_witness:
  "SelectForDeletion insertion_sort demo_files demo_retention 0 False = [demo_file ''a'' 1 5 classDaily]
   \<and> size (filter_mset (\<lambda>f. file_Class f = classDaily) (left_after demo_files [demo_file ''a'' 1 5 classDaily])) = 2"
proof -
  have gone: "SelectForDeletion insertion_sort demo_files demo_retention 0 False = [demo_file ''a'' 1 5 classDaily]"
    by (simp add: demo_sweep)
  have "size (filter_mset (\<lambda>f. file_Class f = classDaily) (left_after demo_files [demo_file ''a'' 1 5 classDaily]))
      = min (nat (keep_of demo_retention classDaily)) (length (of_class classDaily demo_files))"
    using retention_keeps_newest [OF insertion_sorts gone [symmetric]] by blast
  also have "\<dots> = 2" by (simp add: demo_sweep)
  finally show ?thesis using gone by blast
qed

theorem size_cap_oldest_first_witness:
  "\<exists>extra. SelectForDeletion insertion_sort demo_files demo_retention 15 True = demo_file ''a'' 1 5 classDaily # extra
   \<and> (\<Sum>f \<in># counted_after demo_files (demo_file ''a'' 1 5 classDaily # extra). file_Size f) \<le> 15"
proof -
  have gone: "SelectForDeletion insertion_sort demo_files demo_retention 15 False = [demo_file ''a'' 1 5 classDaily]"
    by (simp add: demo_sweep)
  have "sized demo_files" by (simp add: sized_def bytes_of_def demo_files_def demo_file_def)
  then show ?thesis
    using size_cap_oldest_first [OF insertion_sorts, of demo_files 15 _ demo_retention, OF _ _ refl] gone by auto
qed

definition demo_sunday :: int where "demo_sunday = 10 * day"

theorem default_deletes_sunday_backup_witness:
  "FullFilename ''redxt'' UTC demo_sunday False
    \<in> file_Name ` set (SelectForDeletion insertion_sort (ScanDir UTC ''redxt''
        [\<lparr>entry_Name = FullFilename ''redxt'' UTC demo_sunday False, entry_IsDir = False, entry_Size = 5,
          entry_ModTime = demo_sunday\<rparr>]) default_retention 0 False)"
proof -
  have d: "date_of_days 10 = \<lparr>date_Year = 1970, date_Month = 1, date_Day = 11\<rparr>"
    using date_of_days_of_date [of "\<lparr>date_Year = 1970, date_Month = 1, date_Day = 11\<rparr>"]
    by (simp add: valid_date_def month_length_def days_of_date_def year_start_def month_starts_def leap_year_def)
  have l: "local_days UTC demo_sunday = 10"
    by (simp add: local_days_def local_seconds_def UTC_def demo_sunday_def day_def hour_def second_def)
  have "common_year UTC demo_sunday" by (simp add: common_year_def date_at_def d l)
  moreover have "Weekday UTC demo_sunday = 0 \<or> Day UTC demo_sunday = 1"
    by (simp add: Weekday_def l weekday_of_days_def)
  ultimately show ?thesis by (rule default_deletes_sunday_backup [OF insertion_sorts _ _ list.set_intros(1)]) simp_all
qed

theorem sibling_backups_claimed_witness:
  "ClassifyFile UTC ''redxt'' (FullFilename ''redxt-lab'' UTC 0 False) 3 demo_sunday =
     Some \<lparr>file_Name = FullFilename ''redxt-lab'' UTC 0 False, file_Date = demo_sunday, file_Size = 3,
           file_Class = classify UTC demo_sunday\<rparr>"
proof -
  have "list_all (in_cls [(0, 8), (11, 11), (14, 31), (33, 255)]) ''lab''" by (simp add: in_cls_def byte_def)
  then show ?thesis
    using epoch_year sibling_backups_claimed [of "''lab''" UTC 0 UTC "''redxt''" False 3 demo_sunday] by simp
qed

end
