(* ===== verification/Go_Path.thy ===== *)
theory Go_Path
  imports Go_Strings
begin

text \<open>
  What the program uses of Go's package \<open>path\<close>: \<open>Clean\<close>, as its documentation states it on the segments
  of the path, and \<open>Match\<close>, with the chunks and the error checks of its source.
\<close>

section \<open>\<open>Clean\<close>\<close>

fun clean_segments :: "bool \<Rightarrow> string list \<Rightarrow> string list \<Rightarrow> string list" where
  "clean_segments rooted kept [] = rev kept"
| "clean_segments rooted kept (seg # segs) =
     (if seg = [] \<or> seg = ''.'' then clean_segments rooted kept segs
      else if seg = ''..'' then
        (case kept of
           [] \<Rightarrow> clean_segments rooted (if rooted then [] else [seg]) segs
         | upper # rest \<Rightarrow> clean_segments rooted (if upper = ''..'' then seg # kept else rest) segs)
      else clean_segments rooted (seg # kept) segs)"

definition path_Clean :: "string \<Rightarrow> string" where
  "path_Clean p =
     (let rooted = HasPrefix p ''/'';
          out = (if rooted then ''/'' else []) @ join ''/'' (clean_segments rooted [] (split_on (CHR ''/'') p))
      in if out = [] then ''.'' else out)"

section \<open>\<open>Match\<close>\<close>

text \<open>The rune at the start of a string, and the rest.\<close>

definition rune_at :: "string \<Rightarrow> nat \<times> string" where
  "rune_at s = (let (r, n) = decode_rune (map byte s) in (r, drop n s))"

text \<open>
  The first chunk of a pattern, after the stars in front of it, and the pattern after it. A chunk ends
  at the next star that is neither escaped nor in a class.
\<close>

fun scan_to :: "bool \<Rightarrow> string \<Rightarrow> string" where
  "scan_to inrange [] = []"
| "scan_to inrange (c # p) =
     (if c = CHR 0x5C then (case p of [] \<Rightarrow> [c] | d # q \<Rightarrow> c # d # scan_to inrange q)
      else if c = CHR ''*'' \<and> \<not> inrange then []
      else c # scan_to (if c = CHR ''['' then True else if c = CHR '']'' then False else inrange) p)"

definition unstarred :: "string \<Rightarrow> string" where
  "unstarred pattern = dropWhile (\<lambda>c. c = CHR ''*'') pattern"

definition chunk_of :: "string \<Rightarrow> string" where
  "chunk_of pattern = scan_to False (unstarred pattern)"

definition rest_of :: "string \<Rightarrow> string" where
  "rest_of pattern = drop (length (chunk_of pattern)) (unstarred pattern)"

lemma rest_of_length: "pattern \<noteq> [] \<Longrightarrow> length (rest_of pattern) < length pattern"
proof (cases pattern)
  case (Cons c p)
  show ?thesis
  proof (cases "c = CHR ''*''")
    case True
    then have "length (unstarred pattern) \<le> length p"
      using length_dropWhile_le [of "\<lambda>c. c = CHR ''*''" p] by (simp add: unstarred_def Cons)
    then show ?thesis by (simp add: rest_of_def Cons)
  next
    case False
    then have "unstarred pattern = c # p" by (simp add: unstarred_def Cons)
    moreover have "chunk_of pattern \<noteq> []"
      using False \<open>unstarred pattern = c # p\<close> by (cases p) (simp_all add: chunk_of_def)
    ultimately show ?thesis by (cases "chunk_of pattern") (simp_all add: rest_of_def Cons)
  qed
qed simp

text \<open>A character of a class; \<open>None\<close> is \<open>ErrBadPattern\<close>.\<close>

definition getEsc :: "string \<Rightarrow> (nat \<times> string) option" where
  "getEsc chunk =
     (if chunk = [] \<or> hd chunk = CHR ''-'' \<or> hd chunk = CHR '']'' then None
      else
      let c = (if hd chunk = CHR 0x5C then tl chunk else chunk)
      in if c = [] then None
         else
         let (r, rest) = rune_at c
         in if r = 65533 \<and> length c = length rest + 1 then None
            else if rest = [] then None else Some (r, rest))"

lemma length_rune_at: "s \<noteq> [] \<Longrightarrow> length (snd (rune_at s)) < length s"
  by (cases s) (auto simp: rune_at_def decode_rune_def Let_def)

lemma getEsc_length: "getEsc chunk = Some (r, rest) \<Longrightarrow> length rest < length chunk"
proof -
  assume got: "getEsc chunk = Some (r, rest)"
  define c where "c = (if hd chunk = CHR 0x5C then tl chunk else chunk)"
  have "c \<noteq> []" "snd (rune_at c) = rest" using got
    by (auto simp: getEsc_def c_def [symmetric] Let_def split: prod.splits if_splits)
  then have "length rest < length c" using length_rune_at [of c] by simp
  also have "length c \<le> length chunk" by (simp add: c_def)
  finally show ?thesis .
qed

text \<open>The ranges of a class, with the rune to match; the result is whether one of them has it.\<close>

function match_ranges :: "nat \<Rightarrow> bool \<Rightarrow> bool \<Rightarrow> string \<Rightarrow> (bool \<times> string) option" where
  "match_ranges r found again chunk =
     (if again \<and> HasPrefix chunk '']'' then Some (found, tl chunk)
      else
      case getEsc chunk of
        None \<Rightarrow> None
      | Some (lo, rest) \<Rightarrow>
          if HasPrefix rest ''-'' then
            (case getEsc (tl rest) of
               None \<Rightarrow> None
             | Some (hi, rest') \<Rightarrow> match_ranges r (found \<or> lo \<le> r \<and> r \<le> hi) True rest')
          else match_ranges r (found \<or> r = lo) True rest)"
  by pat_completeness auto
termination
proof (relation "measure (\<lambda>(r, found, again, chunk). length chunk)", goal_cases)
  case (2 r found again chunk x lo rest y hi rest')
  then have "length rest < length chunk" "length rest' < length (tl rest)" by (auto dest: getEsc_length)
  then show ?case by simp
next
  case (3 r found again chunk x lo rest)
  then show ?case by (auto dest: getEsc_length)
qed simp

declare match_ranges.simps [simp del]

lemma match_ranges_length: "match_ranges r found again chunk = Some (m, rest) \<Longrightarrow> length rest < length chunk"
proof (induction r found again chunk rule: match_ranges.induct)
  case (1 r found again chunk)
  show ?case
  proof (cases "again \<and> HasPrefix chunk '']''")
    case True
    with 1(3) show ?thesis by (subst (asm) match_ranges.simps) (cases chunk; auto simp: HasPrefix_def)
  next
    case False
    then obtain lo mid where lo: "getEsc chunk = Some (lo, mid)"
      using 1(3) by (auto simp: match_ranges.simps [of r found again chunk] split: option.splits)
    note less = getEsc_length [OF lo]
    show ?thesis
    proof (cases "HasPrefix mid ''-''")
      case True
      then obtain hi end' where hi: "getEsc (tl mid) = Some (hi, end')"
        using 1(3) False lo by (auto simp: match_ranges.simps [of r found again chunk] split: option.splits)
      have "length rest < length end'"
        using 1(1) [OF False lo refl True hi refl] 1(3) False lo True hi
        by (simp add: match_ranges.simps [of r found again chunk])
      moreover have "length end' < length (tl mid)" by (rule getEsc_length [OF hi])
      ultimately show ?thesis using less by simp
    next
      case no: False
      then show ?thesis using 1(2) [OF False lo refl no] 1(3) False lo less
        by (simp add: match_ranges.simps [of r found again chunk])
    qed
  qed
qed


text \<open>
  A chunk against the start of a name: \<open>None\<close> is \<open>ErrBadPattern\<close>, \<open>Some None\<close> no match, and otherwise
  the rest of the name. After a mismatch the chunk is still read to its end; \<open>s = None\<close> marks that.
\<close>

function matchChunk :: "string \<Rightarrow> string option \<Rightarrow> string option option" where
  "matchChunk [] s = Some s"
| "matchChunk (c # chunk) s =
     (let s = (if s = Some [] then None else s)
      in if c = CHR ''['' then
           (let (r, s') = (case s of None \<Rightarrow> (0, None) | Some t \<Rightarrow> (let (r, t') = rune_at t in (r, Some t')));
                negated = HasPrefix chunk ''^''
            in case match_ranges r False False (if negated then tl chunk else chunk) of
                 None \<Rightarrow> None
               | Some (found, rest) \<Rightarrow> matchChunk rest (if found = negated then None else s'))
         else if c = CHR ''?'' then
           matchChunk chunk (case s of None \<Rightarrow> None
             | Some t \<Rightarrow> if hd t = CHR ''/'' then None else Some (snd (rune_at t)))
         else if c = CHR 0x5C then
           (case chunk of
              [] \<Rightarrow> None
            | d # rest \<Rightarrow> matchChunk rest (case s of None \<Rightarrow> None | Some t \<Rightarrow> if d = hd t then Some (tl t) else None))
         else matchChunk chunk (case s of None \<Rightarrow> None | Some t \<Rightarrow> if c = hd t then Some (tl t) else None))"
  by pat_completeness auto
termination
proof (relation "measure (length \<circ> fst)", goal_cases)
  case (2 c chunk s s1 x r s' negated y found rest)
  then show ?case by (auto dest!: match_ranges_length split: if_splits)
qed simp_all

text \<open>The positions a star may skip to, up to the first slash, the first one that goes on as it should.\<close>

fun skip_star :: "string \<Rightarrow> bool \<Rightarrow> string \<Rightarrow> string option option" where
  "skip_star chunk final [] = Some None"
| "skip_star chunk final (c # name) =
     (if c = CHR ''/'' then Some None
      else case matchChunk chunk (Some name) of
             None \<Rightarrow> None
           | Some (Some t) \<Rightarrow> if final \<and> t \<noteq> [] then skip_star chunk final name else Some (Some t)
           | Some None \<Rightarrow> skip_star chunk final name)"

text \<open>The rest of a pattern is well formed.\<close>

function pattern_ok :: "string \<Rightarrow> bool" where
  "pattern_ok pattern =
     (if pattern = [] then True
      else if matchChunk (chunk_of pattern) (Some []) = None then False
      else pattern_ok (rest_of pattern))"
  by pat_completeness auto
termination
  by (relation "measure length") (simp_all add: rest_of_length)

function path_Match :: "string \<Rightarrow> string \<Rightarrow> bool option" where
  "path_Match pattern name =
     (if pattern = [] then Some (name = [])
      else
      let star = HasPrefix pattern ''*''; chunk = chunk_of pattern
      in if star \<and> chunk = [] then Some (CHR ''/'' \<notin> set name)
         else
         let missed = (if pattern_ok (rest_of pattern) then Some False else None)
         in case matchChunk chunk (Some name) of
              None \<Rightarrow> None
            | Some res \<Rightarrow>
                (case (case res of Some t \<Rightarrow> if t = [] \<or> rest_of pattern \<noteq> [] then Some t else None | None \<Rightarrow> None) of
                   Some t \<Rightarrow> path_Match (rest_of pattern) t
                 | None \<Rightarrow>
                     if \<not> star then missed
                     else (case skip_star chunk (rest_of pattern = []) name of
                             None \<Rightarrow> None
                           | Some None \<Rightarrow> missed
                           | Some (Some t) \<Rightarrow> path_Match (rest_of pattern) t)))"
  by pat_completeness auto
termination
  by (relation "measure (length \<circ> fst)") (simp_all add: rest_of_length)

declare pattern_ok.simps [simp del] path_Match.simps [simp del]


section \<open>A literal and a star\<close>

definition literal :: "string \<Rightarrow> bool" where
  "literal p \<longleftrightarrow> list_all (\<lambda>c. c \<notin> {CHR ''*'', CHR ''?'', CHR ''['', CHR 0x5C}) p"

lemma literal_Cons: "literal (c # p) \<longleftrightarrow> c \<notin> {CHR ''*'', CHR ''?'', CHR ''['', CHR 0x5C} \<and> literal p"
  by (simp add: literal_def)

lemma scan_to_literal: "literal p \<Longrightarrow> scan_to False (p @ CHR ''*'' # q) = p"
  by (induction p) (simp_all add: literal_Cons)

lemma unstarred_literal: "literal p \<Longrightarrow> p \<noteq> [] \<Longrightarrow> unstarred (p @ q) = p @ q"
  by (cases p) (simp_all add: unstarred_def literal_Cons)

lemma matchChunk_failed: "literal p \<Longrightarrow> matchChunk p None = Some None"
  by (induction p) (simp_all add: literal_Cons)

lemma matchChunk_literal:
  "literal p \<Longrightarrow> matchChunk p (Some s) = Some (if prefix p s then Some (drop (length p) s) else None)"
proof (induction p arbitrary: s)
  case (Cons c p)
  then show ?case by (cases s) (auto simp: literal_Cons matchChunk_failed)
qed simp

lemma path_Match_star: "path_Match ''*'' s = Some (CHR ''/'' \<notin> set s)"
  by (simp add: path_Match.simps HasPrefix_def chunk_of_def unstarred_def)

lemma path_Match_literal_star:
  assumes "literal p" and "p \<noteq> []"
  shows "path_Match (p @ ''*'') s = Some (\<exists>x. s = p @ x \<and> CHR ''/'' \<notin> set x)"
proof -
  have chunk: "chunk_of (p @ ''*'') = p" "rest_of (p @ ''*'') = ''*''"
    using assms by (simp_all add: chunk_of_def rest_of_def unstarred_literal scan_to_literal)
  have nostar: "\<not> HasPrefix (p @ ''*'') ''*''" using assms by (cases p) (auto simp: HasPrefix_def literal_Cons)
  have ok: "pattern_ok ''*''" by (simp add: pattern_ok.simps chunk_of_def rest_of_def unstarred_def)
  show ?thesis
    by (subst path_Match.simps)
      (auto simp: chunk nostar ok matchChunk_literal [OF assms(1)] path_Match_star prefix_def split: if_splits)
qed

lemma split_on_snoc: "split_on sep (s @ [sep]) = split_on sep s @ [[]]"
  by (induction s) (auto split: list.splits)

lemma clean_segments_plain:
  "''..'' \<notin> set segs \<Longrightarrow> clean_segments rooted kept segs = rev kept @ filter (\<lambda>s. s \<noteq> [] \<and> s \<noteq> ''.'') segs"
  by (induction segs arbitrary: kept) auto

end
