(* ===== verification/Http_Request.thy ===== *)
theory Http_Request
  imports Go_Path Service_Domains
begin

text \<open>
  A request as the middleware sees it, with the helpers of \<^verbatim>\<open>src/server/middleware/util.go\<close> and the sources of
  a credential (\<^verbatim>\<open>src/urlvars/request.go\<close>).
\<close>

section \<open>Requests\<close>

record AuthInfo =
  ai_Subject :: string
  ai_Kind :: string
  ai_Source :: string
  ai_Scopes :: "string list"
  ai_SessionID :: string

text \<open>
  An \<open>*http.Request\<close>: \<open>req_Header\<close>, \<open>req_Query\<close> and \<open>req_Form\<close> give the first value of a name, trimmed by
  nobody yet and empty when there is none; \<open>req_Cookie\<close> gives a cookie. The last two fields are what the
  context carries: the mark of the allow-list and the identity.
\<close>

record request =
  req_Method :: string
  req_Path :: string
  req_RawPath :: string
  req_RawQuery :: string
  req_Host :: string
  req_RemoteAddr :: string
  req_TLS :: bool
  req_Header :: "string \<Rightarrow> string"
  req_Query :: "string \<Rightarrow> string"
  req_Form :: "string \<Rightarrow> string"
  req_Cookie :: "string \<Rightarrow> string option"
  req_allowlisted :: bool
  req_auth :: "AuthInfo option"

section \<open>\<^verbatim>\<open>util.go\<close>\<close>

definition equalFold :: "string \<Rightarrow> string \<Rightarrow> bool" where
  "equalFold a b = EqualFold (TrimSpace a) (TrimSpace b)"

definition remoteHost :: "request \<Rightarrow> string" where
  "remoteHost req =
     (case SplitHostPort (req_RemoteAddr req) of
        None \<Rightarrow> TrimSpace (req_RemoteAddr req)
      | Some host \<Rightarrow> TrimSpace host)"

definition SplitDomains :: "string \<Rightarrow> string list" where
  "SplitDomains raw = filter (\<lambda>part. part \<noteq> []) (map (\<lambda>part. ToLower (TrimSpace part)) (split_on (CHR '','') raw))"

definition requestScheme :: "request \<Rightarrow> string" where
  "requestScheme req = (if req_TLS req then ''https'' else ''http'')"

text \<open>The loop over the slashes of the path, from the last one to the second byte.\<close>

fun covers_prefix :: "string \<Rightarrow> string \<Rightarrow> nat \<Rightarrow> bool" where
  "covers_prefix pattern p 0 = False"
| "covers_prefix pattern p (Suc i) =
     (Suc i < length p \<and> p ! Suc i = CHR ''/'' \<and> path_Match pattern (take (Suc i) p) = Some True
      \<or> covers_prefix pattern p i)"

definition matchesPathPrefix :: "string \<Rightarrow> string \<Rightarrow> bool" where
  "matchesPathPrefix p pattern0 =
     (let pattern = TrimSpace pattern0
      in if pattern = [] then False
         else if list_ex (\<lambda>c. c \<in> {CHR ''*'', CHR ''?'', CHR ''[''}) pattern then
           path_Match pattern p = Some True \<or> covers_prefix pattern p (length p - 1)
         else p = pattern \<or> HasPrefix p (TrimSuffix pattern ''/'' @ ''/''))"

definition matchesAnyPath :: "string \<Rightarrow> string list \<Rightarrow> bool" where
  "matchesAnyPath p patterns = list_ex (matchesPathPrefix p) patterns"

section \<open>Credentials of a request\<close>

definition HeaderAuthorization :: string where "HeaderAuthorization = ''Authorization''"
definition SourceBearer :: string where "SourceBearer = ''Authorization Bearer''"
definition SourceBasic :: string where "SourceBasic = ''Authorization Basic''"
definition SourceDigest :: string where "SourceDigest = ''Authorization Digest''"
definition QueryParamToken :: string where "QueryParamToken = ''token''"
definition SourceQuery :: string where "SourceQuery = ''query:'' @ QueryParamToken"

definition tokenHeaders :: "string list" where
  "tokenHeaders = [''X-API-Key'', ''API-Key'', ''ApiKey'', ''X-Auth-Token'', ''X-Access-Token'', ''X-Token'', ''Token'']"

definition authorizationToken :: "string \<Rightarrow> string \<times> string" where
  "authorizationToken raw =
     (case Cut (CHR '' '') (TrimSpace raw) of
        None \<Rightarrow> ([], [])
      | Some (scheme, rest) \<Rightarrow>
          let credentials = TrimSpace rest
          in if credentials = [] then ([], [])
             else if ToLower scheme = ''bearer'' then (credentials, SourceBearer)
             else if ToLower scheme = ''basic'' then (credentials, SourceBasic)
             else if ToLower scheme = ''digest'' then (credentials, SourceDigest)
             else ([], []))"

definition AuthToken :: "request \<Rightarrow> string \<times> string" where
  "AuthToken req =
     (let (token, source) = authorizationToken (req_Header req HeaderAuthorization)
      in if token \<noteq> [] then (token, source)
         else
         case find (\<lambda>name. TrimSpace (req_Header req name) \<noteq> []) tokenHeaders of
           Some name \<Rightarrow> (TrimSpace (req_Header req name), name)
         | None \<Rightarrow>
             let value = TrimSpace (req_Query req QueryParamToken)
             in if value \<noteq> [] then (value, SourceQuery) else ([], []))"

section \<open>What a pattern covers\<close>

lemma covers_prefix_iff:
  "covers_prefix pattern p n \<longleftrightarrow>
   (\<exists>i. 0 < i \<and> i \<le> n \<and> i < length p \<and> p ! i = CHR ''/'' \<and> path_Match pattern (take i p) = Some True)"
proof (induction n)
  case (Suc n)
  then show ?case by (auto simp: le_Suc_eq)
qed simp

text \<open>A directory and a star cover the whole tree below the directory, and nothing else.\<close>

lemma glob_covers_subtree:
  assumes "literal d" and "d \<noteq> []" and "TrimSpace (d @ ''/*'') = d @ ''/*''"
  shows "matchesPathPrefix p (d @ ''/*'') \<longleftrightarrow> HasPrefix p (d @ ''/'')"
proof -
  have lit: "literal (d @ ''/'')" using assms(1) by (simp add: literal_def)
  have match: "path_Match (d @ ''/*'') q = Some True \<longleftrightarrow> (\<exists>x. q = d @ ''/'' @ x \<and> CHR ''/'' \<notin> set x)" for q
    using path_Match_literal_star [OF lit, of q] by simp
  have "matchesPathPrefix p (d @ ''/*'') \<longleftrightarrow>
      path_Match (d @ ''/*'') p = Some True \<or> covers_prefix (d @ ''/*'') p (length p - 1)"
    by (simp add: matchesPathPrefix_def assms(3) Let_def)
  also have "\<dots> \<longleftrightarrow> HasPrefix p (d @ ''/'')"
  proof
    assume "path_Match (d @ ''/*'') p = Some True \<or> covers_prefix (d @ ''/*'') p (length p - 1)"
    then obtain i where "path_Match (d @ ''/*'') (take i p) = Some True"
      unfolding covers_prefix_iff by (metis order_refl take_all)
    then obtain x where "take i p = d @ ''/'' @ x" using match by blast
    then have "p = d @ ''/'' @ x @ drop i p" by (metis append.assoc append_take_drop_id)
    then show "HasPrefix p (d @ ''/'')" by (auto simp: HasPrefix_def prefix_def)
  next
    assume "HasPrefix p (d @ ''/'')"
    then obtain r where p: "p = d @ ''/'' @ r" by (auto simp: HasPrefix_def prefix_def)
    show "path_Match (d @ ''/*'') p = Some True \<or> covers_prefix (d @ ''/*'') p (length p - 1)"
    proof (cases "CHR ''/'' \<in> set r")
      case False
      then have "path_Match (d @ ''/*'') p = Some True" unfolding match p by blast
      then show ?thesis by blast
    next
      case True
      then obtain x y where r: "r = x @ CHR ''/'' # y" "CHR ''/'' \<notin> set x" by (metis split_list_first)
      define i where "i = length (d @ ''/'' @ x)"
      have "take i p = d @ ''/'' @ x" "p ! i = CHR ''/''" "i < length p" "0 < i"
        by (simp_all add: p r(1) i_def nth_append)
      then have "covers_prefix (d @ ''/*'') p (length p - 1)"
        unfolding covers_prefix_iff using match r(2) by (intro exI [of _ i]) auto
      then show ?thesis by blast
    qed
  qed
  finally show ?thesis .
qed

end
