(* ===== verification/Http_Stages.thy ===== *)
theory Http_Stages
  imports Http_Request
begin

text \<open>
  The stages of the middleware chain that decide about a request (\<^verbatim>\<open>src/server/middleware\<close>), one definition
  per stage: the request goes on, possibly changed, or is answered. The functions an operator configures are
  arguments of the options; \<open>None\<close> is a nil one.
\<close>

datatype answer =
    Redirected string
  | Refused nat
  | NoContent
  | TooManyRequests int

type_synonym stage = "request \<Rightarrow> answer + request"

definition passthrough :: stage where
  "passthrough req = Inr req"

section \<open>\<^verbatim>\<open>normalize.go\<close>\<close>

definition hasUpperASCII :: "string \<Rightarrow> bool" where
  "hasUpperASCII s = list_ex is_upper s"

definition lastSegmentIsFile :: "string \<Rightarrow> bool" where
  "lastSegmentIsFile p0 =
     (let p = TrimSuffix p0 ''/''
      in Contains (drop (nat (LastIndexByte p (CHR ''/'') + 1)) p) ''.'')"

text \<open>The canonical form of a path, and the redirect to it; the target keeps the query.\<close>

definition canonical_url :: "bool \<Rightarrow> string \<Rightarrow> string" where
  "canonical_url LowercasePaths p =
     (let lowered = (if LowercasePaths \<and> hasUpperASCII p then ToLower p else p)
      in if lowered \<noteq> ''/'' \<and> HasSuffix lowered ''/'' \<and> \<not> lastSegmentIsFile lowered
         then TrimSuffix lowered ''/'' else lowered)"

definition URLNormalize :: "bool \<Rightarrow> stage" where
  "URLNormalize LowercasePaths req =
     (let p = (if req_Path req = [] then ''/'' else req_Path req);
          canonical = canonical_url LowercasePaths p
      in if canonical = p then Inr req
         else Inl (Redirected (canonical @ (if req_RawQuery req \<noteq> [] then ''?'' @ req_RawQuery req else []))))"

section \<open>\<^verbatim>\<open>pathsec.go\<close>\<close>

definition DefaultMaxPathLength :: int where "DefaultMaxPathLength = 2048"

definition encodedRejects :: "string list" where
  "encodedRejects = [''%2e'', ''%2f'', ''%5c'', ''%00'']"

definition StatusBadRequest :: nat where "StatusBadRequest = 400"
definition StatusUnauthorized :: nat where "StatusUnauthorized = 401"
definition StatusForbidden :: nat where "StatusForbidden = 403"

definition rejectPath :: "answer + request" where
  "rejectPath = Inl (Refused StatusBadRequest)"

definition PathSecurity :: "int \<Rightarrow> stage" where
  "PathSecurity MaxPathLength req =
     (let limit = (if MaxPathLength \<le> 0 then DefaultMaxPathLength else MaxPathLength);
          decoded = req_Path req;
          raw = (if req_RawPath req = [] then decoded else req_RawPath req)
      in if int (length decoded) > limit \<or> int (length raw) > limit then rejectPath
         else if Contains decoded ''..'' \<or> Contains raw ''..'' then rejectPath
         else if CHR 0x00 \<in> set decoded \<or> CHR 0x00 \<in> set raw then rejectPath
         else if Contains decoded [CHR 0x5C] then rejectPath
         else if list_ex (\<lambda>encoded. Contains (ToLower raw) encoded) encodedRejects then rejectPath
         else
         let cleaned0 = path_Clean decoded;
             cleaned1 = (if \<not> HasPrefix cleaned0 ''/'' then ''/'' @ cleaned0 else cleaned0);
             cleaned = (if decoded \<noteq> ''/'' \<and> HasSuffix decoded ''/'' \<and> \<not> HasSuffix cleaned1 ''/''
                        then cleaned1 @ ''/'' else cleaned1)
         in Inr (req\<lparr>req_Path := cleaned\<rparr>))"

section \<open>\<^verbatim>\<open>cors.go\<close>\<close>

datatype CORSTier = CORSTierDisabled | CORSTierConfig | CORSTierDomain | CORSTierLearned | CORSTierWildcard

definition CORSWildcard :: string where "CORSWildcard = ''*''"

record CORSOptions =
  cors_Configured :: string
  cors_Domains :: "string list"
  cors_LearnedOrigins :: "string list"
  cors_IsTrustedProxy :: "string \<Rightarrow> bool"

record CORSDecision =
  cd_Enabled :: bool
  cd_Tier :: CORSTier
  cd_Origins :: "string list"
  cd_Explicit :: bool

text \<open>The value of \<open>Access-Control-Allow-Origin\<close>, if any.\<close>

definition Allows :: "CORSDecision \<Rightarrow> string \<Rightarrow> string option" where
  "Allows d origin =
     (if \<not> cd_Enabled d then None
      else if \<not> cd_Explicit d then Some CORSWildcard
      else find (\<lambda>allowed. equalFold allowed origin) (cd_Origins d))"

definition appendOrigin :: "string list \<Rightarrow> string \<Rightarrow> string list" where
  "appendOrigin origins origin0 =
     (let origin = TrimSpace origin0
      in if origin = [] then origins
         else if list_ex (\<lambda>existing. equalFold existing origin) origins then origins
         else origins @ [origin])"

definition splitOrigins :: "string \<Rightarrow> string list" where
  "splitOrigins raw =
     fold (\<lambda>part0 out. let part = TrimSpace part0
                       in if part = [] \<or> part = CORSWildcard then out else appendOrigin out part)
       (split_on (CHR '','') raw) []"

definition forwardedOrigin :: "CORSOptions \<Rightarrow> request \<Rightarrow> string" where
  "forwardedOrigin opts req =
     (if \<not> cors_IsTrustedProxy opts (req_RemoteAddr req) then []
      else
      let host = TrimSpace (hd (split_on (CHR '','') (req_Header req ''X-Forwarded-Host'')))
      in if host = [] then []
         else
         let scheme0 = ToLower (TrimSpace (hd (split_on (CHR '','') (req_Header req ''X-Forwarded-Proto''))));
             scheme = (if scheme0 \<noteq> ''http'' \<and> scheme0 \<noteq> ''https'' then ''https'' else scheme0)
         in scheme @ ''://'' @ ToLower host)"

definition ResolveCORS :: "CORSOptions \<Rightarrow> request \<Rightarrow> CORSDecision" where
  "ResolveCORS opts req =
     (let configured = TrimSpace (cors_Configured opts)
      in if configured = [] then
           \<lparr>cd_Enabled = False, cd_Tier = CORSTierDisabled, cd_Origins = [], cd_Explicit = False\<rparr>
         else if configured \<noteq> CORSWildcard \<and> splitOrigins configured \<noteq> [] then
           \<lparr>cd_Enabled = True, cd_Tier = CORSTierConfig, cd_Origins = splitOrigins configured, cd_Explicit = True\<rparr>
         else
         let domains = fold (\<lambda>domain origins. appendOrigin origins (''https://'' @ domain)) (cors_Domains opts) [];
             learned = fold (\<lambda>origin origins. appendOrigin origins origin) (cors_LearnedOrigins opts) domains;
             forwarded = forwardedOrigin opts req;
             origins = (if forwarded \<noteq> [] then appendOrigin learned forwarded else learned);
             tier = (if length origins > length domains then CORSTierLearned
                     else if domains \<noteq> [] then CORSTierDomain else CORSTierWildcard)
         in if origins = [] then
              \<lparr>cd_Enabled = True, cd_Tier = CORSTierWildcard, cd_Origins = [CORSWildcard], cd_Explicit = False\<rparr>
            else \<lparr>cd_Enabled = True, cd_Tier = tier, cd_Origins = origins, cd_Explicit = True\<rparr>)"

definition preflight :: "request \<Rightarrow> bool" where
  "preflight req = (req_Method req = ''OPTIONS'' \<and> req_Header req ''Access-Control-Request-Method'' \<noteq> [])"

text \<open>What the stage decides, and the two headers that say who may read the response.\<close>

definition CORS :: "CORSOptions \<Rightarrow> stage" where
  "CORS opts req = (if preflight req then Inl NoContent else Inr req)"

definition cors_headers :: "CORSOptions \<Rightarrow> request \<Rightarrow> string option \<times> bool" where
  "cors_headers opts req =
     (let decision = ResolveCORS opts req
      in if \<not> cd_Enabled decision then (None, False)
         else case Allows decision (req_Header req ''Origin'') of
                None \<Rightarrow> (None, False)
              | Some origin \<Rightarrow> (Some origin, cd_Explicit decision))"

section \<open>\<^verbatim>\<open>csrf.go\<close>\<close>

record CSRFOptions =
  csrf_Enabled :: bool
  csrf_ExemptPaths :: "string list"
  csrf_SessionCookieNames :: "string list"
  csrf_SessionSameSiteStrict :: bool
  csrf_CookieName :: string
  csrf_HeaderNames :: "string list"
  csrf_FieldName :: string
  csrf_IsPublicPath :: "(string \<Rightarrow> bool) option"
  csrf_SelfOrigin :: "(request \<Rightarrow> string) option"

text \<open>\<open>url.Parse\<close> of a referer, as its scheme and host; \<open>None\<close> is an error.\<close>

type_synonym url_parser = "string \<Rightarrow> (string \<times> string) option"

definition csrfSafeMethods :: "string list" where
  "csrfSafeMethods = [''GET'', ''HEAD'', ''OPTIONS'', ''TRACE'']"

definition csrfHeaderNames :: "string list" where
  "csrfHeaderNames = [''X-CSRF-Token'', ''X-XSRF-Token'']"

definition firstNonEmpty :: "string \<Rightarrow> string \<Rightarrow> string" where
  "firstNonEmpty value fallback = (if TrimSpace value \<noteq> [] then value else fallback)"

definition hasOriginOrReferer :: "request \<Rightarrow> bool" where
  "hasOriginOrReferer req =
     (TrimSpace (req_Header req ''Origin'') \<noteq> [] \<or> TrimSpace (req_Header req ''Referer'') \<noteq> [])"

definition hasProgrammaticCredential :: "request \<Rightarrow> bool" where
  "hasProgrammaticCredential req =
     (TrimSpace (req_Header req ''X-API-Token'') \<noteq> [] \<or> snd (AuthToken req) = SourceBearer)"

definition hasSessionCookie :: "request \<Rightarrow> string list \<Rightarrow> bool" where
  "hasSessionCookie req names =
     list_ex (\<lambda>name0. let name = TrimSpace name0
                      in name \<noteq> [] \<and> (case req_Cookie req name of None \<Rightarrow> False | Some v \<Rightarrow> v \<noteq> [])) names"

definition isWebSocketUpgrade :: "request \<Rightarrow> bool" where
  "isWebSocketUpgrade req = equalFold (req_Header req ''Upgrade'') ''websocket''"

definition csrfSelfOrigin :: "CSRFOptions \<Rightarrow> request \<Rightarrow> string" where
  "csrfSelfOrigin opts req =
     (case csrf_SelfOrigin opts of
        Some f \<Rightarrow> f req
      | None \<Rightarrow> if req_Host req = [] then [] else requestScheme req @ ''://'' @ req_Host req)"

definition requestIsSameSite :: "url_parser \<Rightarrow> CSRFOptions \<Rightarrow> request \<Rightarrow> bool" where
  "requestIsSameSite parse opts req =
     (let self = csrfSelfOrigin opts req;
          origin = TrimSpace (req_Header req ''Origin'');
          referer = TrimSpace (req_Header req ''Referer'')
      in if self = [] then False
         else if origin \<noteq> [] then equalFold origin self
         else if referer = [] then False
         else case parse referer of
                None \<Rightarrow> False
              | Some (scheme, host) \<Rightarrow>
                  if scheme = [] \<or> host = [] then False else equalFold (scheme @ ''://'' @ host) self)"

definition CSRFRequired :: "url_parser \<Rightarrow> CSRFOptions \<Rightarrow> request \<Rightarrow> bool" where
  "CSRFRequired parse opts req =
     (if \<not> csrf_Enabled opts then False
      else if req_Method req \<in> set csrfSafeMethods then False
      else if isWebSocketUpgrade req then False
      else if matchesAnyPath (req_Path req) (csrf_ExemptPaths opts) then False
      else if (case csrf_IsPublicPath opts of None \<Rightarrow> False | Some public \<Rightarrow> public (req_Path req)) then False
      else if hasProgrammaticCredential req then False
      else if \<not> hasSessionCookie req (csrf_SessionCookieNames opts) then False
      else if csrf_SessionSameSiteStrict opts \<and> \<not> hasOriginOrReferer req then False
      else \<not> requestIsSameSite parse opts req)"

definition csrfPresentedToken :: "request \<Rightarrow> string list \<Rightarrow> string \<Rightarrow> string" where
  "csrfPresentedToken req headerNames fieldName =
     (case find (\<lambda>name. TrimSpace (req_Header req name) \<noteq> []) headerNames of
        Some name \<Rightarrow> TrimSpace (req_Header req name)
      | None \<Rightarrow>
          let contentType = takeWhile (\<lambda>c. c \<noteq> CHR '';'') (req_Header req ''Content-Type'')
          in if equalFold contentType ''application/x-www-form-urlencoded''
             then TrimSpace (req_Form req fieldName) else [])"

definition rejectCSRF :: "answer + request" where
  "rejectCSRF = Inl (Refused StatusForbidden)"

definition CSRF :: "url_parser \<Rightarrow> CSRFOptions \<Rightarrow> stage" where
  "CSRF parse opts req =
     (let cookieName = firstNonEmpty (csrf_CookieName opts) ''csrf_token'';
          fieldName = firstNonEmpty (csrf_FieldName opts) ''csrf_token'';
          headerNames = (if csrf_HeaderNames opts = [] then csrfHeaderNames else csrf_HeaderNames opts)
      in if \<not> CSRFRequired parse opts req then Inr req
         else case req_Cookie req cookieName of
                None \<Rightarrow> rejectCSRF
              | Some cookie \<Rightarrow>
                  if cookie = [] then rejectCSRF
                  else
                  let presented = csrfPresentedToken req headerNames fieldName
                  in if presented = [] then rejectCSRF
                     else if presented \<noteq> cookie then rejectCSRF
                     else Inr req)"

section \<open>\<^verbatim>\<open>accesslist.go\<close> and \<^verbatim>\<open>geoip.go\<close>\<close>

record AccessOptions =
  al_Enabled :: bool
  al_ClientIP :: "(request \<Rightarrow> string) option"
  al_Contains :: "(string \<Rightarrow> bool) option"

definition client_ip :: "(request \<Rightarrow> string) option \<Rightarrow> request \<Rightarrow> string" where
  "client_ip f = (case f of None \<Rightarrow> remoteHost | Some g \<Rightarrow> g)"

definition Allowlist :: "AccessOptions \<Rightarrow> stage" where
  "Allowlist opts req =
     (case al_Contains opts of
        None \<Rightarrow> passthrough req
      | Some contains \<Rightarrow>
          if \<not> al_Enabled opts then passthrough req
          else if contains (client_ip (al_ClientIP opts) req) then Inr (req\<lparr>req_allowlisted := True\<rparr>)
          else Inr req)"

definition Blocklist :: "AccessOptions \<Rightarrow> stage" where
  "Blocklist opts req =
     (case al_Contains opts of
        None \<Rightarrow> passthrough req
      | Some contains \<Rightarrow>
          if \<not> al_Enabled opts then passthrough req
          else if \<not> req_allowlisted req \<and> contains (client_ip (al_ClientIP opts) req)
          then Inl (Refused StatusForbidden)
          else Inr req)"

text \<open>The annotation of the stage is left out: no other stage reads it.\<close>

record GeoIPOptions =
  geo_Lookup :: bool
  geo_ClientIP :: "(request \<Rightarrow> string) option"
  geo_Blocked :: "(string \<Rightarrow> bool) option"

definition GeoIP :: "GeoIPOptions \<Rightarrow> stage" where
  "GeoIP opts req =
     (if \<not> geo_Lookup opts then passthrough req
      else case geo_Blocked opts of
             None \<Rightarrow> Inr req
           | Some blocked \<Rightarrow>
               if \<not> req_allowlisted req \<and> blocked (client_ip (geo_ClientIP opts) req)
               then Inl (Refused StatusForbidden) else Inr req)"

section \<open>\<^verbatim>\<open>auth.go\<close>\<close>

definition HasScope :: "AuthInfo \<Rightarrow> string \<Rightarrow> bool" where
  "HasScope a scope = (scope \<in> set (ai_Scopes a))"

record TokenVerifier =
  VerifyToken :: "string \<Rightarrow> string \<Rightarrow> AuthInfo option"
  VerifySession :: "string \<Rightarrow> string \<Rightarrow> AuthInfo option"

record AuthOptions =
  auth_Verifier :: "TokenVerifier option"
  auth_SessionCookieNames :: "string list"
  auth_IsPublicPath :: "(string \<Rightarrow> bool) option"

fun session_identity :: "TokenVerifier \<Rightarrow> request \<Rightarrow> string list \<Rightarrow> AuthInfo option" where
  "session_identity v req [] = None"
| "session_identity v req (name0 # names) =
     (let name = TrimSpace name0
      in if name = [] then session_identity v req names
         else case req_Cookie req name of
                None \<Rightarrow> session_identity v req names
              | Some cookie \<Rightarrow>
                  if cookie = [] then session_identity v req names
                  else case VerifySession v name cookie of
                         Some info \<Rightarrow> Some info
                       | None \<Rightarrow> session_identity v req names)"

definition resolveIdentity :: "AuthOptions \<Rightarrow> request \<Rightarrow> AuthInfo option" where
  "resolveIdentity opts req =
     (case auth_Verifier opts of
        None \<Rightarrow> None
      | Some v \<Rightarrow>
          case session_identity v req (auth_SessionCookieNames opts) of
            Some info \<Rightarrow> Some info
          | None \<Rightarrow>
              let (token, source) = AuthToken req
              in if token = [] then None else VerifyToken v token source)"

definition Auth :: "AuthOptions \<Rightarrow> stage" where
  "Auth opts req =
     (case resolveIdentity opts req of
        Some info \<Rightarrow> Inr (req\<lparr>req_auth := Some info\<rparr>)
      | None \<Rightarrow>
          if (case auth_IsPublicPath opts of None \<Rightarrow> True | Some public \<Rightarrow> public (req_Path req)) then Inr req
          else Inl (Refused StatusUnauthorized))"

end
