(* ===== verification/Http_Chain.thy ===== *)
theory Http_Chain
  imports Http_Stages Rate_Limit
begin

text \<open>
  The rate limiting stage (\<^verbatim>\<open>src/server/middleware/ratelimit.go\<close>) over any store, the order of the chain and its
  default options (\<^verbatim>\<open>chain.go\<close>), and which paths are public (\<^verbatim>\<open>src/server/handler/api.go\<close>).
\<close>

section \<open>Buckets\<close>

definition BucketRead :: string where "BucketRead = ''read''"
definition BucketWrite :: string where "BucketWrite = ''write''"
definition BucketHealth :: string where "BucketHealth = ''health''"
definition BucketGlobal :: string where "BucketGlobal = ''global''"
definition BucketLogin :: string where "BucketLogin = ''login''"
definition BucketPasswordReset :: string where "BucketPasswordReset = ''password_reset''"
definition BucketRegistration :: string where "BucketRegistration = ''registration''"

definition DefaultReadRequests :: int where "DefaultReadRequests = 120"
definition DefaultWriteRequests :: int where "DefaultWriteRequests = 10"
definition DefaultHealthRequests :: int where "DefaultHealthRequests = 120"
definition DefaultGlobalBurst :: int where "DefaultGlobalBurst = 240"
definition DefaultWindow :: int where "DefaultWindow = minute"
definition DefaultLoginRequests :: int where "DefaultLoginRequests = 5"
definition DefaultLoginWindow :: int where "DefaultLoginWindow = 15 * minute"
definition DefaultPasswordResetRequests :: int where "DefaultPasswordResetRequests = 3"
definition DefaultRegistrationRequests :: int where "DefaultRegistrationRequests = 5"
definition DefaultAuthLongWindow :: int where "DefaultAuthLongWindow = hour"

definition defaultHealthPaths :: "string list" where
  "defaultHealthPaths = [''/healthz'', ''/readyz'', ''/livez'', ''/server/healthz'', ''/server/status'']"

record RateBucket =
  rb_Requests :: int
  rb_Window :: int

record AuthRateLimit =
  arl_Login :: RateBucket
  arl_PasswordReset :: RateBucket
  arl_Registration :: RateBucket

record RateLimit_config =
  rl_Enabled :: bool
  rl_Read :: RateBucket
  rl_Write :: RateBucket
  rl_Health :: RateBucket
  rl_GlobalBurst :: int
  rl_Auth :: AuthRateLimit

record AuthRateRule =
  arr_Prefix :: string
  arr_Bucket :: string

record RateLimitOptions =
  rlo_Config :: RateLimit_config
  rlo_ClientIP :: "(request \<Rightarrow> string) option"
  rlo_AuthRules :: "AuthRateRule list"
  rlo_HealthPaths :: "string list"

definition resolveBucket :: "RateBucket \<Rightarrow> int \<Rightarrow> int \<Rightarrow> RateBucket" where
  "resolveBucket bucket requests window =
     \<lparr>rb_Requests = (if rb_Requests bucket \<le> 0 then requests else rb_Requests bucket),
      rb_Window = (if rb_Window bucket \<le> 0 then window else rb_Window bucket)\<rparr>"

definition authBucket :: "AuthRateLimit \<Rightarrow> string \<Rightarrow> RateBucket" where
  "authBucket cfg bucket =
     (if bucket = BucketPasswordReset then
        resolveBucket (arl_PasswordReset cfg) DefaultPasswordResetRequests DefaultAuthLongWindow
      else if bucket = BucketRegistration then
        resolveBucket (arl_Registration cfg) DefaultRegistrationRequests DefaultAuthLongWindow
      else resolveBucket (arl_Login cfg) DefaultLoginRequests DefaultLoginWindow)"

definition globalBucket :: "RateLimit_config \<Rightarrow> RateBucket" where
  "globalBucket cfg =
     \<lparr>rb_Requests = (if rl_GlobalBurst cfg \<le> 0 then DefaultGlobalBurst else rl_GlobalBurst cfg),
      rb_Window = DefaultWindow\<rparr>"

text \<open>The bucket, its budget, and whether it is one of the authentication buckets.\<close>

definition classify_request :: "RateLimitOptions \<Rightarrow> string list \<Rightarrow> request \<Rightarrow> string \<times> RateBucket \<times> bool" where
  "classify_request opts healthPaths req =
     (case find (\<lambda>rule. matchesPathPrefix (req_Path req) (arr_Prefix rule)) (rlo_AuthRules opts) of
        Some rule \<Rightarrow> (arr_Bucket rule, authBucket (rl_Auth (rlo_Config opts)) (arr_Bucket rule), True)
      | None \<Rightarrow>
          if matchesAnyPath (req_Path req) healthPaths then
            (BucketHealth, resolveBucket (rl_Health (rlo_Config opts)) DefaultHealthRequests DefaultWindow, False)
          else if req_Method req = ''GET'' \<or> req_Method req = ''HEAD'' then
            (BucketRead, resolveBucket (rl_Read (rlo_Config opts)) DefaultReadRequests DefaultWindow, False)
          else
            (BucketWrite, resolveBucket (rl_Write (rlo_Config opts)) DefaultWriteRequests DefaultWindow, False))"

section \<open>The stage\<close>

text \<open>
  The interface \<open>RateLimitStore\<close>: state, identifier, bucket, limit, window and time give an error or a verdict and
  the state after it.
\<close>

type_synonym 's rate_store = "'s \<Rightarrow> string \<Rightarrow> string \<Rightarrow> int \<Rightarrow> int \<Rightarrow> int \<Rightarrow> (err + Decision) \<times> 's"

text \<open>The wait in whole seconds, rounded up, of the 429 answer.\<close>

definition retry_seconds :: "int \<Rightarrow> int" where
  "retry_seconds wait = (let seconds = wait div second + (if wait mod second \<noteq> 0 then 1 else 0) in max 1 seconds)"

definition writeRateLimited :: "Decision \<Rightarrow> answer + request" where
  "writeRateLimited decision = Inl (TooManyRequests (retry_seconds (dec_RetryAfter decision)))"

definition RateLimit ::
  "'s rate_store option \<Rightarrow> RateLimitOptions \<Rightarrow> int \<Rightarrow> request \<Rightarrow> 's \<Rightarrow> (answer + request) \<times> 's"
where
  "RateLimit store opts now req s =
     (case store of
        None \<Rightarrow> (passthrough req, s)
      | Some allow \<Rightarrow>
          if \<not> rl_Enabled (rlo_Config opts) then (passthrough req, s)
          else if req_allowlisted req then (Inr req, s)
          else
          let healthPaths = (if rlo_HealthPaths opts = [] then defaultHealthPaths else rlo_HealthPaths opts);
              identifier = client_ip (rlo_ClientIP opts) req;
              (bucket, budget, isAuth) = classify_request opts healthPaths req;
              global = globalBucket (rlo_Config opts)
          in case allow s identifier bucket (rb_Requests budget) (rb_Window budget) now of
               (Inl x, s1) \<Rightarrow> (Inr req, s1)
             | (Inr decision, s1) \<Rightarrow>
                 if \<not> dec_Allowed decision then (writeRateLimited decision, s1)
                 else if \<not> isAuth \<and> rb_Requests global > 0 then
                   (case allow s1 identifier BucketGlobal (rb_Requests global) (rb_Window global) now of
                      (Inl x, s2) \<Rightarrow> (Inr req, s2)
                    | (Inr globalDecision, s2) \<Rightarrow>
                        if \<not> dec_Allowed globalDecision then (writeRateLimited globalDecision, s2)
                        else (Inr req, s2))
                 else (Inr req, s1))"

section \<open>The chain\<close>

record Options =
  opt_LowercasePaths :: bool
  opt_MaxPathLength :: int
  opt_CORS :: CORSOptions
  opt_CSRF :: CSRFOptions
  opt_Allowlist :: AccessOptions
  opt_Blocklist :: AccessOptions
  opt_RateLimit :: RateLimitOptions
  opt_GeoIP :: GeoIPOptions
  opt_Auth :: AuthOptions

definition andThen :: "(answer + request) \<times> 's \<Rightarrow> (request \<Rightarrow> 's \<Rightarrow> (answer + request) \<times> 's) \<Rightarrow> (answer + request) \<times> 's" where
  "andThen r f = (case r of (Inl a, s) \<Rightarrow> (Inl a, s) | (Inr req, s) \<Rightarrow> f req s)"

definition pure_stage :: "stage \<Rightarrow> request \<Rightarrow> 's \<Rightarrow> (answer + request) \<times> 's" where
  "pure_stage f req s = (f req, s)"

text \<open>
  \<open>Chain\<close> runs its stages in order. \<open>New_chain\<close> is \<open>New\<close>: the stages for the request id, the security headers and the
  log change only the response, so they are not among them.
\<close>

definition Chain :: "(request \<Rightarrow> 's \<Rightarrow> (answer + request) \<times> 's) list \<Rightarrow> request \<Rightarrow> 's \<Rightarrow> (answer + request) \<times> 's" where
  "Chain stages req s = fold (\<lambda>f r. andThen r f) stages (Inr req, s)"

definition New_chain ::
  "url_parser \<Rightarrow> 's rate_store option \<Rightarrow> Options \<Rightarrow> int \<Rightarrow> request \<Rightarrow> 's \<Rightarrow> (answer + request) \<times> 's"
where
  "New_chain parse store opts now =
     Chain [pure_stage (URLNormalize (opt_LowercasePaths opts)),
            pure_stage (PathSecurity (opt_MaxPathLength opts)),
            pure_stage (CORS (opt_CORS opts)),
            pure_stage (CSRF parse (opt_CSRF opts)),
            pure_stage (Allowlist (opt_Allowlist opts)),
            pure_stage (Blocklist (opt_Blocklist opts)),
            RateLimit store (opt_RateLimit opts) now,
            pure_stage (GeoIP (opt_GeoIP opts)),
            pure_stage (Auth (opt_Auth opts))]"

text \<open>The rules \<open>DefaultOptions\<close> gives the stage for the authentication paths.\<close>

definition default_auth_rules :: "string \<Rightarrow> AuthRateRule list" where
  "default_auth_rules apiBase =
     [\<lparr>arr_Prefix = apiBase @ ''/server/auth/login'', arr_Bucket = BucketLogin\<rparr>,
      \<lparr>arr_Prefix = apiBase @ ''/server/auth/password-reset'', arr_Bucket = BucketPasswordReset\<rparr>,
      \<lparr>arr_Prefix = apiBase @ ''/server/auth/register'', arr_Bucket = BucketRegistration\<rparr>]"

section \<open>Public paths\<close>

definition APIPrefixes :: "string \<Rightarrow> string list" where
  "APIPrefixes base = [base @ ''/server/auth/'', base @ ''/users'', base @ ''/users/'', base @ ''/orgs'', base @ ''/orgs/'']"

definition WebPrefixes :: "string list" where
  "WebPrefixes = [''/server/auth/'', ''/users'', ''/users/'', ''/orgs'', ''/orgs/'']"

definition userSubResources :: "string list" where
  "userSubResources = [''settings'', ''security'', ''sessions'', ''tokens'']"

definition owns :: "string list \<Rightarrow> string \<Rightarrow> bool" where
  "owns ps path =
     list_ex (\<lambda>prefix. if HasSuffix prefix ''/'' then HasPrefix path prefix else path = prefix) ps"

definition CutPrefix :: "string \<Rightarrow> string \<Rightarrow> string option" where
  "CutPrefix s p = (if HasPrefix s p then Some (drop (length p) s) else None)"

definition IsPublicPath :: "string \<Rightarrow> string list \<Rightarrow> string \<Rightarrow> bool" where
  "IsPublicPath base webPrefixes path =
     (let clean = TrimSuffix path ''/''
      in if \<not> owns (APIPrefixes base @ webPrefixes) clean then True
         else if HasPrefix clean (base @ ''/'') then
           (if HasPrefix clean (base @ ''/server/auth/'') then True
            else case CutPrefix clean (base @ ''/users/'') of
              Some rest \<Rightarrow> rest \<noteq> [] \<and> CHR ''/'' \<notin> set rest \<and> rest \<notin> set userSubResources
            | None \<Rightarrow>
                (case CutPrefix clean (base @ ''/orgs/'') of
                   Some rest \<Rightarrow> rest \<noteq> [] \<and> CHR ''/'' \<notin> set rest
                 | None \<Rightarrow> False))
         else True)"

end
