(* ===== verification/Http_Paths.thy ===== *)
theory Http_Paths
  imports Http_Stages
begin

text \<open>
  What the two path stages leave for the stages after them: \<open>PathSecurity\<close> against a reference definition on the
  segments of a path, and where \<open>URLNormalize\<close> redirects.
\<close>

section \<open>The segments of a path\<close>

definition named_segments :: "string \<Rightarrow> string list" where
  "named_segments p = filter (\<lambda>s. s \<noteq> [] \<and> s \<noteq> ''.'') (split_on (CHR ''/'') p)"

text \<open>The one spelling of a rooted path: its named segments, and the slash at its end.\<close>

definition canonical_path :: "string \<Rightarrow> string" where
  "canonical_path p =
     (if named_segments p = [] then ''/''
      else ''/'' @ join ''/'' (named_segments p) @ (if HasSuffix p ''/'' then ''/'' else []))"

lemma named_segments_word:
  "w \<in> set (named_segments p) \<Longrightarrow> w \<noteq> [] \<and> w \<noteq> ''.'' \<and> CHR ''/'' \<notin> set w \<and> w \<in> set (split_on (CHR ''/'') p)"
  using set_split_on [of w "CHR ''/''" p] by (auto simp: named_segments_def)

lemma named_segments_rooted: "named_segments (''/'' @ p) = named_segments p"
  by (simp add: named_segments_def)

lemma named_segments_trailing: "named_segments (p @ ''/'') = named_segments p"
  using split_on_snoc [of "CHR ''/''" p] by (simp add: named_segments_def)

lemma named_segments_join:
  assumes "ws \<noteq> []" and "\<forall>w \<in> set ws. w \<noteq> [] \<and> w \<noteq> ''.'' \<and> CHR ''/'' \<notin> set w"
  shows "named_segments (join ''/'' ws) = ws"
  using assms by (simp add: named_segments_def split_on_join)

lemma named_segments_canonical: "named_segments (canonical_path p) = named_segments p"
proof (cases "named_segments p = []")
  case True
  then show ?thesis by (simp add: canonical_path_def) (simp add: named_segments_def)
next
  case False
  have "named_segments (join ''/'' (named_segments p)) = named_segments p"
    using named_segments_word by (intro named_segments_join [OF False]) blast
  then show ?thesis
    using False named_segments_rooted [of "join ''/'' (named_segments p) @ ''/''"]
      named_segments_rooted [of "join ''/'' (named_segments p)"]
      named_segments_trailing [of "join ''/'' (named_segments p)"]
    by (simp add: canonical_path_def)
qed

lemma join_last_nonempty: "ws \<noteq> [] \<Longrightarrow> List.last ws \<noteq> [] \<Longrightarrow> join sep ws \<noteq> []"
  by (induction ws rule: induct_list012) (auto split: if_splits)

lemma last_join: "ws \<noteq> [] \<Longrightarrow> List.last ws \<noteq> [] \<Longrightarrow> List.last (join sep ws) = List.last (List.last ws)"
  by (induction ws rule: induct_list012) (auto simp: join_last_nonempty last_append split: if_splits)

lemma HasSuffix_slash: "HasSuffix p ''/'' \<longleftrightarrow> p \<noteq> [] \<and> List.last p = CHR ''/''"
  by (cases p rule: rev_cases) (auto simp: HasSuffix_def)

lemma join_no_trailing:
  assumes "ws \<noteq> []" and "\<forall>w \<in> set ws. w \<noteq> [] \<and> CHR ''/'' \<notin> set w"
  shows "join ''/'' ws \<noteq> []" "List.last (join ''/'' ws) \<noteq> CHR ''/''"
proof -
  have words: "List.last ws \<noteq> []" "CHR ''/'' \<notin> set (List.last ws)" using assms last_in_set by blast+
  show "join ''/'' ws \<noteq> []" using assms by (intro join_nonempty) auto
  have "List.last (join ''/'' ws) = List.last (List.last ws)" by (rule last_join [OF assms(1) words(1)])
  then show "List.last (join ''/'' ws) \<noteq> CHR ''/''" using words last_in_set by metis
qed

lemma canonical_trailing:
  "HasSuffix (canonical_path p) ''/'' \<longleftrightarrow> named_segments p = [] \<or> HasSuffix p ''/''"
proof (cases "named_segments p = []")
  case False
  have words: "\<forall>w \<in> set (named_segments p). w \<noteq> [] \<and> CHR ''/'' \<notin> set w" using named_segments_word by blast
  show ?thesis using False join_no_trailing [OF False words]
    by (simp add: canonical_path_def HasSuffix_slash)
qed (simp add: canonical_path_def HasSuffix_def)

lemma canonical_idem: "canonical_path (canonical_path p) = canonical_path p"
  unfolding canonical_path_def [of "canonical_path p"]
  by (simp add: named_segments_canonical canonical_trailing) (simp add: canonical_path_def)

lemma canonical_unique:
  "canonical_path p = canonical_path q \<longleftrightarrow>
   named_segments p = named_segments q \<and> (named_segments p = [] \<or> HasSuffix p ''/'' = HasSuffix q ''/'')"
proof
  assume eq: "canonical_path p = canonical_path q"
  then have "named_segments p = named_segments q" by (metis named_segments_canonical)
  moreover have "named_segments p = [] \<or> HasSuffix p ''/'' = HasSuffix q ''/''"
    using eq canonical_trailing [of p] canonical_trailing [of q] calculation by auto
  ultimately show "named_segments p = named_segments q \<and> (named_segments p = [] \<or> HasSuffix p ''/'' = HasSuffix q ''/'')"
    by blast
qed (auto simp: canonical_path_def)

lemma path_Clean_rooted:
  assumes "HasPrefix p ''/''" and "\<not> Contains p ''..''"
  shows "path_Clean p = ''/'' @ join ''/'' (named_segments p)"
proof -
  have "''..'' \<notin> set (split_on (CHR ''/'') p)"
    using assms(2) Contains_split_on [of "CHR ''/''" "''..''" p] by auto
  then show ?thesis using assms(1)
    by (simp add: path_Clean_def clean_segments_plain named_segments_def)
qed

lemma Contains_canonical:
  assumes "Contains (canonical_path p) t" and "CHR ''/'' \<notin> set t" and "t \<noteq> []"
  shows "Contains p t"
proof -
  obtain w where w: "w \<in> set (split_on (CHR ''/'') (canonical_path p))" "Contains w t"
    using assms Contains_split_on by blast
  have "w \<noteq> []" using w(2) assms(3) by auto
  have "w \<in> set (split_on (CHR ''/'') p) \<or> w = ''.''"
  proof (cases "w = ''.''")
    case False
    then have "w \<in> set (named_segments (canonical_path p))" using w \<open>w \<noteq> []\<close> by (simp add: named_segments_def)
    then show ?thesis using named_segments_word by (simp add: named_segments_canonical)
  qed simp
  moreover have "w \<noteq> ''.''"
  proof
    assume dot: "w = ''.''"
    have segs: "\<forall>v \<in> set (split_on (CHR ''/'') (canonical_path p)). v = [] \<or> v \<in> set (named_segments p)"
    proof (cases "named_segments p = []")
      case True
      then show ?thesis by (simp add: canonical_path_def)
    next
      case False
      have "split_on (CHR ''/'') (join ''/'' (named_segments p)) = named_segments p"
        using named_segments_word by (intro split_on_join [OF False]) blast
      then show ?thesis using False split_on_snoc [of "CHR ''/''" "join ''/'' (named_segments p)"]
        by (auto simp: canonical_path_def)
    qed
    then show False using w(1) dot named_segments_word by blast
  qed
  ultimately show ?thesis using Contains_split_on [OF assms(2,3)] w(2) by blast
qed

section \<open>\<open>PathSecurity\<close>\<close>

text \<open>What the stage lets through: no traversal, no NUL, no backslash, none of the escapes of them, not too long.\<close>

definition path_admissible :: "int \<Rightarrow> string \<Rightarrow> string \<Rightarrow> bool" where
  "path_admissible limit decoded raw \<longleftrightarrow>
     int (length decoded) \<le> limit \<and> int (length raw) \<le> limit \<and>
     (\<forall>t \<in> {''..'', [CHR 0x00], [CHR 0x5C]}. \<not> Contains decoded t) \<and>
     (\<forall>t \<in> {''..'', [CHR 0x00]}. \<not> Contains raw t) \<and>
     (\<forall>t \<in> {''%2e'', ''%2f'', ''%5c'', ''%00''}. \<not> Contains (ToLower raw) t)"

definition path_limit :: "int \<Rightarrow> int" where
  "path_limit MaxPathLength = (if MaxPathLength \<le> 0 then 2048 else MaxPathLength)"

definition escaped_path :: "request \<Rightarrow> string" where
  "escaped_path req = (if req_RawPath req = [] then req_Path req else req_RawPath req)"

lemma Contains_char: "Contains s [c] \<longleftrightarrow> c \<in> set s"
  by (induction s) auto

lemma cleaned_path:
  assumes "HasPrefix p ''/''" and "\<not> Contains p ''..''"
  shows "(let cleaned0 = path_Clean p;
              cleaned1 = (if \<not> HasPrefix cleaned0 ''/'' then ''/'' @ cleaned0 else cleaned0)
          in if p \<noteq> ''/'' \<and> HasSuffix p ''/'' \<and> \<not> HasSuffix cleaned1 ''/'' then cleaned1 @ ''/'' else cleaned1)
         = canonical_path p"
proof (cases "named_segments p = []")
  case True
  then show ?thesis
    by (simp add: path_Clean_rooted [OF assms] canonical_path_def HasPrefix_def HasSuffix_def)
next
  case False
  have "\<forall>w \<in> set (named_segments p). w \<noteq> [] \<and> CHR ''/'' \<notin> set w" using named_segments_word by blast
  note end_of = join_no_trailing [OF False this]
  have "p \<noteq> ''/''" using False by (auto simp: named_segments_def)
  have shape: "path_Clean p = ''/'' @ join ''/'' (named_segments p)" by (rule path_Clean_rooted [OF assms])
  have "\<not> HasSuffix (path_Clean p) ''/''" using end_of by (simp add: shape HasSuffix_slash)
  moreover have "HasPrefix (path_Clean p) ''/''" by (simp add: shape HasPrefix_def)
  ultimately show ?thesis using False \<open>p \<noteq> ''/''\<close>
    by (simp add: Let_def) (simp add: shape canonical_path_def)
qed

lemma PathSecurity_reference:
  assumes rooted: "HasPrefix (req_Path req) ''/''"
  shows "PathSecurity MaxPathLength req =
    (if path_admissible (path_limit MaxPathLength) (req_Path req) (escaped_path req)
     then Inr (req\<lparr>req_Path := canonical_path (req_Path req)\<rparr>)
     else Inl (Refused 400))"
proof (cases "path_admissible (path_limit MaxPathLength) (req_Path req) (escaped_path req)")
  case True
  then have "\<not> Contains (req_Path req) ''..''" by (simp add: path_admissible_def)
  note cleaned = cleaned_path [OF rooted this]
  from True show ?thesis
    unfolding PathSecurity_def Let_def path_admissible_def path_limit_def escaped_path_def Contains_char
      encodedRejects_def DefaultMaxPathLength_def
    using cleaned [unfolded Let_def] by (simp add: Contains_char del: append.simps)
next
  case False
  then show ?thesis
    unfolding PathSecurity_def Let_def path_admissible_def path_limit_def escaped_path_def Contains_char
      encodedRejects_def DefaultMaxPathLength_def rejectPath_def StatusBadRequest_def
    by (auto simp: Contains_char simp del: append.simps)
qed

text \<open>
  C25: On a rooted path the path stage is the reference: it refuses with 400 exactly the paths that are too
  long, carry a traversal, a NUL, a backslash or an escape of one of them, and hands on every other request with its
  path spelled canonically, nothing else of it changed; and two requests it lets through are given the same
  path exactly when their paths have the same segments, empty ones and single dots aside, and end alike.\<close>

theorem PathSecurity_canonical:
  assumes "HasPrefix (req_Path r) ''/''" and "HasPrefix (req_Path s) ''/''"
  shows "PathSecurity n r =
      (if path_admissible (path_limit n) (req_Path r) (escaped_path r)
       then Inr (r\<lparr>req_Path := canonical_path (req_Path r)\<rparr>) else Inl (Refused 400)) \<and>
    (PathSecurity n r = Inr r' \<longrightarrow> PathSecurity n s = Inr s' \<longrightarrow>
       (req_Path r' = req_Path s' \<longleftrightarrow>
          named_segments (req_Path r) = named_segments (req_Path s) \<and>
          (named_segments (req_Path r) = [] \<or> HasSuffix (req_Path r) ''/'' = HasSuffix (req_Path s) ''/'')))"
  using PathSecurity_reference [OF assms(1), of n] PathSecurity_reference [OF assms(2), of n]
  by (auto simp: canonical_unique split: if_splits)

definition plain_request :: "string \<Rightarrow> string \<Rightarrow> request" where
  "plain_request method p =
     \<lparr>req_Method = method, req_Path = p, req_RawPath = [], req_RawQuery = [], req_Host = ''dns.example'',
      req_RemoteAddr = ''192.0.2.7:4711'', req_TLS = True, req_Header = (\<lambda>_. []), req_Query = (\<lambda>_. []),
      req_Form = (\<lambda>_. []), req_Cookie = (\<lambda>_. None), req_allowlisted = False, req_auth = None\<rparr>"

theorem PathSecurity_canonical_witness:
  "PathSecurity 0 (plain_request ''GET'' ''//users/./me'') = Inr (plain_request ''GET'' ''/users/me'') \<and>
   PathSecurity 0 (plain_request ''GET'' ''/a/../b'') = Inl (Refused 400)"
proof -
  have ok: "path_admissible 2048 ''//users/./me'' ''//users/./me''"
    by (simp add: path_admissible_def ToLower_ascii ascii_def byte_def lower_char_def is_upper_def)
  have bad: "\<not> path_admissible 2048 ''/a/../b'' ''/a/../b''" by (simp add: path_admissible_def)
  have "canonical_path ''//users/./me'' = ''/users/me''"
    by (simp add: canonical_path_def named_segments_def HasSuffix_slash)
  then show ?thesis
    using PathSecurity_canonical [of "plain_request ''GET'' ''//users/./me''" "plain_request ''GET'' ''/a/../b''" 0]
      PathSecurity_canonical [of "plain_request ''GET'' ''/a/../b''" "plain_request ''GET'' ''/a/../b''" 0] ok bad
    by (simp add: plain_request_def HasPrefix_def path_limit_def escaped_path_def)
qed

section \<open>\<open>URLNormalize\<close>\<close>

lemma TrimSuffix_slash: "TrimSuffix (p @ ''/'') ''/'' = p"
  by (simp add: TrimSuffix_def HasSuffix_def)

lemma URLNormalize_path:
  assumes "req_RawQuery req = []" and "req_Path req \<noteq> []"
  shows "URLNormalize low req =
    (if canonical_url low (req_Path req) = req_Path req then Inr req
     else Inl (Redirected (canonical_url low (req_Path req))))"
  using assms by (simp add: URLNormalize_def Let_def)

lemma last_segment: "c \<notin> set s \<Longrightarrow> drop (nat (LastIndexByte (a @ c # s) c + 1)) (a @ c # s) = s"
  by (simp add: LastIndexByte_append nat_add_distrib)

text \<open>
  The redirect of the first stage can name another host: a path of two slashes, a host and a segment
  without a dot, with a slash at its end, is redirected to the same text without that slash, which a browser reads as a
  URL of that host and not as a path of this server.\<close>

theorem redirect_leaves_host:
  assumes "CHR ''.'' \<notin> set seg" and "seg \<noteq> []" and "CHR ''/'' \<notin> set seg"
  shows "URLNormalize False (plain_request m (''//'' @ host @ ''/'' @ seg @ ''/'')) =
    Inl (Redirected (''//'' @ host @ ''/'' @ seg))"
proof -
  let ?p = "''//'' @ host @ ''/'' @ seg @ ''/''"
  have trim: "TrimSuffix ?p ''/'' = ''//'' @ host @ ''/'' @ seg"
    using TrimSuffix_slash [of "''//'' @ host @ ''/'' @ seg"] by simp
  have "\<not> lastSegmentIsFile ?p"
    unfolding lastSegmentIsFile_def Let_def trim
    using assms last_segment [of "CHR ''/''" seg "''//'' @ host"] by (simp add: Contains_char)
  then have "canonical_url False ?p = ''//'' @ host @ ''/'' @ seg"
    by (simp add: canonical_url_def Let_def trim [simplified] HasSuffix_slash)
  then show ?thesis by (subst URLNormalize_path) (simp_all add: plain_request_def)
qed

theorem redirect_leaves_host_witness:
  "URLNormalize False (plain_request ''GET'' ''//evil.example/x/'') = Inl (Redirected ''//evil.example/x'')"
  using redirect_leaves_host [of "''x''" "''GET''" "''evil.example''"] by simp

end
