(* ===== verification/Http_Guards.thy ===== *)
theory Http_Guards
  imports Http_Chain Http_Paths Rate_Windows
begin

text \<open>
  What the stages promise: who can read a response across origins, which requests need a CSRF token, and when the rate
  limiter answers, with the interface of its stores as a locale.
\<close>

section \<open>CORS\<close>

lemma lower_runes_empty:
  assumes "\<forall>(k, v) \<in> set tbl. v \<noteq> []"
  shows "lower_runes tbl s = [] \<longleftrightarrow> s = []"
  using assms by (induction tbl s rule: lower_runes.induct) (auto dest!: map_of_SomeD split: option.splits)

lemma equalFold_empty: "equalFold a b \<Longrightarrow> TrimSpace b = [] \<longleftrightarrow> TrimSpace a = []"
proof -
  have "\<forall>(k, v) \<in> set fold_table. v \<noteq> []" by (simp add: fold_table_def)
  note this [THEN lower_runes_empty]
  then show "equalFold a b \<Longrightarrow> ?thesis" unfolding equalFold_def EqualFold_def by metis
qed

text \<open>An origin list under construction: its entries are trimmed, not empty, and come from what was appended.\<close>

definition origins_from :: "string set \<Rightarrow> string list \<Rightarrow> bool" where
  "origins_from A os \<longleftrightarrow> set os \<subseteq> TrimSpace ` A - {[]}"

lemma origins_from_append: "origins_from A os \<Longrightarrow> o' \<in> A \<Longrightarrow> origins_from A (appendOrigin os o')"
  by (auto simp: origins_from_def appendOrigin_def Let_def)

lemma origins_from_fold:
  "origins_from A os \<Longrightarrow> \<forall>x \<in> set xs. f x \<in> A \<Longrightarrow> origins_from A (fold (\<lambda>x os. appendOrigin os (f x)) xs os)"
  by (induction xs arbitrary: os) (auto intro: origins_from_append)

lemma origins_from_split: "origins_from {p \<in> set (split_on (CHR '','') raw). TrimSpace p \<noteq> CORSWildcard} (splitOrigins raw)"
proof -
  define step where "step = (\<lambda>part0 out. let part = TrimSpace part0
    in if part = [] \<or> part = CORSWildcard then out else appendOrigin out part)"
  define A where "A = {p \<in> set (split_on (CHR '','') raw). TrimSpace p \<noteq> CORSWildcard}"
  have "origins_from A (step p os)" if "origins_from A os" "p \<in> set (split_on (CHR '','') raw)" for p os
    using that by (auto simp: origins_from_def step_def A_def Let_def appendOrigin_def TrimSpace_idem)
  then have "origins_from A (fold step qs os)"
    if "origins_from A os" "set qs \<subseteq> set (split_on (CHR '','') raw)" for qs os
    using that by (induction qs arbitrary: os) auto
  moreover have "origins_from A []" by (simp add: origins_from_def)
  ultimately show ?thesis unfolding splitOrigins_def step_def A_def by blast
qed

text \<open>Where the origins of an explicit decision come from.\<close>

definition origin_sources :: "CORSOptions \<Rightarrow> Http_Request.request \<Rightarrow> string set" where
  "origin_sources opts req =
     (let configured = TrimSpace (cors_Configured opts)
      in if configured \<noteq> CORSWildcard \<and> splitOrigins configured \<noteq> []
         then {p \<in> set (split_on (CHR '','') configured). TrimSpace p \<noteq> CORSWildcard}
         else (\<lambda>d. ''https://'' @ d) ` set (cors_Domains opts) \<union> set (cors_LearnedOrigins opts)
           \<union> {forwardedOrigin opts req})"

lemma ResolveCORS_sources:
  assumes "cd_Enabled (ResolveCORS opts req)" and "cd_Explicit (ResolveCORS opts req)"
  shows "origins_from (origin_sources opts req) (cd_Origins (ResolveCORS opts req))"
proof (cases "TrimSpace (cors_Configured opts) \<noteq> CORSWildcard \<and> splitOrigins (TrimSpace (cors_Configured opts)) \<noteq> []")
  case True
  then show ?thesis using assms origins_from_split
    by (auto simp: ResolveCORS_def origin_sources_def Let_def split: if_splits)
next
  case False
  let ?A = "origin_sources opts req"
  let ?domains = "fold (\<lambda>domain origins. appendOrigin origins (''https://'' @ domain)) (cors_Domains opts) []"
  let ?learned = "fold (\<lambda>origin origins. appendOrigin origins origin) (cors_LearnedOrigins opts) ?domains"
  have A: "?A = (\<lambda>d. ''https://'' @ d) ` set (cors_Domains opts) \<union> set (cors_LearnedOrigins opts) \<union> {forwardedOrigin opts req}"
    using False by (auto simp: origin_sources_def Let_def)
  have "origins_from ?A ?domains" by (rule origins_from_fold) (auto simp: A origins_from_def)
  then have learned: "origins_from ?A ?learned" by (rule origins_from_fold) (auto simp: A)
  then have "origins_from ?A (appendOrigin ?learned (forwardedOrigin opts req))"
    by (rule origins_from_append) (simp add: A)
  define os where "os = (if forwardedOrigin opts req \<noteq> [] then appendOrigin ?learned (forwardedOrigin opts req) else ?learned)"
  have "origins_from ?A os" unfolding os_def
    using learned \<open>origins_from ?A (appendOrigin ?learned (forwardedOrigin opts req))\<close> by (rule_tac if_split [THEN iffD2]) blast
  moreover have "(TrimSpace (cors_Configured opts) \<noteq> CORSWildcard \<and> splitOrigins (TrimSpace (cors_Configured opts)) \<noteq> []) = False"
    using False by blast
  note not_listed = this
  have "cd_Origins (ResolveCORS opts req) = os"
    using assms unfolding ResolveCORS_def Let_def not_listed if_False os_def [symmetric]
    by (cases "TrimSpace (cors_Configured opts) = []"; cases "os = []") simp_all
  ultimately show ?thesis by metis
qed

lemma TrimSpace_starts:
  assumes "plain_byte c"
  shows "prefix (TrimSpace (c # s)) (c # s)"
proof -
  have "\<not> prefix p (c # s)" if "p \<in> set go_spaces" "p \<noteq> []" for p
  proof
    assume "prefix p (c # s)"
    then have "c \<in> set p" using that(2) by (cases p) auto
    then show False using go_spaces_not_plain that(1) assms by blast
  qed
  then have "strip_left go_spaces (c # s) = c # s" by (meson strip_left_id)
  then show ?thesis
    using strip_left_suffix [of "map rev go_spaces" "rev (c # s)"] by (simp add: TrimSpace_def suffix_to_prefix)
qed

text \<open>
  C28: A response may be read with credentials only by an origin that somebody named: when the stage sends
  \<open>Access-Control-Allow-Credentials\<close>, CORS is on, the request has an origin, the origin sent back equals it, and it
  is an entry of the configured list or, where no list is configured, a domain of the server, a learned origin or the
  forwarded host of a trusted proxy. It never comes with the any-origin star of the setting.\<close>

theorem cors_credentials_named:
  assumes "cors_headers opts req = (Some origin, True)"
  shows "TrimSpace (cors_Configured opts) \<noteq> [] \<and> TrimSpace (req_Header req ''Origin'') \<noteq> []
    \<and> equalFold origin (req_Header req ''Origin'') \<and> origin \<in> TrimSpace ` origin_sources opts req
    \<and> (cors_LearnedOrigins opts = [] \<and> forwardedOrigin opts req = [] \<longrightarrow> origin \<noteq> CORSWildcard)"
proof -
  let ?d = "ResolveCORS opts req"
  have on: "cd_Enabled ?d" "cd_Explicit ?d" and found: "find (\<lambda>allowed. equalFold allowed (req_Header req ''Origin'')) (cd_Origins ?d) = Some origin"
    using assms by (auto simp: cors_headers_def Let_def Allows_def split: if_splits option.splits)
  from found have mem: "origin \<in> set (cd_Origins ?d)" and eq: "equalFold origin (req_Header req ''Origin'')"
    by (auto simp: find_Some_iff)
  from mem ResolveCORS_sources [OF on]
  obtain o' where src: "o' \<in> origin_sources opts req" "origin = TrimSpace o'" "origin \<noteq> []"
    by (auto simp: origins_from_def)
  then have "TrimSpace origin \<noteq> []" by (simp add: TrimSpace_idem)
  with equalFold_empty [OF eq] have "TrimSpace (req_Header req ''Origin'') \<noteq> []" by simp
  moreover have "TrimSpace (cors_Configured opts) \<noteq> []"
    using on by (auto simp: ResolveCORS_def Let_def split: if_splits)
  moreover have "origin \<noteq> CORSWildcard" if none: "cors_LearnedOrigins opts = []" "forwardedOrigin opts req = []"
  proof (cases "TrimSpace (cors_Configured opts) \<noteq> CORSWildcard \<and> splitOrigins (TrimSpace (cors_Configured opts)) \<noteq> []")
    case True
    then show ?thesis using src by (auto simp: origin_sources_def Let_def)
  next
    case False
    then obtain d where "origin = TrimSpace (''https://'' @ d)"
      using src none by (auto simp: origin_sources_def Let_def)
    then have "prefix origin (''https://'' @ d)"
      using TrimSpace_starts [of "CHR ''h''" "''ttps://'' @ d"] by (simp add: plain_byte_def byte_def)
    then show ?thesis by (auto simp: CORSWildcard_def)
  qed
  ultimately show ?thesis using eq src by blast
qed

lemma EqualFold_ascii:
  "list_all ascii s \<Longrightarrow> list_all ascii t \<Longrightarrow> EqualFold s t \<longleftrightarrow> map lower_char s = map lower_char t"
proof -
  have "\<forall>k \<in> fst ` set fold_table. k = [] \<or> \<not> ascii (hd k)" by (simp add: fold_table_def ascii_def byte_chr)
  note fold = lower_runes_ascii [OF this]
  show "list_all ascii s \<Longrightarrow> list_all ascii t \<Longrightarrow> ?thesis" by (simp add: EqualFold_def fold)
qed

lemma equalFold_plain:
  "list_all plain_byte s \<Longrightarrow> list_all plain_byte t \<Longrightarrow> equalFold s t \<longleftrightarrow> map lower_char s = map lower_char t"
  by (simp add: equalFold_def TrimSpace_plain EqualFold_ascii list_all_iff plain_byte_def ascii_def)

lemmas plain_simps = plain_byte_def byte_def lower_char_def is_upper_def

definition with_headers :: "Http_Request.request \<Rightarrow> (string \<times> string) list \<Rightarrow> Http_Request.request" where
  "with_headers req hs = req\<lparr>req_Header := (\<lambda>n. case map_of hs n of None \<Rightarrow> [] | Some v \<Rightarrow> v)\<rparr>"

definition demo_cors :: CORSOptions where
  "demo_cors = \<lparr>cors_Configured = ''https://a.example,*'', cors_Domains = [], cors_LearnedOrigins = [],
     cors_IsTrustedProxy = (\<lambda>_. False)\<rparr>"

theorem cors_credentials_named_witness:
  "cors_headers demo_cors (with_headers (plain_request ''GET'' ''/'') [(''Origin'', ''https://a.example'')])
     = (Some ''https://a.example'', True) \<and> ''https://a.example'' \<noteq> CORSWildcard"
proof -
  let ?req = "with_headers (plain_request ''GET'' ''/'') [(''Origin'', ''https://a.example'')]"
  have run: "cors_headers demo_cors ?req = (Some ''https://a.example'', True)"
    by (simp add: cors_headers_def demo_cors_def ResolveCORS_def splitOrigins_def appendOrigin_def Allows_def Let_def
        with_headers_def plain_request_def TrimSpace_plain equalFold_plain CORSWildcard_def plain_simps)
  have "cors_LearnedOrigins demo_cors = []" "forwardedOrigin demo_cors ?req = []"
    by (simp_all add: demo_cors_def forwardedOrigin_def)
  with cors_credentials_named [OF run] run show ?thesis by blast
qed

section \<open>CSRF\<close>

text \<open>
  C27: A forged request is refused. Where the check is on, a request that changes state with a session cookie and
  nothing a page of another site cannot make a browser send, to a path that is neither exempt nor public, and whose
  \<open>Origin\<close> is another one than the server's, reaches its handler unchanged when it presents the value of its CSRF cookie,
  which must not be empty, and is answered with 403 otherwise.\<close>

theorem CSRF_blocks_forgery:
  assumes "csrf_Enabled opts" and "req_Method req \<notin> {''GET'', ''HEAD'', ''OPTIONS'', ''TRACE''}"
    and "\<not> isWebSocketUpgrade req" and "\<not> matchesAnyPath (req_Path req) (csrf_ExemptPaths opts)"
    and "csrf_IsPublicPath opts = None \<or> csrf_IsPublicPath opts = Some public \<and> \<not> public (req_Path req)"
    and "\<not> hasProgrammaticCredential req" and "hasSessionCookie req (csrf_SessionCookieNames opts)"
    and "TrimSpace (req_Header req ''Origin'') \<noteq> []"
    and "\<not> equalFold (req_Header req ''Origin'') (csrfSelfOrigin opts req)"
  shows "CSRF parse opts req =
    (let cookie = req_Cookie req (firstNonEmpty (csrf_CookieName opts) ''csrf_token'');
         presented = csrfPresentedToken req (if csrf_HeaderNames opts = [] then csrfHeaderNames else csrf_HeaderNames opts)
           (firstNonEmpty (csrf_FieldName opts) ''csrf_token'')
     in if presented \<noteq> [] \<and> cookie = Some presented then Inr req else Inl (Refused 403))"
proof -
  have cross: "\<not> requestIsSameSite parse opts req"
    using assms(8,9) by (simp add: requestIsSameSite_def Let_def equalFold_def TrimSpace_idem)
  have "CSRFRequired parse opts req"
    using assms cross by (auto simp: CSRFRequired_def csrfSafeMethods_def hasOriginOrReferer_def split: option.splits)
  then show ?thesis
    unfolding CSRF_def Let_def by (auto simp: rejectCSRF_def StatusForbidden_def split: option.splits)
qed

definition demo_csrf :: CSRFOptions where
  "demo_csrf = \<lparr>csrf_Enabled = True, csrf_ExemptPaths = [''/api/v1/webhooks/*''], csrf_SessionCookieNames = [''sid''],
     csrf_SessionSameSiteStrict = True, csrf_CookieName = [], csrf_HeaderNames = [], csrf_FieldName = [],
     csrf_IsPublicPath = None, csrf_SelfOrigin = None\<rparr>"

definition forged :: Http_Request.request where
  "forged = with_headers (plain_request ''POST'' ''/users/settings'') [(''Origin'', ''https://evil.example'')]
     \<lparr>req_Cookie := (\<lambda>n. map_of [(''sid'', ''s3cret''), (''csrf_token'', ''c'')] n)\<rparr>"

theorem CSRF_blocks_forgery_witness:
  "CSRF (\<lambda>_. None) demo_csrf forged = Inl (Refused 403)"
proof -
  have exempt: "\<not> matchesAnyPath ''/users/settings'' [''/api/v1/webhooks/*'']"
    using glob_covers_subtree [of "''/api/v1/webhooks''" "''/users/settings''"]
    by (simp add: matchesAnyPath_def literal_def TrimSpace_plain plain_simps HasPrefix_def)
  have hyps: "req_Method forged \<notin> {''GET'', ''HEAD'', ''OPTIONS'', ''TRACE''}"
    "\<not> isWebSocketUpgrade forged" "\<not> matchesAnyPath (req_Path forged) (csrf_ExemptPaths demo_csrf)"
    "\<not> hasProgrammaticCredential forged" "hasSessionCookie forged (csrf_SessionCookieNames demo_csrf)"
    "TrimSpace (req_Header forged ''Origin'') \<noteq> []"
    "\<not> equalFold (req_Header forged ''Origin'') (csrfSelfOrigin demo_csrf forged)"
    "csrfPresentedToken forged csrfHeaderNames ''csrf_token'' = []"
    using exempt
    by (simp_all add: forged_def demo_csrf_def with_headers_def plain_request_def isWebSocketUpgrade_def equalFold_plain
        hasProgrammaticCredential_def AuthToken_def authorizationToken_def HeaderAuthorization_def Cut_def tokenHeaders_def
        QueryParamToken_def SourceBearer_def hasSessionCookie_def TrimSpace_plain csrfSelfOrigin_def requestScheme_def
        csrfPresentedToken_def csrfHeaderNames_def plain_simps)
  have "csrf_Enabled demo_csrf" "csrf_IsPublicPath demo_csrf = None" "csrf_HeaderNames demo_csrf = []"
    "firstNonEmpty (csrf_FieldName demo_csrf) ''csrf_token'' = ''csrf_token''"
    by (simp_all add: demo_csrf_def firstNonEmpty_def)
  with hyps CSRF_blocks_forgery [of demo_csrf forged "\<lambda>_. False" "\<lambda>_. None"] show ?thesis by simp
qed

section \<open>The rate limiting stage\<close>

text \<open>
  The interface \<open>RateLimitStore\<close>: a store that answers says whether there is room, and a request billed to one
  bucket leaves the room of the client in another bucket alone.
\<close>

locale rate_store =
  fixes allow :: "'s rate_store"
    and room :: "'s \<Rightarrow> string \<Rightarrow> string \<Rightarrow> int \<Rightarrow> int \<Rightarrow> int \<Rightarrow> bool"
  assumes verdict: "allow s i b limit window now = (Inr d, s') \<Longrightarrow> 0 < limit \<Longrightarrow> 0 < window \<Longrightarrow>
      dec_Allowed d \<longleftrightarrow> room s i b limit window now"
    and other_bucket: "allow s i b limit window now = (Inr d, s') \<Longrightarrow> c \<noteq> b \<Longrightarrow>
      room s' i c limit' window' now' \<longleftrightarrow> room s i c limit' window' now'"

locale reliable_rate_store = rate_store +
  assumes answers: "\<exists>d s'. allow s i b limit window now = (Inr d, s')"

definition request_bucket :: "RateLimitOptions \<Rightarrow> Http_Request.request \<Rightarrow> string \<times> RateBucket \<times> bool" where
  "request_bucket opts req =
     classify_request opts (if rlo_HealthPaths opts = [] then defaultHealthPaths else rlo_HealthPaths opts) req"

lemma resolveBucket_pos:
  "0 < n \<Longrightarrow> 0 < t \<Longrightarrow> 0 < rb_Requests (resolveBucket bucket n t) \<and> 0 < rb_Window (resolveBucket bucket n t)"
  by (simp add: resolveBucket_def)

lemmas default_budgets = DefaultReadRequests_def DefaultWriteRequests_def DefaultHealthRequests_def
  DefaultGlobalBurst_def DefaultWindow_def DefaultLoginRequests_def DefaultLoginWindow_def
  DefaultPasswordResetRequests_def DefaultRegistrationRequests_def DefaultAuthLongWindow_def
  minute_def hour_def second_def

lemma request_bucket_pos:
  assumes "request_bucket opts req = (b, budget, auth)"
  shows "0 < rb_Requests budget" "0 < rb_Window budget" "\<not> auth \<Longrightarrow> b \<noteq> BucketGlobal"
  using assms
  by (auto simp: request_bucket_def classify_request_def authBucket_def resolveBucket_pos default_budgets
      BucketGlobal_def BucketRead_def BucketWrite_def BucketHealth_def split: option.splits if_splits)

lemma globalBucket_pos: "0 < rb_Requests (globalBucket cfg)" "0 < rb_Window (globalBucket cfg)"
  by (simp_all add: globalBucket_def default_budgets)

lemma retry_seconds_pos: "1 \<le> retry_seconds t"
  by (simp add: retry_seconds_def)

lemma RateLimit_run:
  assumes "request_bucket opts req = (b, budget, auth)" and "rl_Enabled (rlo_Config opts)" and "\<not> req_allowlisted req"
  shows "RateLimit (Some allow) opts now req s =
    (case allow s (client_ip (rlo_ClientIP opts) req) b (rb_Requests budget) (rb_Window budget) now of
       (Inl x, s1) \<Rightarrow> (Inr req, s1)
     | (Inr d, s1) \<Rightarrow>
         if \<not> dec_Allowed d then (Inl (TooManyRequests (retry_seconds (dec_RetryAfter d))), s1)
         else if auth then (Inr req, s1)
         else (case allow s1 (client_ip (rlo_ClientIP opts) req) BucketGlobal
                 (rb_Requests (globalBucket (rlo_Config opts))) (rb_Window (globalBucket (rlo_Config opts))) now of
                 (Inl x, s2) \<Rightarrow> (Inr req, s2)
               | (Inr g, s2) \<Rightarrow>
                   if \<not> dec_Allowed g then (Inl (TooManyRequests (retry_seconds (dec_RetryAfter g))), s2)
                   else (Inr req, s2)))"
  using assms globalBucket_pos(1) [of "rlo_Config opts"]
  by (simp add: RateLimit_def request_bucket_def Let_def writeRateLimited_def split: prod.splits sum.splits)

lemma RateLimit_skipped:
  "\<not> rl_Enabled (rlo_Config opts) \<or> req_allowlisted req \<Longrightarrow> RateLimit (Some allow) opts now req s = (Inr req, s)"
  by (auto simp: RateLimit_def passthrough_def)

definition bucket_room ::
  "('s \<Rightarrow> string \<Rightarrow> string \<Rightarrow> int \<Rightarrow> int \<Rightarrow> int \<Rightarrow> bool) \<Rightarrow> RateLimitOptions \<Rightarrow> Http_Request.request \<Rightarrow> int \<Rightarrow> 's \<Rightarrow> bool"
where
  "bucket_room room opts req now s =
     (let (b, budget, auth) = request_bucket opts req;
          i = client_ip (rlo_ClientIP opts) req;
          everything = globalBucket (rlo_Config opts)
      in room s i b (rb_Requests budget) (rb_Window budget) now
         \<and> (auth \<or> room s i BucketGlobal (rb_Requests everything) (rb_Window everything) now))"

context rate_store
begin

text \<open>The stage refuses only a client without room, whatever the store does.\<close>

lemma refused_without_room:
  assumes "RateLimit (Some allow) opts now req s = (Inl a, s')"
  shows "(\<exists>secs \<ge> 1. a = TooManyRequests secs) \<and> \<not> bucket_room room opts req now s"
proof -
  obtain b budget auth where bucket: "request_bucket opts req = (b, budget, auth)" by (cases "request_bucket opts req")
  note pos = request_bucket_pos [OF bucket]
  have on: "rl_Enabled (rlo_Config opts)" "\<not> req_allowlisted req"
    using assms RateLimit_skipped [of opts req allow now s] by auto
  let ?i = "client_ip (rlo_ClientIP opts) req"
  let ?all = "globalBucket (rlo_Config opts)"
  note run = assms [unfolded RateLimit_run [OF bucket on]]
  then obtain d s1 where one: "allow s ?i b (rb_Requests budget) (rb_Window budget) now = (Inr d, s1)"
    by (auto split: prod.splits sum.splits)
  show ?thesis
  proof (cases "dec_Allowed d")
    case False
    with run one have "a = TooManyRequests (retry_seconds (dec_RetryAfter d))" by simp
    then show ?thesis
      using False verdict [OF one pos(1,2)] retry_seconds_pos by (auto simp: bucket_room_def bucket)
  next
    case True
    with run one obtain g s2 where g: "\<not> auth" "allow s1 ?i BucketGlobal (rb_Requests ?all) (rb_Window ?all) now = (Inr g, s2)"
      "\<not> dec_Allowed g" "a = TooManyRequests (retry_seconds (dec_RetryAfter g))"
      by (auto split: prod.splits sum.splits if_splits)
    have "\<not> room s1 ?i BucketGlobal (rb_Requests ?all) (rb_Window ?all) now"
      using verdict [OF g(2) globalBucket_pos] g(3) by simp
    then have "\<not> room s ?i BucketGlobal (rb_Requests ?all) (rb_Window ?all) now"
      using other_bucket [OF one, of BucketGlobal] pos(3) [OF g(1)] by metis
    then show ?thesis using g retry_seconds_pos by (auto simp: bucket_room_def bucket)
  qed
qed

end

context reliable_rate_store
begin

text \<open>And with a store that answers, it refuses all of them.\<close>

lemma served_iff_room:
  assumes "rl_Enabled (rlo_Config opts)" and "\<not> req_allowlisted req"
  shows "fst (RateLimit (Some allow) opts now req s) = Inr req \<longleftrightarrow> bucket_room room opts req now s"
proof -
  obtain b budget auth where bucket: "request_bucket opts req = (b, budget, auth)" by (cases "request_bucket opts req")
  note pos = request_bucket_pos [OF bucket]
  let ?i = "client_ip (rlo_ClientIP opts) req"
  let ?all = "globalBucket (rlo_Config opts)"
  obtain d s1 where one: "allow s ?i b (rb_Requests budget) (rb_Window budget) now = (Inr d, s1)" using answers by blast
  obtain g s2 where two: "allow s1 ?i BucketGlobal (rb_Requests ?all) (rb_Window ?all) now = (Inr g, s2)"
    using answers by blast
  have "auth \<or> room s1 ?i BucketGlobal (rb_Requests ?all) (rb_Window ?all) now
      = room s ?i BucketGlobal (rb_Requests ?all) (rb_Window ?all) now"
    using other_bucket [OF one, of BucketGlobal] pos(3) by metis
  then show ?thesis
    using verdict [OF one pos(1,2)] verdict [OF two globalBucket_pos] one two
    by (auto simp: RateLimit_run [OF bucket assms] bucket_room_def bucket)
qed

end

subsection \<open>The two stores\<close>

definition memory_store :: "windows rate_store" where
  "memory_store ws i b limit window now = (let (d, ws') = Allow ws i b limit window now in (Inr d, ws'))"

definition memory_room :: "windows \<Rightarrow> string \<Rightarrow> string \<Rightarrow> int \<Rightarrow> int \<Rightarrow> int \<Rightarrow> bool" where
  "memory_room ws i b limit window now \<longleftrightarrow>
     int (length (filter (\<lambda>stamp. now - window < stamp) (ws (window_key i b)))) < limit"

definition sql_store :: "env \<Rightarrow> rate_row list world rate_store" where
  "sql_store e w i b limit window now = sql_Allow e i b limit window now w"

definition window_counts :: "rate_row list \<Rightarrow> string \<Rightarrow> string \<Rightarrow> int \<Rightarrow> int \<Rightarrow> int \<times> int" where
  "window_counts rows i b current previous =
     fold (\<lambda>r (cur, prev). if rl_window r = current then (rl_count r, prev) else (cur, rl_count r))
       (filter (\<lambda>r. rl_identifier r = i \<and> rl_bucket r = b \<and> (rl_window r = current \<or> rl_window r = previous)) rows) (0, 0)"

definition sql_room :: "rate_row list world \<Rightarrow> string \<Rightarrow> string \<Rightarrow> int \<Rightarrow> int \<Rightarrow> int \<Rightarrow> bool" where
  "sql_room w i b limit window now =
     (let current = Truncate now window;
          (cur, prev) = window_counts (wdb w) i b current (current - window)
      in f64 (window_estimate prev cur (window_weight (now - current) window) + 1) \<le> f64 (of_int limit))"

interpretation memory_rates: reliable_rate_store memory_store memory_room
proof (unfold_locales, goal_cases)
  case (1 s i b limit window now d s')
  then show ?case by (auto simp: memory_store_def memory_room_def Allow_def Let_def split: if_splits)
next
  case (2 s i b limit window now d s' c limit' window' now')
  then have "s' (window_key i c) = s (window_key i c)"
    by (auto simp: memory_store_def Allow_def Let_def window_key_def split: if_splits)
  then show ?case by (simp add: memory_room_def)
next
  case (3 s i b limit window now)
  then show ?case by (simp add: memory_store_def split: prod.splits)
qed

lemma filter_map_untouched:
  "\<forall>x \<in> set xs. h x = x \<or> \<not> q x \<and> \<not> q (h x) \<Longrightarrow> filter q (map h xs) = filter q xs"
  by (induction xs) auto

lemma countRequest_other_bucket:
  assumes "countRequest e i b current now w = (Inr u, w1)" and "\<forall>r. q r \<longrightarrow> rl_bucket r \<noteq> b"
  shows "filter q (wdb w1) = filter q (wdb w)"
proof -
  define mine where "mine r \<longleftrightarrow> rl_identifier r = i \<and> rl_bucket r = b \<and> rl_window r = current" for r :: rate_row
  have mine_eq: "(\<lambda>r. rl_identifier r = i \<and> rl_bucket r = b \<and> rl_window r = current) = mine" by (auto simp: mine_def)
  have not_mine: "\<not> q r" if "rl_bucket r = b" for r using that assms(2) by blast
  consider "wdb w1 = update_where mine (\<lambda>r. r\<lparr>rl_count := rl_count r + 1, rl_updated := now\<rparr>) (wdb w)"
    | "wdb w1 = wdb w @ [\<lparr>rl_identifier = i, rl_bucket = b, rl_window = current, rl_count = 1, rl_updated = now\<rparr>]"
    | "wdb w1 = update_where mine (\<lambda>r. r\<lparr>rl_count := rl_count r + 1, rl_updated := now\<rparr>) (wdb w)
        @ [\<lparr>rl_identifier = i, rl_bucket = b, rl_window = current, rl_count = 1, rl_updated = now\<rparr>]"
    using assms(1)
    by (auto simp: countRequest_def Let_def call_returns exec_returns ok_def mine_eq split: if_splits)
  moreover have "filter q (update_where mine (\<lambda>r. r\<lparr>rl_count := rl_count r + 1, rl_updated := now\<rparr>) (wdb w)) = filter q (wdb w)"
    unfolding update_where_def by (rule filter_map_untouched) (auto simp: mine_def not_mine)
  ultimately show ?thesis by cases (auto simp: not_mine)
qed

lemma sql_Allow_returns:
  assumes run: "sql_Allow e i b limit window now w = (Inr d, w')" and pos: "0 < limit" "0 < window"
  shows "dec_Allowed d \<longleftrightarrow> sql_room w i b limit window now"
    and "(\<forall>r. q r \<longrightarrow> rl_bucket r \<noteq> b) \<Longrightarrow> filter q (wdb w') = filter q (wdb w)"
proof -
  define start where "start = Truncate now window"
  define weight where "weight = window_weight (now - start) window"
  define body where "body =
    call (readWindows e i b start (start - window)) id (\<lambda>(c, q).
      let estimate = window_estimate q c weight
      in if f64 (estimate + 1) > f64 (of_int limit) then
           ok \<lparr>dec_Allowed = False, dec_Bucket = b, dec_Limit = limit, dec_Remaining = 0,
               dec_RetryAfter = max 0 (window - (now - start))\<rparr>
         else call (countRequest e i b start now) id (\<lambda>_.
           ok \<lparr>dec_Allowed = True, dec_Bucket = b, dec_Limit = limit,
               dec_Remaining = max 0 (limit - \<lfloor>estimate\<rfloor> - 1), dec_RetryAfter = 0\<rparr>))"
  have tx: "rate_tx e body w = (Inr d, w')"
    using run pos unfolding body_def start_def weight_def sql_Allow_def Let_def by simp
  then obtain w2 where body: "body (next_tick w) = (Inr d, w2)" and wdb: "wdb w' = wdb w \<or> dec_Allowed d \<and> wdb w' = wdb w2"
    by (auto simp: rate_tx_def split: option.splits prod.splits sum.splits if_splits)
  then obtain c p w3 where read: "readWindows e i b start (start - window) (next_tick w) = (Inr (c, p), w3)"
    and verdict: "dec_Allowed d \<longleftrightarrow> \<not> f64 (window_estimate p c weight + 1) > f64 (of_int limit)"
    and counted: "dec_Allowed d \<Longrightarrow> countRequest e i b start now w3 = (Inr (), w2)"
    using body by (auto simp: body_def Let_def call_returns ok_def split: if_splits)
  from read have counts: "window_counts (wdb w) i b start (start - window) = (c, p)" and w3: "wdb w3 = wdb w"
    by (auto simp: readWindows_def query_returns window_counts_def)
  show "dec_Allowed d \<longleftrightarrow> sql_room w i b limit window now"
    using verdict by (simp add: sql_room_def Let_def start_def [symmetric] weight_def [symmetric] counts not_less)
  show "(\<forall>r. q r \<longrightarrow> rl_bucket r \<noteq> b) \<Longrightarrow> filter q (wdb w') = filter q (wdb w)"
    using wdb counted countRequest_other_bucket [of e i b start now w3 "()" w2 q] w3 by auto
qed

interpretation sql_rates: rate_store "sql_store e" sql_room for e
proof (unfold_locales, goal_cases)
  case (1 s i b limit window now d s')
  then show ?case by (auto simp: sql_store_def dest: sql_Allow_returns(1))
next
  case (2 s i b limit window now d s' c limit' window' now')
  have "filter q (wdb s') = filter q (wdb s)" if "\<forall>r. q r \<longrightarrow> rl_bucket r \<noteq> b" for q
  proof (cases "0 < limit \<and> 0 < window")
    case True
    with 2(1) that show ?thesis by (auto simp: sql_store_def dest: sql_Allow_returns(2))
  next
    case False
    with 2(1) show ?thesis by (auto simp: sql_store_def sql_Allow_def ok_def)
  qed
  then have "window_counts (wdb s') i c m n = window_counts (wdb s) i c m n" for m n
    using 2(2) by (simp add: window_counts_def)
  then show ?case by (simp add: sql_room_def Let_def)
qed

lemma sql_Allow_answers:
  assumes up: "\<And>t. fault e t = None"
  shows "\<exists>d w'. sql_Allow e i b limit window now w = (Inr d, w')"
proof -
  have counted: "\<exists>w2. countRequest e i b current now w1 = (Inr (), w2)" for current w1
  proof -
    let ?mine = "\<lambda>r. rl_identifier r = i \<and> rl_bucket r = b \<and> rl_window r = current"
    have "\<not> exists_where ?mine rows" if "\<not> count_where ?mine rows > 0" for rows
      using that by (auto simp: count_where_def exists_where_def filter_empty_conv)
    then show ?thesis
      by (auto simp: countRequest_def Let_def call_def try_call_def exec_def up ok_def update_where_none
          count_where_def exists_where_def filter_empty_conv split: sum.splits prod.splits)
  qed
  obtain c p where counts: "window_counts (wdb w) i b (Truncate now window) (Truncate now window - window) = (c, p)" by fastforce
  obtain w2 where "countRequest e i b (Truncate now window) now (next_tick (next_tick w)) = (Inr (), w2)" using counted by blast
  then show ?thesis using counts
    by (auto simp: sql_Allow_def rate_tx_def call_def try_call_def readWindows_def query_def up ok_def Let_def window_counts_def)
qed

interpretation working_sql_rates: reliable_rate_store "sql_store (e\<lparr>fault := \<lambda>_. None\<rparr>)" sql_room for e
  by unfold_locales (simp add: sql_store_def sql_Allow_answers)

text \<open>
  C29: The rate limiting stage, over the table of the database. Whatever the database does, a request is refused
  only with 429 and a wait of at least a second, and only where its class or, unless it is an authentication
  request, the ceiling over all classes has no room for its client. While the database works, the requests that go on,
  of the clients that are not on the allow-list, are exactly those with room in both.\<close>

theorem rate_stage_exact:
  "(RateLimit (Some (sql_store e)) opts now req w = (Inl a, w') \<longrightarrow>
      (\<exists>secs \<ge> 1. a = TooManyRequests secs) \<and> \<not> bucket_room sql_room opts req now w)
   \<and> ((\<forall>t. fault e t = None) \<and> rl_Enabled (rlo_Config opts) \<and> \<not> req_allowlisted req \<longrightarrow>
      (fst (RateLimit (Some (sql_store e)) opts now req w) = Inr req \<longleftrightarrow> bucket_room sql_room opts req now w))"
proof (intro conjI impI)
  assume "RateLimit (Some (sql_store e)) opts now req w = (Inl a, w')"
  then show "\<exists>secs \<ge> 1. a = TooManyRequests secs" "\<not> bucket_room sql_room opts req now w"
    using sql_rates.refused_without_room by blast+
next
  assume on: "(\<forall>t. fault e t = None) \<and> rl_Enabled (rlo_Config opts) \<and> \<not> req_allowlisted req"
  then have "fault e = (\<lambda>_. None)" by auto
  then have "e\<lparr>fault := \<lambda>_. None\<rparr> = e" by (cases e) simp
  then show "fst (RateLimit (Some (sql_store e)) opts now req w) = Inr req \<longleftrightarrow> bucket_room sql_room opts req now w"
    using working_sql_rates.served_iff_room [of opts req e now w] on by simp
qed

definition demo_rates :: RateLimitOptions where
  "demo_rates =
     (let unset = \<lparr>rb_Requests = 0, rb_Window = 0\<rparr>
      in \<lparr>rlo_Config = \<lparr>rl_Enabled = True, rl_Read = unset, rl_Write = unset, rl_Health = unset, rl_GlobalBurst = 0,
            rl_Auth = \<lparr>arl_Login = unset, arl_PasswordReset = unset, arl_Registration = unset\<rparr>\<rparr>,
          rlo_ClientIP = None, rlo_AuthRules = default_auth_rules ''/api/v1'', rlo_HealthPaths = []\<rparr>)"

section \<open>The authentication buckets\<close>

lemma classify_plain:
  assumes "\<not> list_ex (\<lambda>rule. matchesPathPrefix (req_Path req) (arr_Prefix rule)) (rlo_AuthRules opts)"
    and "\<not> matchesAnyPath (req_Path req) healthPaths"
    and "req_Method req \<noteq> ''GET''" and "req_Method req \<noteq> ''HEAD''"
  shows "classify_request opts healthPaths req =
    (BucketWrite, resolveBucket (rl_Write (rlo_Config opts)) DefaultWriteRequests DefaultWindow, False)"
proof -
  have "find (\<lambda>rule. matchesPathPrefix (req_Path req) (arr_Prefix rule)) (rlo_AuthRules opts) = None"
    using assms(1) by (auto simp: find_None_iff list_ex_iff)
  then show ?thesis using assms(2-4) by (simp add: classify_request_def)
qed

lemma matches_literal:
  assumes "literal pat" and "list_all plain_byte pat" and "pat \<noteq> []" and "\<not> HasSuffix pat ''/''"
  shows "matchesPathPrefix p pat \<longleftrightarrow> p = pat \<or> HasPrefix p (pat @ ''/'')"
proof -
  have "\<not> list_ex (\<lambda>c. c \<in> {CHR ''*'', CHR ''?'', CHR ''[''}) pat"
    using assms(1) by (auto simp: literal_def list_ex_iff list_all_iff)
  then show ?thesis using assms by (simp add: matchesPathPrefix_def TrimSpace_plain TrimSuffix_def Let_def)
qed

text \<open>The requests that try a credential, as \<open>Web\<close> and the route table of the API name them.\<close>

definition credential_posts :: "string \<Rightarrow> string set" where
  "credential_posts base =
     {''/server/auth/login'', ''/server/auth/register'', ''/server/auth/2fa'', ''/server/auth/password/forgot'',
      ''/server/auth/password/reset'', base @ ''/server/auth/2fa'', base @ ''/server/auth/password/forgot'',
      base @ ''/server/auth/password/reset''}"

text \<open>
  The stricter buckets miss most of the requests they are for. With the rules \<open>DefaultOptions\<close> sets, under any API
  base, a sign-in or a registration by the form of the web pages, the second factor, and a password recovery, by form
  or by API, is billed as any other write, at 10 a minute unless configured otherwise, and not to the
  budgets of 5 in 15 minutes or 3 and 5 an hour.\<close>

theorem credential_posts_billed_as_writes:
  assumes "rlo_AuthRules opts = default_auth_rules (''/api/'' @ v)" and "rlo_HealthPaths opts = []"
    and "literal v" and "list_all plain_byte v"
    and "req_Method req = ''POST''" and "req_Path req \<in> credential_posts (''/api/'' @ v)"
  shows "request_bucket opts req = (BucketWrite, resolveBucket (rl_Write (rlo_Config opts)) 10 minute, False)"
proof -
  let ?actions = "{''/server/auth/login'', ''/server/auth/password-reset'', ''/server/auth/register''}"
  have rule: "matchesPathPrefix p (''/api/'' @ v @ t) \<longleftrightarrow> p = ''/api/'' @ v @ t \<or> HasPrefix p (''/api/'' @ v @ t @ ''/'')"
    if "t \<in> ?actions" for t p
  proof -
    have "literal t \<and> list_all plain_byte t \<and> \<not> HasSuffix (''/api/'' @ v @ t) ''/''"
      using that by (elim insertE emptyE; simp add: literal_def plain_simps HasSuffix_slash)
    with assms(3,4) show ?thesis
      using matches_literal [of "''/api/'' @ v @ t" p] by (simp add: literal_def plain_simps)
  qed
  obtain t where path: "req_Path req = ''/api/'' @ v @ ''/server/auth/'' @ t \<and> t \<in> {''2fa'', ''password/forgot'', ''password/reset''}
      \<or> req_Path req = ''/server/auth/'' @ t"
    using assms(6) unfolding credential_posts_def by (elim insertE emptyE; simp)
  then have "\<not> matchesPathPrefix (req_Path req) (''/api/'' @ v @ u)" if "u \<in> ?actions" for u
    unfolding rule [OF that] using that by (elim insertE emptyE disjE conjE; simp add: HasPrefix_def)
  then have "\<not> list_ex (\<lambda>rule. matchesPathPrefix (req_Path req) (arr_Prefix rule)) (rlo_AuthRules opts)"
    by (simp add: assms(1) default_auth_rules_def)
  moreover have "\<not> matchesAnyPath (req_Path req) defaultHealthPaths"
    using path by (elim disjE conjE; simp add: matchesAnyPath_def defaultHealthPaths_def matches_literal literal_def plain_simps
        HasSuffix_slash HasPrefix_def)
  ultimately show ?thesis
    using classify_plain [of req opts defaultHealthPaths] assms(2,5)
    by (simp add: request_bucket_def DefaultWriteRequests_def DefaultWindow_def)
qed

theorem credential_posts_billed_as_writes_witness:
  "request_bucket demo_rates (plain_request ''POST'' ''/api/v1/server/auth/password/forgot'')
    = (BucketWrite, \<lparr>rb_Requests = 10, rb_Window = minute\<rparr>, False)"
proof -
  have "rlo_AuthRules demo_rates = default_auth_rules (''/api/'' @ ''v1'')" "rlo_HealthPaths demo_rates = []"
    "resolveBucket (rl_Write (rlo_Config demo_rates)) 10 minute = \<lparr>rb_Requests = 10, rb_Window = minute\<rparr>"
    by (simp_all add: demo_rates_def Let_def resolveBucket_def)
  then show ?thesis
    using credential_posts_billed_as_writes
      [of demo_rates "''v1''" "plain_request ''POST'' ''/api/v1/server/auth/password/forgot''"]
    by (simp add: plain_request_def literal_def plain_simps credential_posts_def)
qed

lemma sql_room_empty: "sql_room \<lparr>wdb = [], wtick = 0, wrand = 0\<rparr> i b 120 window now"
  "sql_room \<lparr>wdb = [], wtick = 0, wrand = 0\<rparr> i b 240 window now"
  using f64_nat [of 1] f64_nat [of 120] f64_nat [of 240]
  by (simp_all add: sql_room_def window_counts_def window_estimate_def Let_def)

theorem rate_stage_exact_witness:
  "fst (RateLimit (Some (sql_store (demo_env\<lparr>fault := \<lambda>_. None\<rparr>))) demo_rates 0
      (plain_request ''GET'' ''/'') \<lparr>wdb = [], wtick = 0, wrand = 0\<rparr>) = Inr (plain_request ''GET'' ''/'')"
proof -
  let ?req = "plain_request ''GET'' ''/''"
  let ?w = "\<lparr>wdb = [], wtick = 0, wrand = 0\<rparr> :: rate_row list world"
  have "request_bucket demo_rates ?req = (BucketRead, \<lparr>rb_Requests = 120, rb_Window = minute\<rparr>, False)"
    by (simp add: request_bucket_def classify_request_def demo_rates_def Let_def default_auth_rules_def plain_request_def
        matchesAnyPath_def defaultHealthPaths_def matches_literal literal_def plain_simps HasSuffix_slash HasPrefix_def
        resolveBucket_def DefaultReadRequests_def DefaultWindow_def)
  moreover have "rb_Requests (globalBucket (rlo_Config demo_rates)) = 240"
    by (simp add: globalBucket_def demo_rates_def Let_def DefaultGlobalBurst_def)
  ultimately have "bucket_room sql_room demo_rates ?req 0 ?w"
    by (simp add: bucket_room_def Let_def sql_room_empty)
  moreover have "rl_Enabled (rlo_Config demo_rates)" "\<not> req_allowlisted ?req"
    by (simp_all add: demo_rates_def plain_request_def Let_def)
  ultimately show ?thesis
    using rate_stage_exact [of "demo_env\<lparr>fault := \<lambda>_. None\<rparr>" demo_rates 0 ?req ?w] by simp
qed

end
