(* ===== verification/Http_Router.thy ===== *)
theory Http_Router
  imports Http_Guards
begin

text \<open>
  The middleware chain as a whole (\<^verbatim>\<open>src/server/middleware/chain.go\<close>): what a request that reaches the router has
  been through, with the public paths of the handler (\<^verbatim>\<open>src/server/handler/api.go\<close>).
\<close>

section \<open>The chain\<close>

lemma andThen_simps [simp]: "andThen (Inl a, s) f = (Inl a, s)" "andThen (Inr req, s) f = f req s"
  by (simp_all add: andThen_def)

lemma andThen_served: "andThen r f = (Inr req', s') \<longleftrightarrow> (\<exists>req s. r = (Inr req, s) \<and> f req s = (Inr req', s'))"
  by (auto simp: andThen_def split: prod.splits sum.splits)

lemma pure_stage_served: "pure_stage f req s = (Inr req', s') \<longleftrightarrow> f req = Inr req' \<and> s' = s"
  by (auto simp: pure_stage_def)

lemma RateLimit_served_same: "RateLimit store opts now req s = (Inr req', s') \<Longrightarrow> req' = req"
  by (auto simp: RateLimit_def passthrough_def writeRateLimited_def Let_def split: option.splits prod.splits sum.splits if_splits)

lemma New_chain_served:
  assumes "New_chain parse store opts now req s = (Inr req', s')"
  obtains r1 r2 r3 where "URLNormalize (opt_LowercasePaths opts) req = Inr req"
    and "PathSecurity (opt_MaxPathLength opts) req = Inr r1" and "\<not> preflight r1"
    and "CSRF parse (opt_CSRF opts) r1 = Inr r1" and "Allowlist (opt_Allowlist opts) r1 = Inr r2"
    and "Blocklist (opt_Blocklist opts) r2 = Inr r2" and "RateLimit store (opt_RateLimit opts) now r2 s = (Inr r2, s')"
    and "GeoIP (opt_GeoIP opts) r2 = Inr r2" and "Auth (opt_Auth opts) r2 = Inr req'"
proof -
  obtain n p c f a b g r where run: "URLNormalize (opt_LowercasePaths opts) req = Inr n"
    "PathSecurity (opt_MaxPathLength opts) n = Inr p" "CORS (opt_CORS opts) p = Inr c"
    "CSRF parse (opt_CSRF opts) c = Inr f" "Allowlist (opt_Allowlist opts) f = Inr a"
    "Blocklist (opt_Blocklist opts) a = Inr b" "RateLimit store (opt_RateLimit opts) now b s = (Inr r, s')"
    "GeoIP (opt_GeoIP opts) r = Inr g" "Auth (opt_Auth opts) g = Inr req'"
    using assms by (auto simp: New_chain_def Chain_def andThen_served pure_stage_served)
  have "n = req" using run(1) by (auto simp: URLNormalize_def Let_def split: if_splits)
  moreover have "c = p" "\<not> preflight p" using run(3) by (auto simp: CORS_def split: if_splits)
  moreover have "f = c" using run(4) by (auto simp: CSRF_def Let_def rejectCSRF_def split: if_splits option.splits)
  moreover have "b = a" using run(6) by (auto simp: Blocklist_def passthrough_def split: if_splits option.splits)
  moreover have "r = b" using RateLimit_served_same [OF run(7)] .
  moreover have "g = r" using run(8) by (auto simp: GeoIP_def passthrough_def split: if_splits option.splits)
  ultimately show ?thesis using that run by metis
qed

definition on_list :: "AccessOptions \<Rightarrow> Http_Request.request \<Rightarrow> bool" where
  "on_list opts req \<longleftrightarrow> al_Enabled opts \<and>
     (case al_Contains opts of None \<Rightarrow> False | Some contains \<Rightarrow> contains (client_ip (al_ClientIP opts) req))"

lemma Allowlist_marks: "Allowlist opts req = Inr (req\<lparr>req_allowlisted := req_allowlisted req \<or> on_list opts req\<rparr>)"
  by (auto simp: Allowlist_def on_list_def passthrough_def split: option.splits)

lemma Blocklist_refuses:
  "Blocklist opts req = (if on_list opts req \<and> \<not> req_allowlisted req then Inl (Refused 403) else Inr req)"
  by (auto simp: Blocklist_def on_list_def passthrough_def StatusForbidden_def split: option.splits)

text \<open>The request as the two path stages and the allow-list leave it.\<close>

definition screened :: "Options \<Rightarrow> Http_Request.request \<Rightarrow> Http_Request.request" where
  "screened opts req =
     (let r = req\<lparr>req_Path := canonical_path (req_Path req)\<rparr>
      in r\<lparr>req_allowlisted := req_allowlisted r \<or> on_list (opt_Allowlist opts) r\<rparr>)"

lemma screened_eq:
  assumes "HasPrefix (req_Path req) ''/''"
    and "PathSecurity (opt_MaxPathLength opts) req = Inr r1" and "Allowlist (opt_Allowlist opts) r1 = Inr r2"
  shows "r1 = req\<lparr>req_Path := canonical_path (req_Path req)\<rparr>" "r2 = screened opts req"
proof -
  show r1: "r1 = req\<lparr>req_Path := canonical_path (req_Path req)\<rparr>"
    using assms(2) PathSecurity_reference [OF assms(1), of "opt_MaxPathLength opts"] by (simp split: if_splits)
  have "req_allowlisted r1 = req_allowlisted req" by (simp add: r1)
  then show "r2 = screened opts req"
    using assms(3) unfolding screened_def Let_def r1 [symmetric] by (simp add: Allowlist_marks)
qed

lemma served_identity:
  assumes "HasPrefix (req_Path req) ''/''" and "New_chain parse store opts now req s = (Inr req', s')"
  shows "case resolveIdentity (opt_Auth opts) (screened opts req) of
      Some info \<Rightarrow> req' = (screened opts req)\<lparr>req_auth := Some info\<rparr>
    | None \<Rightarrow> req' = screened opts req \<and>
        (\<forall>public. auth_IsPublicPath (opt_Auth opts) = Some public \<longrightarrow> public (req_Path req'))"
  using assms(2)
proof (rule New_chain_served)
  fix r1 r2
  assume "PathSecurity (opt_MaxPathLength opts) req = Inr r1" "Allowlist (opt_Allowlist opts) r1 = Inr r2"
    and auth: "Auth (opt_Auth opts) r2 = Inr req'"
  then have "r2 = screened opts req" by (intro screened_eq(2) [OF assms(1)])
  then show ?thesis using auth by (auto simp: Auth_def split: option.splits if_splits)
qed

lemma CSRF_passes:
  assumes "CSRF parse opts req = Inr req'"
  shows "CSRFRequired parse opts req \<Longrightarrow>
    \<exists>token. token \<noteq> [] \<and> req_Cookie req (firstNonEmpty (csrf_CookieName opts) ''csrf_token'') = Some token
      \<and> csrfPresentedToken req (if csrf_HeaderNames opts = [] then csrfHeaderNames else csrf_HeaderNames opts)
           (firstNonEmpty (csrf_FieldName opts) ''csrf_token'') = token"
  using assms unfolding CSRF_def Let_def rejectCSRF_def by (auto split: option.splits if_splits)

text \<open>
  C24: The chain composes its guards. A request for a rooted path that reaches the router has an admissible path and
  arrives with the canonical one; it needed no CSRF token or presented the one of its cookie, not empty; its client is
  not on the block-list, unless it is on the allow-list; and it carries the identity its credential was resolved to,
  or its path is public. A client on the block-list and not on the allow-list is answered, and no counter of the rate
  limiter changes.\<close>

theorem chain_guards:
  assumes "HasPrefix (req_Path req) ''/''"
  shows "(New_chain parse store opts now req s = (Inr req', s') \<longrightarrow>
      path_admissible (path_limit (opt_MaxPathLength opts)) (req_Path req) (escaped_path req)
      \<and> (CSRFRequired parse (opt_CSRF opts) (req\<lparr>req_Path := canonical_path (req_Path req)\<rparr>) \<longrightarrow>
           (\<exists>token. token \<noteq> [] \<and>
              req_Cookie req (firstNonEmpty (csrf_CookieName (opt_CSRF opts)) ''csrf_token'') = Some token \<and>
              csrfPresentedToken req
                (if csrf_HeaderNames (opt_CSRF opts) = [] then csrfHeaderNames else csrf_HeaderNames (opt_CSRF opts))
                (firstNonEmpty (csrf_FieldName (opt_CSRF opts)) ''csrf_token'') = token))
      \<and> (on_list (opt_Blocklist opts) (screened opts req) \<longrightarrow> req_allowlisted req')
      \<and> (case resolveIdentity (opt_Auth opts) (screened opts req) of
           Some info \<Rightarrow> req' = (screened opts req)\<lparr>req_auth := Some info\<rparr>
         | None \<Rightarrow> req' = screened opts req \<and>
             (\<forall>public. auth_IsPublicPath (opt_Auth opts) = Some public \<longrightarrow> public (req_Path req'))))
    \<and> (on_list (opt_Blocklist opts) (screened opts req) \<and> \<not> req_allowlisted (screened opts req) \<longrightarrow>
      (\<exists>a. New_chain parse store opts now req s = (Inl a, s)))"
proof (intro conjI impI)
  let ?r1 = "req\<lparr>req_Path := canonical_path (req_Path req)\<rparr>"
  assume "New_chain parse store opts now req s = (Inr req', s')"
  then obtain r1 r2 where run: "PathSecurity (opt_MaxPathLength opts) req = Inr r1" "CSRF parse (opt_CSRF opts) r1 = Inr r1"
    "Allowlist (opt_Allowlist opts) r1 = Inr r2" "Blocklist (opt_Blocklist opts) r2 = Inr r2" "Auth (opt_Auth opts) r2 = Inr req'"
    by (rule New_chain_served)
  note path = PathSecurity_reference [OF assms, of "opt_MaxPathLength opts"]
  then show "path_admissible (path_limit (opt_MaxPathLength opts)) (req_Path req) (escaped_path req)"
    using run(1) by (simp split: if_splits)
  note r1 = screened_eq(1) [OF assms run(1,3)] and r2 = screened_eq(2) [OF assms run(1,3)]
  have listed: "req_allowlisted req' = req_allowlisted r2"
    using run(5) by (auto simp: Auth_def split: option.splits if_splits)
  have "csrfPresentedToken r1 hs f = csrfPresentedToken req hs f" "req_Cookie r1 = req_Cookie req" for hs f
    by (simp_all add: r1 csrfPresentedToken_def Let_def split: option.split)
  then show "CSRFRequired parse (opt_CSRF opts) ?r1 \<Longrightarrow>
      \<exists>token. token \<noteq> [] \<and>
        req_Cookie req (firstNonEmpty (csrf_CookieName (opt_CSRF opts)) ''csrf_token'') = Some token \<and>
        csrfPresentedToken req
          (if csrf_HeaderNames (opt_CSRF opts) = [] then csrfHeaderNames else csrf_HeaderNames (opt_CSRF opts))
          (firstNonEmpty (csrf_FieldName (opt_CSRF opts)) ''csrf_token'') = token"
    using CSRF_passes [OF run(2)] r1 by simp
  show "on_list (opt_Blocklist opts) (screened opts req) \<Longrightarrow> req_allowlisted req'"
    using run(4) r2 listed by (auto simp: Blocklist_refuses split: if_splits)
  show "case resolveIdentity (opt_Auth opts) (screened opts req) of
      Some info \<Rightarrow> req' = (screened opts req)\<lparr>req_auth := Some info\<rparr>
    | None \<Rightarrow> req' = screened opts req \<and>
        (\<forall>public. auth_IsPublicPath (opt_Auth opts) = Some public \<longrightarrow> public (req_Path req'))"
    by (rule served_identity [OF assms \<open>New_chain parse store opts now req s = (Inr req', s')\<close>])
next
  assume blocked: "on_list (opt_Blocklist opts) (screened opts req) \<and> \<not> req_allowlisted (screened opts req)"
  show "\<exists>a. New_chain parse store opts now req s = (Inl a, s)"
  proof (rule ccontr)
    assume "\<not> ?thesis"
    then obtain r1 r2 where run: "PathSecurity (opt_MaxPathLength opts) req = Inr r1"
      "Allowlist (opt_Allowlist opts) r1 = Inr r2" "Blocklist (opt_Blocklist opts) r2 = Inr r2"
      by (auto simp: New_chain_def Chain_def andThen_def pure_stage_def URLNormalize_def CORS_def CSRF_def rejectCSRF_def
          Let_def Blocklist_refuses split: sum.splits if_splits option.splits)
    then have "r2 = screened opts req" by (intro screened_eq(2) [OF assms])
    then show False using run(3) blocked by (simp add: Blocklist_refuses)
  qed
qed

definition demo_chain :: "(string \<Rightarrow> bool) \<Rightarrow> Options" where
  "demo_chain blocked =
     \<lparr>opt_LowercasePaths = False, opt_MaxPathLength = 0,
      opt_CORS = demo_cors, opt_CSRF = demo_csrf,
      opt_Allowlist = \<lparr>al_Enabled = True, al_ClientIP = Some req_RemoteAddr, al_Contains = Some (\<lambda>ip. ip = ''10.0.0.1:1'')\<rparr>,
      opt_Blocklist = \<lparr>al_Enabled = True, al_ClientIP = Some req_RemoteAddr, al_Contains = Some blocked\<rparr>,
      opt_RateLimit = demo_rates, opt_GeoIP = \<lparr>geo_Lookup = False, geo_ClientIP = None, geo_Blocked = None\<rparr>,
      opt_Auth = \<lparr>auth_Verifier = None, auth_SessionCookieNames = [''sid''],
        auth_IsPublicPath = Some (IsPublicPath ''/api/v1'' WebPrefixes)\<rparr>\<rparr>"

theorem chain_guards_witness:
  "\<exists>a. New_chain (\<lambda>_. None) (Some memory_store) (demo_chain (\<lambda>ip. ip = ''192.0.2.7:4711'')) 0
     (plain_request ''GET'' ''/'') NewMemoryStore = (Inl a, NewMemoryStore)"
proof -
  let ?req = "plain_request ''GET'' ''/''" and ?opts = "demo_chain (\<lambda>ip. ip = ''192.0.2.7:4711'')"
  have "on_list (opt_Blocklist ?opts) (screened ?opts ?req)" "\<not> req_allowlisted (screened ?opts ?req)"
    by (simp_all add: on_list_def screened_def demo_chain_def plain_request_def client_ip_def Let_def)
  then show ?thesis
    using chain_guards [of ?req "\<lambda>_. None" "Some memory_store" ?opts 0 NewMemoryStore]
    by (simp add: plain_request_def HasPrefix_def)
qed

text \<open>How a credential of the request was vouched for.\<close>

definition vouched :: "AuthOptions \<Rightarrow> Http_Request.request \<Rightarrow> AuthInfo \<Rightarrow> bool" where
  "vouched opts req info \<longleftrightarrow> (\<exists>v. auth_Verifier opts = Some v \<and>
     ((\<exists>name value. name \<in> TrimSpace ` set (auth_SessionCookieNames opts) \<and> value \<noteq> [] \<and>
         req_Cookie req name = Some value \<and> VerifySession v name value = Some info)
      \<or> fst (AuthToken req) \<noteq> [] \<and> VerifyToken v (fst (AuthToken req)) (snd (AuthToken req)) = Some info))"

lemma session_identity_vouched:
  "session_identity v req names = Some info \<Longrightarrow>
   \<exists>name value. name \<in> TrimSpace ` set names \<and> value \<noteq> [] \<and> req_Cookie req name = Some value
     \<and> VerifySession v name value = Some info"
  by (induction names) (auto simp: Let_def split: if_splits option.splits)

lemma resolveIdentity_vouched: "resolveIdentity opts req = Some info \<Longrightarrow> vouched opts req info"
  by (auto simp: resolveIdentity_def vouched_def dest!: session_identity_vouched split: option.splits prod.splits if_splits)

lemma vouched_screened: "vouched auth (screened opts req) = vouched auth req"
proof -
  have "AuthToken (req\<lparr>req_Path := p, req_allowlisted := a\<rparr>) = AuthToken req" for p a
    by (simp add: AuthToken_def Let_def split: option.split prod.split)
  then show ?thesis by (simp add: vouched_def screened_def Let_def fun_eq_iff)
qed

lemma private_paths:
  assumes "CHR ''/'' \<in> set rest \<or> rest \<in> set userSubResources" and "\<not> HasSuffix rest ''/''" and "rest \<noteq> []"
  shows "\<not> IsPublicPath base web (base @ ''/users/'' @ rest)"
proof -
  have "\<not> HasSuffix (base @ ''/users/'' @ rest) ''/''"
    using assms(2,3) by (simp add: HasSuffix_slash)
  then have "TrimSuffix (base @ ''/users/'' @ rest) ''/'' = base @ ''/users/'' @ rest" by (simp add: TrimSuffix_def)
  moreover have "owns (APIPrefixes base @ web) (base @ ''/users/'' @ rest)"
    by (simp add: owns_def APIPrefixes_def HasSuffix_slash HasPrefix_def)
  ultimately show ?thesis using assms(1)
    by (auto simp: IsPublicPath_def HasPrefix_def CutPrefix_def)
qed

text \<open>
  Nothing below a private path of the API is reached without a credential: with the public paths of the handler,
  a request the chain lets through to a path under \<open>/users/\<close> of the API that has a further segment, or is one of the
  account's own resources, carries an identity that the verifier vouched for, from a session cookie or a token the
  request was sent with.\<close>

theorem private_api_needs_identity:
  assumes "New_chain parse store opts now req s = (Inr req', s')"
    and "auth_IsPublicPath (opt_Auth opts) = Some (IsPublicPath base WebPrefixes)"
    and "req_Path req' = base @ ''/users/'' @ rest" and "CHR ''/'' \<in> set rest \<or> rest \<in> set userSubResources"
    and "rest \<noteq> []" and "\<not> HasSuffix rest ''/''" and "HasPrefix (req_Path req) ''/''"
  shows "\<exists>info. req_auth req' = Some info \<and> vouched (opt_Auth opts) req info"
proof -
  have "\<not> IsPublicPath base WebPrefixes (req_Path req')"
    unfolding assms(3) using assms(4,6,5) by (rule private_paths)
  moreover note served_identity [OF assms(7,1)]
  ultimately obtain info where "resolveIdentity (opt_Auth opts) (screened opts req) = Some info"
    and "req' = (screened opts req)\<lparr>req_auth := Some info\<rparr>"
    using assms(2) by (auto split: option.splits)
  then show ?thesis using resolveIdentity_vouched vouched_screened by fastforce
qed

definition demo_verifier :: TokenVerifier where
  "demo_verifier = \<lparr>VerifyToken = (\<lambda>_ _. None),
     VerifySession = (\<lambda>name value. if value = ''s3cret''
       then Some \<lparr>ai_Subject = ''7'', ai_Kind = ''user'', ai_Source = name, ai_Scopes = [], ai_SessionID = ''1''\<rparr> else None)\<rparr>"

theorem private_api_needs_identity_witness:
  "\<exists>req' info. New_chain (\<lambda>_. None) None
      ((demo_chain (\<lambda>_. False))\<lparr>opt_Auth := \<lparr>auth_Verifier = Some demo_verifier, auth_SessionCookieNames = [''sid''],
         auth_IsPublicPath = Some (IsPublicPath ''/api/v1'' WebPrefixes)\<rparr>\<rparr>) 0
      (plain_request ''GET'' ''//api/v1/users/tokens''\<lparr>req_Cookie := (\<lambda>n. if n = ''sid'' then Some ''s3cret'' else None)\<rparr>) ()
      = (Inr req', ()) \<and> req_Path req' = ''/api/v1/users/tokens'' \<and> req_auth req' = Some info \<and> ai_Subject info = ''7''"
proof -
  let ?auth = "\<lparr>auth_Verifier = Some demo_verifier, auth_SessionCookieNames = [''sid''],
    auth_IsPublicPath = Some (IsPublicPath ''/api/v1'' WebPrefixes)\<rparr>"
  let ?opts = "(demo_chain (\<lambda>_. False))\<lparr>opt_Auth := ?auth\<rparr>"
  let ?req = "plain_request ''GET'' ''//api/v1/users/tokens''\<lparr>req_Cookie := (\<lambda>n. if n = ''sid'' then Some ''s3cret'' else None)\<rparr>"
  define info where "info = \<lparr>ai_Subject = ''7'', ai_Kind = ''user'', ai_Source = ''sid'', ai_Scopes = [], ai_SessionID = ''1''\<rparr>"
  define served where "served = ?req\<lparr>req_Path := ''/api/v1/users/tokens'', req_auth := Some info\<rparr>"
  have plain: "TrimSpace ''sid'' = ''sid''" by (simp add: TrimSpace_plain plain_simps)
  have path: "path_admissible 2048 ''//api/v1/users/tokens'' ''//api/v1/users/tokens''"
    by (simp add: path_admissible_def ToLower_ascii ascii_def plain_simps)
  have canonical: "canonical_path ''//api/v1/users/tokens'' = ''/api/v1/users/tokens''"
    by (simp add: canonical_path_def named_segments_def HasSuffix_slash)
  have "PathSecurity 0 ?req = Inr (?req\<lparr>req_Path := ''/api/v1/users/tokens''\<rparr>)"
    using path canonical by (subst PathSecurity_reference)
      (simp_all add: plain_request_def HasPrefix_def path_limit_def escaped_path_def)
  then have run: "New_chain (\<lambda>_. None) None ?opts 0 ?req () = (Inr served, ())"
    by (simp add: New_chain_def Chain_def pure_stage_def demo_chain_def URLNormalize_def canonical_url_def HasSuffix_slash
        plain_request_def CORS_def preflight_def CSRF_def CSRFRequired_def csrfSafeMethods_def Let_def Allowlist_def
        Blocklist_def client_ip_def RateLimit_def passthrough_def GeoIP_def Auth_def resolveIdentity_def plain
        demo_verifier_def served_def info_def)
  have "req_Path served = ''/api/v1'' @ ''/users/'' @ ''tokens''" by (simp add: served_def)
  with private_api_needs_identity [OF run, of "''/api/v1''" "''tokens''"]
  have "\<exists>i. req_auth served = Some i \<and> vouched (opt_Auth ?opts) ?req i"
    by (simp add: userSubResources_def HasSuffix_slash plain_request_def HasPrefix_def)
  then show ?thesis using run by (auto simp: served_def info_def)
qed

end
