(* ===== verification/Http_Identity.thy ===== *)
theory Http_Identity
  imports Http_Router Token_Access Logins
begin

text \<open>
  From a credential to a caller: the verifier the authentication stage calls (\<^verbatim>\<open>src/server/handler/verifier.go\<close>), the
  options the server starts the stage with (\<^verbatim>\<open>src/startup/http.go\<close>), the guards of the handlers
  (\<^verbatim>\<open>src/server/handler/handler.go\<close>, \<^verbatim>\<open>api.go\<close>) and the envelope of an error (\<^verbatim>\<open>src/apierror\<close>).
\<close>

section \<open>Error envelopes\<close>

datatype error_code =
    CodeBadRequest
  | CodeValidationFailed
  | CodeUnauthorized
  | CodeTokenExpired
  | CodeTokenInvalid
  | CodeTokenRevoked
  | CodeTwoFactorRequired
  | CodeTwoFactorInvalid
  | CodeForbidden
  | CodeAccountLocked
  | CodeNotFound
  | CodeMethodNotAllowed
  | CodeConflict
  | CodeRateLimited
  | CodeServerError
  | CodeMaintenance

fun HTTPStatus :: "error_code \<Rightarrow> nat" where
  "HTTPStatus CodeBadRequest = 400"
| "HTTPStatus CodeValidationFailed = 400"
| "HTTPStatus CodeUnauthorized = 401"
| "HTTPStatus CodeTokenExpired = 401"
| "HTTPStatus CodeTokenInvalid = 401"
| "HTTPStatus CodeTokenRevoked = 401"
| "HTTPStatus CodeTwoFactorRequired = 401"
| "HTTPStatus CodeTwoFactorInvalid = 401"
| "HTTPStatus CodeForbidden = 403"
| "HTTPStatus CodeAccountLocked = 403"
| "HTTPStatus CodeNotFound = 404"
| "HTTPStatus CodeMethodNotAllowed = 405"
| "HTTPStatus CodeConflict = 409"
| "HTTPStatus CodeRateLimited = 429"
| "HTTPStatus CodeMaintenance = 503"
| "HTTPStatus CodeServerError = 500"

fun DefaultMessage :: "error_code \<Rightarrow> string" where
  "DefaultMessage CodeBadRequest = ''Invalid request format''"
| "DefaultMessage CodeValidationFailed = ''Validation failed''"
| "DefaultMessage CodeUnauthorized = ''Authentication required''"
| "DefaultMessage CodeTokenExpired = ''Token has expired''"
| "DefaultMessage CodeTokenInvalid = ''Invalid token''"
| "DefaultMessage CodeTokenRevoked = ''Token has been revoked''"
| "DefaultMessage CodeTwoFactorRequired = ''Two-factor authentication required''"
| "DefaultMessage CodeTwoFactorInvalid = ''Invalid 2FA code''"
| "DefaultMessage CodeForbidden = ''Permission denied''"
| "DefaultMessage CodeAccountLocked = ''Account locked''"
| "DefaultMessage CodeNotFound = ''Resource not found''"
| "DefaultMessage CodeMethodNotAllowed = ''Method not allowed''"
| "DefaultMessage CodeConflict = ''Resource already exists''"
| "DefaultMessage CodeRateLimited = ''Too many requests''"
| "DefaultMessage CodeServerError = ''Internal server error''"
| "DefaultMessage CodeMaintenance = ''Service unavailable''"

record api_error =
  ae_Code :: error_code
  ae_Message :: string
  ae_HTTPStatusCode :: nat
  ae_Details :: "(string \<times> string) list"
  ae_Internal :: "err option"

definition New_error :: "error_code \<Rightarrow> api_error" where
  "New_error code = \<lparr>ae_Code = code, ae_Message = DefaultMessage code, ae_HTTPStatusCode = HTTPStatus code,
     ae_Details = [], ae_Internal = None\<rparr>"

definition Newf :: "error_code \<Rightarrow> string \<Rightarrow> api_error" where
  "Newf code message = (New_error code)\<lparr>ae_Message := message\<rparr>"

definition Wrap :: "error_code \<Rightarrow> err \<Rightarrow> api_error" where
  "Wrap code internal = (New_error code)\<lparr>ae_Internal := Some internal\<rparr>"

definition WithDetails :: "api_error \<Rightarrow> (string \<times> string) list \<Rightarrow> api_error" where
  "WithDetails e d = e\<lparr>ae_Details := d\<rparr>"

text \<open>The envelope of a failure, with its status: what of an error crosses the wire.\<close>

record Response =
  resp_Status :: nat
  resp_Error :: error_code
  resp_Message :: string
  resp_Details :: "(string \<times> string) list"

definition SendError :: "api_error \<Rightarrow> Response" where
  "SendError e = \<lparr>resp_Status = ae_HTTPStatusCode e, resp_Error = ae_Code e, resp_Message = ae_Message e,
     resp_Details = ae_Details e\<rparr>"

definition SendErrorCode :: "error_code \<Rightarrow> Response" where
  "SendErrorCode code = SendError (New_error code)"

datatype log_level = LevelError | LevelWarn | LevelInfo

definition LogLevel :: "api_error \<Rightarrow> log_level" where
  "LogLevel e = (if ae_HTTPStatusCode e \<ge> 500 then LevelError else if ae_HTTPStatusCode e \<ge> 400 then LevelWarn else LevelInfo)"

text \<open>\<open>errors.Is (err, ErrValidation)\<close>, by the \<open>Is\<close> methods of the two error types, comes after the first case.\<close>

fun translate :: "err \<Rightarrow> api_error" where
  "translate (VerificationError code domain detail) =
     WithDetails (New_error CodeValidationFailed) [(''code'', code), (''domain'', domain)]"
| "translate (FieldError message) = Newf CodeValidationFailed message"
| "translate ErrInvalidCredentials = New_error CodeUnauthorized"
| "translate ErrAccountLocked = New_error CodeAccountLocked"
| "translate ErrForbidden = New_error CodeForbidden"
| "translate ErrQuotaExceeded = New_error CodeForbidden"
| "translate ErrNotFound = New_error CodeNotFound"
| "translate ErrConflict = New_error CodeConflict"
| "translate ErrDisabled = New_error CodeNotFound"
| "translate x = Wrap CodeServerError x"

section \<open>The verifier\<close>

definition ScopeTwoFactorPending :: string where "ScopeTwoFactorPending = ''2fa_pending''"
definition SubjectUser :: string where "SubjectUser = ''user''"
definition SubjectService :: string where "SubjectService = ''service''"

definition verifier_VerifySession ::
  "env \<Rightarrow> string \<Rightarrow> string \<Rightarrow> string \<Rightarrow> users_db world \<Rightarrow> AuthInfo option \<times> users_db world"
where
  "verifier_VerifySession e own cookieName value w =
     (if cookieName \<noteq> own \<or> value = [] then (None, w)
      else case ResolveSession e value w of
             (Inl x, w1) \<Rightarrow> (None, w1)
           | (Inr (account, session), w1) \<Rightarrow>
               let info = \<lparr>ai_Subject = itoa_int (u_ID account), ai_Kind = SubjectUser,
                           ai_Source = ''cookie:'' @ cookieName, ai_Scopes = [], ai_SessionID = itoa_int (s_ID session)\<rparr>
               in if s_TwoFactorOK session then (Some info, w1)
                  else case twoFactorEnabled e (u_ID account) w1 of
                         (Inl x, w2) \<Rightarrow> (None, w2)
                       | (Inr enabled, w2) \<Rightarrow>
                           (Some (if enabled then info\<lparr>ai_Scopes := [ScopeTwoFactorPending]\<rparr> else info), w2))"

definition verifier_VerifyToken ::
  "env \<Rightarrow> string \<Rightarrow> string \<Rightarrow> users_db world \<Rightarrow> AuthInfo option \<times> users_db world"
where
  "verifier_VerifyToken e token source w =
     (if token = [] then (None, w)
      else case AuthenticateToken e token w of
             (Inl x, w1) \<Rightarrow> (None, w1)
           | (Inr auth, w1) \<Rightarrow>
               if t_OwnerType (auth_Token auth) \<noteq> OwnerUser then (None, w1)
               else (Some \<lparr>ai_Subject = itoa_int (t_OwnerID (auth_Token auth)), ai_Kind = SubjectUser, ai_Source = source,
                           ai_Scopes = Permissions (auth_Role auth)
                             @ (if t_Capability (auth_Token auth) \<noteq> [] then [t_Capability (auth_Token auth)] else []),
                           ai_SessionID = []\<rparr>, w1))"

text \<open>The verifier as the stage sees it, at one world: a request is verified once.\<close>

definition NewVerifier :: "env \<Rightarrow> string \<Rightarrow> users_db world \<Rightarrow> TokenVerifier" where
  "NewVerifier e own w =
     \<lparr>VerifyToken = (\<lambda>token source. fst (verifier_VerifyToken e token source w)),
      VerifySession = (\<lambda>name value. fst (verifier_VerifySession e own name value w))\<rparr>"

text \<open>
  The options of the stage when the server starts: \<open>DefaultOptions\<close> leaves them empty and \<open>middleware\<close> sets the
  verifier and the public paths.
\<close>

definition default_auth :: AuthOptions where
  "default_auth = \<lparr>auth_Verifier = None, auth_SessionCookieNames = [], auth_IsPublicPath = None\<rparr>"

definition startup_auth :: "TokenVerifier \<Rightarrow> (string \<Rightarrow> bool) \<Rightarrow> AuthOptions" where
  "startup_auth verifier public = default_auth\<lparr>auth_Verifier := Some verifier, auth_IsPublicPath := Some public\<rparr>"

section \<open>Callers\<close>

record caller =
  caller_UserID :: int
  caller_Token :: bool
  caller_Pending :: bool

definition currentUser :: "Http_Request.request \<Rightarrow> caller option" where
  "currentUser r =
     (case req_auth r of
        None \<Rightarrow> None
      | Some info \<Rightarrow>
          if ai_Kind info \<noteq> SubjectUser \<and> ai_Kind info \<noteq> SubjectService then None
          else case ParseInt64 (ai_Subject info) of
                 None \<Rightarrow> None
               | Some n \<Rightarrow>
                   if n \<le> 0 then None
                   else Some \<lparr>caller_UserID = n, caller_Token = (ai_SessionID info = []),
                              caller_Pending = HasScope info ScopeTwoFactorPending\<rparr>)"

definition viewerID :: "Http_Request.request \<Rightarrow> int" where
  "viewerID r = (case currentUser r of None \<Rightarrow> 0 | Some c \<Rightarrow> caller_UserID c)"

definition requireUser :: "Http_Request.request \<Rightarrow> Response + caller" where
  "requireUser r =
     (case currentUser r of
        None \<Rightarrow> Inl (SendErrorCode CodeUnauthorized)
      | Some c \<Rightarrow> if caller_Pending c then Inl (SendErrorCode CodeTwoFactorRequired) else Inr c)"

definition requireSession :: "Http_Request.request \<Rightarrow> Response + caller" where
  "requireSession r =
     (case requireUser r of
        Inl x \<Rightarrow> Inl x
      | Inr c \<Rightarrow> if caller_Token c then Inl (SendErrorCode CodeForbidden) else Inr c)"

definition orgScope ::
  "env \<Rightarrow> string \<Rightarrow> Http_Request.request \<Rightarrow> users_db world \<Rightarrow> (Response + caller \<times> OrgAccess) \<times> users_db world"
where
  "orgScope e slug r w =
     (case requireUser r of
        Inl x \<Rightarrow> (Inl x, w)
      | Inr c \<Rightarrow>
          (case AccessBySlug e slug (caller_UserID c) w of
             (Inl x, w') \<Rightarrow> (Inl (SendError (translate x)), w')
           | (Inr access, w') \<Rightarrow> (Inr (c, access), w')))"

section \<open>Sessions in production\<close>

lemma resolveIdentity_startup:
  "resolveIdentity (startup_auth v public) req =
     (let (token, source) = AuthToken req in if token = [] then None else VerifyToken v token source)"
  by (simp add: resolveIdentity_def startup_auth_def default_auth_def)

lemma VerifyToken_session: "VerifyToken (NewVerifier e own w) token source = Some info \<Longrightarrow> ai_SessionID info = []"
  by (auto simp: NewVerifier_def verifier_VerifyToken_def split: prod.splits sum.splits if_splits)

lemma startup_no_session:
  assumes "req_auth req = None" and "Auth (startup_auth (NewVerifier e own w) public) req = Inr req'"
  shows "\<exists>x. requireSession req' = Inl x"
proof -
  let ?v = "NewVerifier e own w"
  have "case req_auth req' of None \<Rightarrow> True | Some info \<Rightarrow> ai_SessionID info = []"
  proof (cases "resolveIdentity (startup_auth ?v public) req")
    case None
    then show ?thesis using assms by (auto simp: Auth_def startup_auth_def split: if_splits)
  next
    case (Some info)
    then have "req_auth req' = Some info" using assms by (auto simp: Auth_def)
    moreover have "ai_SessionID info = []"
      using Some VerifyToken_session by (auto simp: resolveIdentity_startup split: prod.splits if_splits)
    ultimately show ?thesis by simp
  qed
  then show ?thesis
    by (auto simp: requireSession_def requireUser_def currentUser_def split: option.splits)
qed

text \<open>
  With the options the server starts with, no browser session is ever resolved. The stage is given no cookie
  names, so the identity of a request is the one of its token and nothing else; a request that passes the stage is then
  never a session's, and the guard of the handlers that need one, for passwords, second factors, tokens and sessions,
  refuses every request there is.\<close>

theorem sessions_never_resolve:
  "resolveIdentity (startup_auth v public) req =
     (let (token, source) = AuthToken req in if token = [] then None else VerifyToken v token source)
   \<and> (req_auth req = None \<and> v = NewVerifier e own w \<and> Auth (startup_auth v public) req = Inr req'
       \<longrightarrow> (\<exists>x. requireSession req' = Inl x))"
  using resolveIdentity_startup startup_no_session by auto

definition with_session :: "Http_Request.request" where
  "with_session = plain_request ''GET'' ''/users/settings''
     \<lparr>req_Cookie := (\<lambda>n. if n = ''user_session'' then Some ''bobs-session'' else None)\<rparr>"

lemma with_session_token: "AuthToken with_session = ([], [])"
  by (simp add: AuthToken_def authorizationToken_def with_session_def plain_request_def Cut_def tokenHeaders_def)

theorem sessions_never_resolve_witness:
  "Auth (startup_auth (NewVerifier demo_env ''user_session'' demo_world) (\<lambda>_. True)) with_session = Inr with_session
   \<and> (\<exists>x. requireSession with_session = Inl x)"
proof -
  have run: "Auth (startup_auth (NewVerifier demo_env ''user_session'' demo_world) (\<lambda>_. True)) with_session = Inr with_session"
    unfolding Auth_def by (simp only: resolveIdentity_startup with_session_token) (simp add: startup_auth_def)
  have "req_auth with_session = None" by (simp add: with_session_def plain_request_def)
  with run sessions_never_resolve [of "NewVerifier demo_env ''user_session'' demo_world" "\<lambda>_. True" with_session demo_env
      "''user_session''" demo_world with_session]
  show ?thesis by blast
qed

section \<open>Who a caller is\<close>

lemma parsed_subject: "ParseInt64 (itoa_int n) = Some m \<Longrightarrow> m = n"
proof -
  have digits: "\<not> HasPrefix (itoa k) ''-''" "\<not> HasPrefix (itoa k) ''+''" for k
  proof -
    obtain c s where cs: "itoa k = c # s" using itoa_not_Nil [of k] by (cases "itoa k") auto
    with itoa_digits [of k] have "is_digit c" by simp
    then show "\<not> HasPrefix (itoa k) ''-''" "\<not> HasPrefix (itoa k) ''+''"
      using cs by (auto simp: HasPrefix_def is_digit_def byte_def)
  qed
  show "ParseInt64 (itoa_int n) = Some m \<Longrightarrow> m = n"
    by (auto simp: ParseInt64_def itoa_int_def Let_def digits [unfolded HasPrefix_def] itoa_digits atoi_itoa HasPrefix_def split: if_splits)
qed

lemma ResolveSession_returns:
  assumes "ResolveSession e token w = (Inr (a, s), w')"
  shows "session_row e (wdb w) token = Some s \<and> user_row (wdb w) (s_UserID s) = Some a \<and> user_Active a
    \<and> (\<exists>n. \<not> session_Expired s (truncate_second (clock e n)))
    \<and> (\<forall>uid. second_factor_on e (wdb w') uid = second_factor_on e (wdb w) uid)"
  using assms
  by (auto simp: ResolveSession_def Let_def call_returns with_now_returns ignoring_eq fail_returns ok_returns st_SessionByHash_def session_row_def query_row_returns st_UserByID_def user_row_def st_TouchSession_def store_now_returns exec_returns affected_def second_factor_on_def sql_update_returns split: if_splits)

text \<open>Who a request speaks for, by the rows of the database.\<close>

definition session_of :: "env \<Rightarrow> users_db \<Rightarrow> Http_Request.request \<Rightarrow> string \<Rightarrow> int \<Rightarrow> bool" where
  "session_of e d req own uid \<longleftrightarrow> (\<exists>value s a. req_Cookie req own = Some value \<and> value \<noteq> [] \<and>
     session_row e d value = Some s \<and> user_row d (s_UserID s) = Some a \<and> user_Active a \<and> u_ID a = uid \<and>
     (\<exists>n. \<not> session_Expired s (truncate_second (clock e n))) \<and>
     (s_TwoFactorOK s \<or> \<not> second_factor_on e d uid))"

definition token_of :: "env \<Rightarrow> users_db \<Rightarrow> Http_Request.request \<Rightarrow> int \<Rightarrow> bool" where
  "token_of e d req uid \<longleftrightarrow> (\<exists>t. token_row e d (TrimSpace (fst (AuthToken req))) = Some t \<and>
     t_OwnerType t = OwnerUser \<and> t_OwnerID t = uid \<and> (\<exists>n. token_Usable t (truncate_second (clock e n))))"

lemma verified_session:
  assumes "fst (verifier_VerifySession e own name value w) = Some info" and "req_Cookie req name = Some value"
  shows "ai_Kind info = SubjectUser"
    and "\<exists>uid sid. ai_Subject info = itoa_int uid \<and> ai_SessionID info = itoa_int sid \<and>
      (\<not> HasScope info ScopeTwoFactorPending \<longrightarrow> session_of e (wdb w) req own uid)"
proof -
  from assms(1) obtain a s w1 where ran: "name = own" "value \<noteq> []" "ResolveSession e value w = (Inr (a, s), w1)"
    by (auto simp: verifier_VerifySession_def split: if_splits prod.splits sum.splits)
  define i0 where "i0 = \<lparr>ai_Subject = itoa_int (u_ID a), ai_Kind = SubjectUser, ai_Source = ''cookie:'' @ name,
    ai_Scopes = [], ai_SessionID = itoa_int (s_ID s)\<rparr>"
  note row = ResolveSession_returns [OF ran(3)]
  have "info = i0 \<and> (s_TwoFactorOK s \<or> \<not> second_factor_on e (wdb w) (u_ID a)) \<or> info = i0\<lparr>ai_Scopes := [ScopeTwoFactorPending]\<rparr>"
    using assms(1) ran row
    by (auto simp: verifier_VerifySession_def Let_def i0_def dest!: twoFactorEnabled_returns split: if_splits prod.splits sum.splits)
  then show "ai_Kind info = SubjectUser"
    and "\<exists>uid sid. ai_Subject info = itoa_int uid \<and> ai_SessionID info = itoa_int sid \<and>
      (\<not> HasScope info ScopeTwoFactorPending \<longrightarrow> session_of e (wdb w) req own uid)"
    using row ran(1,2) assms(2) by (auto simp: i0_def HasScope_def session_of_def)
qed

lemma verified_token:
  assumes "fst (verifier_VerifyToken e token source w) = Some info" and "token = fst (AuthToken req)"
  shows "ai_Kind info = SubjectUser \<and> ai_SessionID info = []
    \<and> (\<exists>uid. ai_Subject info = itoa_int uid \<and> token_of e (wdb w) req uid)"
proof -
  from assms(1) obtain a w1 where ran: "AuthenticateToken e token w = (Inr a, w1)"
    "t_OwnerType (auth_Token a) = OwnerUser"
    "ai_Kind info = SubjectUser" "ai_SessionID info = []" "ai_Subject info = itoa_int (t_OwnerID (auth_Token a))"
    by (auto simp: verifier_VerifyToken_def split: if_splits prod.splits sum.splits)
  from AuthenticateToken_returns [OF ran(1)] ran assms(2) show ?thesis by (fastforce simp: token_of_def)
qed

lemma itoa_int_nonempty [simp]: "itoa_int n \<noteq> []" "[] \<noteq> itoa_int n"
proof -
  show "itoa_int n \<noteq> []" by (simp add: itoa_int_def)
  then show "[] \<noteq> itoa_int n" by (rule not_sym)
qed

text \<open>
  C30: Nobody is a caller without a live credential. Where the stage verifies the session cookie of the handler, a
  request that passes it and the guard of the handlers speaks for the user of the guard's answer: either through its
  cookie, which is a stored session, not expired, of an active account, whose second factor was answered or is not
  on, or through its token, which is stored, belongs to that user, and is neither revoked nor expired; and only
  the session counts as one.\<close>

theorem callers_have_credentials:
  assumes "Auth \<lparr>auth_Verifier = Some (NewVerifier e own w), auth_SessionCookieNames = [own], auth_IsPublicPath = public\<rparr> req = Inr req'"
    and "req_auth req = None" and "requireUser req' = Inr c"
  shows "caller_UserID c > 0 \<and> (if caller_Token c then token_of e (wdb w) req (caller_UserID c)
      else session_of e (wdb w) req own (caller_UserID c))"
proof -
  let ?opts = "\<lparr>auth_Verifier = Some (NewVerifier e own w), auth_SessionCookieNames = [own], auth_IsPublicPath = public\<rparr>"
  obtain info where info: "req_auth req' = Some info"
    and c: "ai_Kind info = SubjectUser \<or> ai_Kind info = SubjectService"
    "ParseInt64 (ai_Subject info) = Some (caller_UserID c)" "caller_UserID c > 0"
    "caller_Token c \<longleftrightarrow> ai_SessionID info = []" "\<not> HasScope info ScopeTwoFactorPending"
    using assms(3) by (auto simp: requireUser_def currentUser_def split: option.splits if_splits)
  have "resolveIdentity ?opts req = Some info"
    using assms(1,2) info by (auto simp: Auth_def split: option.splits if_splits)
  then consider (cookie) name val where "req_Cookie req name = Some val" "fst (verifier_VerifySession e own name val w) = Some info"
    | (token) "fst (verifier_VerifyToken e (fst (AuthToken req)) (snd (AuthToken req)) w) = Some info"
    by (auto simp: resolveIdentity_def NewVerifier_def Let_def split: option.splits prod.splits if_splits)
  then show ?thesis
  proof cases
    case cookie
    from verified_session(2) [OF cookie(2,1)] c show ?thesis by (auto dest: parsed_subject)
  next
    case token
    from verified_token [OF token refl] c show ?thesis by (auto dest: parsed_subject)
  qed
qed

definition with_token :: "Http_Request.request" where
  "with_token = with_headers (plain_request ''GET'' ''/api/v1/users'') [(''X-API-Key'', ''usr_bob'')]"

lemma with_token_token: "AuthToken with_token = (''usr_bob'', ''X-API-Key'')"
proof -
  have "TrimSpace ''usr_bob'' = ''usr_bob''" by (rule TrimSpace_plain; simp add: plain_byte_def byte_def)
  then show ?thesis
    by (simp add: AuthToken_def authorizationToken_def with_token_def with_headers_def plain_request_def
        HeaderAuthorization_def Cut_def Let_def tokenHeaders_def)
qed

lemma pending_not_permission: "ScopeTwoFactorPending \<notin> set (Permissions role)"
  by (auto simp: ScopeTwoFactorPending_def Permissions_def perm_defs)

theorem callers_have_credentials_witness:
  "\<exists>req' c. Auth \<lparr>auth_Verifier = Some (NewVerifier demo_env ''user_session'' demo_world),
       auth_SessionCookieNames = [''user_session''], auth_IsPublicPath = None\<rparr> with_token = Inr req'
     \<and> requireUser req' = Inr c \<and> caller_UserID c = 2 \<and> token_of demo_env demo_db with_token 2"
proof -
  let ?v = "NewVerifier demo_env ''user_session'' demo_world"
  let ?opts = "\<lparr>auth_Verifier = Some ?v, auth_SessionCookieNames = [''user_session''], auth_IsPublicPath = None\<rparr>"
  obtain a w' where "AuthenticateToken demo_env ''usr_bob'' demo_world = (Inr a, w')" "auth_Token a = demo_token"
    using demo_authenticate_run by blast
  define info where "info = \<lparr>ai_Subject = itoa_int 2, ai_Kind = SubjectUser, ai_Source = ''X-API-Key'',
      ai_Scopes = Permissions (auth_Role a), ai_SessionID = []\<rparr>"
  have verified: "VerifyToken ?v ''usr_bob'' ''X-API-Key'' = Some info"
    using \<open>AuthenticateToken demo_env _ demo_world = _\<close> \<open>auth_Token a = demo_token\<close>
    by (simp add: NewVerifier_def verifier_VerifyToken_def demo_token_def info_def)
  have scopes: "ScopeTwoFactorPending \<notin> set (ai_Scopes info)"
    by (simp add: info_def pending_not_permission)
  define req' where "req' = with_token\<lparr>req_auth := Some info\<rparr>"
  have "session_identity ?v with_token [''user_session''] = None"
    by (simp add: with_token_def with_headers_def plain_request_def Let_def)
  then have passed: "Auth ?opts with_token = Inr req'"
    using verified by (simp add: Auth_def resolveIdentity_def with_token_token req'_def del: session_identity.simps)
  have "ParseInt64 (itoa_int 2) = Some 2" by (simp add: itoa_int_def ParseInt64_itoa)
  then have guard: "requireUser req' = Inr \<lparr>caller_UserID = 2, caller_Token = True, caller_Pending = False\<rparr>"
    using scopes by (simp add: requireUser_def currentUser_def req'_def HasScope_def info_def)
  have "req_auth with_token = None" by (simp add: with_token_def with_headers_def plain_request_def)
  from callers_have_credentials [OF passed this guard] show ?thesis using passed guard by auto
qed

section \<open>What a stranger learns\<close>

lemma AccessBySlug_fails: "AccessBySlug e slug uid w = (Inl x, w') \<Longrightarrow> x = ErrNotFound"
  by (auto simp: AccessBySlug_def call_def try_call_def check_def fail_def ok_def split: sum.splits prod.splits)

text \<open>
  Over HTTP a caller learns nothing about an organization it is no member of. Whatever the database does, the
  scope of an organization route is refused with the envelope of a missing caller, of an owed second factor, or
  with one and the same 404, for a slug nobody has, for an organization of others and for a failing database alike; and
  no envelope of the translation carries the text of an internal error.\<close>

theorem refusals_tell_nothing:
  "fst (orgScope e slug req w) \<in>
      Inl ` {SendErrorCode CodeUnauthorized, SendErrorCode CodeTwoFactorRequired, SendErrorCode CodeNotFound} \<union> range Inr
   \<and> SendError (translate (LibError text)) = SendErrorCode CodeServerError
   \<and> resp_Status (SendError (translate x)) = HTTPStatus (resp_Error (SendError (translate x)))"
proof (intro conjI)
  show "fst (orgScope e slug req w) \<in>
      Inl ` {SendErrorCode CodeUnauthorized, SendErrorCode CodeTwoFactorRequired, SendErrorCode CodeNotFound} \<union> range Inr"
    by (auto simp: orgScope_def requireUser_def SendErrorCode_def [of CodeNotFound] split: sum.splits prod.splits option.splits if_splits
        dest: AccessBySlug_fails)
qed (simp_all add: SendErrorCode_def SendError_def Wrap_def New_error_def, cases x, simp_all add: Newf_def WithDetails_def New_error_def Wrap_def SendError_def)

end
