(* ===== verification/Config_Values.thy ===== *)
theory Config_Values
  imports Go_Path Go_Duration Go_Encoding Go_Regex
begin

text \<open>
  The scalar values of the configuration (\<^verbatim>\<open>src/config\<close>): durations and byte sizes (\<^verbatim>\<open>value.go\<close>), booleans
  (\<^verbatim>\<open>boolean.go\<close>), paths (\<^verbatim>\<open>path.go\<close>), the sets of accepted words (\<^verbatim>\<open>schema.go\<close>) and the policies of log
  files (\<^verbatim>\<open>validate.go\<close>).
\<close>

section \<open>Environment\<close>

text \<open>
  What the package asks of the libraries and the machine. A \<open>float64\<close> is a rational, an infinity or
  not a number; the value of a conversion to \<open>int64\<close> that does not fit is up to the implementation.
\<close>

datatype float64 = FFin rat | FInf bool | FNaN

record config_env =
  ParseFloat :: "string \<Rightarrow> float64 option"
  int64_overflow :: "float64 \<Rightarrow> int"
  LoadLocation :: "string \<Rightarrow> bool"
  ParseIP :: "string \<Rightarrow> bool"
  ParseCIDR :: "string \<Rightarrow> bool"
  regexp_Compile :: "string \<Rightarrow> bool"
  rand_Intn :: "nat \<Rightarrow> int \<Rightarrow> int"
  isPortFree :: "nat \<Rightarrow> int \<Rightarrow> bool"
  ephemeralPort :: "int option"
  Getenv :: "string \<Rightarrow> string"

text \<open>\<open>f64\<close> rounds what is not negative; a sign is kept. Arithmetic on what is not finite stays so.\<close>

definition round64 :: "rat \<Rightarrow> rat" where
  "round64 x = (if x < 0 then - f64 (- x) else f64 x)"

definition float_times :: "float64 \<Rightarrow> rat \<Rightarrow> float64" where
  "float_times x scale = (case x of FFin r \<Rightarrow> FFin (round64 (r * scale)) | _ \<Rightarrow> x)"

definition trunc64 :: "rat \<Rightarrow> int" where
  "trunc64 r = (if r < 0 then - \<lfloor>- r\<rfloor> else \<lfloor>r\<rfloor>)"

definition to_int64 :: "config_env \<Rightarrow> float64 \<Rightarrow> int" where
  "to_int64 env x =
     (case x of
        FFin r \<Rightarrow> if - (2 ^ 63) \<le> trunc64 r \<and> trunc64 r < 2 ^ 63 then trunc64 r else int64_overflow env x
      | _ \<Rightarrow> int64_overflow env x)"

definition float_negative :: "float64 \<Rightarrow> bool" where
  "float_negative x = (case x of FFin r \<Rightarrow> r < 0 | FInf neg \<Rightarrow> neg | FNaN \<Rightarrow> False)"

text \<open>A product of two 64-bit integers wraps around.\<close>

definition wrap64 :: "int \<Rightarrow> int" where
  "wrap64 n = (n + 2 ^ 63) mod 2 ^ 64 - 2 ^ 63"

section \<open>Durations\<close>

definition dayUnits :: "(string \<times> int) list" where
  "dayUnits = [(''y'', 365 * 24 * 3600 * second), (''w'', 7 * 24 * 3600 * second), (''d'', 24 * 3600 * second)]"

fun day_units_loop :: "config_env \<Rightarrow> string \<Rightarrow> (string \<times> int) list \<Rightarrow> int option" where
  "day_units_loop env s [] = None"
| "day_units_loop env s ((suf, unit) # us) =
     (if \<not> HasSuffix s suf then day_units_loop env s us
      else
        let head = TrimSuffix s suf
        in if head = [] then day_units_loop env s us
           else case ParseFloat env head of
                  None \<Rightarrow> day_units_loop env s us
                | Some n \<Rightarrow> Some (to_int64 env (float_times n (of_int unit))))"

definition config_ParseDuration :: "config_env \<Rightarrow> string \<Rightarrow> int option" where
  "config_ParseDuration env raw =
     (let s = TrimSpace raw
      in if s = [] then None
         else case ParseInt64 s of
                Some n \<Rightarrow> Some (wrap64 (n * second))
              | None \<Rightarrow>
                  (case day_units_loop env s dayUnits of
                     Some d \<Rightarrow> Some d
                   | None \<Rightarrow> ParseDuration s))"

text \<open>What \<open>yaml\<close> hands to \<open>UnmarshalYAML\<close>: a scalar, or something that is none.\<close>

datatype scalar = YInt int | YFloat float64 | YString string | YOther

definition Duration_UnmarshalYAML :: "config_env \<Rightarrow> scalar \<Rightarrow> int option" where
  "Duration_UnmarshalYAML env raw =
     (case raw of
        YInt v \<Rightarrow> Some (wrap64 (v * second))
      | YFloat v \<Rightarrow> Some (to_int64 env (float_times v (of_int second)))
      | YString v \<Rightarrow> config_ParseDuration env v
      | YOther \<Rightarrow> None)"

section \<open>Byte sizes\<close>

fun size_string_loop :: "int \<Rightarrow> (string \<times> int) list \<Rightarrow> string" where
  "size_string_loop n [] = itoa (nat n) @ ''B''"
| "size_string_loop n ((suf, scale) # us) =
     (if n \<ge> scale \<and> n mod scale = 0 then itoa (nat (n div scale)) @ suf else size_string_loop n us)"

definition ByteSize_String :: "int \<Rightarrow> string" where
  "ByteSize_String n =
     (if n < 0 then ''0B'' else size_string_loop n [(''GB'', 2 ^ 30), (''MB'', 2 ^ 20), (''KB'', 2 ^ 10)])"

definition byteUnits :: "(string \<times> int) list" where
  "byteUnits =
     [(''TB'', 2 ^ 40), (''GB'', 2 ^ 30), (''MB'', 2 ^ 20), (''KB'', 2 ^ 10),
      (''T'', 2 ^ 40), (''G'', 2 ^ 30), (''M'', 2 ^ 20), (''K'', 2 ^ 10), (''B'', 1)]"

text \<open>\<open>None\<close>: no unit applies. \<open>Some None\<close>: an error.\<close>

fun byte_units_loop :: "config_env \<Rightarrow> string \<Rightarrow> (string \<times> int) list \<Rightarrow> int option option" where
  "byte_units_loop env upper [] = None"
| "byte_units_loop env upper ((suf, scale) # us) =
     (if \<not> HasSuffix upper suf then byte_units_loop env upper us
      else
        let head = TrimSpace (TrimSuffix upper suf)
        in if head = [] then byte_units_loop env upper us
           else case ParseFloat env head of
                  None \<Rightarrow> Some None
                | Some n \<Rightarrow>
                    if float_negative n then Some None
                    else Some (Some (to_int64 env (float_times n (of_int scale)))))"

definition ParseByteSize :: "config_env \<Rightarrow> string \<Rightarrow> int option" where
  "ParseByteSize env raw =
     (let s = TrimSpace raw
      in if s = [] then None
         else
      let upper = ToUpper s
      in case byte_units_loop env upper byteUnits of
           Some result \<Rightarrow> result
         | None \<Rightarrow>
             (case ParseInt64 upper of
                None \<Rightarrow> None
              | Some n \<Rightarrow> if n < 0 then None else Some n))"

definition ByteSize_UnmarshalYAML :: "config_env \<Rightarrow> scalar \<Rightarrow> int option" where
  "ByteSize_UnmarshalYAML env raw =
     (case raw of
        YInt v \<Rightarrow> Some v
      | YFloat v \<Rightarrow> Some (to_int64 env v)
      | YString v \<Rightarrow> ParseByteSize env v
      | YOther \<Rightarrow> None)"

definition ByteSize_MarshalYAML :: "int \<Rightarrow> scalar" where
  "ByteSize_MarshalYAML b = YString (ByteSize_String b)"

section \<open>Booleans\<close>

definition truthyValues :: "string list" where
  "truthyValues = [''true'', ''yes'', ''on'', ''1'', ''enable'', ''enabled'']"

definition falseyValues :: "string list" where
  "falseyValues = [''false'', ''no'', ''off'', ''0'', ''disable'', ''disabled'', ''none'']"

definition IsTruthy :: "string \<Rightarrow> bool" where
  "IsTruthy s = (ToLower (TrimSpace s) \<in> set truthyValues)"

definition IsFalsey :: "string \<Rightarrow> bool" where
  "IsFalsey s = (ToLower (TrimSpace s) \<in> set falseyValues)"

text \<open>\<open>None\<close>: neither list has it.\<close>

definition ParseBool :: "string \<Rightarrow> bool option" where
  "ParseBool s =
     (let trimmed = ToLower (TrimSpace s)
      in if trimmed \<in> set truthyValues then Some True
         else if trimmed \<in> set falseyValues then Some False
         else None)"

section \<open>Paths\<close>

datatype path_error = ErrPathTraversal | ErrInvalidPath | ErrPathTooLong

definition MaxPathLength :: nat where "MaxPathLength = 2048"
definition MaxSegmentLength :: nat where "MaxSegmentLength = 64"

definition validPathSegment :: rx where
  "validPathSegment = RPlus (RCls [(97, 122), (48, 57), (95, 95), (45, 45)])"

definition TrimRight_byte :: "char \<Rightarrow> string \<Rightarrow> string" where
  "TrimRight_byte c s = rev (dropWhile (\<lambda>x. x = c) (rev s))"

definition Trim_byte :: "char \<Rightarrow> string \<Rightarrow> string" where
  "Trim_byte c s = TrimRight_byte c (dropWhile (\<lambda>x. x = c) s)"

definition NormalizePath :: "string \<Rightarrow> string" where
  "NormalizePath input =
     (if input = [] then []
      else
        let cleaned = Trim_byte (CHR ''/'') (path_Clean input)
        in if cleaned = ''.'' \<or> Contains cleaned ''..'' then [] else cleaned)"

definition ValidatePathSegment :: "string \<Rightarrow> path_error option" where
  "ValidatePathSegment segment =
     (if segment = [] then Some ErrInvalidPath
      else if segment = ''.'' \<or> segment = ''..'' then Some ErrPathTraversal
      else if length segment > MaxSegmentLength then Some ErrPathTooLong
      else if \<not> rx_match validPathSegment segment then Some ErrInvalidPath
      else None)"

fun validate_segments :: "string list \<Rightarrow> path_error option" where
  "validate_segments [] = None"
| "validate_segments (seg # segs) =
     (if seg = [] then validate_segments segs
      else case ValidatePathSegment seg of Some x \<Rightarrow> Some x | None \<Rightarrow> validate_segments segs)"

definition ValidatePath :: "string \<Rightarrow> path_error option" where
  "ValidatePath p =
     (if length p > MaxPathLength then Some ErrPathTooLong
      else if Contains p ''..'' then Some ErrPathTraversal
      else validate_segments (split_on (CHR ''/'') (Trim_byte (CHR ''/'') p)))"

definition SafePath :: "string \<Rightarrow> path_error + string" where
  "SafePath input =
     (case ValidatePath input of
        Some x \<Rightarrow> Inl x
      | None \<Rightarrow> Inr (NormalizePath input))"

section \<open>Words the settings accept\<close>

definition DatabaseDrivers :: "string list" where
  "DatabaseDrivers = [''sqlite'', ''libsql'', ''postgres'', ''mysql'', ''mssql'', ''mongodb'']"

definition DatabaseDriverAliases :: "(string \<times> string) list" where
  "DatabaseDriverAliases =
     [(''sqlite2'', ''sqlite''), (''sqlite3'', ''sqlite''), (''turso'', ''libsql''), (''pgsql'', ''postgres''),
      (''postgresql'', ''postgres''), (''mariadb'', ''mysql''), (''mongo'', ''mongodb'')]"

definition CacheTypes :: "string list" where "CacheTypes = [''none'', ''memory'', ''valkey'', ''redis'']"
definition LogLevels :: "string list" where "LogLevels = [''debug'', ''info'', ''warn'', ''error'']"
definition SMTPTLSModes :: "string list" where "SMTPTLSModes = [''auto'', ''starttls'', ''tls'', ''none'']"
definition AccountModes :: "string list" where "AccountModes = [''open'', ''invite'', ''admin_only'', ''disabled'']"
definition VisibilityPublic :: string where "VisibilityPublic = ''public''"
definition VisibilityPrivate :: string where "VisibilityPrivate = ''private''"
definition ProfileVisibilities :: "string list" where "ProfileVisibilities = [VisibilityPublic, VisibilityPrivate]"
definition OrgRoles :: "string list" where "OrgRoles = [''owner'', ''admin'', ''editor'', ''viewer'']"

definition NormalizeDatabaseDriver :: "string \<Rightarrow> string" where
  "NormalizeDatabaseDriver raw =
     (let name = ToLower (TrimSpace raw)
      in case map_of DatabaseDriverAliases name of Some canonical \<Rightarrow> canonical | None \<Rightarrow> name)"

definition isSMTPTLSMode :: "string \<Rightarrow> bool" where
  "isSMTPTLSMode v = list_ex (EqualFold v) SMTPTLSModes"

definition validAccessFormats :: "string list" where "validAccessFormats = [''apache'', ''nginx'', ''json'', ''custom'']"
definition validTextFormats :: "string list" where "validTextFormats = [''text'', ''json'', ''custom'']"
definition validSecurityFormats :: "string list" where
  "validSecurityFormats = [''fail2ban'', ''syslog'', ''cef'', ''json'', ''text'', ''custom'']"
definition validRotate :: "string list" where "validRotate = [''never'', ''daily'', ''weekly'', ''monthly'', ''yearly'']"
definition validSameSite :: "string list" where "validSameSite = [''strict'', ''lax'', ''none'']"
definition validSecure :: "string list" where "validSecure = [''auto'', ''true'', ''false'']"
definition validTLSVersions :: "string list" where "validTLSVersions = [''TLS1.2'', ''TLS1.3'']"
definition validACMEChallenges :: "string list" where "validACMEChallenges = [''http-01'', ''tls-alpn-01'', ''dns-01'']"
definition MinPasswordLength :: int where "MinPasswordLength = 8"

definition containsFold :: "string list \<Rightarrow> string \<Rightarrow> bool" where
  "containsFold list s = (let s = TrimSpace s in list_ex (\<lambda>v. EqualFold v s) list)"

definition isAlphaOnly :: "string \<Rightarrow> bool" where
  "isAlphaOnly s = (list_all (\<lambda>c. is_upper c \<or> is_lower c) s \<and> s \<noteq> [])"

definition IsRouteSegment :: "string \<Rightarrow> bool" where
  "IsRouteSegment s =
     (if s = [] \<or> HasPrefix s ''-'' \<or> HasSuffix s ''-'' then False
      else list_all (\<lambda>c. is_lower c \<or> is_digit c \<or> c = CHR ''-'') s)"

definition normalizeDomainList :: "string list \<Rightarrow> string list" where
  "normalizeDomainList list = filter (\<lambda>entry. entry \<noteq> []) (map (\<lambda>entry. ToLower (TrimSpace entry)) list)"

definition NormalizeBaseURL :: "string \<Rightarrow> string" where
  "NormalizeBaseURL raw =
     (let raw = TrimSpace raw
      in if raw = [] \<or> raw = ''/'' then ''/''
         else
      let rooted = (if \<not> HasPrefix raw ''/'' then ''/'' @ raw else raw);
          trimmed = TrimRight_byte (CHR ''/'') rooted
      in if trimmed = [] then ''/'' else trimmed)"

definition isPlausibleHostname :: "string \<Rightarrow> bool" where
  "isPlausibleHostname s =
     (if s = [] \<or> length s > 253 \<or> HasPrefix s ''-'' then False
      else list_all
        (\<lambda>label. label \<noteq> [] \<and> length label \<le> 63
           \<and> list_all (\<lambda>c. is_lower c \<or> is_upper c \<or> is_digit c \<or> c = CHR ''-'') label)
        (split_on (CHR ''.'') s))"

section \<open>Log policies\<close>

definition positive_size :: "config_env \<Rightarrow> string \<Rightarrow> bool" where
  "positive_size env part = (case ParseByteSize env part of None \<Rightarrow> False | Some n \<Rightarrow> n > 0)"

definition ValidRotate :: "config_env \<Rightarrow> string \<Rightarrow> bool" where
  "ValidRotate env raw =
     (let policy = ToLower (TrimSpace raw)
      in if policy = [] then False
         else list_all
           (\<lambda>part. let part = TrimSpace part in part \<noteq> [] \<and> (part \<in> set validRotate \<or> positive_size env part))
           (split_on (CHR '','') policy))"

definition ValidKeep :: "string \<Rightarrow> bool" where
  "ValidKeep raw =
     (let policy = ToLower (TrimSpace raw)
      in if policy = [] then False
         else if policy = ''none'' \<or> policy = ''forever'' then True
         else
      let head = (if last policy \<in> {CHR ''d'', CHR ''w'', CHR ''m''} then butlast policy else policy)
      in if head = [] then False else list_all is_digit head)"

fun rotation_interval_loop :: "string list \<Rightarrow> int option" where
  "rotation_interval_loop [] = None"
| "rotation_interval_loop (part # parts) =
     (let p = TrimSpace part
      in if p = ''daily'' then Some (24 * 3600 * second)
         else if p = ''weekly'' then Some (7 * 24 * 3600 * second)
         else if p = ''monthly'' then Some (30 * 24 * 3600 * second)
         else if p = ''yearly'' then Some (365 * 24 * 3600 * second)
         else rotation_interval_loop parts)"

definition LogRotationInterval :: "string \<Rightarrow> int option" where
  "LogRotationInterval policy = rotation_interval_loop (split_on (CHR '','') (ToLower policy))"

fun rotation_size_loop :: "config_env \<Rightarrow> string list \<Rightarrow> int option" where
  "rotation_size_loop env [] = None"
| "rotation_size_loop env (part # parts) =
     (let p = TrimSpace part
      in if p = [] \<or> p \<in> set validRotate then rotation_size_loop env parts
         else case ParseByteSize env p of
                None \<Rightarrow> rotation_size_loop env parts
              | Some n \<Rightarrow> if n > 0 then Some n else rotation_size_loop env parts)"

definition LogRotationSize :: "config_env \<Rightarrow> string \<Rightarrow> int option" where
  "LogRotationSize env policy = rotation_size_loop env (split_on (CHR '','') (ToLower policy))"

section \<open>Ports\<close>

definition defaultPortRangeLow :: int where "defaultPortRangeLow = 64000"
definition defaultPortRangeHigh :: int where "defaultPortRangeHigh = 64999"

text \<open>The remaining attempts and the number of the next one.\<close>

fun port_loop :: "config_env \<Rightarrow> int \<Rightarrow> nat \<Rightarrow> nat \<Rightarrow> int option" where
  "port_loop env width 0 attempt = None"
| "port_loop env width (Suc k) attempt =
     (let port = defaultPortRangeLow + rand_Intn env attempt width
      in if isPortFree env attempt port then Some port else port_loop env width k (attempt + 1))"

definition RandomUnusedPort :: "config_env \<Rightarrow> int" where
  "RandomUnusedPort env =
     (let width = defaultPortRangeHigh - defaultPortRangeLow + 1
      in case port_loop env width (nat (width * 2)) 0 of
           Some port \<Rightarrow> port
         | None \<Rightarrow> (case ephemeralPort env of Some port \<Rightarrow> port | None \<Rightarrow> defaultPortRangeLow))"

end
