(* ===== verification/Config_Types.thy ===== *)
theory Config_Types
  imports Config_Values Http_Chain Effects Backup_Files
begin

text \<open>
  The document of the settings (\<^verbatim>\<open>src/config/config.go\<close>): one record per structure, in the order of the
  source. The settings of accounts (\<open>Effects\<close>), of the rate limiter (\<open>Http_Chain\<close>) and of the retention of
  backups (\<open>Backup_Files\<close>) are the records the code that reads them is modelled on. A list or map the code
  compares with \<^verbatim>\<open>nil\<close> is an option, durations are nanoseconds, byte sizes bytes.
\<close>

section \<open>Organizations, domains and notifications\<close>

record OrgCreation =
  oc_Mode :: string
  oc_MaxPerUser :: int

record OrgProfile =
  op_DefaultVisibility :: string

record OrgMembers =
  om_DefaultRole :: string
  om_AllowInvites :: bool
  om_Require2FA :: bool

record Orgs =
  o_Enabled :: bool
  o_Creation :: OrgCreation
  o_Profile :: OrgProfile
  o_Members :: OrgMembers

record CustomDomains =
  cd_Enabled :: bool
  cd_MaxDomainsPerUser :: int
  cd_MaxDomainsPerOrg :: int
  cd_RequireSSL :: bool
  cd_AllowApex :: bool
  cd_AllowSubdomain :: bool
  cd_AllowWildcard :: bool
  cd_VerificationTTL :: int
  cd_SSLRenewalDays :: int
  cd_Reserved :: "string list"
  cd_BlockedPatterns :: "string list"

record Features =
  f_CustomDomains :: CustomDomains

record NotificationsWebUI =
  wu_Position :: string
  wu_Duration :: int

record SMTPConfig =
  smtp_Host :: string
  smtp_Port :: int
  smtp_Username :: string
  smtp_Password :: string
  smtp_TLS :: string

record EmailFrom =
  from_Name :: string
  from_Email :: string

record NotificationsEmail =
  ne_SMTP :: SMTPConfig
  ne_From :: EmailFrom
  ne_Events :: "(string \<rightharpoonup> bool) option"

record Notifications =
  n_WebUI :: NotificationsWebUI
  n_Email :: NotificationsEmail

section \<open>The listener and the requests\<close>

record LetsEncrypt =
  le_Enabled :: bool
  le_Email :: string
  le_Challenge :: string
  le_Staging :: bool

record SSL =
  ssl_Enabled :: bool
  ssl_Port :: int
  ssl_Cert :: string
  ssl_Key :: string
  ssl_MinVersion :: string
  ssl_LetsEncrypt :: LetsEncrypt

record CSRF_config =
  csrf_Enabled :: bool
  csrf_ExemptPaths :: "string list option"

record HSTS =
  hsts_Enabled :: bool
  hsts_MaxAge :: int
  hsts_IncludeSubdomains :: bool
  hsts_Preload :: bool

record Web =
  web_CORS :: string
  web_CSRF :: CSRF_config
  web_HSTS :: HSTS

record Limits =
  l_MaxBodySize :: int
  l_ReadTimeout :: int
  l_WriteTimeout :: int
  l_IdleTimeout :: int

record Compression =
  comp_Enabled :: bool
  comp_Level :: int
  comp_Types :: "string list"

record TrustedProxies =
  tp_Additional :: "string list"

record SessionScope =
  ss_CookieName :: string
  ss_MaxAge :: int
  ss_IdleTimeout :: int

record Session_config =
  sess_Admin :: SessionScope
  sess_User :: SessionScope
  sess_ExtendOnActivity :: bool
  sess_Secure :: string
  sess_HTTPOnly :: bool
  sess_SameSite :: string

record I18n =
  i18n_Enabled :: bool
  i18n_DefaultLanguage :: string
  i18n_Supported :: "string list"
  i18n_FallbackLanguage :: string
  i18n_CookieName :: string
  i18n_CookieMaxAge :: int

section \<open>Storage and logs\<close>

record Cache_config =
  ca_Type :: string
  ca_URL :: string
  ca_Host :: string
  ca_Port :: int
  ca_Username :: string
  ca_Password :: string
  ca_DB :: int
  ca_TLS :: bool
  ca_TLSSkipVerify :: bool
  ca_PoolSize :: int
  ca_MinIdle :: int
  ca_Timeout :: int
  ca_Prefix :: string
  ca_TTL :: int
  ca_Cluster :: bool
  ca_ClusterNodes :: "string list"

record LogFile =
  lf_Filename :: string
  lf_Format :: string
  lf_Custom :: string
  lf_Rotate :: string
  lf_Keep :: string

record AccessLog =
  al_LogFile :: LogFile
  al_LogHealthChecks :: bool

record AuditLog =
  aud_Enabled :: bool
  aud_LogFile :: LogFile
  aud_Compress :: bool

record DebugLog =
  dbg_Enabled :: bool
  dbg_LogFile :: LogFile

record Logs =
  log_Level :: string
  log_Access :: AccessLog
  log_Server :: LogFile
  log_Error :: LogFile
  log_Audit :: AuditLog
  log_Security :: LogFile
  log_Debug :: DebugLog

record Database =
  db_Type :: string
  db_URL :: string
  db_Host :: string
  db_Port :: int
  db_Name :: string
  db_User :: string
  db_Password :: string
  db_SSLMode :: string
  db_MaxOpenConns :: int
  db_MaxIdleConns :: int
  db_ConnMaxLifetime :: int
  db_ConnMaxIdleTime :: int

record Security =
  sec_EncryptionKey :: string
  sec_EncryptionKeyVersion :: int

record HealthzRoot =
  hr_Enabled :: bool

record Healthz =
  hz_Root :: HealthzRoot

section \<open>Tasks, measurements, backups and updates\<close>

text \<open>\<open>BackupRetention\<close> with its last field, which the sweep gets as a number of bytes.\<close>

record TaskRetention = BackupRetention +
  MaxTotalSize :: string

record SchedulerTask =
  task_Schedule :: string
  task_Enabled :: bool
  task_RetryOnFail :: bool
  task_RetryDelay :: int
  task_Verify :: bool
  task_RestartOnFail :: bool
  task_Retention :: TaskRetention

record Scheduler_config =
  sch_Timezone :: string
  sch_CatchUpWindow :: int
  sch_Tasks :: "(string \<rightharpoonup> SchedulerTask) option"

record GeoIPDatabases =
  geo_ASN :: bool
  geo_Country :: bool
  geo_City :: bool

record GeoIP_config =
  g_Enabled :: bool
  g_Dir :: string
  g_DenyCountries :: "string list"
  g_AllowCountries :: "string list"
  g_Databases :: GeoIPDatabases

record MetricsRoot =
  mr_Enabled :: bool

record MetricsTokens =
  mt_Prometheus :: string
  mt_Grafana :: string
  mt_Loki :: string

record MetricsAuth =
  ma_AllowUnauthenticated :: bool
  ma_Tokens :: MetricsTokens

record MetricsLoki =
  ml_MaxEntries :: int
  ml_MaxAge :: int

record Metrics =
  m_Enabled :: bool
  m_Root :: MetricsRoot
  m_Auth :: MetricsAuth
  m_IncludeSystem :: bool
  m_IncludeRuntime :: bool
  m_Loki :: MetricsLoki
  m_DurationBuckets :: "rat list"
  m_SizeBuckets :: "rat list"

record BackupEncryption =
  be_Enabled :: bool
  be_Password :: string
  be_PasswordHint :: string

record BackupCompliance =
  bc_Enabled :: bool

record Backup =
  b_Encryption :: BackupEncryption
  b_Compliance :: BackupCompliance
  b_DiskThreshold :: int

record Update =
  up_Branch :: string
  up_AutoInstall :: bool
  up_DeferDays :: int

section \<open>Contacts and overlay networks\<close>

record ContactWebhook =
  wh_Type :: string
  wh_URL :: string
  wh_Enabled :: bool

record ContactRole =
  cr_Email :: string
  cr_Webhooks :: "ContactWebhook list"

record Contact =
  con_Admin :: ContactRole
  con_Security :: ContactRole
  con_Abuse :: ContactRole
  con_Support :: ContactRole

record Tor =
  tor_OnionAddress :: string
  tor_ContactEmail :: string
  tor_Binary :: string
  tor_UseNetwork :: bool
  tor_AllowUserPreference :: bool
  tor_MaxCircuits :: int
  tor_CircuitTimeout :: int
  tor_BootstrapTimeout :: int
  tor_SafeLogging :: bool
  tor_MaxStreamsPerCircuit :: int
  tor_CloseCircuitOnStreamLimit :: bool
  tor_BandwidthRate :: string
  tor_BandwidthBurst :: string
  tor_MaxMonthlyBandwidth :: string
  tor_NumIntroPoints :: int
  tor_VirtualPort :: int

record I2P =
  i2p_Enabled :: bool
  i2p_Binary :: string
  i2p_SAMAddress :: string
  i2p_VirtualPort :: int
  i2p_InboundLength :: int
  i2p_OutboundLength :: int
  i2p_InboundQuantity :: int
  i2p_OutboundQuantity :: int
  i2p_SignatureType :: int
  i2p_BootstrapTimeout :: int

section \<open>The document\<close>

record Server =
  Mode :: string
  Listen :: string
  Port :: int
  BaseURL :: string
  srv_ApplicationName :: string
  ApplicationTagline :: string
  AdminPath :: string
  APIVersion :: string
  srv_SSL :: SSL
  srv_Web :: Web
  srv_Limits :: Limits
  srv_Compression :: Compression
  srv_TrustedProxies :: TrustedProxies
  srv_Session :: Session_config
  srv_RateLimit :: RateLimit_config
  srv_I18n :: I18n
  srv_Cache :: Cache_config
  srv_Logs :: Logs
  srv_Database :: Database
  srv_Security :: Security
  srv_Healthz :: Healthz
  srv_Contact :: Contact
  srv_Users :: Users_config
  srv_Orgs :: Orgs
  srv_Features :: Features
  srv_Notifications :: Notifications
  srv_Scheduler :: Scheduler_config
  srv_GeoIP :: GeoIP_config
  srv_I2P :: I2P
  srv_Metrics :: Metrics
  srv_Backup :: Backup
  srv_Update :: Update

text \<open>A warning is the format and the values that \<open>warnf\<close> hands to \<open>fmt.Sprintf\<close>.\<close>

datatype arg = AStr string | AInt int | ADur int | ASize int

type_synonym warning = "string \<times> arg list"

record Config =
  cfg_Server :: Server
  cfg_Tor :: Tor
  cfg_path :: string
  cfg_warnings :: "warning list"

definition warnf :: "string \<Rightarrow> arg list \<Rightarrow> Config \<Rightarrow> Config" where
  "warnf format args c = c\<lparr>cfg_warnings := cfg_warnings c @ [(format, args)]\<rparr>"

definition Warnings :: "Config \<Rightarrow> warning list" where
  "Warnings c = cfg_warnings c"

section \<open>Paths and ports\<close>

definition DefaultAPIVersion :: string where "DefaultAPIVersion = ''v1''"
definition DefaultAdminPath :: string where "DefaultAdminPath = ''administration''"

definition APIBasePath :: "Config \<Rightarrow> string" where
  "APIBasePath c =
     (let v = APIVersion (cfg_Server c) in ''/api/'' @ (if v = [] then DefaultAPIVersion else v))"

definition AdminBasePath :: "Config \<Rightarrow> string" where
  "AdminBasePath c =
     (let p = AdminPath (cfg_Server c) in ''/server/'' @ (if p = [] then DefaultAdminPath else p))"

definition HTTPSPort :: "Config \<Rightarrow> int" where
  "HTTPSPort c =
     (let s = cfg_Server c
      in if ssl_Port (srv_SSL s) > 0 then ssl_Port (srv_SSL s)
         else if Port s = 443 \<or> ssl_Enabled (srv_SSL s) then Port s
         else 0)"

definition HTTPPort :: "Config \<Rightarrow> int" where
  "HTTPPort c =
     (let s = cfg_Server c
      in if ssl_Port (srv_SSL s) > 0 then Port s
         else if Port s = 443 \<or> ssl_Enabled (srv_SSL s) then 0
         else Port s)"

definition SessionSecure :: "Config \<Rightarrow> bool \<Rightarrow> bool" where
  "SessionSecure c overTLS =
     (let secure = sess_Secure (srv_Session (cfg_Server c))
      in if secure = ''true'' then True else if secure = ''false'' then False else overTLS)"

text \<open>The generator is the cipher of the security package; its failure has the text it reports.\<close>

definition EnsureEncryptionKey :: "string + string \<Rightarrow> Config \<Rightarrow> (string + bool) \<times> Config" where
  "EnsureEncryptionKey generated c =
     (let sec = srv_Security (cfg_Server c)
      in if TrimSpace (sec_EncryptionKey sec) \<noteq> [] then (Inr False, c)
         else case generated of
                Inl x \<Rightarrow> (Inl x, c)
              | Inr key \<Rightarrow>
                  (Inr True,
                   c\<lparr>cfg_Server := (cfg_Server c)\<lparr>srv_Security := sec
                     \<lparr>sec_EncryptionKey := key,
                      sec_EncryptionKeyVersion :=
                        (if sec_EncryptionKeyVersion sec < 1 then 1 else sec_EncryptionKeyVersion sec)\<rparr>\<rparr>\<rparr>))"

end
