(* ===== verification/Http_Api.thy ===== *)
theory Http_Api
  imports Http_Identity Config_Types
begin

text \<open>
  The REST handlers of accounts, organizations and domains: \<^verbatim>\<open>src/server/handler/handler.go\<close> (bodies, path
  values, cookies, envelopes), \<^verbatim>\<open>api.go\<close>, \<^verbatim>\<open>org.go\<close> and \<^verbatim>\<open>domain.go\<close>. A handler is a function of the call and of the
  world to the reply and the world after it; every guard and early return is a branch.
\<close>

section \<open>Values on the wire\<close>

text \<open>The kinds of \<^verbatim>\<open>src/swagger/annotations.go\<close>, also the types of the fields of a body.\<close>

datatype Kind = KindString | KindInt | KindFloat | KindBool | KindTime | KindJSON | KindObject

datatype json =
    JStr string
  | JInt int
  | JBool bool
  | JTime int
  | JList "json list"
  | JObj "(string \<times> json) list"

text \<open>A field with \<open>omitempty\<close> is left out when it is empty; a time never is.\<close>

definition opt_str :: "string \<Rightarrow> string \<Rightarrow> (string \<times> json) list" where
  "opt_str name s = (if s = [] then [] else [(name, JStr s)])"

definition opt_int :: "string \<Rightarrow> int \<Rightarrow> (string \<times> json) list" where
  "opt_int name n = (if n = 0 then [] else [(name, JInt n)])"

definition JMoment :: "int option \<Rightarrow> json" where
  "JMoment t = JTime (case t of None \<Rightarrow> zero_time | Some x \<Rightarrow> x)"

section \<open>Handler and call\<close>

text \<open>
  The JSON decoder is a parameter: the fields of a Go struct with their kinds, and the text, give an error or
  the fields the text names. \<open>h_clientIP\<close> is the configured resolver or \<open>remoteHost\<close>.
\<close>

record Handler =
  h_svc :: env
  h_config :: Config
  h_clientIP :: "Http_Request.request \<Rightarrow> string"
  DecodeJSON :: "(string \<times> Kind) list \<Rightarrow> string \<Rightarrow> (string \<Rightarrow> json option) option"

text \<open>
  A call is a request with the values of the path, the text of the body, the form that an earlier stage parsed
  (which takes the multipart encoding apart too), the url-encoded fields of the body as the library
  reads them, and whether the query parses.
\<close>

record api_call =
  ac_Request :: Http_Request.request
  PathValue :: "string \<Rightarrow> string"
  ac_Body :: string
  ac_Parsed :: "(string \<Rightarrow> string) option"
  ac_Encoded :: "(string \<Rightarrow> string) option"
  ac_QueryOK :: bool

record Cookie =
  ck_Name :: string
  ck_Value :: string
  ck_MaxAge :: int
  ck_HTTPOnly :: bool
  ck_Secure :: bool
  ck_SameSite :: string

record reply =
  rp_Cookie :: "Cookie option"
  rp_Result :: "Response + json"

type_synonym api = "users_db world \<Rightarrow> reply \<times> users_db world"

definition refuse :: "Response \<Rightarrow> api" where
  "refuse x w = (\<lparr>rp_Cookie = None, rp_Result = Inl x\<rparr>, w)"

definition sendOK :: "json \<Rightarrow> api" where
  "sendOK data w = (\<lparr>rp_Cookie = None, rp_Result = Inr data\<rparr>, w)"

definition sendErr :: "err \<Rightarrow> api" where
  "sendErr x = refuse (SendError (translate x))"

definition badRequest :: api where
  "badRequest = refuse (SendErrorCode CodeBadRequest)"

definition notFound :: api where
  "notFound = refuse (SendErrorCode CodeNotFound)"

text \<open>\<open>result, err := op; if err != nil { sendErr; return }\<close>, and the guards as continuations.\<close>

definition served :: "'a uaction \<Rightarrow> ('a \<Rightarrow> api) \<Rightarrow> api" where
  "served m k w = (case m w of (Inl x, w') \<Rightarrow> sendErr x w' | (Inr a, w') \<Rightarrow> k a w')"

definition as_user :: "api_call \<Rightarrow> (caller \<Rightarrow> api) \<Rightarrow> api" where
  "as_user c k = (case requireUser (ac_Request c) of Inl x \<Rightarrow> refuse x | Inr u \<Rightarrow> k u)"

definition as_session :: "api_call \<Rightarrow> (caller \<Rightarrow> api) \<Rightarrow> api" where
  "as_session c k = (case requireSession (ac_Request c) of Inl x \<Rightarrow> refuse x | Inr u \<Rightarrow> k u)"

definition in_org :: "Handler \<Rightarrow> api_call \<Rightarrow> (caller \<Rightarrow> OrgAccess \<Rightarrow> api) \<Rightarrow> api" where
  "in_org h c k w =
     (case orgScope (h_svc h) (PathValue c ''slug'') (ac_Request c) w of
        (Inl x, w') \<Rightarrow> refuse x w'
      | (Inr (u, access), w') \<Rightarrow> k u access w')"

definition pathID :: "api_call \<Rightarrow> string \<Rightarrow> int option" where
  "pathID c name =
     (case ParseInt64 (PathValue c name) of None \<Rightarrow> None | Some n \<Rightarrow> if n \<le> 0 then None else Some n)"

definition with_id :: "api_call \<Rightarrow> string \<Rightarrow> (int \<Rightarrow> api) \<Rightarrow> api" where
  "with_id c name k = (case pathID c name of None \<Rightarrow> notFound | Some n \<Rightarrow> k n)"

section \<open>Bodies\<close>

definition contentType :: "Http_Request.request \<Rightarrow> string" where
  "contentType r = ToLower (TrimSpace (takeWhile (\<lambda>c. c \<noteq> CHR '';'') (req_Header r ''Content-Type'')))"

definition isForm :: "Http_Request.request \<Rightarrow> bool" where
  "isForm r \<longleftrightarrow> contentType r = ''application/x-www-form-urlencoded'' \<or> contentType r = ''multipart/form-data''"

text \<open>
  \<open>ParseForm\<close> of the library: nothing happens when a form was parsed before; otherwise only the url-encoded
  body of a method that has one is read, and the fields of any other form are empty.
\<close>

definition parseForm :: "api_call \<Rightarrow> (string \<Rightarrow> string) option" where
  "parseForm c =
     (case ac_Parsed c of
        Some f \<Rightarrow> Some f
      | None \<Rightarrow>
          if \<not> ac_QueryOK c then None
          else if req_Method (ac_Request c) \<in> {''POST'', ''PUT'', ''PATCH''}
                  \<and> contentType (ac_Request c) = ''application/x-www-form-urlencoded''
          then ac_Encoded c
          else Some (\<lambda>_. []))"

datatype body = FormBody "string \<Rightarrow> string" | JSONBody "string \<Rightarrow> json option"

definition bind :: "Handler \<Rightarrow> api_call \<Rightarrow> (string \<times> Kind) list \<Rightarrow> body option" where
  "bind h c schema =
     (if isForm (ac_Request c) then map_option FormBody (parseForm c)
      else map_option JSONBody (DecodeJSON h schema (ac_Body c)))"

definition with_body :: "Handler \<Rightarrow> api_call \<Rightarrow> (string \<times> Kind) list \<Rightarrow> (body \<Rightarrow> api) \<Rightarrow> api" where
  "with_body h c schema k = (case bind h c schema of None \<Rightarrow> badRequest | Some b \<Rightarrow> k b)"

text \<open>\<open>formBool\<close>, and \<open>strconv.ParseInt\<close> whose error is dropped: the nearest value when out of range.\<close>

definition formBool :: "string \<Rightarrow> bool" where
  "formBool raw \<longleftrightarrow> ToLower (TrimSpace raw) \<notin> {'''', ''0'', ''false'', ''off'', ''no''}"

definition lax_int :: "string \<Rightarrow> int" where
  "lax_int s =
     (let digits = (if HasPrefix s ''-'' \<or> HasPrefix s ''+'' then drop 1 s else s)
      in if digits = [] \<or> \<not> list_all is_digit digits then 0
         else case ParseInt64 s of
                Some n \<Rightarrow> n
              | None \<Rightarrow> if HasPrefix s ''-'' then - (2 ^ 63) else 2 ^ 63 - 1)"

text \<open>The fields of the struct after either decoding: trimmed, raw, a checkbox, a number.\<close>

definition str_or :: "string \<Rightarrow> json option \<Rightarrow> string" where
  "str_or d v = (case v of Some (JStr s) \<Rightarrow> s | _ \<Rightarrow> d)"

definition bool_or :: "bool \<Rightarrow> json option \<Rightarrow> bool" where
  "bool_or d v = (case v of Some (JBool b) \<Rightarrow> b | _ \<Rightarrow> d)"

fun text_of :: "body \<Rightarrow> string \<Rightarrow> string" where
  "text_of (FormBody f) name = TrimSpace (f name)"
| "text_of (JSONBody j) name = str_or [] (j name)"

fun raw_of :: "body \<Rightarrow> string \<Rightarrow> string" where
  "raw_of (FormBody f) name = f name"
| "raw_of (JSONBody j) name = str_or [] (j name)"

fun flag_of :: "body \<Rightarrow> string \<Rightarrow> bool" where
  "flag_of (FormBody f) name = formBool (f name)"
| "flag_of (JSONBody j) name = bool_or False (j name)"

fun number_of :: "body \<Rightarrow> string \<Rightarrow> int" where
  "number_of (FormBody f) name = lax_int (TrimSpace (f name))"
| "number_of (JSONBody j) name = (case j name of Some (JInt n) \<Rightarrow> n | _ \<Rightarrow> 0)"

definition queryInt :: "api_call \<Rightarrow> string \<Rightarrow> int \<Rightarrow> int" where
  "queryInt c name fallback =
     (let raw = req_Query (ac_Request c) name
      in if raw = [] then fallback
         else case ParseInt64 raw of None \<Rightarrow> fallback | Some n \<Rightarrow> n)"

section \<open>Sessions\<close>

definition sessionCookie :: "Handler \<Rightarrow> string" where
  "sessionCookie h =
     (let name = ss_CookieName (sess_User (srv_Session (cfg_Server (h_config h))))
      in if name = [] then ''user_session'' else name)"

definition cookieSecure :: "string \<Rightarrow> Http_Request.request \<Rightarrow> bool" where
  "cookieSecure setting r =
     (let s = ToLower (TrimSpace setting)
      in if s = ''true'' then True
         else if s = ''false'' then False
         else req_TLS r \<or> EqualFold (req_Header r ''X-Forwarded-Proto'') ''https'')"

definition sameSite :: "string \<Rightarrow> string" where
  "sameSite name =
     (let s = ToLower (TrimSpace name)
      in if s = ''lax'' then ''Lax'' else if s = ''none'' then ''None'' else ''Strict'')"

text \<open>The whole seconds of a duration, towards zero.\<close>

definition whole_seconds :: "int \<Rightarrow> int" where
  "whole_seconds d = (if d < 0 then - (- d div second) else d div second)"

definition session_cookie :: "Handler \<Rightarrow> api_call \<Rightarrow> string \<Rightarrow> int \<Rightarrow> Cookie" where
  "session_cookie h c v maxAge =
     (let sess = srv_Session (cfg_Server (h_config h))
      in \<lparr>ck_Name = sessionCookie h, ck_Value = v, ck_MaxAge = maxAge, ck_HTTPOnly = sess_HTTPOnly sess,
          ck_Secure = cookieSecure (sess_Secure sess) (ac_Request c), ck_SameSite = sameSite (sess_SameSite sess)\<rparr>)"

definition setting_cookie :: "Cookie \<Rightarrow> api \<Rightarrow> api" where
  "setting_cookie ck k w = (case k w of (r, w') \<Rightarrow> (r\<lparr>rp_Cookie := Some ck\<rparr>, w'))"

definition setSession :: "Handler \<Rightarrow> api_call \<Rightarrow> string \<Rightarrow> api \<Rightarrow> api" where
  "setSession h c token =
     (let s = cfg_Server (h_config h);
          own = whole_seconds (ss_MaxAge (sess_User (srv_Session s)));
          maxAge = (if own \<le> 0 then whole_seconds (SessionDuration (cfg_Auth (srv_Users s))) else own)
      in setting_cookie (session_cookie h c token maxAge))"

definition clearSession :: "Handler \<Rightarrow> api_call \<Rightarrow> api \<Rightarrow> api" where
  "clearSession h c = setting_cookie (session_cookie h c [] (- 1))"

definition sessionToken :: "Handler \<Rightarrow> api_call \<Rightarrow> string" where
  "sessionToken h c = (case req_Cookie (ac_Request c) (sessionCookie h) of None \<Rightarrow> [] | Some v \<Rightarrow> v)"

end
