(* ===== verification/Http_Accounts.thy ===== *)
theory Http_Accounts
  imports Http_Api
begin

text \<open>
  The handlers of \<^verbatim>\<open>src/server/handler/api.go\<close>: what an account, a token, a session looks like on the wire, registration
  and sign-in, the profile, the preferences, the security of an account and its tokens.
\<close>

section \<open>Views\<close>

definition newUserView :: "User \<Rightarrow> json" where
  "newUserView u = JObj
     ([(''id'', JInt (u_ID u)), (''username'', JStr (u_Username u)), (''email'', JStr (u_Email u)),
       (''email_verified'', JBool (u_EmailVerified u)), (''display_name'', JStr (u_DisplayName u))]
      @ opt_str ''bio'' (u_Bio u) @ opt_str ''location'' (u_Location u) @ opt_str ''website'' (u_Website u)
      @ opt_str ''avatar_url'' (u_AvatarURL u) @ opt_str ''timezone'' (u_Timezone u) @ opt_str ''language'' (u_Language u)
      @ [(''visibility'', JStr (u_Visibility u)), (''org_visibility'', JBool (u_OrgVisibility u)),
         (''status'', JStr (u_Status u)), (''created_at'', JTime (u_CreatedAt u))])"

definition newOrgView :: "Org \<Rightarrow> json" where
  "newOrgView o1 = JObj
     ([(''id'', JInt (o_ID o1)), (''slug'', JStr (o_Slug o1)), (''name'', JStr (o_Name o1))]
      @ opt_str ''description'' (o_Description o1) @ opt_str ''website'' (o_Website o1) @ opt_str ''location'' (o_Location o1)
      @ opt_str ''avatar_url'' (o_AvatarURL o1)
      @ [(''visibility'', JStr (o_Visibility o1)), (''personal'', JBool (o_Personal o1)), (''owner_id'', JInt (o_OwnerID o1)),
         (''status'', JStr (o_Status o1)), (''created_at'', JTime (o_CreatedAt o1))])"

definition orgViews :: "Org list \<Rightarrow> json" where
  "orgViews os = JList (map newOrgView os)"

definition newTokenView :: "Token \<Rightarrow> json" where
  "newTokenView t = JObj
     ([(''id'', JInt (t_ID t)), (''name'', JStr (t_Name t)), (''prefix'', JStr (t_Prefix t)), (''scope'', JStr (t_Scope t))]
      @ opt_str ''role'' (t_Role t) @ opt_int ''org_id'' (t_OrgID t) @ opt_int ''zone_id'' (t_ZoneID t)
      @ opt_str ''capability'' (t_Capability t)
      @ [(''last_used_at'', JMoment (t_LastUsedAt t)), (''expires_at'', JMoment (t_ExpiresAt t)),
         (''revoked_at'', JMoment (t_RevokedAt t)), (''created_at'', JTime (t_CreatedAt t))])"

definition tokenViews :: "Token list \<Rightarrow> json" where
  "tokenViews ts = JList (map newTokenView ts)"

definition session_view :: "Session \<Rightarrow> json" where
  "session_view s = JObj
     [(''id'', JInt (s_ID s)), (''ip_address'', JStr (s_IP s)), (''user_agent'', JStr (s_UserAgent s)),
      (''two_factor_ok'', JBool (s_TwoFactorOK s)), (''created_at'', JTime (s_CreatedAt s)),
      (''last_active_at'', JTime (s_LastActive s)), (''expires_at'', JTime (s_ExpiresAt s))]"

section \<open>Registration and sign-in\<close>

definition register_body :: "(string \<times> Kind) list" where
  "register_body = [(''username'', KindString), (''email'', KindString), (''password'', KindString), (''invite'', KindString)]"

definition register :: "Handler \<Rightarrow> body \<Rightarrow> string \<Rightarrow> api" where
  "register h b invite =
     served (Register (h_svc h)
       \<lparr>rg_Username = text_of b ''username'', rg_Email = text_of b ''email'', rg_Password = raw_of b ''password'',
        rg_InviteCode = invite, rg_ByAdmin = False\<rparr>) (\<lambda>account.
     sendOK (newUserView account))"

definition apiRegister :: "Handler \<Rightarrow> api_call \<Rightarrow> api" where
  "apiRegister h c = with_body h c register_body (\<lambda>b. register h b (text_of b ''invite''))"

definition apiRegisterWithInvite :: "Handler \<Rightarrow> api_call \<Rightarrow> api" where
  "apiRegisterWithInvite h c = with_body h c register_body (\<lambda>b. register h b (PathValue c ''code''))"

definition sign_in_body :: "(string \<times> Kind) list" where
  "sign_in_body = [(''identifier'', KindString), (''password'', KindString)]"

definition apiLogin :: "Handler \<Rightarrow> api_call \<Rightarrow> api" where
  "apiLogin h c =
     with_body h c sign_in_body (\<lambda>b.
     served (Login (h_svc h)
       \<lparr>li_Identifier = text_of b ''identifier'', li_Password = raw_of b ''password'',
        li_IP = h_clientIP h (ac_Request c), li_UserAgent = req_Header (ac_Request c) ''User-Agent''\<rparr>) (\<lambda>result.
     setSession h c (lr_SessionToken result) (sendOK (JObj
       [(''user'', newUserView (lr_User result)), (''two_factor_pending'', JBool (lr_TwoFactorPending result))]))))"

definition code_body :: "(string \<times> Kind) list" where
  "code_body = [(''code'', KindString)]"

definition apiTwoFactorChallenge :: "Handler \<Rightarrow> api_call \<Rightarrow> api" where
  "apiTwoFactorChallenge h c =
     with_body h c code_body (\<lambda>b.
     let token = sessionToken h c
     in if token = [] then refuse (SendErrorCode CodeUnauthorized)
        else
        served (ResolveSession (h_svc h) token) (\<lambda>(account, _).
        served (VerifyTwoFactor (h_svc h) (u_ID account) token (text_of b ''code'')) (\<lambda>_.
        sendOK (newUserView account))))"

definition apiLogout :: "Handler \<Rightarrow> api_call \<Rightarrow> api" where
  "apiLogout h c =
     (let token = sessionToken h c;
          done = clearSession h c (sendOK (JObj [(''signed_out'', JBool True)]))
      in if token = [] then done else served (Logout (h_svc h) token) (\<lambda>_. done))"

definition forgot_body :: "(string \<times> Kind) list" where
  "forgot_body = [(''identifier'', KindString)]"

definition apiPasswordForgot :: "Handler \<Rightarrow> api_call \<Rightarrow> api" where
  "apiPasswordForgot h c =
     with_body h c forgot_body (\<lambda>b.
     served (StartPasswordReset (h_svc h) (text_of b ''identifier'')) (\<lambda>_.
     sendOK (JObj [(''sent'', JBool True)])))"

definition reset_body :: "(string \<times> Kind) list" where
  "reset_body = [(''token'', KindString), (''password'', KindString)]"

definition apiPasswordReset :: "Handler \<Rightarrow> api_call \<Rightarrow> api" where
  "apiPasswordReset h c =
     with_body h c reset_body (\<lambda>b.
     served (CompletePasswordReset (h_svc h) (text_of b ''token'') (raw_of b ''password'')) (\<lambda>_.
     sendOK (JObj [(''updated'', JBool True)])))"

definition apiEmailVerify :: "Handler \<Rightarrow> api_call \<Rightarrow> api" where
  "apiEmailVerify h c =
     served (CompleteEmailVerification (h_svc h) (PathValue c ''code'')) (\<lambda>account. sendOK (newUserView account))"

section \<open>Profile and preferences\<close>

definition apiMe :: "Handler \<Rightarrow> api_call \<Rightarrow> api" where
  "apiMe h c =
     as_user c (\<lambda>u.
     served (service_User (h_svc h) (caller_UserID u)) (\<lambda>account. sendOK (newUserView account)))"

definition profile_body :: "(string \<times> Kind) list" where
  "profile_body =
     [(''display_name'', KindString), (''bio'', KindString), (''location'', KindString), (''website'', KindString),
      (''avatar_url'', KindString), (''timezone'', KindString), (''language'', KindString),
      (''notification_email'', KindString), (''visibility'', KindString), (''org_visibility'', KindBool)]"

definition apiUpdateProfile :: "Handler \<Rightarrow> api_call \<Rightarrow> api" where
  "apiUpdateProfile h c =
     as_user c (\<lambda>u.
     with_body h c profile_body (\<lambda>b.
     served (UpdateProfile (h_svc h) (caller_UserID u)
       \<lparr>pi_DisplayName = text_of b ''display_name'', pi_Bio = text_of b ''bio'', pi_Location = text_of b ''location'',
        pi_Website = text_of b ''website'', pi_AvatarURL = text_of b ''avatar_url'', pi_Timezone = text_of b ''timezone'',
        pi_Language = text_of b ''language'', pi_NotificationEmail = text_of b ''notification_email'',
        pi_Visibility = text_of b ''visibility'', pi_OrgVisibility = flag_of b ''org_visibility''\<rparr>) (\<lambda>account.
     sendOK (newUserView account))))"

record prefsView =
  pv_ShowEmail :: bool
  pv_ShowActivity :: bool
  pv_ShowOrgs :: bool
  pv_Searchable :: bool
  pv_EmailSecurity :: bool
  pv_EmailOrg :: bool
  pv_EmailProduct :: bool
  pv_Theme :: string
  pv_FontSize :: string
  pv_ReduceMotion :: bool
  pv_DateFormat :: string
  pv_TimeFormat :: string

definition newPrefsView :: "Preferences \<Rightarrow> prefsView" where
  "newPrefsView p =
     \<lparr>pv_ShowEmail = pr_ShowEmail p, pv_ShowActivity = pr_ShowActivity p, pv_ShowOrgs = pr_ShowOrgs p,
      pv_Searchable = pr_Searchable p, pv_EmailSecurity = pr_EmailSecurity p, pv_EmailOrg = pr_EmailOrg p,
      pv_EmailProduct = pr_EmailProduct p, pv_Theme = pr_Theme p, pv_FontSize = pr_FontSize p,
      pv_ReduceMotion = pr_ReduceMotion p, pv_DateFormat = pr_DateFormat p, pv_TimeFormat = pr_TimeFormat p\<rparr>"

definition apply_prefs :: "prefsView \<Rightarrow> Preferences \<Rightarrow> Preferences" where
  "apply_prefs v p =
     p\<lparr>pr_ShowEmail := pv_ShowEmail v, pr_ShowActivity := pv_ShowActivity v, pr_ShowOrgs := pv_ShowOrgs v,
       pr_Searchable := pv_Searchable v, pr_EmailSecurity := pv_EmailSecurity v, pr_EmailOrg := pv_EmailOrg v,
       pr_EmailProduct := pv_EmailProduct v, pr_Theme := pv_Theme v, pr_FontSize := pv_FontSize v,
       pr_ReduceMotion := pv_ReduceMotion v, pr_DateFormat := pv_DateFormat v, pr_TimeFormat := pv_TimeFormat v\<rparr>"

definition prefs_json :: "prefsView \<Rightarrow> json" where
  "prefs_json v = JObj
     [(''show_email'', JBool (pv_ShowEmail v)), (''show_activity'', JBool (pv_ShowActivity v)),
      (''show_orgs'', JBool (pv_ShowOrgs v)), (''searchable'', JBool (pv_Searchable v)),
      (''email_security'', JBool (pv_EmailSecurity v)), (''email_org'', JBool (pv_EmailOrg v)),
      (''email_product'', JBool (pv_EmailProduct v)), (''theme'', JStr (pv_Theme v)), (''font_size'', JStr (pv_FontSize v)),
      (''reduce_motion'', JBool (pv_ReduceMotion v)), (''date_format'', JStr (pv_DateFormat v)),
      (''time_format'', JStr (pv_TimeFormat v))]"

definition preferences_body :: "(string \<times> Kind) list" where
  "preferences_body =
     [(''show_email'', KindBool), (''show_activity'', KindBool), (''show_orgs'', KindBool), (''searchable'', KindBool),
      (''email_security'', KindBool), (''email_org'', KindBool), (''email_product'', KindBool), (''theme'', KindString),
      (''font_size'', KindString), (''reduce_motion'', KindBool), (''date_format'', KindString), (''time_format'', KindString)]"

text \<open>A JSON body changes what it names of the current values; a form replaces them all.\<close>

fun submitted_prefs :: "body \<Rightarrow> prefsView \<Rightarrow> prefsView" where
  "submitted_prefs (JSONBody j) v =
     \<lparr>pv_ShowEmail = bool_or (pv_ShowEmail v) (j ''show_email''), pv_ShowActivity = bool_or (pv_ShowActivity v) (j ''show_activity''),
      pv_ShowOrgs = bool_or (pv_ShowOrgs v) (j ''show_orgs''), pv_Searchable = bool_or (pv_Searchable v) (j ''searchable''),
      pv_EmailSecurity = bool_or (pv_EmailSecurity v) (j ''email_security''), pv_EmailOrg = bool_or (pv_EmailOrg v) (j ''email_org''),
      pv_EmailProduct = bool_or (pv_EmailProduct v) (j ''email_product''), pv_Theme = str_or (pv_Theme v) (j ''theme''),
      pv_FontSize = str_or (pv_FontSize v) (j ''font_size''), pv_ReduceMotion = bool_or (pv_ReduceMotion v) (j ''reduce_motion''),
      pv_DateFormat = str_or (pv_DateFormat v) (j ''date_format''), pv_TimeFormat = str_or (pv_TimeFormat v) (j ''time_format'')\<rparr>"
| "submitted_prefs (FormBody f) v =
     \<lparr>pv_ShowEmail = formBool (f ''show_email''), pv_ShowActivity = formBool (f ''show_activity''),
      pv_ShowOrgs = formBool (f ''show_orgs''), pv_Searchable = formBool (f ''searchable''),
      pv_EmailSecurity = formBool (f ''email_security''), pv_EmailOrg = formBool (f ''email_org''),
      pv_EmailProduct = formBool (f ''email_product''), pv_Theme = TrimSpace (f ''theme''),
      pv_FontSize = TrimSpace (f ''font_size''), pv_ReduceMotion = formBool (f ''reduce_motion''),
      pv_DateFormat = TrimSpace (f ''date_format''), pv_TimeFormat = TrimSpace (f ''time_format'')\<rparr>"

definition apiPreferences :: "Handler \<Rightarrow> api_call \<Rightarrow> api" where
  "apiPreferences h c =
     as_user c (\<lambda>u.
     served (Service_Account.Preferences (h_svc h) (caller_UserID u)) (\<lambda>prefs. sendOK (prefs_json (newPrefsView prefs))))"

definition apiSavePreferences :: "Handler \<Rightarrow> api_call \<Rightarrow> api" where
  "apiSavePreferences h c =
     as_user c (\<lambda>u.
     served (Service_Account.Preferences (h_svc h) (caller_UserID u)) (\<lambda>stored.
     with_body h c preferences_body (\<lambda>b.
     let v = submitted_prefs b (newPrefsView stored)
     in served (Service_Account.SavePreferences (h_svc h) (apply_prefs v stored)) (\<lambda>_.
        sendOK (prefs_json v)))))"

section \<open>Security\<close>

definition apiSecurity :: "Handler \<Rightarrow> api_call \<Rightarrow> api" where
  "apiSecurity h c =
     as_user c (\<lambda>u.
     served (service_User (h_svc h) (caller_UserID u)) (\<lambda>account.
     served (twoFactorEnabled (h_svc h) (caller_UserID u)) (\<lambda>enabled.
     served (ListSessions (h_svc h) (caller_UserID u)) (\<lambda>sessions.
     served (ListTokens (h_svc h) (caller_UserID u)) (\<lambda>tokens.
     sendOK (JObj
       [(''email'', JStr (u_Email account)), (''email_verified'', JBool (u_EmailVerified account)),
        (''two_factor_enabled'', JBool enabled), (''last_login_at'', JMoment (u_LastLoginAt account)),
        (''active_sessions'', JInt (int (length sessions))), (''api_tokens'', JInt (int (length tokens)))]))))))"

definition change_password_body :: "(string \<times> Kind) list" where
  "change_password_body = [(''current_password'', KindString), (''new_password'', KindString)]"

definition apiChangePassword :: "Handler \<Rightarrow> api_call \<Rightarrow> api" where
  "apiChangePassword h c =
     as_session c (\<lambda>u.
     with_body h c change_password_body (\<lambda>b.
     served (ChangePassword (h_svc h) (caller_UserID u) (raw_of b ''current_password'') (raw_of b ''new_password'')) (\<lambda>_.
     clearSession h c (sendOK (JObj [(''updated'', JBool True)])))))"

definition email_body :: "(string \<times> Kind) list" where
  "email_body = [(''email'', KindString)]"

definition apiStartEmailVerification :: "Handler \<Rightarrow> api_call \<Rightarrow> api" where
  "apiStartEmailVerification h c =
     as_session c (\<lambda>u.
     with_body h c email_body (\<lambda>b.
     served (StartEmailVerification (h_svc h) (caller_UserID u) (text_of b ''email'')) (\<lambda>_.
     sendOK (JObj [(''sent'', JBool True)]))))"

definition apiSessions :: "Handler \<Rightarrow> api_call \<Rightarrow> api" where
  "apiSessions h c =
     as_user c (\<lambda>u.
     served (ListSessions (h_svc h) (caller_UserID u)) (\<lambda>sessions. sendOK (JList (map session_view sessions))))"

definition apiRevokeSession :: "Handler \<Rightarrow> api_call \<Rightarrow> api" where
  "apiRevokeSession h c =
     as_user c (\<lambda>u.
     with_id c ''session_id'' (\<lambda>sid.
     served (RevokeSession (h_svc h) (caller_UserID u) sid) (\<lambda>_.
     sendOK (JObj [(''revoked'', JBool True)]))))"

definition apiTwoFactorStart :: "Handler \<Rightarrow> api_call \<Rightarrow> api" where
  "apiTwoFactorStart h c =
     as_session c (\<lambda>u.
     served (StartTwoFactor (h_svc h) (caller_UserID u)) (\<lambda>enrollment.
     sendOK (JObj
       [(''secret'', JStr (en_Secret enrollment)), (''uri'', JStr (en_URI enrollment)),
        (''recovery_codes'', JList (map JStr (en_RecoveryCodes enrollment)))])))"

definition apiTwoFactorConfirm :: "Handler \<Rightarrow> api_call \<Rightarrow> api" where
  "apiTwoFactorConfirm h c =
     as_session c (\<lambda>u.
     with_body h c code_body (\<lambda>b.
     served (ConfirmTwoFactor (h_svc h) (caller_UserID u) (text_of b ''code'')) (\<lambda>_.
     sendOK (JObj [(''two_factor_enabled'', JBool True)]))))"

definition password_body :: "(string \<times> Kind) list" where
  "password_body = [(''password'', KindString)]"

definition apiTwoFactorDisable :: "Handler \<Rightarrow> api_call \<Rightarrow> api" where
  "apiTwoFactorDisable h c =
     as_session c (\<lambda>u.
     with_body h c password_body (\<lambda>b.
     served (DisableTwoFactor (h_svc h) (caller_UserID u) (raw_of b ''password'')) (\<lambda>_.
     sendOK (JObj [(''two_factor_enabled'', JBool False)]))))"

section \<open>Tokens and public profiles\<close>

definition apiListTokens :: "Handler \<Rightarrow> api_call \<Rightarrow> api" where
  "apiListTokens h c =
     as_user c (\<lambda>u.
     served (ListTokens (h_svc h) (caller_UserID u)) (\<lambda>tokens. sendOK (tokenViews tokens)))"

definition token_body :: "(string \<times> Kind) list" where
  "token_body =
     [(''name'', KindString), (''org'', KindString), (''zone_id'', KindInt), (''capability'', KindString), (''role'', KindString),
      (''scope'', KindString), (''expires_in_days'', KindInt)]"

definition apiIssueToken :: "Handler \<Rightarrow> api_call \<Rightarrow> api" where
  "apiIssueToken h c =
     as_session c (\<lambda>u.
     with_body h c token_body (\<lambda>b.
     served (AccessBySlug (h_svc h) (text_of b ''org'') (caller_UserID u)) (\<lambda>access.
     served (IssueToken (h_svc h) (caller_UserID u)
       \<lparr>it_Name = text_of b ''name'', it_OrgID = o_ID (access_Org access), it_ZoneID = number_of b ''zone_id'',
        it_Capability = text_of b ''capability'', it_Role = text_of b ''role'', it_Scope = text_of b ''scope'',
        it_ExpiresIn = days_duration (number_of b ''expires_in_days'')\<rparr>) (\<lambda>issued.
     sendOK (JObj [(''token'', newTokenView (issued_Token issued)), (''secret'', JStr (issued_Secret issued))])))))"

definition apiRevokeToken :: "Handler \<Rightarrow> api_call \<Rightarrow> api" where
  "apiRevokeToken h c =
     as_session c (\<lambda>u.
     with_id c ''token_id'' (\<lambda>tid.
     served (Service_Tokens.RevokeToken (h_svc h) (caller_UserID u) tid) (\<lambda>_.
     sendOK (JObj [(''revoked'', JBool True)]))))"

definition apiUserProfile :: "Handler \<Rightarrow> api_call \<Rightarrow> api" where
  "apiUserProfile h c =
     served (UserProfile (h_svc h) (PathValue c ''username'') (viewerID (ac_Request c))) (\<lambda>p.
     sendOK (JObj
       [(''username'', JStr (pp_Username p)), (''display_name'', JStr (pp_DisplayName p)), (''bio'', JStr (pp_Bio p)),
        (''location'', JStr (pp_Location p)), (''website'', JStr (pp_Website p)), (''avatar_url'', JStr (pp_AvatarURL p)),
        (''email'', JStr (pp_Email p)), (''orgs'', orgViews (pp_Orgs p))]))"

end
