(* ===== verification/Http_Orgs.thy ===== *)
theory Http_Orgs
  imports Http_Accounts
begin

text \<open>
  The handlers of \<^verbatim>\<open>src/server/handler/org.go\<close> and \<^verbatim>\<open>domain.go\<close>: organizations, members, invitations, tokens and
  zone grants of an organization, its audit trail and its custom domains.
\<close>

section \<open>Views\<close>

definition member_view :: "Member \<Rightarrow> json" where
  "member_view m = JObj
     [(''user_id'', JInt (m_UserID m)), (''username'', JStr (m_Username m)), (''role'', JStr (m_Role m)),
      (''joined_at'', JTime (m_CreatedAt m))]"

definition newInviteView :: "Invite \<Rightarrow> json" where
  "newInviteView i = JObj
     ([(''id'', JInt (i_ID i))] @ opt_str ''email'' (i_Email i)
      @ [(''role'', JStr (i_Role i)), (''max_uses'', JInt (i_MaxUses i)), (''use_count'', JInt (i_UseCount i)),
         (''invited_by'', JInt (i_InvitedBy i)), (''created_at'', JTime (i_CreatedAt i)), (''expires_at'', JTime (i_ExpiresAt i))])"

definition newDomainView :: "Domain \<Rightarrow> json" where
  "newDomainView d = JObj
     ([(''id'', JInt (d_ID d)), (''org_id'', JInt (d_OrgID d)), (''domain'', JStr (d_Name d)), (''purpose'', JStr (d_Purpose d)),
       (''is_apex'', JBool (d_IsApex d)), (''is_wildcard'', JBool (d_IsWildcard d)),
       (''verification_status'', JStr (d_VerificationStatus d)), (''verified_at'', JMoment (d_VerifiedAt d)),
       (''ssl_enabled'', JBool (d_SSLEnabled d)), (''ssl_status'', JStr (d_SSLStatus d)),
       (''ssl_expires_at'', JMoment (d_SSLExpiresAt d)), (''status'', JStr (d_Status d))]
      @ opt_str ''suspend_reason'' (d_SuspendReason d) @ [(''created_at'', JTime (d_CreatedAt d))])"

definition audit_view :: "AuditEntry \<Rightarrow> json" where
  "audit_view a = JObj
     [(''id'', JInt (a_ID a)), (''event'', JStr (a_Event a)), (''actor_type'', JStr (a_ActorType a)), (''actor_id'', JInt (a_ActorID a)),
      (''target_id'', JInt (a_TargetID a)), (''details'', JStr (a_Details a)), (''created_at'', JTime (a_CreatedAt a))]"

section \<open>Organizations\<close>

definition org_id :: "OrgAccess \<Rightarrow> int" where
  "org_id access = o_ID (access_Org access)"

definition apiListOrgs :: "Handler \<Rightarrow> api_call \<Rightarrow> api" where
  "apiListOrgs h c =
     as_user c (\<lambda>u.
     served (OrgsForUser (h_svc h) (caller_UserID u)) (\<lambda>orgs. sendOK (orgViews orgs)))"

definition create_org_body :: "(string \<times> Kind) list" where
  "create_org_body =
     [(''slug'', KindString), (''name'', KindString), (''description'', KindString), (''website'', KindString),
      (''location'', KindString), (''invite'', KindString)]"

definition apiCreateOrg :: "Handler \<Rightarrow> api_call \<Rightarrow> api" where
  "apiCreateOrg h c =
     as_session c (\<lambda>u.
     with_body h c create_org_body (\<lambda>b.
     served (CreateOrg (h_svc h) (caller_UserID u)
       \<lparr>in_Slug = text_of b ''slug'', in_Name = text_of b ''name'', in_Description = text_of b ''description'',
        in_Website = text_of b ''website'', in_Location = text_of b ''location'', in_InviteCode = text_of b ''invite'',
        in_ByAdmin = False\<rparr>) (\<lambda>org.
     sendOK (newOrgView org))))"

definition apiAcceptInvite :: "Handler \<Rightarrow> api_call \<Rightarrow> api" where
  "apiAcceptInvite h c =
     as_session c (\<lambda>u.
     served (AcceptInvite (h_svc h) (caller_UserID u) (PathValue c ''code'')) (\<lambda>org. sendOK (newOrgView org)))"

definition apiOrg :: "Handler \<Rightarrow> api_call \<Rightarrow> api" where
  "apiOrg h c =
     in_org h c (\<lambda>_ access.
     sendOK (JObj
       [(''org'', newOrgView (access_Org access)), (''role'', JStr (access_Role access)),
        (''permissions'', JList (map JStr (Permissions (access_Role access))))]))"

definition org_profile_body :: "(string \<times> Kind) list" where
  "org_profile_body = [(''name'', KindString), (''description'', KindString), (''website'', KindString), (''location'', KindString)]"

definition apiUpdateOrg :: "Handler \<Rightarrow> api_call \<Rightarrow> api" where
  "apiUpdateOrg h c =
     in_org h c (\<lambda>u access.
     with_body h c org_profile_body (\<lambda>b.
     served (UpdateOrg (h_svc h) (org_id access) (caller_UserID u)
       \<lparr>in_Slug = o_Slug (access_Org access), in_Name = text_of b ''name'', in_Description = text_of b ''description'',
        in_Website = text_of b ''website'', in_Location = text_of b ''location'', in_InviteCode = [], in_ByAdmin = False\<rparr>)
       (\<lambda>org. sendOK (newOrgView org))))"

definition apiDeleteOrg :: "Handler \<Rightarrow> api_call \<Rightarrow> api" where
  "apiDeleteOrg h c =
     in_org h c (\<lambda>u access.
     served (DeleteOrg (h_svc h) (org_id access) (caller_UserID u)) (\<lambda>_. sendOK (JObj [(''deleted'', JBool True)])))"

definition apiOrgSettings :: "Handler \<Rightarrow> api_call \<Rightarrow> api" where
  "apiOrgSettings h c =
     in_org h c (\<lambda>_ access.
     let o1 = access_Org access
     in sendOK (JObj
       [(''slug'', JStr (o_Slug o1)), (''name'', JStr (o_Name o1)), (''description'', JStr (o_Description o1)),
        (''website'', JStr (o_Website o1)), (''location'', JStr (o_Location o1)), (''visibility'', JStr (o_Visibility o1)),
        (''personal'', JBool (o_Personal o1)), (''can_edit'', JBool (access_Can access PermOrgSettings))]))"

definition visibility_body :: "(string \<times> Kind) list" where
  "visibility_body = [(''visibility'', KindString)]"

definition apiUpdateOrgSettings :: "Handler \<Rightarrow> api_call \<Rightarrow> api" where
  "apiUpdateOrgSettings h c =
     in_org h c (\<lambda>u access.
     with_body h c visibility_body (\<lambda>b.
     let v = text_of b ''visibility''
     in served (SetOrgVisibility (h_svc h) (org_id access) (caller_UserID u) v) (\<lambda>_.
        sendOK (JObj [(''visibility'', JStr v)]))))"

definition transfer_body :: "(string \<times> Kind) list" where
  "transfer_body = [(''owner_id'', KindInt)]"

definition apiTransferOrg :: "Handler \<Rightarrow> api_call \<Rightarrow> api" where
  "apiTransferOrg h c =
     in_org h c (\<lambda>u access.
     with_body h c transfer_body (\<lambda>b.
     let owner = number_of b ''owner_id''
     in served (TransferOrg (h_svc h) (org_id access) (caller_UserID u) owner) (\<lambda>_.
        sendOK (JObj [(''owner_id'', JInt owner)]))))"

section \<open>Members and invitations\<close>

definition apiMembers :: "Handler \<Rightarrow> api_call \<Rightarrow> api" where
  "apiMembers h c =
     in_org h c (\<lambda>u access.
     served (Members (h_svc h) (org_id access) (caller_UserID u)) (\<lambda>members.
     sendOK (JList (map member_view members))))"

definition role_body :: "(string \<times> Kind) list" where
  "role_body = [(''role'', KindString)]"

definition apiSetMemberRole :: "Handler \<Rightarrow> api_call \<Rightarrow> api" where
  "apiSetMemberRole h c =
     in_org h c (\<lambda>u access.
     with_id c ''member_id'' (\<lambda>target.
     with_body h c role_body (\<lambda>b.
     let role = text_of b ''role''
     in served (Service_Orgs.SetMemberRole (h_svc h) (org_id access) (caller_UserID u) target role) (\<lambda>_.
        sendOK (JObj [(''user_id'', JInt target), (''role'', JStr role)])))))"

definition apiRemoveMember :: "Handler \<Rightarrow> api_call \<Rightarrow> api" where
  "apiRemoveMember h c =
     in_org h c (\<lambda>u access.
     with_id c ''member_id'' (\<lambda>target.
     served (Service_Orgs.RemoveMember (h_svc h) (org_id access) (caller_UserID u) target) (\<lambda>_.
     sendOK (JObj [(''removed'', JBool True)]))))"

definition apiListInvites :: "Handler \<Rightarrow> api_call \<Rightarrow> api" where
  "apiListInvites h c =
     in_org h c (\<lambda>u access.
     served (ListInvites (h_svc h) (org_id access) (caller_UserID u)) (\<lambda>invites.
     sendOK (JList (map newInviteView invites))))"

definition invite_body :: "(string \<times> Kind) list" where
  "invite_body = [(''email'', KindString), (''role'', KindString), (''max_uses'', KindInt)]"

definition apiCreateInvite :: "Handler \<Rightarrow> api_call \<Rightarrow> api" where
  "apiCreateInvite h c =
     in_org h c (\<lambda>u access.
     with_body h c invite_body (\<lambda>b.
     served (InviteMember (h_svc h) (org_id access) (caller_UserID u)
       \<lparr>inv_Email = text_of b ''email'', inv_Role = text_of b ''role'', inv_MaxUses = number_of b ''max_uses''\<rparr>) (\<lambda>result.
     sendOK (JObj [(''invite'', newInviteView (res_Invite result)), (''code'', JStr (res_Code result))]))))"

definition apiRevokeInvite :: "Handler \<Rightarrow> api_call \<Rightarrow> api" where
  "apiRevokeInvite h c =
     in_org h c (\<lambda>u access.
     with_id c ''invite_id'' (\<lambda>iid.
     served (RevokeInvite (h_svc h) (org_id access) (caller_UserID u) iid) (\<lambda>_.
     sendOK (JObj [(''revoked'', JBool True)]))))"

section \<open>Audit, tokens, zones\<close>

definition maxAuditPage :: int where "maxAuditPage = 200"

definition apiOrgAudit :: "Handler \<Rightarrow> api_call \<Rightarrow> api" where
  "apiOrgAudit h c =
     in_org h c (\<lambda>u access.
     let asked = queryInt c ''limit'' 50;
         limit = (if asked \<le> 0 \<or> asked > maxAuditPage then maxAuditPage else asked);
         start = queryInt c ''offset'' 0;
         offset = (if start < 0 then 0 else start)
     in served (OrgAudit (h_svc h) (org_id access) (caller_UserID u) limit offset) (\<lambda>entries.
        sendOK (JList (map audit_view entries))))"

definition apiListOrgTokens :: "Handler \<Rightarrow> api_call \<Rightarrow> api" where
  "apiListOrgTokens h c =
     in_org h c (\<lambda>u access.
     served (ListOrgTokens (h_svc h) (org_id access) (caller_UserID u)) (\<lambda>tokens. sendOK (tokenViews tokens)))"

definition apiRevokeOrgToken :: "Handler \<Rightarrow> api_call \<Rightarrow> api" where
  "apiRevokeOrgToken h c =
     in_org h c (\<lambda>u access.
     with_id c ''token_id'' (\<lambda>tid.
     served (RevokeOrgToken (h_svc h) (org_id access) (caller_UserID u) tid) (\<lambda>_.
     sendOK (JObj [(''revoked'', JBool True)]))))"

definition grant_body :: "(string \<times> Kind) list" where
  "grant_body = [(''member_id'', KindInt), (''permission'', KindString)]"

definition apiGrantZone :: "Handler \<Rightarrow> api_call \<Rightarrow> api" where
  "apiGrantZone h c =
     in_org h c (\<lambda>u access.
     with_id c ''zone_id'' (\<lambda>zone.
     with_body h c grant_body (\<lambda>b.
     let member = number_of b ''member_id''; permission = text_of b ''permission''
     in served (Service_Orgs.GrantZone (h_svc h) (org_id access) (caller_UserID u) member zone permission) (\<lambda>_.
        sendOK (JObj [(''zone_id'', JInt zone), (''member_id'', JInt member), (''permission'', JStr permission)])))))"

definition apiRevokeZone :: "Handler \<Rightarrow> api_call \<Rightarrow> api" where
  "apiRevokeZone h c =
     in_org h c (\<lambda>u access.
     with_id c ''zone_id'' (\<lambda>zone.
     with_id c ''member_id'' (\<lambda>target.
     served (Service_Orgs.RevokeZone (h_svc h) (org_id access) (caller_UserID u) target zone) (\<lambda>_.
     sendOK (JObj [(''revoked'', JBool True)])))))"

section \<open>Domains\<close>

definition apiListDomains :: "Handler \<Rightarrow> api_call \<Rightarrow> api" where
  "apiListDomains h c =
     in_org h c (\<lambda>u access.
     served (ListDomains (h_svc h) (org_id access) (caller_UserID u)) (\<lambda>domains.
     sendOK (JList (map newDomainView domains))))"

definition add_domain_body :: "(string \<times> Kind) list" where
  "add_domain_body = [(''domain'', KindString), (''purpose'', KindString)]"

definition apiAddDomain :: "Handler \<Rightarrow> api_call \<Rightarrow> api" where
  "apiAddDomain h c =
     in_org h c (\<lambda>u access.
     with_body h c add_domain_body (\<lambda>b.
     served (AddDomain (h_svc h) (org_id access) (caller_UserID u)
       \<lparr>ad_Domain = text_of b ''domain'', ad_Purpose = text_of b ''purpose''\<rparr>) (\<lambda>domain.
     sendOK (newDomainView domain))))"

definition purpose_body :: "(string \<times> Kind) list" where
  "purpose_body = [(''purpose'', KindString)]"

definition apiUpdateDomain :: "Handler \<Rightarrow> api_call \<Rightarrow> api" where
  "apiUpdateDomain h c =
     in_org h c (\<lambda>u access.
     with_id c ''domain_id'' (\<lambda>did.
     with_body h c purpose_body (\<lambda>b.
     let purpose = text_of b ''purpose''
     in served (SetDomainPurpose (h_svc h) (org_id access) (caller_UserID u) did purpose) (\<lambda>_.
        sendOK (JObj [(''id'', JInt did), (''purpose'', JStr purpose)])))))"

definition apiRemoveDomain :: "Handler \<Rightarrow> api_call \<Rightarrow> api" where
  "apiRemoveDomain h c =
     in_org h c (\<lambda>u access.
     with_id c ''domain_id'' (\<lambda>did.
     served (RemoveDomain (h_svc h) (org_id access) (caller_UserID u) did) (\<lambda>_.
     sendOK (JObj [(''removed'', JBool True)]))))"

definition apiDomainVerification :: "Handler \<Rightarrow> api_call \<Rightarrow> api" where
  "apiDomainVerification h c =
     in_org h c (\<lambda>u access.
     with_id c ''domain_id'' (\<lambda>did.
     served (VerificationInstructions (h_svc h) (org_id access) (caller_UserID u) did) (\<lambda>r.
     sendOK (JObj [(''name'', JStr (vr_Name r)), (''type'', JStr (vr_Type r)), (''value'', JStr (vr_Value r))]))))"

definition apiVerifyDomain :: "Handler \<Rightarrow> api_call \<Rightarrow> api" where
  "apiVerifyDomain h c =
     in_org h c (\<lambda>u access.
     with_id c ''domain_id'' (\<lambda>did.
     served (VerifyDomain (h_svc h) (org_id access) (caller_UserID u) did) (\<lambda>domain. sendOK (newDomainView domain))))"

definition suspend_body :: "(string \<times> Kind) list" where
  "suspend_body = [(''reason'', KindString)]"

definition apiSuspendDomain :: "Handler \<Rightarrow> api_call \<Rightarrow> api" where
  "apiSuspendDomain h c =
     in_org h c (\<lambda>u access.
     with_id c ''domain_id'' (\<lambda>did.
     with_body h c suspend_body (\<lambda>b.
     served (Service_Domains.SuspendDomain (h_svc h) (org_id access) (caller_UserID u) did (text_of b ''reason'')) (\<lambda>_.
     sendOK (JObj [(''suspended'', JBool True)])))))"

end
