(* ===== verification/Http_Docs.thy ===== *)
theory Http_Docs
  imports Http_Orgs
begin

text \<open>
  The table the REST surface and its documents are made of: \<^verbatim>\<open>src/server/handler/docs.go\<close>, the types it uses of
  \<^verbatim>\<open>src/swagger/annotations.go\<close>, and the mux that \<open>API\<close> builds from it (\<^verbatim>\<open>api.go\<close>). Prose, tags and the
  descriptions of parameters are left out; what the documents say of methods, paths, credentials, bodies and
  payloads is kept.
\<close>

section \<open>Payload types\<close>

record Field =
  fl_Name :: string
  fl_Kind :: Kind
  fl_Ref :: string
  fl_List :: bool
  fl_Required :: bool

record ObjectType =
  ot_Name :: string
  ot_Input :: bool
  ot_Fields :: "Field list"

text \<open>A required field, an optional one, a list of scalars, an object and a list of objects.\<close>

definition must :: "string \<Rightarrow> Kind \<Rightarrow> Field" where
  "must name kind = \<lparr>fl_Name = name, fl_Kind = kind, fl_Ref = [], fl_List = False, fl_Required = True\<rparr>"

definition may :: "string \<Rightarrow> Kind \<Rightarrow> Field" where
  "may name kind = \<lparr>fl_Name = name, fl_Kind = kind, fl_Ref = [], fl_List = False, fl_Required = False\<rparr>"

definition many :: "string \<Rightarrow> Kind \<Rightarrow> bool \<Rightarrow> Field" where
  "many name kind reqd = \<lparr>fl_Name = name, fl_Kind = kind, fl_Ref = [], fl_List = True, fl_Required = reqd\<rparr>"

definition ref :: "string \<Rightarrow> string \<Rightarrow> bool \<Rightarrow> Field" where
  "ref name ty reqd = \<lparr>fl_Name = name, fl_Kind = KindObject, fl_Ref = ty, fl_List = False, fl_Required = reqd\<rparr>"

definition refs :: "string \<Rightarrow> string \<Rightarrow> bool \<Rightarrow> Field" where
  "refs name ty reqd = \<lparr>fl_Name = name, fl_Kind = KindObject, fl_Ref = ty, fl_List = True, fl_Required = reqd\<rparr>"

definition preferenceFields :: "Field list" where
  "preferenceFields =
     [must ''show_email'' KindBool, must ''show_activity'' KindBool, must ''show_orgs'' KindBool,
      must ''searchable'' KindBool, must ''email_security'' KindBool, must ''email_org'' KindBool,
      must ''email_product'' KindBool, must ''theme'' KindString, must ''font_size'' KindString,
      must ''reduce_motion'' KindBool, must ''date_format'' KindString, must ''time_format'' KindString]"

definition account_types :: "ObjectType list" where
  "account_types =
    [\<lparr>ot_Name = ''User'', ot_Input = False, ot_Fields =
       [must ''id'' KindInt, must ''username'' KindString, must ''email'' KindString,
        must ''email_verified'' KindBool, must ''display_name'' KindString, may ''bio'' KindString,
        may ''location'' KindString, may ''website'' KindString, may ''avatar_url'' KindString,
        may ''timezone'' KindString, may ''language'' KindString, must ''visibility'' KindString,
        must ''org_visibility'' KindBool, must ''status'' KindString, must ''created_at'' KindTime]\<rparr>,
     \<lparr>ot_Name = ''PublicProfile'', ot_Input = False, ot_Fields =
       [must ''username'' KindString, must ''display_name'' KindString, may ''bio'' KindString,
        may ''location'' KindString, may ''website'' KindString, may ''avatar_url'' KindString,
        may ''email'' KindString, refs ''orgs'' ''Org'' False]\<rparr>,
     \<lparr>ot_Name = ''Preferences'', ot_Input = False, ot_Fields =
       preferenceFields\<rparr>,
     \<lparr>ot_Name = ''PreferencesInput'', ot_Input = True, ot_Fields =
       preferenceFields\<rparr>,
     \<lparr>ot_Name = ''SessionInfo'', ot_Input = False, ot_Fields =
       [must ''id'' KindInt, may ''ip_address'' KindString, may ''user_agent'' KindString,
        must ''two_factor_ok'' KindBool, must ''created_at'' KindTime, must ''last_active_at'' KindTime,
        must ''expires_at'' KindTime]\<rparr>,
     \<lparr>ot_Name = ''SecurityOverview'', ot_Input = False, ot_Fields =
       [must ''email'' KindString, must ''email_verified'' KindBool, must ''two_factor_enabled'' KindBool,
        must ''last_login_at'' KindTime, must ''active_sessions'' KindInt, must ''api_tokens'' KindInt]\<rparr>,
     \<lparr>ot_Name = ''TwoFactorEnrollment'', ot_Input = False, ot_Fields =
       [must ''secret'' KindString, must ''uri'' KindString, many ''recovery_codes'' KindString True]\<rparr>,
     \<lparr>ot_Name = ''TwoFactorState'', ot_Input = False, ot_Fields =
       [must ''two_factor_enabled'' KindBool]\<rparr>,
     \<lparr>ot_Name = ''SignInResult'', ot_Input = False, ot_Fields =
       [ref ''user'' ''User'' True, must ''two_factor_pending'' KindBool]\<rparr>]"

definition org_types :: "ObjectType list" where
  "org_types =
    [\<lparr>ot_Name = ''Org'', ot_Input = False, ot_Fields =
       [must ''id'' KindInt, must ''slug'' KindString, must ''name'' KindString,
        may ''description'' KindString, may ''website'' KindString, may ''location'' KindString,
        may ''avatar_url'' KindString, must ''visibility'' KindString, must ''personal'' KindBool,
        must ''owner_id'' KindInt, must ''status'' KindString, must ''created_at'' KindTime]\<rparr>,
     \<lparr>ot_Name = ''OrgAccess'', ot_Input = False, ot_Fields =
       [ref ''org'' ''Org'' True, must ''role'' KindString, many ''permissions'' KindString True]\<rparr>,
     \<lparr>ot_Name = ''OrgSettings'', ot_Input = False, ot_Fields =
       [must ''slug'' KindString, must ''name'' KindString, may ''description'' KindString,
        may ''website'' KindString, may ''location'' KindString, must ''visibility'' KindString,
        must ''personal'' KindBool, must ''can_edit'' KindBool]\<rparr>,
     \<lparr>ot_Name = ''Member'', ot_Input = False, ot_Fields =
       [must ''user_id'' KindInt, must ''username'' KindString, must ''email'' KindString,
        must ''role'' KindString, must ''joined_at'' KindTime]\<rparr>,
     \<lparr>ot_Name = ''Invite'', ot_Input = False, ot_Fields =
       [must ''id'' KindInt, may ''email'' KindString, must ''role'' KindString, must ''max_uses'' KindInt,
        must ''use_count'' KindInt, must ''invited_by'' KindInt, must ''created_at'' KindTime,
        must ''expires_at'' KindTime]\<rparr>,
     \<lparr>ot_Name = ''IssuedInvite'', ot_Input = False, ot_Fields =
       [ref ''invite'' ''Invite'' True, must ''code'' KindString]\<rparr>,
     \<lparr>ot_Name = ''Token'', ot_Input = False, ot_Fields =
       [must ''id'' KindInt, must ''name'' KindString, must ''prefix'' KindString, must ''scope'' KindString,
        may ''role'' KindString, may ''org_id'' KindInt, may ''zone_id'' KindInt,
        may ''capability'' KindString, may ''last_used_at'' KindTime, may ''expires_at'' KindTime,
        may ''revoked_at'' KindTime, must ''created_at'' KindTime]\<rparr>,
     \<lparr>ot_Name = ''IssuedToken'', ot_Input = False, ot_Fields =
       [ref ''token'' ''Token'' True, must ''secret'' KindString]\<rparr>,
     \<lparr>ot_Name = ''Domain'', ot_Input = False, ot_Fields =
       [must ''id'' KindInt, must ''org_id'' KindInt, must ''domain'' KindString, must ''purpose'' KindString,
        must ''is_apex'' KindBool, must ''is_wildcard'' KindBool, must ''verification_status'' KindString,
        may ''verified_at'' KindTime, must ''ssl_enabled'' KindBool, must ''ssl_status'' KindString,
        may ''ssl_expires_at'' KindTime, must ''status'' KindString, may ''suspend_reason'' KindString,
        must ''created_at'' KindTime]\<rparr>,
     \<lparr>ot_Name = ''DomainChallenge'', ot_Input = False, ot_Fields =
       [must ''name'' KindString, must ''type'' KindString, must ''value'' KindString]\<rparr>,
     \<lparr>ot_Name = ''AuditEntry'', ot_Input = False, ot_Fields =
       [must ''id'' KindInt, must ''event'' KindString, must ''actor_type'' KindString,
        must ''actor_id'' KindInt, may ''target_id'' KindInt, may ''details'' KindString,
        must ''created_at'' KindTime]\<rparr>,
     \<lparr>ot_Name = ''ZoneGrant'', ot_Input = False, ot_Fields =
       [must ''zone_id'' KindInt, must ''member_id'' KindInt, must ''permission'' KindString]\<rparr>]"

definition result_types :: "ObjectType list" where
  "result_types =
    [\<lparr>ot_Name = ''SignOutResult'', ot_Input = False, ot_Fields =
       [must ''signed_out'' KindBool]\<rparr>,
     \<lparr>ot_Name = ''MailSentResult'', ot_Input = False, ot_Fields =
       [must ''sent'' KindBool]\<rparr>,
     \<lparr>ot_Name = ''UpdateResult'', ot_Input = False, ot_Fields =
       [must ''updated'' KindBool]\<rparr>,
     \<lparr>ot_Name = ''RevokeResult'', ot_Input = False, ot_Fields =
       [must ''revoked'' KindBool]\<rparr>,
     \<lparr>ot_Name = ''RemoveResult'', ot_Input = False, ot_Fields =
       [must ''removed'' KindBool]\<rparr>,
     \<lparr>ot_Name = ''DeleteResult'', ot_Input = False, ot_Fields =
       [must ''deleted'' KindBool]\<rparr>,
     \<lparr>ot_Name = ''SuspendResult'', ot_Input = False, ot_Fields =
       [must ''suspended'' KindBool]\<rparr>,
     \<lparr>ot_Name = ''VisibilityResult'', ot_Input = False, ot_Fields =
       [must ''visibility'' KindString]\<rparr>,
     \<lparr>ot_Name = ''TransferResult'', ot_Input = False, ot_Fields =
       [must ''owner_id'' KindInt]\<rparr>,
     \<lparr>ot_Name = ''MemberRoleResult'', ot_Input = False, ot_Fields =
       [must ''user_id'' KindInt, must ''role'' KindString]\<rparr>,
     \<lparr>ot_Name = ''DomainPurposeResult'', ot_Input = False, ot_Fields =
       [must ''id'' KindInt, must ''purpose'' KindString]\<rparr>]"

definition account_inputs :: "ObjectType list" where
  "account_inputs =
    [\<lparr>ot_Name = ''RegisterInput'', ot_Input = True, ot_Fields =
       [must ''username'' KindString, must ''email'' KindString, must ''password'' KindString,
        may ''invite'' KindString]\<rparr>,
     \<lparr>ot_Name = ''SignInInput'', ot_Input = True, ot_Fields =
       [must ''identifier'' KindString, must ''password'' KindString]\<rparr>,
     \<lparr>ot_Name = ''TwoFactorCodeInput'', ot_Input = True, ot_Fields =
       [must ''code'' KindString]\<rparr>,
     \<lparr>ot_Name = ''ForgotPasswordInput'', ot_Input = True, ot_Fields =
       [must ''identifier'' KindString]\<rparr>,
     \<lparr>ot_Name = ''ResetPasswordInput'', ot_Input = True, ot_Fields =
       [must ''token'' KindString, must ''password'' KindString]\<rparr>,
     \<lparr>ot_Name = ''ProfileInput'', ot_Input = True, ot_Fields =
       [may ''display_name'' KindString, may ''bio'' KindString, may ''location'' KindString,
        may ''website'' KindString, may ''avatar_url'' KindString, may ''timezone'' KindString,
        may ''language'' KindString, may ''notification_email'' KindString, may ''visibility'' KindString,
        may ''org_visibility'' KindBool]\<rparr>,
     \<lparr>ot_Name = ''ChangePasswordInput'', ot_Input = True, ot_Fields =
       [must ''current_password'' KindString, must ''new_password'' KindString]\<rparr>,
     \<lparr>ot_Name = ''EmailInput'', ot_Input = True, ot_Fields =
       [must ''email'' KindString]\<rparr>,
     \<lparr>ot_Name = ''PasswordInput'', ot_Input = True, ot_Fields =
       [must ''password'' KindString]\<rparr>,
     \<lparr>ot_Name = ''TokenInput'', ot_Input = True, ot_Fields =
       [must ''name'' KindString, may ''org'' KindString, may ''zone_id'' KindInt,
        may ''capability'' KindString, may ''role'' KindString, may ''scope'' KindString,
        may ''expires_in_days'' KindInt]\<rparr>]"

definition org_inputs :: "ObjectType list" where
  "org_inputs =
    [\<lparr>ot_Name = ''CreateOrgInput'', ot_Input = True, ot_Fields =
       [must ''slug'' KindString, must ''name'' KindString, may ''description'' KindString,
        may ''website'' KindString, may ''location'' KindString, may ''invite'' KindString]\<rparr>,
     \<lparr>ot_Name = ''OrgProfileInput'', ot_Input = True, ot_Fields =
       [may ''name'' KindString, may ''description'' KindString, may ''website'' KindString,
        may ''location'' KindString]\<rparr>,
     \<lparr>ot_Name = ''OrgVisibilityInput'', ot_Input = True, ot_Fields =
       [must ''visibility'' KindString]\<rparr>,
     \<lparr>ot_Name = ''TransferOrgInput'', ot_Input = True, ot_Fields =
       [must ''owner_id'' KindInt]\<rparr>,
     \<lparr>ot_Name = ''MemberRoleInput'', ot_Input = True, ot_Fields =
       [must ''role'' KindString]\<rparr>,
     \<lparr>ot_Name = ''CreateInviteInput'', ot_Input = True, ot_Fields =
       [may ''email'' KindString, must ''role'' KindString, may ''max_uses'' KindInt]\<rparr>,
     \<lparr>ot_Name = ''ZoneGrantInput'', ot_Input = True, ot_Fields =
       [must ''member_id'' KindInt, must ''permission'' KindString]\<rparr>,
     \<lparr>ot_Name = ''AddDomainInput'', ot_Input = True, ot_Fields =
       [must ''domain'' KindString, may ''purpose'' KindString]\<rparr>,
     \<lparr>ot_Name = ''DomainPurposeInput'', ot_Input = True, ot_Fields =
       [must ''purpose'' KindString]\<rparr>,
     \<lparr>ot_Name = ''SuspendDomainInput'', ot_Input = True, ot_Fields =
       [may ''reason'' KindString]\<rparr>]"

definition apiTypes :: "ObjectType list" where
  "apiTypes = account_types @ org_types @ result_types @ account_inputs @ org_inputs"

section \<open>Routes\<close>

datatype Scope = ScopeAPI | ScopeRoot

datatype auth_kind = AuthNone | AuthBearer | AuthSession

record api_route =
  rt_ID :: string
  rt_Method :: string
  rt_Scope :: Scope
  rt_Path :: string
  rt_Auth :: auth_kind
  rt_RequestType :: string
  rt_ResponseType :: string
  rt_ResponseList :: bool
  rt_handler :: "Handler \<Rightarrow> api_call \<Rightarrow> api"

definition auth_routes :: "api_route list" where
  "auth_routes =
    [\<lparr>rt_ID = ''users.register'', rt_Method = ''POST'', rt_Scope = ScopeAPI, rt_Path = ''/server/auth/register'',
       rt_Auth = AuthNone, rt_RequestType = ''RegisterInput'', rt_ResponseType = ''User'', rt_ResponseList = False,
       rt_handler = apiRegister\<rparr>,
     \<lparr>rt_ID = ''users.register.invite'', rt_Method = ''POST'', rt_Scope = ScopeAPI, rt_Path = ''/server/auth/invite/user/{code}'',
       rt_Auth = AuthNone, rt_RequestType = ''RegisterInput'', rt_ResponseType = ''User'', rt_ResponseList = False,
       rt_handler = apiRegisterWithInvite\<rparr>,
     \<lparr>rt_ID = ''users.login'', rt_Method = ''POST'', rt_Scope = ScopeAPI, rt_Path = ''/server/auth/login'',
       rt_Auth = AuthNone, rt_RequestType = ''SignInInput'', rt_ResponseType = ''SignInResult'', rt_ResponseList = False,
       rt_handler = apiLogin\<rparr>,
     \<lparr>rt_ID = ''users.twofactor.challenge'', rt_Method = ''POST'', rt_Scope = ScopeAPI, rt_Path = ''/server/auth/2fa'',
       rt_Auth = AuthNone, rt_RequestType = ''TwoFactorCodeInput'', rt_ResponseType = ''SignInResult'', rt_ResponseList = False,
       rt_handler = apiTwoFactorChallenge\<rparr>,
     \<lparr>rt_ID = ''users.logout'', rt_Method = ''POST'', rt_Scope = ScopeAPI, rt_Path = ''/server/auth/logout'',
       rt_Auth = AuthSession, rt_RequestType = [], rt_ResponseType = ''SignOutResult'', rt_ResponseList = False,
       rt_handler = apiLogout\<rparr>,
     \<lparr>rt_ID = ''users.password.forgot'', rt_Method = ''POST'', rt_Scope = ScopeAPI, rt_Path = ''/server/auth/password/forgot'',
       rt_Auth = AuthNone, rt_RequestType = ''ForgotPasswordInput'', rt_ResponseType = ''MailSentResult'', rt_ResponseList = False,
       rt_handler = apiPasswordForgot\<rparr>,
     \<lparr>rt_ID = ''users.password.reset'', rt_Method = ''POST'', rt_Scope = ScopeAPI, rt_Path = ''/server/auth/password/reset'',
       rt_Auth = AuthNone, rt_RequestType = ''ResetPasswordInput'', rt_ResponseType = ''UpdateResult'', rt_ResponseList = False,
       rt_handler = apiPasswordReset\<rparr>,
     \<lparr>rt_ID = ''users.email.verify'', rt_Method = ''POST'', rt_Scope = ScopeAPI, rt_Path = ''/server/auth/verify/{code}'',
       rt_Auth = AuthNone, rt_RequestType = [], rt_ResponseType = ''UpdateResult'', rt_ResponseList = False,
       rt_handler = apiEmailVerify\<rparr>]"

definition user_routes :: "api_route list" where
  "user_routes =
    [\<lparr>rt_ID = ''users.me'', rt_Method = ''GET'', rt_Scope = ScopeAPI, rt_Path = ''/users'',
       rt_Auth = AuthBearer, rt_RequestType = [], rt_ResponseType = ''User'', rt_ResponseList = False,
       rt_handler = apiMe\<rparr>,
     \<lparr>rt_ID = ''users.profile.update'', rt_Method = ''PATCH'', rt_Scope = ScopeAPI, rt_Path = ''/users'',
       rt_Auth = AuthBearer, rt_RequestType = ''ProfileInput'', rt_ResponseType = ''User'', rt_ResponseList = False,
       rt_handler = apiUpdateProfile\<rparr>,
     \<lparr>rt_ID = ''users.preferences'', rt_Method = ''GET'', rt_Scope = ScopeAPI, rt_Path = ''/users/settings'',
       rt_Auth = AuthBearer, rt_RequestType = [], rt_ResponseType = ''Preferences'', rt_ResponseList = False,
       rt_handler = apiPreferences\<rparr>,
     \<lparr>rt_ID = ''users.preferences.update'', rt_Method = ''PATCH'', rt_Scope = ScopeAPI, rt_Path = ''/users/settings'',
       rt_Auth = AuthBearer, rt_RequestType = ''PreferencesInput'', rt_ResponseType = ''Preferences'', rt_ResponseList = False,
       rt_handler = apiSavePreferences\<rparr>,
     \<lparr>rt_ID = ''users.security'', rt_Method = ''GET'', rt_Scope = ScopeAPI, rt_Path = ''/users/security'',
       rt_Auth = AuthBearer, rt_RequestType = [], rt_ResponseType = ''SecurityOverview'', rt_ResponseList = False,
       rt_handler = apiSecurity\<rparr>,
     \<lparr>rt_ID = ''users.password.change'', rt_Method = ''POST'', rt_Scope = ScopeAPI, rt_Path = ''/users/security/password'',
       rt_Auth = AuthSession, rt_RequestType = ''ChangePasswordInput'', rt_ResponseType = ''UpdateResult'', rt_ResponseList = False,
       rt_handler = apiChangePassword\<rparr>,
     \<lparr>rt_ID = ''users.email.change'', rt_Method = ''POST'', rt_Scope = ScopeAPI, rt_Path = ''/users/security/email'',
       rt_Auth = AuthSession, rt_RequestType = ''EmailInput'', rt_ResponseType = ''MailSentResult'', rt_ResponseList = False,
       rt_handler = apiStartEmailVerification\<rparr>,
     \<lparr>rt_ID = ''users.twofactor.start'', rt_Method = ''POST'', rt_Scope = ScopeAPI, rt_Path = ''/users/security/2fa'',
       rt_Auth = AuthSession, rt_RequestType = [], rt_ResponseType = ''TwoFactorEnrollment'', rt_ResponseList = False,
       rt_handler = apiTwoFactorStart\<rparr>,
     \<lparr>rt_ID = ''users.twofactor.confirm'', rt_Method = ''POST'', rt_Scope = ScopeAPI, rt_Path = ''/users/security/2fa/confirm'',
       rt_Auth = AuthSession, rt_RequestType = ''TwoFactorCodeInput'', rt_ResponseType = ''TwoFactorState'', rt_ResponseList = False,
       rt_handler = apiTwoFactorConfirm\<rparr>,
     \<lparr>rt_ID = ''users.twofactor.disable'', rt_Method = ''DELETE'', rt_Scope = ScopeAPI, rt_Path = ''/users/security/2fa'',
       rt_Auth = AuthSession, rt_RequestType = ''PasswordInput'', rt_ResponseType = ''TwoFactorState'', rt_ResponseList = False,
       rt_handler = apiTwoFactorDisable\<rparr>,
     \<lparr>rt_ID = ''users.sessions'', rt_Method = ''GET'', rt_Scope = ScopeAPI, rt_Path = ''/users/sessions'',
       rt_Auth = AuthBearer, rt_RequestType = [], rt_ResponseType = ''SessionInfo'', rt_ResponseList = True,
       rt_handler = apiSessions\<rparr>,
     \<lparr>rt_ID = ''users.sessions.revoke'', rt_Method = ''DELETE'', rt_Scope = ScopeAPI, rt_Path = ''/users/sessions/{session_id}'',
       rt_Auth = AuthBearer, rt_RequestType = [], rt_ResponseType = ''RevokeResult'', rt_ResponseList = False,
       rt_handler = apiRevokeSession\<rparr>]"

definition token_routes :: "api_route list" where
  "token_routes =
    [\<lparr>rt_ID = ''users.tokens'', rt_Method = ''GET'', rt_Scope = ScopeAPI, rt_Path = ''/users/tokens'',
       rt_Auth = AuthBearer, rt_RequestType = [], rt_ResponseType = ''Token'', rt_ResponseList = True,
       rt_handler = apiListTokens\<rparr>,
     \<lparr>rt_ID = ''users.tokens.issue'', rt_Method = ''POST'', rt_Scope = ScopeAPI, rt_Path = ''/users/tokens'',
       rt_Auth = AuthSession, rt_RequestType = ''TokenInput'', rt_ResponseType = ''IssuedToken'', rt_ResponseList = False,
       rt_handler = apiIssueToken\<rparr>,
     \<lparr>rt_ID = ''users.tokens.revoke'', rt_Method = ''DELETE'', rt_Scope = ScopeAPI, rt_Path = ''/users/tokens/{token_id}'',
       rt_Auth = AuthSession, rt_RequestType = [], rt_ResponseType = ''RevokeResult'', rt_ResponseList = False,
       rt_handler = apiRevokeToken\<rparr>,
     \<lparr>rt_ID = ''users.invites.accept'', rt_Method = ''POST'', rt_Scope = ScopeAPI, rt_Path = ''/users/invites/{code}'',
       rt_Auth = AuthSession, rt_RequestType = [], rt_ResponseType = ''Org'', rt_ResponseList = False,
       rt_handler = apiAcceptInvite\<rparr>,
     \<lparr>rt_ID = ''users.profile'', rt_Method = ''GET'', rt_Scope = ScopeAPI, rt_Path = ''/users/{username}'',
       rt_Auth = AuthNone, rt_RequestType = [], rt_ResponseType = ''PublicProfile'', rt_ResponseList = False,
       rt_handler = apiUserProfile\<rparr>]"

definition org_routes :: "api_route list" where
  "org_routes =
    [\<lparr>rt_ID = ''orgs.list'', rt_Method = ''GET'', rt_Scope = ScopeAPI, rt_Path = ''/orgs'',
       rt_Auth = AuthBearer, rt_RequestType = [], rt_ResponseType = ''Org'', rt_ResponseList = True,
       rt_handler = apiListOrgs\<rparr>,
     \<lparr>rt_ID = ''orgs.create'', rt_Method = ''POST'', rt_Scope = ScopeAPI, rt_Path = ''/orgs'',
       rt_Auth = AuthSession, rt_RequestType = ''CreateOrgInput'', rt_ResponseType = ''Org'', rt_ResponseList = False,
       rt_handler = apiCreateOrg\<rparr>,
     \<lparr>rt_ID = ''orgs.read'', rt_Method = ''GET'', rt_Scope = ScopeAPI, rt_Path = ''/orgs/{slug}'',
       rt_Auth = AuthBearer, rt_RequestType = [], rt_ResponseType = ''OrgAccess'', rt_ResponseList = False,
       rt_handler = apiOrg\<rparr>,
     \<lparr>rt_ID = ''orgs.update'', rt_Method = ''PATCH'', rt_Scope = ScopeAPI, rt_Path = ''/orgs/{slug}'',
       rt_Auth = AuthBearer, rt_RequestType = ''OrgProfileInput'', rt_ResponseType = ''Org'', rt_ResponseList = False,
       rt_handler = apiUpdateOrg\<rparr>,
     \<lparr>rt_ID = ''orgs.delete'', rt_Method = ''DELETE'', rt_Scope = ScopeAPI, rt_Path = ''/orgs/{slug}'',
       rt_Auth = AuthBearer, rt_RequestType = [], rt_ResponseType = ''DeleteResult'', rt_ResponseList = False,
       rt_handler = apiDeleteOrg\<rparr>,
     \<lparr>rt_ID = ''orgs.settings'', rt_Method = ''GET'', rt_Scope = ScopeAPI, rt_Path = ''/orgs/{slug}/settings'',
       rt_Auth = AuthBearer, rt_RequestType = [], rt_ResponseType = ''OrgSettings'', rt_ResponseList = False,
       rt_handler = apiOrgSettings\<rparr>,
     \<lparr>rt_ID = ''orgs.settings.update'', rt_Method = ''PATCH'', rt_Scope = ScopeAPI, rt_Path = ''/orgs/{slug}/settings'',
       rt_Auth = AuthBearer, rt_RequestType = ''OrgVisibilityInput'', rt_ResponseType = ''VisibilityResult'', rt_ResponseList = False,
       rt_handler = apiUpdateOrgSettings\<rparr>,
     \<lparr>rt_ID = ''orgs.transfer'', rt_Method = ''POST'', rt_Scope = ScopeAPI, rt_Path = ''/orgs/{slug}/transfer'',
       rt_Auth = AuthBearer, rt_RequestType = ''TransferOrgInput'', rt_ResponseType = ''TransferResult'', rt_ResponseList = False,
       rt_handler = apiTransferOrg\<rparr>,
     \<lparr>rt_ID = ''orgs.members'', rt_Method = ''GET'', rt_Scope = ScopeAPI, rt_Path = ''/orgs/{slug}/members'',
       rt_Auth = AuthBearer, rt_RequestType = [], rt_ResponseType = ''Member'', rt_ResponseList = True,
       rt_handler = apiMembers\<rparr>,
     \<lparr>rt_ID = ''orgs.members.role'', rt_Method = ''PATCH'', rt_Scope = ScopeAPI, rt_Path = ''/orgs/{slug}/members/{member_id}'',
       rt_Auth = AuthBearer, rt_RequestType = ''MemberRoleInput'', rt_ResponseType = ''MemberRoleResult'', rt_ResponseList = False,
       rt_handler = apiSetMemberRole\<rparr>,
     \<lparr>rt_ID = ''orgs.members.remove'', rt_Method = ''DELETE'', rt_Scope = ScopeAPI, rt_Path = ''/orgs/{slug}/members/{member_id}'',
       rt_Auth = AuthBearer, rt_RequestType = [], rt_ResponseType = ''RemoveResult'', rt_ResponseList = False,
       rt_handler = apiRemoveMember\<rparr>]"

definition invite_routes :: "api_route list" where
  "invite_routes =
    [\<lparr>rt_ID = ''orgs.invites'', rt_Method = ''GET'', rt_Scope = ScopeAPI, rt_Path = ''/orgs/{slug}/invites'',
       rt_Auth = AuthBearer, rt_RequestType = [], rt_ResponseType = ''Invite'', rt_ResponseList = True,
       rt_handler = apiListInvites\<rparr>,
     \<lparr>rt_ID = ''orgs.invites.create'', rt_Method = ''POST'', rt_Scope = ScopeAPI, rt_Path = ''/orgs/{slug}/invites'',
       rt_Auth = AuthBearer, rt_RequestType = ''CreateInviteInput'', rt_ResponseType = ''IssuedInvite'', rt_ResponseList = False,
       rt_handler = apiCreateInvite\<rparr>,
     \<lparr>rt_ID = ''orgs.invites.revoke'', rt_Method = ''DELETE'', rt_Scope = ScopeAPI, rt_Path = ''/orgs/{slug}/invites/{invite_id}'',
       rt_Auth = AuthBearer, rt_RequestType = [], rt_ResponseType = ''RevokeResult'', rt_ResponseList = False,
       rt_handler = apiRevokeInvite\<rparr>,
     \<lparr>rt_ID = ''orgs.audit'', rt_Method = ''GET'', rt_Scope = ScopeAPI, rt_Path = ''/orgs/{slug}/audit'',
       rt_Auth = AuthBearer, rt_RequestType = [], rt_ResponseType = ''AuditEntry'', rt_ResponseList = True,
       rt_handler = apiOrgAudit\<rparr>,
     \<lparr>rt_ID = ''orgs.tokens'', rt_Method = ''GET'', rt_Scope = ScopeAPI, rt_Path = ''/orgs/{slug}/tokens'',
       rt_Auth = AuthBearer, rt_RequestType = [], rt_ResponseType = ''Token'', rt_ResponseList = True,
       rt_handler = apiListOrgTokens\<rparr>,
     \<lparr>rt_ID = ''orgs.tokens.revoke'', rt_Method = ''DELETE'', rt_Scope = ScopeAPI, rt_Path = ''/orgs/{slug}/tokens/{token_id}'',
       rt_Auth = AuthBearer, rt_RequestType = [], rt_ResponseType = ''RevokeResult'', rt_ResponseList = False,
       rt_handler = apiRevokeOrgToken\<rparr>,
     \<lparr>rt_ID = ''orgs.zones.grant'', rt_Method = ''POST'', rt_Scope = ScopeAPI, rt_Path = ''/orgs/{slug}/zones/{zone_id}/grants'',
       rt_Auth = AuthBearer, rt_RequestType = ''ZoneGrantInput'', rt_ResponseType = ''ZoneGrant'', rt_ResponseList = False,
       rt_handler = apiGrantZone\<rparr>,
     \<lparr>rt_ID = ''orgs.zones.revoke'', rt_Method = ''DELETE'', rt_Scope = ScopeAPI, rt_Path = ''/orgs/{slug}/zones/{zone_id}/grants/{member_id}'',
       rt_Auth = AuthBearer, rt_RequestType = [], rt_ResponseType = ''RevokeResult'', rt_ResponseList = False,
       rt_handler = apiRevokeZone\<rparr>]"

definition domain_routes :: "api_route list" where
  "domain_routes =
    [\<lparr>rt_ID = ''orgs.domains'', rt_Method = ''GET'', rt_Scope = ScopeAPI, rt_Path = ''/orgs/{slug}/domains'',
       rt_Auth = AuthBearer, rt_RequestType = [], rt_ResponseType = ''Domain'', rt_ResponseList = True,
       rt_handler = apiListDomains\<rparr>,
     \<lparr>rt_ID = ''orgs.domains.add'', rt_Method = ''POST'', rt_Scope = ScopeAPI, rt_Path = ''/orgs/{slug}/domains'',
       rt_Auth = AuthBearer, rt_RequestType = ''AddDomainInput'', rt_ResponseType = ''Domain'', rt_ResponseList = False,
       rt_handler = apiAddDomain\<rparr>,
     \<lparr>rt_ID = ''orgs.domains.update'', rt_Method = ''PATCH'', rt_Scope = ScopeAPI, rt_Path = ''/orgs/{slug}/domains/{domain_id}'',
       rt_Auth = AuthBearer, rt_RequestType = ''DomainPurposeInput'', rt_ResponseType = ''DomainPurposeResult'', rt_ResponseList = False,
       rt_handler = apiUpdateDomain\<rparr>,
     \<lparr>rt_ID = ''orgs.domains.remove'', rt_Method = ''DELETE'', rt_Scope = ScopeAPI, rt_Path = ''/orgs/{slug}/domains/{domain_id}'',
       rt_Auth = AuthBearer, rt_RequestType = [], rt_ResponseType = ''RemoveResult'', rt_ResponseList = False,
       rt_handler = apiRemoveDomain\<rparr>,
     \<lparr>rt_ID = ''orgs.domains.challenge'', rt_Method = ''GET'', rt_Scope = ScopeAPI, rt_Path = ''/orgs/{slug}/domains/{domain_id}/verification'',
       rt_Auth = AuthBearer, rt_RequestType = [], rt_ResponseType = ''DomainChallenge'', rt_ResponseList = False,
       rt_handler = apiDomainVerification\<rparr>,
     \<lparr>rt_ID = ''orgs.domains.verify'', rt_Method = ''POST'', rt_Scope = ScopeAPI, rt_Path = ''/orgs/{slug}/domains/{domain_id}/verify'',
       rt_Auth = AuthBearer, rt_RequestType = [], rt_ResponseType = ''Domain'', rt_ResponseList = False,
       rt_handler = apiVerifyDomain\<rparr>,
     \<lparr>rt_ID = ''orgs.domains.suspend'', rt_Method = ''POST'', rt_Scope = ScopeAPI, rt_Path = ''/orgs/{slug}/domains/{domain_id}/suspend'',
       rt_Auth = AuthBearer, rt_RequestType = ''SuspendDomainInput'', rt_ResponseType = ''SuspendResult'', rt_ResponseList = False,
       rt_handler = apiSuspendDomain\<rparr>]"

definition apiRoutes :: "api_route list" where
  "apiRoutes = auth_routes @ user_routes @ token_routes @ org_routes @ invite_routes @ domain_routes"

definition FullPath :: "string \<Rightarrow> api_route \<Rightarrow> string" where
  "FullPath apiBase rt =
     (if rt_Scope rt = ScopeRoot then rt_Path rt else TrimSuffix apiBase ''/'' @ rt_Path rt)"

definition IsMutation :: "api_route \<Rightarrow> bool" where
  "IsMutation rt \<longleftrightarrow> rt_Method rt \<noteq> ''GET'' \<and> rt_Method rt \<noteq> ''HEAD''"

section \<open>The mux\<close>

text \<open>
  The mux of the library on the paths the chain lets through, which are clean and have no escaped slash: a
  segment in braces matches any one segment that is not empty, a route for \<open>GET\<close> also serves \<open>HEAD\<close>, and of two
  routes that match the one with a literal at the first difference wins.
\<close>

datatype segment = Lit string | Wild string

definition seg_pattern :: "string \<Rightarrow> segment" where
  "seg_pattern s = (if HasPrefix s ''{'' then Wild (butlast (tl s)) else Lit s)"

definition path_pattern :: "string \<Rightarrow> segment list" where
  "path_pattern path = map seg_pattern (split_on (CHR ''/'') (tl path))"

fun seg_match :: "segment \<Rightarrow> string \<Rightarrow> bool" where
  "seg_match (Lit l) s \<longleftrightarrow> l = s"
| "seg_match (Wild x) s \<longleftrightarrow> s \<noteq> []"

fun more_specific :: "segment list \<Rightarrow> segment list \<Rightarrow> bool" where
  "more_specific (Lit _ # ps) (Wild _ # qs) = True"
| "more_specific (Wild _ # ps) (Lit _ # qs) = False"
| "more_specific (_ # ps) (_ # qs) = more_specific ps qs"
| "more_specific _ _ = False"

definition route_matches :: "string \<Rightarrow> string \<Rightarrow> string \<Rightarrow> api_route \<Rightarrow> bool" where
  "route_matches base meth path rt \<longleftrightarrow>
     (meth = rt_Method rt \<or> meth = ''HEAD'' \<and> rt_Method rt = ''GET'')
     \<and> list_all2 seg_match (path_pattern (FullPath base rt)) (split_on (CHR ''/'') (tl path))"

definition mux_route :: "string \<Rightarrow> string \<Rightarrow> string \<Rightarrow> api_route option" where
  "mux_route base meth path =
     (case filter (route_matches base meth path) apiRoutes of
        [] \<Rightarrow> None
      | rt # rts \<Rightarrow> Some (fold (\<lambda>r best.
          if more_specific (path_pattern (FullPath base r)) (path_pattern (FullPath base best)) then r else best) rts rt))"

definition path_values :: "segment list \<Rightarrow> string list \<Rightarrow> string \<Rightarrow> string" where
  "path_values pattern segs name =
     (case map_of (concat (map2 (\<lambda>p s. case p of Wild x \<Rightarrow> [(x, s)] | Lit _ \<Rightarrow> []) pattern segs)) name of
        None \<Rightarrow> [] | Some s \<Rightarrow> s)"

definition API :: "Handler \<Rightarrow> api_call \<Rightarrow> api" where
  "API h c =
     (let base = APIBasePath (h_config h); path = req_Path (ac_Request c)
      in case mux_route base (req_Method (ac_Request c)) path of
           None \<Rightarrow> notFound
         | Some rt \<Rightarrow>
             rt_handler rt h (c\<lparr>PathValue := path_values (path_pattern (FullPath base rt)) (split_on (CHR ''/'') (tl path))\<rparr>))"

section \<open>What the documents promise\<close>

definition find_type :: "string \<Rightarrow> ObjectType option" where
  "find_type name = find (\<lambda>t. ot_Name t = name) apiTypes"

text \<open>The fields and kinds of the body a route documents.\<close>

definition documented_input :: "api_route \<Rightarrow> (string \<times> Kind) list option" where
  "documented_input rt =
     (if rt_RequestType rt = [] then None
      else map_option (\<lambda>t. map (\<lambda>f. (fl_Name f, fl_Kind f)) (ot_Fields t)) (find_type (rt_RequestType rt)))"

fun kind_ok :: "Kind \<Rightarrow> json \<Rightarrow> bool" where
  "kind_ok KindString (JStr _) = True"
| "kind_ok KindInt (JInt _) = True"
| "kind_ok KindBool (JBool _) = True"
| "kind_ok KindTime (JTime _) = True"
| "kind_ok _ _ = False"

text \<open>
  A payload has every required field, and no field but the documented ones, each of its kind; the fuel is the
  depth of the types, of which an object inside an object is the deepest.
\<close>

fun conforms :: "nat \<Rightarrow> string \<Rightarrow> json \<Rightarrow> bool" where
  "conforms 0 name j = False"
| "conforms (Suc n) name (JObj kvs) =
     (case find_type name of
        None \<Rightarrow> False
      | Some t \<Rightarrow>
          list_all (\<lambda>f. fl_Required f \<longrightarrow> fl_Name f \<in> fst ` set kvs) (ot_Fields t)
          \<and> list_all (\<lambda>(k, v). list_ex (\<lambda>f. fl_Name f = k \<and>
                (case v of
                   JList vs \<Rightarrow> fl_List f \<and> list_all (\<lambda>x. if fl_Ref f = [] then kind_ok (fl_Kind f) x else conforms n (fl_Ref f) x) vs
                 | _ \<Rightarrow> \<not> fl_List f \<and> (if fl_Ref f = [] then kind_ok (fl_Kind f) v else conforms n (fl_Ref f) v)))
              (ot_Fields t)) kvs)"
| "conforms (Suc n) name _ = False"

definition payload_ok :: "api_route \<Rightarrow> json \<Rightarrow> bool" where
  "payload_ok rt j \<longleftrightarrow>
     (if rt_ResponseList rt then (case j of JList js \<Rightarrow> list_all (conforms 3 (rt_ResponseType rt)) js | _ \<Rightarrow> False)
      else conforms 3 (rt_ResponseType rt) j)"

end
