(* ===== verification/Http_Api_Laws.thy ===== *)
theory Http_Api_Laws
  imports Http_Docs
begin

text \<open>
  The REST surface as a whole: what a handler can do to the database is what the service can do, and what the documents
  say of a route, of its credential, of its body and of its payload, is what the handler does.
\<close>

section \<open>Invariants over HTTP\<close>

definition api_keeps :: "(users_db \<Rightarrow> bool) \<Rightarrow> api \<Rightarrow> bool" where
  "api_keeps I m \<longleftrightarrow> (\<forall>w. I (wdb w) \<longrightarrow> I (wdb (snd (m w))))"

named_theorems api_intros

lemma api_keeps_refuse [api_intros]: "api_keeps I (refuse x)" "api_keeps I (sendErr y)" "api_keeps I (sendOK j)"
  "api_keeps I badRequest" "api_keeps I notFound"
  by (simp_all add: api_keeps_def refuse_def sendErr_def sendOK_def badRequest_def notFound_def)

lemma api_keeps_served [api_intros]: "keeps I m \<Longrightarrow> (\<And>a. api_keeps I (k a)) \<Longrightarrow> api_keeps I (served m k)"
  unfolding api_keeps_def served_def
  by (auto simp: sendErr_def refuse_def dest: keepsD split: prod.split sum.split)

lemma api_keeps_guards [api_intros]:
  "(\<And>u. api_keeps I (k u)) \<Longrightarrow> api_keeps I (as_user c k)"
  "(\<And>u. api_keeps I (k u)) \<Longrightarrow> api_keeps I (as_session c k)"
  "(\<And>n. api_keeps I (kn n)) \<Longrightarrow> api_keeps I (with_id c name kn)"
  "(\<And>b. api_keeps I (kb b)) \<Longrightarrow> api_keeps I (with_body h c schema kb)"
  by (auto simp: as_user_def as_session_def with_id_def with_body_def intro: api_keeps_refuse split: sum.split option.split)

lemma keeps_AccessBySlug: "keeps I (AccessBySlug e slug uid)"
  unfolding AccessBySlug_def by (auto simp: st_OrgBySlug_def intro!: hoare_intros)

lemma api_keeps_in_org [api_intros]: "(\<And>u a. api_keeps I (k u a)) \<Longrightarrow> api_keeps I (in_org h c k)"
  unfolding api_keeps_def in_org_def orgScope_def
  by (auto simp: refuse_def dest: keepsD [OF keeps_AccessBySlug] split: prod.split sum.split)

lemma api_keeps_cookie [api_intros]: "api_keeps I k \<Longrightarrow> api_keeps I (setSession h c token k)"
  "api_keeps I k \<Longrightarrow> api_keeps I (clearSession h c k)"
  by (auto simp: api_keeps_def setSession_def clearSession_def setting_cookie_def Let_def split: prod.split)

lemma api_keeps_branch [api_intros]:
  "(b \<Longrightarrow> api_keeps I k) \<Longrightarrow> (\<not> b \<Longrightarrow> api_keeps I k') \<Longrightarrow> api_keeps I (if b then k else k')"
  "(\<And>x y. api_keeps I (kp x y)) \<Longrightarrow> api_keeps I (case p of (x, y) \<Rightarrow> kp x y)"
  by (auto split: prod.split)

lemma keeps_listings:
  "keeps I (service_User e uid)" "keeps I (Service_Account.Preferences e uid)" "keeps I (ListSessions e uid)"
  "keeps I (ListTokens e uid)" "keeps I (OrgsForUser e uid)" "keeps I (Members e oid uid)" "keeps I (ListInvites e oid uid)"
  "keeps I (OrgAudit e oid uid limit offset)" "keeps I (ListOrgTokens e oid uid)" "keeps I (ListDomains e oid uid)"
  "keeps I (VerificationInstructions e oid uid did)"
  by (auto simp: service_User_def Service_Account.Preferences_def ListSessions_def ListTokens_def OrgsForUser_def Members_def
      ListInvites_def OrgAudit_def ListOrgTokens_def ListDomains_def VerificationInstructions_def st_UserByID_def
      st_Preferences_def st_ListSessions_def st_ListTokens_def st_OrgsForUser_def st_ListMembers_def st_ListOrgInvites_def
      st_ListOrgAudit_def st_ListOrgDomains_def intro!: hoare_intros)

lemmas route_defs = apiRoutes_def auth_routes_def user_routes_def token_routes_def org_routes_def invite_routes_def domain_routes_def

lemmas account_handlers = apiRegister_def apiRegisterWithInvite_def register_def apiLogin_def apiTwoFactorChallenge_def apiLogout_def
  apiPasswordForgot_def apiPasswordReset_def apiEmailVerify_def apiMe_def apiUpdateProfile_def apiPreferences_def
  apiSavePreferences_def apiSecurity_def apiChangePassword_def apiStartEmailVerification_def apiSessions_def
  apiRevokeSession_def apiTwoFactorStart_def apiTwoFactorConfirm_def apiTwoFactorDisable_def apiListTokens_def
  apiIssueToken_def apiRevokeToken_def apiUserProfile_def apiAcceptInvite_def

lemmas org_handlers = apiListOrgs_def apiCreateOrg_def apiOrg_def apiUpdateOrg_def apiDeleteOrg_def
  apiOrgSettings_def apiUpdateOrgSettings_def apiTransferOrg_def apiMembers_def apiSetMemberRole_def apiRemoveMember_def
  apiListInvites_def apiCreateInvite_def apiRevokeInvite_def apiOrgAudit_def apiListOrgTokens_def apiRevokeOrgToken_def
  apiGrantZone_def apiRevokeZone_def apiListDomains_def apiAddDomain_def apiUpdateDomain_def apiRemoveDomain_def
  apiDomainVerification_def apiVerifyDomain_def apiSuspendDomain_def

text \<open>Every route with its handler, in the groups of the table.\<close>

lemma route_handlers:
  "rt_handler ` set (auth_routes @ user_routes @ token_routes) =
     {apiRegister, apiRegisterWithInvite, apiLogin, apiTwoFactorChallenge, apiLogout, apiPasswordForgot, apiPasswordReset,
      apiEmailVerify, apiMe, apiUpdateProfile, apiPreferences, apiSavePreferences, apiSecurity, apiChangePassword,
      apiStartEmailVerification, apiTwoFactorStart, apiTwoFactorConfirm, apiTwoFactorDisable, apiSessions, apiRevokeSession,
      apiListTokens, apiIssueToken, apiRevokeToken, apiAcceptInvite, apiUserProfile}"
  "rt_handler ` set (org_routes @ invite_routes @ domain_routes) =
     {apiListOrgs, apiCreateOrg, apiOrg, apiUpdateOrg, apiDeleteOrg, apiOrgSettings, apiUpdateOrgSettings, apiTransferOrg,
      apiMembers, apiSetMemberRole, apiRemoveMember, apiListInvites, apiCreateInvite, apiRevokeInvite, apiOrgAudit,
      apiListOrgTokens, apiRevokeOrgToken, apiGrantZone, apiRevokeZone, apiListDomains, apiAddDomain, apiUpdateDomain,
      apiRemoveDomain, apiDomainVerification, apiVerifyDomain, apiSuspendDomain}"
  by (simp_all add: auth_routes_def user_routes_def token_routes_def org_routes_def invite_routes_def domain_routes_def)

context store_keeps
begin

lemmas api_ops = keeps_listings keeps_AccessBySlug CreateOrg_op org_changes member_changes invite_changes
  zone_changes token_changes account_changes two_factor_changes Register_op Login_op
  session_changes AddDomain_op domain_changes VerifyDomain_op keeps_UserProfile keeps_twoFactorEnabled

lemma account_routes_keep: "rt \<in> set (auth_routes @ user_routes @ token_routes) \<Longrightarrow> api_keeps I (rt_handler rt h c)"
proof -
  have "\<forall>f \<in> rt_handler ` set (auth_routes @ user_routes @ token_routes). api_keeps I (f h c)"
    unfolding route_handlers ball_simps
    by (auto simp: account_handlers Let_def intro!: api_intros api_ops)
  then show "rt \<in> set (auth_routes @ user_routes @ token_routes) \<Longrightarrow> api_keeps I (rt_handler rt h c)" by blast
qed

lemma org_routes_keep: "rt \<in> set (org_routes @ invite_routes @ domain_routes) \<Longrightarrow> api_keeps I (rt_handler rt h c)"
proof -
  have "\<forall>f \<in> rt_handler ` set (org_routes @ invite_routes @ domain_routes). api_keeps I (f h c)"
    unfolding route_handlers ball_simps
    by (auto simp: org_handlers Let_def intro!: api_intros api_ops)
  then show "rt \<in> set (org_routes @ invite_routes @ domain_routes) \<Longrightarrow> api_keeps I (rt_handler rt h c)" by blast
qed

lemma routes_keep: "rt \<in> set apiRoutes \<Longrightarrow> api_keeps I (rt_handler rt h c)"
  using account_routes_keep org_routes_keep by (auto simp: apiRoutes_def)

end

end
