(* ===== verification/Config_Defaults.thy ===== *)
theory Config_Defaults
  imports Config_Types
begin

text \<open>
  The document of a fresh installation (\<^verbatim>\<open>src/config/defaults.go\<close>), one definition per section of the
  literal in \<open>DefaultConfig\<close>.
\<close>

definition DefaultApplicationName :: string where "DefaultApplicationName = ''redxt''"
definition DefaultApplicationTagline :: string where "DefaultApplicationTagline = ''The Complete DNS Server''"
definition DefaultMode :: string where "DefaultMode = ''production''"
definition ValidModes :: "string list" where "ValidModes = [''production'', ''development'']"
definition DefaultHSTSMaxAge :: int where "DefaultHSTSMaxAge = 63072000"
definition DefaultRegistrationMode :: string where "DefaultRegistrationMode = ''invite''"
definition DefaultOrgCreationMode :: string where "DefaultOrgCreationMode = ''open''"
definition DefaultInviteExpirationDays :: int where "DefaultInviteExpirationDays = 7"
definition DefaultPasswordMinLength :: int where "DefaultPasswordMinLength = 8"
definition DefaultMaxFailedLogins :: int where "DefaultMaxFailedLogins = 5"
definition DefaultMaxTokensPerUser :: int where "DefaultMaxTokensPerUser = 10"
definition DefaultTokenExpirationDays :: int where "DefaultTokenExpirationDays = 90"
definition DefaultOrgMemberRole :: string where "DefaultOrgMemberRole = ''viewer''"
definition DefaultSchedulerTimezone :: string where "DefaultSchedulerTimezone = ''America/New_York''"
definition DefaultBackupDiskThreshold :: int where "DefaultBackupDiskThreshold = 90"
definition DefaultUpdateBranch :: string where "DefaultUpdateBranch = ''stable''"
definition DefaultNotificationPosition :: string where "DefaultNotificationPosition = ''top-right''"
definition DefaultSMTPPort :: int where "DefaultSMTPPort = 587"

definition DefaultReservedDomains :: "string list" where
  "DefaultReservedDomains = [''localhost'', ''*.local'', ''*.test'', ''*.example'', ''*.invalid'']"

definition DefaultBlockedDomainPatterns :: "string list" where
  "DefaultBlockedDomainPatterns = [''.*'' @ [CHR 0x5C] @ ''.(gov|mil|edu)$'']"

definition DefaultCSRFExemptPaths :: "string list" where
  "DefaultCSRFExemptPaths = [''/api/'', ''/.well-known/'']"

definition DefaultCompressionTypes :: "string list" where
  "DefaultCompressionTypes =
     [''text/html'', ''text/css'', ''text/javascript'', ''application/json'', ''application/xml'']"

definition DefaultMetricsDurationBuckets :: "rat list" where
  "DefaultMetricsDurationBuckets = map f64
     [1 / 1000, 5 / 1000, 1 / 100, 25 / 1000, 5 / 100, 1 / 10, 1 / 4, 1 / 2, 1, 5 / 2, 5, 10]"

definition DefaultMetricsSizeBuckets :: "rat list" where
  "DefaultMetricsSizeBuckets = [100, 1000, 10000, 100000, 1000000, 10000000]"

definition no_retention :: TaskRetention where
  "no_retention = \<lparr>MaxBackups = 0, KeepWeekly = 0, KeepMonthly = 0, KeepYearly = 0, MaxTotalSize = []\<rparr>"

definition plain_task :: "string \<Rightarrow> SchedulerTask" where
  "plain_task schedule =
     \<lparr>task_Schedule = schedule, task_Enabled = True, task_RetryOnFail = False, task_RetryDelay = 0,
      task_Verify = False, task_RestartOnFail = False, task_Retention = no_retention\<rparr>"

definition defaultSchedulerTasks :: "(string \<times> SchedulerTask) list" where
  "defaultSchedulerTasks =
     [(''ssl_renewal'', plain_task ''0 3 * * *''),
      (''geoip_update'', plain_task ''0 3 * * 0''),
      (''blocklist_update'', (plain_task ''0 4 * * *'')\<lparr>task_RetryOnFail := True, task_RetryDelay := 3600 * second\<rparr>),
      (''cve_update'', (plain_task ''0 5 * * *'')\<lparr>task_RetryOnFail := True, task_RetryDelay := 3600 * second\<rparr>),
      (''update_check'', plain_task ''0 6 * * *''),
      (''session_cleanup'', plain_task ''@every 15m''),
      (''token_cleanup'', plain_task ''@every 15m''),
      (''log_rotation'', plain_task ''0 0 * * *''),
      (''backup_daily'', (plain_task ''0 2 * * *'')
         \<lparr>task_Verify := True, task_Retention := no_retention\<lparr>MaxBackups := 1, MaxTotalSize := ''10%''\<rparr>\<rparr>),
      (''backup_hourly'', (plain_task ''@hourly'')\<lparr>task_Enabled := False\<rparr>),
      (''healthcheck_self'', plain_task ''@every 5m''),
      (''tor_health'', (plain_task ''@every 10m'')\<lparr>task_RestartOnFail := True\<rparr>),
      (''i2p_health'', (plain_task ''@every 10m'')\<lparr>task_RestartOnFail := True\<rparr>),
      (''cluster_heartbeat'', plain_task ''@every 30s'')]"

definition defaultNotificationEvents :: "(string \<times> bool) list" where
  "defaultNotificationEvents =
     [(''startup'', False), (''shutdown'', False), (''backup_complete'', False), (''backup_failed'', True),
      (''ssl_expiring'', True), (''ssl_renewed'', False), (''ssl_renewal_failed'', True), (''login_alert'', True),
      (''security_alert'', True), (''scheduler_error'', True), (''password_changed'', True),
      (''token_regenerated'', True), (''update_available'', False), (''update_installed'', True)]"

section \<open>Sections\<close>

definition DefaultTorConfig :: Tor where
  "DefaultTorConfig =
     \<lparr>tor_OnionAddress = [], tor_ContactEmail = [], tor_Binary = [], tor_UseNetwork = False,
      tor_AllowUserPreference = True, tor_MaxCircuits = 32, tor_CircuitTimeout = 60, tor_BootstrapTimeout = 180,
      tor_SafeLogging = True, tor_MaxStreamsPerCircuit = 100, tor_CloseCircuitOnStreamLimit = True,
      tor_BandwidthRate = ''1 MB'', tor_BandwidthBurst = ''2 MB'', tor_MaxMonthlyBandwidth = ''100 GB'',
      tor_NumIntroPoints = 3, tor_VirtualPort = 80\<rparr>"

definition DefaultI2PConfig :: I2P where
  "DefaultI2PConfig =
     \<lparr>i2p_Enabled = False, i2p_Binary = [], i2p_SAMAddress = ''127.0.0.1:7656'', i2p_VirtualPort = 80,
      i2p_InboundLength = 3, i2p_OutboundLength = 3, i2p_InboundQuantity = 5, i2p_OutboundQuantity = 5,
      i2p_SignatureType = 7, i2p_BootstrapTimeout = 300\<rparr>"

definition default_ssl :: SSL where
  "default_ssl =
     \<lparr>ssl_Enabled = False, ssl_Port = 0, ssl_Cert = [], ssl_Key = [], ssl_MinVersion = ''TLS1.2'',
      ssl_LetsEncrypt = \<lparr>le_Enabled = False, le_Email = [], le_Challenge = ''http-01'', le_Staging = False\<rparr>\<rparr>"

definition default_web :: Web where
  "default_web =
     \<lparr>web_CORS = ''*'',
      web_CSRF = \<lparr>csrf_Enabled = True, csrf_ExemptPaths = Some DefaultCSRFExemptPaths\<rparr>,
      web_HSTS = \<lparr>hsts_Enabled = True, hsts_MaxAge = DefaultHSTSMaxAge, hsts_IncludeSubdomains = True,
        hsts_Preload = True\<rparr>\<rparr>"

definition default_limits :: Limits where
  "default_limits =
     \<lparr>l_MaxBodySize = 10 * 2 ^ 20, l_ReadTimeout = 30 * second, l_WriteTimeout = 30 * second,
      l_IdleTimeout = 120 * second\<rparr>"

definition default_compression :: Compression where
  "default_compression = \<lparr>comp_Enabled = True, comp_Level = 5, comp_Types = DefaultCompressionTypes\<rparr>"

definition default_session :: Session_config where
  "default_session =
     \<lparr>sess_Admin = \<lparr>ss_CookieName = ''admin_session'', ss_MaxAge = 30 * 24 * 3600 * second,
        ss_IdleTimeout = 24 * 3600 * second\<rparr>,
      sess_User = \<lparr>ss_CookieName = ''user_session'', ss_MaxAge = 7 * 24 * 3600 * second,
        ss_IdleTimeout = 24 * 3600 * second\<rparr>,
      sess_ExtendOnActivity = True, sess_Secure = ''auto'', sess_HTTPOnly = True, sess_SameSite = ''strict''\<rparr>"

definition default_rate_limit :: RateLimit_config where
  "default_rate_limit =
     \<lparr>rl_Enabled = True,
      rl_Read = \<lparr>rb_Requests = 120, rb_Window = 60 * second\<rparr>,
      rl_Write = \<lparr>rb_Requests = 10, rb_Window = 60 * second\<rparr>,
      rl_Health = \<lparr>rb_Requests = 120, rb_Window = 60 * second\<rparr>,
      rl_GlobalBurst = 240,
      rl_Auth =
        \<lparr>arl_Login = \<lparr>rb_Requests = 5, rb_Window = 900 * second\<rparr>,
         arl_PasswordReset = \<lparr>rb_Requests = 3, rb_Window = 3600 * second\<rparr>,
         arl_Registration = \<lparr>rb_Requests = 5, rb_Window = 3600 * second\<rparr>\<rparr>\<rparr>"

definition default_i18n :: I18n where
  "default_i18n =
     \<lparr>i18n_Enabled = True, i18n_DefaultLanguage = ''en'',
      i18n_Supported = [''en'', ''es'', ''zh'', ''fr'', ''ar'', ''de'', ''ja''],
      i18n_FallbackLanguage = ''en'', i18n_CookieName = ''lang'', i18n_CookieMaxAge = 365 * 24 * 3600 * second\<rparr>"

definition default_cache :: Cache_config where
  "default_cache =
     \<lparr>ca_Type = ''memory'', ca_URL = [], ca_Host = ''localhost'', ca_Port = 6379, ca_Username = [], ca_Password = [],
      ca_DB = 0, ca_TLS = False, ca_TLSSkipVerify = False, ca_PoolSize = 10, ca_MinIdle = 2,
      ca_Timeout = 5 * second, ca_Prefix = DefaultApplicationName @ '':'', ca_TTL = 3600 * second,
      ca_Cluster = False, ca_ClusterNodes = []\<rparr>"

definition log_file :: "string \<Rightarrow> string \<Rightarrow> string \<Rightarrow> LogFile" where
  "log_file filename format policy =
     \<lparr>lf_Filename = filename, lf_Format = format, lf_Custom = [], lf_Rotate = policy, lf_Keep = ''none''\<rparr>"

definition default_logs :: Logs where
  "default_logs =
     \<lparr>log_Level = ''warn'',
      log_Access = \<lparr>al_LogFile = log_file ''access.log'' ''apache'' ''monthly'', al_LogHealthChecks = False\<rparr>,
      log_Server = log_file ''server.log'' ''text'' ''weekly,50MB'',
      log_Error = log_file ''error.log'' ''text'' ''weekly,50MB'',
      log_Audit = \<lparr>aud_Enabled = True, aud_LogFile = log_file ''audit.log'' ''json'' ''daily'', aud_Compress = False\<rparr>,
      log_Security = log_file ''security.log'' ''fail2ban'' ''weekly,50MB'',
      log_Debug = \<lparr>dbg_Enabled = False, dbg_LogFile = log_file ''debug.log'' ''text'' ''weekly,50MB''\<rparr>\<rparr>"

definition default_database :: Database where
  "default_database =
     \<lparr>db_Type = ''sqlite'', db_URL = [], db_Host = [], db_Port = 0, db_Name = [], db_User = [], db_Password = [],
      db_SSLMode = ''disable'', db_MaxOpenConns = 25, db_MaxIdleConns = 5,
      db_ConnMaxLifetime = 300 * second, db_ConnMaxIdleTime = 60 * second\<rparr>"

definition default_users :: Users_config where
  "default_users =
     \<lparr>users_Enabled = True,
      cfg_Registration =
        \<lparr>reg_Mode = DefaultRegistrationMode, RequireEmailVerification = True, AllowedDomains = [],
         BlockedDomains = [], InviteExpirationDays = DefaultInviteExpirationDays\<rparr>,
      cfg_Auth =
        \<lparr>SessionDuration = 7 * 24 * 3600 * second, Allow2FA = True, Require2FA = False,
         PasswordMinLength = DefaultPasswordMinLength, PasswordRequireUppercase = True,
         PasswordRequireLowercase = True, PasswordRequireNumber = True, PasswordRequireSpecial = False,
         MaxFailedLogins = DefaultMaxFailedLogins, LockoutDuration = 15 * 60 * second\<rparr>,
      cfg_Tokens =
        \<lparr>tokens_Enabled = True, MaxPerUser = DefaultMaxTokensPerUser, ExpirationDays = DefaultTokenExpirationDays\<rparr>,
      cfg_Profile =
        \<lparr>user_DefaultVisibility = Config_Values.VisibilityPublic, AllowBio = True, AllowWebsite = True, AllowLocation = True,
         AllowAvatar = True\<rparr>\<rparr>"

definition default_orgs :: Orgs where
  "default_orgs =
     \<lparr>o_Enabled = True,
      o_Creation = \<lparr>oc_Mode = DefaultOrgCreationMode, oc_MaxPerUser = 0\<rparr>,
      o_Profile = \<lparr>op_DefaultVisibility = Config_Values.VisibilityPublic\<rparr>,
      o_Members = \<lparr>om_DefaultRole = DefaultOrgMemberRole, om_AllowInvites = True, om_Require2FA = False\<rparr>\<rparr>"

definition default_custom_domains :: CustomDomains where
  "default_custom_domains =
     \<lparr>cd_Enabled = False, cd_MaxDomainsPerUser = 5, cd_MaxDomainsPerOrg = 20, cd_RequireSSL = True,
      cd_AllowApex = True, cd_AllowSubdomain = True, cd_AllowWildcard = False,
      cd_VerificationTTL = 24 * 3600 * second, cd_SSLRenewalDays = 7, cd_Reserved = DefaultReservedDomains,
      cd_BlockedPatterns = DefaultBlockedDomainPatterns\<rparr>"

definition default_notifications :: Notifications where
  "default_notifications =
     \<lparr>n_WebUI = \<lparr>wu_Position = DefaultNotificationPosition, wu_Duration = 5 * second\<rparr>,
      n_Email =
        \<lparr>ne_SMTP = \<lparr>smtp_Host = [], smtp_Port = DefaultSMTPPort, smtp_Username = [], smtp_Password = [],
           smtp_TLS = ''auto''\<rparr>,
         ne_From = \<lparr>from_Name = [], from_Email = []\<rparr>,
         ne_Events = Some (map_of defaultNotificationEvents)\<rparr>\<rparr>"

definition default_scheduler :: Scheduler_config where
  "default_scheduler =
     \<lparr>sch_Timezone = DefaultSchedulerTimezone, sch_CatchUpWindow = 3600 * second,
      sch_Tasks = Some (map_of defaultSchedulerTasks)\<rparr>"

definition default_geoip :: GeoIP_config where
  "default_geoip =
     \<lparr>g_Enabled = True, g_Dir = [], g_DenyCountries = [], g_AllowCountries = [],
      g_Databases = \<lparr>geo_ASN = True, geo_Country = True, geo_City = True\<rparr>\<rparr>"

definition default_metrics :: Metrics where
  "default_metrics =
     \<lparr>m_Enabled = True, m_Root = \<lparr>mr_Enabled = True\<rparr>,
      m_Auth = \<lparr>ma_AllowUnauthenticated = False,
        ma_Tokens = \<lparr>mt_Prometheus = [], mt_Grafana = [], mt_Loki = []\<rparr>\<rparr>,
      m_IncludeSystem = True, m_IncludeRuntime = True,
      m_Loki = \<lparr>ml_MaxEntries = 1000, ml_MaxAge = 3600 * second\<rparr>,
      m_DurationBuckets = DefaultMetricsDurationBuckets, m_SizeBuckets = DefaultMetricsSizeBuckets\<rparr>"

definition default_backup :: Backup where
  "default_backup =
     \<lparr>b_Encryption = \<lparr>be_Enabled = True, be_Password = [], be_PasswordHint = []\<rparr>,
      b_Compliance = \<lparr>bc_Enabled = False\<rparr>, b_DiskThreshold = DefaultBackupDiskThreshold\<rparr>"

definition default_update :: Update where
  "default_update = \<lparr>up_Branch = DefaultUpdateBranch, up_AutoInstall = False, up_DeferDays = 0\<rparr>"

definition no_contact :: ContactRole where
  "no_contact = \<lparr>cr_Email = [], cr_Webhooks = []\<rparr>"

definition DefaultServer :: Server where
  "DefaultServer =
     \<lparr>Mode = DefaultMode, Listen = ''0.0.0.0'', Port = 0, BaseURL = ''/'',
      srv_ApplicationName = DefaultApplicationName, ApplicationTagline = DefaultApplicationTagline,
      AdminPath = DefaultAdminPath, APIVersion = DefaultAPIVersion,
      srv_SSL = default_ssl, srv_Web = default_web, srv_Limits = default_limits,
      srv_Compression = default_compression, srv_TrustedProxies = \<lparr>tp_Additional = []\<rparr>,
      srv_Session = default_session, srv_RateLimit = default_rate_limit, srv_I18n = default_i18n,
      srv_Cache = default_cache, srv_Logs = default_logs, srv_Database = default_database,
      srv_Security = \<lparr>sec_EncryptionKey = [], sec_EncryptionKeyVersion = 1\<rparr>,
      srv_Healthz = \<lparr>hz_Root = \<lparr>hr_Enabled = False\<rparr>\<rparr>,
      srv_Contact = \<lparr>con_Admin = no_contact, con_Security = no_contact, con_Abuse = no_contact, con_Support = no_contact\<rparr>,
      srv_Users = default_users, srv_Orgs = default_orgs,
      srv_Features = \<lparr>f_CustomDomains = default_custom_domains\<rparr>,
      srv_Notifications = default_notifications, srv_Scheduler = default_scheduler, srv_GeoIP = default_geoip,
      srv_I2P = DefaultI2PConfig, srv_Metrics = default_metrics, srv_Backup = default_backup,
      srv_Update = default_update\<rparr>"

definition DefaultConfig :: Config where
  "DefaultConfig =
     \<lparr>cfg_Server = DefaultServer, cfg_Tor = DefaultTorConfig, cfg_path = [], cfg_warnings = []\<rparr>"

end
