(* ===== verification/Http_Api_Guards.thy ===== *)
theory Http_Api_Guards
  imports Http_Api_Laws Config_Defaults
begin

text \<open>
  The properties of the REST surface: its sequences of calls, the credentials its documents name, what
  the start of the server leaves of the sessions, and what a multipart form loses.
\<close>

section \<open>Calls in sequence\<close>

lemma mux_route_listed: "mux_route base meth path = Some rt \<Longrightarrow> rt \<in> set apiRoutes"
proof -
  have picks: "fold (\<lambda>r best. if more_specific (path_pattern (FullPath base r)) (path_pattern (FullPath base best)) then r else best) rts r0
      \<in> insert r0 (set rts)" for rts r0
    by (induction rts arbitrary: r0) auto
  assume "mux_route base meth path = Some rt"
  then obtain r0 rts where found: "filter (route_matches base meth path) apiRoutes = r0 # rts" "rt \<in> insert r0 (set rts)"
    using picks by (auto simp: mux_route_def split: list.splits)
  then have "rt \<in> set (filter (route_matches base meth path) apiRoutes)" by simp
  then show "rt \<in> set apiRoutes" by simp
qed

context store_keeps
begin

lemma API_keeps: "api_keeps I (API h c)"
  unfolding API_def by (auto simp: Let_def intro: api_keeps_refuse routes_keep mux_route_listed split: option.split)

end

text \<open>Calls one after the other, each under a configuration, an environment and a decoder of its own.\<close>

fun serve_calls :: "(Handler \<times> api_call) list \<Rightarrow> users_db world \<Rightarrow> users_db world" where
  "serve_calls [] w = w"
| "serve_calls ((h, c) # calls) w = serve_calls calls (snd (API h c w))"

text \<open>
  C31: Nothing that arrives over HTTP breaks the database. Any sequence of calls of the REST surface, to any path, with any
  body and any credential, under any clocks, database faults and random bytes, keeps the keys unique, the references
  pointing to rows and the rows within their life cycle, and no account loses its id, its username or its address.\<close>

theorem api_keeps_database:
  assumes "db_integrity (wdb w)"
  shows "db_integrity (wdb (serve_calls calls w)) \<and>
    (\<forall>uid name mail. has_account uid name mail (wdb w) \<longrightarrow> has_account uid name mail (wdb (serve_calls calls w)))"
  using assms
proof (induction calls arbitrary: w)
  case (Cons call calls)
  obtain h c where call: "call = (h, c)" by (cases call)
  have "db_integrity (wdb (snd (API h c w)))"
    using integrity.API_keeps [of h c] Cons.prems by (simp add: api_keeps_def)
  moreover have "has_account uid name mail (wdb w) \<Longrightarrow> has_account uid name mail (wdb (snd (API h c w)))" for uid name mail
    using account.API_keeps [of uid name mail h c] by (simp add: api_keeps_def)
  ultimately show ?case using Cons.IH [of "snd (API h c w)"] call by simp
qed simp

definition demo_handler :: Handler where
  "demo_handler = \<lparr>h_svc = demo_env, h_config = DefaultConfig, h_clientIP = Http_Request.remoteHost,
     DecodeJSON = (\<lambda>_ _. Some (\<lambda>_. None))\<rparr>"

definition demo_call :: "Http_Request.request \<Rightarrow> api_call" where
  "demo_call r = \<lparr>ac_Request = r, PathValue = (\<lambda>_. []), ac_Body = [], ac_Parsed = None, ac_Encoded = None, ac_QueryOK = True\<rparr>"

theorem api_keeps_database_witness:
  "db_integrity (wdb (serve_calls [(demo_handler, demo_call with_token), (demo_handler, demo_call with_session)] demo_world))
   \<and> has_account 2 ''bob'' ''bob@acme.example''
       (wdb (serve_calls [(demo_handler, demo_call with_token), (demo_handler, demo_call with_session)] demo_world))"
proof -
  have "db_integrity (wdb demo_world)" using demo_integrity by simp
  moreover have "has_account 2 ''bob'' ''bob@acme.example'' (wdb demo_world)"
    by (simp add: has_account_def demo_db_def demo_user_def new_user_def)
  ultimately show ?thesis
    using api_keeps_database [of demo_world "[(demo_handler, demo_call with_token), (demo_handler, demo_call with_session)]"] by blast
qed

section \<open>Credentials\<close>

definition with_auth :: "AuthInfo option \<Rightarrow> api_call \<Rightarrow> api_call" where
  "with_auth a c = c\<lparr>ac_Request := (ac_Request c)\<lparr>req_auth := a\<rparr>\<rparr>"

lemma with_auth_form: "parseForm (with_auth a c) = parseForm c" "isForm (ac_Request (with_auth a c)) = isForm (ac_Request c)"
  unfolding parseForm_def isForm_def by (simp_all add: with_auth_def contentType_def cong: option.case_cong if_cong)

lemma with_auth_simps [simp]:
  "PathValue (with_auth a c) = PathValue c" "bind h (with_auth a c) schema = bind h c schema"
  "queryInt (with_auth a c) name n = queryInt c name n" "sessionToken h (with_auth a c) = sessionToken h c"
  "session_cookie h (with_auth a c) v age = session_cookie h c v age" "pathID (with_auth a c) name = pathID c name"
  unfolding bind_def with_auth_form
  by (simp_all add: with_auth_def queryInt_def sessionToken_def session_cookie_def cookieSecure_def pathID_def Let_def)

lemma with_auth_parts [simp]:
  "with_body h (with_auth a c) schema k = with_body h c schema k" "with_id (with_auth a c) name k' = with_id c name k'"
  "setSession h (with_auth a c) token = setSession h c token" "clearSession h (with_auth a c) = clearSession h c"
  by (simp_all add: with_body_def with_id_def setSession_def clearSession_def)

lemma admitted:
  "requireUser (ac_Request c) = Inr u \<Longrightarrow> as_user c k = k u"
  "requireUser (ac_Request c) = Inr u \<Longrightarrow> in_org h c k' =
     (\<lambda>w. case AccessBySlug (h_svc h) (PathValue c ''slug'') (caller_UserID u) w of
        (Inl x, w') \<Rightarrow> refuse (SendError (translate x)) w' | (Inr access, w') \<Rightarrow> k' u access w')"
  by (auto simp: as_user_def in_org_def orgScope_def fun_eq_iff split: sum.split prod.split)

lemma refused:
  "requireUser (ac_Request c) = Inl x \<Longrightarrow> as_user c k = refuse x"
  "requireUser (ac_Request c) = Inl x \<Longrightarrow> as_session c k = refuse x"
  "requireSession (ac_Request c) = Inl x \<Longrightarrow> as_session c k = refuse x"
  "requireUser (ac_Request c) = Inl x \<Longrightarrow> in_org h c k' = refuse x"
  by (simp_all add: as_user_def as_session_def requireSession_def in_org_def orgScope_def fun_eq_iff)

lemma guarded_routes:
  "rt \<in> set apiRoutes \<Longrightarrow> rt_ID rt \<noteq> ''users.logout'' \<Longrightarrow> rt_Auth rt \<noteq> AuthNone \<Longrightarrow> requireUser (ac_Request c) = Inl x \<Longrightarrow>
     rt_handler rt h c = refuse x"
  "rt \<in> set apiRoutes \<Longrightarrow> rt_ID rt \<noteq> ''users.logout'' \<Longrightarrow> rt_Auth rt = AuthSession \<Longrightarrow> requireSession (ac_Request c) = Inl x \<Longrightarrow>
     rt_handler rt h c = refuse x"
proof -
  have "requireUser (ac_Request c) = Inl x \<Longrightarrow>
      \<forall>rt \<in> set apiRoutes. rt_ID rt \<noteq> ''users.logout'' \<and> rt_Auth rt \<noteq> AuthNone \<longrightarrow> rt_handler rt h c = refuse x"
    by (simp add: route_defs account_handlers org_handlers refused)
  then show "rt \<in> set apiRoutes \<Longrightarrow> rt_ID rt \<noteq> ''users.logout'' \<Longrightarrow> rt_Auth rt \<noteq> AuthNone \<Longrightarrow> requireUser (ac_Request c) = Inl x \<Longrightarrow>
     rt_handler rt h c = refuse x" by blast
  have "requireSession (ac_Request c) = Inl x \<Longrightarrow>
      \<forall>rt \<in> set apiRoutes. rt_ID rt \<noteq> ''users.logout'' \<and> rt_Auth rt = AuthSession \<longrightarrow> rt_handler rt h c = refuse x"
    by (simp add: route_defs account_handlers org_handlers refused)
  then show "rt \<in> set apiRoutes \<Longrightarrow> rt_ID rt \<noteq> ''users.logout'' \<Longrightarrow> rt_Auth rt = AuthSession \<Longrightarrow> requireSession (ac_Request c) = Inl x \<Longrightarrow>
     rt_handler rt h c = refuse x" by blast
qed

lemma public_routes:
  assumes "\<And>r. h_clientIP h (r\<lparr>req_auth := a\<rparr>) = h_clientIP h r"
  shows "rt \<in> set apiRoutes \<Longrightarrow> rt_Auth rt = AuthNone \<Longrightarrow> rt_ID rt \<noteq> ''users.profile'' \<Longrightarrow> rt_handler rt h (with_auth a c) = rt_handler rt h c"
proof -
  have "\<forall>rt \<in> set apiRoutes. rt_Auth rt = AuthNone \<and> rt_ID rt \<noteq> ''users.profile'' \<longrightarrow> rt_handler rt h (with_auth a c) = rt_handler rt h c"
    by (simp add: route_defs account_handlers) (simp add: with_auth_def assms)
  then show "rt \<in> set apiRoutes \<Longrightarrow> rt_Auth rt = AuthNone \<Longrightarrow> rt_ID rt \<noteq> ''users.profile'' \<Longrightarrow> rt_handler rt h (with_auth a c) = rt_handler rt h c"
    by blast
qed

lemma bearer_routes:
  assumes "rt \<in> set apiRoutes" and "rt_Auth rt = AuthBearer"
    and "requireUser (ac_Request c) = Inr u" and "requireUser (ac_Request (with_auth a c)) = Inr u'"
    and "caller_UserID u' = caller_UserID u"
  shows "rt_handler rt h (with_auth a c) = rt_handler rt h c"
proof -
  have "\<forall>rt \<in> set apiRoutes. rt_Auth rt = AuthBearer \<longrightarrow> rt_handler rt h (with_auth a c) = rt_handler rt h c"
    by (simp add: route_defs account_handlers org_handlers admitted [OF assms(3)] admitted [OF assms(4)] assms(5))
      (unfold assms(5), simp)
  with assms(1,2) show ?thesis by blast
qed

text \<open>
  C32: The documents say who may call what, and it is what the handlers do. Every route of the table but the sign-out refuses a
  caller without the documented credential before it looks at anything else and changes nothing: no identity, or one that
  owes a second factor, where a token or a session is documented, and a token where a session is. A route documented for
  tokens answers a token and a session of the same user alike, and a public route, the profile apart, does not look
  at the identity at all.\<close>

theorem documented_credentials:
  assumes "rt \<in> set apiRoutes" and "rt_ID rt \<noteq> ''users.logout''"
    and "\<And>r. h_clientIP h (r\<lparr>req_auth := a\<rparr>) = h_clientIP h r"
  shows "(rt_Auth rt \<noteq> AuthNone \<and> requireUser (ac_Request c) = Inl x \<longrightarrow> rt_handler rt h c w = refuse x w)
    \<and> (rt_Auth rt = AuthSession \<and> requireSession (ac_Request c) = Inl y \<longrightarrow> rt_handler rt h c w = refuse y w)
    \<and> (rt_Auth rt = AuthBearer \<and> requireUser (ac_Request c) = Inr u \<and> requireUser (ac_Request (with_auth a c)) = Inr u'
         \<and> caller_UserID u' = caller_UserID u \<longrightarrow> rt_handler rt h (with_auth a c) w = rt_handler rt h c w)
    \<and> (rt_Auth rt = AuthNone \<and> rt_ID rt \<noteq> ''users.profile'' \<longrightarrow> rt_handler rt h (with_auth a c) w = rt_handler rt h c w)"
proof (intro conjI impI; elim conjE)
  show "rt_handler rt h c w = refuse x w" if "rt_Auth rt \<noteq> AuthNone" "requireUser (ac_Request c) = Inl x"
    using guarded_routes(1) [OF assms(1,2) that] by simp
  show "rt_handler rt h c w = refuse y w" if "rt_Auth rt = AuthSession" "requireSession (ac_Request c) = Inl y"
    using guarded_routes(2) [OF assms(1,2) that] by simp
  show "rt_handler rt h (with_auth a c) w = rt_handler rt h c w" if "rt_Auth rt = AuthBearer" "requireUser (ac_Request c) = Inr u"
    "requireUser (ac_Request (with_auth a c)) = Inr u'" "caller_UserID u' = caller_UserID u"
    using bearer_routes [OF assms(1) that] by simp
  show "rt_handler rt h (with_auth a c) w = rt_handler rt h c w" if "rt_Auth rt = AuthNone" "rt_ID rt \<noteq> ''users.profile''"
    using public_routes [OF assms(3) assms(1) that] by simp
qed

definition token_info_2 :: AuthInfo where
  "token_info_2 = \<lparr>ai_Subject = itoa_int 2, ai_Kind = SubjectUser, ai_Source = ''X-API-Key'', ai_Scopes = [], ai_SessionID = []\<rparr>"

lemma demo_token_caller:
  "requireUser ((plain_request meth p)\<lparr>req_auth := Some token_info_2\<rparr>) =
     Inr \<lparr>caller_UserID = 2, caller_Token = True, caller_Pending = False\<rparr>"
proof -
  have "ParseInt64 (itoa_int 2) = Some 2" by (simp add: itoa_int_def ParseInt64_itoa)
  then show ?thesis by (simp add: requireUser_def currentUser_def token_info_2_def HasScope_def)
qed

definition token_route :: api_route where
  "token_route = token_routes ! 1"

lemma token_route: "token_route \<in> set apiRoutes" "rt_ID token_route = ''users.tokens.issue''" "rt_Auth token_route = AuthSession"
  "rt_handler token_route = apiIssueToken"
  by (simp_all add: token_route_def route_defs)

theorem documented_credentials_witness:
  "apiIssueToken demo_handler (demo_call ((plain_request ''POST'' ''/api/v1/users/tokens'')\<lparr>req_auth := Some token_info_2\<rparr>)) demo_world
     = refuse (SendErrorCode CodeForbidden) demo_world
   \<and> apiIssueToken demo_handler (demo_call (plain_request ''POST'' ''/api/v1/users/tokens'')) demo_world
     = refuse (SendErrorCode CodeUnauthorized) demo_world"
proof -
  have ip: "h_clientIP demo_handler (r\<lparr>req_auth := a\<rparr>) = h_clientIP demo_handler r" for r a
    by (simp add: demo_handler_def Http_Request.remoteHost_def split: option.split)
  have token: "requireSession (ac_Request (demo_call ((plain_request ''POST'' ''/api/v1/users/tokens'')\<lparr>req_auth := Some token_info_2\<rparr>)))
      = Inl (SendErrorCode CodeForbidden)"
    by (simp add: demo_call_def requireSession_def demo_token_caller)
  have nobody: "requireUser (ac_Request (demo_call (plain_request ''POST'' ''/api/v1/users/tokens''))) = Inl (SendErrorCode CodeUnauthorized)"
    by (simp add: demo_call_def requireUser_def currentUser_def plain_request_def)
  note law = documented_credentials [OF token_route(1), unfolded token_route(2-4), OF _ ip]
  show ?thesis using law token nobody by simp
qed

text \<open>
  C33: As the server is started, every route that needs a browser session is dead. Whatever a client sends, a call that passes
  the authentication stage of the running server is refused by each of them without a change: nobody can change a
  password, turn a second factor on or off, issue or revoke a token, create an organization or accept an invitation
  over the API.\<close>

theorem session_routes_dead:
  assumes "req_auth req = None" and "Auth (startup_auth (NewVerifier e own w0) public) req = Inr (ac_Request c)"
    and "rt \<in> set apiRoutes" and "rt_Auth rt = AuthSession" and "rt_ID rt \<noteq> ''users.logout''"
  shows "\<exists>x. rt_handler rt h c w = refuse x w"
proof -
  obtain x where "requireSession (ac_Request c) = Inl x" using startup_no_session [OF assms(1,2)] by blast
  from guarded_routes(2) [OF assms(3,5,4) this] show ?thesis by metis
qed

theorem session_routes_dead_witness:
  "\<exists>x. apiIssueToken demo_handler (demo_call with_session) demo_world = refuse x demo_world"
proof -
  have fresh: "req_auth with_session = None" by (simp add: with_session_def plain_request_def)
  have "Auth (startup_auth (NewVerifier demo_env ''user_session'' demo_world) (\<lambda>_. True)) with_session = Inr with_session"
    unfolding Auth_def by (simp only: resolveIdentity_startup with_session_token) (simp add: startup_auth_def)
  then have run: "Auth (startup_auth (NewVerifier demo_env ''user_session'' demo_world) (\<lambda>_. True)) with_session
      = Inr (ac_Request (demo_call with_session))" by (simp add: demo_call_def)
  have "rt_ID token_route \<noteq> ''users.logout''" by (simp add: token_route(2))
  from session_routes_dead [OF fresh run token_route(1,3) this, of demo_handler demo_world] show ?thesis by (simp add: token_route(4))
qed

section \<open>Forms\<close>

definition blank_prefs :: prefsView where
  "blank_prefs = \<lparr>pv_ShowEmail = False, pv_ShowActivity = False, pv_ShowOrgs = False, pv_Searchable = False,
     pv_EmailSecurity = False, pv_EmailOrg = False, pv_EmailProduct = False, pv_Theme = [], pv_FontSize = [],
     pv_ReduceMotion = False, pv_DateFormat = [], pv_TimeFormat = []\<rparr>"

lemma multipart_bind:
  assumes "contentType (ac_Request c) = ''multipart/form-data''" and "ac_Parsed c = None" and "ac_QueryOK c"
  shows "bind h c schema = Some (FormBody (\<lambda>_. []))"
  using assms by (simp add: bind_def isForm_def parseForm_def)

lemma blank_form: "submitted_prefs (FormBody (\<lambda>_. [])) v = blank_prefs"
  by (simp add: blank_prefs_def formBool_def)

lemma served_returns:
  "served m k w = (r, w') \<Longrightarrow> rp_Result r = Inr j \<Longrightarrow> \<exists>a w1. m w = (Inr a, w1) \<and> k a w1 = (r, w')"
  by (auto simp: served_def sendErr_def refuse_def split: prod.splits sum.splits)

lemma saved_prefs:
  assumes "Service_Account.SavePreferences e p w = (Inr (), w')"
  shows "\<exists>q \<in> set (user_preferences (wdb w')). pr_UserID q = pr_UserID p \<and> newPrefsView q = newPrefsView p"
proof -
  define ts where "ts = truncate_second (store_clock e (wtick w))"
  have "st_SavePreferences e p w = (Inr (), w')"
    using assms by (auto simp: Service_Account.SavePreferences_def call_returns ok_returns)
  then consider (updated) "count_where (\<lambda>r. pr_UserID r = pr_UserID p) (user_preferences (wdb w)) > 0"
      "user_preferences (wdb w') = update_where (\<lambda>r. pr_UserID r = pr_UserID p) (\<lambda>r. p\<lparr>pr_UpdatedAt := ts\<rparr>) (user_preferences (wdb w))"
    | (inserted) "p\<lparr>pr_UpdatedAt := ts\<rparr> \<in> set (user_preferences (wdb w'))"
    by (auto simp: st_SavePreferences_def store_now_returns call_returns exec_returns sql_update_returns
        insert_preferences_returns ok_returns ts_def split: if_splits)
  then show ?thesis
  proof cases
    case updated
    then obtain r where "r \<in> set (user_preferences (wdb w))" "pr_UserID r = pr_UserID p"
      by (auto simp: count_where_def filter_empty_conv)
    with updated(2) have "p\<lparr>pr_UpdatedAt := ts\<rparr> \<in> set (user_preferences (wdb w'))" by (auto simp: update_where_def)
    then show ?thesis by (rule bexI [rotated]) (simp add: newPrefsView_def)
  next
    case inserted
    then show ?thesis by (rule bexI [rotated]) (simp add: newPrefsView_def)
  qed
qed

text \<open>
  A form in the multipart encoding loses every field. The handlers take it for a form but never parse it, so saving the
  preferences with one succeeds and stores a blank row: every switch off and every choice empty, whatever was sent.\<close>

theorem multipart_blanks_preferences:
  assumes "contentType (ac_Request c) = ''multipart/form-data''" and "ac_Parsed c = None" and "ac_QueryOK c"
    and "apiSavePreferences h c w = (r, w')" and "rp_Result r = Inr j"
  shows "j = prefs_json blank_prefs \<and> (\<exists>u. requireUser (ac_Request c) = Inr u \<and>
    (\<exists>p \<in> set (user_preferences (wdb w')). pr_UserID p = caller_UserID u \<and> newPrefsView p = blank_prefs))"
proof -
  obtain u where u: "requireUser (ac_Request c) = Inr u"
    using assms(4,5) by (auto simp: apiSavePreferences_def as_user_def refuse_def split: sum.splits)
  then obtain stored w1 where stored: "Service_Account.Preferences (h_svc h) (caller_UserID u) w = (Inr stored, w1)"
    and rest: "with_body h c preferences_body (\<lambda>b. let v = submitted_prefs b (newPrefsView stored)
      in served (Service_Account.SavePreferences (h_svc h) (apply_prefs v stored)) (\<lambda>_. sendOK (prefs_json v))) w1 = (r, w')"
    using served_returns [OF _ assms(5)] assms(4) by (fastforce simp: apiSavePreferences_def as_user_def)
  then have "served (Service_Account.SavePreferences (h_svc h) (apply_prefs blank_prefs stored)) (\<lambda>_. sendOK (prefs_json blank_prefs)) w1 = (r, w')"
    by (simp add: with_body_def multipart_bind [OF assms(1-3)] blank_form del: submitted_prefs.simps)
  from served_returns [OF this assms(5)] obtain w2 where saved: "Service_Account.SavePreferences (h_svc h) (apply_prefs blank_prefs stored) w1 = (Inr (), w2)"
    and sent: "sendOK (prefs_json blank_prefs) w2 = (r, w')" by auto
  have "pr_UserID stored = caller_UserID u"
    using stored by (auto simp: Service_Account.Preferences_def st_Preferences_def try_call_returns returns_simps DefaultPreferences_def find_where_def find_Some_iff split: if_splits)
  moreover have "newPrefsView (apply_prefs blank_prefs stored) = blank_prefs" "pr_UserID (apply_prefs blank_prefs stored) = pr_UserID stored"
    by (simp_all add: newPrefsView_def apply_prefs_def blank_prefs_def)
  ultimately show ?thesis using saved_prefs [OF saved] sent u assms(5) by (auto simp: sendOK_def)
qed

definition multipart_call :: api_call where
  "multipart_call = demo_call ((with_headers (plain_request ''PATCH'' ''/api/v1/users/settings'')
     [(''Content-Type'', ''multipart/form-data; boundary=x'')])\<lparr>req_auth := Some token_info_2\<rparr>)"

theorem multipart_blanks_preferences_witness:
  "\<exists>r w' p. apiSavePreferences demo_handler multipart_call demo_world = (r, w') \<and> rp_Result r = Inr (prefs_json blank_prefs)
     \<and> p \<in> set (user_preferences (wdb w')) \<and> newPrefsView p = blank_prefs \<and> newPrefsView (DefaultPreferences 2) \<noteq> blank_prefs"
proof -
  have form: "contentType (ac_Request multipart_call) = ''multipart/form-data''"
    by (simp add: contentType_def multipart_call_def demo_call_def with_headers_def TrimSpace_plain ToLower_plain plain_byte_def byte_def
        lower_char_def is_upper_def)
  have plain: "ac_Parsed multipart_call = None" "ac_QueryOK multipart_call"
    by (simp_all add: multipart_call_def demo_call_def)
  have user: "requireUser (ac_Request multipart_call) = Inr \<lparr>caller_UserID = 2, caller_Token = True, caller_Pending = False\<rparr>"
  proof -
    have "ParseInt64 (itoa_int 2) = Some 2" by (simp add: itoa_int_def ParseInt64_itoa)
    then show ?thesis by (simp add: multipart_call_def demo_call_def requireUser_def currentUser_def token_info_2_def HasScope_def)
  qed
  have stored: "Service_Account.Preferences demo_env 2 demo_world = (Inr (DefaultPreferences 2), next_tick demo_world)"
    by (simp add: Service_Account.Preferences_def st_Preferences_def eval_defs demo_db_def find_where_def)
  obtain w2 where saved: "Service_Account.SavePreferences demo_env (apply_prefs blank_prefs (DefaultPreferences 2)) (next_tick demo_world) = (Inr (), w2)"
    by (simp add: Service_Account.SavePreferences_def st_SavePreferences_def eval_defs apply_prefs_def DefaultPreferences_def
        insert_preferences_def count_where_def exists_where_def update_where_def has_iffs demo_db_def)
  have run: "apiSavePreferences demo_handler multipart_call demo_world = sendOK (prefs_json blank_prefs) w2"
    unfolding apiSavePreferences_def admitted(1) [OF user]
    by (simp add: served_def demo_handler_def stored with_body_def multipart_bind [OF form plain] blank_form saved del: submitted_prefs.simps)
  obtain r w' where eq: "apiSavePreferences demo_handler multipart_call demo_world = (r, w')" "rp_Result r = Inr (prefs_json blank_prefs)"
    using run by (auto simp: sendOK_def)
  from multipart_blanks_preferences [OF form plain eq] obtain p where "p \<in> set (user_preferences (wdb w'))" "newPrefsView p = blank_prefs" by blast
  moreover have "newPrefsView (DefaultPreferences 2) \<noteq> blank_prefs"
    by (simp add: newPrefsView_def DefaultPreferences_def blank_prefs_def)
  ultimately show ?thesis using eq by blast
qed

end
