(* ===== verification/Http_Payloads.thy ===== *)
theory Http_Payloads
  imports Http_Api_Guards
begin

text \<open>
  A route of the REST surface decodes no body but the documented one, and what it answers has the shape its document
  promises, but for three of them.
\<close>

section \<open>Types by name\<close>

lemmas type_defs = apiTypes_def account_types_def org_types_def result_types_def account_inputs_def org_inputs_def

lemmas field_defs = must_def may_def many_def ref_def refs_def preferenceFields_def

lemma find_type_hit: "find_type name = Some t \<longleftrightarrow> find (\<lambda>t. ot_Name t = name) apiTypes = Some t"
  by (simp add: find_type_def)

section \<open>Successful replies\<close>

definition replies :: "(json \<Rightarrow> bool) \<Rightarrow> api \<Rightarrow> bool" where
  "replies P m \<longleftrightarrow> (\<forall>w j. rp_Result (fst (m w)) = Inr j \<longrightarrow> P j)"

named_theorems reply_intros

lemma replies_refuse [reply_intros]: "replies P (refuse x)" "replies P badRequest" "replies P notFound" "replies P (sendErr y)"
  by (simp_all add: replies_def refuse_def badRequest_def notFound_def sendErr_def)

lemma replies_sendOK [reply_intros]: "P j \<Longrightarrow> replies P (sendOK j)"
  by (simp add: replies_def sendOK_def)

lemma replies_served [reply_intros]: "(\<And>a. replies P (k a)) \<Longrightarrow> replies P (served m k)"
  unfolding replies_def served_def
  by (auto simp: sendErr_def refuse_def split: prod.split sum.split)

lemma replies_guards [reply_intros]:
  "(\<And>u. replies P (k u)) \<Longrightarrow> replies P (as_user c k)"
  "(\<And>u. replies P (k u)) \<Longrightarrow> replies P (as_session c k)"
  "(\<And>n. replies P (kn n)) \<Longrightarrow> replies P (with_id c name kn)"
  "(\<And>b. replies P (kb b)) \<Longrightarrow> replies P (with_body h c schema kb)"
  by (auto simp: as_user_def as_session_def with_id_def with_body_def intro: replies_refuse split: sum.split option.split)

lemma replies_in_org [reply_intros]: "(\<And>u a. replies P (k u a)) \<Longrightarrow> replies P (in_org h c k)"
  unfolding replies_def in_org_def by (auto simp: refuse_def split: prod.split sum.split)

lemma replies_cookie [reply_intros]: "replies P k \<Longrightarrow> replies P (setSession h c token k)"
  "replies P k \<Longrightarrow> replies P (clearSession h c k)"
  by (simp_all add: replies_def setSession_def clearSession_def setting_cookie_def Let_def case_prod_beta)

lemma replies_branch [reply_intros]:
  "(b \<Longrightarrow> replies P k) \<Longrightarrow> (\<not> b \<Longrightarrow> replies P k') \<Longrightarrow> replies P (if b then k else k')"
  "(\<And>x y. replies P (kp x y)) \<Longrightarrow> replies P (case p of (x, y) \<Rightarrow> kp x y)"
  by (auto split: prod.split)

section \<open>Shapes\<close>

lemma list_all_opt [simp]:
  "list_all P (opt_str name s) \<longleftrightarrow> (s = [] \<or> P (name, JStr s))" "list_all P (opt_int name n) \<longleftrightarrow> (n = 0 \<or> P (name, JInt n))"
  by (simp_all add: opt_str_def opt_int_def)

lemma found_types:
  "find_type ''User'' = Some (account_types ! 0)" "find_type ''PublicProfile'' = Some (account_types ! 1)"
  "find_type ''Preferences'' = Some (account_types ! 2)" "find_type ''SessionInfo'' = Some (account_types ! 4)"
  "find_type ''SecurityOverview'' = Some (account_types ! 5)" "find_type ''TwoFactorEnrollment'' = Some (account_types ! 6)"
  "find_type ''TwoFactorState'' = Some (account_types ! 7)" "find_type ''SignInResult'' = Some (account_types ! 8)"
  "find_type ''Org'' = Some (org_types ! 0)" "find_type ''OrgAccess'' = Some (org_types ! 1)"
  "find_type ''OrgSettings'' = Some (org_types ! 2)" "find_type ''Member'' = Some (org_types ! 3)"
  "find_type ''Invite'' = Some (org_types ! 4)" "find_type ''IssuedInvite'' = Some (org_types ! 5)"
  "find_type ''Token'' = Some (org_types ! 6)" "find_type ''IssuedToken'' = Some (org_types ! 7)"
  "find_type ''Domain'' = Some (org_types ! 8)" "find_type ''DomainChallenge'' = Some (org_types ! 9)"
  "find_type ''AuditEntry'' = Some (org_types ! 10)" "find_type ''ZoneGrant'' = Some (org_types ! 11)"
  by (simp_all add: find_type_def type_defs)

lemma found_results:
  "find_type ''SignOutResult'' = Some (result_types ! 0)" "find_type ''MailSentResult'' = Some (result_types ! 1)"
  "find_type ''UpdateResult'' = Some (result_types ! 2)" "find_type ''RevokeResult'' = Some (result_types ! 3)"
  "find_type ''RemoveResult'' = Some (result_types ! 4)" "find_type ''DeleteResult'' = Some (result_types ! 5)"
  "find_type ''SuspendResult'' = Some (result_types ! 6)" "find_type ''VisibilityResult'' = Some (result_types ! 7)"
  "find_type ''TransferResult'' = Some (result_types ! 8)" "find_type ''MemberRoleResult'' = Some (result_types ! 9)"
  "find_type ''DomainPurposeResult'' = Some (result_types ! 10)"
  by (simp_all add: find_type_def type_defs)

lemmas shape_simps = numeral_3_eq_3 numeral_2_eq_2 JMoment_def account_types_def org_types_def result_types_def field_defs

lemma User_shape: "conforms (Suc n) ''User'' (newUserView u)"
  by (simp add: newUserView_def found_types shape_simps)

lemma Org_shape: "conforms (Suc n) ''Org'' (newOrgView o1)"
  by (simp add: newOrgView_def found_types shape_simps)

lemma Token_shape: "conforms (Suc n) ''Token'' (newTokenView t)"
  by (simp add: newTokenView_def found_types shape_simps)

lemma Invite_shape: "conforms (Suc n) ''Invite'' (newInviteView i)"
  by (simp add: newInviteView_def found_types shape_simps)

lemma Domain_shape: "conforms (Suc n) ''Domain'' (newDomainView d)"
  by (simp add: newDomainView_def found_types shape_simps)

lemma Preferences_shape: "conforms (Suc n) ''Preferences'' (prefs_json v)"
  by (simp add: prefs_json_def found_types shape_simps)

lemma row_shapes: "conforms (Suc n) ''SessionInfo'' (session_view s)" "conforms (Suc n) ''AuditEntry'' (audit_view a)"
  by (simp_all add: session_view_def audit_view_def found_types shape_simps)

lemmas shapes = User_shape Org_shape Token_shape Invite_shape Domain_shape Preferences_shape row_shapes

section \<open>Handlers\<close>

definition payload :: "bool \<Rightarrow> string \<Rightarrow> json \<Rightarrow> bool" where
  "payload lst name j \<longleftrightarrow> (if lst then (case j of JList js \<Rightarrow> list_all (conforms 3 name) js | _ \<Rightarrow> False) else conforms 3 name j)"

lemma payload_ok_eq: "payload_ok rt = payload (rt_ResponseList rt) (rt_ResponseType rt)"
  by (simp add: fun_eq_iff payload_ok_def payload_def)

lemmas conforms_3 = numeral_3_eq_3 payload_def

lemmas view_defs = newUserView_def newOrgView_def newTokenView_def newInviteView_def newDomainView_def orgViews_def tokenViews_def

lemmas payload_simps = conforms_3 view_defs found_types found_results shape_simps shapes list.pred_map comp_def list.pred_True

lemma account_payloads:
  "replies (payload False ''User'') (apiRegister h c)"
  "replies (payload False ''User'') (apiRegisterWithInvite h c)"
  "replies (payload False ''SignInResult'') (apiLogin h c)"
  "replies (payload False ''SignOutResult'') (apiLogout h c)"
  "replies (payload False ''MailSentResult'') (apiPasswordForgot h c)"
  "replies (payload False ''UpdateResult'') (apiPasswordReset h c)"
  "replies (payload False ''User'') (apiMe h c)"
  "replies (payload False ''User'') (apiUpdateProfile h c)"
  "replies (payload False ''Preferences'') (apiPreferences h c)"
  "replies (payload False ''Preferences'') (apiSavePreferences h c)"
  "replies (payload False ''SecurityOverview'') (apiSecurity h c)"
  "replies (payload False ''UpdateResult'') (apiChangePassword h c)"
  "replies (payload False ''MailSentResult'') (apiStartEmailVerification h c)"
  "replies (payload False ''TwoFactorEnrollment'') (apiTwoFactorStart h c)"
  "replies (payload False ''TwoFactorState'') (apiTwoFactorConfirm h c)"
  "replies (payload False ''TwoFactorState'') (apiTwoFactorDisable h c)"
  "replies (payload True ''SessionInfo'') (apiSessions h c)"
  "replies (payload False ''RevokeResult'') (apiRevokeSession h c)"
  "replies (payload True ''Token'') (apiListTokens h c)"
  "replies (payload False ''IssuedToken'') (apiIssueToken h c)"
  "replies (payload False ''RevokeResult'') (apiRevokeToken h c)"
  "replies (payload False ''Org'') (apiAcceptInvite h c)"
  "replies (payload False ''PublicProfile'') (apiUserProfile h c)"
  unfolding account_handlers Let_def
  by (auto simp: payload_simps intro!: reply_intros)

lemma org_payloads:
  "replies (payload True ''Org'') (apiListOrgs h c)"
  "replies (payload False ''Org'') (apiCreateOrg h c)"
  "replies (payload False ''OrgAccess'') (apiOrg h c)"
  "replies (payload False ''Org'') (apiUpdateOrg h c)"
  "replies (payload False ''DeleteResult'') (apiDeleteOrg h c)"
  "replies (payload False ''OrgSettings'') (apiOrgSettings h c)"
  "replies (payload False ''VisibilityResult'') (apiUpdateOrgSettings h c)"
  "replies (payload False ''TransferResult'') (apiTransferOrg h c)"
  "replies (payload False ''MemberRoleResult'') (apiSetMemberRole h c)"
  "replies (payload False ''RemoveResult'') (apiRemoveMember h c)"
  "replies (payload True ''Invite'') (apiListInvites h c)"
  "replies (payload False ''IssuedInvite'') (apiCreateInvite h c)"
  "replies (payload False ''RevokeResult'') (apiRevokeInvite h c)"
  "replies (payload True ''AuditEntry'') (apiOrgAudit h c)"
  "replies (payload True ''Token'') (apiListOrgTokens h c)"
  "replies (payload False ''RevokeResult'') (apiRevokeOrgToken h c)"
  "replies (payload False ''ZoneGrant'') (apiGrantZone h c)"
  "replies (payload False ''RevokeResult'') (apiRevokeZone h c)"
  "replies (payload True ''Domain'') (apiListDomains h c)"
  "replies (payload False ''Domain'') (apiAddDomain h c)"
  "replies (payload False ''DomainPurposeResult'') (apiUpdateDomain h c)"
  "replies (payload False ''RemoveResult'') (apiRemoveDomain h c)"
  "replies (payload False ''DomainChallenge'') (apiDomainVerification h c)"
  "replies (payload False ''Domain'') (apiVerifyDomain h c)"
  "replies (payload False ''SuspendResult'') (apiSuspendDomain h c)"
  unfolding org_handlers Let_def
  by (auto simp: payload_simps intro!: reply_intros)

lemma misdocumented_payloads:
  "replies (\<lambda>j. payload False ''SignInResult'' j \<longleftrightarrow> j = JList []) (apiTwoFactorChallenge h c)"
  "replies (\<lambda>j. payload False ''UpdateResult'' j \<longleftrightarrow> j = JList []) (apiEmailVerify h c)"
  "replies (\<lambda>j. payload True ''Member'' j \<longleftrightarrow> j = JList []) (apiMembers h c)"
  unfolding apiTwoFactorChallenge_def apiEmailVerify_def apiMembers_def Let_def
  by (auto simp: payload_simps member_view_def list_all_iff intro!: reply_intros)

text \<open>The routes whose payload is another one than documented: the two that answer with the account, and the list of members.\<close>

definition misdocumented :: "string list" where
  "misdocumented = [''users.twofactor.challenge'', ''users.email.verify'', ''orgs.members'']"

lemma route_payloads:
  "\<forall>rt \<in> set apiRoutes. replies (\<lambda>j. payload_ok rt j \<longleftrightarrow> rt_ID rt \<notin> set misdocumented \<or> j = JList []) (rt_handler rt h c)"
  by (simp add: route_defs payload_ok_eq misdocumented_def account_payloads org_payloads misdocumented_payloads)

section \<open>Bodies\<close>

definition with_decoder :: "((string \<times> Kind) list \<Rightarrow> string \<Rightarrow> (string \<Rightarrow> json option) option) \<Rightarrow> Handler \<Rightarrow> Handler" where
  "with_decoder d h = h\<lparr>DecodeJSON := d\<rparr>"

lemma with_decoder_simps [simp]: "h_svc (with_decoder d h) = h_svc h" "h_config (with_decoder d h) = h_config h"
  "h_clientIP (with_decoder d h) = h_clientIP h" "in_org (with_decoder d h) c k = in_org h c k"
  "setSession (with_decoder d h) c tok = setSession h c tok" "clearSession (with_decoder d h) c = clearSession h c"
  "sessionToken (with_decoder d h) c = sessionToken h c"
  by (simp_all add: with_decoder_def in_org_def setSession_def clearSession_def session_cookie_def sessionCookie_def sessionToken_def fun_eq_iff)

lemma with_decoder_body: "(\<And>b. d schema b = DecodeJSON h schema b) \<Longrightarrow> with_body (with_decoder d h) c schema k = with_body h c schema k"
  by (simp add: with_body_def bind_def with_decoder_def)

lemmas body_defs = register_body_def sign_in_body_def code_body_def forgot_body_def reset_body_def profile_body_def
  preferences_body_def change_password_body_def email_body_def password_body_def token_body_def create_org_body_def
  org_profile_body_def visibility_body_def transfer_body_def role_body_def invite_body_def grant_body_def add_domain_body_def
  purpose_body_def suspend_body_def

lemma found_inputs:
  "map_option (\<lambda>t. map (\<lambda>f. (fl_Name f, fl_Kind f)) (ot_Fields t)) (find_type ''RegisterInput'') = Some register_body"
  "map_option (\<lambda>t. map (\<lambda>f. (fl_Name f, fl_Kind f)) (ot_Fields t)) (find_type ''SignInInput'') = Some sign_in_body"
  "map_option (\<lambda>t. map (\<lambda>f. (fl_Name f, fl_Kind f)) (ot_Fields t)) (find_type ''TwoFactorCodeInput'') = Some code_body"
  "map_option (\<lambda>t. map (\<lambda>f. (fl_Name f, fl_Kind f)) (ot_Fields t)) (find_type ''ForgotPasswordInput'') = Some forgot_body"
  "map_option (\<lambda>t. map (\<lambda>f. (fl_Name f, fl_Kind f)) (ot_Fields t)) (find_type ''ResetPasswordInput'') = Some reset_body"
  "map_option (\<lambda>t. map (\<lambda>f. (fl_Name f, fl_Kind f)) (ot_Fields t)) (find_type ''ProfileInput'') = Some profile_body"
  "map_option (\<lambda>t. map (\<lambda>f. (fl_Name f, fl_Kind f)) (ot_Fields t)) (find_type ''PreferencesInput'') = Some preferences_body"
  "map_option (\<lambda>t. map (\<lambda>f. (fl_Name f, fl_Kind f)) (ot_Fields t)) (find_type ''ChangePasswordInput'') = Some change_password_body"
  "map_option (\<lambda>t. map (\<lambda>f. (fl_Name f, fl_Kind f)) (ot_Fields t)) (find_type ''EmailInput'') = Some email_body"
  "map_option (\<lambda>t. map (\<lambda>f. (fl_Name f, fl_Kind f)) (ot_Fields t)) (find_type ''PasswordInput'') = Some password_body"
  "map_option (\<lambda>t. map (\<lambda>f. (fl_Name f, fl_Kind f)) (ot_Fields t)) (find_type ''TokenInput'') = Some token_body"
  "map_option (\<lambda>t. map (\<lambda>f. (fl_Name f, fl_Kind f)) (ot_Fields t)) (find_type ''CreateOrgInput'') = Some create_org_body"
  "map_option (\<lambda>t. map (\<lambda>f. (fl_Name f, fl_Kind f)) (ot_Fields t)) (find_type ''OrgProfileInput'') = Some org_profile_body"
  "map_option (\<lambda>t. map (\<lambda>f. (fl_Name f, fl_Kind f)) (ot_Fields t)) (find_type ''OrgVisibilityInput'') = Some visibility_body"
  "map_option (\<lambda>t. map (\<lambda>f. (fl_Name f, fl_Kind f)) (ot_Fields t)) (find_type ''TransferOrgInput'') = Some transfer_body"
  "map_option (\<lambda>t. map (\<lambda>f. (fl_Name f, fl_Kind f)) (ot_Fields t)) (find_type ''MemberRoleInput'') = Some role_body"
  "map_option (\<lambda>t. map (\<lambda>f. (fl_Name f, fl_Kind f)) (ot_Fields t)) (find_type ''CreateInviteInput'') = Some invite_body"
  "map_option (\<lambda>t. map (\<lambda>f. (fl_Name f, fl_Kind f)) (ot_Fields t)) (find_type ''ZoneGrantInput'') = Some grant_body"
  "map_option (\<lambda>t. map (\<lambda>f. (fl_Name f, fl_Kind f)) (ot_Fields t)) (find_type ''AddDomainInput'') = Some add_domain_body"
  "map_option (\<lambda>t. map (\<lambda>f. (fl_Name f, fl_Kind f)) (ot_Fields t)) (find_type ''DomainPurposeInput'') = Some purpose_body"
  "map_option (\<lambda>t. map (\<lambda>f. (fl_Name f, fl_Kind f)) (ot_Fields t)) (find_type ''SuspendDomainInput'') = Some suspend_body"
  by (simp_all add: find_type_def type_defs field_defs body_defs)

lemma route_bodies:
  "\<forall>rt \<in> set apiRoutes. (\<forall>schema b. documented_input rt = Some schema \<longrightarrow> d schema b = DecodeJSON h schema b)
     \<longrightarrow> rt_handler rt (with_decoder d h) c = rt_handler rt h c"
  by (simp add: route_defs documented_input_def found_inputs account_handlers org_handlers with_decoder_body Let_def)

text \<open>
  C34: The documents tell a client what to send and what it gets. A route decodes no JSON but the body it documents, field by field and
  kind by kind, and none where it documents none: handlers whose decoders agree there answer and act alike. And
  what a route answers on success is an object of the documented type, or a list of them, with every required field, no
  other field, and each of its kind; the exceptions are three routes, which never answer what they document unless
  it is an empty list.\<close>

theorem documented_shapes:
  assumes "rt \<in> set apiRoutes" and "\<And>schema b. documented_input rt = Some schema \<Longrightarrow> d schema b = DecodeJSON h schema b"
    and "rp_Result (fst (rt_handler rt h c w)) = Inr j"
  shows "rt_handler rt (with_decoder d h) c w = rt_handler rt h c w
    \<and> (payload_ok rt j \<longleftrightarrow> rt_ID rt \<notin> set misdocumented \<or> j = JList [])"
proof
  show "rt_handler rt (with_decoder d h) c w = rt_handler rt h c w"
    using route_bodies [of d h c] assms(1,2) by auto
  show "payload_ok rt j \<longleftrightarrow> rt_ID rt \<notin> set misdocumented \<or> j = JList []"
    using route_payloads [of h c] assms(1,3) by (auto simp: replies_def)
qed

definition settings_route :: api_route where
  "settings_route = user_routes ! 2"

lemma settings_route: "settings_route \<in> set apiRoutes" "rt_ID settings_route = ''users.preferences''"
  "rt_handler settings_route = apiPreferences" "documented_input settings_route = None"
  by (simp_all add: settings_route_def route_defs documented_input_def)

definition settings_call :: api_call where
  "settings_call = demo_call ((plain_request ''GET'' ''/api/v1/users/settings'')\<lparr>req_auth := Some token_info_2\<rparr>)"

theorem documented_shapes_witness:
  "\<exists>j. rp_Result (fst (apiPreferences demo_handler settings_call demo_world)) = Inr j \<and> payload_ok settings_route j
     \<and> apiPreferences (with_decoder (\<lambda>_ _. None) demo_handler) settings_call demo_world
       = apiPreferences demo_handler settings_call demo_world"
proof -
  have user: "requireUser (ac_Request settings_call) = Inr \<lparr>caller_UserID = 2, caller_Token = True, caller_Pending = False\<rparr>"
    by (simp add: settings_call_def demo_call_def demo_token_caller)
  have stored: "Service_Account.Preferences demo_env 2 demo_world = (Inr (DefaultPreferences 2), next_tick demo_world)"
    by (simp add: Service_Account.Preferences_def st_Preferences_def eval_defs demo_db_def find_where_def)
  obtain j where run: "rp_Result (fst (apiPreferences demo_handler settings_call demo_world)) = Inr j"
    by (simp add: apiPreferences_def admitted(1) [OF user] served_def demo_handler_def stored sendOK_def)
  have "rt_ID settings_route \<notin> set misdocumented" by (simp add: settings_route(2) misdocumented_def)
  with run documented_shapes [OF settings_route(1), where h = demo_handler and d = "\<lambda>_ _. None" and c = settings_call and w = demo_world
      and j = j, unfolded settings_route(3,4)]
  show ?thesis by auto
qed

end
