(* ===== verification/Org_Tokens.thy ===== *)
theory Org_Tokens
  imports Reachability Org_Access
begin

text \<open>
  What the listing of an organization's tokens shows. Every token the service stores belongs to a user; the listing asks for
  tokens that belong to an organization.
\<close>

section \<open>Owners of tokens\<close>

definition user_owned :: "users_db \<Rightarrow> bool" where
  "user_owned d \<longleftrightarrow> (\<forall>t \<in> set (api_tokens d). t_OwnerType t = OwnerUser)"

lemma user_owned_tables [simp]:
  "user_owned (users_update f0 d) = user_owned d" "user_owned (user_preferences_update f1 d) = user_owned d"
  "user_owned (user_sessions_update f2 d) = user_owned d" "user_owned (password_resets_update f3 d) = user_owned d"
  "user_owned (email_verifications_update f3 d) = user_owned d" "user_owned (totp_secrets_update f4 d) = user_owned d"
  "user_owned (organizations_update f5 d) = user_owned d" "user_owned (organization_members_update f6 d) = user_owned d"
  "user_owned (organization_audit_update f7 d) = user_owned d" "user_owned (invitations_update f8 d) = user_owned d"
  "user_owned (custom_domains_update f9 d) = user_owned d" "user_owned (custom_domain_audit_update f7 d) = user_owned d"
  "user_owned (zones_update f10 d) = user_owned d" "user_owned (zone_grants_update f11 d) = user_owned d"
  by (simp_all add: user_owned_def)

lemma user_owned_token_update:
  "(\<And>t. t_OwnerType (f t) = t_OwnerType t) \<Longrightarrow> user_owned d \<Longrightarrow> user_owned (api_tokens_update (update_where p f) d)"
  by (auto simp: user_owned_def update_where_def)

lemma user_owned_delete:
  "user_owned d \<Longrightarrow> user_owned (api_tokens_update (delete_where p) d)"
  by (auto simp: user_owned_def)

lemma user_owned_insert:
  "insert_token t d = Inr (n, d') \<Longrightarrow> t_OwnerType t = OwnerUser \<Longrightarrow> user_owned d \<Longrightarrow> user_owned d'"
  by (auto simp: user_owned_def insert_token_def Let_def split: if_splits)

lemma user_owned_cascades:
  assumes "user_owned d"
  shows "set_org_owner oid owner ts d = Inr (n, d') \<Longrightarrow> user_owned d'"
    and "delete_org oid d = Inr (n, d') \<Longrightarrow> user_owned d'"
    and "delete_domain did d = Inr (n, d') \<Longrightarrow> user_owned d'"
  using assms
  by (auto simp: set_org_owner_def sql_update_def delete_org_def delete_domain_def user_owned_def
      delete_domains_def Let_def split: if_splits)

lemma owned_statements [hoare_intros]:
  "keeps user_owned (exec e (insert_user u))" "keeps user_owned (exec e (insert_session s))"
  "keeps user_owned (exec e (insert_password_reset c))" "keeps user_owned (exec e (insert_email_verification c))"
  "keeps user_owned (exec e (insert_totp totp))" "keeps user_owned (exec e (insert_preferences prefs))"
  "keeps user_owned (exec e (insert_org o1))" "keeps user_owned (exec e (insert_member m))"
  "keeps user_owned (exec e (insert_org_audit a))" "keeps user_owned (exec e (insert_domain_audit a))"
  "keeps user_owned (exec e (insert_invite i))" "keeps user_owned (exec e (insert_domain x))"
  "keeps user_owned (exec e (insert_zone_grant g))" "keeps user_owned (exec e (set_org_owner oid owner ts))"
  "keeps user_owned (exec e (delete_org oid))" "keeps user_owned (exec e (delete_domain did))"
  by (rule keeps_exec; auto simp: returns_simps intro: user_owned_cascades)+

lemma owned_token_statement:
  "t_OwnerType tok = OwnerUser \<Longrightarrow> keeps user_owned (exec e (insert_token tok))"
  by (rule keeps_exec) (rule user_owned_insert)

lemmas owned_intros = hoare_intros keeps_update keeps_delete user_owned_token_update user_owned_delete owned_token_statement

lemma owned_account_store:
  "keeps user_owned (st_CreateUser e u)" "keeps user_owned (st_UpdateProfile e u)"
  "keeps user_owned (st_UpdatePassword e uid hash)" "keeps user_owned (st_UpdateStatus e uid status)"
  "keeps user_owned (st_MarkEmailVerified e uid)" "keeps user_owned (st_RecordLoginSuccess e uid)"
  "keeps user_owned (st_RecordLoginFailure e uid mx dur)"
  by (auto simp: st_CreateUser_def st_UpdateProfile_def st_UpdatePassword_def st_UpdateStatus_def
      st_MarkEmailVerified_def st_RecordLoginSuccess_def st_RecordLoginFailure_def update_user_def
      Let_def intro!: owned_intros)

lemma owned_credential_store:
  "keeps user_owned (st_CreateSession e sess)" "keeps user_owned (st_TouchSession e hash)"
  "keeps user_owned (st_MarkSessionTwoFactor e hash)" "keeps user_owned (st_DeleteSession e hash)"
  "keeps user_owned (st_DeleteUserSessions e uid)" "keeps user_owned (st_PurgeExpiredSessions e cutoff)"
  "keeps user_owned (st_CreatePasswordReset e uid hash t)" "keeps user_owned (st_ConsumePasswordReset e cid)"
  "keeps user_owned (st_DeleteUserPasswordResets e uid)" "keeps user_owned (st_CreateEmailVerification e uid email hash t)"
  "keeps user_owned (st_ConsumeEmailVerification e cid)" "keeps user_owned (st_PurgeExpiredChallenges e cutoff)"
  "keeps user_owned (st_SaveTOTP e totp)" "keeps user_owned (st_ConfirmTOTP e uid)"
  "keeps user_owned (st_SetRecoveryCodes e uid codes)" "keeps user_owned (st_DeleteTOTP e uid)"
  "keeps user_owned (st_SavePreferences e p)"
  by (auto simp: st_CreateSession_def st_TouchSession_def st_MarkSessionTwoFactor_def
      st_DeleteSession_def st_DeleteUserSessions_def st_PurgeExpiredSessions_def
      st_CreatePasswordReset_def st_ConsumePasswordReset_def st_DeleteUserPasswordResets_def
      st_CreateEmailVerification_def st_ConsumeEmailVerification_def st_PurgeExpiredChallenges_def
      st_SaveTOTP_def st_ConfirmTOTP_def st_SetRecoveryCodes_def st_DeleteTOTP_def
      st_SavePreferences_def Let_def intro!: owned_intros)

lemma owned_org_store:
  "keeps user_owned (st_CreateOrg e o1)" "keeps user_owned (st_UpdateOrg e o1)"
  "keeps user_owned (st_TransferOrg e oid fromID toID)" "keeps user_owned (st_DeleteOrg e oid)"
  "keeps user_owned (st_AddMember e oid uid role)" "keeps user_owned (st_SetMemberRole e oid uid role)"
  "keeps user_owned (st_RemoveMember e oid uid)" "keeps user_owned (st_GrantZone e oid uid zid perm)"
  "keeps user_owned (st_RevokeZone e oid uid zid)" "keeps user_owned (st_CreateInvite e i)"
  "keeps user_owned (st_RedeemInvite e iid)" "keeps user_owned (st_DeleteInvite e iid)"
  "keeps user_owned (st_PurgeExpiredInvites e)" "keeps user_owned (st_RecordOrgAudit e a)"
  by (auto simp: st_CreateOrg_def st_UpdateOrg_def st_TransferOrg_def st_DeleteOrg_def
      st_AddMember_def st_SetMemberRole_def st_RemoveMember_def st_GrantZone_def st_RevokeZone_def
      insert_grant_def update_member_role_def revoke_org_tokens_def st_CreateInvite_def
      st_RedeemInvite_def st_DeleteInvite_def st_PurgeExpiredInvites_def st_RecordOrgAudit_def
      intro!: owned_intros)

lemma owned_domain_store:
  "t_OwnerType tok = OwnerUser \<Longrightarrow> keeps user_owned (st_CreateToken e tok)"
  "keeps user_owned (st_TouchToken e tid)" "keeps user_owned (st_RevokeToken e tid)"
  "keeps user_owned (st_CreateDomain e x)" "keeps user_owned (st_UpdateDomainPurpose e did purpose)"
  "keeps user_owned (st_RecordVerificationAttempt e did status)" "keeps user_owned (st_ActivateDomain e did)"
  "keeps user_owned (st_SuspendDomain e did reason)" "keeps user_owned (st_SetDomainSSL e x)"
  "keeps user_owned (st_DeleteDomain e did)" "keeps user_owned (st_RecordDomainAudit e a)"
  by (auto simp: st_CreateToken_def st_TouchToken_def st_RevokeToken_def st_CreateDomain_def
      st_UpdateDomainPurpose_def st_RecordVerificationAttempt_def st_ActivateDomain_def
      st_SuspendDomain_def st_SetDomainSSL_def st_DeleteDomain_def st_RecordDomainAudit_def
      update_domain_def Let_def intro!: owned_intros)

lemma owned_failed_verification:
  "hoare (\<lambda>d. user_owned d \<and> stored_unverified did d)
     (st_RecordVerificationAttempt e did VerificationFailed) (\<lambda>_. user_owned) user_owned"
  by (rule hoare_weaken [OF owned_domain_store(6) [unfolded keeps_def]]) auto

interpretation owned: store_keeps user_owned
  by unfold_locales
    (rule owned_account_store owned_credential_store owned_org_store owned_domain_store owned_failed_verification, assumption?)+

section \<open>The listing\<close>

lemma service_steps_owned: "service_step\<^sup>*\<^sup>* d d' \<Longrightarrow> user_owned d \<Longrightarrow> user_owned d'"
proof (induction rule: rtranclp_induct)
  case (step d1 d2)
  from step.hyps(2) show ?case
  proof (rule service_stepE)
    fix e q t r res and w :: "users_db world"
    assume "serve e q \<lparr>wdb = d1, wtick = t, wrand = r\<rparr> = (res, w)" and "d2 = wdb w"
    with step.IH [OF step.prems] show "user_owned d2" using keepsD [OF owned.serve_keeps _, of "\<lparr>wdb = d1, wtick = t, wrand = r\<rparr>" e q res w] by simp
  next
    fix z assume "d2 = add_zone z d1"
    with step.IH [OF step.prems] show "user_owned d2" by (simp add: add_zone_def)
  qed
qed simp

text \<open>
  C35: The tokens of an organization are invisible to it. Whatever requests the service has answered, the listing for the people
  who manage the tokens of an organization is empty, however many live tokens give access to it: every token is stored
  as its issuer's, and the listing asks for the ones the organization owns.\<close>

theorem org_tokens_invisible:
  assumes "user_owned d" and "service_step\<^sup>*\<^sup>* d (wdb w)" and "ListOrgTokens e oid uid w = (Inr tokens, w')"
  shows "tokens = []"
proof -
  have owned: "user_owned (wdb w)" using assms(1,2) by (rule service_steps_owned [rotated])
  from assms(3) obtain a w1 where gate: "require e oid uid PermTokensManage w = (Inr a, w1)"
    and listed: "tokens = sort_key (\<lambda>t. - t_ID t)
      (filter (\<lambda>t. t_OwnerType t = OwnerOrg \<and> t_OwnerID t = oid) (api_tokens (wdb w1)))"
    by (auto simp: ListOrgTokens_def st_ListTokens_def returns_simps)
  have "wdb w1 = wdb w" by (rule readsD [OF reads_gate(2) gate])
  moreover have "OwnerUser \<noteq> OwnerOrg" by (simp add: OwnerUser_def OwnerOrg_def)
  ultimately show ?thesis using owned listed by (auto simp: user_owned_def filter_empty_conv)
qed

theorem org_tokens_invisible_witness:
  "\<exists>w'. ListOrgTokens demo_env 2 1 demo_world = (Inr [], w')
     \<and> (\<exists>t \<in> set (api_tokens (wdb demo_world)). t_OrgID t = 2 \<and> token_Usable t demo_now)"
proof -
  have gate: "require demo_env 2 1 PermTokensManage demo_world =
      (Inr \<lparr>access_Org = demo_org 2 ''acme'' False 1, access_Role = RoleOwner\<rparr>, next_tick (next_tick demo_world))"
    by (simp add: role_simps perm_defs)
  obtain tokens w' where run: "ListOrgTokens demo_env 2 1 demo_world = (Inr tokens, w')"
    by (simp add: ListOrgTokens_def call_def try_call_def gate st_ListTokens_def query_def ok_def)
  have "user_owned demo_db" by (simp add: user_owned_def demo_db_def demo_token_def)
  with run have "tokens = []" using org_tokens_invisible [of demo_db demo_world demo_env 2 1 tokens w'] by simp
  moreover have "demo_token \<in> set (api_tokens (wdb demo_world))" "t_OrgID demo_token = 2" "token_Usable demo_token demo_now"
    by (simp_all add: demo_db_def demo_token_def token_Usable_def)
  ultimately show ?thesis using run by blast
qed

end
