(* ===== verification/Config_Validate.thy ===== *)
theory Config_Validate
  imports Config_Defaults
begin

text \<open>
  \<open>Config.Validate\<close> (\<^verbatim>\<open>src/config/validate.go\<close>). A check takes a part of the document and gives the corrected
  part with the warnings it recorded, in their order; a method of the source is the sequence of the checks of
  its statements, each on the field it assigns. The scheduler's tasks are visited in the order of the
  literal of \<open>defaultSchedulerTasks\<close>, where the source leaves the order to the map.
\<close>

section \<open>Checks\<close>

type_synonym 's checked = "'s \<times> warning list"

fun checks :: "('s \<Rightarrow> 's checked) list \<Rightarrow> 's \<Rightarrow> 's checked" where
  "checks [] s = (s, [])"
| "checks (f # fs) s =
     (let (s1, w1) = f s; (s2, w2) = checks fs s1 in (s2, w1 @ w2))"

text \<open>A check of one field, by the selector and the update of the record.\<close>

definition field :: "('s \<Rightarrow> 'f) \<Rightarrow> (('f \<Rightarrow> 'f) \<Rightarrow> 's \<Rightarrow> 's) \<Rightarrow> ('f \<Rightarrow> 'f checked) \<Rightarrow> 's \<Rightarrow> 's checked" where
  "field get upd f s = (let (v, ws) = f (get s) in (upd (\<lambda>_. v) s, ws))"

text \<open>What is not acceptable is replaced, with a warning or without one.\<close>

definition reject :: "('a \<Rightarrow> bool) \<Rightarrow> ('a \<Rightarrow> warning) \<Rightarrow> 'a \<Rightarrow> 'a \<Rightarrow> 'a checked" where
  "reject bad w d v = (if bad v then (d, [w v]) else (v, []))"

definition silent :: "('a \<Rightarrow> bool) \<Rightarrow> 'a \<Rightarrow> 'a \<Rightarrow> 'a checked" where
  "silent bad d v = (if bad v then d else v, [])"

definition assign :: "('a \<Rightarrow> 'a) \<Rightarrow> 'a \<Rightarrow> 'a checked" where
  "assign f v = (f v, [])"

text \<open>A condition on the part that is only reported, or reported and repaired.\<close>

definition advise :: "('s \<Rightarrow> bool) \<Rightarrow> ('s \<Rightarrow> warning) \<Rightarrow> 's \<Rightarrow> 's checked" where
  "advise p w s = (s, if p s then [w s] else [])"

definition repair :: "('s \<Rightarrow> bool) \<Rightarrow> ('s \<Rightarrow> warning) \<Rightarrow> ('s \<Rightarrow> 's) \<Rightarrow> 's \<Rightarrow> 's checked" where
  "repair p w f s = (if p s then (f s, [w s]) else (s, []))"

abbreviation blank :: "string \<Rightarrow> bool" where "blank s \<equiv> TrimSpace s = []"
abbreviation lowered :: "string \<Rightarrow> string" where "lowered s \<equiv> ToLower (TrimSpace s)"

definition requirePositiveDuration :: "int \<Rightarrow> string \<Rightarrow> int \<Rightarrow> int checked" where
  "requirePositiveDuration fallback name =
     reject (\<lambda>d. \<not> d > 0) (\<lambda>d. (''invalid %s %s, using %s'', [AStr name, ADur d, ADur fallback])) fallback"

definition clampInt :: "int \<Rightarrow> int \<Rightarrow> int \<Rightarrow> string \<Rightarrow> int \<Rightarrow> int checked" where
  "clampInt fallback lo hi name v =
     (if v = 0 \<and> lo > 0 then (fallback, [])
      else if v < lo \<or> v > hi then
        (fallback, [(''invalid %s %d, expected %d-%d, using %d'', [AStr name, AInt v, AInt lo, AInt hi, AInt fallback])])
      else (v, []))"

text \<open>The two shapes of a word from a list: reported when it is not blank and normalized when accepted, or always reported and then normalized.\<close>

definition word_or_default :: "string list \<Rightarrow> string \<Rightarrow> (string \<Rightarrow> string) \<Rightarrow> string \<Rightarrow> string \<Rightarrow> string checked" where
  "word_or_default accepted format canon d v =
     (if \<not> containsFold accepted v then (d, if \<not> blank v then [(format, [AStr v, AStr d])] else [])
      else (canon (TrimSpace v), []))"

definition word_lowered :: "string list \<Rightarrow> string \<Rightarrow> string \<Rightarrow> string \<Rightarrow> string checked" where
  "word_lowered accepted format d v =
     (if \<not> containsFold accepted v then (lowered d, [(format, [AStr v, AStr d])]) else (lowered v, []))"

text \<open>An entry of a list is kept, or dropped with a warning or without one.\<close>

datatype 'a verdict = Keep 'a | Drop | Report warning

fun keep_entries :: "('a \<Rightarrow> 'b verdict) \<Rightarrow> 'a list \<Rightarrow> 'b list \<times> warning list" where
  "keep_entries f [] = ([], [])"
| "keep_entries f (x # xs) =
     (let (out, ws) = keep_entries f xs
      in case f x of Keep y \<Rightarrow> (y # out, ws) | Drop \<Rightarrow> (out, ws) | Report w \<Rightarrow> (out, w # ws))"

section \<open>The listener\<close>

definition mode_check :: "string \<Rightarrow> string \<Rightarrow> string checked" where
  "mode_check d m =
     (if \<not> containsFold ValidModes m
      then (lowered d, if \<not> blank m then [(''invalid server.mode %q, using %q'', [AStr m, AStr d])] else [])
      else (lowered m, []))"

definition listen_check :: "config_env \<Rightarrow> string \<Rightarrow> string \<Rightarrow> string checked" where
  "listen_check env d l =
     (if blank l then (d, [])
      else reject (\<lambda>l. \<not> ParseIP env l \<and> l \<noteq> ''localhost'')
        (\<lambda>l. (''invalid server.listen %q, using %q'', [AStr l, AStr d])) d l)"

definition port_check :: "config_env \<Rightarrow> int \<Rightarrow> int checked" where
  "port_check env p =
     (if p < 1 \<or> p > 65535 then
        let port = RandomUnusedPort env
        in (port, [if p \<noteq> 0 then (''invalid server.port %d, using random port %d'', [AInt p, AInt port])
                   else (''server.port not set, selected random port %d'', [AInt port])])
      else (p, []))"

definition segment_check :: "string \<Rightarrow> string \<Rightarrow> string \<Rightarrow> string checked" where
  "segment_check format d p =
     (if \<not> IsRouteSegment p then (d, if \<not> blank p then [(format, [AStr p, AStr d])] else []) else (p, []))"

definition validateServer :: "config_env \<Rightarrow> Server \<Rightarrow> Server \<Rightarrow> Server checked" where
  "validateServer env d = checks
     [field Mode Mode_update (mode_check (Mode d)),
      field Listen Listen_update (listen_check env (Listen d)),
      field Port Port_update (port_check env),
      field BaseURL BaseURL_update (assign NormalizeBaseURL),
      field srv_ApplicationName srv_ApplicationName_update (silent blank (srv_ApplicationName d)),
      field ApplicationTagline ApplicationTagline_update (silent blank (ApplicationTagline d)),
      field srv_Security srv_Security_update
        (field sec_EncryptionKeyVersion sec_EncryptionKeyVersion_update (silent (\<lambda>v. v < 1) 1)),
      field AdminPath AdminPath_update (segment_check ''invalid server.admin_path %q, using %q'' (AdminPath d)),
      field APIVersion APIVersion_update (segment_check ''invalid server.api_version %q, using %q'' (APIVersion d))]"

definition validateSSL :: "int \<Rightarrow> SSL \<Rightarrow> SSL \<Rightarrow> SSL checked" where
  "validateSSL serverPort d = checks
     [field ssl_Port ssl_Port_update
        (reject (\<lambda>p. p < 0 \<or> p > 65535)
          (\<lambda>p. (''invalid server.ssl.port %d, disabling the HTTPS listener'', [AInt p])) 0),
      field ssl_Port ssl_Port_update
        (reject (\<lambda>p. p \<noteq> 0 \<and> p = serverPort)
          (\<lambda>p. (''server.ssl.port %d duplicates server.port, disabling the HTTPS listener'', [AInt p])) 0),
      field ssl_MinVersion ssl_MinVersion_update
        (word_or_default validTLSVersions ''invalid server.ssl.min_version %q, using %q'' ToUpper (ssl_MinVersion d)),
      repair (\<lambda>s. (ssl_Cert s = []) \<noteq> (ssl_Key s = []))
        (\<lambda>s. (''server.ssl.cert and server.ssl.key must be set together, falling back to certificate auto-detection'', []))
        (\<lambda>s. s\<lparr>ssl_Cert := [], ssl_Key := []\<rparr>),
      field ssl_LetsEncrypt ssl_LetsEncrypt_update (checks
        [field le_Challenge le_Challenge_update
           (word_or_default validACMEChallenges ''invalid server.ssl.letsencrypt.challenge %q, using %q'' ToLower
             (le_Challenge (ssl_LetsEncrypt d))),
         repair (\<lambda>le. le_Enabled le \<and> blank (le_Email le))
           (\<lambda>le. (''server.ssl.letsencrypt.enabled is set without an email address, disabling automatic certificates'', []))
           (\<lambda>le. le\<lparr>le_Enabled := False\<rparr>)])]"

definition exempt_path :: "string \<Rightarrow> string verdict" where
  "exempt_path raw =
     (let p = TrimSpace raw
      in if p = [] then Drop
         else if \<not> HasPrefix p ''/'' then
           Report (''invalid server.web.csrf.exempt_paths entry %q, must start with /'', [AStr p])
         else Keep p)"

definition exempt_paths :: "string list option \<Rightarrow> string list option \<Rightarrow> string list option checked" where
  "exempt_paths d paths =
     (let given = (case paths of Some ps \<Rightarrow> ps | None \<Rightarrow> (case d of Some ps \<Rightarrow> ps | None \<Rightarrow> []));
          (kept, ws) = keep_entries exempt_path given
      in (Some kept, ws))"

definition validateWeb :: "Web \<Rightarrow> Web \<Rightarrow> Web checked" where
  "validateWeb d = checks
     [field web_CORS web_CORS_update (assign TrimSpace),
      field web_CSRF web_CSRF_update (field csrf_ExemptPaths csrf_ExemptPaths_update
        (exempt_paths (csrf_ExemptPaths (web_CSRF d)))),
      field web_HSTS web_HSTS_update (checks
        [field hsts_MaxAge hsts_MaxAge_update
           (reject (\<lambda>a. a < 0)
             (\<lambda>a. (''invalid server.web.hsts.max_age %d, using %d'', [AInt a, AInt (hsts_MaxAge (web_HSTS d))]))
             (hsts_MaxAge (web_HSTS d))),
         repair (\<lambda>h. hsts_Preload h \<and> (\<not> hsts_IncludeSubdomains h \<or> hsts_MaxAge h < 31536000))
           (\<lambda>h. (''server.web.hsts.preload requires include_subdomains and a max_age of at least 31536000, dropping preload'', []))
           (\<lambda>h. h\<lparr>hsts_Preload := False\<rparr>)])]"

section \<open>Requests\<close>

definition validateLimits :: "Limits \<Rightarrow> Limits \<Rightarrow> Limits checked" where
  "validateLimits d = checks
     [field l_MaxBodySize l_MaxBodySize_update
        (reject (\<lambda>n. n \<le> 0)
          (\<lambda>n. (''invalid server.limits.max_body_size %d, using %s'', [AInt n, ASize (l_MaxBodySize d)])) (l_MaxBodySize d)),
      field l_ReadTimeout l_ReadTimeout_update (requirePositiveDuration (l_ReadTimeout d) ''server.limits.read_timeout''),
      field l_WriteTimeout l_WriteTimeout_update (requirePositiveDuration (l_WriteTimeout d) ''server.limits.write_timeout''),
      field l_IdleTimeout l_IdleTimeout_update (requirePositiveDuration (l_IdleTimeout d) ''server.limits.idle_timeout'')]"

definition validateCompression :: "Compression \<Rightarrow> Compression \<Rightarrow> Compression checked" where
  "validateCompression d = checks
     [field comp_Level comp_Level_update
        (reject (\<lambda>n. n < 1 \<or> n > 9)
          (\<lambda>n. (''invalid server.compression.level %d, using %d'', [AInt n, AInt (comp_Level d)])) (comp_Level d)),
      field comp_Types comp_Types_update (silent (\<lambda>ts. ts = []) DefaultCompressionTypes)]"

definition validateSessionScope :: "SessionScope \<Rightarrow> string \<Rightarrow> SessionScope \<Rightarrow> SessionScope checked" where
  "validateSessionScope d name = checks
     [field ss_CookieName ss_CookieName_update (silent blank (ss_CookieName d)),
      field ss_MaxAge ss_MaxAge_update (requirePositiveDuration (ss_MaxAge d) (''server.session.'' @ name @ ''.max_age'')),
      field ss_IdleTimeout ss_IdleTimeout_update
        (requirePositiveDuration (ss_IdleTimeout d) (''server.session.'' @ name @ ''.idle_timeout'')),
      repair (\<lambda>s. ss_IdleTimeout s > ss_MaxAge s)
        (\<lambda>s. (''server.session.%s.idle_timeout exceeds max_age, clamping to %s'', [AStr name, ADur (ss_MaxAge s)]))
        (\<lambda>s. s\<lparr>ss_IdleTimeout := ss_MaxAge s\<rparr>)]"

text \<open>The cookie attributes are compared without trimming.\<close>

definition cookie_word :: "string list \<Rightarrow> string \<Rightarrow> string \<Rightarrow> string \<Rightarrow> string checked" where
  "cookie_word accepted format d v =
     (if ToLower v \<notin> set accepted then (d, [(format, [AStr v, AStr d])]) else (ToLower v, []))"

definition validateSession :: "Session_config \<Rightarrow> Session_config \<Rightarrow> Session_config checked" where
  "validateSession d = checks
     [field sess_Admin sess_Admin_update (validateSessionScope (sess_Admin d) ''admin''),
      field sess_User sess_User_update (validateSessionScope (sess_User d) ''user''),
      field sess_Secure sess_Secure_update
        (cookie_word validSecure ''invalid server.session.secure %q, using %q'' (sess_Secure d)),
      field sess_SameSite sess_SameSite_update
        (cookie_word validSameSite ''invalid server.session.same_site %q, using %q'' (sess_SameSite d))]"

definition validateBucket :: "RateBucket \<Rightarrow> string \<Rightarrow> RateBucket \<Rightarrow> RateBucket checked" where
  "validateBucket d name = checks
     [field rb_Requests rb_Requests_update
        (reject (\<lambda>n. n < 1)
          (\<lambda>n. (''invalid %s.requests %d, using %d'', [AStr name, AInt n, AInt (rb_Requests d)])) (rb_Requests d)),
      field rb_Window rb_Window_update (requirePositiveDuration (rb_Window d) (name @ ''.window''))]"

definition validateRateLimit :: "RateLimit_config \<Rightarrow> RateLimit_config \<Rightarrow> RateLimit_config checked" where
  "validateRateLimit d = checks
     [field rl_Read rl_Read_update (validateBucket (rl_Read d) ''server.rate_limit.read''),
      field rl_Write rl_Write_update (validateBucket (rl_Write d) ''server.rate_limit.write''),
      field rl_Health rl_Health_update (validateBucket (rl_Health d) ''server.rate_limit.health''),
      field rl_Auth rl_Auth_update (checks
        [field arl_Login arl_Login_update (validateBucket (arl_Login (rl_Auth d)) ''server.rate_limit.auth.login''),
         field arl_PasswordReset arl_PasswordReset_update
           (validateBucket (arl_PasswordReset (rl_Auth d)) ''server.rate_limit.auth.password_reset''),
         field arl_Registration arl_Registration_update
           (validateBucket (arl_Registration (rl_Auth d)) ''server.rate_limit.auth.registration'')]),
      field rl_GlobalBurst rl_GlobalBurst_update
        (reject (\<lambda>n. n < 1)
          (\<lambda>n. (''invalid server.rate_limit.global_burst %d, using %d'', [AInt n, AInt (rl_GlobalBurst d)])) (rl_GlobalBurst d))]"

section \<open>Languages\<close>

definition default_listed :: "I18n \<Rightarrow> I18n checked" where
  "default_listed i =
     (if i18n_Supported i = [] then (i\<lparr>i18n_Supported := [i18n_DefaultLanguage i]\<rparr>, [])
      else
        repair (\<lambda>i. i18n_DefaultLanguage i \<notin> set (i18n_Supported i))
          (\<lambda>i. (''server.i18n.default_language %q missing from available_languages, adding it'', [AStr (i18n_DefaultLanguage i)]))
          (\<lambda>i. i\<lparr>i18n_Supported := i18n_DefaultLanguage i # i18n_Supported i\<rparr>)
          (i\<lparr>i18n_Supported := map lowered (i18n_Supported i)\<rparr>))"

definition fallback_listed :: "I18n \<Rightarrow> I18n checked" where
  "fallback_listed =
     repair (\<lambda>i. i18n_FallbackLanguage i \<notin> set (i18n_Supported i))
       (\<lambda>i. (''server.i18n.fallback_language %q missing from available_languages, adding it'', [AStr (i18n_FallbackLanguage i)]))
       (\<lambda>i. i\<lparr>i18n_Supported := i18n_Supported i @ [i18n_FallbackLanguage i]\<rparr>)"

definition validateI18n :: "I18n \<Rightarrow> I18n \<Rightarrow> I18n checked" where
  "validateI18n d = checks
     [field i18n_DefaultLanguage i18n_DefaultLanguage_update
        (assign (\<lambda>l. ToLower (if blank l then i18n_DefaultLanguage d else l))),
      default_listed,
      field i18n_FallbackLanguage i18n_FallbackLanguage_update
        (assign (\<lambda>l. ToLower (if blank l then i18n_FallbackLanguage d else l))),
      fallback_listed,
      field i18n_CookieName i18n_CookieName_update (silent blank (i18n_CookieName d)),
      field i18n_CookieMaxAge i18n_CookieMaxAge_update
        (reject (\<lambda>a. a \<le> 0)
          (\<lambda>a. (''invalid server.i18n.cookie_max_age %v, using %v'', [ADur a, ADur (i18n_CookieMaxAge d)])) (i18n_CookieMaxAge d))]"

section \<open>Storage\<close>

definition driver_check :: "string list \<Rightarrow> string \<Rightarrow> string \<Rightarrow> string \<Rightarrow> string checked" where
  "driver_check known format d ty =
     (if ty = [] then (d, []) else reject (\<lambda>ty. ty \<notin> set known) (\<lambda>ty. (format, [AStr ty, AStr d])) d ty)"

definition validateCache :: "Cache_config \<Rightarrow> Cache_config \<Rightarrow> Cache_config checked" where
  "validateCache d = checks
     [field ca_Type ca_Type_update
        (\<lambda>t. driver_check CacheTypes ''invalid server.cache.type %q, using %q'' (ca_Type d) (lowered t)),
      field ca_Host ca_Host_update (silent blank (ca_Host d)),
      field ca_Port ca_Port_update
        (reject (\<lambda>p. p < 1 \<or> p > 65535)
          (\<lambda>p. (''invalid server.cache.port %d, using %d'', [AInt p, AInt (ca_Port d)])) (ca_Port d)),
      field ca_DB ca_DB_update
        (reject (\<lambda>n. n < 0) (\<lambda>n. (''invalid server.cache.db %d, using %d'', [AInt n, AInt (ca_DB d)])) (ca_DB d)),
      field ca_PoolSize ca_PoolSize_update
        (reject (\<lambda>n. n < 1)
          (\<lambda>n. (''invalid server.cache.pool_size %d, using %d'', [AInt n, AInt (ca_PoolSize d)])) (ca_PoolSize d)),
      field ca_MinIdle ca_MinIdle_update
        (reject (\<lambda>n. n < 0)
          (\<lambda>n. (''invalid server.cache.min_idle %d, using %d'', [AInt n, AInt (ca_MinIdle d)])) (ca_MinIdle d)),
      repair (\<lambda>ca. ca_MinIdle ca > ca_PoolSize ca)
        (\<lambda>ca. (''server.cache.min_idle exceeds pool_size, clamping to %d'', [AInt (ca_PoolSize ca)]))
        (\<lambda>ca. ca\<lparr>ca_MinIdle := ca_PoolSize ca\<rparr>),
      field ca_Timeout ca_Timeout_update (requirePositiveDuration (ca_Timeout d) ''server.cache.timeout''),
      field ca_TTL ca_TTL_update (requirePositiveDuration (ca_TTL d) ''server.cache.ttl''),
      field ca_Prefix ca_Prefix_update (silent blank (ca_Prefix d))]"

definition validateLogFile :: "config_env \<Rightarrow> LogFile \<Rightarrow> string list \<Rightarrow> string \<Rightarrow> LogFile \<Rightarrow> LogFile checked" where
  "validateLogFile env d formats name = checks
     [field lf_Filename lf_Filename_update (silent blank (lf_Filename d)),
      field lf_Filename lf_Filename_update
        (reject (\<lambda>f. CHR ''/'' \<in> set f \<or> CHR 0x5C \<in> set f)
          (\<lambda>f. (''invalid %s.filename %q (path separators are not allowed), using %q'',
                 [AStr name, AStr f, AStr (lf_Filename d)])) (lf_Filename d)),
      field lf_Format lf_Format_update (assign lowered),
      field lf_Format lf_Format_update
        (reject (\<lambda>f. f \<notin> set formats)
          (\<lambda>f. (''invalid %s.format %q, using %q'', [AStr name, AStr f, AStr (lf_Format d)])) (lf_Format d)),
      repair (\<lambda>f. lf_Format f = ''custom'' \<and> blank (lf_Custom f))
        (\<lambda>f. (''%s.format is custom but %s.custom is empty, using %q'', [AStr name, AStr name, AStr (lf_Format d)]))
        (\<lambda>f. f\<lparr>lf_Format := lf_Format d\<rparr>),
      field lf_Rotate lf_Rotate_update
        (reject (\<lambda>r. \<not> ValidRotate env r)
          (\<lambda>r. (''invalid %s.rotate %q, using %q'', [AStr name, AStr r, AStr (lf_Rotate d)])) (lf_Rotate d)),
      field lf_Keep lf_Keep_update
        (reject (\<lambda>k. \<not> ValidKeep k)
          (\<lambda>k. (''invalid %s.keep %q, using %q'', [AStr name, AStr k, AStr (lf_Keep d)])) (lf_Keep d))]"

definition validateLogs :: "config_env \<Rightarrow> Logs \<Rightarrow> Logs \<Rightarrow> Logs checked" where
  "validateLogs env d = checks
     [field log_Level log_Level_update (assign lowered),
      field log_Level log_Level_update
        (reject (\<lambda>l. l \<notin> set LogLevels)
          (\<lambda>l. (''invalid server.logs.level %q, using %q'', [AStr l, AStr (log_Level d)])) (log_Level d)),
      field log_Access log_Access_update (field al_LogFile al_LogFile_update
        (validateLogFile env (al_LogFile (log_Access d)) validAccessFormats ''server.logs.access'')),
      field log_Server log_Server_update (validateLogFile env (log_Server d) validTextFormats ''server.logs.server''),
      field log_Error log_Error_update (validateLogFile env (log_Error d) validTextFormats ''server.logs.error''),
      field log_Security log_Security_update
        (validateLogFile env (log_Security d) validSecurityFormats ''server.logs.security''),
      field log_Debug log_Debug_update (field dbg_LogFile dbg_LogFile_update
        (validateLogFile env (dbg_LogFile (log_Debug d)) validTextFormats ''server.logs.debug'')),
      field log_Audit log_Audit_update (field aud_LogFile aud_LogFile_update
        (validateLogFile env (aud_LogFile (log_Audit d)) [''json''] ''server.logs.audit''))]"

definition validateDatabase :: "Database \<Rightarrow> Database \<Rightarrow> Database checked" where
  "validateDatabase d = checks
     [field db_Type db_Type_update
        (\<lambda>t. driver_check DatabaseDrivers ''invalid server.database.type %q, using %q'' (db_Type d) (NormalizeDatabaseDriver t)),
      field db_Port db_Port_update
        (reject (\<lambda>p. p < 0 \<or> p > 65535) (\<lambda>p. (''invalid server.database.port %d, ignoring it'', [AInt p])) 0),
      field db_MaxOpenConns db_MaxOpenConns_update
        (reject (\<lambda>n. n < 1)
          (\<lambda>n. (''invalid server.database.max_open_conns %d, using %d'', [AInt n, AInt (db_MaxOpenConns d)])) (db_MaxOpenConns d)),
      field db_MaxIdleConns db_MaxIdleConns_update
        (reject (\<lambda>n. n < 1)
          (\<lambda>n. (''invalid server.database.max_idle_conns %d, using %d'', [AInt n, AInt (db_MaxIdleConns d)])) (db_MaxIdleConns d)),
      repair (\<lambda>db. db_MaxIdleConns db > db_MaxOpenConns db)
        (\<lambda>db. (''server.database.max_idle_conns exceeds max_open_conns, clamping to %d'', [AInt (db_MaxOpenConns db)]))
        (\<lambda>db. db\<lparr>db_MaxIdleConns := db_MaxOpenConns db\<rparr>),
      field db_ConnMaxLifetime db_ConnMaxLifetime_update
        (requirePositiveDuration (db_ConnMaxLifetime d) ''server.database.conn_max_lifetime''),
      field db_ConnMaxIdleTime db_ConnMaxIdleTime_update
        (requirePositiveDuration (db_ConnMaxIdleTime d) ''server.database.conn_max_idle_time'')]"

definition proxy_entry :: "config_env \<Rightarrow> string \<Rightarrow> string verdict" where
  "proxy_entry env raw =
     (let entry = TrimSpace raw
      in if entry = [] then Drop
         else if ParseIP env entry then Keep entry
         else if ParseCIDR env entry then Keep entry
         else if isPlausibleHostname entry then Keep entry
         else Report (''invalid server.trusted_proxies.additional entry %q, dropping it'', [AStr entry]))"

definition validateTrustedProxies :: "config_env \<Rightarrow> TrustedProxies \<Rightarrow> TrustedProxies checked" where
  "validateTrustedProxies env = field tp_Additional tp_Additional_update (keep_entries (proxy_entry env))"

section \<open>Accounts, organizations and domains\<close>

definition registration_checks :: "Registration \<Rightarrow> Registration \<Rightarrow> Registration checked" where
  "registration_checks d = checks
     [field reg_Mode reg_Mode_update
        (word_lowered AccountModes ''invalid server.users.registration.mode %q, using %q'' (reg_Mode d)),
      field InviteExpirationDays InviteExpirationDays_update
        (reject (\<lambda>n. n \<le> 0)
          (\<lambda>n. (''invalid server.users.registration.invite_expiration_days %d, using %d'',
                 [AInt n, AInt (InviteExpirationDays d)])) (InviteExpirationDays d)),
      field AllowedDomains AllowedDomains_update (assign normalizeDomainList),
      field BlockedDomains BlockedDomains_update (assign normalizeDomainList)]"

definition auth_checks :: "UserAuth \<Rightarrow> UserAuth \<Rightarrow> UserAuth checked" where
  "auth_checks d = checks
     [field SessionDuration SessionDuration_update
        (requirePositiveDuration (SessionDuration d) ''server.users.auth.session_duration''),
      field LockoutDuration LockoutDuration_update
        (requirePositiveDuration (LockoutDuration d) ''server.users.auth.lockout_duration''),
      field PasswordMinLength PasswordMinLength_update
        (reject (\<lambda>n. n < MinPasswordLength)
          (\<lambda>n. (''invalid server.users.auth.password_min_length %d, using %d'', [AInt n, AInt (PasswordMinLength d)]))
          (PasswordMinLength d)),
      field MaxFailedLogins MaxFailedLogins_update
        (reject (\<lambda>n. n \<le> 0)
          (\<lambda>n. (''invalid server.users.auth.max_failed_logins %d, using %d'', [AInt n, AInt (MaxFailedLogins d)]))
          (MaxFailedLogins d)),
      repair (\<lambda>a. Require2FA a \<and> \<not> Allow2FA a)
        (\<lambda>a. (''server.users.auth.require_2fa is set while allow_2fa is not, enabling allow_2fa'', []))
        (\<lambda>a. a\<lparr>Allow2FA := True\<rparr>)]"

definition token_checks :: "UserTokens \<Rightarrow> UserTokens \<Rightarrow> UserTokens checked" where
  "token_checks d = checks
     [field MaxPerUser MaxPerUser_update
        (reject (\<lambda>n. n < 0)
          (\<lambda>n. (''invalid server.users.tokens.max_per_user %d, using %d'', [AInt n, AInt (MaxPerUser d)])) (MaxPerUser d)),
      field ExpirationDays ExpirationDays_update
        (reject (\<lambda>n. n < 0)
          (\<lambda>n. (''invalid server.users.tokens.expiration_days %d, using %d'', [AInt n, AInt (ExpirationDays d)]))
          (ExpirationDays d))]"

definition validateUsers :: "Users_config \<Rightarrow> Users_config \<Rightarrow> Users_config checked" where
  "validateUsers d = checks
     [field cfg_Registration cfg_Registration_update (registration_checks (cfg_Registration d)),
      field cfg_Auth cfg_Auth_update (auth_checks (cfg_Auth d)),
      field cfg_Tokens cfg_Tokens_update (token_checks (cfg_Tokens d)),
      field cfg_Profile cfg_Profile_update (field user_DefaultVisibility user_DefaultVisibility_update
        (word_lowered ProfileVisibilities ''invalid server.users.profile.default_visibility %q, using %q''
          (user_DefaultVisibility (cfg_Profile d))))]"

definition validateOrgs :: "bool \<Rightarrow> Orgs \<Rightarrow> Orgs \<Rightarrow> Orgs checked" where
  "validateOrgs usersEnabled d = checks
     [field o_Enabled o_Enabled_update
        (reject (\<lambda>en. en \<and> \<not> usersEnabled)
          (\<lambda>en. (''server.orgs.enabled requires server.users.enabled, disabling organizations'', [])) False),
      field o_Creation o_Creation_update (checks
        [field oc_Mode oc_Mode_update
           (word_lowered AccountModes ''invalid server.orgs.creation.mode %q, using %q'' (oc_Mode (o_Creation d))),
         field oc_MaxPerUser oc_MaxPerUser_update
           (reject (\<lambda>n. n < 0)
             (\<lambda>n. (''invalid server.orgs.creation.max_per_user %d, using %d'', [AInt n, AInt (oc_MaxPerUser (o_Creation d))]))
             (oc_MaxPerUser (o_Creation d)))]),
      field o_Profile o_Profile_update (field op_DefaultVisibility op_DefaultVisibility_update
        (word_lowered ProfileVisibilities ''invalid server.orgs.profile.default_visibility %q, using %q''
          (op_DefaultVisibility (o_Profile d)))),
      field o_Members o_Members_update (field om_DefaultRole om_DefaultRole_update (checks
        [word_lowered OrgRoles ''invalid server.orgs.members.default_role %q, using %q'' (om_DefaultRole (o_Members d)),
         reject (\<lambda>r. r = ''owner'')
           (\<lambda>r. (''server.orgs.members.default_role cannot be owner, using %q'', [AStr (om_DefaultRole (o_Members d))]))
           (om_DefaultRole (o_Members d))]))]"

definition blocked_pattern :: "config_env \<Rightarrow> string \<Rightarrow> string verdict" where
  "blocked_pattern env raw =
     (let p = TrimSpace raw
      in if p = [] then Drop
         else if \<not> regexp_Compile env p then
           Report (''invalid server.features.custom_domains.blocked_patterns entry %q, dropping it'', [AStr p])
         else Keep p)"

definition validateCustomDomains :: "config_env \<Rightarrow> bool \<Rightarrow> CustomDomains \<Rightarrow> CustomDomains \<Rightarrow> CustomDomains checked" where
  "validateCustomDomains env orgsEnabled d = checks
     [field cd_Enabled cd_Enabled_update
        (reject (\<lambda>en. en \<and> \<not> orgsEnabled)
          (\<lambda>en. (''server.features.custom_domains.enabled requires server.orgs.enabled, disabling custom domains'', [])) False),
      field cd_MaxDomainsPerUser cd_MaxDomainsPerUser_update
        (reject (\<lambda>n. n < 0)
          (\<lambda>n. (''invalid server.features.custom_domains.max_domains_per_user %d, using %d'', [AInt n, AInt (cd_MaxDomainsPerUser d)]))
          (cd_MaxDomainsPerUser d)),
      field cd_MaxDomainsPerOrg cd_MaxDomainsPerOrg_update
        (reject (\<lambda>n. n < 0)
          (\<lambda>n. (''invalid server.features.custom_domains.max_domains_per_org %d, using %d'', [AInt n, AInt (cd_MaxDomainsPerOrg d)]))
          (cd_MaxDomainsPerOrg d)),
      repair (\<lambda>cd. \<not> cd_AllowApex cd \<and> \<not> cd_AllowSubdomain cd \<and> \<not> cd_AllowWildcard cd)
        (\<lambda>cd. (''server.features.custom_domains allows no domain shape, re-enabling apex and subdomain'', []))
        (\<lambda>cd. cd\<lparr>cd_AllowApex := True, cd_AllowSubdomain := True\<rparr>),
      field cd_VerificationTTL cd_VerificationTTL_update
        (requirePositiveDuration (cd_VerificationTTL d) ''server.features.custom_domains.verification_ttl''),
      field cd_SSLRenewalDays cd_SSLRenewalDays_update
        (reject (\<lambda>n. n \<le> 0)
          (\<lambda>n. (''invalid server.features.custom_domains.ssl_renewal_days %d, using %d'', [AInt n, AInt (cd_SSLRenewalDays d)]))
          (cd_SSLRenewalDays d)),
      field cd_Reserved cd_Reserved_update (assign normalizeDomainList),
      field cd_BlockedPatterns cd_BlockedPatterns_update (keep_entries (blocked_pattern env))]"

section \<open>Notifications and tasks\<close>

definition validPositions :: "string list" where
  "validPositions = [''top-right'', ''top-left'', ''bottom-right'', ''bottom-left'']"

definition validateNotifications :: "Notifications \<Rightarrow> Notifications \<Rightarrow> Notifications checked" where
  "validateNotifications d = checks
     [field n_WebUI n_WebUI_update (checks
        [field wu_Position wu_Position_update
           (reject (\<lambda>p. ToLower p \<notin> set validPositions)
             (\<lambda>p. (''invalid notifications.webui.position %q, using %q'', [AStr p, AStr (wu_Position (n_WebUI d))]))
             (wu_Position (n_WebUI d))),
         field wu_Duration wu_Duration_update
           (reject (\<lambda>v. v < 0)
             (\<lambda>v. (''invalid notifications.webui.duration %v, using %v'', [ADur v, ADur (wu_Duration (n_WebUI d))]))
             (wu_Duration (n_WebUI d)))]),
      field n_Email n_Email_update (checks
        [field ne_SMTP ne_SMTP_update (checks
           [field smtp_Port smtp_Port_update (\<lambda>p.
              if p = 0 then (smtp_Port (ne_SMTP (n_Email d)), [])
              else reject (\<lambda>p. p < 0 \<or> p > 65535)
                (\<lambda>p. (''invalid notifications.email.smtp.port %d, using %d'', [AInt p, AInt (smtp_Port (ne_SMTP (n_Email d)))]))
                (smtp_Port (ne_SMTP (n_Email d))) p),
            field smtp_TLS smtp_TLS_update (\<lambda>t.
              if t = [] then (smtp_TLS (ne_SMTP (n_Email d)), [])
              else reject (\<lambda>t. ToLower t \<notin> set SMTPTLSModes)
                (\<lambda>t. (''invalid notifications.email.smtp.tls %q, using %q'', [AStr t, AStr (smtp_TLS (ne_SMTP (n_Email d)))]))
                (smtp_TLS (ne_SMTP (n_Email d))) t)]),
         field ne_Events ne_Events_update
           (silent (\<lambda>ev. ev = None) (Some (map_of defaultNotificationEvents)))])]"

text \<open>A limit of the retention: out of range without a warning, over the recommended ceiling with one.\<close>

definition ceiling_check :: "(int \<Rightarrow> bool) \<Rightarrow> int \<Rightarrow> int \<Rightarrow> string \<Rightarrow> string \<Rightarrow> int \<Rightarrow> int checked" where
  "ceiling_check bad d ceil format name v =
     (if bad v then (d, []) else if v > ceil then (v, [(format, [AStr name, AInt v])]) else (v, []))"

definition validateBackupRetention :: "TaskRetention \<Rightarrow> string \<Rightarrow> TaskRetention \<Rightarrow> TaskRetention checked" where
  "validateBackupRetention d name = checks
     [field MaxBackups MaxBackups_update
        (ceiling_check (\<lambda>v. v \<le> 0) (MaxBackups d) 7
          ''scheduler.tasks.%s.retention.max_backups %d exceeds the recommended ceiling of 7'' name),
      field KeepWeekly KeepWeekly_update
        (ceiling_check (\<lambda>v. v < 0) (KeepWeekly d) 8
          ''scheduler.tasks.%s.retention.keep_weekly %d exceeds the recommended ceiling of 8'' name),
      field KeepMonthly KeepMonthly_update
        (ceiling_check (\<lambda>v. v < 0) (KeepMonthly d) 12
          ''scheduler.tasks.%s.retention.keep_monthly %d exceeds the recommended ceiling of 12'' name),
      field KeepYearly KeepYearly_update
        (ceiling_check (\<lambda>v. v < 0) (KeepYearly d) 2
          ''scheduler.tasks.%s.retention.keep_yearly %d exceeds the recommended ceiling of 2'' name),
      field MaxTotalSize MaxTotalSize_update (silent (\<lambda>m. m = []) (MaxTotalSize d))]"

definition validate_task :: "string \<Rightarrow> SchedulerTask \<Rightarrow> SchedulerTask option \<Rightarrow> SchedulerTask \<times> warning list" where
  "validate_task name defTask found =
     (case found of
        None \<Rightarrow> (defTask, [])
      | Some t \<Rightarrow> checks
          [field task_Schedule task_Schedule_update (silent (\<lambda>s. s = []) (task_Schedule defTask)),
           field task_Retention task_Retention_update (validateBackupRetention (task_Retention defTask) name)] t)"

fun validate_tasks :: "(string \<times> SchedulerTask) list \<Rightarrow> (string \<rightharpoonup> SchedulerTask) \<Rightarrow> (string \<rightharpoonup> SchedulerTask) \<times> warning list" where
  "validate_tasks [] tasks = (tasks, [])"
| "validate_tasks ((name, defTask) # rest) tasks =
     (let (t, w1) = validate_task name defTask (tasks name);
          (tasks', w2) = validate_tasks rest (tasks(name \<mapsto> t))
      in (tasks', w1 @ w2))"

definition validateScheduler :: "config_env \<Rightarrow> Scheduler_config \<Rightarrow> Scheduler_config \<Rightarrow> Scheduler_config checked" where
  "validateScheduler env d = checks
     [field sch_Timezone sch_Timezone_update (\<lambda>tz.
        if tz = [] then (sch_Timezone d, [])
        else reject (\<lambda>tz. \<not> LoadLocation env tz)
          (\<lambda>tz. (''invalid scheduler.timezone %q, using %q'', [AStr tz, AStr (sch_Timezone d)])) (sch_Timezone d) tz),
      field sch_CatchUpWindow sch_CatchUpWindow_update
        (reject (\<lambda>w. w < 0)
          (\<lambda>w. (''invalid scheduler.catch_up_window %v, using %v'', [ADur w, ADur (sch_CatchUpWindow d)])) (sch_CatchUpWindow d)),
      field sch_Tasks sch_Tasks_update (\<lambda>tasks.
        case tasks of
          None \<Rightarrow> (Some (map_of defaultSchedulerTasks), [])
        | Some m \<Rightarrow> let (m', ws) = validate_tasks defaultSchedulerTasks m in (Some m', ws))]"

section \<open>Countries, measurements, backups and updates\<close>

fun country_loop :: "string \<Rightarrow> string list \<Rightarrow> string list \<Rightarrow> string list \<times> warning list" where
  "country_loop name seen [] = ([], [])"
| "country_loop name seen (raw # rest) =
     (let code = ToUpper (TrimSpace raw)
      in if length code \<noteq> 2 \<or> \<not> isAlphaOnly code then
           let (out, ws) = country_loop name seen rest
           in (out, (''invalid %s entry %q, expected an ISO 3166-1 alpha-2 code'', [AStr name, AStr raw]) # ws)
         else if code \<in> set seen then country_loop name seen rest
         else let (out, ws) = country_loop name (code # seen) rest in (code # out, ws))"

definition normalizeCountryList :: "string \<Rightarrow> string list \<Rightarrow> string list \<times> warning list" where
  "normalizeCountryList name list = country_loop name [] list"

definition validateGeoIP :: "GeoIP_config \<Rightarrow> GeoIP_config checked" where
  "validateGeoIP = checks
     [field g_DenyCountries g_DenyCountries_update (normalizeCountryList ''geoip.deny_countries''),
      field g_AllowCountries g_AllowCountries_update (normalizeCountryList ''geoip.allow_countries''),
      advise (\<lambda>g. g_AllowCountries g \<noteq> [] \<and> g_DenyCountries g \<noteq> [])
        (\<lambda>g. (''geoip.allow_countries and geoip.deny_countries are both set; allow_countries takes precedence'', [])),
      advise (\<lambda>g. \<not> geo_Country (g_Databases g) \<and> (g_AllowCountries g \<noteq> [] \<or> g_DenyCountries g \<noteq> []))
        (\<lambda>g. (''geoip country blocking is configured but geoip.databases.country is disabled; country blocking will be skipped'', []))]"

definition validateMetrics :: "Metrics \<Rightarrow> Metrics \<Rightarrow> Metrics checked" where
  "validateMetrics d = checks
     [field m_Loki m_Loki_update (checks
        [field ml_MaxEntries ml_MaxEntries_update (silent (\<lambda>n. n \<le> 0) (ml_MaxEntries (m_Loki d))),
         field ml_MaxAge ml_MaxAge_update (silent (\<lambda>n. n \<le> 0) (ml_MaxAge (m_Loki d)))]),
      field m_DurationBuckets m_DurationBuckets_update (silent (\<lambda>b. b = []) (m_DurationBuckets d)),
      field m_SizeBuckets m_SizeBuckets_update (silent (\<lambda>b. b = []) (m_SizeBuckets d))]"

definition validateBackup :: "Backup \<Rightarrow> Backup \<Rightarrow> Backup checked" where
  "validateBackup d = checks
     [repair (\<lambda>b. bc_Enabled (b_Compliance b) \<and> \<not> be_Enabled (b_Encryption b))
        (\<lambda>b. (''backup.compliance.enabled requires backup.encryption.enabled; enabling encryption'', []))
        (\<lambda>b. b\<lparr>b_Encryption := (b_Encryption b)\<lparr>be_Enabled := True\<rparr>\<rparr>),
      field b_DiskThreshold b_DiskThreshold_update (\<lambda>n.
        if n < 1 \<or> n > 99 then
          (b_DiskThreshold d,
           if n \<noteq> 0 then [(''invalid backup.disk_threshold %d, using %d'', [AInt n, AInt (b_DiskThreshold d)])] else [])
        else (n, []))]"

definition validateUpdate :: "Update \<Rightarrow> Update \<Rightarrow> Update checked" where
  "validateUpdate d = checks
     [field up_Branch up_Branch_update (\<lambda>b.
        if b = [] then (up_Branch d, [])
        else reject (\<lambda>b. ToLower b \<notin> set [''stable'', ''beta'', ''daily''])
          (\<lambda>b. (''invalid update.branch %q, using %q'', [AStr b, AStr (up_Branch d)])) (up_Branch d) b),
      field up_DeferDays up_DeferDays_update
        (reject (\<lambda>n. n < 0)
          (\<lambda>n. (''invalid update.defer_days %d, using %d'', [AInt n, AInt (up_DeferDays d)])) (up_DeferDays d))]"

section \<open>Overlay networks\<close>

definition rx_space :: rx where "rx_space = RCls [(9, 10), (12, 13), (32, 32)]"
definition rx_digits :: rx where "rx_digits = RPlus (RCls [(48, 57)])"

definition bandwidthRatePattern :: rx where
  "bandwidthRatePattern = RSeq rx_digits (RSeq (RStar rx_space) (RAlt (RLit ''KB'') (RLit ''MB'')))"

definition monthlyBandwidthPattern :: rx where
  "monthlyBandwidthPattern =
     RAlt (RSeq rx_digits (RSeq (RStar rx_space) (RAlt (RLit ''GB'') (RLit ''TB'')))) (RLit ''unlimited'')"

text \<open>The source hands the arguments of the warning over in another order than its format names them.\<close>

definition normalizeBandwidth :: "string \<Rightarrow> rx \<Rightarrow> string \<Rightarrow> string \<Rightarrow> string checked" where
  "normalizeBandwidth fallback pattern name v =
     (let trimmed = TrimSpace v
      in if trimmed = [] then (fallback, [])
         else if \<not> rx_match pattern trimmed then
           (fallback, [(''invalid %s %q, using %q'', [AStr v, AStr name, AStr fallback])])
         else (trimmed, []))"

definition burst_below_rate :: "config_env \<Rightarrow> Tor \<Rightarrow> bool" where
  "burst_below_rate env t =
     (case (ParseByteSize env (tor_BandwidthRate t), ParseByteSize env (tor_BandwidthBurst t)) of
        (Some rate, Some burst) \<Rightarrow> burst < rate
      | _ \<Rightarrow> False)"

definition tor_limits :: "Tor \<Rightarrow> Tor \<Rightarrow> Tor checked" where
  "tor_limits d = checks
     [field tor_MaxCircuits tor_MaxCircuits_update (clampInt (tor_MaxCircuits d) 1 128 ''tor.max_circuits''),
      field tor_CircuitTimeout tor_CircuitTimeout_update (clampInt (tor_CircuitTimeout d) 10 300 ''tor.circuit_timeout''),
      field tor_BootstrapTimeout tor_BootstrapTimeout_update
        (clampInt (tor_BootstrapTimeout d) 30 600 ''tor.bootstrap_timeout''),
      field tor_MaxStreamsPerCircuit tor_MaxStreamsPerCircuit_update
        (clampInt (tor_MaxStreamsPerCircuit d) 10 500 ''tor.max_streams_per_circuit''),
      field tor_NumIntroPoints tor_NumIntroPoints_update (clampInt (tor_NumIntroPoints d) 3 10 ''tor.num_intro_points''),
      field tor_VirtualPort tor_VirtualPort_update (clampInt (tor_VirtualPort d) 1 65535 ''tor.virtual_port''),
      field tor_BandwidthRate tor_BandwidthRate_update
        (normalizeBandwidth (tor_BandwidthRate d) bandwidthRatePattern ''tor.bandwidth_rate''),
      field tor_BandwidthBurst tor_BandwidthBurst_update
        (normalizeBandwidth (tor_BandwidthBurst d) bandwidthRatePattern ''tor.bandwidth_burst''),
      field tor_MaxMonthlyBandwidth tor_MaxMonthlyBandwidth_update
        (normalizeBandwidth (tor_MaxMonthlyBandwidth d) monthlyBandwidthPattern ''tor.max_monthly_bandwidth'')]"

definition validateTor :: "config_env \<Rightarrow> Tor \<Rightarrow> Tor \<Rightarrow> Tor checked" where
  "validateTor env d = checks
     [tor_limits d,
      repair (burst_below_rate env)
        (\<lambda>t. (''tor.bandwidth_burst %q is below tor.bandwidth_rate %q, using %q'',
               [AStr (tor_BandwidthBurst t), AStr (tor_BandwidthRate t), AStr (tor_BandwidthBurst d)]))
        (\<lambda>t. t\<lparr>tor_BandwidthRate := tor_BandwidthRate d, tor_BandwidthBurst := tor_BandwidthBurst d\<rparr>)]"

definition validateI2P :: "config_env \<Rightarrow> I2P \<Rightarrow> I2P \<Rightarrow> I2P checked" where
  "validateI2P env d = checks
     [field i2p_SAMAddress i2p_SAMAddress_update (\<lambda>a.
        if blank a then (i2p_SAMAddress d, [])
        else reject (\<lambda>a. SplitHostPort a = None)
          (\<lambda>a. (''invalid i2p.sam_address %q, using %q'', [AStr a, AStr (i2p_SAMAddress d)])) (i2p_SAMAddress d) a),
      field i2p_VirtualPort i2p_VirtualPort_update (clampInt (i2p_VirtualPort d) 1 65535 ''i2p.virtual_port''),
      field i2p_InboundLength i2p_InboundLength_update (clampInt (i2p_InboundLength d) 0 7 ''i2p.inbound_length''),
      field i2p_OutboundLength i2p_OutboundLength_update (clampInt (i2p_OutboundLength d) 0 7 ''i2p.outbound_length''),
      field i2p_InboundQuantity i2p_InboundQuantity_update (clampInt (i2p_InboundQuantity d) 1 16 ''i2p.inbound_quantity''),
      field i2p_OutboundQuantity i2p_OutboundQuantity_update (clampInt (i2p_OutboundQuantity d) 1 16 ''i2p.outbound_quantity''),
      field i2p_SignatureType i2p_SignatureType_update (clampInt (i2p_SignatureType d) 0 11 ''i2p.signature_type''),
      field i2p_BootstrapTimeout i2p_BootstrapTimeout_update (clampInt (i2p_BootstrapTimeout d) 30 600 ''i2p.bootstrap_timeout'')]"

section \<open>The whole document\<close>

definition server_checks :: "config_env \<Rightarrow> Server \<Rightarrow> (Server \<Rightarrow> Server checked) list" where
  "server_checks env d =
     [validateServer env d,
      field srv_Limits srv_Limits_update (validateLimits (srv_Limits d)),
      field srv_Compression srv_Compression_update (validateCompression (srv_Compression d)),
      field srv_Session srv_Session_update (validateSession (srv_Session d)),
      field srv_RateLimit srv_RateLimit_update (validateRateLimit (srv_RateLimit d)),
      field srv_I18n srv_I18n_update (validateI18n (srv_I18n d)),
      field srv_Cache srv_Cache_update (validateCache (srv_Cache d)),
      field srv_Logs srv_Logs_update (validateLogs env (srv_Logs d)),
      field srv_Database srv_Database_update (validateDatabase (srv_Database d)),
      field srv_TrustedProxies srv_TrustedProxies_update (validateTrustedProxies env),
      (\<lambda>s. field srv_SSL srv_SSL_update (validateSSL (Port s) (srv_SSL d)) s),
      field srv_Web srv_Web_update (validateWeb (srv_Web d)),
      field srv_Users srv_Users_update (validateUsers (srv_Users d)),
      (\<lambda>s. field srv_Orgs srv_Orgs_update (validateOrgs (users_Enabled (srv_Users s)) (srv_Orgs d)) s),
      (\<lambda>s. field srv_Features srv_Features_update (field f_CustomDomains f_CustomDomains_update
             (validateCustomDomains env (o_Enabled (srv_Orgs s)) (f_CustomDomains (srv_Features d)))) s),
      field srv_Notifications srv_Notifications_update (validateNotifications (srv_Notifications d)),
      field srv_Scheduler srv_Scheduler_update (validateScheduler env (srv_Scheduler d)),
      field srv_GeoIP srv_GeoIP_update validateGeoIP,
      field srv_Metrics srv_Metrics_update (validateMetrics (srv_Metrics d)),
      field srv_Backup srv_Backup_update (validateBackup (srv_Backup d)),
      field srv_Update srv_Update_update (validateUpdate (srv_Update d))]"

definition Validate :: "config_env \<Rightarrow> Config \<Rightarrow> bool \<times> Config" where
  "Validate env c =
     (let (c', ws) = checks
        [field cfg_Server cfg_Server_update (checks (server_checks env DefaultServer)),
         field cfg_Tor cfg_Tor_update (validateTor env DefaultTorConfig),
         field cfg_Server cfg_Server_update
           (field srv_I2P srv_I2P_update (validateI2P env (srv_I2P DefaultServer)))] c
      in (ws \<noteq> [], c'\<lparr>cfg_warnings := cfg_warnings c @ ws\<rparr>))"

section \<open>Environment variables and modes\<close>

definition applyInitEnv :: "config_env \<Rightarrow> Config \<Rightarrow> Config" where
  "applyInitEnv env c =
     (let s = cfg_Server c;
          port = Getenv env ''PORT'';
          c1 = (if Port s = 0 \<and> port \<noteq> [] then
                  (case ParseInt64 (TrimSpace port) of
                     Some n \<Rightarrow> if n > 0 \<and> n \<le> 65535 then c\<lparr>cfg_Server := s\<lparr>Port := n\<rparr>\<rparr>
                               else warnf ''invalid PORT %q, ignoring it'' [AStr port] c
                   | None \<Rightarrow> warnf ''invalid PORT %q, ignoring it'' [AStr port] c)
                else c);
          listen = Getenv env ''LISTEN'';
          c2 = (if listen \<noteq> [] \<and> Listen s = Listen DefaultServer
                then c1\<lparr>cfg_Server := (cfg_Server c1)\<lparr>Listen := TrimSpace listen\<rparr>\<rparr> else c1);
          name = Getenv env ''APPLICATION_NAME'';
          c3 = (if name \<noteq> [] \<and> srv_ApplicationName s = DefaultApplicationName
                then c2\<lparr>cfg_Server := (cfg_Server c2)\<lparr>srv_ApplicationName := name\<rparr>\<rparr> else c2);
          tagline = Getenv env ''APPLICATION_TAGLINE''
      in if tagline \<noteq> [] \<and> ApplicationTagline s = DefaultApplicationTagline
         then c3\<lparr>cfg_Server := (cfg_Server c3)\<lparr>ApplicationTagline := tagline\<rparr>\<rparr> else c3)"

definition runtime_smtp :: "config_env \<Rightarrow> SMTPConfig \<Rightarrow> SMTPConfig checked" where
  "runtime_smtp env = checks
     [field smtp_Host smtp_Host_update (\<lambda>h.
        let v = TrimSpace (Getenv env ''SMTP_HOST'') in (if v \<noteq> [] then v else h, [])),
      field smtp_Port smtp_Port_update (\<lambda>p.
        let v = TrimSpace (Getenv env ''SMTP_PORT'')
        in if v = [] then (p, [])
           else case ParseInt64 v of
                  Some n \<Rightarrow> if n > 0 \<and> n \<le> 65535 then (n, []) else (p, [(''invalid SMTP_PORT %q, ignoring it'', [AStr v])])
                | None \<Rightarrow> (p, [(''invalid SMTP_PORT %q, ignoring it'', [AStr v])])),
      field smtp_Username smtp_Username_update (\<lambda>u.
        let v = Getenv env ''SMTP_USERNAME'' in (if v \<noteq> [] then v else u, [])),
      field smtp_Password smtp_Password_update (\<lambda>p.
        let v = Getenv env ''SMTP_PASSWORD'' in (if v \<noteq> [] then v else p, [])),
      field smtp_TLS smtp_TLS_update (\<lambda>t.
        let v = TrimSpace (Getenv env ''SMTP_TLS'')
        in if v = [] then (t, [])
           else if isSMTPTLSMode v then (v, [])
           else (t, [(''invalid SMTP_TLS %q, ignoring it'', [AStr v])]))]"

definition ApplyRuntimeEnv :: "config_env \<Rightarrow> Config \<Rightarrow> Config" where
  "ApplyRuntimeEnv env c =
     (let (s, ws) = checks
        [field srv_Database srv_Database_update (checks
           [field db_Type db_Type_update (\<lambda>t.
              let v = Getenv env ''DATABASE_DRIVER'' in (if v \<noteq> [] then NormalizeDatabaseDriver v else t, [])),
            field db_URL db_URL_update (\<lambda>u.
              let v = Getenv env ''DATABASE_URL'' in (if v \<noteq> [] then v else u, []))]),
         field srv_Notifications srv_Notifications_update (field n_Email n_Email_update (checks
           [field ne_SMTP ne_SMTP_update (runtime_smtp env),
            field ne_From ne_From_update (checks
              [field from_Name from_Name_update (\<lambda>n.
                 let v = Getenv env ''SMTP_FROM_NAME'' in (if v \<noteq> [] then v else n, [])),
               field from_Email from_Email_update (\<lambda>m.
                 let v = Getenv env ''SMTP_FROM_EMAIL'' in (if v \<noteq> [] then v else m, []))])]))]
        (cfg_Server c)
      in c\<lparr>cfg_Server := s, cfg_warnings := cfg_warnings c @ ws\<rparr>)"

definition Domain :: "config_env \<Rightarrow> string" where
  "Domain env = TrimSpace (Getenv env ''DOMAIN'')"

section \<open>Loading\<close>

text \<open>
  The file is read, not there, or not readable; the decoder overlays it on a document and may fail, and a
  save fails or writes the encoding. What is on disk is the document that was encoded, without the path and
  the warnings, which have no name in it.
\<close>

datatype 'f file_read = ReadOk 'f | ReadMissing | ReadError

datatype load_error = LoadDir | LoadRead | LoadParse | LoadSave

text \<open>What the file system does at one start; a write that fails leaves what it leaves.\<close>

record 'f file_system =
  MkdirAll_ok :: bool
  ReadFile_ok :: bool
  WriteFile_left :: "'f file_read option"

text \<open>\<open>Save\<close>: the error, and the file afterwards.\<close>

definition Save :: "'f file_system \<Rightarrow> (Config \<Rightarrow> 'f option) \<Rightarrow> Config \<Rightarrow> 'f file_read \<Rightarrow> bool \<times> 'f file_read" where
  "Save fs marshal cfg disk =
     (case marshal cfg of
        None \<Rightarrow> (False, disk)
      | Some data \<Rightarrow> (case WriteFile_left fs of Some rest \<Rightarrow> (False, rest) | None \<Rightarrow> (True, ReadOk data)))"

definition Load ::
  "config_env \<Rightarrow> 'f file_system \<Rightarrow> ('f \<Rightarrow> Config \<Rightarrow> Config option) \<Rightarrow> (Config \<Rightarrow> 'f option) \<Rightarrow> string \<Rightarrow> 'f file_read
     \<Rightarrow> (load_error + Config) \<times> 'f file_read"
where
  "Load env fs unmarshal marshal path disk =
     (let cfg = DefaultConfig\<lparr>cfg_path := path\<rparr>;
          finish = (\<lambda>existed cfg.
            let (changed, cfg2) = Validate env (applyInitEnv env cfg)
            in if \<not> existed \<or> changed then
                 (case Save fs marshal cfg2 disk of (saved, disk') \<Rightarrow> (if saved then Inr cfg2 else Inl LoadSave, disk'))
               else (Inr cfg2, disk))
      in if \<not> MkdirAll_ok fs then (Inl LoadDir, disk)
         else case (if ReadFile_ok fs then disk else ReadError) of
           ReadError \<Rightarrow> (Inl LoadRead, disk)
         | ReadMissing \<Rightarrow> finish False cfg
         | ReadOk data \<Rightarrow>
             (case unmarshal data cfg of
                None \<Rightarrow> (Inl LoadParse, disk)
              | Some cfg1 \<Rightarrow> finish True cfg1))"

definition SetMode :: "Config \<Rightarrow> string \<Rightarrow> Config option" where
  "SetMode cfg v =
     (let w = lowered v
      in if \<not> containsFold ValidModes w then None
         else Some (cfg\<lparr>cfg_Server := (cfg_Server cfg)\<lparr>Mode := w\<rparr>\<rparr>))"

definition PersistedMode :: "string option \<Rightarrow> string" where
  "PersistedMode probe =
     (case probe of
        None \<Rightarrow> []
      | Some m \<Rightarrow> let w = lowered m in if \<not> containsFold ValidModes w then [] else w)"

end
