(* ===== verification/Config_Ok.thy ===== *)
theory Config_Ok
  imports Config_Validate
begin

text \<open>
  The ranges of the settings: what the rest of the program may rely on after \<open>Validate\<close>, section by
  section, and the sections that depend on others.
\<close>

text \<open>A word that was accepted is one of the list, unless it is spelled with the long s, which folds to an s and has no lower case of its own.\<close>

definition accepted_word :: "string list \<Rightarrow> string \<Rightarrow> bool" where
  "accepted_word ws v \<longleftrightarrow> v \<in> set ws \<or> (\<not> list_all ascii v \<and> (\<exists>u. containsFold ws u \<and> v = lowered u))"

definition port_ok :: "int \<Rightarrow> bool" where "port_ok p \<longleftrightarrow> 1 \<le> p \<and> p \<le> 65535"

section \<open>Listener\<close>

definition listen_ok :: "config_env \<Rightarrow> Server \<Rightarrow> bool" where
  "listen_ok env s \<longleftrightarrow>
     accepted_word ValidModes (Mode s)
     \<and> (ParseIP env (Listen s) \<or> Listen s = ''localhost'' \<or> Listen s = ''0.0.0.0'')
     \<and> port_ok (Port s)
     \<and> HasPrefix (BaseURL s) ''/'' \<and> (BaseURL s = ''/'' \<or> \<not> HasSuffix (BaseURL s) ''/'')
     \<and> \<not> blank (srv_ApplicationName s) \<and> \<not> blank (ApplicationTagline s)
     \<and> 1 \<le> sec_EncryptionKeyVersion (srv_Security s)
     \<and> IsRouteSegment (AdminPath s) \<and> IsRouteSegment (APIVersion s)"

definition ssl_ok :: "int \<Rightarrow> SSL \<Rightarrow> bool" where
  "ssl_ok serverPort s \<longleftrightarrow>
     (ssl_Port s = 0 \<or> port_ok (ssl_Port s) \<and> ssl_Port s \<noteq> serverPort)
     \<and> ssl_MinVersion s \<in> set validTLSVersions
     \<and> (ssl_Cert s = [] \<longleftrightarrow> ssl_Key s = [])
     \<and> accepted_word validACMEChallenges (le_Challenge (ssl_LetsEncrypt s))
     \<and> (le_Enabled (ssl_LetsEncrypt s) \<longrightarrow> \<not> blank (le_Email (ssl_LetsEncrypt s)))"

definition web_ok :: "Web \<Rightarrow> bool" where
  "web_ok w \<longleftrightarrow>
     (case csrf_ExemptPaths (web_CSRF w) of None \<Rightarrow> False | Some ps \<Rightarrow> \<forall>p \<in> set ps. HasPrefix p ''/'' \<and> TrimSpace p = p)
     \<and> TrimSpace (web_CORS w) = web_CORS w \<and> 0 \<le> hsts_MaxAge (web_HSTS w)
     \<and> (hsts_Preload (web_HSTS w) \<longrightarrow> hsts_IncludeSubdomains (web_HSTS w) \<and> 31536000 \<le> hsts_MaxAge (web_HSTS w))"

section \<open>Requests\<close>

definition limits_ok :: "Limits \<Rightarrow> bool" where
  "limits_ok l \<longleftrightarrow> 0 < l_MaxBodySize l \<and> 0 < l_ReadTimeout l \<and> 0 < l_WriteTimeout l \<and> 0 < l_IdleTimeout l"

definition compression_ok :: "Compression \<Rightarrow> bool" where
  "compression_ok c \<longleftrightarrow> 1 \<le> comp_Level c \<and> comp_Level c \<le> 9 \<and> comp_Types c \<noteq> []"

definition scope_ok :: "SessionScope \<Rightarrow> bool" where
  "scope_ok s \<longleftrightarrow> \<not> blank (ss_CookieName s) \<and> 0 < ss_IdleTimeout s \<and> ss_IdleTimeout s \<le> ss_MaxAge s"

definition session_ok :: "Session_config \<Rightarrow> bool" where
  "session_ok s \<longleftrightarrow>
     scope_ok (sess_Admin s) \<and> scope_ok (sess_User s)
     \<and> sess_Secure s \<in> set validSecure \<and> sess_SameSite s \<in> set validSameSite"

definition bucket_ok :: "RateBucket \<Rightarrow> bool" where
  "bucket_ok b \<longleftrightarrow> 1 \<le> rb_Requests b \<and> 0 < rb_Window b"

definition rate_limit_ok :: "RateLimit_config \<Rightarrow> bool" where
  "rate_limit_ok r \<longleftrightarrow>
     bucket_ok (rl_Read r) \<and> bucket_ok (rl_Write r) \<and> bucket_ok (rl_Health r)
     \<and> bucket_ok (arl_Login (rl_Auth r)) \<and> bucket_ok (arl_PasswordReset (rl_Auth r))
     \<and> bucket_ok (arl_Registration (rl_Auth r)) \<and> 1 \<le> rl_GlobalBurst r"

definition i18n_ok :: "I18n \<Rightarrow> bool" where
  "i18n_ok i \<longleftrightarrow>
     i18n_DefaultLanguage i \<in> set (i18n_Supported i) \<and> i18n_FallbackLanguage i \<in> set (i18n_Supported i)
     \<and> \<not> blank (i18n_CookieName i) \<and> 0 < i18n_CookieMaxAge i"

section \<open>Storage and logs\<close>

definition cache_ok :: "Cache_config \<Rightarrow> bool" where
  "cache_ok c \<longleftrightarrow>
     ca_Type c \<in> set CacheTypes \<and> \<not> blank (ca_Host c) \<and> port_ok (ca_Port c) \<and> 0 \<le> ca_DB c
     \<and> 0 \<le> ca_MinIdle c \<and> ca_MinIdle c \<le> ca_PoolSize c \<and> 1 \<le> ca_PoolSize c
     \<and> 0 < ca_Timeout c \<and> 0 < ca_TTL c \<and> \<not> blank (ca_Prefix c)"

definition log_file_ok :: "config_env \<Rightarrow> string list \<Rightarrow> LogFile \<Rightarrow> bool" where
  "log_file_ok env formats f \<longleftrightarrow>
     \<not> blank (lf_Filename f) \<and> CHR ''/'' \<notin> set (lf_Filename f) \<and> CHR 0x5C \<notin> set (lf_Filename f)
     \<and> lf_Format f \<in> set formats \<and> (lf_Format f = ''custom'' \<longrightarrow> \<not> blank (lf_Custom f))
     \<and> ValidRotate env (lf_Rotate f) \<and> ValidKeep (lf_Keep f)"

definition logs_ok :: "config_env \<Rightarrow> Logs \<Rightarrow> bool" where
  "logs_ok env l \<longleftrightarrow>
     log_Level l \<in> set LogLevels
     \<and> log_file_ok env validAccessFormats (al_LogFile (log_Access l))
     \<and> log_file_ok env validTextFormats (log_Server l)
     \<and> log_file_ok env validTextFormats (log_Error l)
     \<and> log_file_ok env validSecurityFormats (log_Security l)
     \<and> log_file_ok env validTextFormats (dbg_LogFile (log_Debug l))
     \<and> log_file_ok env [''json''] (aud_LogFile (log_Audit l))"

definition database_ok :: "Database \<Rightarrow> bool" where
  "database_ok d \<longleftrightarrow>
     db_Type d \<in> set DatabaseDrivers \<and> 0 \<le> db_Port d \<and> db_Port d \<le> 65535
     \<and> 1 \<le> db_MaxIdleConns d \<and> db_MaxIdleConns d \<le> db_MaxOpenConns d
     \<and> 0 < db_ConnMaxLifetime d \<and> 0 < db_ConnMaxIdleTime d"

definition proxies_ok :: "config_env \<Rightarrow> TrustedProxies \<Rightarrow> bool" where
  "proxies_ok env t \<longleftrightarrow>
     (\<forall>e \<in> set (tp_Additional t). e \<noteq> [] \<and> (ParseIP env e \<or> ParseCIDR env e \<or> isPlausibleHostname e))"

section \<open>Accounts, organizations and domains\<close>

definition users_ok :: "Users_config \<Rightarrow> bool" where
  "users_ok u \<longleftrightarrow>
     accepted_word AccountModes (reg_Mode (cfg_Registration u))
     \<and> 0 < InviteExpirationDays (cfg_Registration u)
     \<and> [] \<notin> set (AllowedDomains (cfg_Registration u)) \<and> [] \<notin> set (BlockedDomains (cfg_Registration u))
     \<and> 0 < SessionDuration (cfg_Auth u) \<and> 0 < LockoutDuration (cfg_Auth u)
     \<and> 8 \<le> PasswordMinLength (cfg_Auth u) \<and> 0 < MaxFailedLogins (cfg_Auth u)
     \<and> (Require2FA (cfg_Auth u) \<longrightarrow> Allow2FA (cfg_Auth u))
     \<and> 0 \<le> MaxPerUser (cfg_Tokens u) \<and> 0 \<le> ExpirationDays (cfg_Tokens u)
     \<and> accepted_word ProfileVisibilities (user_DefaultVisibility (cfg_Profile u))"

definition orgs_ok :: "bool \<Rightarrow> Orgs \<Rightarrow> bool" where
  "orgs_ok usersEnabled o' \<longleftrightarrow>
     (o_Enabled o' \<longrightarrow> usersEnabled)
     \<and> accepted_word AccountModes (oc_Mode (o_Creation o')) \<and> 0 \<le> oc_MaxPerUser (o_Creation o')
     \<and> accepted_word ProfileVisibilities (op_DefaultVisibility (o_Profile o'))
     \<and> accepted_word OrgRoles (om_DefaultRole (o_Members o')) \<and> om_DefaultRole (o_Members o') \<noteq> ''owner''"

definition domains_ok :: "config_env \<Rightarrow> bool \<Rightarrow> CustomDomains \<Rightarrow> bool" where
  "domains_ok env orgsEnabled d \<longleftrightarrow>
     (cd_Enabled d \<longrightarrow> orgsEnabled)
     \<and> 0 \<le> cd_MaxDomainsPerUser d \<and> 0 \<le> cd_MaxDomainsPerOrg d
     \<and> (cd_AllowApex d \<or> cd_AllowSubdomain d \<or> cd_AllowWildcard d)
     \<and> 0 < cd_VerificationTTL d \<and> 0 < cd_SSLRenewalDays d
     \<and> [] \<notin> set (cd_Reserved d) \<and> (\<forall>p \<in> set (cd_BlockedPatterns d). regexp_Compile env p)"

section \<open>Notifications, tasks and the rest\<close>

definition notifications_ok :: "Notifications \<Rightarrow> bool" where
  "notifications_ok n \<longleftrightarrow>
     ToLower (wu_Position (n_WebUI n)) \<in> set validPositions \<and> 0 \<le> wu_Duration (n_WebUI n)
     \<and> port_ok (smtp_Port (ne_SMTP (n_Email n)))
     \<and> ToLower (smtp_TLS (ne_SMTP (n_Email n))) \<in> set SMTPTLSModes
     \<and> ne_Events (n_Email n) \<noteq> None"

text \<open>
  The limits of a task: no limit is negative, and the number of backups and the cap are set, or as the defaults of the task
  leave them. The upper limits of the documentation are advice: \<open>Validate\<close> warns of a limit above them and keeps it.
\<close>

definition retention_ok :: "TaskRetention \<Rightarrow> TaskRetention \<Rightarrow> bool" where
  "retention_ok d r \<longleftrightarrow>
     (0 < MaxBackups r \<or> MaxBackups r = MaxBackups d) \<and> (MaxTotalSize r \<noteq> [] \<or> MaxTotalSize r = MaxTotalSize d)
     \<and> 0 \<le> MaxBackups r \<and> 0 \<le> KeepWeekly r \<and> 0 \<le> KeepMonthly r \<and> 0 \<le> KeepYearly r"

definition task_ok :: "SchedulerTask \<Rightarrow> SchedulerTask \<Rightarrow> bool" where
  "task_ok d t \<longleftrightarrow> task_Schedule t \<noteq> [] \<and> retention_ok (task_Retention d) (task_Retention t)"

text \<open>What \<open>Validate\<close> does not look at: the syntax of a schedule and the delay before a retry are as they were configured.\<close>

definition task_taken_over :: "SchedulerTask \<Rightarrow> SchedulerTask \<Rightarrow> bool" where
  "task_taken_over u t \<longleftrightarrow> task_RetryDelay t = task_RetryDelay u \<and> (task_Schedule u \<noteq> [] \<longrightarrow> task_Schedule t = task_Schedule u)"

definition configured_task :: "Scheduler_config \<Rightarrow> string \<Rightarrow> SchedulerTask option" where
  "configured_task s name = (case sch_Tasks s of None \<Rightarrow> None | Some m \<Rightarrow> m name)"

definition scheduler_ok :: "config_env \<Rightarrow> Scheduler_config \<Rightarrow> bool" where
  "scheduler_ok env s \<longleftrightarrow>
     (LoadLocation env (sch_Timezone s) \<or> sch_Timezone s = DefaultSchedulerTimezone)
     \<and> 0 \<le> sch_CatchUpWindow s
     \<and> list_all (\<lambda>(name, d). case configured_task s name of None \<Rightarrow> False | Some t \<Rightarrow> task_ok d t) defaultSchedulerTasks"

definition country_ok :: "string \<Rightarrow> bool" where
  "country_ok c \<longleftrightarrow> length c = 2 \<and> list_all is_upper c"

definition geoip_ok :: "GeoIP_config \<Rightarrow> bool" where
  "geoip_ok g \<longleftrightarrow>
     distinct (g_AllowCountries g) \<and> distinct (g_DenyCountries g)
     \<and> list_all country_ok (g_AllowCountries g) \<and> list_all country_ok (g_DenyCountries g)"

definition metrics_ok :: "Metrics \<Rightarrow> bool" where
  "metrics_ok m \<longleftrightarrow>
     0 < ml_MaxEntries (m_Loki m) \<and> 0 < ml_MaxAge (m_Loki m) \<and> m_DurationBuckets m \<noteq> [] \<and> m_SizeBuckets m \<noteq> []"

definition backup_ok :: "Backup \<Rightarrow> bool" where
  "backup_ok b \<longleftrightarrow>
     (bc_Enabled (b_Compliance b) \<longrightarrow> be_Enabled (b_Encryption b))
     \<and> 1 \<le> b_DiskThreshold b \<and> b_DiskThreshold b \<le> 99"

definition update_ok :: "Update \<Rightarrow> bool" where
  "update_ok u \<longleftrightarrow> ToLower (up_Branch u) \<in> set [''stable'', ''beta'', ''daily''] \<and> 0 \<le> up_DeferDays u"

definition in_range :: "int \<Rightarrow> int \<Rightarrow> int \<Rightarrow> bool" where
  "in_range lo hi n \<longleftrightarrow> lo \<le> n \<and> n \<le> hi"

definition tor_ok :: "config_env \<Rightarrow> Tor \<Rightarrow> bool" where
  "tor_ok env t \<longleftrightarrow>
     in_range 1 128 (tor_MaxCircuits t) \<and> in_range 10 300 (tor_CircuitTimeout t) \<and> in_range 30 600 (tor_BootstrapTimeout t)
     \<and> in_range 10 500 (tor_MaxStreamsPerCircuit t) \<and> in_range 3 10 (tor_NumIntroPoints t) \<and> port_ok (tor_VirtualPort t)
     \<and> rx_match bandwidthRatePattern (tor_BandwidthRate t) \<and> rx_match bandwidthRatePattern (tor_BandwidthBurst t)
     \<and> rx_match monthlyBandwidthPattern (tor_MaxMonthlyBandwidth t) \<and> \<not> burst_below_rate env t"

definition i2p_ok :: "I2P \<Rightarrow> bool" where
  "i2p_ok i \<longleftrightarrow>
     SplitHostPort (i2p_SAMAddress i) \<noteq> None \<and> port_ok (i2p_VirtualPort i)
     \<and> in_range 0 7 (i2p_InboundLength i) \<and> in_range 0 7 (i2p_OutboundLength i)
     \<and> in_range 1 16 (i2p_InboundQuantity i) \<and> in_range 1 16 (i2p_OutboundQuantity i)
     \<and> in_range 0 11 (i2p_SignatureType i) \<and> in_range 30 600 (i2p_BootstrapTimeout i)"

section \<open>The document\<close>

definition server_ok :: "config_env \<Rightarrow> Server \<Rightarrow> bool" where
  "server_ok env s \<longleftrightarrow>
     listen_ok env s \<and> limits_ok (srv_Limits s) \<and> compression_ok (srv_Compression s) \<and> session_ok (srv_Session s)
     \<and> rate_limit_ok (srv_RateLimit s) \<and> i18n_ok (srv_I18n s) \<and> cache_ok (srv_Cache s) \<and> logs_ok env (srv_Logs s)
     \<and> database_ok (srv_Database s) \<and> proxies_ok env (srv_TrustedProxies s) \<and> ssl_ok (Port s) (srv_SSL s)
     \<and> web_ok (srv_Web s) \<and> users_ok (srv_Users s) \<and> orgs_ok (users_Enabled (srv_Users s)) (srv_Orgs s)
     \<and> domains_ok env (o_Enabled (srv_Orgs s)) (f_CustomDomains (srv_Features s))
     \<and> notifications_ok (srv_Notifications s) \<and> scheduler_ok env (srv_Scheduler s) \<and> geoip_ok (srv_GeoIP s)
     \<and> metrics_ok (srv_Metrics s) \<and> backup_ok (srv_Backup s) \<and> update_ok (srv_Update s) \<and> i2p_ok (srv_I2P s)"

definition config_ok :: "config_env \<Rightarrow> Config \<Rightarrow> bool" where
  "config_ok env c \<longleftrightarrow> server_ok env (cfg_Server c) \<and> tor_ok env (cfg_Tor c)"

section \<open>The environment\<close>

text \<open>What the libraries document: a string of digits parses as the nearest \<open>float64\<close>, \<open>rand.Intn\<close> stays under its bound, a free port is a port.\<close>

definition decimal_floats :: "config_env \<Rightarrow> bool" where
  "decimal_floats env \<longleftrightarrow>
     (\<forall>s. s \<noteq> [] \<and> list_all is_digit s \<and> length s \<le> 300 \<longrightarrow>
        ParseFloat env s = Some (FFin (f64 (of_nat (atoi_digits s)))))"

definition ports_in_range :: "config_env \<Rightarrow> bool" where
  "ports_in_range env \<longleftrightarrow>
     (\<forall>i n. 0 < n \<longrightarrow> 0 \<le> rand_Intn env i n \<and> rand_Intn env i n < n)
     \<and> (case ephemeralPort env of None \<Rightarrow> True | Some p \<Rightarrow> port_ok p)"

end
