(* ===== verification/Config_Laws.thy ===== *)
theory Config_Laws
  imports Config_Ok
begin

text \<open>
  What \<open>Validate\<close> makes of a document: every setting of the result is in the range the rest of the program
  relies on (\<open>config_ok\<close>, section by section).
\<close>

section \<open>Sequences of checks\<close>

lemma fst_checks [simp]: "fst (checks [] s) = s" "fst (checks (f # fs) s) = fst (checks fs (fst (f s)))"
  by (simp_all add: Let_def split: prod.split)

lemma snd_checks [simp]: "snd (checks [] s) = []" "snd (checks (f # fs) s) = snd (f s) @ snd (checks fs (fst (f s)))"
  by (simp_all add: Let_def split: prod.split)

lemma fst_field [simp]: "fst (field get upd f s) = upd (\<lambda>_. fst (f (get s))) s"
  by (simp add: field_def split: prod.split)

lemma snd_field [simp]: "snd (field get upd f s) = snd (f (get s))"
  by (simp add: field_def split: prod.split)

lemma fst_reject: "fst (reject bad w d v) = (if bad v then d else v)"
  by (simp add: reject_def)

lemma fst_silent [simp]: "fst (silent bad d v) = (if bad v then d else v)"
  by (simp add: silent_def)

lemma fst_assign [simp]: "fst (assign f v) = f v"
  by (simp add: assign_def)

lemma fst_advise [simp]: "fst (advise p w s) = s"
  by (simp add: advise_def)

lemma fst_repair: "fst (repair p w f s) = (if p s then f s else s)"
  by (simp add: repair_def)

declare checks.simps [simp del]

lemma fst_requirePositiveDuration: "0 < d \<Longrightarrow> 0 < fst (requirePositiveDuration d name v)"
  by (simp add: requirePositiveDuration_def fst_reject)

lemma fst_clampInt: "lo \<le> d \<Longrightarrow> d \<le> hi \<Longrightarrow> lo \<le> fst (clampInt d lo hi name v) \<and> fst (clampInt d lo hi name v) \<le> hi"
  by (simp add: clampInt_def)

lemma reject_ok: "P d \<Longrightarrow> (\<not> bad v \<Longrightarrow> P v) \<Longrightarrow> P (fst (reject bad w d v))"
  by (simp add: fst_reject)

lemma set_keep_entries: "set (fst (keep_entries f xs)) = {y. \<exists>x \<in> set xs. f x = Keep y}"
  by (induction xs) (auto split: prod.splits verdict.splits)

section \<open>Words\<close>

lemma chr_eq: "m < 256 \<Longrightarrow> n < 256 \<Longrightarrow> chr m = chr n \<longleftrightarrow> m = n"
  by (metis byte_chr)

lemma lower_fold_agree:
  "list_all ascii (lower_runes fold_table s) \<Longrightarrow> list_all ascii (lower_runes lower_table s) \<Longrightarrow>
   lower_runes lower_table s = lower_runes fold_table s"
proof (induction fold_table s rule: lower_runes.induct)
  case (3 a b)
  then show ?case
    by (auto simp: fold_table_def lower_table_def ascii_def lower_char_def is_upper_def byte_chr chr_eq split: if_splits)
next
  case (4 a b c s)
  then show ?case
    by (auto simp: fold_table_def lower_table_def ascii_def lower_char_def is_upper_def byte_chr chr_eq split: if_splits)
qed simp_all


lemma fold_table_keys: "\<forall>k \<in> fst ` set fold_table. k = [] \<or> \<not> ascii (hd k)"
  by (simp add: fold_table_def ascii_def byte_chr)

lemma fold_lowered: "list_all ascii s \<Longrightarrow> \<forall>c \<in> set s. \<not> is_upper c \<Longrightarrow> lower_runes fold_table s = s"
proof -
  assume "list_all ascii s" and low: "\<forall>c \<in> set s. \<not> is_upper c"
  then have "lower_runes fold_table s = map lower_char s" by (blast intro: lower_runes_ascii [OF fold_table_keys])
  also have "\<dots> = s" using low by (intro map_idI) (simp add: lower_char_def)
  finally show ?thesis .
qed

lemma accepted_lowered:
  assumes "containsFold ws v" and "\<forall>w \<in> set ws. list_all ascii w \<and> (\<forall>c \<in> set w. \<not> is_upper c)"
  shows "accepted_word ws (lowered v)"
proof (cases "list_all ascii (lowered v)")
  case True
  from assms(1) obtain w where w: "w \<in> set ws" "EqualFold w (TrimSpace v)"
    by (auto simp: containsFold_def list_ex_iff Let_def)
  from assms(2) w(1) have ascii: "list_all ascii w" and low: "\<forall>c \<in> set w. \<not> is_upper c" by blast+
  then have "lower_runes fold_table (TrimSpace v) = w"
    using w(2) fold_lowered [OF ascii low] unfolding EqualFold_def by (rule_tac sym) simp
  moreover have "lower_runes lower_table (TrimSpace v) = lower_runes fold_table (TrimSpace v)"
    by (rule lower_fold_agree) (use calculation ascii True in \<open>simp_all only: ToLower_def\<close>)
  ultimately show ?thesis using w(1) by (simp only: accepted_word_def ToLower_def) blast
next
  case False
  then show ?thesis using assms(1) by (auto simp: accepted_word_def)
qed


lemma upper_lower_char: "upper_char (lower_char c) = upper_char c"
  by (auto simp: upper_char_def lower_char_def is_upper_def is_lower_def byte_chr) (simp add: chr_def byte_def)

lemma char_S: "upper_char (CHR ''s'') = CHR ''S''"
  by code_simp

lemma ascii_byte: "ascii c \<Longrightarrow> byte c \<noteq> 196 \<and> byte c \<noteq> 197"
  by (simp add: ascii_def)

lemma ascii_lower_char [simp]: "ascii (lower_char c) \<longleftrightarrow> ascii c"
  by (auto simp: ascii_def lower_char_def is_upper_def byte_chr)

lemma upper_fold:
  "lower_runes fold_table s = w \<Longrightarrow> list_all ascii w \<Longrightarrow> CHR ''k'' \<notin> set w \<Longrightarrow> ToUpper s = map upper_char w"
proof (induction fold_table s arbitrary: w rule: lower_runes.induct)
  case (3 a b)
  then show ?case
    by (auto simp: fold_table_def upper_lower_char byte_chr char_S chr_eq dest!: ascii_byte split: if_splits)
next
  case (4 a b c s)
  then show ?case
    by (auto simp: fold_table_def upper_lower_char byte_chr char_S chr_eq dest!: ascii_byte split: if_splits)
qed (auto simp: upper_lower_char)

section \<open>Requests\<close>

lemma second_pos [simp]: "0 < second"
  by (simp add: second_def)

lemmas check_simps = fst_reject fst_repair fst_requirePositiveDuration

lemma limits_validated: "limits_ok (fst (validateLimits default_limits l))"
  by (simp add: validateLimits_def limits_ok_def check_simps default_limits_def)

lemma compression_validated: "compression_ok (fst (validateCompression default_compression c))"
  by (simp add: validateCompression_def compression_ok_def check_simps default_compression_def DefaultCompressionTypes_def)

lemma scope_validated:
  assumes "scope_ok d"
  shows "scope_ok (fst (validateSessionScope d name s))"
  using assms fst_requirePositiveDuration [of "ss_MaxAge d" "''server.session.'' @ name @ ''.max_age''" "ss_MaxAge s"]
    fst_requirePositiveDuration [of "ss_IdleTimeout d" "''server.session.'' @ name @ ''.idle_timeout''" "ss_IdleTimeout s"]
  by (auto simp: validateSessionScope_def scope_ok_def fst_repair)

lemma bucket_validated: "bucket_ok d \<Longrightarrow> bucket_ok (fst (validateBucket d name b))"
  by (simp add: validateBucket_def bucket_ok_def check_simps)

lemma rate_limit_validated: "rate_limit_ok (fst (validateRateLimit default_rate_limit r))"
proof -
  have "rate_limit_ok default_rate_limit"
    by (simp add: rate_limit_ok_def bucket_ok_def default_rate_limit_def)
  then show ?thesis
    by (simp add: validateRateLimit_def rate_limit_ok_def bucket_validated fst_reject)
qed

lemma cookie_word_in: "d \<in> set ws \<Longrightarrow> fst (cookie_word ws format d v) \<in> set ws"
  by (simp add: cookie_word_def)

lemma plain_word: "list_all plain_byte s \<Longrightarrow> blank s \<longleftrightarrow> s = []"
  by (simp add: TrimSpace_plain)

lemma session_validated: "session_ok (fst (validateSession default_session s))"
proof -
  have "scope_ok (sess_Admin default_session)" "scope_ok (sess_User default_session)"
    by (simp_all add: scope_ok_def default_session_def plain_word plain_byte_def byte_def)
  moreover have "sess_Secure default_session \<in> set validSecure" "sess_SameSite default_session \<in> set validSameSite"
    by (simp_all add: default_session_def validSecure_def validSameSite_def)
  ultimately show ?thesis
    by (simp add: validateSession_def session_ok_def scope_validated cookie_word_in)
qed

lemma default_listed_in: "i18n_DefaultLanguage (fst (default_listed i)) \<in> set (i18n_Supported (fst (default_listed i)))"
  by (simp add: default_listed_def fst_repair)

lemma fallback_listed_in:
  "i18n_FallbackLanguage (fst (fallback_listed i)) \<in> set (i18n_Supported (fst (fallback_listed i)))"
  "set (i18n_Supported i) \<subseteq> set (i18n_Supported (fst (fallback_listed i)))"
  "i18n_DefaultLanguage (fst (fallback_listed i)) = i18n_DefaultLanguage i"
  by (auto simp: fallback_listed_def fst_repair)

lemma i18n_validated: "i18n_ok (fst (validateI18n default_i18n i))"
proof -
  have cookie: "\<not> blank (i18n_CookieName default_i18n)" and age: "0 < i18n_CookieMaxAge default_i18n"
    by (simp_all add: default_i18n_def plain_word plain_byte_def byte_def)
  define i2 where "i2 = fst (default_listed (fst (field i18n_DefaultLanguage i18n_DefaultLanguage_update
      (assign (\<lambda>l. ToLower (if blank l then i18n_DefaultLanguage default_i18n else l))) i)))"
  define i3 where "i3 = fst (field i18n_FallbackLanguage i18n_FallbackLanguage_update
      (assign (\<lambda>l. ToLower (if blank l then i18n_FallbackLanguage default_i18n else l))) i2)"
  define i4 where "i4 = fst (fallback_listed i3)"
  have "i18n_DefaultLanguage i2 \<in> set (i18n_Supported i2)" unfolding i2_def by (rule default_listed_in)
  then have "i18n_DefaultLanguage i3 \<in> set (i18n_Supported i3)" by (simp add: i3_def)
  then have i4: "i18n_DefaultLanguage i4 \<in> set (i18n_Supported i4)" "i18n_FallbackLanguage i4 \<in> set (i18n_Supported i4)"
    using fallback_listed_in [of i3] by (auto simp: i4_def)
  have run: "fst (validateI18n default_i18n i) =
      fst (field i18n_CookieMaxAge i18n_CookieMaxAge_update
        (reject (\<lambda>a. a \<le> 0)
          (\<lambda>a. (''invalid server.i18n.cookie_max_age %v, using %v'', [ADur a, ADur (i18n_CookieMaxAge default_i18n)]))
          (i18n_CookieMaxAge default_i18n))
        (fst (field i18n_CookieName i18n_CookieName_update (silent blank (i18n_CookieName default_i18n)) i4)))"
    unfolding validateI18n_def fst_checks i2_def i3_def i4_def ..
  show ?thesis using cookie age i4 unfolding run i18n_ok_def by (simp add: fst_reject)
qed

lemma TrimRight_byte_prefix: "prefix (TrimRight_byte c s) s"
  using suffix_dropWhile [of "\<lambda>x. x = c" "rev s"] by (simp add: TrimRight_byte_def suffix_to_prefix)

lemma TrimRight_byte_last: "TrimRight_byte c s \<noteq> [] \<Longrightarrow> last (TrimRight_byte c s) \<noteq> c"
  using hd_dropWhile [of "\<lambda>x. x = c" "rev s"] by (auto simp: TrimRight_byte_def last_rev)

lemma listen_BaseURL:
  "HasPrefix (NormalizeBaseURL raw) ''/'' \<and> (NormalizeBaseURL raw = ''/'' \<or> \<not> HasSuffix (NormalizeBaseURL raw) ''/'')"
proof -
  have pre: "HasPrefix (TrimRight_byte (CHR ''/'') t) ''/''" if "HasPrefix t ''/''" "TrimRight_byte (CHR ''/'') t \<noteq> []" for t
    using that TrimRight_byte_prefix [of "CHR ''/''" t]
    by (cases "TrimRight_byte (CHR ''/'') t") (auto simp: HasPrefix_def prefix_def)
  have suf: "\<not> HasSuffix (TrimRight_byte (CHR ''/'') t) ''/''" if "TrimRight_byte (CHR ''/'') t \<noteq> []" for t
    using TrimRight_byte_last [OF that] by (auto simp: HasSuffix_def suffix_def)
  define root where "root = (if HasPrefix (TrimSpace raw) ''/'' then TrimSpace raw else ''/'' @ TrimSpace raw)"
  have "HasPrefix root ''/''" by (simp add: root_def HasPrefix_def)
  then show ?thesis using pre [of root] suf [of root]
    by (auto simp: NormalizeBaseURL_def Let_def root_def HasPrefix_def [of "''/''"] HasSuffix_def split: if_splits)
qed

end
