(* ===== verification/Config_Sizes.thy ===== *)
theory Config_Sizes
  imports Config_Laws
begin

text \<open>
  Byte sizes and paths: what the text of a size reads back as, the policies of log files built on it, and the
  paths that \<open>SafePath\<close> lets through.
\<close>

section \<open>Floating point\<close>

lemma binade_unique:
  assumes "2 powi b \<le> x" and "x < 2 powi (b + 1)"
  shows "binade x = b"
proof -
  have "0 < (2 :: rat) powi b" by simp
  with assms(1) have x: "0 < x" by linarith
  from binade_bounds [OF x] assms have "(2 :: rat) powi binade x < 2 powi (b + 1)" "(2 :: rat) powi b < 2 powi (binade x + 1)"
    by linarith+
  then have "binade x < b + 1" "b < binade x + 1"
    using powi_mono [of "b + 1" "binade x"] powi_mono [of "binade x + 1" b] by (auto simp: not_le [symmetric])
  then show ?thesis by simp
qed

lemma f64_shift: "f64 (x * 2 ^ j) = f64 x * 2 ^ j"
proof (cases "0 < x")
  case True
  have split: "(2 :: rat) powi (a + int j) = 2 powi a * 2 ^ j" for a by (simp add: power_int_add)
  have "binade (x * 2 ^ j) = binade x + int j"
  proof (rule binade_unique)
    show "2 powi (binade x + int j) \<le> x * 2 ^ j"
      unfolding split using binade_bounds(1) [OF True] by (rule mult_right_mono) simp
    have "binade x + int j + 1 = (binade x + 1) + int j" by simp
    then show "x * 2 ^ j < 2 powi (binade x + int j + 1)"
      using binade_bounds(2) [OF True] by (simp only: split) (rule mult_strict_right_mono; simp)
  qed
  then have "binade (x * 2 ^ j) - 52 = (binade x - 52) + int j" by simp
  then have u: "2 powi (binade (x * 2 ^ j) - 52) = 2 powi (binade x - 52) * (2 :: rat) ^ j" by (simp only: split)
  define v :: rat where "v = 2 powi (binade x - 52)"
  have "\<not> x * 2 ^ j \<le> 0" using True by (simp add: not_le)
  then have "f64 (x * 2 ^ j) = of_int (round_even (x * 2 ^ j / (v * 2 ^ j))) * (v * 2 ^ j)"
    unfolding f64_def Let_def u v_def by (simp only: if_False)
  also have "x * 2 ^ j / (v * 2 ^ j) = x / v" by (rule mult_divide_mult_cancel_right) simp
  also have "of_int (round_even (x / v)) * (v * 2 ^ j) = f64 x * 2 ^ j"
    using True by (simp add: f64_def v_def Let_def)
  finally show ?thesis .
next
  case False
  then have "x * 2 ^ j \<le> 0" by (simp add: mult_le_0_iff)
  with False show ?thesis by (simp add: f64_def)
qed

lemma round64_scaled: "k < 2 ^ 53 \<Longrightarrow> round64 (f64 (of_nat k) * 2 ^ j) = of_nat k * 2 ^ j"
proof -
  assume k: "k < 2 ^ 53"
  have "\<not> of_nat k * 2 ^ j < (0 :: rat)" by (simp add: not_less)
  then show ?thesis using k by (simp add: round64_def f64_shift)
qed

section \<open>Sizes\<close>

lemma length_itoa: "n < 10 ^ Suc m \<Longrightarrow> length (itoa n) \<le> Suc m"
proof (induction m arbitrary: n)
  case 0
  then show ?case by (simp add: itoa.simps)
next
  case (Suc m)
  show ?case
  proof (cases "n < 10")
    case False
    moreover have "n div 10 < 10 ^ Suc m" using Suc.prems by (simp add: less_mult_imp_div_less)
    ultimately show ?thesis using Suc.IH [of "n div 10"] by (simp add: itoa.simps [of n])
  qed (simp add: itoa.simps)
qed

lemma digit_bytes: "is_digit c \<Longrightarrow> plain_byte c \<and> upper_char c = c \<and> ascii c"
  by (auto simp: is_digit_def plain_byte_def upper_char_def is_lower_def ascii_def)

lemma itoa_rev: "\<not> is_digit c \<Longrightarrow> \<not> prefix (c # s) (rev (itoa k))"
  using itoa_digits [of k] by (auto simp: list_all_iff dest!: set_mono_prefix)

lemma no_space_itoa: "list_all plain_byte u \<Longrightarrow> list_all plain_byte (itoa k @ u)"
  using itoa_digits [of k] digit_bytes by (auto simp: list_all_iff)

lemma upper_itoa: "map upper_char (itoa k) = itoa k"
  using itoa_digits [of k] digit_bytes by (auto simp: list_all_iff intro: map_idI)

lemmas letters = is_digit_def byte_def plain_byte_def

lemma HasSuffix_itoa:
  "HasSuffix (itoa k @ ''GB'') ''TB'' = False" "HasSuffix (itoa k @ ''GB'') ''GB'' = True"
  "HasSuffix (itoa k @ ''MB'') ''TB'' = False" "HasSuffix (itoa k @ ''MB'') ''GB'' = False" "HasSuffix (itoa k @ ''MB'') ''MB'' = True"
  "HasSuffix (itoa k @ ''KB'') ''TB'' = False" "HasSuffix (itoa k @ ''KB'') ''GB'' = False" "HasSuffix (itoa k @ ''KB'') ''MB'' = False"
  "HasSuffix (itoa k @ ''KB'') ''KB'' = True"
  by (simp_all add: HasSuffix_def suffix_to_prefix)

lemma HasSuffix_itoa_B:
  "HasSuffix (itoa k @ ''B'') ''TB'' = False" "HasSuffix (itoa k @ ''B'') ''GB'' = False"
  "HasSuffix (itoa k @ ''B'') ''MB'' = False" "HasSuffix (itoa k @ ''B'') ''KB'' = False"
  "HasSuffix (itoa k @ ''B'') ''T'' = False" "HasSuffix (itoa k @ ''B'') ''G'' = False"
  "HasSuffix (itoa k @ ''B'') ''M'' = False" "HasSuffix (itoa k @ ''B'') ''K'' = False"
  "HasSuffix (itoa k @ ''B'') ''B'' = True"
  by (simp_all add: HasSuffix_def suffix_to_prefix itoa_rev letters)

lemma byte_unit_step:
  assumes "HasSuffix (itoa k @ u) v = True" and "length v = length u"
  shows "byte_units_loop env (itoa k @ u) ((v, scale) # us) =
    (case ParseFloat env (itoa k) of
       None \<Rightarrow> Some None
     | Some n \<Rightarrow> if float_negative n then Some None else Some (Some (to_int64 env (float_times n (of_int scale)))))"
proof -
  have "TrimSpace (itoa k) = itoa k" using no_space_itoa [of "[]" k] by (simp add: TrimSpace_plain)
  then show ?thesis using assms by (simp add: TrimSuffix_def Let_def split: option.split)
qed

lemma byte_units_itoa:
  assumes "(u, j) \<in> {(''GB'', 30), (''MB'', 20), (''KB'', 10), (''B'', 0)}"
  shows "byte_units_loop env (itoa k @ u) byteUnits =
    (case ParseFloat env (itoa k) of
       None \<Rightarrow> Some None
     | Some n \<Rightarrow> if float_negative n then Some None else Some (Some (to_int64 env (float_times n (of_int (2 ^ j))))))"
proof -
  have skip: "byte_units_loop env s ((v, scale) # us) = byte_units_loop env s us" if "HasSuffix s v = False" for s v scale us
    using that by simp
  from assms consider "u = ''GB''" "j = 30" | "u = ''MB''" "j = 20" | "u = ''KB''" "j = 10" | "u = ''B''" "j = 0" by auto
  then show ?thesis
    by cases (simp_all add: byteUnits_def skip byte_unit_step HasSuffix_itoa HasSuffix_itoa_B
        split: option.split del: byte_units_loop.simps)
qed


lemma ParseByteSize_itoa:
  assumes "decimal_floats env" and "(u, j) \<in> {(''GB'', 30), (''MB'', 20), (''KB'', 10), (''B'', 0)}"
    and "k < 2 ^ 53" and "k * 2 ^ j < 2 ^ 63"
    and "list_all plain_byte raw" and "map upper_char raw = itoa k @ u"
  shows "ParseByteSize env raw = Some (int k * 2 ^ j)"
proof -
  have "k < 10 ^ Suc 18" using assms(3) by simp
  then have "length (itoa k) \<le> 300" using length_itoa [of k 18] by simp
  then have float: "ParseFloat env (itoa k) = Some (FFin (of_nat k))"
    using assms(1,3) itoa_digits [of k] by (simp add: decimal_floats_def atoi_itoa)
  define n where "n = int k * 2 ^ j"
  have n: "0 \<le> n" "n < 2 ^ 63"
    using assms(4) of_nat_less_iff [of "k * 2 ^ j" "2 ^ 63", where 'a = int] by (simp_all add: n_def)
  have "float_times (FFin (of_nat k)) (of_int (2 ^ j)) = FFin (of_int n)"
    using round64_scaled [OF assms(3), of j] assms(3) by (simp add: float_times_def n_def)
  moreover have "to_int64 env (FFin (of_int n)) = n" using n by (simp add: to_int64_def trunc64_def)
  ultimately have val: "to_int64 env (float_times (FFin (of_nat k)) (of_int (2 ^ j))) = n" by simp
  have "raw \<noteq> []" using assms(6) itoa_not_Nil [of k] by auto
  then show ?thesis
    using assms(5,6) byte_units_itoa [OF assms(2), of env k] float val
    by (simp add: ParseByteSize_def TrimSpace_plain ToUpper_plain float_negative_def n_def)
qed


text \<open>The environment of the examples: decimal numbers, a machine with every port free, no environment variables.\<close>

definition plain_env :: config_env where
  "plain_env =
     \<lparr>ParseFloat = (\<lambda>s. if s \<noteq> [] \<and> list_all is_digit s then Some (FFin (f64 (of_nat (atoi_digits s)))) else None),
      int64_overflow = (\<lambda>_. - (2 ^ 63)), LoadLocation = (\<lambda>_. True), ParseIP = (\<lambda>s. s = ''0.0.0.0''),
      ParseCIDR = (\<lambda>_. False), regexp_Compile = (\<lambda>_. True), rand_Intn = (\<lambda>_ _. 0), isPortFree = (\<lambda>_ _. True),
      ephemeralPort = None, Getenv = (\<lambda>_. [])\<rparr>"

lemma plain_env_floats: "decimal_floats plain_env"
  by (simp add: decimal_floats_def plain_env_def)

lemma ByteSize_String_plain:
  assumes "0 \<le> n"
  shows "ByteSize_String n =
    (if n \<ge> 2 ^ 30 \<and> n mod 2 ^ 30 = 0 then itoa (nat (n div 2 ^ 30)) @ ''GB''
     else if n \<ge> 2 ^ 20 \<and> n mod 2 ^ 20 = 0 then itoa (nat (n div 2 ^ 20)) @ ''MB''
     else if n \<ge> 2 ^ 10 \<and> n mod 2 ^ 10 = 0 then itoa (nat (n div 2 ^ 10)) @ ''KB''
     else itoa (nat n) @ ''B'')"
  using assms by (simp add: ByteSize_String_def)

lemma ParseByteSize_scaled:
  assumes "decimal_floats env" and "(u, j) \<in> {(''GB'', 30), (''MB'', 20), (''KB'', 10), (''B'', 0)}"
    and "0 \<le> k" and "k < 2 ^ 53" and "k * 2 ^ j < 2 ^ 63"
  shows "ParseByteSize env (itoa (nat k) @ u) = Some (k * 2 ^ j)"
proof -
  have "int (nat k * 2 ^ j) = k * 2 ^ j" using assms(3) by simp
  then have "int (nat k * 2 ^ j) < int (2 ^ 63)" using assms(5) by simp
  then have bound: "nat k * 2 ^ j < 2 ^ 63" unfolding of_nat_less_iff .
  have k: "nat k < 2 ^ 53" using assms(3,4) by (simp add: nat_less_iff)
  have u: "list_all plain_byte u" "map upper_char u = u"
    using assms(2) by (auto simp: letters upper_char_def is_lower_def)
  have "list_all plain_byte (itoa (nat k) @ u)" by (rule no_space_itoa [OF u(1)])
  moreover have "map upper_char (itoa (nat k) @ u) = itoa (nat k) @ u" using u(2) by (simp add: upper_itoa)
  ultimately show ?thesis using ParseByteSize_itoa [OF assms(1,2) k bound] assms(3) by simp
qed

lemma itoa_zero: "itoa 0 = ''0''"
  by code_simp

text \<open>
  A byte size that the program writes into the file is read back as it was: every size below \<open>2 ^ 53\<close>, and above it
  every multiple of 1024, survives its text, although the reader goes through a \<open>float64\<close>. A negative size is
  written as nothing.\<close>

theorem size_round_trip:
  assumes "decimal_floats env" and "n < 2 ^ 63" and "n < 2 ^ 53 \<or> 1024 dvd n"
  shows "ByteSize_UnmarshalYAML env (ByteSize_MarshalYAML n) = Some (max 0 n)"
proof -
  note read = ParseByteSize_scaled [OF assms(1)]
  have bound: "n < 9223372036854775808" using assms(2) by simp
  have "ParseByteSize env (ByteSize_String n) = Some n" if n: "0 \<le> n"
  proof -
    consider "n \<ge> 2 ^ 30 \<and> n mod 2 ^ 30 = 0" | "\<not> (n \<ge> 2 ^ 30 \<and> n mod 2 ^ 30 = 0)" "n \<ge> 2 ^ 20 \<and> n mod 2 ^ 20 = 0"
      | "\<not> (n \<ge> 2 ^ 30 \<and> n mod 2 ^ 30 = 0)" "\<not> (n \<ge> 2 ^ 20 \<and> n mod 2 ^ 20 = 0)" "n \<ge> 2 ^ 10 \<and> n mod 2 ^ 10 = 0"
      | "\<not> (n \<ge> 2 ^ 30 \<and> n mod 2 ^ 30 = 0)" "\<not> (n \<ge> 2 ^ 20 \<and> n mod 2 ^ 20 = 0)" "\<not> (n \<ge> 2 ^ 10 \<and> n mod 2 ^ 10 = 0)"
      by blast
    then show ?thesis
    proof cases
      case 1
      have "n div 2 ^ 30 * 2 ^ 30 = n" using 1 by (simp add: mod_0_imp_dvd)
      then show ?thesis using 1 n bound read [of "''GB''" 30 "n div 2 ^ 30"]
        by (auto simp: ByteSize_String_plain pos_imp_zdiv_nonneg_iff)
    next
      case 2
      have "n div 2 ^ 20 * 2 ^ 20 = n" using 2 by (simp add: mod_0_imp_dvd)
      then show ?thesis using 2 n bound read [of "''MB''" 20 "n div 2 ^ 20"]
        by (auto simp: ByteSize_String_plain pos_imp_zdiv_nonneg_iff)
    next
      case 3
      have "n div 2 ^ 10 * 2 ^ 10 = n" using 3 by (simp add: mod_0_imp_dvd)
      then show ?thesis using 3 n bound read [of "''KB''" 10 "n div 2 ^ 10"]
        by (auto simp: ByteSize_String_plain pos_imp_zdiv_nonneg_iff)
    next
      case 4
      have "n < 2 ^ 53"
      proof (cases "n < 2 ^ 53")
        case False
        with assms(3) have "1024 dvd n" by simp
        with False 4(3) show ?thesis by auto
      qed
      then show ?thesis using 4 n read [of "''B''" 0 n] by (auto simp: ByteSize_String_plain)
    qed
  qed
  moreover have "ParseByteSize env ''0B'' = Some 0"
    using read [of "''B''" 0 0] by (simp add: itoa_zero)
  ultimately show ?thesis
    by (cases "n < 0") (simp_all add: ByteSize_UnmarshalYAML_def ByteSize_MarshalYAML_def ByteSize_String_def max_def)
qed

theorem size_round_trip_witness:
  "ByteSize_UnmarshalYAML plain_env (ByteSize_MarshalYAML (10 * 2 ^ 20)) = Some 10485760"
  using size_round_trip [OF plain_env_floats, of "10 * 2 ^ 20"] by simp

section \<open>Paths\<close>

definition segment_ok :: "string \<Rightarrow> bool" where
  "segment_ok s \<longleftrightarrow> s \<noteq> [] \<and> length s \<le> 64
     \<and> list_all (\<lambda>c. is_lower c \<or> is_digit c \<or> c = CHR ''_'' \<or> c = CHR ''-'') s"

definition path_segments :: "string \<Rightarrow> string list" where
  "path_segments p = filter (\<lambda>s. s \<noteq> []) (split_on (CHR ''/'') p)"

lemma byte_dash_underscore: "c = CHR ''-'' \<longleftrightarrow> byte c = 45" "c = CHR ''_'' \<longleftrightarrow> byte c = 95"
  using byte_inject [of c "CHR ''-''"] byte_inject [of c "CHR ''_''"] by (simp_all add: byte_def)

lemma segment_class: "in_cls [(97, 122), (48, 57), (95, 95), (45, 45)] = (\<lambda>c. is_lower c \<or> is_digit c \<or> c = CHR ''_'' \<or> c = CHR ''-'')"
  by (rule ext) (auto simp: in_cls_def is_lower_def is_digit_def byte_dash_underscore)

lemma no_dot: "segment_ok s \<Longrightarrow> CHR ''.'' \<notin> set s"
  by (auto simp: segment_ok_def list_all_iff letters is_lower_def)

lemma ValidatePathSegment_None: "ValidatePathSegment s = None \<longleftrightarrow> segment_ok s"
proof
  assume "ValidatePathSegment s = None"
  then show "segment_ok s"
    by (auto simp: ValidatePathSegment_def segment_ok_def MaxSegmentLength_def validPathSegment_def rx_match_iff
        rx_RPlus_cls segment_class split: if_splits)
next
  assume ok: "segment_ok s"
  with no_dot [OF ok] show "ValidatePathSegment s = None"
    by (auto simp: ValidatePathSegment_def segment_ok_def MaxSegmentLength_def validPathSegment_def rx_match_iff
        rx_RPlus_cls segment_class)
qed

lemma validate_segments_None: "validate_segments segs = None \<longleftrightarrow> (\<forall>s \<in> set segs. s = [] \<or> segment_ok s)"
  by (induction segs) (auto simp: ValidatePathSegment_None [symmetric] split: option.splits)

lemma path_segments_trim: "path_segments (Trim_byte (CHR ''/'') p) = path_segments p"
proof -
  have left: "path_segments (dropWhile (\<lambda>x. x = CHR ''/'') q) = path_segments q" for q
    by (induction q) (auto simp: path_segments_def)
  have right: "path_segments (TrimRight_byte (CHR ''/'') q) = path_segments q" for q
    by (induction q rule: rev_induct) (auto simp: path_segments_def TrimRight_byte_def split_on_snoc)
  show ?thesis by (simp add: Trim_byte_def left right)
qed

lemma clean_segments_undotted:
  "\<forall>s \<in> set segs. s \<noteq> ''.'' \<and> s \<noteq> ''..'' \<Longrightarrow> clean_segments rooted kept segs = rev kept @ filter (\<lambda>s. s \<noteq> []) segs"
  by (subst clean_segments_plain) (auto intro!: filter_cong)

lemma join_ends:
  assumes "ws \<noteq> []" and "\<forall>w \<in> set ws. w \<noteq> [] \<and> CHR ''/'' \<notin> set w"
  shows "hd (join ''/'' ws) \<noteq> CHR ''/''" and "last (join ''/'' ws) \<noteq> CHR ''/''" and "join ''/'' ws \<noteq> []"
proof -
  show ne: "join ''/'' ws \<noteq> []" using assms by (intro join_nonempty) auto
  show "hd (join ''/'' ws) \<noteq> CHR ''/''" using assms
    by (cases ws rule: remdups_adj.cases) (auto simp: hd_append dest: hd_in_set)
  show "last (join ''/'' ws) \<noteq> CHR ''/''" using assms
  proof (induction ws rule: induct_list012)
    case (2 w)
    then show ?case by (auto dest: last_in_set)
  next
    case (3 w v ws)
    then have "join ''/'' (v # ws) \<noteq> []" by (intro join_nonempty) auto
    with 3 show ?case by simp
  qed simp
qed

lemma Trim_byte_clean: "s = [] \<or> hd s \<noteq> c \<and> last s \<noteq> c \<Longrightarrow> Trim_byte c s = s \<and> Trim_byte c (c # s) = s"
proof -
  assume "s = [] \<or> hd s \<noteq> c \<and> last s \<noteq> c"
  moreover from this have "dropWhile (\<lambda>x. x = c) s = s" by (cases s) auto
  moreover from calculation(1) have "dropWhile (\<lambda>x. x = c) (rev s) = rev s" by (cases s rule: rev_cases) auto
  ultimately show ?thesis by (auto simp: Trim_byte_def TrimRight_byte_def)
qed

lemma segments_set: "s \<in> set (split_on (CHR ''/'') p) \<Longrightarrow> CHR ''/'' \<notin> set s"
  using set_split_on by fastforce

lemma NormalizePath_plain:
  assumes ok: "\<forall>s \<in> set (split_on (CHR ''/'') p). s = [] \<or> segment_ok s"
  shows "NormalizePath p = join ''/'' (path_segments p)"
proof (cases "p = []")
  case False
  let ?q = "join ''/'' (path_segments p)"
  have segs: "\<forall>s \<in> set (path_segments p). segment_ok s \<and> s \<noteq> [] \<and> CHR ''/'' \<notin> set s"
    using ok segments_set by (auto simp: path_segments_def)
  have "\<forall>s \<in> set (split_on (CHR ''/'') p). s \<noteq> ''.'' \<and> s \<noteq> ''..''"
    using ok no_dot by fastforce
  then have clean: "clean_segments rooted [] (split_on (CHR ''/'') p) = path_segments p" for rooted
    by (simp add: clean_segments_undotted path_segments_def)
  have ends: "?q = [] \<or> hd ?q \<noteq> CHR ''/'' \<and> last ?q \<noteq> CHR ''/''"
    using join_ends [of "path_segments p"] segs by (cases "path_segments p = []") auto
  have nodot: "CHR ''.'' \<notin> set ?q"
  proof -
    have "set (join ''/'' ws) \<subseteq> insert (CHR ''/'') (\<Union> (set ` set ws))" for ws
      by (induction ws rule: induct_list012) auto
    then have "set ?q \<subseteq> insert (CHR ''/'') (\<Union> (set ` set (path_segments p)))" .
    moreover have "CHR ''.'' \<notin> \<Union> (set ` set (path_segments p))" using segs no_dot by blast
    ultimately show ?thesis by auto
  qed
  have rooted: "HasPrefix p ''/''" if "?q = []"
  proof -
    have none: "path_segments p = []" using that join_ends(3) [of "path_segments p"] segs by (cases "path_segments p = []") auto
    obtain a r where p: "p = a # r" using False by (cases p) auto
    have "a = CHR ''/''"
    proof (rule ccontr)
      assume "a \<noteq> CHR ''/''"
      with p none show False by (auto simp: path_segments_def split: list.splits if_splits)
    qed
    with p show ?thesis by (simp add: HasPrefix_def)
  qed
  have "path_Clean p = (if HasPrefix p ''/'' then CHR ''/'' # ?q else ?q)"
    using rooted by (auto simp: path_Clean_def clean Let_def)
  then have "Trim_byte (CHR ''/'') (path_Clean p) = ?q" using Trim_byte_clean [OF ends] by simp
  moreover have "\<not> Contains ?q ''..''" using nodot by (auto simp: Contains_iff)
  moreover have "?q \<noteq> ''.''" using nodot by auto
  ultimately show ?thesis using False by (simp add: NormalizePath_def)
qed (simp add: NormalizePath_def path_segments_def)

text \<open>
  C38: \<open>SafePath\<close> accepts exactly the paths of at most 2048 bytes whose segments, empty ones aside, are of 1 to 64 lower-case
  letters, digits, hyphens and underscores, and gives those segments joined by single slashes, so that no dot, no
  leading and no trailing slash is ever in an answer.\<close>

theorem SafePath_spec:
  "SafePath p = Inr q \<longleftrightarrow>
     length p \<le> 2048 \<and> list_all segment_ok (path_segments p) \<and> q = join ''/'' (path_segments p)"
proof -
  have same: "(\<forall>s \<in> set (split_on (CHR ''/'') r). s = [] \<or> segment_ok s) \<longleftrightarrow> (\<forall>s \<in> set (path_segments r). segment_ok s)" for r
    by (auto simp: path_segments_def)
  have nodots: "\<not> Contains p ''..''" if "\<forall>s \<in> set (path_segments p). segment_ok s"
  proof
    assume "Contains p ''..''"
    then obtain s where "s \<in> set (split_on (CHR ''/'') p)" "Contains s ''..''"
      using Contains_split_on [of "CHR ''/''" "''..''" p] by auto
    moreover from this(2) have "CHR ''.'' \<in> set s" "s \<noteq> []" by (auto simp: Contains_iff)
    ultimately show False using that no_dot [of s] by (auto simp: path_segments_def)
  qed
  have "ValidatePath p = None \<longleftrightarrow> length p \<le> 2048 \<and> (\<forall>s \<in> set (path_segments p). segment_ok s)"
    using nodots by (auto simp: ValidatePath_def MaxPathLength_def validate_segments_None same path_segments_trim)
  then show ?thesis
    using NormalizePath_plain [of p] by (auto simp: SafePath_def same list_all_iff split: option.splits)
qed

end
