(* ===== verification/Config_Sound.thy ===== *)
theory Config_Sound
  imports Config_Sizes
begin

text \<open>
  \<open>Validate\<close> establishes \<open>config_ok\<close>: one lemma per section, and the whole document.
\<close>

section \<open>Listener\<close>

lemma second_nonneg [simp]: "0 \<le> second"
  by (simp add: second_def)

lemma plain_blank: "list_all plain_byte s \<Longrightarrow> s \<noteq> [] \<Longrightarrow> \<not> blank s"
  by (simp add: TrimSpace_plain)

lemmas word_bytes = plain_byte_def byte_def ascii_def is_upper_def is_lower_def is_digit_def

lemma strip_left_keeps: "c \<in> set s \<Longrightarrow> \<forall>p \<in> set ps. c \<notin> set p \<Longrightarrow> c \<in> set (strip_left ps s)"
proof (induction ps s rule: strip_left.induct)
  case (1 ps s)
  show ?case
  proof (cases "List.find (\<lambda>p. p \<noteq> [] \<and> prefix p s) ps")
    case (Some p)
    then obtain r where p: "p \<in> set ps" "s = p @ r" by (auto simp: find_Some_iff prefix_def)
    with "1.prems" have "c \<in> set (drop (length p) s)" by auto
    with "1.IH" [OF Some] "1.prems"(2) Some show ?thesis by (simp add: strip_left.simps [of ps s])
  qed (use "1.prems" in \<open>simp add: strip_left.simps [of ps s]\<close>)
qed

lemma plain_not_blank: "c \<in> set s \<Longrightarrow> plain_byte c \<Longrightarrow> \<not> blank s"
proof -
  assume c: "c \<in> set s" "plain_byte c"
  have "\<forall>p \<in> set go_spaces. c \<notin> set p" using go_spaces_not_plain c(2) by blast
  then have "c \<in> set (strip_left go_spaces s)" "\<forall>p \<in> set (map rev go_spaces). c \<notin> set p"
    using c(1) strip_left_keeps by auto
  then have "c \<in> set (TrimSpace s)" using strip_left_keeps by (simp add: TrimSpace_def)
  then show ?thesis by auto
qed

lemma plain_word_blank [simp]: "plain_byte c \<Longrightarrow> TrimSpace (c # s) \<noteq> []"
  by (rule plain_not_blank) auto

lemma modes_lowercase:
  "\<forall>w \<in> set ValidModes. list_all ascii w \<and> (\<forall>c \<in> set w. \<not> is_upper c)"
  "\<forall>w \<in> set AccountModes. list_all ascii w \<and> (\<forall>c \<in> set w. \<not> is_upper c)"
  "\<forall>w \<in> set ProfileVisibilities. list_all ascii w \<and> (\<forall>c \<in> set w. \<not> is_upper c)"
  "\<forall>w \<in> set OrgRoles. list_all ascii w \<and> (\<forall>c \<in> set w. \<not> is_upper c)"
  "\<forall>w \<in> set validACMEChallenges. list_all ascii w \<and> (\<forall>c \<in> set w. \<not> is_upper c)"
  by (simp_all add: ValidModes_def AccountModes_def ProfileVisibilities_def Config_Values.VisibilityPublic_def Config_Values.VisibilityPrivate_def
      OrgRoles_def validACMEChallenges_def word_bytes)

lemma lowered_plain: "list_all plain_byte s \<Longrightarrow> \<forall>c \<in> set s. \<not> is_upper c \<Longrightarrow> lowered s = s"
  by (simp add: TrimSpace_plain ToLower_plain lower_char_def map_idI)

lemma ToLower_lower: "list_all plain_byte s \<Longrightarrow> \<forall>c \<in> set s. \<not> is_upper c \<Longrightarrow> ToLower s = s"
  by (simp add: ToLower_plain lower_char_def map_idI)

lemma word_lowered_ok:
  assumes "\<forall>w \<in> set ws. list_all ascii w \<and> (\<forall>c \<in> set w. \<not> is_upper c)"
    and "d \<in> set ws" and "list_all plain_byte d" and "\<forall>c \<in> set d. \<not> is_upper c"
  shows "accepted_word ws (fst (word_lowered ws format d v))"
  using accepted_lowered [OF _ assms(1), of v] assms(2) lowered_plain [OF assms(3,4)]
  by (simp add: word_lowered_def accepted_word_def)

lemma word_or_default_ok:
  assumes "\<forall>w \<in> set ws. list_all ascii w \<and> (\<forall>c \<in> set w. \<not> is_upper c)" and "d \<in> set ws"
  shows "accepted_word ws (fst (word_or_default ws format ToLower d v))"
  using accepted_lowered [OF _ assms(1), of v] assms(2)
  by (simp add: word_or_default_def accepted_word_def)

lemma TLS_version_ok: "fst (word_or_default validTLSVersions format ToUpper ''TLS1.2'' v) \<in> set validTLSVersions"
proof (cases "containsFold validTLSVersions v")
  case True
  have low: "map lower_char ''TLS1.2'' = ''tls1.2''" "map lower_char ''TLS1.3'' = ''tls1.3''" by code_simp+
  have "lower_runes fold_table ''TLS1.2'' = map lower_char ''TLS1.2''" "lower_runes fold_table ''TLS1.3'' = map lower_char ''TLS1.3''"
    by (rule lower_runes_ascii [OF fold_table_keys]; simp add: word_bytes)+
  then have "lower_runes fold_table (TrimSpace v) \<in> {''tls1.2'', ''tls1.3''}"
    using True unfolding low by (auto simp: containsFold_def validTLSVersions_def EqualFold_def Let_def)
  then obtain w where w: "w \<in> {''tls1.2'', ''tls1.3''}" "lower_runes fold_table (TrimSpace v) = w" by blast
  have "list_all ascii w" "CHR ''k'' \<notin> set w" using w(1) by (auto simp: word_bytes)
  from upper_fold [OF w(2) this] have "ToUpper (TrimSpace v) = map upper_char w" .
  moreover have "map upper_char ''tls1.2'' = ''TLS1.2''" "map upper_char ''tls1.3'' = ''TLS1.3''" by code_simp+
  ultimately have "ToUpper (TrimSpace v) \<in> set validTLSVersions" using w(1) by (auto simp: validTLSVersions_def)
  with True show ?thesis by (simp add: word_or_default_def)
qed (simp add: word_or_default_def validTLSVersions_def)

lemma port_loop_range:
  "(\<And>i. 0 \<le> rand_Intn env i width \<and> rand_Intn env i width < width) \<Longrightarrow> port_loop env width k attempt = Some p \<Longrightarrow>
   defaultPortRangeLow \<le> p \<and> p < defaultPortRangeLow + width"
  by (induction k arbitrary: attempt) (auto simp: Let_def split: if_splits)

lemma RandomUnusedPort_ok: "ports_in_range env \<Longrightarrow> port_ok (RandomUnusedPort env)"
proof -
  assume env: "ports_in_range env"
  define width where "width = defaultPortRangeHigh - defaultPortRangeLow + 1"
  have width: "width = 1000" by (simp add: width_def defaultPortRangeHigh_def defaultPortRangeLow_def)
  with env have draw: "\<And>i. 0 \<le> rand_Intn env i width \<and> rand_Intn env i width < width" by (simp add: ports_in_range_def)
  have run: "RandomUnusedPort env = (case port_loop env width (nat (width * 2)) 0 of
      Some port \<Rightarrow> port | None \<Rightarrow> (case ephemeralPort env of Some port \<Rightarrow> port | None \<Rightarrow> defaultPortRangeLow))"
    by (simp only: RandomUnusedPort_def Let_def width_def)
  show ?thesis
  proof (cases "port_loop env width (nat (width * 2)) 0")
    case None
    with env show ?thesis unfolding run
      by (auto simp: ports_in_range_def port_ok_def defaultPortRangeLow_def split: option.splits)
  next
    case (Some p)
    with port_loop_range [OF draw Some] show ?thesis unfolding run
      by (simp add: port_ok_def width defaultPortRangeLow_def)
  qed
qed

lemma listen_validated:
  assumes "ports_in_range env"
  shows "listen_ok env (fst (validateServer env DefaultServer s))"
proof -
  have defaults: "Listen DefaultServer = ''0.0.0.0''" "Mode DefaultServer = ''production''"
    "\<not> blank (srv_ApplicationName DefaultServer)" "\<not> blank (ApplicationTagline DefaultServer)"
    "IsRouteSegment (AdminPath DefaultServer)" "IsRouteSegment (APIVersion DefaultServer)"
    by (simp_all add: DefaultServer_def DefaultMode_def DefaultApplicationName_def DefaultApplicationTagline_def DefaultAdminPath_def
        DefaultAPIVersion_def IsRouteSegment_def HasPrefix_def HasSuffix_def suffix_to_prefix word_bytes)
  have "lowered ''production'' = ''production''" by (rule lowered_plain) (simp_all add: word_bytes)
  then have mode: "accepted_word ValidModes (fst (mode_check (Mode DefaultServer) m))" for m
    using accepted_lowered [OF _ modes_lowercase(1), of m]
    by (simp add: mode_check_def defaults accepted_word_def ValidModes_def)
  have listen: "ParseIP env (fst (listen_check env d l)) \<or> fst (listen_check env d l) = ''localhost''
      \<or> fst (listen_check env d l) = d" for d l
    by (simp add: listen_check_def fst_reject)
  have port: "port_ok (fst (port_check env p))" for p
    using RandomUnusedPort_ok [OF assms] by (auto simp: port_check_def port_ok_def Let_def)
  have segment: "IsRouteSegment d \<Longrightarrow> IsRouteSegment (fst (segment_check format d p))" for format d p
    by (simp add: segment_check_def)
  show ?thesis
    using mode [of "Mode s"] listen [of "''0.0.0.0''" "Listen s"] port listen_BaseURL [of "BaseURL s"] defaults segment
    unfolding validateServer_def listen_ok_def by simp
qed

lemma ssl_validated: "ssl_ok p (fst (validateSSL p default_ssl s))"
proof -
  have tls: "fst (word_or_default validTLSVersions format ToUpper (ssl_MinVersion default_ssl) v) \<in> set validTLSVersions" for format v
    using TLS_version_ok by (simp add: default_ssl_def)
  have acme: "accepted_word validACMEChallenges (fst (word_or_default validACMEChallenges format ToLower
      (le_Challenge (ssl_LetsEncrypt default_ssl)) v))" for format v
    by (rule word_or_default_ok [OF modes_lowercase(5)]) (simp add: default_ssl_def validACMEChallenges_def)
  show ?thesis using tls acme
    by (simp add: validateSSL_def ssl_ok_def port_ok_def fst_reject fst_repair) auto
qed


lemma web_validated: "web_ok (fst (validateWeb default_web w))"
proof -
  have keep: "\<forall>p \<in> set (fst (keep_entries exempt_path ps)). HasPrefix p ''/'' \<and> TrimSpace p = p" for ps
    by (auto simp: set_keep_entries exempt_path_def Let_def TrimSpace_idem split: if_splits)
  have paths: "case fst (exempt_paths d g) of None \<Rightarrow> False | Some ps \<Rightarrow> \<forall>p \<in> set ps. HasPrefix p ''/'' \<and> TrimSpace p = p" for d g
    using keep by (simp add: exempt_paths_def Let_def split: prod.splits) (metis fst_conv)
  show ?thesis
    unfolding validateWeb_def web_ok_def fst_checks fst_field
    using paths by (intro conjI) (auto simp: fst_reject fst_repair default_web_def DefaultHSTSMaxAge_def TrimSpace_idem)
qed

section \<open>Storage and logs\<close>

lemma cache_validated: "cache_ok (fst (validateCache default_cache c))"
proof -
  have ty: "fst (driver_check CacheTypes format (ca_Type default_cache) t) \<in> set CacheTypes" for format t
    by (simp add: driver_check_def fst_reject default_cache_def CacheTypes_def)
  have defaults: "\<not> blank (ca_Host default_cache)" "\<not> blank (ca_Prefix default_cache)" "0 < ca_Timeout default_cache" "0 < ca_TTL default_cache"
    "1 \<le> ca_PoolSize default_cache" "0 \<le> ca_MinIdle default_cache" "0 \<le> ca_DB default_cache" "1 \<le> ca_Port default_cache"
    "ca_Port default_cache \<le> 65535"
    by (simp_all add: default_cache_def DefaultApplicationName_def word_bytes)
  show ?thesis
    unfolding validateCache_def cache_ok_def fst_checks fst_field
    using ty defaults by (intro conjI) (simp_all add: check_simps port_ok_def)
qed

lemma rotate_default:
  assumes "decimal_floats env"
  shows "ValidRotate env ''weekly,50MB''" "ValidRotate env ''monthly''" "ValidRotate env ''daily''"
proof -
  have "''50MB'' = itoa 50 @ ''MB''" by code_simp
  moreover have "map upper_char ''50mb'' = ''50MB''" by code_simp
  ultimately have "ParseByteSize env ''50mb'' = Some (int 50 * 2 ^ 20)"
    using assms by (intro ParseByteSize_itoa [where u = "''MB''"]) (simp_all add: word_bytes)
  then have size: "positive_size env ''50mb''" by (simp add: positive_size_def)
  have low: "lowered ''weekly,50MB'' = ''weekly,50mb''"
  proof -
    have "map lower_char ''weekly,50MB'' = ''weekly,50mb''" by code_simp
    then show ?thesis by (simp add: TrimSpace_plain ToLower_plain word_bytes)
  qed
  show "ValidRotate env ''weekly,50MB''"
    unfolding ValidRotate_def low using size by (simp add: TrimSpace_plain word_bytes validRotate_def)
  show "ValidRotate env ''monthly''" "ValidRotate env ''daily''"
    by (simp_all add: ValidRotate_def ToLower_lower TrimSpace_plain word_bytes validRotate_def)
qed

lemma keep_default: "ValidKeep ''none''"
  by (simp add: ValidKeep_def lowered_plain word_bytes)

lemma log_file_validated:
  assumes "log_file_ok env formats d" and "lf_Format d \<noteq> ''custom''"
  shows "log_file_ok env formats (fst (validateLogFile env d formats name f))"
  using assms unfolding validateLogFile_def log_file_ok_def fst_checks fst_field
  by (intro conjI) (simp_all add: fst_reject fst_repair)

lemma logs_validated:
  assumes "decimal_floats env"
  shows "logs_ok env (fst (validateLogs env default_logs l))"
proof -
  note rotate = rotate_default [OF assms] and keep = keep_default
  have files:
    "log_file_ok env validAccessFormats (al_LogFile (log_Access default_logs))"
    "log_file_ok env validTextFormats (log_Server default_logs)" "log_file_ok env validTextFormats (log_Error default_logs)"
    "log_file_ok env validSecurityFormats (log_Security default_logs)"
    "log_file_ok env validTextFormats (dbg_LogFile (log_Debug default_logs))"
    "log_file_ok env [''json''] (aud_LogFile (log_Audit default_logs))"
    using rotate keep
    by (simp_all add: default_logs_def log_file_def log_file_ok_def validAccessFormats_def validTextFormats_def
        validSecurityFormats_def word_bytes)
  have formats: "lf_Format (al_LogFile (log_Access default_logs)) \<noteq> ''custom''" "lf_Format (log_Server default_logs) \<noteq> ''custom''"
    "lf_Format (log_Error default_logs) \<noteq> ''custom''" "lf_Format (log_Security default_logs) \<noteq> ''custom''"
    "lf_Format (dbg_LogFile (log_Debug default_logs)) \<noteq> ''custom''" "lf_Format (aud_LogFile (log_Audit default_logs)) \<noteq> ''custom''"
    and level: "log_Level default_logs \<in> set LogLevels"
    by (simp_all add: default_logs_def log_file_def LogLevels_def)
  show ?thesis
    unfolding validateLogs_def logs_ok_def fst_checks fst_field
    using files formats level by (intro conjI) (simp_all add: log_file_validated fst_reject)
qed

lemma database_validated: "database_ok (fst (validateDatabase default_database d))"
proof -
  have ty: "fst (driver_check DatabaseDrivers format (db_Type default_database) t) \<in> set DatabaseDrivers" for format t
    by (simp add: driver_check_def fst_reject default_database_def DatabaseDrivers_def)
  have defaults: "1 \<le> db_MaxOpenConns default_database" "1 \<le> db_MaxIdleConns default_database"
    "0 < db_ConnMaxLifetime default_database" "0 < db_ConnMaxIdleTime default_database"
    by (simp_all add: default_database_def)
  show ?thesis
    unfolding validateDatabase_def database_ok_def fst_checks fst_field
    using ty defaults by (intro conjI) (simp_all add: check_simps)
qed

lemma proxies_validated: "proxies_ok env (fst (validateTrustedProxies env t))"
  by (auto simp: validateTrustedProxies_def proxies_ok_def set_keep_entries proxy_entry_def Let_def split: if_splits)

section \<open>Accounts, organizations and domains\<close>

lemma domain_list: "[] \<notin> set (normalizeDomainList ds)"
  by (simp add: normalizeDomainList_def)

lemma users_validated: "users_ok (fst (validateUsers default_users u))"
proof -
  have defaults: "0 < InviteExpirationDays (cfg_Registration default_users)" "0 < SessionDuration (cfg_Auth default_users)"
    "0 < LockoutDuration (cfg_Auth default_users)" "8 \<le> PasswordMinLength (cfg_Auth default_users)"
    "0 < MaxFailedLogins (cfg_Auth default_users)" "0 \<le> MaxPerUser (cfg_Tokens default_users)"
    "0 \<le> ExpirationDays (cfg_Tokens default_users)"
    by (simp_all add: default_users_def DefaultInviteExpirationDays_def DefaultPasswordMinLength_def DefaultMaxFailedLogins_def
        DefaultMaxTokensPerUser_def DefaultTokenExpirationDays_def)
  have mode: "accepted_word AccountModes (fst (word_lowered AccountModes format (reg_Mode (cfg_Registration default_users)) v))" for format v
    by (rule word_lowered_ok [OF modes_lowercase(2)])
       (simp_all add: default_users_def DefaultRegistrationMode_def AccountModes_def word_bytes)
  have vis: "accepted_word ProfileVisibilities
      (fst (word_lowered ProfileVisibilities format (user_DefaultVisibility (cfg_Profile default_users)) v))" for format v
    by (rule word_lowered_ok [OF modes_lowercase(3)])
       (simp_all add: default_users_def Config_Values.VisibilityPublic_def ProfileVisibilities_def word_bytes)
  define r where "r = fst (registration_checks (cfg_Registration default_users) (cfg_Registration u))"
  define a where "a = fst (auth_checks (cfg_Auth default_users) (cfg_Auth u))"
  define t where "t = fst (token_checks (cfg_Tokens default_users) (cfg_Tokens u))"
  have r: "accepted_word AccountModes (reg_Mode r)" "0 < InviteExpirationDays r" "[] \<notin> set (AllowedDomains r)" "[] \<notin> set (BlockedDomains r)"
    using mode defaults(1) domain_list by (simp_all add: r_def registration_checks_def fst_reject)
  have a: "0 < SessionDuration a" "0 < LockoutDuration a" "8 \<le> PasswordMinLength a" "0 < MaxFailedLogins a" "Require2FA a \<longrightarrow> Allow2FA a"
    using defaults by (simp_all add: a_def auth_checks_def check_simps MinPasswordLength_def)
  have t: "0 \<le> MaxPerUser t" "0 \<le> ExpirationDays t"
    using defaults by (simp_all add: t_def token_checks_def fst_reject)
  show ?thesis
    unfolding validateUsers_def users_ok_def fst_checks fst_field
    using r a t vis by (simp add: r_def [symmetric] a_def [symmetric] t_def [symmetric])
qed

lemma orgs_validated: "orgs_ok en (fst (validateOrgs en default_orgs o'))"
proof -
  have mode: "accepted_word AccountModes (fst (word_lowered AccountModes format (oc_Mode (o_Creation default_orgs)) v))" for format v
    by (rule word_lowered_ok [OF modes_lowercase(2)])
       (simp_all add: default_orgs_def DefaultOrgCreationMode_def AccountModes_def word_bytes)
  have vis: "accepted_word ProfileVisibilities
      (fst (word_lowered ProfileVisibilities format (op_DefaultVisibility (o_Profile default_orgs)) v))" for format v
    by (rule word_lowered_ok [OF modes_lowercase(3)])
       (simp_all add: default_orgs_def Config_Values.VisibilityPublic_def ProfileVisibilities_def word_bytes)
  have role: "accepted_word OrgRoles (fst (word_lowered OrgRoles format (om_DefaultRole (o_Members default_orgs)) v))" for format v
    by (rule word_lowered_ok [OF modes_lowercase(4)])
       (simp_all add: default_orgs_def DefaultOrgMemberRole_def OrgRoles_def word_bytes)
  have viewer: "om_DefaultRole (o_Members default_orgs) = ''viewer''" "accepted_word OrgRoles ''viewer''"
    "0 \<le> oc_MaxPerUser (o_Creation default_orgs)"
    by (simp_all add: default_orgs_def DefaultOrgMemberRole_def accepted_word_def OrgRoles_def)
  show ?thesis
    unfolding validateOrgs_def orgs_ok_def fst_checks fst_field
    using mode vis role viewer by (intro conjI) (simp_all add: fst_reject)
qed

lemma domains_validated: "domains_ok env en (fst (validateCustomDomains env en default_custom_domains d))"
proof -
  have keep: "\<forall>p \<in> set (fst (keep_entries (blocked_pattern env) ps)). regexp_Compile env p" for ps
    by (auto simp: set_keep_entries blocked_pattern_def Let_def split: if_splits)
  have defaults: "0 \<le> cd_MaxDomainsPerUser default_custom_domains" "0 \<le> cd_MaxDomainsPerOrg default_custom_domains"
    "0 < cd_VerificationTTL default_custom_domains" "0 < cd_SSLRenewalDays default_custom_domains"
    by (simp_all add: default_custom_domains_def)
  show ?thesis
    unfolding validateCustomDomains_def domains_ok_def fst_checks fst_field
    using keep defaults domain_list by (intro conjI) (simp_all add: check_simps)
qed


section \<open>Notifications, tasks and the rest\<close>

lemma notifications_validated: "notifications_ok (fst (validateNotifications default_notifications n))"
proof -
  have defaults: "ToLower (wu_Position (n_WebUI default_notifications)) \<in> set validPositions"
    "0 \<le> wu_Duration (n_WebUI default_notifications)" "port_ok (smtp_Port (ne_SMTP (n_Email default_notifications)))"
    "ToLower (smtp_TLS (ne_SMTP (n_Email default_notifications))) \<in> set SMTPTLSModes"
    by (simp_all add: default_notifications_def DefaultNotificationPosition_def validPositions_def port_ok_def DefaultSMTPPort_def
        SMTPTLSModes_def ToLower_lower word_bytes)
  show ?thesis
    unfolding validateNotifications_def notifications_ok_def fst_checks fst_field
    using defaults by (intro conjI) (simp_all add: fst_reject port_ok_def)
qed

lemma retention_validated: "retention_ok d d \<Longrightarrow> retention_ok d (fst (validateBackupRetention d name r))"
  by (auto simp: validateBackupRetention_def ceiling_check_def retention_ok_def)

lemma validate_task_ok: "task_ok d d \<Longrightarrow> task_ok d (fst (validate_task name d found))"
  by (auto simp: validate_task_def task_ok_def retention_validated split: option.split)

lemma validate_task_taken_over: "task_taken_over u (fst (validate_task name d (Some u)))"
  by (simp add: validate_task_def task_taken_over_def)

lemma fst_validate_tasks:
  "fst (validate_tasks ((name, d) # rest) m) = fst (validate_tasks rest (m(name \<mapsto> fst (validate_task name d (m name)))))"
  by (simp add: Let_def split: prod.split)

lemma validate_tasks_other: "name \<notin> set (map fst defs) \<Longrightarrow> fst (validate_tasks defs m) name = m name"
  by (induction defs arbitrary: m) (auto simp: fst_validate_tasks simp del: validate_tasks.simps(2))

lemma validate_tasks_at:
  assumes "(name, d) \<in> set defs" and "distinct (map fst defs)"
  shows "fst (validate_tasks defs m) name = Some (fst (validate_task name d (m name)))"
  using assms
proof (induction defs arbitrary: m)
  case (Cons a rest)
  obtain n d' where a: "a = (n, d')" by (cases a)
  show ?case
  proof (cases "name = n")
    case True
    with Cons.prems a have "d' = d" "n \<notin> set (map fst rest)" by (auto simp: rev_image_eqI)
    with True a show ?thesis by (simp add: fst_validate_tasks validate_tasks_other del: validate_tasks.simps(2))
  next
    case False
    with Cons a show ?thesis by (simp add: fst_validate_tasks del: validate_tasks.simps(2))
  qed
qed simp

lemma default_tasks_ok: "(name, d) \<in> set defaultSchedulerTasks \<Longrightarrow> task_ok d d" "distinct (map fst defaultSchedulerTasks)"
  by (auto simp: defaultSchedulerTasks_def task_ok_def retention_ok_def plain_task_def no_retention_def)

lemma configured_validated:
  "configured_task (fst (validateScheduler env default_scheduler s)) =
     (case sch_Tasks s of None \<Rightarrow> map_of defaultSchedulerTasks | Some m \<Rightarrow> fst (validate_tasks defaultSchedulerTasks m))"
  by (auto simp: configured_task_def validateScheduler_def fun_eq_iff split: option.split prod.split)

lemma default_tasks_configured:
  assumes "(name, d) \<in> set defaultSchedulerTasks"
  shows "\<exists>t. configured_task (fst (validateScheduler env default_scheduler s)) name = Some t \<and> task_ok d t"
  using assms default_tasks_ok(1) [OF assms] map_of_is_SomeI [OF default_tasks_ok(2) assms]
    validate_tasks_at [OF assms default_tasks_ok(2)] validate_task_ok [of d name]
  by (cases "sch_Tasks s") (simp_all add: configured_validated)

lemma configured_taken_over:
  assumes "configured_task s name = Some u"
  shows "\<exists>t. configured_task (fst (validateScheduler env default_scheduler s)) name = Some t \<and> task_taken_over u t"
proof -
  obtain m where m: "sch_Tasks s = Some m" "m name = Some u" using assms by (auto simp: configured_task_def split: option.splits)
  show ?thesis
  proof (cases "name \<in> set (map fst defaultSchedulerTasks)")
    case True
    then obtain d where "(name, d) \<in> set defaultSchedulerTasks" by auto
    from validate_tasks_at [OF this default_tasks_ok(2)] m show ?thesis
      using validate_task_taken_over by (simp add: configured_validated)
  next
    case False
    then show ?thesis using m by (simp add: configured_validated validate_tasks_other task_taken_over_def)
  qed
qed

lemma scheduler_validated: "scheduler_ok env (fst (validateScheduler env default_scheduler s))"
proof -
  have tasks: "list_all (\<lambda>(name, d). case configured_task (fst (validateScheduler env default_scheduler s)) name of
      None \<Rightarrow> False | Some t \<Rightarrow> task_ok d t) defaultSchedulerTasks"
    unfolding list_all_iff
  proof (safe)
    fix name d
    assume "(name, d) \<in> set defaultSchedulerTasks"
    from default_tasks_configured [OF this, of env s]
    show "case configured_task (fst (validateScheduler env default_scheduler s)) name of None \<Rightarrow> False | Some t \<Rightarrow> task_ok d t"
      by auto
  qed
  have defaults: "sch_Timezone default_scheduler = DefaultSchedulerTimezone" "0 \<le> sch_CatchUpWindow default_scheduler"
    by (simp_all add: default_scheduler_def second_def)
  have "LoadLocation env (sch_Timezone s') \<or> sch_Timezone s' = DefaultSchedulerTimezone" "0 \<le> sch_CatchUpWindow s'"
    if "s' = fst (validateScheduler env default_scheduler s)" for s'
    using defaults that by (simp_all add: validateScheduler_def fst_reject)
  with tasks show ?thesis by (simp add: scheduler_ok_def)
qed

lemma upper_char_not_lower: "\<not> is_lower (upper_char c)"
  by (auto simp: upper_char_def is_lower_def byte_chr)

lemma ToUpper_not_lower: "x \<in> set (ToUpper s) \<Longrightarrow> \<not> is_lower x"
proof (induction s rule: ToUpper.induct)
  case (3 a b s)
  have "\<not> is_lower (CHR ''I'')" "\<not> is_lower (CHR ''S'')" by (simp_all add: is_lower_def byte_def)
  with 3 show ?case by (auto simp: upper_char_not_lower split: if_splits)
qed (auto simp: upper_char_not_lower)

lemma country_loop_ok:
  "list_all country_ok (fst (country_loop name seen list)) \<and> distinct (fst (country_loop name seen list))
   \<and> set (fst (country_loop name seen list)) \<inter> set seen = {}"
proof (induction name seen list rule: country_loop.induct)
  case (2 name seen raw rest)
  define code where "code = ToUpper (TrimSpace raw)"
  have country: "country_ok code" if "length code = 2" "isAlphaOnly code"
    using that ToUpper_not_lower [of _ "TrimSpace raw"] by (auto simp: country_ok_def isAlphaOnly_def code_def list_all_iff)
  consider "length code \<noteq> 2 \<or> \<not> isAlphaOnly code" | "length code = 2" "isAlphaOnly code" "code \<in> set seen"
    | "length code = 2" "isAlphaOnly code" "code \<notin> set seen" by blast
  then show ?case
  proof cases
    case 1
    with "2.IH"(1) show ?thesis by (auto simp: code_def Let_def split: prod.splits)
  next
    case 2
    with "2.IH"(2) show ?thesis by (auto simp: code_def Let_def)
  next
    case 3
    with "2.IH"(3) country show ?thesis by (auto simp: code_def Let_def split: prod.splits)
  qed
qed simp

lemma geoip_validated: "geoip_ok (fst (validateGeoIP g))"
  unfolding validateGeoIP_def geoip_ok_def fst_checks fst_field
  by (simp add: normalizeCountryList_def country_loop_ok)

lemma metrics_validated: "metrics_ok (fst (validateMetrics default_metrics m))"
  unfolding validateMetrics_def metrics_ok_def fst_checks fst_field
  by (intro conjI) (simp_all add: default_metrics_def DefaultMetricsDurationBuckets_def DefaultMetricsSizeBuckets_def)

lemma backup_validated: "backup_ok (fst (validateBackup default_backup b))"
  unfolding validateBackup_def backup_ok_def fst_checks fst_field
  by (intro conjI) (simp_all add: fst_repair default_backup_def DefaultBackupDiskThreshold_def)

lemma update_validated: "update_ok (fst (validateUpdate default_update u))"
  unfolding validateUpdate_def update_ok_def fst_checks fst_field
  by (intro conjI) (simp_all add: fst_reject default_update_def DefaultUpdateBranch_def ToLower_lower word_bytes)

section \<open>Overlay networks\<close>

lemma i2p_validated: "i2p_ok (fst (validateI2P env DefaultI2PConfig i))"
proof -
  have "SplitHostPort ''127.0.0.1:7656'' \<noteq> None" by code_simp
  then obtain host where sam: "SplitHostPort ''127.0.0.1:7656'' = Some host" by blast
  have range: "in_range lo hi (fst (clampInt d lo hi name v))" if "lo \<le> d" "d \<le> hi" for lo hi d name v
    using fst_clampInt [OF that] by (simp add: in_range_def)
  have port: "port_ok (fst (clampInt d 1 65535 name v))" if "1 \<le> d" "d \<le> 65535" for d name v
    using fst_clampInt [OF that] by (simp add: port_ok_def)
  show ?thesis
    unfolding validateI2P_def i2p_ok_def fst_checks fst_field
    by (intro conjI) (simp_all add: fst_reject sam range port DefaultI2PConfig_def)
qed

lemma atoi_digits_bound: "list_all is_digit s \<Longrightarrow> atoi_digits s < 10 ^ length s"
proof (induction s rule: rev_induct)
  case (snoc c s)
  then have "digit_val c < 10" unfolding digit_val_def by (simp add: is_digit_def) linarith
  with snoc show ?case by (simp add: atoi_digits_def)
qed (simp add: atoi_digits_def)

lemma ParseByteSize_MB:
  assumes "decimal_floats env" and "TrimSpace s = s" and "ToUpper s = ds @ '' MB''" and "TrimSpace (ds @ '' '') = ds"
    and "ds \<noteq> []" and "list_all is_digit ds" and "length ds < 4"
  shows "ParseByteSize env s = Some (int (atoi_digits ds) * 2 ^ 20)"
proof -
  have "atoi_digits ds < 10 ^ length ds" using assms(6) by (rule atoi_digits_bound)
  also have "\<dots> \<le> 10 ^ 3" using assms(7) by (intro power_increasing) auto
  finally have small: "atoi_digits ds < 1000" by simp
  then have float: "ParseFloat env ds = Some (FFin (of_nat (atoi_digits ds)))"
    using assms(1,5,6,7) by (simp add: decimal_floats_def)
  have "f64 (of_nat (atoi_digits ds * 1048576)) = of_nat (atoi_digits ds * 1048576)"
    using small by (intro f64_nat) simp
  then have round: "round64 (of_nat (atoi_digits ds) * 1048576) = of_int (int (atoi_digits ds) * 1048576)"
    by (simp add: round64_def)
  have whole: "\<lfloor>rat_of_nat (atoi_digits ds) * 1048576\<rfloor> = int (atoi_digits ds) * 1048576"
    using floor_of_int [of "int (atoi_digits ds) * 1048576", where 'a = rat] by simp
  have suf: "HasSuffix (ds @ '' MB'') ''TB'' = False" "HasSuffix (ds @ '' MB'') ''GB'' = False" "HasSuffix (ds @ '' MB'') ''MB'' = True"
    by (simp_all add: HasSuffix_def suffix_to_prefix)
  have "TrimSuffix (ds @ '' MB'') ''MB'' = ds @ '' ''" using suf(3) by (simp add: TrimSuffix_def)
  then show ?thesis using assms(2-5) float small round suf whole
    by (cases "s = []") (simp_all add: ParseByteSize_def byteUnits_def float_negative_def float_times_def to_int64_def trunc64_def)
qed

lemma tor_validated:
  assumes "decimal_floats env"
  shows "tor_ok env (fst (validateTor env DefaultTorConfig t))"
proof -
  have range: "in_range lo hi (fst (clampInt d lo hi name v))" if "lo \<le> d" "d \<le> hi" for lo hi d name v
    using fst_clampInt [OF that] by (simp add: in_range_def)
  have port: "port_ok (fst (clampInt d 1 65535 name v))" if "1 \<le> d" "d \<le> 65535" for d name v
    using fst_clampInt [OF that] by (simp add: port_ok_def)
  have band: "rx_match pattern (fst (normalizeBandwidth d pattern name v))" if "rx_match pattern d" for pattern d name v
    using that by (simp add: normalizeBandwidth_def Let_def)
  have rx: "rx_match bandwidthRatePattern ''1 MB''" "rx_match bandwidthRatePattern ''2 MB''"
    "rx_match monthlyBandwidthPattern ''100 GB''" by code_simp+
  define u where "u = fst (tor_limits DefaultTorConfig t)"
  have u: "in_range 1 128 (tor_MaxCircuits u)" "in_range 10 300 (tor_CircuitTimeout u)" "in_range 30 600 (tor_BootstrapTimeout u)"
     "in_range 10 500 (tor_MaxStreamsPerCircuit u)" "in_range 3 10 (tor_NumIntroPoints u)" "port_ok (tor_VirtualPort u)"
     "rx_match bandwidthRatePattern (tor_BandwidthRate u)" "rx_match bandwidthRatePattern (tor_BandwidthBurst u)"
     "rx_match monthlyBandwidthPattern (tor_MaxMonthlyBandwidth u)"
    unfolding u_def tor_limits_def fst_checks fst_field
    by (simp_all add: range port band rx DefaultTorConfig_def del: rx_match.simps)
  have "TrimSpace ''1 MB'' = ''1 MB''" "ToUpper ''1 MB'' = ''1'' @ '' MB''" "list_all is_digit ''1''" "length ''1'' < 4"
    by (simp_all add: TrimSpace_ends upper_char_def word_bytes)
  moreover have "TrimSpace (''1'' @ '' '') = ''1''" by (rule TrimSpace_trailing) (simp_all add: word_bytes)
  ultimately have one: "ParseByteSize env ''1 MB'' = Some (int (atoi_digits ''1'') * 2 ^ 20)"
    using ParseByteSize_MB [OF assms, of "''1 MB''" "''1''"] by blast
  have "TrimSpace ''2 MB'' = ''2 MB''" "ToUpper ''2 MB'' = ''2'' @ '' MB''" "list_all is_digit ''2''" "length ''2'' < 4"
    by (simp_all add: TrimSpace_ends upper_char_def word_bytes)
  moreover have "TrimSpace (''2'' @ '' '') = ''2''" by (rule TrimSpace_trailing) (simp_all add: word_bytes)
  ultimately have two: "ParseByteSize env ''2 MB'' = Some (int (atoi_digits ''2'') * 2 ^ 20)"
    using ParseByteSize_MB [OF assms, of "''2 MB''" "''2''"] by blast
  moreover have "atoi_digits ''1'' = 1" "atoi_digits ''2'' = 2" by code_simp+
  ultimately have "\<not> burst_below_rate env (u\<lparr>tor_BandwidthRate := ''1 MB'', tor_BandwidthBurst := ''2 MB''\<rparr>)"
    using one two by (simp add: burst_below_rate_def)
  then show ?thesis
    unfolding validateTor_def tor_ok_def fst_checks u_def [symmetric]
    using u rx by (auto simp: fst_repair DefaultTorConfig_def simp del: rx_match.simps)
qed

end
