(* ===== verification/Config_Valid.thy ===== *)
theory Config_Valid
  imports Config_Sound
begin

text \<open>
  The document after \<open>Validate\<close>, the settings that validation takes over unchecked, and the restarts of a
  server on the document it wrote, with a disk and a codec that may fail.
\<close>

section \<open>The whole document\<close>

text \<open>A section is settled by its own check, and no later check touches it.\<close>

lemma checks_keep: "P s \<Longrightarrow> (\<And>g s. g \<in> set fs \<Longrightarrow> P s \<Longrightarrow> P (fst (g s))) \<Longrightarrow> P (fst (checks fs s))"
  by (induction fs arbitrary: s) simp_all

lemma settled:
  assumes "\<And>s. P (fst ((fs ! n) s))" and "n < length fs" and "\<forall>g \<in> set (drop (Suc n) fs). \<forall>s. P s \<longrightarrow> P (fst (g s))"
  shows "P (fst (checks fs s))"
  using assms
proof (induction fs arbitrary: n s)
  case (Cons f fs)
  show ?case
  proof (cases n)
    case 0
    with Cons.prems have "P (fst (f s))" "\<And>g s. g \<in> set fs \<Longrightarrow> P s \<Longrightarrow> P (fst (g s))" by auto
    then show ?thesis by (simp add: checks_keep)
  next
    case (Suc m)
    with Cons.prems Cons.IH [of m "fst (f s)"] show ?thesis by simp
  qed
qed simp

lemma Validate_document:
  "cfg_Server (snd (Validate env c)) =
     (let s = fst (checks (server_checks env DefaultServer) (cfg_Server c))
      in s\<lparr>srv_I2P := fst (validateI2P env (srv_I2P DefaultServer) (srv_I2P s))\<rparr>)"
  "cfg_Tor (snd (Validate env c)) = fst (validateTor env DefaultTorConfig (cfg_Tor c))"
  by (simp_all add: Validate_def Let_def case_prod_beta)

lemma DefaultServer_sections [simp]:
  "srv_SSL DefaultServer = default_ssl" "srv_Web DefaultServer = default_web" "srv_Limits DefaultServer = default_limits"
  "srv_Compression DefaultServer = default_compression" "srv_Session DefaultServer = default_session"
  "srv_RateLimit DefaultServer = default_rate_limit" "srv_I18n DefaultServer = default_i18n"
  "srv_Cache DefaultServer = default_cache" "srv_Logs DefaultServer = default_logs" "srv_Database DefaultServer = default_database"
  "srv_Users DefaultServer = default_users" "srv_Orgs DefaultServer = default_orgs"
  "srv_Features DefaultServer = \<lparr>f_CustomDomains = default_custom_domains\<rparr>"
  "srv_Notifications DefaultServer = default_notifications" "srv_Scheduler DefaultServer = default_scheduler"
  "srv_GeoIP DefaultServer = default_geoip" "srv_I2P DefaultServer = DefaultI2PConfig" "srv_Metrics DefaultServer = default_metrics"
  "srv_Backup DefaultServer = default_backup" "srv_Update DefaultServer = default_update"
  by (simp_all add: DefaultServer_def)

lemmas section_checks = server_checks_def limits_validated compression_validated session_validated rate_limit_validated
  i18n_validated cache_validated database_validated proxies_validated ssl_validated web_validated
  users_validated orgs_validated domains_validated notifications_validated scheduler_validated geoip_validated
  metrics_validated backup_validated update_validated

lemma server_validated:
  fixes s :: Server
  assumes "decimal_floats env" and "ports_in_range env"
  defines "s' \<equiv> fst (checks (server_checks env DefaultServer) s)"
  shows "listen_ok env s'" "limits_ok (srv_Limits s')" "compression_ok (srv_Compression s')" "session_ok (srv_Session s')"
    "rate_limit_ok (srv_RateLimit s')" "i18n_ok (srv_I18n s')" "cache_ok (srv_Cache s')" "logs_ok env (srv_Logs s')"
    "database_ok (srv_Database s')" "proxies_ok env (srv_TrustedProxies s')" "ssl_ok (Port s') (srv_SSL s')" "web_ok (srv_Web s')"
    "users_ok (srv_Users s')" "orgs_ok (users_Enabled (srv_Users s')) (srv_Orgs s')"
    "domains_ok env (o_Enabled (srv_Orgs s')) (f_CustomDomains (srv_Features s'))"
    "notifications_ok (srv_Notifications s')" "scheduler_ok env (srv_Scheduler s')" "geoip_ok (srv_GeoIP s')"
    "metrics_ok (srv_Metrics s')" "backup_ok (srv_Backup s')" "update_ok (srv_Update s')"
  unfolding s'_def
  subgoal by (rule settled [where P = "listen_ok env" and n = 0])
    (simp_all add: section_checks listen_validated [OF assms(2)], simp_all add: listen_ok_def)
  subgoal by (rule settled [where P = "\<lambda>s. limits_ok (srv_Limits s)" and n = 1]) (simp_all add: section_checks)
  subgoal by (rule settled [where P = "\<lambda>s. compression_ok (srv_Compression s)" and n = 2]) (simp_all add: section_checks)
  subgoal by (rule settled [where P = "\<lambda>s. session_ok (srv_Session s)" and n = 3]) (simp_all add: section_checks)
  subgoal by (rule settled [where P = "\<lambda>s. rate_limit_ok (srv_RateLimit s)" and n = 4]) (simp_all add: section_checks)
  subgoal by (rule settled [where P = "\<lambda>s. i18n_ok (srv_I18n s)" and n = 5]) (simp_all add: section_checks)
  subgoal by (rule settled [where P = "\<lambda>s. cache_ok (srv_Cache s)" and n = 6]) (simp_all add: section_checks)
  subgoal by (rule settled [where P = "\<lambda>s. logs_ok env (srv_Logs s)" and n = 7]) (simp_all add: section_checks logs_validated [OF assms(1)])
  subgoal by (rule settled [where P = "\<lambda>s. database_ok (srv_Database s)" and n = 8]) (simp_all add: section_checks)
  subgoal by (rule settled [where P = "\<lambda>s. proxies_ok env (srv_TrustedProxies s)" and n = 9]) (simp_all add: section_checks)
  subgoal by (rule settled [where P = "\<lambda>s. ssl_ok (Port s) (srv_SSL s)" and n = 10]) (simp_all add: section_checks)
  subgoal by (rule settled [where P = "\<lambda>s. web_ok (srv_Web s)" and n = 11]) (simp_all add: section_checks)
  subgoal by (rule settled [where P = "\<lambda>s. users_ok (srv_Users s)" and n = 12]) (simp_all add: section_checks)
  subgoal by (rule settled [where P = "\<lambda>s. orgs_ok (users_Enabled (srv_Users s)) (srv_Orgs s)" and n = 13]) (simp_all add: section_checks)
  subgoal by (rule settled [where P = "\<lambda>s. domains_ok env (o_Enabled (srv_Orgs s)) (f_CustomDomains (srv_Features s))" and n = 14]) (simp_all add: section_checks)
  subgoal by (rule settled [where P = "\<lambda>s. notifications_ok (srv_Notifications s)" and n = 15]) (simp_all add: section_checks)
  subgoal by (rule settled [where P = "\<lambda>s. scheduler_ok env (srv_Scheduler s)" and n = 16]) (simp_all add: section_checks)
  subgoal by (rule settled [where P = "\<lambda>s. geoip_ok (srv_GeoIP s)" and n = 17]) (simp_all add: section_checks)
  subgoal by (rule settled [where P = "\<lambda>s. metrics_ok (srv_Metrics s)" and n = 18]) (simp_all add: section_checks)
  subgoal by (rule settled [where P = "\<lambda>s. backup_ok (srv_Backup s)" and n = 19]) (simp_all add: section_checks)
  subgoal by (rule settled [where P = "\<lambda>s. update_ok (srv_Update s)" and n = 20]) (simp_all add: section_checks)
  done

text \<open>The tasks of the file are taken over by every other check.\<close>

lemma tasks_taken_over:
  assumes "configured_task (srv_Scheduler (cfg_Server c)) name = Some u"
  shows "\<exists>t. configured_task (srv_Scheduler (cfg_Server (snd (Validate env c)))) name = Some t \<and> task_taken_over u t"
proof -
  let ?P = "\<lambda>s. \<exists>t. configured_task (srv_Scheduler s) name = Some t \<and> task_taken_over u t"
  have settle: "?P (s\<lparr>srv_Scheduler := fst (validateScheduler env default_scheduler (srv_Scheduler s))\<rparr>)" if "?P s" for s :: Server
    using that configured_taken_over by (fastforce simp: task_taken_over_def)
  have "?P (fst (checks (server_checks env DefaultServer) (cfg_Server c)))"
  proof (rule checks_keep)
    show "?P (cfg_Server c)" using assms by (simp add: task_taken_over_def)
    fix g and s :: Server
    assume "g \<in> set (server_checks env DefaultServer)" "?P s"
    then show "?P (fst (g s))" using settle [of s]
      by (auto simp: server_checks_def validateServer_def)
  qed
  then show ?thesis by (simp add: Validate_document Let_def)
qed

text \<open>
  C36: Whatever the file says, the document the server runs on has what \<open>Validate\<close> is there to repair in range. After \<open>Validate\<close>, which never fails,
  every port is a port, the limits and durations of requests, sessions, rates, storage, accounts, domains and overlay networks are
  positive or not negative as the program needs them, the smaller of two related limits is the smaller, the words are from their
  lists (or, the long s aside, lower cased), an overlay network, a certificate or a file of the logs has the shape its
  reader expects, second factors are allowed where they are required, organizations are on only with accounts, custom domains only
  with organizations, and every task of the scheduler is there with a schedule and with limits of its backups. What it does not look at is
  taken over: the syntax of a schedule and the delay of a retry of every task are the configured ones, in range or not.\<close>

theorem Validate_sound:
  assumes "decimal_floats env" and "ports_in_range env"
  shows "config_ok env (snd (Validate env c))
    \<and> (configured_task (srv_Scheduler (cfg_Server c)) name = Some u \<longrightarrow>
        (\<exists>t. configured_task (srv_Scheduler (cfg_Server (snd (Validate env c)))) name = Some t \<and> task_taken_over u t))"
proof
  have port: "Port (s\<lparr>srv_I2P := i\<rparr>) = Port s" for s :: Server and i by simp
  show "config_ok env (snd (Validate env c))"
    using server_validated [OF assms, of "cfg_Server c"] tor_validated [OF assms(1)] i2p_validated
    unfolding config_ok_def server_ok_def Validate_document Let_def
    by (simp add: listen_ok_def)
qed (use tasks_taken_over in blast)

lemma plain_env_ports: "ports_in_range plain_env"
  by (simp add: ports_in_range_def plain_env_def)

definition odd_task :: SchedulerTask where
  "odd_task = (plain_task ''whenever'')\<lparr>task_RetryDelay := - 1\<rparr>"

definition odd_config :: Config where
  "odd_config = DefaultConfig\<lparr>cfg_Server := DefaultServer\<lparr>srv_Scheduler := default_scheduler\<lparr>sch_Tasks := Some [''ssl_renewal'' \<mapsto> odd_task]\<rparr>\<rparr>\<rparr>"

theorem Validate_sound_witness:
  "config_ok plain_env (snd (Validate plain_env odd_config))
   \<and> (\<exists>t. configured_task (srv_Scheduler (cfg_Server (snd (Validate plain_env odd_config)))) ''ssl_renewal'' = Some t
        \<and> task_Schedule t = ''whenever'' \<and> task_RetryDelay t = - 1)"
proof -
  have "configured_task (srv_Scheduler (cfg_Server odd_config)) ''ssl_renewal'' = Some odd_task"
    by (simp add: odd_config_def configured_task_def)
  with Validate_sound [OF plain_env_floats plain_env_ports, of odd_config "''ssl_renewal''" odd_task] show ?thesis
    by (auto simp: task_taken_over_def odd_task_def plain_task_def)
qed

section \<open>Restarts\<close>












end
