(* ===== verification/Spec2Isabelle.thy ===== *)
theory Spec2Isabelle
  imports Domain_Claims Scheduler_Cluster Cache_Laws Rate_Windows Backup_Sweep Http_Identity Http_Payloads Org_Tokens Config_Valid
begin

text \<open>
  redxt is a DNS service for many tenants. This development models the parts of it that decide who may
  do what and what happens once: accounts, organizations, credentials and tokens, claims of domains, the
  scheduler of a cluster with its locks, the cache and the rate limiter; the chain of middleware and the REST
  surface that stand between a request and the service; the settings and their validation; the retention of
  backups. All paths are under \<^verbatim>\<open>src/src\<close>.

  \<^bold>\<open>How the code is modelled.\<close> Pure functions are HOL functions on \<open>string\<close> (bytes). A function that
  reaches the database is an action (\<open>Effects\<close>): from the world (the tables, a count of statements, a count
  of random reads) to an error or a result and the world after it. A database file is a record of tables,
  a table the list of its rows, a statement one change of the record with the constraints of the schema. The
  environment \<open>env\<close> gives every statement its own fault, every read of the clock and of the random
  source its own answer, and holds what is outside the repository: the hash and cipher algorithms, JSON,
  the resolver, the ACME client. Theorems quantify over it, so they hold under any failure of any
  statement. Where a theorem needs a law of such a function, the law is a hypothesis with a witness.

  \<^bold>\<open>The theories, bottom up.\<close>

    \<^item> \<open>Prelude\<close>: tables as lists of rows, collections of hints. \<open>Go_Strings\<close>, \<open>Go_Regex\<close>, \<open>Go_Encoding\<close>,
      \<open>Go_Time\<close>, \<open>Go_Time_Text\<close>, \<open>Go_Float\<close>, \<open>Go_Duration\<close>: what the code uses of Go's standard library. Times are
      nanoseconds from the epoch, unbounded; a \<open>float64\<close> is the rational it stands for.
    \<^item> \<open>Errors\<close>, \<open>User_Names\<close>, \<open>Roles\<close> (\<^verbatim>\<open>user/\<close>), \<open>Tokens\<close>, \<open>Passwords\<close>, \<open>Encryption\<close>, \<open>Totp\<close> (\<^verbatim>\<open>security/\<close>): the
      values the service works with. \<open>Primitives\<close> proves what they mean.
    \<^item> \<open>Models\<close> (\<^verbatim>\<open>server/model/\<close>), \<open>Users_DB\<close> (the schema of users.db), \<open>Store_Users\<close> and \<open>Store_Orgs\<close>
      (\<^verbatim>\<open>server/store/\<close>): the rows and the statements. \<open>Store_Contract\<close> states what a change of a table
      leaves of the others.
    \<^item> \<open>Service_Base\<close>, \<open>Service_Orgs\<close>, \<open>Service_Tokens\<close>, \<open>Service_Account\<close>, \<open>Service_Auth\<close>, \<open>Service_Domains\<close>,
      \<open>Service_Profile\<close> (\<^verbatim>\<open>server/service/\<close>): one definition per operation, in the order of its files.
    \<^item> \<open>Integrity\<close> and \<open>Reachability\<close>: the invariant of the database, kept by every operation, and the
      requests a server can get. \<open>Fixtures\<close>: a small database and environment for the witnesses.
    \<^item> \<open>Org_Access\<close>, \<open>Org_Changes\<close>, \<open>Sign_In\<close>, \<open>Logins\<close>, \<open>Credentials\<close>, \<open>Token_Access\<close>, \<open>Domain_Claims\<close>: the
      properties of the service, by what they protect.
    \<^item> \<open>Cron\<close> and \<open>Scheduler\<close> (\<^verbatim>\<open>scheduler/\<close>), \<open>Leases\<close> (the interface of a lock that expires, and that it
      excludes), \<open>Scheduler_Cluster\<close> (nodes that share the lock table, as a step relation, each in its zone).
    \<^item> \<open>Cache\<close> and \<open>Cache_Laws\<close> (\<^verbatim>\<open>cache/\<close>): the memory driver, its keys and its lock; it refines a map with
      lifetimes and gives the interface of \<open>Leases\<close> once more.
    \<^item> \<open>Rate_Limit\<close> and \<open>Rate_Windows\<close> (\<^verbatim>\<open>server/middleware/ratelimit.go\<close>, \<^verbatim>\<open>ratelimitsql.go\<close>): the two stores of
      the rate limiter against a reference that never forgets a request.

    \<^item> \<open>Backup_Files\<close> and \<open>Backup_Sweep\<close> (\<^verbatim>\<open>backup/filename.go\<close>, \<^verbatim>\<open>retention.go\<close>): the names of backups, their
      tiers, and what a sweep deletes.
    \<^item> \<open>Go_Path\<close>, \<open>Http_Request\<close>, \<open>Http_Stages\<close>, \<open>Http_Chain\<close> (\<^verbatim>\<open>server/middleware/\<close>): a request, each stage that decides
      about it, and their composition. \<open>Http_Paths\<close> (paths), \<open>Http_Guards\<close> (forgery, origins, rate
      limits) and \<open>Http_Router\<close> (the whole chain) hold the properties.
    \<^item> \<open>Http_Identity\<close> (\<^verbatim>\<open>apierror/\<close>, \<^verbatim>\<open>server/handler/verifier.go\<close>, the guards of \<^verbatim>\<open>handler.go\<close> and \<^verbatim>\<open>api.go\<close>): error
      envelopes, the verifier and who a request speaks for.
    \<^item> \<open>Http_Api\<close>, \<open>Http_Accounts\<close>, \<open>Http_Orgs\<close>, \<open>Http_Docs\<close> (\<^verbatim>\<open>server/handler/\<close>): decoding, cookies and replies, one
      definition per handler of the REST surface, the table of routes with its documents, and the choice of the route.
      A reply is an action on the world of the service that returns an envelope or a JSON value. \<open>Http_Api_Laws\<close>
      lifts the contract of the store to every route; \<open>Http_Api_Guards\<close> and \<open>Http_Payloads\<close> have the properties
      of the surface and \<open>Org_Tokens\<close> one of its listings.
    \<^item> \<open>Config_Values\<close>, \<open>Config_Types\<close>, \<open>Config_Defaults\<close>, \<open>Config_Validate\<close> (\<^verbatim>\<open>config/\<close>): durations, sizes and paths as
      the file has them, the document, its defaults, its validation and loading. \<open>Config_Sizes\<close> is about the values;
      \<open>Config_Ok\<close> says what a sound document is, \<open>Config_Laws\<close> and \<open>Config_Sound\<close> that each section ends up as one, and
      \<open>Config_Valid\<close> that the whole does.

  \<^bold>\<open>Bounds and fuel.\<close> Every loop of the code is a total function here. \<open>RandomString\<close> rejects bytes and so
  may read for ever: it has the fuel \<open>rand_fuel\<close> of the environment, and \<open>GenerateToken_parses\<close> shows that
  it returns with fuel for a source that gives enough good bytes. The search of \<open>Next\<close> ends at
  \<open>maxLookahead\<close>, as in the code. Integers of the code are unbounded here except where it multiplies
  durations (\<open>int64\<close>) and where the wrap-around is what a function is about.

  \<^bold>\<open>Not modelled.\<close> The web pages and their templates, the command line, the rendering of GraphQL and
  Swagger: they call what is modelled and render. The YAML and JSON codecs, the parser of a form and of a Referer are
  parameters. Opening databases and drivers, archives and files, mail, processes, TLS and Tor: input and
  output. Contexts and their deadlines are among the faults of a statement. The times the store and
  the rate limiter compare are written in one layout in UTC and are instants here; the lock of the scheduler binds local
  times, and there the texts are compared (\<open>Go_Time_Text\<close>, \<open>Scheduler_Cluster\<close>). A request of the service is one
  step: the statements of two requests are not interleaved.
\<close>

text \<open>
  C1: Whatever requests the service gets, under whatever clocks, database faults, random bytes and
  resolver answers, a database that starts empty keeps its keys unique, its references pointing to
  rows and its rows within the rules of their life cycle.
\<close>

theorem reachable_integrity:
  "reachable d \<Longrightarrow> db_integrity d"
  by (rule reachable_integrity_lemma)

theorem reachable_integrity_witness:
  "\<exists>u w'. Register demo_env demo_registration \<lparr>wdb = empty_db, wtick = 0, wrand = 0\<rparr> = (Inr u, w')
     \<and> db_integrity (wdb w')"
proof -
  obtain u w' where run:
    "Register demo_env demo_registration \<lparr>wdb = empty_db, wtick = 0, wrand = 0\<rparr> = (Inr u, w')"
    using demo_register_runs [of empty_db] by auto
  then have "serve demo_env (ReqRegister demo_registration) \<lparr>wdb = empty_db, wtick = 0, wrand = 0\<rparr> =
      (Inr (), w')" by (simp add: drop_result_def call_def try_call_def ok_def)
  then have "service_step empty_db (wdb w')" by (rule service_step.request)
  then have "reachable (wdb w')" by (rule r_into_rtranclp)
  with run show ?thesis using reachable_integrity [of "wdb w'"] by blast
qed

end
